(* ===== verification/Prelude.thy ===== *)
theory Prelude
  imports Main "HOL-Library.Multiset" "HOL-Library.AList" "HOL-Library.List_Lexorder" "HOL-Library.Char_ord"
begin

section \<open>Shared vocabulary of the model\<close>

text \<open>
  Errors as values, ordered validation, the ordered \<open>dict\<close> idioms of the sources
  (\<open>dict.fromkeys\<close>, build-update-sort), UTC timestamps in microseconds and the content-derived
  identities of \<open>axq/versioning.py\<close>. Every other theory imports this one.
\<close>

named_theorems res_simps \<open>rewriting of results and validation\<close>
named_theorems contract_simps \<open>unfolding of contract constructors\<close>

subsection \<open>Exceptions as values\<close>

text \<open>
  A Python exception is a value. \<open>ValueError\<close> carries the message of the \<open>raise\<close> statement;
  \<open>FieldError\<close> is the rejection of a pydantic \<open>Field\<close> constraint, named by the field.
\<close>

datatype py_error =
    ValueError string
  | FieldError string
  | KeyError string
  | RuntimeError string
  | TransportError string
  | UnknownSubmission string
  | IntegrityError
  | OverflowError
  | ZeroDivisionError
  | AssertionError
  | InvalidOperation

type_synonym 'a res = "py_error + 'a"

primrec res_bind :: "'a res \<Rightarrow> ('a \<Rightarrow> 'b res) \<Rightarrow> 'b res" where
  "res_bind (Inl e) k = Inl e"
| "res_bind (Inr x) k = k x"

lemma res_bind_Inr_iff [res_simps]:
  "res_bind m k = Inr y \<longleftrightarrow> (\<exists>x. m = Inr x \<and> k x = Inr y)"
  by (cases m) auto

lemma res_bind_Inl_iff [res_simps]:
  "res_bind m k = Inl e \<longleftrightarrow> m = Inl e \<or> (\<exists>x. m = Inr x \<and> k x = Inl e)"
  by (cases m) auto

lemma res_bind_assoc:
  "res_bind (res_bind m k) l = res_bind m (\<lambda>x. res_bind (k x) l)"
  by (cases m) auto

lemma res_bind_cong [fundef_cong]:
  "m = m' \<Longrightarrow> (\<And>x. m' = Inr x \<Longrightarrow> k x = k' x) \<Longrightarrow> res_bind m k = res_bind m' k'"
  by (cases m') auto

definition is_ok :: "'a res \<Rightarrow> bool" where
  "is_ok m = (case m of Inl _ \<Rightarrow> False | Inr _ \<Rightarrow> True)"

lemma is_ok_simps [simp]: "is_ok (Inr x)" "\<not> is_ok (Inl e)"
  by (simp_all add: is_ok_def)

lemma is_ok_iff: "is_ok m \<longleftrightarrow> (\<exists>x. m = Inr x)"
  by (cases m) auto

text \<open>
  A validator is the list of its checks in source order, each with the error it raises; the
  first failing check decides.
\<close>

primrec validate :: "(bool \<times> py_error) list \<Rightarrow> 'a \<Rightarrow> 'a res" where
  "validate [] x = Inr x"
| "validate (c # cs) x = (if fst c then validate cs x else Inl (snd c))"

lemma validate_Inr_iff [res_simps]:
  "validate cs x = Inr y \<longleftrightarrow> y = x \<and> list_all fst cs"
  by (induction cs) auto

lemma validate_ok: "list_all fst cs \<Longrightarrow> validate cs x = Inr x"
  by (simp add: validate_Inr_iff)

lemma validate_append [res_simps]:
  "validate (cs @ ds) x = res_bind (validate cs x) (validate ds)"
  by (induction cs) auto

lemma validate_Inl: "validate cs x = Inl e \<Longrightarrow> \<exists>c \<in> set cs. \<not> fst c \<and> snd c = e"
  by (induction cs) (auto split: if_splits)

lemma is_ok_validate: "is_ok (validate cs x) \<longleftrightarrow> list_all fst cs"
  by (auto simp: is_ok_iff validate_Inr_iff)

text \<open>Validation is evaluated check by check only on demand.\<close>

declare validate.simps(2) [simp del]

text \<open>Mapping a fallible function over a tuple stops at the first error.\<close>

primrec res_map :: "('a \<Rightarrow> 'b res) \<Rightarrow> 'a list \<Rightarrow> 'b list res" where
  "res_map f [] = Inr []"
| "res_map f (x # xs) = res_bind (f x) (\<lambda>y. res_bind (res_map f xs) (\<lambda>ys. Inr (y # ys)))"

lemma res_map_Inr_iff: "res_map f xs = Inr ys \<longleftrightarrow> list_all2 (\<lambda>x y. f x = Inr y) xs ys"
  by (induction xs arbitrary: ys) (auto simp: res_simps list_all2_Cons1)

lemma res_map_length: "res_map f xs = Inr ys \<Longrightarrow> length ys = length xs"
  by (simp add: res_map_Inr_iff list_all2_lengthD)

lemma res_map_mem: "res_map f xs = Inr ys \<Longrightarrow> y \<in> set ys \<Longrightarrow> \<exists>x \<in> set xs. f x = Inr y"
  by (induction xs arbitrary: ys) (auto simp: res_bind_Inr_iff)

lemma res_map_ok:
  "(\<And>x. x \<in> set xs \<Longrightarrow> \<exists>y. f x = Inr y \<and> P y) \<Longrightarrow> \<exists>ys. res_map f xs = Inr ys \<and> (\<forall>y \<in> set ys. P y)"
proof (induction xs)
  case (Cons x xs)
  obtain ys where "res_map f xs = Inr ys" "\<forall>y \<in> set ys. P y"
    using Cons.IH Cons.prems by auto
  moreover obtain y where "f x = Inr y" "P y" using Cons.prems[of x] by auto
  ultimately show ?case by simp
qed simp

subsection \<open>Effects\<close>

text \<open>
  A method that changes its object, or calls something that does, returns the result together with
  the state it leaves: an exception keeps the effects that happened before it was raised.
\<close>

type_synonym ('s, 'a) eff = "'s \<Rightarrow> 'a res \<times> 's"

definition eff_return :: "'a \<Rightarrow> ('s, 'a) eff" where
  "eff_return x s = (Inr x, s)"

definition eff_of :: "'a res \<Rightarrow> ('s, 'a) eff" where
  "eff_of m s = (m, s)"

definition eff_bind :: "('s, 'a) eff \<Rightarrow> ('a \<Rightarrow> ('s, 'b) eff) \<Rightarrow> ('s, 'b) eff" where
  "eff_bind m k s = (case m s of (Inl e, s') \<Rightarrow> (Inl e, s') | (Inr x, s') \<Rightarrow> k x s')"

text \<open>\<open>try: m except (matching errors): h(error)\<close>, where an unmatched error passes through.\<close>

definition eff_catch :: "('s, 'a) eff \<Rightarrow> (py_error \<Rightarrow> ('s, 'a) eff option) \<Rightarrow> ('s, 'a) eff" where
  "eff_catch m h s = (case m s of
     (Inl e, s') \<Rightarrow> (case h e of None \<Rightarrow> (Inl e, s') | Some k \<Rightarrow> k s')
   | (Inr x, s') \<Rightarrow> (Inr x, s'))"

named_theorems eff_simps \<open>running effectful methods\<close>

lemma eff_run [eff_simps]:
  "eff_return x s = (Inr x, s)" "eff_of m s = (m, s)"
  by (simp_all add: eff_return_def eff_of_def)

lemma eff_bind_run [eff_simps]:
  "m s = (Inr x, s') \<Longrightarrow> eff_bind m k s = k x s'"
  "m s = (Inl e, s') \<Longrightarrow> eff_bind m k s = (Inl e, s')"
  by (simp_all add: eff_bind_def)

subsection \<open>Optional values\<close>

text \<open>\<open>value is not None and P(value)\<close>, and \<open>value is None or P(value)\<close>.\<close>

definition opt_some :: "('a \<Rightarrow> bool) \<Rightarrow> 'a option \<Rightarrow> bool" where
  "opt_some P v = (case v of None \<Rightarrow> False | Some x \<Rightarrow> P x)"

definition opt_all :: "('a \<Rightarrow> bool) \<Rightarrow> 'a option \<Rightarrow> bool" where
  "opt_all P v = (case v of None \<Rightarrow> True | Some x \<Rightarrow> P x)"

lemma opt_simps [simp]:
  "\<not> opt_some P None" "opt_some P (Some x) = P x"
  "opt_all P None" "opt_all P (Some x) = P x"
  by (simp_all add: opt_some_def opt_all_def)

lemma opt_some_iff: "opt_some P v \<longleftrightarrow> (\<exists>x. v = Some x \<and> P x)"
  by (cases v) auto

subsection \<open>Ordered dictionaries\<close>

text \<open>
  \<open>tuple(dict.fromkeys(xs))\<close> keeps the first occurrence of every element, in order.
\<close>

primrec dedup :: "'a list \<Rightarrow> 'a list" where
  "dedup [] = []"
| "dedup (x # xs) = x # removeAll x (dedup xs)"

lemma set_dedup [simp]: "set (dedup xs) = set xs"
  by (induction xs) auto

lemma distinct_dedup [simp]: "distinct (dedup xs)"
  by (induction xs) (auto simp: distinct_removeAll)

lemma dedup_eq_Nil_iff [simp]: "dedup xs = [] \<longleftrightarrow> xs = []"
  by (cases xs) auto

lemma dedup_distinct [simp]: "distinct xs \<Longrightarrow> dedup xs = xs"
  by (induction xs) auto

lemma dedup_idem [simp]: "dedup (dedup xs) = dedup xs"
  by simp

text \<open>
  The source rebuilds a tuple through a dictionary: \<open>values = {key(x): x for x in xs}\<close>,
  \<open>values[key(new)] = new\<close>, \<open>tuple(values[k] for k in sorted(values))\<close>. Association lists with
  \<^const>\<open>AList.update\<close> keep Python's insertion order.
\<close>

definition dict_by :: "('a \<Rightarrow> 'k) \<Rightarrow> 'a list \<Rightarrow> ('k \<times> 'a) list" where
  "dict_by key xs = foldl (\<lambda>d x. AList.update (key x) x d) [] xs"

definition sorted_values :: "('k::linorder \<times> 'a) list \<Rightarrow> 'a list" where
  "sorted_values d = map snd (sort_key fst d)"

definition upsert :: "('a \<Rightarrow> 'k::linorder) \<Rightarrow> 'a list \<Rightarrow> 'a \<Rightarrow> 'a list" where
  "upsert key xs x = sorted_values (AList.update (key x) x (dict_by key xs))"

definition lookup_by :: "('a \<Rightarrow> 'k) \<Rightarrow> 'a list \<Rightarrow> 'k \<Rightarrow> 'a option" where
  "lookup_by key xs k = find (\<lambda>x. key x = k) xs"

definition keyed :: "('a \<Rightarrow> 'k::linorder) \<Rightarrow> 'a list \<Rightarrow> bool" where
  "keyed key xs \<longleftrightarrow> sorted (map key xs) \<and> distinct (map key xs)"

lemma keyed_Nil [simp]: "keyed key []"
  by (simp add: keyed_def)

lemma lookup_by_simps [simp]:
  "lookup_by key [] k = None"
  "lookup_by key (x # xs) k = (if key x = k then Some x else lookup_by key xs k)"
  by (simp_all add: lookup_by_def)

lemma lookup_by_Some: "lookup_by key xs k = Some x \<Longrightarrow> x \<in> set xs \<and> key x = k"
  by (induction xs) (auto split: if_splits)

lemma lookup_by_None_iff: "lookup_by key xs k = None \<longleftrightarrow> k \<notin> key ` set xs"
  by (induction xs) auto

lemma lookup_by_append:
  "lookup_by key (xs @ ys) k =
     (case lookup_by key xs k of None \<Rightarrow> lookup_by key ys k | Some x \<Rightarrow> Some x)"
  by (induction xs) auto

lemma lookup_by_map_of: "lookup_by key xs k = map_of (map (\<lambda>x. (key x, x)) xs) k"
  by (induction xs) auto

lemma foldl_update_dom:
  "fst ` set (foldl (\<lambda>d x. AList.update (key x) x d) d xs) = fst ` set d \<union> key ` set xs"
  by (induction xs arbitrary: d) (auto simp: dom_update)

lemma foldl_update_distinct:
  "distinct (map fst d) \<Longrightarrow> distinct (map fst (foldl (\<lambda>d x. AList.update (key x) x d) d xs))"
  by (induction xs arbitrary: d) (auto simp: distinct_update)

lemma foldl_update_map_of:
  "map_of (foldl (\<lambda>d x. AList.update (key x) x d) d xs) k =
     (case lookup_by key (rev xs) k of None \<Rightarrow> map_of d k | Some x \<Rightarrow> Some x)"
proof (induction xs arbitrary: d)
  case (Cons x xs)
  show ?case
    using Cons.IH by (auto simp: lookup_by_append update_conv' split: option.splits)
qed simp

lemma foldl_update_keys_of:
  "\<forall>p \<in> set d. fst p = key (snd p) \<Longrightarrow>
   \<forall>p \<in> set (foldl (\<lambda>d x. AList.update (key x) x d) d xs). fst p = key (snd p)"
proof (induction xs arbitrary: d)
  case (Cons x xs)
  have "set (AList.update (key x) x d) \<subseteq> insert (key x, x) (set d)"
    by (induction d) auto
  with Cons.prems have "\<forall>p \<in> set (AList.update (key x) x d). fst p = key (snd p)" by auto
  then show ?case using Cons.IH by simp
qed simp

lemma distinct_dict_by: "distinct (map fst (dict_by key xs))"
  by (simp add: dict_by_def foldl_update_distinct)

lemma map_of_dict_by: "map_of (dict_by key xs) k = lookup_by key (rev xs) k"
  by (simp add: dict_by_def foldl_update_map_of split: option.splits)

lemma dict_by_keys: "p \<in> set (dict_by key xs) \<Longrightarrow> fst p = key (snd p)"
  using foldl_update_keys_of[of "[]" key xs] by (simp add: dict_by_def)

lemma lookup_by_rev: "distinct (map key xs) \<Longrightarrow> lookup_by key (rev xs) k = lookup_by key xs k"
proof (induction xs)
  case (Cons x xs)
  then have "lookup_by key xs (key x) = None" by (simp add: lookup_by_None_iff)
  with Cons show ?case
    by (auto simp: lookup_by_append split: option.splits)
qed simp

lemma sorted_values_keys:
  assumes "\<forall>p \<in> set d. fst p = key (snd p)"
  shows "map key (sorted_values d) = sort (map fst d)"
proof -
  have "map key (sorted_values d) = map (key \<circ> snd) (sort_key fst d)"
    by (simp add: sorted_values_def)
  also have "\<dots> = map fst (sort_key fst d)"
    using assms by (intro map_cong) auto
  also have "\<dots> = sort (map fst d)"
    by (rule properties_for_sort[symmetric]) (simp_all add: sorted_sort_key)
  finally show ?thesis .
qed

lemma lookup_sorted_values:
  assumes "\<forall>p \<in> set d. fst p = key (snd p)" and "distinct (map fst d)"
  shows "lookup_by key (sorted_values d) k = map_of d k"
proof -
  have "lookup_by key (sorted_values d) k = map_of (map (\<lambda>p. (key (snd p), snd p)) (sort_key fst d)) k"
    by (simp add: lookup_by_map_of sorted_values_def comp_def)
  also have "map (\<lambda>p. (key (snd p), snd p)) (sort_key fst d) = sort_key fst d"
    using assms(1) by (intro map_idI) (auto simp: prod_eq_iff)
  also have "map_of (sort_key fst d) k = map_of d k"
  proof -
    have "distinct (map fst (sort_key fst d))"
      using assms(2) by (metis distinct_map distinct_sort set_sort)
    then show ?thesis
      using assms(2) by (metis map_of_inject_set set_sort)
  qed
  finally show ?thesis .
qed

lemma keyed_upsert [simp]: "keyed key (upsert key xs x)"
proof -
  let ?d = "AList.update (key x) x (dict_by key xs)"
  have k: "\<forall>p \<in> set ?d. fst p = key (snd p)"
    using foldl_update_keys_of[of "[]" key "xs @ [x]"] by (simp add: dict_by_def)
  have d: "distinct (map fst ?d)"
    by (simp add: distinct_update distinct_dict_by)
  show ?thesis
    unfolding keyed_def upsert_def sorted_values_keys[OF k]
    using d by simp
qed

lemma lookup_upsert:
  "lookup_by key (upsert key xs x) k = (if k = key x then Some x else lookup_by key (rev xs) k)"
proof -
  let ?d = "AList.update (key x) x (dict_by key xs)"
  have k: "\<forall>p \<in> set ?d. fst p = key (snd p)"
    using foldl_update_keys_of[of "[]" key "xs @ [x]"] by (simp add: dict_by_def)
  have d: "distinct (map fst ?d)"
    by (simp add: distinct_update distinct_dict_by)
  show ?thesis
    unfolding upsert_def lookup_sorted_values[OF k d]
    by (simp add: update_conv' map_of_dict_by)
qed

lemma lookup_upsert_keyed:
  "keyed key xs \<Longrightarrow>
   lookup_by key (upsert key xs x) k = (if k = key x then Some x else lookup_by key xs k)"
  by (simp add: lookup_upsert keyed_def lookup_by_rev)

lemma keys_upsert: "key ` set (upsert key xs x) = insert (key x) (key ` set xs)"
proof (rule set_eqI)
  fix k
  have "k \<in> key ` set (upsert key xs x) \<longleftrightarrow> lookup_by key (upsert key xs x) k \<noteq> None"
    by (simp add: lookup_by_None_iff)
  also have "\<dots> \<longleftrightarrow> k = key x \<or> lookup_by key (rev xs) k \<noteq> None"
    by (simp add: lookup_upsert)
  finally show "(k \<in> key ` set (upsert key xs x)) = (k \<in> insert (key x) (key ` set xs))"
    by (simp add: lookup_by_None_iff)
qed

lemma lookup_by_distinct: "distinct (map key xs) \<Longrightarrow> x \<in> set xs \<Longrightarrow> lookup_by key xs (key x) = Some x"
  by (induction xs) (auto simp: rev_image_eqI)

lemma set_upsert: "set (upsert key xs x) \<subseteq> insert x (set xs)"
proof
  fix y assume "y \<in> set (upsert key xs x)"
  then have "lookup_by key (upsert key xs x) (key y) = Some y"
    using keyed_upsert[of key xs x] by (intro lookup_by_distinct) (auto simp: keyed_def)
  then show "y \<in> insert x (set xs)"
    by (auto simp: lookup_upsert split: if_splits dest: lookup_by_Some)
qed

text \<open>
  The interface such a keyed tuple offers to its clients: a stored value is found under its
  key, every other key keeps its value, and the ordering invariant is kept.
\<close>

locale keyed_store =
  fixes put :: "'b \<Rightarrow> 'v \<Rightarrow> 'b"
    and look :: "'b \<Rightarrow> 'k \<Rightarrow> 'v option"
    and key :: "'v \<Rightarrow> 'k"
    and inv :: "'b \<Rightarrow> bool"
  assumes look_put: "inv b \<Longrightarrow> look (put b v) k = (if k = key v then Some v else look b k)"
    and inv_put: "inv b \<Longrightarrow> inv (put b v)"
begin

lemma inv_foldl: "inv b \<Longrightarrow> inv (foldl put b vs)"
  by (induction vs arbitrary: b) (auto intro: inv_put)

lemma look_foldl:
  "inv b \<Longrightarrow> look (foldl put b vs) k =
     (case lookup_by key (rev vs) k of None \<Rightarrow> look b k | Some v \<Rightarrow> Some v)"
  by (induction vs arbitrary: b)
    (auto simp: inv_put look_put lookup_by_append split: option.splits)

lemma put_commute_look:
  "inv b \<Longrightarrow> key v \<noteq> key w \<Longrightarrow> look (put (put b v) w) k = look (put (put b w) v) k"
  by (auto simp: inv_put look_put)

end

interpretation upsert_store: keyed_store "upsert key" "lookup_by key" key "keyed key"
  for key :: "'a \<Rightarrow> 'k::linorder"
  by unfold_locales (auto simp: lookup_upsert_keyed)

subsection \<open>Sorted lists\<close>

lemma sorted_le_last: "sorted xs \<Longrightarrow> x \<in> set xs \<Longrightarrow> x \<le> last xs"
  by (induction xs) auto

lemma sorted_snoc: "sorted (xs @ [x]) \<longleftrightarrow> sorted xs \<and> (xs = [] \<or> last xs \<le> x)"
  using sorted_le_last[of xs] by (auto simp: sorted_append intro: order_trans)

subsection \<open>Timestamps\<close>

text \<open>
  A UTC \<open>datetime\<close> is its distance from the Unix epoch in microseconds. Adding a
  \<open>timedelta\<close> raises \<open>OverflowError\<close> outside the years 1 to 9999.
\<close>

type_synonym dt = int

definition dt_min :: dt where "dt_min = - 62135596800000000"
definition dt_max :: dt where "dt_max = 253402300799999999"

definition add_seconds :: "dt \<Rightarrow> int \<Rightarrow> dt res" where
  "add_seconds t s =
     (let r = t + s * 1000000 in if dt_min \<le> r \<and> r \<le> dt_max then Inr r else Inl OverflowError)"

lemma add_seconds_Inr: "add_seconds t s = Inr r \<Longrightarrow> r = t + s * 1000000"
  by (auto simp: add_seconds_def Let_def split: if_splits)

lemma add_seconds_ge: "add_seconds t s = Inr r \<Longrightarrow> 0 \<le> s \<Longrightarrow> t \<le> r"
  by (auto dest: add_seconds_Inr)

lemma add_seconds_gt: "add_seconds t s = Inr r \<Longrightarrow> 0 < s \<Longrightarrow> t < r"
  by (auto dest: add_seconds_Inr)

lemma add_seconds_mono:
  "add_seconds t s = Inr r \<Longrightarrow> add_seconds t' s = Inr r' \<Longrightarrow> t \<le> t' \<Longrightarrow> r \<le> r'"
  by (auto dest!: add_seconds_Inr)

end
