(* ===== verification/Versioning.thy ===== *)
theory Versioning
  imports Prelude
begin

section \<open>Content-derived identities\<close>

text \<open>
  Every contract of the program ends its validation with the same five lines: dump the record
  without its identifier, hash the dump with \<open>canonical_hash\<close> (\<open>axq/versioning.py\<close>), prefix the
  first twenty hexadecimal digits, reject a supplied identifier that differs, store the expected
  one. The dump (pydantic), the JSON text and SHA-256 are code outside the repository, so their
  composition is the parameter \<open>h\<close> of every constructor: a function from the record with its
  identifier blanked (\<open>exclude={...}\<close>) to the digest text.
\<close>

definition content_id :: "string \<Rightarrow> ('r \<Rightarrow> string) \<Rightarrow> 'r \<Rightarrow> string" where
  "content_id pre h r = pre @ take 20 (h r)"

definition bind_identity ::
  "string \<Rightarrow> ('r \<Rightarrow> string) \<Rightarrow> ('r \<Rightarrow> 'r) \<Rightarrow> ('r \<Rightarrow> string) \<Rightarrow> (string \<Rightarrow> 'r \<Rightarrow> 'r) \<Rightarrow> string
     \<Rightarrow> 'r \<Rightarrow> 'r res" where
  "bind_identity pre h blank gid sid msg r =
     (let expected = content_id pre h (blank r)
      in if gid r \<noteq> [] \<and> gid r \<noteq> expected then Inl (ValueError msg)
         else Inr (sid expected r))"

locale content_addressed =
  fixes pre :: string
    and h :: "'r \<Rightarrow> string"
    and blank :: "'r \<Rightarrow> 'r"
    and gid :: "'r \<Rightarrow> string"
    and sid :: "string \<Rightarrow> 'r \<Rightarrow> 'r"
    and msg :: string
  assumes gid_sid: "gid (sid i r) = i"
    and sid_gid: "sid (gid r) r = r"
    and blank_sid: "blank (sid i r) = blank r"
    and sid_sid: "sid i (sid j r) = sid i r"
begin

definition bound :: "'r \<Rightarrow> bool" where
  "bound r \<longleftrightarrow> gid r = content_id pre h (blank r)"

lemma bind_bound: "bind_identity pre h blank gid sid msg r = Inr r' \<Longrightarrow> bound r'"
  by (auto simp: bind_identity_def bound_def Let_def gid_sid blank_sid split: if_splits)

lemma bind_content:
  "bind_identity pre h blank gid sid msg r = Inr r' \<Longrightarrow> blank r' = blank r"
  by (auto simp: bind_identity_def Let_def blank_sid split: if_splits)

text \<open>Validating a bound record again returns it unchanged.\<close>

lemma rebind: "bound r \<Longrightarrow> bind_identity pre h blank gid sid msg r = Inr r"
  using sid_gid[of r] by (auto simp: bind_identity_def bound_def Let_def)

lemma bind_fresh:
  "gid r = [] \<Longrightarrow>
   bind_identity pre h blank gid sid msg r = Inr (sid (content_id pre h (blank r)) r)"
  by (simp add: bind_identity_def Let_def)

lemma bind_ok_iff:
  "bind_identity pre h blank gid sid msg r = Inr r' \<longleftrightarrow>
     (gid r = [] \<or> bound r) \<and> r' = sid (content_id pre h (blank r)) r"
  by (auto simp: bind_identity_def bound_def Let_def)

text \<open>Altering the content under a kept identifier is rejected unless the digests collide.\<close>

lemma tamper_rejected:
  assumes "bound r" "gid r \<noteq> []" "gid s = gid r" "content_id pre h (blank s) \<noteq> content_id pre h (blank r)"
  shows "bind_identity pre h blank gid sid msg s = Inl (ValueError msg)"
  using assms by (simp add: bind_identity_def bound_def Let_def)

text \<open>Two bound records with one identifier have one content, when the digest prefix is injective.\<close>

lemma bound_inj:
  assumes "bound r" "bound s" "gid r = gid s" "inj_on (\<lambda>x. take 20 (h x)) (range blank)"
  shows "blank r = blank s"
proof -
  have "take 20 (h (blank r)) = take 20 (h (blank s))"
    using assms(1-3) by (simp add: bound_def content_id_def)
  then show ?thesis using assms(4) by (auto dest: inj_onD)
qed

end

end
