(* ===== verification/PyFloat.thy ===== *)
theory PyFloat
  imports Complex_Main Prelude "HOL-Library.Log_Nat"
begin

section \<open>Python floats\<close>

text \<open>
  A Python \<open>float\<close> is an IEEE binary64 number. A finite value is its exact rational value;
  every arithmetic operation computes the exact rational result and rounds it once, to nearest
  with ties to even, with gradual underflow below \<open>2^-1022\<close> and overflow to an infinity. The
  sign of zero is not kept: no comparison, division or branch of the modelled code depends on it.
\<close>

datatype f64 = Fin rat | PInf | NInf | NaN

named_theorems f64_simps \<open>evaluation of float operations on classes of values\<close>

subsection \<open>Rounding\<close>

text \<open>The binary exponent of a positive rational, from the bit lengths of its numerator and denominator.\<close>

definition ilog2 :: "rat \<Rightarrow> int" where
  "ilog2 q = (case quotient_of q of (n, d) \<Rightarrow>
     let e = bitlen n - bitlen d in if 2 powi e \<le> q then e else e - 1)"

definition rhe :: "rat \<Rightarrow> int" where
  "rhe q = (let f = \<lfloor>q\<rfloor>; r = q - of_int f
            in if r < 1 / 2 then f else if 1 / 2 < r then f + 1 else if even f then f else f + 1)"

definition quantum_exp :: "rat \<Rightarrow> int" where
  "quantum_exp q = max (ilog2 \<bar>q\<bar>) (- 1022) - 52"

definition round_val :: "rat \<Rightarrow> rat" where
  "round_val q = (if q = 0 then 0
     else let u = 2 powi (quantum_exp q) in of_int (rhe (q / u)) * u)"

definition f64_max :: rat where
  "f64_max = (2 ^ 53 - 1) * 2 ^ 971"

definition rnd :: "rat \<Rightarrow> f64" where
  "rnd q = (let r = round_val q
            in if f64_max < r then PInf else if r < - f64_max then NInf else Fin r)"

lemma bitlen_powi:
  assumes "0 < k"
  shows "2 powi (bitlen k - 1) \<le> (of_int k :: rat)" and "(of_int k :: rat) < 2 powi (bitlen k)"
proof -
  have b: "0 < bitlen k"
    using bitlen_bounds[OF assms] bitlen_nonneg[of k] assms by (cases "bitlen k = 0") auto
  have pw: "(2::rat) powi j = of_int (2 ^ nat j)" if "0 \<le> j" for j
    using that by (simp add: power_int_def)
  have "(of_int (2 ^ nat (bitlen k - 1)) :: rat) \<le> of_int k"
    using bitlen_bounds[OF assms] by (simp only: of_int_le_iff)
  then show "2 powi (bitlen k - 1) \<le> (of_int k :: rat)" using b by (simp only: pw)
  have "(of_int k :: rat) < of_int (2 ^ nat (bitlen k))"
    using bitlen_bounds[OF assms] by (simp only: of_int_less_iff)
  then show "(of_int k :: rat) < 2 powi (bitlen k)" using b by (simp only: pw)
qed

lemma ilog2_bounds:
  assumes "0 < q"
  shows "2 powi (ilog2 q) \<le> q" and "q < 2 powi (ilog2 q + 1)"
proof -
  obtain n d where nd: "quotient_of q = (n, d)" by fastforce
  have d: "0 < d" using nd by (rule quotient_of_denom_pos)
  have q: "q = of_int n / of_int d" using nd by (rule quotient_of_div)
  have n: "0 < n" using assms d by (simp add: q zero_less_divide_iff)
  define bn bd where "bn = bitlen n" and "bd = bitlen d"
  note n1 = bitlen_powi(1)[OF n, folded bn_def] and n2 = bitlen_powi(2)[OF n, folded bn_def]
  note d1 = bitlen_powi(1)[OF d, folded bd_def] and d2 = bitlen_powi(2)[OF d, folded bd_def]
  have lo: "2 powi (bn - bd - 1) \<le> q"
  proof -
    have "(2::rat) powi (bn - bd - 1) * of_int d \<le> 2 powi (bn - bd - 1) * 2 powi bd"
      using d2 by (intro mult_left_mono) auto
    also have "\<dots> = (2::rat) powi (bn - 1)"
      by (subst power_int_add[symmetric]) auto
    also have "\<dots> \<le> of_int n" by (rule n1)
    finally show ?thesis using d by (simp add: q le_divide_eq)
  qed
  have hi: "q < 2 powi (bn - bd + 1)"
  proof -
    have "of_int n < (2::rat) powi bn" by (rule n2)
    also have "\<dots> = 2 powi (bn - bd + 1) * 2 powi (bd - 1)"
      by (subst power_int_add[symmetric]) auto
    also have "\<dots> \<le> 2 powi (bn - bd + 1) * of_int d"
      using d1 by (intro mult_left_mono) auto
    finally show ?thesis using d by (simp add: q divide_less_eq)
  qed
  have e: "ilog2 q = (if 2 powi (bn - bd) \<le> q then bn - bd else bn - bd - 1)"
    by (simp add: ilog2_def nd bn_def bd_def Let_def)
  show "2 powi (ilog2 q) \<le> q" using lo by (simp add: e)
  show "q < 2 powi (ilog2 q + 1)" using hi by (simp add: e)
qed

lemma powi2_le_iff: "(2::rat) powi a \<le> 2 powi b \<longleftrightarrow> a \<le> b"
  by (metis linorder_not_le one_less_numeral_iff power_int_strict_increasing power_int_increasing
      semiring_norm(76) one_le_numeral)

lemma powi2_less_iff: "(2::rat) powi a < 2 powi b \<longleftrightarrow> a < b"
  by (meson linorder_not_less powi2_le_iff)

lemma ilog2_mono:
  assumes "0 < p" "p \<le> q"
  shows "ilog2 p \<le> ilog2 q"
proof -
  have "2 powi (ilog2 p) \<le> p" using assms by (simp add: ilog2_bounds)
  also have "\<dots> \<le> q" by (rule assms)
  also have "q < 2 powi (ilog2 q + 1)" using assms by (simp add: ilog2_bounds)
  finally show ?thesis by (simp add: powi2_less_iff)
qed

lemma rhe_of_int [simp]: "rhe (of_int k) = k"
  by (simp add: rhe_def Let_def)

lemma rhe_0 [simp]: "rhe 0 = 0"
  using rhe_of_int[of 0] by simp

lemma rhe_floor: "\<lfloor>q\<rfloor> \<le> rhe q" "rhe q \<le> \<lfloor>q\<rfloor> + 1"
  by (auto simp: rhe_def Let_def)

lemma rhe_mono:
  assumes "p \<le> q"
  shows "rhe p \<le> rhe q"
proof (cases "\<lfloor>p\<rfloor> = \<lfloor>q\<rfloor>")
  case True
  then show ?thesis using assms by (auto simp: rhe_def Let_def)
next
  case False
  then have "\<lfloor>p\<rfloor> + 1 \<le> \<lfloor>q\<rfloor>" using floor_mono[OF assms] by linarith
  then show ?thesis using rhe_floor[of p] rhe_floor[of q] by linarith
qed

lemma rhe_minus: "rhe (- q) = - rhe q"
proof (cases "q \<in> \<int>")
  case True
  then obtain k where "q = of_int k" by (auto simp: Ints_def)
  then show ?thesis using rhe_of_int[of "- k"] by simp
next
  case False
  then have f: "\<lfloor>- q\<rfloor> = - \<lfloor>q\<rfloor> - 1"
    by (simp add: floor_minus ceiling_altdef) (metis Ints_of_int)
  show ?thesis
    unfolding rhe_def f by (auto simp: Let_def)
qed

lemma rhe_error: "\<bar>of_int (rhe q) - q\<bar> \<le> 1 / 2"
proof -
  have "of_int \<lfloor>q\<rfloor> \<le> q" "q < of_int \<lfloor>q\<rfloor> + 1" by linarith+
  then show ?thesis by (auto simp: rhe_def Let_def abs_le_iff)
qed

lemma quantum_exp_mono: "0 < p \<Longrightarrow> p \<le> q \<Longrightarrow> quantum_exp p \<le> quantum_exp q"
  using ilog2_mono[of p q] by (auto simp: quantum_exp_def)

lemma round_val_0 [simp]: "round_val 0 = 0"
  by (simp add: round_val_def)

lemma round_val_minus: "round_val (- q) = - round_val q"
  by (simp add: round_val_def Let_def quantum_exp_def rhe_minus)

text \<open>A multiple of the quantum of \<open>x\<close> bounds the rounded value when it bounds \<open>x\<close>.\<close>

lemma round_val_le_mult:
  assumes "x \<noteq> 0" "x \<le> of_int k * 2 powi (quantum_exp x)"
  shows "round_val x \<le> of_int k * 2 powi (quantum_exp x)"
proof -
  let ?u = "(2::rat) powi (quantum_exp x)"
  have "x / ?u \<le> of_int k" using assms(2) by (simp add: divide_le_eq)
  then have "rhe (x / ?u) \<le> k" by (metis rhe_mono rhe_of_int)
  then show ?thesis using assms(1) by (simp add: round_val_def Let_def)
qed

lemma round_val_ge_mult:
  assumes "x \<noteq> 0" "of_int k * 2 powi (quantum_exp x) \<le> x"
  shows "of_int k * 2 powi (quantum_exp x) \<le> round_val x"
proof -
  let ?u = "(2::rat) powi (quantum_exp x)"
  have "of_int k \<le> x / ?u" using assms(2) by (simp add: le_divide_eq)
  then have "k \<le> rhe (x / ?u)" by (metis rhe_mono rhe_of_int)
  then show ?thesis using assms(1) by (simp add: round_val_def Let_def)
qed

lemma powi2_multiple:
  assumes "a \<le> b"
  obtains k where "(2::rat) powi b = of_int k * 2 powi a" "0 < k"
proof
  show "(2::rat) powi b = of_int (2 ^ nat (b - a)) * 2 powi a"
  proof -
    have "(2::rat) powi b = 2 powi ((b - a) + a)" by simp
    also have "\<dots> = 2 powi (b - a) * 2 powi a" by (subst power_int_add) auto
    also have "(2::rat) powi (b - a) = of_int (2 ^ nat (b - a))"
      using assms by (simp add: power_int_def)
    finally show ?thesis .
  qed
qed simp

lemma round_val_nonneg: "0 \<le> q \<Longrightarrow> 0 \<le> round_val q"
  using round_val_ge_mult[of q 0] by (cases "q = 0") auto

lemma round_val_mono_pos:
  assumes "0 < p" "p \<le> q"
  shows "round_val p \<le> round_val q"
proof (cases "quantum_exp p = quantum_exp q")
  case True
  then show ?thesis
    using assms by (auto simp: round_val_def Let_def intro!: mult_right_mono rhe_mono divide_right_mono)
next
  case False
  define e where "e = ilog2 q"
  have less: "quantum_exp p < quantum_exp q"
    using quantum_exp_mono[OF assms] False by simp
  then have qe: "quantum_exp q = e - 52" and pe: "ilog2 p < e" "quantum_exp p \<le> e"
    using assms by (auto simp: quantum_exp_def e_def split: if_splits)
  obtain k where k: "(2::rat) powi e = of_int k * 2 powi (quantum_exp p)"
    using powi2_multiple[OF pe(2)] by blast
  have "p < 2 powi (ilog2 p + 1)" using assms by (simp add: ilog2_bounds)
  also have "\<dots> \<le> 2 powi e" using pe(1) by (simp add: powi2_le_iff)
  finally have "round_val p \<le> 2 powi e"
    using round_val_le_mult[of p k] assms k by simp
  moreover
  obtain l where l: "(2::rat) powi e = of_int l * 2 powi (quantum_exp q)"
    using powi2_multiple[of "quantum_exp q" e] qe by auto
  have "2 powi e \<le> q" using assms by (simp add: ilog2_bounds e_def)
  then have "2 powi e \<le> round_val q"
    using round_val_ge_mult[of q l] assms l by simp
  ultimately show ?thesis by simp
qed

lemma round_val_mono:
  assumes "p \<le> q"
  shows "round_val p \<le> round_val q"
proof -
  consider "0 < p" | "p \<le> 0" "0 \<le> q" | "q < 0" by linarith
  then show ?thesis
  proof cases
    case 1
    then show ?thesis using assms by (rule round_val_mono_pos)
  next
    case 2
    then have "round_val p \<le> 0"
      using round_val_nonneg[of "- p"] by (simp add: round_val_minus)
    also have "\<dots> \<le> round_val q" using 2 by (simp add: round_val_nonneg)
    finally show ?thesis .
  next
    case 3
    then show ?thesis
      using assms round_val_mono_pos[of "- q" "- p"] by (simp add: round_val_minus)
  qed
qed

text \<open>A dyadic number with at most 53 significant bits is exact.\<close>

lemma round_val_exact:
  assumes "\<bar>m\<bar> < 2 ^ 53" "- 1074 \<le> e" and q: "q = of_int m * 2 powi e"
  shows "round_val q = q"
proof (cases "m = 0")
  case False
  then have q0: "q \<noteq> 0" using q by simp
  have "\<bar>q\<bar> < 2 powi (53 + e)"
  proof -
    have "\<bar>q\<bar> = of_int \<bar>m\<bar> * 2 powi e" by (simp add: q abs_mult)
    also have "\<dots> < of_int (2 ^ 53) * 2 powi e"
      using assms(1) by (intro mult_strict_right_mono) (simp_all only: of_int_less_iff, simp)
    also have "\<dots> = 2 powi (53 + e)"
      by (subst power_int_add) auto
    finally show ?thesis .
  qed
  moreover have "2 powi (ilog2 \<bar>q\<bar>) \<le> \<bar>q\<bar>" using q0 by (simp add: ilog2_bounds)
  ultimately have "ilog2 \<bar>q\<bar> < 53 + e" by (meson order.strict_trans1 powi2_less_iff)
  then have le: "quantum_exp q \<le> e" using assms(2) by (auto simp: quantum_exp_def)
  obtain k where k: "(2::rat) powi e = of_int k * 2 powi (quantum_exp q)"
    using powi2_multiple[OF le] by blast
  have "q / 2 powi (quantum_exp q) = of_int m * (2 powi e / 2 powi (quantum_exp q))"
    by (subst (1) q) simp
  also have "\<dots> = of_int (m * k)"
    by (subst k) simp
  finally have qu: "q / 2 powi (quantum_exp q) = of_int (m * k)" .
  then have "of_int (m * k) * 2 powi (quantum_exp q) = q"
    by (metis nonzero_eq_divide_eq power_int_eq_0_iff zero_neq_numeral)
  with qu q0 show ?thesis by (simp only: round_val_def Let_def rhe_of_int if_False)
qed (simp add: q)

lemma round_val_of_int: "\<bar>k\<bar> < 2 ^ 53 \<Longrightarrow> round_val (of_int k) = of_int k"
  by (rule round_val_exact[of k 0]) auto

lemma round_val_1 [simp]: "round_val 1 = 1"
  using round_val_of_int[of 1] by simp

lemma round_val_idem [simp]: "round_val (round_val q) = round_val q"
proof (cases "q = 0")
  case False
  let ?e = "quantum_exp q"
  let ?k = "rhe (q / 2 powi ?e)"
  have rv: "round_val q = of_int ?k * 2 powi ?e" using False by (simp add: round_val_def Let_def)
  have e: "- 1074 \<le> ?e" by (simp add: quantum_exp_def)
  have "\<bar>q\<bar> < 2 powi (ilog2 \<bar>q\<bar> + 1)" using False by (simp add: ilog2_bounds)
  also have "\<dots> \<le> 2 powi (53 + ?e)" by (simp add: powi2_le_iff quantum_exp_def)
  also have "\<dots> = of_int (2 ^ 53) * 2 powi ?e" by (subst power_int_add) auto
  finally have "\<bar>q / 2 powi ?e\<bar> \<le> of_int (2 ^ 53)"
    by (simp add: divide_le_eq)
  then have "q / 2 powi ?e \<le> of_int (2 ^ 53)" "of_int (- (2 ^ 53)) \<le> q / 2 powi ?e"
    by (simp_all only: abs_le_iff of_int_minus) linarith+
  then have "rhe (q / 2 powi ?e) \<le> 2 ^ 53" "- (2 ^ 53) \<le> rhe (q / 2 powi ?e)"
    using rhe_mono[of "q / 2 powi ?e" "of_int (2 ^ 53)"] rhe_mono[of "of_int (- (2 ^ 53))" "q / 2 powi ?e"]
    unfolding rhe_of_int by simp_all
  then consider "\<bar>?k\<bar> < 2 ^ 53" | "?k = 2 ^ 53" | "?k = - (2 ^ 53)" by linarith
  then show ?thesis
  proof cases
    case 1
    then show ?thesis by (rule round_val_exact[OF _ e rv])
  next
    case 2
    then have "round_val q = of_int (2 ^ 52) * 2 powi (?e + 1)"
      unfolding rv by (subst power_int_add) auto
    then show ?thesis using e by (intro round_val_exact[of "2 ^ 52" "?e + 1"]) auto
  next
    case 3
    then have "round_val q = of_int (- (2 ^ 52)) * 2 powi (?e + 1)"
      unfolding rv by (subst power_int_add) auto
    then show ?thesis using e by (intro round_val_exact[of "- (2 ^ 52)" "?e + 1"]) auto
  qed
qed simp

subsection \<open>Values and comparisons\<close>

fun is_fin :: "f64 \<Rightarrow> bool" where
  "is_fin (Fin _) = True"
| "is_fin _ = False"

text \<open>A \<open>Fin\<close> value that is a binary64 number.\<close>

fun is_f64 :: "f64 \<Rightarrow> bool" where
  "is_f64 (Fin x) = (round_val x = x \<and> \<bar>x\<bar> \<le> f64_max)"
| "is_f64 _ = True"

fun flt :: "f64 \<Rightarrow> f64 \<Rightarrow> bool" where
  "flt (Fin x) (Fin y) = (x < y)"
| "flt (Fin _) PInf = True"
| "flt NInf (Fin _) = True"
| "flt NInf PInf = True"
| "flt _ _ = False"

fun fle :: "f64 \<Rightarrow> f64 \<Rightarrow> bool" where
  "fle (Fin x) (Fin y) = (x \<le> y)"
| "fle (Fin _) PInf = True"
| "fle NInf (Fin _) = True"
| "fle NInf PInf = True"
| "fle NInf NInf = True"
| "fle PInf PInf = True"
| "fle _ _ = False"

definition feq :: "f64 \<Rightarrow> f64 \<Rightarrow> bool" where
  "feq a b \<longleftrightarrow> a = b \<and> a \<noteq> NaN"

lemma is_finE: "is_fin a \<Longrightarrow> (\<And>x. a = Fin x \<Longrightarrow> P) \<Longrightarrow> P"
  by (cases a) auto

lemma flt_NaN [simp]: "\<not> flt a NaN" "\<not> flt NaN a" "\<not> fle a NaN" "\<not> fle NaN a"
  by (cases a; simp)+

lemma flt_irrefl [simp]: "\<not> flt a a"
  by (cases a) auto

lemma fle_refl [simp]: "fle a a \<longleftrightarrow> a \<noteq> NaN"
  by (cases a) auto

lemma flt_imp_fle: "flt a b \<Longrightarrow> fle a b"
  by (cases a; cases b) auto

lemma fle_trans [trans]: "fle a b \<Longrightarrow> fle b c \<Longrightarrow> fle a c"
  by (cases a; cases b; cases c) auto

lemma flt_trans [trans]: "flt a b \<Longrightarrow> flt b c \<Longrightarrow> flt a c"
  by (cases a; cases b; cases c) auto

lemma fle_flt_trans [trans]: "fle a b \<Longrightarrow> flt b c \<Longrightarrow> flt a c"
  by (cases a; cases b; cases c) auto

lemma flt_fle_trans [trans]: "flt a b \<Longrightarrow> fle b c \<Longrightarrow> flt a c"
  by (cases a; cases b; cases c) auto

lemma not_flt_iff: "a \<noteq> NaN \<Longrightarrow> b \<noteq> NaN \<Longrightarrow> \<not> flt a b \<longleftrightarrow> fle b a"
  by (cases a; cases b) auto

lemma not_fle_iff: "a \<noteq> NaN \<Longrightarrow> b \<noteq> NaN \<Longrightarrow> \<not> fle a b \<longleftrightarrow> flt b a"
  by (cases a; cases b) auto

lemma fle_antisym: "fle a b \<Longrightarrow> fle b a \<Longrightarrow> a = b"
  by (cases a; cases b) auto

lemma fle_not_NaN: "fle a b \<Longrightarrow> a \<noteq> NaN \<and> b \<noteq> NaN"
  by auto

lemma flt_not_NaN: "flt a b \<Longrightarrow> a \<noteq> NaN \<and> b \<noteq> NaN"
  by auto

lemma fle_not_flt: "fle a b \<Longrightarrow> \<not> flt b a"
  by (cases a; cases b) auto

subsection \<open>Arithmetic\<close>

text \<open>A source literal, and the correctly rounded quotient of two integers.\<close>

abbreviation lit :: "rat \<Rightarrow> f64" where "lit q \<equiv> rnd q"

fun fneg :: "f64 \<Rightarrow> f64" where
  "fneg (Fin x) = Fin (- x)"
| "fneg PInf = NInf"
| "fneg NInf = PInf"
| "fneg NaN = NaN"

fun fabs :: "f64 \<Rightarrow> f64" where
  "fabs (Fin x) = Fin \<bar>x\<bar>"
| "fabs NaN = NaN"
| "fabs _ = PInf"

fun fadd :: "f64 \<Rightarrow> f64 \<Rightarrow> f64" where
  "fadd (Fin x) (Fin y) = rnd (x + y)"
| "fadd NaN _ = NaN"
| "fadd _ NaN = NaN"
| "fadd PInf NInf = NaN"
| "fadd NInf PInf = NaN"
| "fadd PInf _ = PInf"
| "fadd NInf _ = NInf"
| "fadd (Fin _) y = y"

definition fsub :: "f64 \<Rightarrow> f64 \<Rightarrow> f64" where
  "fsub a b = fadd a (fneg b)"

definition inf_of_sign :: "rat \<Rightarrow> f64" where
  "inf_of_sign x = (if 0 < x then PInf else if x < 0 then NInf else NaN)"

fun fmul :: "f64 \<Rightarrow> f64 \<Rightarrow> f64" where
  "fmul (Fin x) (Fin y) = rnd (x * y)"
| "fmul NaN _ = NaN"
| "fmul _ NaN = NaN"
| "fmul (Fin x) PInf = inf_of_sign x"
| "fmul (Fin x) NInf = fneg (inf_of_sign x)"
| "fmul PInf (Fin y) = inf_of_sign y"
| "fmul NInf (Fin y) = fneg (inf_of_sign y)"
| "fmul PInf PInf = PInf"
| "fmul NInf NInf = PInf"
| "fmul PInf NInf = NInf"
| "fmul NInf PInf = NInf"

text \<open>Division by zero raises, whatever the numerator.\<close>

fun fdiv :: "f64 \<Rightarrow> f64 \<Rightarrow> f64 res" where
  "fdiv a (Fin y) =
     (if y = 0 then Inl ZeroDivisionError
      else Inr (case a of Fin x \<Rightarrow> rnd (x / y)
                | PInf \<Rightarrow> inf_of_sign y | NInf \<Rightarrow> fneg (inf_of_sign y) | NaN \<Rightarrow> NaN))"
| "fdiv a b = Inr (case a of Fin x \<Rightarrow> (if b = NaN then NaN else Fin 0) | _ \<Rightarrow> NaN)"

text \<open>Python's two-argument \<open>min\<close> and \<open>max\<close> keep the first argument unless the second wins.\<close>

definition pymin :: "f64 \<Rightarrow> f64 \<Rightarrow> f64" where
  "pymin a b = (if flt b a then b else a)"

definition pymax :: "f64 \<Rightarrow> f64 \<Rightarrow> f64" where
  "pymax a b = (if flt a b then b else a)"

text \<open>\<open>math.isclose(a, b, rel_tol=r, abs_tol=t)\<close>.\<close>

definition isclose :: "f64 \<Rightarrow> f64 \<Rightarrow> f64 \<Rightarrow> f64 \<Rightarrow> bool" where
  "isclose a b r t =
     (if feq a b then True
      else if \<not> is_fin a \<and> a \<noteq> NaN \<or> \<not> is_fin b \<and> b \<noteq> NaN then False
      else let d = fabs (fsub b a)
           in fle d (fabs (fmul r b)) \<or> fle d (fabs (fmul r a)) \<or> fle d t)"

text \<open>The default relative tolerance, the literal \<open>1e-09\<close>.\<close>

abbreviation rel_default :: f64 where "rel_default \<equiv> lit (1 / 10 ^ 9)"

text \<open>\<open>timedelta.total_seconds()\<close> of a difference in microseconds.\<close>

definition total_seconds :: "int \<Rightarrow> f64" where
  "total_seconds us = rnd (of_int us / 1000000)"

text \<open>The quotient of two integers under true division.\<close>

definition int_div :: "int \<Rightarrow> int \<Rightarrow> f64 res" where
  "int_div a b = (if b = 0 then Inl ZeroDivisionError else Inr (rnd (of_int a / of_int b)))"

text \<open>\<open>math.floor(x)\<close>, and an integer converted to a float.\<close>

fun py_floor :: "f64 \<Rightarrow> int res" where
  "py_floor (Fin x) = Inr \<lfloor>x\<rfloor>"
| "py_floor NaN = Inl (ValueError ''cannot convert float NaN to integer'')"
| "py_floor _ = Inl OverflowError"

definition float_of_int :: "int \<Rightarrow> f64 res" where
  "float_of_int k = (case rnd (of_int k) of Fin x \<Rightarrow> Inr (Fin x) | _ \<Rightarrow> Inl OverflowError)"

text \<open>\<open>round(x, n)\<close>: the nearest decimal with \<open>n\<close> places, then the nearest float.\<close>

fun py_round :: "f64 \<Rightarrow> int \<Rightarrow> f64 res" where
  "py_round (Fin x) n =
     (if 323 < n then Inr (Fin x)
      else if n < - 308 then Inr (Fin 0)
      else (case rnd (of_int (rhe (x * 10 powi n)) / 10 powi n) of
              Fin y \<Rightarrow> Inr (Fin y) | _ \<Rightarrow> Inl OverflowError))"
| "py_round a n = Inr a"

text \<open>
  \<open>sum(xs)\<close> of floats since Python 3.12: Neumaier's compensated summation. The integer start
  value is added to the first item exactly; the compensation is added at the end when it is
  finite and not zero. The empty sum is the integer zero, which behaves as the float zero in
  every use the modelled code makes of it.
\<close>

fun neumaier :: "f64 \<Rightarrow> f64 \<Rightarrow> f64 list \<Rightarrow> f64" where
  "neumaier s c [] = (if is_fin c \<and> c \<noteq> Fin 0 then fadd s c else s)"
| "neumaier s c (x # xs) =
     (let t = fadd s x;
          c' = (if fle (fabs x) (fabs s) then fadd c (fadd (fsub s t) x)
                else fadd c (fadd (fsub x t) s))
      in neumaier t c' xs)"

fun fsum :: "f64 list \<Rightarrow> f64" where
  "fsum [] = Fin 0"
| "fsum (x # xs) = neumaier x (Fin 0) xs"

subsection \<open>Laws of rounding\<close>

lemma rnd_0 [simp]: "rnd 0 = Fin 0"
  by (simp add: rnd_def f64_max_def)

lemma rnd_not_NaN [simp]: "rnd q \<noteq> NaN"
  by (simp add: rnd_def Let_def)

lemma rnd_exact: "round_val q = q \<Longrightarrow> \<bar>q\<bar> \<le> f64_max \<Longrightarrow> rnd q = Fin q"
  by (simp add: rnd_def Let_def abs_le_iff)

lemma is_f64_rnd [simp]: "is_f64 (rnd q)"
  by (auto simp: rnd_def Let_def abs_le_iff not_less)

lemma rnd_of_is_f64: "is_f64 (Fin x) \<Longrightarrow> rnd x = Fin x"
  by (simp add: rnd_exact)

lemma rnd_of_int: "\<bar>k\<bar> < 2 ^ 53 \<Longrightarrow> rnd (of_int k) = Fin (of_int k)"
proof (rule rnd_exact)
  assume k: "\<bar>k\<bar> < 2 ^ 53"
  then show "round_val (of_int k) = of_int k" by (rule round_val_of_int)
  have "\<bar>of_int k :: rat\<bar> = of_int \<bar>k\<bar>" by simp
  also have "\<dots> \<le> of_int (2 ^ 53)" using k by (simp only: of_int_le_iff)
  finally show "\<bar>of_int k\<bar> \<le> f64_max" by (simp add: f64_max_def)
qed

lemma rnd_1 [simp]: "rnd 1 = Fin 1"
  using rnd_of_int[of 1] by simp

lemma rnd_minus: "rnd (- q) = fneg (rnd q)"
proof -
  have "(0::rat) \<le> f64_max" by (simp add: f64_max_def)
  then show ?thesis by (auto simp: rnd_def Let_def round_val_minus)
qed

lemma rnd_mono: "p \<le> q \<Longrightarrow> fle (rnd p) (rnd q)"
  using round_val_mono[of p q] by (auto simp: rnd_def Let_def)

lemma rnd_le: "q \<le> c \<Longrightarrow> is_f64 (Fin c) \<Longrightarrow> fle (rnd q) (Fin c)"
  by (metis rnd_mono rnd_of_is_f64)

lemma rnd_ge: "c \<le> q \<Longrightarrow> is_f64 (Fin c) \<Longrightarrow> fle (Fin c) (rnd q)"
  by (metis rnd_mono rnd_of_is_f64)

lemma is_f64_01 [simp]: "is_f64 (Fin 0)" "is_f64 (Fin 1)"
  by (simp_all add: f64_max_def)

lemma rnd_nonneg: "0 \<le> q \<Longrightarrow> fle (Fin 0) (rnd q)"
  using rnd_mono[of 0 q] by simp

lemma rnd_nonpos: "q \<le> 0 \<Longrightarrow> fle (rnd q) (Fin 0)"
  using rnd_mono[of q 0] by simp

lemma total_seconds_mono: "a \<le> b \<Longrightarrow> fle (total_seconds a) (total_seconds b)"
  by (simp add: total_seconds_def rnd_mono divide_right_mono)

lemma total_seconds_nonneg: "0 \<le> a \<Longrightarrow> fle (Fin 0) (total_seconds a)"
  by (simp add: total_seconds_def rnd_nonneg)

lemma total_seconds_not_NaN [simp]: "total_seconds a \<noteq> NaN"
  by (simp add: total_seconds_def)

lemma fneg_fneg [simp]: "fneg (fneg a) = a"
  by (cases a) auto

lemma fabs_fneg [simp]: "fabs (fneg a) = fabs a"
  by (cases a) auto

lemma is_fin_fneg [simp]: "is_fin (fneg a) = is_fin a"
  by (cases a) auto

lemma fneg_eq_iff [simp]: "fneg a = fneg b \<longleftrightarrow> a = b"
  by (cases a; cases b) auto

lemma flt_fneg [simp]: "flt (fneg a) (fneg b) = flt b a" "fle (fneg a) (fneg b) = fle b a"
  by (cases a; cases b; simp)+

lemma fneg_inf_of_sign: "inf_of_sign (- x) = fneg (inf_of_sign x)"
  by (simp add: inf_of_sign_def)

lemma fmul_fneg_left: "fmul (fneg a) b = fneg (fmul a b)"
  by (cases a; cases b) (simp_all add: rnd_minus fneg_inf_of_sign)

lemma fadd_commute: "fadd a b = fadd b a"
  by (cases a; cases b) (simp_all add: add.commute)

lemma fadd_fneg: "fadd (fneg a) (fneg b) = fneg (fadd a b)"
proof (cases a; cases b)
  fix x y assume "a = Fin x" "b = Fin y"
  then show ?thesis using rnd_minus[of "x + y"] by simp
qed simp_all

lemma fsub_swap: "fsub b a = fneg (fsub a b)"
  unfolding fsub_def by (metis fadd_commute fadd_fneg fneg_fneg)

lemma pymax_ge: "a \<noteq> NaN \<Longrightarrow> fle a (pymax a b)"
  by (cases a; cases b) (auto simp: pymax_def)

lemma pymin_le: "a \<noteq> NaN \<Longrightarrow> fle (pymin a b) a"
  by (cases a; cases b) (auto simp: pymin_def)

lemma pymin_le2: "a \<noteq> NaN \<Longrightarrow> b \<noteq> NaN \<Longrightarrow> fle (pymin a b) b"
  by (cases a; cases b) (auto simp: pymin_def)

lemma pymax_ge2: "a \<noteq> NaN \<Longrightarrow> b \<noteq> NaN \<Longrightarrow> fle b (pymax a b)"
  by (cases a; cases b) (auto simp: pymax_def)

lemma pymin_mono: "fle a a' \<Longrightarrow> fle b b' \<Longrightarrow> fle (pymin a b) (pymin a' b')"
  by (cases a; cases a'; cases b; cases b') (auto simp: pymin_def)

lemma isclose_refl: "a \<noteq> NaN \<Longrightarrow> isclose a a r t"
  by (simp add: isclose_def feq_def)

subsection \<open>Evaluating closed float terms\<close>

text \<open>
  The kernel evaluates a rounding from a certificate: the exponent of the quantum and the
  rounded multiple. Small integers and short binary fractions are exact.
\<close>

lemma ilog2_unique:
  assumes "0 < q" "2 powi e \<le> q" "q < 2 powi (e + 1)"
  shows "ilog2 q = e"
proof -
  have "(2::rat) powi (ilog2 q) < 2 powi (e + 1)" "(2::rat) powi e < 2 powi (ilog2 q + 1)"
    using ilog2_bounds[OF assms(1)] assms by (meson order.strict_trans1)+
  then show ?thesis by (simp add: powi2_less_iff)
qed

lemma rhe_unique: "\<bar>q - of_int m\<bar> < 1 / 2 \<Longrightarrow> rhe q = m"
  using rhe_error[of q] by linarith

lemma rnd_cert:
  assumes "2 powi (e + 52) \<le> q" "q < 2 powi (e + 53)" "- 1074 \<le> e"
    and "\<bar>q / 2 powi e - of_int m\<bar> < 1 / 2" "of_int m * 2 powi e \<le> f64_max"
  shows "rnd q = Fin (of_int m * 2 powi e)"
proof -
  have q: "0 < q" using assms(1) by (meson order.strict_trans2 zero_less_power_int zero_less_numeral)
  then have "ilog2 \<bar>q\<bar> = e + 52"
    using assms(1,2) by (intro ilog2_unique) (auto simp: add.commute)
  then have "quantum_exp q = e" using assms(3) by (simp add: quantum_exp_def)
  then have v: "round_val q = of_int m * 2 powi e"
    using q rhe_unique[OF assms(4)] by (simp add: round_val_def Let_def)
  have "0 \<le> round_val q" using q by (simp add: round_val_nonneg)
  moreover have "- f64_max < 0" by (simp add: f64_max_def)
  ultimately show ?thesis using assms(5) unfolding rnd_def v[symmetric] Let_def by auto
qed

lemma rnd_tenth: "rnd (1 / 10) = Fin (3602879701896397 / 36028797018963968)"
  using rnd_cert[of "- 56" "1 / 10" 7205759403792794]
  by (simp add: power_int_def f64_max_def power_one_over)

lemma rnd_pico: "rnd (1 / 10 ^ 12) = Fin (4951760157141521 / 2 ^ 92)"
  using rnd_cert[of "- 92" "1 / 10 ^ 12" 4951760157141521]
  by (simp add: power_int_def f64_max_def power_one_over)

lemma rnd_numeral: "(numeral k :: int) < 2 ^ 53 \<Longrightarrow> rnd (numeral k) = Fin (numeral k)"
  using rnd_of_int[of "numeral k"] by simp

lemma rnd_neg_numeral: "(numeral k :: int) < 2 ^ 53 \<Longrightarrow> rnd (- numeral k) = Fin (- numeral k)"
  by (simp add: rnd_minus rnd_numeral)

lemma rnd_dyadic:
  assumes "\<bar>m\<bar> < 2 ^ 53" "j \<le> 1000"
  shows "rnd (of_int m / 2 ^ j) = Fin (of_int m / 2 ^ j)"
proof (rule rnd_exact)
  show "round_val (of_int m / 2 ^ j) = of_int m / 2 ^ j"
    using assms by (intro round_val_exact[of m "- int j"])
      (auto simp: power_int_minus divide_inverse)
  have "\<bar>of_int m / 2 ^ j :: rat\<bar> = of_int \<bar>m\<bar> / 2 ^ j" by simp
  also have "\<dots> \<le> of_int \<bar>m\<bar>" by (simp add: divide_le_eq mult_le_cancel_left1)
  also have "\<dots> \<le> of_int (2 ^ 53)" using assms(1) by (simp only: of_int_le_iff)
  finally show "\<bar>of_int m / 2 ^ j\<bar> \<le> f64_max" by (simp add: f64_max_def)
qed

lemma rnd_half: "(numeral k :: int) < 2 ^ 53 \<Longrightarrow> rnd (numeral k / 2) = Fin (numeral k / 2)"
  using rnd_dyadic[of "numeral k" 1] by simp

lemma rnd_quarter: "(numeral k :: int) < 2 ^ 53 \<Longrightarrow> rnd (numeral k / 4) = Fin (numeral k / 4)"
  using rnd_dyadic[of "numeral k" 2] by simp

lemma rnd_eighth: "(numeral k :: int) < 2 ^ 53 \<Longrightarrow> rnd (numeral k / 8) = Fin (numeral k / 8)"
  using rnd_dyadic[of "numeral k" 3] by simp

lemma rnd_inv_pow2: "rnd (1 / 2) = Fin (1 / 2)" "rnd (1 / 4) = Fin (1 / 4)" "rnd (1 / 8) = Fin (1 / 8)"
  using rnd_dyadic[of 1 1] rnd_dyadic[of 1 2] rnd_dyadic[of 1 3] by simp_all

lemmas rnd_eval = rnd_numeral rnd_neg_numeral rnd_half rnd_quarter rnd_eighth rnd_inv_pow2

lemma is_f64_of_rnd: "rnd q = Fin q \<Longrightarrow> is_f64 (Fin q)"
  by (metis is_f64_rnd)

lemma is_f64_eval [simp]:
  "(numeral k :: int) < 2 ^ 53 \<Longrightarrow> is_f64 (Fin (numeral k))"
  "(numeral k :: int) < 2 ^ 53 \<Longrightarrow> is_f64 (Fin (numeral k / 2))"
  "(numeral k :: int) < 2 ^ 53 \<Longrightarrow> is_f64 (Fin (numeral k / 4))"
  "(numeral k :: int) < 2 ^ 53 \<Longrightarrow> is_f64 (Fin (numeral k / 8))"
  "is_f64 (Fin (1 / 2))" "is_f64 (Fin (1 / 4))" "is_f64 (Fin (1 / 8))"
  by (simp_all only: is_f64_of_rnd rnd_eval)

declare is_f64.simps(1) [simp del]

lemma is_f64_fneg [simp]: "is_f64 (fneg a) = is_f64 a"
  by (cases a) (simp_all add: is_f64.simps round_val_minus)

lemma is_f64_fadd [simp]: "is_f64 a \<Longrightarrow> is_f64 b \<Longrightarrow> is_f64 (fadd a b)"
  by (cases a; cases b) simp_all

lemma is_f64_inf_of_sign [simp]: "is_f64 (inf_of_sign x)"
  by (simp add: inf_of_sign_def)

lemma is_f64_fsub [simp]: "is_f64 a \<Longrightarrow> is_f64 b \<Longrightarrow> is_f64 (fsub a b)"
  by (simp add: fsub_def)

lemma is_f64_fmul [simp]: "is_f64 (fmul a b)"
  by (cases a; cases b) simp_all

lemma is_f64_pymin [simp]: "is_f64 a \<Longrightarrow> is_f64 b \<Longrightarrow> is_f64 (pymin a b)"
  by (simp add: pymin_def)

lemma is_f64_pymax [simp]: "is_f64 a \<Longrightarrow> is_f64 b \<Longrightarrow> is_f64 (pymax a b)"
  by (simp add: pymax_def)

lemma is_f64_total_seconds [simp]: "is_f64 (total_seconds us)"
  by (simp add: total_seconds_def)

lemma is_f64_fdiv: "fdiv a b = Inr c \<Longrightarrow> is_f64 c"
  by (cases b; cases a) (auto split: if_splits)

subsection \<open>Sums\<close>

text \<open>The difference of two floats within a factor of two is exact.\<close>

lemma f64_multiple:
  assumes "is_f64 (Fin x)" "x \<noteq> 0" "e \<le> quantum_exp x"
  obtains k where "x = of_int k * 2 powi e"
proof -
  have "x = of_int (rhe (x / 2 powi (quantum_exp x))) * 2 powi (quantum_exp x)"
    using assms(1,2) by (simp add: is_f64.simps round_val_def Let_def)
  moreover obtain j where "(2::rat) powi (quantum_exp x) = of_int j * 2 powi e"
    using powi2_multiple[OF assms(3)] by blast
  ultimately have "x = of_int (rhe (x / 2 powi (quantum_exp x)) * j) * 2 powi e"
    by (metis mult.assoc of_int_mult)
  then show thesis by (rule that)
qed

lemma diff_exact:
  assumes "is_f64 (Fin s)" "is_f64 (Fin t)" "0 \<le> s" "s \<le> t" "t \<le> 2 * s"
  shows "rnd (t - s) = Fin (t - s)"
proof (cases "s = 0")
  case False
  let ?e = "quantum_exp s"
  have s: "0 < s" using False assms(3) by simp
  have e: "- 1074 \<le> ?e" by (simp add: quantum_exp_def)
  obtain a where a: "s = of_int a * 2 powi ?e" using f64_multiple[OF assms(1) False] by blast
  obtain b where b: "t = of_int b * 2 powi ?e"
    using f64_multiple[OF assms(2)] quantum_exp_mono[OF s assms(4)] s assms(4)
    by (metis less_le_not_le order_less_le_trans)
  have d: "t - s = of_int (b - a) * 2 powi ?e" using a b by (simp add: left_diff_distrib)
  have "s < 2 powi (ilog2 \<bar>s\<bar> + 1)" using s ilog2_bounds[of s] by simp
  also have "\<dots> \<le> 2 powi (53 + ?e)" by (simp add: powi2_le_iff quantum_exp_def)
  also have "\<dots> = of_int (2 ^ 53) * 2 powi ?e" by (subst power_int_add) auto
  finally have "s < of_int (2 ^ 53) * 2 powi ?e" .
  then have "of_int (b - a) * 2 powi ?e < of_int (2 ^ 53) * (2::rat) powi ?e"
    using assms(5) d by linarith
  then have "b - a < 2 ^ 53" by (simp only: mult_less_cancel_right_pos of_int_less_iff zero_less_power_int zero_less_numeral)
  moreover have "0 \<le> b - a"
  proof -
    have "0 \<le> of_int (b - a) * (2::rat) powi ?e" using d assms(4) by simp
    then show ?thesis
      using mult_le_cancel_right_pos[of "(2::rat) powi ?e" 0 "of_int (b - a)"] by simp
  qed
  ultimately have "round_val (t - s) = t - s"
    using round_val_exact[of "b - a" ?e "t - s"] d e by simp
  moreover have "\<bar>t - s\<bar> \<le> f64_max" using assms by (simp add: is_f64.simps)
  ultimately show ?thesis by (rule rnd_exact)
qed (use assms in simp)

text \<open>
  The compensated sum of numbers between 0 and 16 is a finite number and not negative, for a list
  of any length: the running sum never passes \<open>2^58\<close>, and the compensation never exceeds it.
\<close>

lemma sum_cap: "rnd (2 ^ 58 + 16) = Fin (2 ^ 58)"
  using rnd_cert[of 6 "2 ^ 58 + 16" "2 ^ 52"] by (simp add: f64_max_def)

lemma is_f64_cap: "is_f64 (Fin (2 ^ 58))"
  using is_f64_rnd[of "2 ^ 58 + 16"] unfolding sum_cap .

lemma f64_max_ge: "2 ^ 60 \<le> f64_max"
  by (simp add: f64_max_def)

lemma rnd_le_num: "q \<le> c \<Longrightarrow> is_f64 (Fin c) \<Longrightarrow> rnd q = Fin v \<Longrightarrow> v \<le> c"
  using rnd_le[of q c] by simp

lemma rnd_ge_num: "c \<le> q \<Longrightarrow> is_f64 (Fin c) \<Longrightarrow> rnd q = Fin v \<Longrightarrow> c \<le> v"
  using rnd_ge[of c q] by simp

lemma rnd_between:
  assumes "a \<le> q" "q \<le> b" "is_f64 (Fin a)" "is_f64 (Fin b)"
  obtains v where "rnd q = Fin v" "a \<le> v" "v \<le> b"
  using rnd_ge[OF assms(1,3)] rnd_le[OF assms(2,4)] by (cases "rnd q") auto

lemma is_f64_minus: "is_f64 (Fin x) \<Longrightarrow> is_f64 (Fin (- x))"
  using is_f64_fneg[of "Fin x"] by simp

lemma is_f64_double: "is_f64 (Fin x) \<Longrightarrow> \<bar>x\<bar> \<le> 2 ^ 58 \<Longrightarrow> is_f64 (Fin (2 * x))"
proof -
  assume x: "is_f64 (Fin x)" "\<bar>x\<bar> \<le> 2 ^ 58"
  have "round_val (2 * x) = 2 * x"
  proof (cases "x = 0")
    case False
    let ?e = "quantum_exp x"
    obtain k where k: "x = of_int k * 2 powi ?e" using f64_multiple[OF x(1) False] by blast
    have "\<bar>x\<bar> < 2 powi (ilog2 \<bar>x\<bar> + 1)" using False by (simp add: ilog2_bounds)
    also have "\<dots> \<le> 2 powi (53 + ?e)" by (simp add: powi2_le_iff quantum_exp_def)
    also have "\<dots> = of_int (2 ^ 53) * 2 powi ?e" by (subst power_int_add) auto
    finally have "of_int \<bar>k\<bar> * 2 powi ?e < of_int (2 ^ 53) * (2::rat) powi ?e"
      by (subst (asm) (1) k) (simp add: abs_mult)
    then have "\<bar>k\<bar> < 2 ^ 53"
      by (simp only: mult_less_cancel_right_pos of_int_less_iff zero_less_power_int zero_less_numeral)
    moreover have "2 * x = of_int k * 2 powi (?e + 1)"
      by (subst k, subst power_int_add) auto
    ultimately show ?thesis by (intro round_val_exact[of k "?e + 1"]) (auto simp: quantum_exp_def)
  qed simp
  moreover have "\<bar>2 * x\<bar> \<le> f64_max" using x(2) f64_max_ge by simp
  ultimately show ?thesis by (simp add: is_f64.simps)
qed

lemma two_sum_step:
  assumes "is_f64 (Fin s)" "is_f64 (Fin x)" "0 \<le> x" "x \<le> s" "s \<le> 2 ^ 58" "rnd (s + x) = Fin t"
  obtains e where "fadd (fsub (Fin s) (Fin t)) (Fin x) = Fin e" "s - t \<le> e" "e \<le> x" "s \<le> t"
proof -
  have t: "is_f64 (Fin t)" using assms(6) is_f64_rnd by metis
  have st: "s \<le> t" using rnd_ge_num[OF _ assms(1,6)] assms(3) by simp
  have "t \<le> 2 * s"
    using rnd_le_num[OF _ is_f64_double[OF assms(1)] assms(6)] assms(3-5) by simp
  then have d: "rnd (t - s) = Fin (t - s)" using diff_exact[OF assms(1) t] st assms(3,4) by simp
  then have m: "rnd (s - t) = Fin (s - t)" using rnd_minus[of "t - s"] by simp
  have "is_f64 (Fin (s - t))" using m is_f64_rnd by metis
  then obtain e where "rnd (s - t + x) = Fin e" "s - t \<le> e" "e \<le> x"
    using rnd_between[of "s - t" "s - t + x" x] assms(2,3) st by auto
  then show thesis using that[of e] m st by (simp add: fsub_def)
qed

lemma neumaier_range:
  assumes "list_all (\<lambda>a. \<exists>x. a = Fin x \<and> is_f64 a \<and> 0 \<le> x \<and> x \<le> 16) xs"
    and "is_f64 (Fin s)" "is_f64 (Fin c)" "0 \<le> s" "s \<le> 2 ^ 58" "- s \<le> c" "c \<le> s"
  shows "\<exists>v. neumaier (Fin s) (Fin c) xs = Fin v \<and> 0 \<le> v \<and> v \<le> 2 ^ 59"
  using assms
proof (induction xs arbitrary: s c)
  case Nil
  have "is_f64 (Fin (2 * 2 ^ 58))" using is_f64_double[OF is_f64_cap] by simp
  then obtain v where "rnd (s + c) = Fin v" "0 \<le> v" "v \<le> 2 * 2 ^ 58"
    using rnd_between[of 0 "s + c" "2 * 2 ^ 58"] Nil.prems by auto
  then show ?case using Nil.prems by simp
next
  case (Cons a xs)
  then obtain x where x: "a = Fin x" "is_f64 (Fin x)" "0 \<le> x" "x \<le> 16" by auto
  obtain t where t: "rnd (s + x) = Fin t" "0 \<le> t" "t \<le> 2 ^ 58"
  proof -
    have "fle (rnd (s + x)) (Fin (2 ^ 58))"
      using rnd_mono[of "s + x" "2 ^ 58 + 16"] Cons.prems(5) x(4) unfolding sum_cap by simp
    moreover have "fle (Fin 0) (rnd (s + x))" using rnd_nonneg[of "s + x"] Cons.prems(4) x(3) by simp
    ultimately show thesis using that by (cases "rnd (s + x)") auto
  qed
  have ft: "is_f64 (Fin t)" using t(1) is_f64_rnd by metis
  obtain e where e: "(if x \<le> s then fadd (fsub (Fin s) (Fin t)) (Fin x)
      else fadd (fsub (Fin x) (Fin t)) (Fin s)) = Fin e" "- t \<le> c + e" "c + e \<le> s + x"
  proof (cases "x \<le> s")
    case True
    obtain e where "fadd (fsub (Fin s) (Fin t)) (Fin x) = Fin e" "s - t \<le> e" "e \<le> x"
      using two_sum_step[OF Cons.prems(2) x(2,3) True Cons.prems(5) t(1)] by blast
    then show thesis using that[of e] True Cons.prems(6,7) by simp
  next
    case False
    have x58: "x \<le> 2 ^ 58" using x(4) by simp
    have "rnd (x + s) = Fin t" using t(1) by (simp add: add.commute)
    then obtain e where "fadd (fsub (Fin x) (Fin t)) (Fin s) = Fin e" "x - t \<le> e" "e \<le> s"
      using two_sum_step[OF x(2) Cons.prems(2,4) _ x58] False by auto
    then show thesis using that[of e] False Cons.prems(6,7) by simp
  qed
  have "is_f64 (Fin e)" using e(1) by (metis Cons.prems(2) x(2) ft is_f64_fadd is_f64_fsub)
  obtain c' where c': "rnd (c + e) = Fin c'" "- t \<le> c'" "c' \<le> t"
  proof -
    have "fle (rnd (c + e)) (Fin t)" using rnd_mono[OF e(3)] t(1) by simp
    moreover have "fle (Fin (- t)) (rnd (c + e))" using rnd_ge[OF e(2) is_f64_minus[OF ft]] .
    ultimately show thesis using that by (cases "rnd (c + e)") auto
  qed
  have "is_f64 (Fin c')" using c'(1) is_f64_rnd by metis
  moreover have "neumaier (Fin s) (Fin c) (a # xs) = neumaier (Fin t) (Fin c') xs"
    using e(1) Cons.prems(4) x(3) by (cases "x \<le> s") (auto simp: Let_def x(1) t(1) c'(1))
  ultimately show ?case using Cons.IH[OF _ ft _ t(2,3) c'(2,3)] Cons.prems(1) by simp
qed

lemma fsum_range:
  assumes "list_all (\<lambda>a. \<exists>x. a = Fin x \<and> is_f64 a \<and> 0 \<le> x \<and> x \<le> 16) xs"
  shows "\<exists>v. fsum xs = Fin v \<and> 0 \<le> v \<and> v \<le> 2 ^ 59"
proof (cases xs)
  case (Cons a ys)
  then show ?thesis using assms neumaier_range[of ys _ 0] by fastforce
qed simp

lemma is_f64_neumaier: "is_f64 s \<Longrightarrow> is_f64 c \<Longrightarrow> list_all is_f64 xs \<Longrightarrow> is_f64 (neumaier s c xs)"
  by (induction xs arbitrary: s c) (simp_all add: Let_def)

lemma is_f64_fsum: "list_all is_f64 xs \<Longrightarrow> is_f64 (fsum xs)"
  by (cases xs) (simp_all add: is_f64_neumaier)

end
