(* ===== verification/RuntimeState.thy ===== *)
theory RuntimeState
  imports Versioning PyFloat
begin

section \<open>Shared runtime state (\<open>runtime/state.py\<close>, \<open>runtime/clock.py\<close>)\<close>

text \<open>
  One record per pydantic contract of \<open>runtime/state.py\<close>, with a constructor \<open>mk_\<dots>\<close> that runs
  the field constraints and then the model validator's checks in source order. Nested contracts
  are already validated values. \<open>schema_version\<close> is a constant and is not a field of the model.
  Timestamps are UTC microseconds; \<open>ensure_utc\<close> converts an aware Python datetime.
\<close>

subsection \<open>Clocks\<close>

text \<open>A Python datetime: naive, or local microseconds with the offset from UTC in microseconds.\<close>

datatype py_datetime = Naive int | Aware int int

definition ensure_utc :: "py_datetime \<Rightarrow> dt res" where
  "ensure_utc v = (case v of
     Naive _ \<Rightarrow> Inl (ValueError ''timestamp must be timezone-aware'')
   | Aware local offset \<Rightarrow>
       (let u = local - offset in if dt_min \<le> u \<and> u \<le> dt_max then Inr u else Inl OverflowError))"

abbreviation utc :: "dt \<Rightarrow> py_datetime" where "utc t \<equiv> Aware t 0"

lemma ensure_utc_utc: "dt_min \<le> t \<Longrightarrow> t \<le> dt_max \<Longrightarrow> ensure_utc (utc t) = Inr t"
  by (simp add: ensure_utc_def)

lemma ensure_utc_Inr_iff:
  "ensure_utc v = Inr t \<longleftrightarrow> (\<exists>l off. v = Aware l off \<and> t = l - off \<and> dt_min \<le> t \<and> t \<le> dt_max)"
  by (auto simp: ensure_utc_def Let_def split: py_datetime.splits if_splits)

record replay_clock = rc_current :: dt

definition replay_clock_init :: "py_datetime \<Rightarrow> replay_clock res" where
  "replay_clock_init initial_time =
     res_bind (ensure_utc initial_time) (\<lambda>t. Inr \<lparr>rc_current = t\<rparr>)"

definition clock_now :: "replay_clock \<Rightarrow> dt" where
  "clock_now c = rc_current c"

definition advance_to :: "replay_clock \<Rightarrow> py_datetime \<Rightarrow> replay_clock res" where
  "advance_to c value = res_bind (ensure_utc value) (\<lambda>t.
     if t < rc_current c then Inl (ValueError ''replay clock cannot move backwards'')
     else Inr (c\<lparr>rc_current := t\<rparr>))"

subsection \<open>Field constraints\<close>

text \<open>
  \<open>Field(min_length=1)\<close>, \<open>Field(gt=0)\<close> and \<open>Field(ge=0)\<close> on integers and on \<open>FiniteFloat\<close>s.
  A constraint on an optional field applies to a present value only. Every Python float is a
  binary64 number, which the constraints on floats record.
\<close>

definition nonempty :: "string \<Rightarrow> string \<Rightarrow> bool \<times> py_error" where
  "nonempty name s = (s \<noteq> [], FieldError name)"

definition pos_fin :: "f64 \<Rightarrow> bool" where
  "pos_fin x \<longleftrightarrow> is_f64 x \<and> is_fin x \<and> flt (Fin 0) x"

definition nonneg_fin :: "f64 \<Rightarrow> bool" where
  "nonneg_fin x \<longleftrightarrow> is_f64 x \<and> is_fin x \<and> fle (Fin 0) x"

abbreviation field_ok :: "string \<Rightarrow> bool \<Rightarrow> bool \<times> py_error" where
  "field_ok name b \<equiv> (b, FieldError name)"

abbreviation rule_ok :: "string \<Rightarrow> bool \<Rightarrow> bool \<times> py_error" where
  "rule_ok msg b \<equiv> (b, ValueError msg)"

lemma fst_nonempty [simp]: "fst (nonempty n s) \<longleftrightarrow> s \<noteq> []"
  by (simp add: nonempty_def)

lemma pos_fin_Fin [simp]: "pos_fin (Fin x) \<longleftrightarrow> is_f64 (Fin x) \<and> 0 < x"
  by (simp add: pos_fin_def)

lemma nonneg_fin_Fin [simp]: "nonneg_fin (Fin x) \<longleftrightarrow> is_f64 (Fin x) \<and> 0 \<le> x"
  by (simp add: nonneg_fin_def)

lemma pos_finE: "pos_fin a \<Longrightarrow> (\<And>x. a = Fin x \<Longrightarrow> is_f64 a \<Longrightarrow> 0 < x \<Longrightarrow> P) \<Longrightarrow> P"
  by (cases a) (auto simp: pos_fin_def)

lemma nonneg_finE: "nonneg_fin a \<Longrightarrow> (\<And>x. a = Fin x \<Longrightarrow> is_f64 a \<Longrightarrow> 0 \<le> x \<Longrightarrow> P) \<Longrightarrow> P"
  by (cases a) (auto simp: nonneg_fin_def)

text \<open>\<open>Field(ge=0.0, le=1.0)\<close>.\<close>

definition unit_float :: "f64 \<Rightarrow> bool" where
  "unit_float x \<longleftrightarrow> is_f64 x \<and> fle (Fin 0) x \<and> fle x (Fin 1)"

lemma unit_floatE:
  "unit_float a \<Longrightarrow> (\<And>x. a = Fin x \<Longrightarrow> is_f64 a \<Longrightarrow> 0 \<le> x \<Longrightarrow> x \<le> 1 \<Longrightarrow> P) \<Longrightarrow> P"
  by (cases a) (auto simp: unit_float_def)

lemma unit_float_Fin [simp]: "unit_float (Fin x) \<longleftrightarrow> is_f64 (Fin x) \<and> 0 \<le> x \<and> x \<le> 1"
  by (simp add: unit_float_def)

lemma unit_float_special [simp]: "\<not> unit_float PInf" "\<not> unit_float NInf" "\<not> unit_float NaN"
  by (simp_all add: unit_float_def)

text \<open>A present, non-empty text (\<open>bool(value)\<close> of an optional string).\<close>

definition truthy :: "string option \<Rightarrow> bool" where
  "truthy s = opt_some (\<lambda>x. x \<noteq> []) s"

lemma truthy_simps [simp]: "\<not> truthy None" "truthy (Some s) \<longleftrightarrow> s \<noteq> []"
  by (simp_all add: truthy_def)

subsection \<open>Component freshness\<close>

datatype freshness_status = FS_UNKNOWN | FS_UNAVAILABLE | FS_STALE | FS_AVAILABLE

record component_freshness =
  cf_component :: string
  cf_status :: freshness_status
  cf_observed_at :: "dt option"
  cf_available_at :: "dt option"
  cf_stale_after_ms :: "int option"
  cf_reason :: "string option"

definition mk_freshness :: "component_freshness \<Rightarrow> component_freshness res" where
  "mk_freshness f = validate
     [nonempty ''component'' (cf_component f),
      field_ok ''stale_after_ms'' (opt_all (\<lambda>x. 0 < x) (cf_stale_after_ms f)),
      rule_ok ''observed_at and available_at must be supplied together''
        ((cf_observed_at f = None) = (cf_available_at f = None)),
      rule_ok ''available_at must not precede observed_at''
        (case (cf_observed_at f, cf_available_at f) of
           (Some ob, Some av) \<Rightarrow> ob \<le> av | _ \<Rightarrow> True),
      rule_ok ''available or stale state requires observation timestamps''
        (\<not> (cf_status f \<in> {FS_AVAILABLE, FS_STALE} \<and> cf_observed_at f = None)),
      rule_ok ''unavailable state requires a reason''
        (\<not> (cf_status f = FS_UNAVAILABLE \<and> \<not> truthy (cf_reason f)))] f"

definition without_measurements :: "component_freshness \<Rightarrow> bool" where
  "without_measurements f \<longleftrightarrow> cf_status f \<in> {FS_UNKNOWN, FS_UNAVAILABLE}"

subsection \<open>Market and account\<close>

record market_state =
  ms_source :: string
  ms_symbol :: string
  ms_as_of :: dt
  ms_freshness :: component_freshness
  ms_bid :: "f64 option"
  ms_ask :: "f64 option"
  ms_last :: "f64 option"
  ms_spread_points :: "f64 option"
  ms_base_timeframe :: "string option"
  ms_completed_timeframes :: "string list"
  ms_feature_manifest_id :: "string option"
  ms_market_data_version :: "string option"

definition market_values :: "market_state \<Rightarrow> f64 option list" where
  "market_values m = [ms_bid m, ms_ask m, ms_last m, ms_spread_points m]"

definition mk_market_state :: "market_state \<Rightarrow> market_state res" where
  "mk_market_state m = validate
     [nonempty ''source'' (ms_source m), nonempty ''symbol'' (ms_symbol m),
      field_ok ''bid'' (opt_all pos_fin (ms_bid m)),
      field_ok ''ask'' (opt_all pos_fin (ms_ask m)),
      field_ok ''last'' (opt_all pos_fin (ms_last m)),
      field_ok ''spread_points'' (opt_all nonneg_fin (ms_spread_points m)),
      rule_ok ''unknown or unavailable market state cannot contain measurements''
        (\<not> (without_measurements (ms_freshness m) \<and> list_ex (\<lambda>v. v \<noteq> None) (market_values m))),
      rule_ok ''ask must not be below bid''
        (case (ms_bid m, ms_ask m) of (Some b, Some a) \<Rightarrow> \<not> flt a b | _ \<Rightarrow> True)] m"

record account_state =
  ac_source :: string
  ac_account_id :: string
  ac_as_of :: dt
  ac_freshness :: component_freshness
  ac_currency :: "string option"
  ac_balance :: "f64 option"
  ac_equity :: "f64 option"
  ac_free_margin :: "f64 option"
  ac_used_margin :: "f64 option"
  ac_margin_level :: "f64 option"
  ac_floating_pnl :: "f64 option"
  ac_daily_realized_pnl :: "f64 option"
  ac_daily_unrealized_pnl :: "f64 option"
  ac_daily_drawdown :: "f64 option"
  ac_total_drawdown :: "f64 option"

definition account_values :: "account_state \<Rightarrow> f64 option list" where
  "account_values a =
     [ac_balance a, ac_equity a, ac_free_margin a, ac_used_margin a, ac_margin_level a,
      ac_floating_pnl a, ac_daily_realized_pnl a, ac_daily_unrealized_pnl a,
      ac_daily_drawdown a, ac_total_drawdown a]"

definition mk_account_state :: "account_state \<Rightarrow> account_state res" where
  "mk_account_state a = validate
     [nonempty ''source'' (ac_source a), nonempty ''account_id'' (ac_account_id a),
      field_ok ''balance'' (opt_all nonneg_fin (ac_balance a)),
      field_ok ''equity'' (opt_all nonneg_fin (ac_equity a)),
      field_ok ''free_margin'' (opt_all is_fin (ac_free_margin a)),
      field_ok ''used_margin'' (opt_all nonneg_fin (ac_used_margin a)),
      field_ok ''margin_level'' (opt_all nonneg_fin (ac_margin_level a)),
      field_ok ''floating_pnl'' (opt_all is_fin (ac_floating_pnl a)),
      field_ok ''daily_realized_pnl'' (opt_all is_fin (ac_daily_realized_pnl a)),
      field_ok ''daily_unrealized_pnl'' (opt_all is_fin (ac_daily_unrealized_pnl a)),
      field_ok ''daily_drawdown'' (opt_all nonneg_fin (ac_daily_drawdown a)),
      field_ok ''total_drawdown'' (opt_all nonneg_fin (ac_total_drawdown a)),
      rule_ok ''unknown or unavailable account state cannot contain measurements''
        (\<not> (without_measurements (ac_freshness a) \<and> list_ex (\<lambda>v. v \<noteq> None) (account_values a)))] a"

subsection \<open>Positions and orders\<close>

datatype position_side = PS_BUY | PS_SELL

record position_state =
  pos_id :: string
  pos_source :: string
  pos_broker_ticket :: "int option"
  pos_replay_position_id :: "string option"
  pos_symbol :: string
  pos_side :: position_side
  pos_volume_lots :: f64
  pos_opened_at :: dt
  pos_open_price :: f64
  pos_current_price :: "f64 option"
  pos_stop_loss :: "f64 option"
  pos_take_profit :: "f64 option"
  pos_floating_pnl :: "f64 option"
  pos_commission :: "f64 option"
  pos_swap :: "f64 option"
  pos_setup_id :: "string option"
  pos_thesis_id :: "string option"

definition mk_position_state :: "(position_state \<Rightarrow> string) \<Rightarrow> position_state \<Rightarrow> position_state res" where
  "mk_position_state h p = res_bind (validate
     [nonempty ''source'' (pos_source p),
      field_ok ''broker_ticket'' (opt_all (\<lambda>t. 0 < t) (pos_broker_ticket p)),
      nonempty ''symbol'' (pos_symbol p),
      field_ok ''volume_lots'' (pos_fin (pos_volume_lots p)),
      field_ok ''open_price'' (pos_fin (pos_open_price p)),
      field_ok ''current_price'' (opt_all pos_fin (pos_current_price p)),
      field_ok ''stop_loss'' (opt_all pos_fin (pos_stop_loss p)),
      field_ok ''take_profit'' (opt_all pos_fin (pos_take_profit p)),
      field_ok ''floating_pnl'' (opt_all is_fin (pos_floating_pnl p)),
      field_ok ''commission'' (opt_all is_fin (pos_commission p)),
      field_ok ''swap'' (opt_all is_fin (pos_swap p)),
      rule_ok ''broker_ticket or replay_position_id is required''
        (\<not> (pos_broker_ticket p = None \<and> \<not> truthy (pos_replay_position_id p)))] p)
     (bind_identity ''pos-'' h (\<lambda>r. r\<lparr>pos_id := []\<rparr>) pos_id (\<lambda>i r. r\<lparr>pos_id := i\<rparr>)
        ''position_id does not match position content'')"

interpretation position_identity: content_addressed "''pos-''" h "\<lambda>r. r\<lparr>pos_id := []\<rparr>" pos_id
    "\<lambda>i r. r\<lparr>pos_id := i\<rparr>" "''position_id does not match position content''"
  for h :: "position_state \<Rightarrow> string"
  by unfold_locales simp_all

datatype order_type =
    BUY_LIMIT | SELL_LIMIT | BUY_STOP | SELL_STOP | BUY_STOP_LIMIT | SELL_STOP_LIMIT

record order_state =
  ord_id :: string
  ord_source :: string
  ord_broker_ticket :: "int option"
  ord_replay_order_id :: "string option"
  ord_symbol :: string
  ord_order_type :: order_type
  ord_volume_lots :: f64
  ord_created_at :: dt
  ord_price :: f64
  ord_stop_loss :: "f64 option"
  ord_take_profit :: "f64 option"
  ord_expires_at :: "dt option"
  ord_setup_id :: "string option"
  ord_thesis_id :: "string option"

definition mk_order_state :: "(order_state \<Rightarrow> string) \<Rightarrow> order_state \<Rightarrow> order_state res" where
  "mk_order_state h o' = res_bind (validate
     [nonempty ''source'' (ord_source o'),
      field_ok ''broker_ticket'' (opt_all (\<lambda>t. 0 < t) (ord_broker_ticket o')),
      nonempty ''symbol'' (ord_symbol o'),
      field_ok ''volume_lots'' (pos_fin (ord_volume_lots o')),
      field_ok ''price'' (pos_fin (ord_price o')),
      field_ok ''stop_loss'' (opt_all pos_fin (ord_stop_loss o')),
      field_ok ''take_profit'' (opt_all pos_fin (ord_take_profit o')),
      rule_ok ''broker_ticket or replay_order_id is required''
        (\<not> (ord_broker_ticket o' = None \<and> \<not> truthy (ord_replay_order_id o'))),
      rule_ok ''expires_at must follow created_at''
        (opt_all (\<lambda>e. ord_created_at o' < e) (ord_expires_at o'))] o')
     (bind_identity ''ord-'' h (\<lambda>r. r\<lparr>ord_id := []\<rparr>) ord_id (\<lambda>i r. r\<lparr>ord_id := i\<rparr>)
        ''order_id does not match order content'')"

interpretation order_identity: content_addressed "''ord-''" h "\<lambda>r. r\<lparr>ord_id := []\<rparr>" ord_id
    "\<lambda>i r. r\<lparr>ord_id := i\<rparr>" "''order_id does not match order content''"
  for h :: "order_state \<Rightarrow> string"
  by unfold_locales simp_all

record position_book_state =
  pb_source :: string
  pb_as_of :: dt
  pb_freshness :: component_freshness
  pb_positions :: "position_state list"

record order_book_state =
  ob_source :: string
  ob_as_of :: dt
  ob_freshness :: component_freshness
  ob_orders :: "order_state list"

definition mk_position_book :: "position_book_state \<Rightarrow> position_book_state res" where
  "mk_position_book b = validate [nonempty ''source'' (pb_source b)] b"

definition mk_order_book :: "order_book_state \<Rightarrow> order_book_state res" where
  "mk_order_book b = validate [nonempty ''source'' (ob_source b)] b"

subsection \<open>Exposure and broker constraints\<close>

record exposure_state =
  ex_as_of :: dt
  ex_freshness :: component_freshness
  ex_gross_lots :: "f64 option"
  ex_net_lots :: "f64 option"
  ex_gross_notional :: "f64 option"
  ex_net_notional :: "f64 option"

definition exposure_values :: "exposure_state \<Rightarrow> f64 option list" where
  "exposure_values e = [ex_gross_lots e, ex_net_lots e, ex_gross_notional e, ex_net_notional e]"

definition mk_exposure_state :: "exposure_state \<Rightarrow> exposure_state res" where
  "mk_exposure_state e = validate
     [field_ok ''gross_lots'' (opt_all nonneg_fin (ex_gross_lots e)),
      field_ok ''net_lots'' (opt_all is_fin (ex_net_lots e)),
      field_ok ''gross_notional'' (opt_all nonneg_fin (ex_gross_notional e)),
      field_ok ''net_notional'' (opt_all is_fin (ex_net_notional e)),
      rule_ok ''unknown or unavailable exposure state cannot contain measurements''
        (\<not> (without_measurements (ex_freshness e) \<and> list_ex (\<lambda>v. v \<noteq> None) (exposure_values e)))] e"

record broker_constraints =
  bc_source :: string
  bc_symbol :: string
  bc_as_of :: dt
  bc_freshness :: component_freshness
  bc_trade_allowed :: "bool option"
  bc_digits :: "int option"
  bc_volume_min :: "f64 option"
  bc_volume_max :: "f64 option"
  bc_volume_step :: "f64 option"
  bc_point_size :: "f64 option"
  bc_tick_size :: "f64 option"
  bc_tick_value_loss :: "f64 option"
  bc_stops_level_points :: "f64 option"
  bc_freeze_level_points :: "f64 option"

definition mk_broker_constraints :: "broker_constraints \<Rightarrow> broker_constraints res" where
  "mk_broker_constraints b = validate
     [nonempty ''source'' (bc_source b), nonempty ''symbol'' (bc_symbol b),
      field_ok ''digits'' (opt_all (\<lambda>d. 0 \<le> d \<and> d \<le> 12) (bc_digits b)),
      field_ok ''volume_min'' (opt_all pos_fin (bc_volume_min b)),
      field_ok ''volume_max'' (opt_all pos_fin (bc_volume_max b)),
      field_ok ''volume_step'' (opt_all pos_fin (bc_volume_step b)),
      field_ok ''point_size'' (opt_all pos_fin (bc_point_size b)),
      field_ok ''tick_size'' (opt_all pos_fin (bc_tick_size b)),
      field_ok ''tick_value_loss'' (opt_all pos_fin (bc_tick_value_loss b)),
      field_ok ''stops_level_points'' (opt_all nonneg_fin (bc_stops_level_points b)),
      field_ok ''freeze_level_points'' (opt_all nonneg_fin (bc_freeze_level_points b))] b"

subsection \<open>Execution feedback and slow context\<close>

datatype execution_status =
    ES_SUBMITTED | ES_ACCEPTED | ES_REJECTED | ES_PARTIALLY_FILLED | ES_FILLED
  | ES_CANCELLED | ES_EXPIRED | ES_FAILED | ES_UNKNOWN | ES_CLOSED

record execution_feedback_state =
  xf_id :: string
  xf_source :: string
  xf_instruction_id :: string
  xf_broker_ticket :: "int option"
  xf_replay_execution_id :: "string option"
  xf_status :: execution_status
  xf_event_time :: dt
  xf_observed_at :: dt
  xf_requested_volume_lots :: "f64 option"
  xf_filled_volume_lots :: "f64 option"
  xf_requested_price :: "f64 option"
  xf_fill_price :: "f64 option"
  xf_spread_points :: "f64 option"
  xf_slippage_points :: "f64 option"
  xf_commission :: "f64 option"
  xf_swap :: "f64 option"
  xf_broker_code :: "string option"
  xf_broker_message :: "string option"

definition mk_execution_feedback ::
  "(execution_feedback_state \<Rightarrow> string) \<Rightarrow> execution_feedback_state \<Rightarrow> execution_feedback_state res" where
  "mk_execution_feedback h f = res_bind (validate
     [nonempty ''source'' (xf_source f), nonempty ''instruction_id'' (xf_instruction_id f),
      field_ok ''broker_ticket'' (opt_all (\<lambda>t. 0 < t) (xf_broker_ticket f)),
      field_ok ''requested_volume_lots'' (opt_all pos_fin (xf_requested_volume_lots f)),
      field_ok ''filled_volume_lots'' (opt_all nonneg_fin (xf_filled_volume_lots f)),
      field_ok ''requested_price'' (opt_all pos_fin (xf_requested_price f)),
      field_ok ''fill_price'' (opt_all pos_fin (xf_fill_price f)),
      field_ok ''spread_points'' (opt_all nonneg_fin (xf_spread_points f)),
      field_ok ''slippage_points'' (opt_all is_fin (xf_slippage_points f)),
      field_ok ''commission'' (opt_all is_fin (xf_commission f)),
      field_ok ''swap'' (opt_all is_fin (xf_swap f)),
      rule_ok ''observed_at must not precede event_time''
        (xf_event_time f \<le> xf_observed_at f)] f)
     (bind_identity ''xfb-'' h (\<lambda>r. r\<lparr>xf_id := []\<rparr>) xf_id (\<lambda>i r. r\<lparr>xf_id := i\<rparr>)
        ''feedback_id does not match execution feedback content'')"

interpretation feedback_identity: content_addressed "''xfb-''" h "\<lambda>r. r\<lparr>xf_id := []\<rparr>" xf_id
    "\<lambda>i r. r\<lparr>xf_id := i\<rparr>" "''feedback_id does not match execution feedback content''"
  for h :: "execution_feedback_state \<Rightarrow> string"
  by unfold_locales simp_all

record slow_context_state =
  sc_provider :: string
  sc_context_version :: string
  sc_effective_at :: dt
  sc_expires_at :: dt
  sc_content_hash :: string

definition mk_slow_context :: "slow_context_state \<Rightarrow> slow_context_state res" where
  "mk_slow_context c = validate
     [nonempty ''provider'' (sc_provider c), nonempty ''context_version'' (sc_context_version c),
      nonempty ''content_hash'' (sc_content_hash c),
      rule_ok ''expires_at must follow effective_at'' (sc_effective_at c < sc_expires_at c)] c"

subsection \<open>Cursors and the shared state\<close>

record source_cursor =
  cur_source :: string
  cur_source_sequence :: int
  cur_event_id :: "string option"
  cur_available_at :: "dt option"

definition mk_source_cursor :: "source_cursor \<Rightarrow> source_cursor res" where
  "mk_source_cursor c = validate
     [nonempty ''source'' (cur_source c),
      field_ok ''source_sequence'' (0 \<le> cur_source_sequence c),
      field_ok ''event_id'' (opt_all (\<lambda>i. i \<noteq> []) (cur_event_id c))] c"

record event_cursor =
  ec_available_at :: dt
  ec_source_sequence :: int
  ec_event_id :: string

definition mk_event_cursor :: "event_cursor \<Rightarrow> event_cursor res" where
  "mk_event_cursor c = validate
     [field_ok ''source_sequence'' (0 \<le> ec_source_sequence c),
      nonempty ''event_id'' (ec_event_id c)] c"

record shared_state =
  st_id :: string
  st_as_of :: dt
  st_market :: market_state
  st_account :: account_state
  st_positions :: position_book_state
  st_orders :: order_book_state
  st_exposure :: exposure_state
  st_broker_constraints :: broker_constraints
  st_component_freshness :: "component_freshness list"
  st_source_cursors :: "source_cursor list"
  st_last_event :: "event_cursor option"
  st_execution_feedback :: "execution_feedback_state list"
  st_latest_execution_feedback :: "execution_feedback_state option"
  st_slow_context :: "slow_context_state list"
  st_recorded_at :: "dt option"

text \<open>The identity of a shared state excludes \<open>state_id\<close> and \<open>recorded_at\<close>.\<close>

definition mk_shared_state :: "(shared_state \<Rightarrow> string) \<Rightarrow> shared_state \<Rightarrow> shared_state res" where
  "mk_shared_state h =
     bind_identity ''state-'' h (\<lambda>r. r\<lparr>st_id := [], st_recorded_at := None\<rparr>) st_id
       (\<lambda>i r. r\<lparr>st_id := i\<rparr>) ''state_id does not match runtime state content''"

interpretation state_identity: content_addressed "''state-''" h
    "\<lambda>r. r\<lparr>st_id := [], st_recorded_at := None\<rparr>" st_id
    "\<lambda>i r. r\<lparr>st_id := i\<rparr>" "''state_id does not match runtime state content''"
  for h :: "shared_state \<Rightarrow> string"
  by unfold_locales simp_all

lemmas runtime_state_contracts [contract_simps] =
  mk_freshness_def mk_market_state_def mk_account_state_def mk_position_state_def
  mk_order_state_def mk_position_book_def mk_order_book_def mk_exposure_state_def
  mk_broker_constraints_def mk_execution_feedback_def mk_slow_context_def
  mk_source_cursor_def mk_event_cursor_def mk_shared_state_def

end
