(* ===== verification/AgentContracts.thy ===== *)
theory AgentContracts
  imports RuntimeState
begin

section \<open>Tool results and agent evidence (\<open>tools/contracts.py\<close>, \<open>agents/contracts.py\<close>, \<open>agents/base.py\<close>)\<close>

text \<open>
  The contracts a specialist agent reads (tool results) and writes (evidence), the input envelope
  and the check that evidence quotes exactly the facts of its input.
\<close>

subsection \<open>Tool results\<close>

datatype tool_category =
    TC_STRUCTURE | TC_TREND | TC_MOMENTUM | TC_VOLATILITY | TC_STATISTICS | TC_VOLUME
  | TC_BREAKOUT | TC_SESSION_CONTEXT | TC_SIMILARITY | TC_SLOW_CONTEXT | TC_PREDICTIVE_MODEL

datatype tool_status = TS_AVAILABLE | TS_STALE | TS_UNAVAILABLE | TS_INSUFFICIENT_DATA | TS_ERROR

text \<open>\<open>bool | int | FiniteFloat | str\<close>, with Python's equality across the numeric types.\<close>

datatype fact_scalar = FBool bool | FInt int | FFloat f64 | FStr string

fun scalar_num :: "fact_scalar \<Rightarrow> rat option" where
  "scalar_num (FBool b) = Some (of_bool b)"
| "scalar_num (FInt i) = Some (of_int i)"
| "scalar_num (FFloat (Fin x)) = Some x"
| "scalar_num _ = None"

fun scalar_eq :: "fact_scalar \<Rightarrow> fact_scalar \<Rightarrow> bool" where
  "scalar_eq (FStr a) b = (case b of FStr c \<Rightarrow> a = c | _ \<Rightarrow> False)"
| "scalar_eq a (FStr c) = False"
| "scalar_eq a b = (scalar_num a \<noteq> None \<and> scalar_num a = scalar_num b)"

record tool_fact =
  tf_name :: string
  tf_value :: fact_scalar
  tf_unit :: "string option"

record tool_quality =
  tq_valid :: bool
  tq_sample_size :: "int option"
  tq_missing_fields :: "string list"
  tq_notes :: "string list"

record tool_provenance =
  tp_source :: string
  tp_source_version :: string
  tp_source_identity :: "string option"

record tool_result =
  tr_id :: string
  tr_tool_name :: string
  tr_tool_version :: string
  tr_category :: tool_category
  tr_as_of :: dt
  tr_available_at :: dt
  tr_runtime_state_id :: string
  tr_input_snapshot_id :: string
  tr_freshness :: freshness_status
  tr_status :: tool_status
  tr_facts :: "tool_fact list"
  tr_quality :: tool_quality
  tr_warnings :: "string list"
  tr_provenance :: "tool_provenance list"

definition mk_tool_result :: "(tool_result \<Rightarrow> string) \<Rightarrow> tool_result \<Rightarrow> tool_result res" where
  "mk_tool_result h r = res_bind (validate
     [nonempty ''tool_name'' (tr_tool_name r), nonempty ''tool_version'' (tr_tool_version r),
      nonempty ''runtime_state_id'' (tr_runtime_state_id r),
      nonempty ''input_snapshot_id'' (tr_input_snapshot_id r),
      rule_ok ''tool result cannot be available after its as_of time''
        (tr_available_at r \<le> tr_as_of r),
      rule_ok ''available tool result must be valid''
        (\<not> (tr_status r = TS_AVAILABLE \<and> \<not> tq_valid (tr_quality r)))] r)
     (bind_identity ''tool-'' h (\<lambda>r. r\<lparr>tr_id := []\<rparr>) tr_id (\<lambda>i r. r\<lparr>tr_id := i\<rparr>)
        ''result_id does not match tool result content'')"

subsection \<open>Agent enumerations\<close>

datatype agent_status = AS_READY | AS_DEGRADED | AS_ABSTAINED | AS_ERROR

datatype directional_bias = BULLISH | BEARISH | NEUTRAL

datatype hypothesis_status =
    HS_NONE | HS_DEVELOPING | HS_ACTIVE | HS_CONFIRMED | HS_WEAKENING | HS_INVALIDATED
  | HS_EXPIRED | HS_ABSTAINED

datatype hypothesis_relationship =
    HR_NEW | HR_UNCHANGED | HR_STRENGTHENED | HR_WEAKENED | HR_REVERSED | HR_INVALIDATED | HR_EXPIRED

datatype evidence_polarity = SUPPORTS | CONTRADICTS | CONTEXT

datatype abstention_reason =
    INSUFFICIENT_DATA | STALE_EVIDENCE | TOOL_FAILURE | CONFLICTING_EVIDENCE | UNSUPPORTED_REGIME
  | LOW_EVIDENCE_QUALITY | NO_MEANINGFUL_HYPOTHESIS

datatype reasoning_mode = DETERMINISTIC | LOCAL_LLM_ASSISTED | DETERMINISTIC_FALLBACK

subsection \<open>Evidence\<close>

record tool_result_reference =
  trr_tool_name :: string
  trr_tool_result_id :: string
  trr_status :: tool_status
  trr_freshness :: freshness_status
  trr_quality_valid :: bool
  trr_available_at :: dt
  trr_provenance :: "tool_provenance list"

definition reference_from_result :: "tool_result \<Rightarrow> tool_result_reference" where
  "reference_from_result r =
     \<lparr>trr_tool_name = tr_tool_name r, trr_tool_result_id = tr_id r, trr_status = tr_status r,
      trr_freshness = tr_freshness r, trr_quality_valid = tq_valid (tr_quality r),
      trr_available_at = tr_available_at r, trr_provenance = tr_provenance r\<rparr>"

record evidence_reference =
  er_tool_name :: string
  er_tool_result_id :: string
  er_fact_name :: string
  er_fact_value :: fact_scalar
  er_polarity :: evidence_polarity
  er_strength :: f64
  er_freshness :: freshness_status
  er_quality_valid :: bool
  er_explanation :: "string option"

definition mk_evidence_reference :: "evidence_reference \<Rightarrow> evidence_reference res" where
  "mk_evidence_reference r = validate
     [nonempty ''tool_name'' (er_tool_name r), nonempty ''tool_result_id'' (er_tool_result_id r),
      nonempty ''fact_name'' (er_fact_name r),
      field_ok ''strength'' (unit_float (er_strength r)),
      field_ok ''explanation'' (opt_all (\<lambda>s. length s \<le> 300) (er_explanation r))] r"

record hypothesis_invalidation =
  hi_invalidated :: bool
  hi_reason :: "string option"
  hi_tool_result_id :: "string option"
  hi_fact_name :: "string option"

definition mk_hypothesis_invalidation :: "hypothesis_invalidation \<Rightarrow> hypothesis_invalidation res" where
  "mk_hypothesis_invalidation i = validate
     [field_ok ''reason'' (opt_all (\<lambda>s. length s \<le> 300) (hi_reason i)),
      rule_ok ''invalidated hypothesis requires a reason''
        (\<not> (hi_invalidated i \<and> \<not> truthy (hi_reason i))),
      rule_ok ''non-invalidated hypothesis cannot contain invalidation details''
        (\<not> (\<not> hi_invalidated i \<and>
            list_ex (\<lambda>v. v \<noteq> None) [hi_reason i, hi_tool_result_id i, hi_fact_name i]))] i"

record agent_tool_request =
  atr_tool_name :: string
  atr_requested_facts :: "string list"
  atr_reason :: string

definition mk_agent_tool_request :: "agent_tool_request \<Rightarrow> agent_tool_request res" where
  "mk_agent_tool_request r = validate
     [nonempty ''tool_name'' (atr_tool_name r),
      field_ok ''requested_facts''
        (1 \<le> length (atr_requested_facts r) \<and> length (atr_requested_facts r) \<le> 8),
      field_ok ''reason'' (1 \<le> length (atr_reason r) \<and> length (atr_reason r) \<le> 200),
      rule_ok ''requested facts must be unique'' (distinct (atr_requested_facts r))] r"

record reasoning_record =
  rr_mode :: reasoning_mode
  rr_component_version :: string
  rr_fallback_reason :: "string option"

definition mk_reasoning_record :: "reasoning_record \<Rightarrow> reasoning_record res" where
  "mk_reasoning_record r = validate
     [field_ok ''fallback_reason'' (opt_all (\<lambda>s. length s \<le> 200) (rr_fallback_reason r)),
      rule_ok ''deterministic fallback requires a reason''
        (\<not> (rr_mode r = DETERMINISTIC_FALLBACK \<and> \<not> truthy (rr_fallback_reason r)))] r"

record agent_evidence =
  ae_id :: string
  ae_agent_name :: string
  ae_agent_version :: string
  ae_runtime_state_id :: string
  ae_feature_snapshot_id :: "string option"
  ae_as_of :: dt
  ae_available_at :: dt
  ae_hypothesis_id :: string
  ae_hypothesis :: string
  ae_hypothesis_status :: hypothesis_status
  ae_relationship :: hypothesis_relationship
  ae_previous_hypothesis_id :: "string option"
  ae_direction :: "directional_bias option"
  ae_confidence :: f64
  ae_uncertainty :: f64
  ae_evidence_quality :: f64
  ae_evidence_for :: "evidence_reference list"
  ae_evidence_against :: "evidence_reference list"
  ae_invalidation :: hypothesis_invalidation
  ae_freshness :: freshness_status
  ae_status :: agent_status
  ae_tool_inputs :: "tool_result_reference list"
  ae_tool_requests :: "agent_tool_request list"
  ae_abstention_reason :: "abstention_reason option"
  ae_setup_id :: "string option"
  ae_thesis_id :: "string option"
  ae_rationale :: "string option"
  ae_reasoning :: reasoning_record

definition evidence_fields :: "agent_evidence \<Rightarrow> (bool \<times> py_error) list" where
  "evidence_fields e =
     [nonempty ''agent_name'' (ae_agent_name e), nonempty ''agent_version'' (ae_agent_version e),
      nonempty ''runtime_state_id'' (ae_runtime_state_id e),
      nonempty ''hypothesis_id'' (ae_hypothesis_id e),
      field_ok ''hypothesis'' (1 \<le> length (ae_hypothesis e) \<and> length (ae_hypothesis e) \<le> 200),
      field_ok ''confidence'' (unit_float (ae_confidence e)),
      field_ok ''uncertainty'' (unit_float (ae_uncertainty e)),
      field_ok ''evidence_quality'' (unit_float (ae_evidence_quality e)),
      field_ok ''tool_requests'' (length (ae_tool_requests e) \<le> 8),
      field_ok ''rationale'' (opt_all (\<lambda>s. length s \<le> 500) (ae_rationale e))]"

definition evidence_numeric_rules :: "agent_evidence \<Rightarrow> (bool \<times> py_error) list" where
  "evidence_numeric_rules e =
     [rule_ok ''agent evidence cannot be available after its as_of time'' (ae_available_at e \<le> ae_as_of e),
      rule_ok ''confidence cannot exceed evidence quality''
        (\<not> flt (ae_evidence_quality e) (ae_confidence e)),
      rule_ok ''degraded confidence cannot exceed 0.5''
        (\<not> (ae_status e = AS_DEGRADED \<and> flt (lit (1 / 2)) (ae_confidence e))),
      rule_ok ''abstained or error evidence must have zero confidence''
        (\<not> (ae_status e \<in> {AS_ABSTAINED, AS_ERROR} \<and> \<not> feq (ae_confidence e) (Fin 0)))]"

definition evidence_relationship_rules :: "agent_evidence \<Rightarrow> (bool \<times> py_error) list" where
  "evidence_relationship_rules e =
     [rule_ok ''new hypothesis cannot reference previous_hypothesis_id''
        (\<not> (ae_relationship e = HR_NEW \<and> ae_previous_hypothesis_id e \<noteq> None)),
      rule_ok ''relationship requires previous_hypothesis_id''
        (\<not> (ae_relationship e \<noteq> HR_NEW \<and> ae_previous_hypothesis_id e = None)),
      rule_ok ''reversed evidence requires a new hypothesis_id''
        (\<not> (ae_relationship e = HR_REVERSED \<and> Some (ae_hypothesis_id e) = ae_previous_hypothesis_id e)),
      rule_ok ''continued relationship must retain hypothesis_id''
        (\<not> (ae_relationship e \<notin> {HR_NEW, HR_REVERSED}
            \<and> Some (ae_hypothesis_id e) \<noteq> ae_previous_hypothesis_id e))]"

definition evidence_status_rules :: "agent_evidence \<Rightarrow> (bool \<times> py_error) list" where
  "evidence_status_rules e =
     [rule_ok ''abstained evidence requires an abstention reason''
        (\<not> (ae_status e = AS_ABSTAINED \<and> ae_abstention_reason e = None)),
      rule_ok ''abstained evidence cannot contain direction''
        (\<not> (ae_status e = AS_ABSTAINED \<and> ae_direction e \<noteq> None)),
      rule_ok ''abstained evidence requires ABSTAINED hypothesis status''
        (\<not> (ae_status e = AS_ABSTAINED \<and> ae_hypothesis_status e \<noteq> HS_ABSTAINED)),
      rule_ok ''abstention reason is only valid for abstained evidence''
        (\<not> (ae_status e \<noteq> AS_ABSTAINED \<and> ae_abstention_reason e \<noteq> None)),
      rule_ok ''INVALIDATED status requires invalidation details''
        (\<not> (ae_hypothesis_status e = HS_INVALIDATED \<and> \<not> hi_invalidated (ae_invalidation e))),
      rule_ok ''invalidation details require INVALIDATED status''
        (\<not> (ae_hypothesis_status e \<noteq> HS_INVALIDATED \<and> hi_invalidated (ae_invalidation e))),
      rule_ok ''INVALIDATED relationship requires INVALIDATED status''
        (\<not> (ae_relationship e = HR_INVALIDATED \<and> ae_hypothesis_status e \<noteq> HS_INVALIDATED)),
      rule_ok ''EXPIRED relationship requires EXPIRED status''
        (\<not> (ae_relationship e = HR_EXPIRED \<and> ae_hypothesis_status e \<noteq> HS_EXPIRED)),
      rule_ok ''READY evidence requires available tool inputs''
        (\<not> (ae_status e = AS_READY \<and> list_ex (\<lambda>t. trr_status t \<noteq> TS_AVAILABLE) (ae_tool_inputs e)))]"

definition mk_agent_evidence :: "(agent_evidence \<Rightarrow> string) \<Rightarrow> agent_evidence \<Rightarrow> agent_evidence res" where
  "mk_agent_evidence h e = res_bind (validate
     (evidence_fields e @ evidence_numeric_rules e @ evidence_relationship_rules e
       @ evidence_status_rules e) e)
     (bind_identity ''ae-'' h (\<lambda>r. r\<lparr>ae_id := []\<rparr>) ae_id (\<lambda>i r. r\<lparr>ae_id := i\<rparr>)
        ''evidence_id does not match evidence content'')"

interpretation evidence_identity: content_addressed "''ae-''" h "\<lambda>r. r\<lparr>ae_id := []\<rparr>" ae_id
    "\<lambda>i r. r\<lparr>ae_id := i\<rparr>" "''evidence_id does not match evidence content''"
  for h :: "agent_evidence \<Rightarrow> string"
  by unfold_locales simp_all

text \<open>The checks a validated record of evidence passed.\<close>

definition evidence_ok :: "agent_evidence \<Rightarrow> bool" where
  "evidence_ok e \<longleftrightarrow> list_all fst (evidence_fields e @ evidence_numeric_rules e
     @ evidence_relationship_rules e @ evidence_status_rules e) \<and> ae_id e \<noteq> []"

lemmas evidence_rules = evidence_ok_def evidence_fields_def evidence_numeric_rules_def
  evidence_relationship_rules_def evidence_status_rules_def

lemma mk_agent_evidence_ok: "mk_agent_evidence h e = Inr e' \<Longrightarrow> evidence_ok e'"
  by (auto simp: mk_agent_evidence_def evidence_rules res_simps evidence_identity.bind_ok_iff
      content_id_def)

lemma evidence_okD:
  assumes "evidence_ok e"
  shows "unit_float (ae_confidence e)" "unit_float (ae_uncertainty e)" "ae_agent_name e \<noteq> []"
    "ae_id e \<noteq> []" "ae_status e \<in> {AS_ABSTAINED, AS_ERROR} \<Longrightarrow> ae_confidence e = Fin 0"
  using assms by (auto simp: evidence_rules feq_def)

end
