(* ===== verification/AgentMemory.thy ===== *)
theory AgentMemory
  imports AgentContracts
begin

section \<open>Specialist memory (\<open>agents/state.py\<close>, \<open>agents/base.py\<close>)\<close>

text \<open>
  The persistent memory of a specialist, its lifecycle table, \<open>transition_memory\<close>, and the input
  boundary that lets evidence update the memory only when it quotes the facts of its input.
\<close>

record agent_memory =
  am_id :: string
  am_agent_name :: string
  am_agent_version :: string
  am_hypothesis_id :: string
  am_current_hypothesis :: string
  am_previous_hypothesis :: "string option"
  am_current_confidence :: f64
  am_previous_confidence :: "f64 option"
  am_running_uncertainty :: f64
  am_hypothesis_status :: hypothesis_status
  am_relationship :: hypothesis_relationship
  am_began_at :: dt
  am_updated_at :: dt
  am_history :: "string list"
  am_invalidation :: hypothesis_invalidation
  am_recent_tool_requests :: "agent_tool_request list"
  am_previous_evidence_id :: "string option"
  am_latest_evidence_id :: string
  am_confirmation_count :: int
  am_setup_id :: "string option"
  am_thesis_id :: "string option"

definition memory_rules :: "agent_memory \<Rightarrow> (bool \<times> py_error) list" where
  "memory_rules m =
     [nonempty ''agent_name'' (am_agent_name m), nonempty ''agent_version'' (am_agent_version m),
      nonempty ''hypothesis_id'' (am_hypothesis_id m),
      field_ok ''current_hypothesis''
        (1 \<le> length (am_current_hypothesis m) \<and> length (am_current_hypothesis m) \<le> 200),
      field_ok ''current_confidence'' (unit_float (am_current_confidence m)),
      field_ok ''previous_confidence'' (opt_all unit_float (am_previous_confidence m)),
      field_ok ''running_uncertainty'' (unit_float (am_running_uncertainty m)),
      field_ok ''recent_tool_requests'' (length (am_recent_tool_requests m) \<le> 8),
      nonempty ''latest_evidence_id'' (am_latest_evidence_id m),
      field_ok ''confirmation_count'' (0 \<le> am_confirmation_count m),
      rule_ok ''memory update cannot precede hypothesis start'' (am_began_at m \<le> am_updated_at m),
      rule_ok ''invalidated memory requires invalidation details''
        (\<not> (am_hypothesis_status m = HS_INVALIDATED \<and> \<not> hi_invalidated (am_invalidation m)))]"

definition mk_agent_memory :: "(agent_memory \<Rightarrow> string) \<Rightarrow> agent_memory \<Rightarrow> agent_memory res" where
  "mk_agent_memory h m = res_bind (validate (memory_rules m) m)
     (bind_identity ''am-'' h (\<lambda>r. r\<lparr>am_id := []\<rparr>) am_id (\<lambda>i r. r\<lparr>am_id := i\<rparr>)
        ''memory_id does not match memory content'')"

interpretation memory_identity: content_addressed "''am-''" h "\<lambda>r. r\<lparr>am_id := []\<rparr>" am_id
    "\<lambda>i r. r\<lparr>am_id := i\<rparr>" "''memory_id does not match memory content''"
  for h :: "agent_memory \<Rightarrow> string"
  by unfold_locales simp_all

subsection \<open>Lifecycle\<close>

primrec allowed_transitions :: "hypothesis_status \<Rightarrow> hypothesis_status set" where
  "allowed_transitions HS_NONE = {HS_NONE, HS_DEVELOPING, HS_ABSTAINED}"
| "allowed_transitions HS_DEVELOPING =
     {HS_DEVELOPING, HS_ACTIVE, HS_CONFIRMED, HS_WEAKENING, HS_INVALIDATED, HS_EXPIRED, HS_ABSTAINED}"
| "allowed_transitions HS_ACTIVE =
     {HS_ACTIVE, HS_CONFIRMED, HS_WEAKENING, HS_INVALIDATED, HS_EXPIRED}"
| "allowed_transitions HS_CONFIRMED = {HS_CONFIRMED, HS_WEAKENING, HS_INVALIDATED, HS_EXPIRED}"
| "allowed_transitions HS_WEAKENING =
     {HS_WEAKENING, HS_ACTIVE, HS_CONFIRMED, HS_INVALIDATED, HS_EXPIRED}"
| "allowed_transitions HS_INVALIDATED = {HS_INVALIDATED}"
| "allowed_transitions HS_EXPIRED = {HS_EXPIRED}"
| "allowed_transitions HS_ABSTAINED = {HS_ABSTAINED, HS_DEVELOPING}"

definition starts_new :: "agent_evidence \<Rightarrow> bool" where
  "starts_new e \<longleftrightarrow> ae_relationship e = HR_NEW"

definition reverses :: "agent_evidence \<Rightarrow> bool" where
  "reverses e \<longleftrightarrow> ae_relationship e = HR_REVERSED"

text \<open>The guards on a previous memory, in source order.\<close>

definition continuation_rules :: "agent_memory \<Rightarrow> agent_evidence \<Rightarrow> (bool \<times> py_error) list" where
  "continuation_rules p e =
     [rule_ok ''evidence agent does not match previous memory'' (am_agent_name p = ae_agent_name e),
      rule_ok ''agent evidence cannot move memory backwards'' (am_updated_at p \<le> ae_as_of e)] @
     (if starts_new e then
        [rule_ok ''new hypothesis requires terminal previous lifecycle''
           (am_hypothesis_status p \<in> {HS_INVALIDATED, HS_EXPIRED, HS_ABSTAINED}),
         rule_ok ''new hypothesis must use a distinct hypothesis_id''
           (ae_hypothesis_id e \<noteq> am_hypothesis_id p)]
      else if \<not> reverses e then
        [rule_ok ''evidence does not reference previous memory hypothesis''
           (ae_previous_hypothesis_id e = Some (am_hypothesis_id p)),
         rule_ok ''invalid hypothesis lifecycle transition''
           (ae_hypothesis_status e \<in> allowed_transitions (am_hypothesis_status p))]
      else
        [rule_ok ''reversal does not reference previous memory hypothesis''
           (ae_previous_hypothesis_id e = Some (am_hypothesis_id p))])"

definition next_confirmation_count :: "int \<Rightarrow> hypothesis_status \<Rightarrow> int" where
  "next_confirmation_count n s =
     (if s = HS_CONFIRMED then n + 1 else if s \<notin> {HS_ACTIVE, HS_WEAKENING} then 0 else n)"

definition memory_from ::
  "agent_evidence \<Rightarrow> dt \<Rightarrow> string option \<Rightarrow> f64 option \<Rightarrow> string option \<Rightarrow> string list \<Rightarrow> int
     \<Rightarrow> agent_memory" where
  "memory_from e began prev_hyp prev_conf prev_ev history n =
     \<lparr>am_id = [], am_agent_name = ae_agent_name e, am_agent_version = ae_agent_version e,
      am_hypothesis_id = ae_hypothesis_id e, am_current_hypothesis = ae_hypothesis e,
      am_previous_hypothesis = prev_hyp, am_current_confidence = ae_confidence e,
      am_previous_confidence = prev_conf, am_running_uncertainty = ae_uncertainty e,
      am_hypothesis_status = ae_hypothesis_status e, am_relationship = ae_relationship e,
      am_began_at = began, am_updated_at = ae_as_of e, am_history = history @ [ae_id e],
      am_invalidation = ae_invalidation e, am_recent_tool_requests = ae_tool_requests e,
      am_previous_evidence_id = prev_ev, am_latest_evidence_id = ae_id e,
      am_confirmation_count = next_confirmation_count n (ae_hypothesis_status e),
      am_setup_id = ae_setup_id e, am_thesis_id = ae_thesis_id e\<rparr>"

definition transition_memory ::
  "(agent_memory \<Rightarrow> string) \<Rightarrow> agent_memory option \<Rightarrow> agent_evidence \<Rightarrow> agent_memory res" where
  "transition_memory h previous e =
     (case previous of
        None \<Rightarrow>
          (if ae_relationship e \<noteq> HR_NEW
           then Inl (ValueError ''initial memory requires a NEW hypothesis relationship'')
           else mk_agent_memory h (memory_from e (ae_as_of e) None None None [] 0))
      | Some p \<Rightarrow>
          res_bind (validate (continuation_rules p e) p) (\<lambda>p.
            mk_agent_memory h (memory_from e
              (if starts_new e \<or> reverses e then ae_as_of e else am_began_at p)
              (Some (am_current_hypothesis p)) (Some (am_current_confidence p))
              (Some (am_latest_evidence_id p)) (am_history p) (am_confirmation_count p))))"

subsection \<open>Agent input and output validation\<close>

record agent_reasoning_budget =
  arb_latency_budget_ms :: int
  arb_timeout_ms :: int
  arb_token_budget :: "int option"
  arb_output_character_budget :: int

definition mk_reasoning_budget :: "agent_reasoning_budget \<Rightarrow> agent_reasoning_budget res" where
  "mk_reasoning_budget b = validate
     [field_ok ''latency_budget_ms'' (0 < arb_latency_budget_ms b),
      field_ok ''timeout_ms'' (0 < arb_timeout_ms b),
      field_ok ''token_budget'' (opt_all (\<lambda>t. 0 < t) (arb_token_budget b)),
      field_ok ''output_character_budget'' (0 < arb_output_character_budget b),
      rule_ok ''reasoning timeout cannot exceed latency budget''
        (arb_timeout_ms b \<le> arb_latency_budget_ms b)] b"

record agent_input =
  ai_id :: string
  ai_runtime_state_id :: string
  ai_feature_snapshot_id :: "string option"
  ai_as_of :: dt
  ai_tool_results :: "tool_result list"
  ai_previous_memory :: "agent_memory option"
  ai_setup_id :: "string option"
  ai_thesis_id :: "string option"
  ai_reasoning_budget :: "agent_reasoning_budget option"

definition tool_result_rules :: "agent_input \<Rightarrow> tool_result \<Rightarrow> (bool \<times> py_error) list" where
  "tool_result_rules a r =
     [rule_ok ''tool result runtime state does not match agent input''
        (tr_runtime_state_id r = ai_runtime_state_id a),
      rule_ok ''tool result snapshot does not match agent input''
        (Some (tr_input_snapshot_id r) \<in> {Some (ai_runtime_state_id a), ai_feature_snapshot_id a}),
      rule_ok ''tool result is not yet available to agent input'' (tr_available_at r \<le> ai_as_of a)]"

definition mk_agent_input :: "(agent_input \<Rightarrow> string) \<Rightarrow> agent_input \<Rightarrow> agent_input res" where
  "mk_agent_input h a = res_bind (validate
     ([nonempty ''runtime_state_id'' (ai_runtime_state_id a)]
       @ concat (map (tool_result_rules a) (ai_tool_results a))
       @ [rule_ok ''agent input cannot contain duplicate tool results''
            (distinct (map tr_id (ai_tool_results a)))]) a)
     (bind_identity ''ai-'' h (\<lambda>r. r\<lparr>ai_id := []\<rparr>) ai_id (\<lambda>i r. r\<lparr>ai_id := i\<rparr>)
        ''input_id does not match agent input content'')"

definition tool_health_status :: "agent_input \<Rightarrow> agent_status" where
  "tool_health_status a =
     (let statuses = map tr_status (ai_tool_results a) in
      if TS_ERROR \<in> set statuses then AS_ERROR
      else if TS_UNAVAILABLE \<in> set statuses \<or> TS_INSUFFICIENT_DATA \<in> set statuses then AS_ABSTAINED
      else if TS_STALE \<in> set statuses then AS_DEGRADED
      else AS_READY)"

definition result_named :: "agent_input \<Rightarrow> string \<Rightarrow> tool_result option" where
  "result_named a i = map_of (dict_by tr_id (ai_tool_results a)) i"

definition reference_rules :: "agent_input \<Rightarrow> tool_result_reference \<Rightarrow> (bool \<times> py_error) list" where
  "reference_rules a r =
     [rule_ok ''agent evidence references an unknown or altered tool result''
        (opt_some (\<lambda>t. reference_from_result t = r) (result_named a (trr_tool_result_id r)))]"

definition cited_fact :: "agent_input \<Rightarrow> evidence_reference \<Rightarrow> tool_fact option" where
  "cited_fact a i = (case result_named a (er_tool_result_id i) of
     None \<Rightarrow> None | Some t \<Rightarrow> find (\<lambda>f. tf_name f = er_fact_name i) (tr_facts t))"

definition citation_rules :: "agent_input \<Rightarrow> evidence_reference \<Rightarrow> (bool \<times> py_error) list" where
  "citation_rules a i =
     [rule_ok ''agent evidence references an unknown tool result''
        (opt_some (\<lambda>t. tr_tool_name t = er_tool_name i) (result_named a (er_tool_result_id i))),
      rule_ok ''agent evidence references an unknown fact'' (cited_fact a i \<noteq> None),
      rule_ok ''agent evidence fact value does not match tool result''
        (opt_some (\<lambda>f. scalar_eq (tf_value f) (er_fact_value i)) (cited_fact a i)),
      rule_ok ''agent evidence freshness does not match tool result''
        (opt_some (\<lambda>t. tr_freshness t = er_freshness i) (result_named a (er_tool_result_id i))),
      rule_ok ''agent evidence quality does not match tool result''
        (opt_some (\<lambda>t. tq_valid (tr_quality t) = er_quality_valid i)
          (result_named a (er_tool_result_id i)))]"

definition validate_agent_output :: "agent_input \<Rightarrow> agent_evidence \<Rightarrow> unit res" where
  "validate_agent_output a e = validate
     ([rule_ok ''agent evidence runtime state does not match input''
         (ae_runtime_state_id e = ai_runtime_state_id a),
       rule_ok ''agent evidence feature snapshot does not match input''
         (ae_feature_snapshot_id e = ai_feature_snapshot_id a),
       rule_ok ''agent evidence is not yet causally available'' (ae_available_at e \<le> ai_as_of a)]
      @ concat (map (reference_rules a) (ae_tool_inputs e))
      @ concat (map (citation_rules a) (ae_evidence_for e @ ae_evidence_against e))) ()"

definition transition_agent ::
  "(agent_memory \<Rightarrow> string) \<Rightarrow> agent_input \<Rightarrow> agent_evidence \<Rightarrow> agent_memory res" where
  "transition_agent h a e =
     res_bind (validate_agent_output a e) (\<lambda>_. transition_memory h (ai_previous_memory a) e)"

subsection \<open>Facts about transitions\<close>

lemmas transition_simps = transition_memory_def mk_agent_memory_def memory_rules_def
  memory_identity.bind_ok_iff res_simps

lemma transition_first:
  assumes "transition_memory h None e = Inr m"
  shows "ae_relationship e = HR_NEW" "\<exists>i. m = (memory_from e (ae_as_of e) None None None [] 0)\<lparr>am_id := i\<rparr>"
  using assms by (auto simp: transition_simps split: if_splits)

lemma transition_next:
  assumes "transition_memory h (Some p) e = Inr m"
  shows "list_all fst (continuation_rules p e)"
    "\<exists>i. m = (memory_from e (if starts_new e \<or> reverses e then ae_as_of e else am_began_at p)
       (Some (am_current_hypothesis p)) (Some (am_current_confidence p))
       (Some (am_latest_evidence_id p)) (am_history p) (am_confirmation_count p))\<lparr>am_id := i\<rparr>"
    "am_began_at m \<le> am_updated_at m"
  using assms by (auto simp: transition_memory_def mk_agent_memory_def memory_rules_def
      memory_identity.bind_ok_iff validate_Inr_iff res_bind_Inr_iff)

primrec run_memory ::
  "(agent_memory \<Rightarrow> string) \<Rightarrow> agent_evidence list \<Rightarrow> agent_memory option \<Rightarrow> agent_memory option res" where
  "run_memory h [] m = Inr m"
| "run_memory h (e # es) m = res_bind (transition_memory h m e) (\<lambda>m'. run_memory h es (Some m'))"

text \<open>What a memory records of the evidence it absorbed, newest last.\<close>

definition memory_tracks :: "agent_memory \<Rightarrow> agent_evidence list \<Rightarrow> bool" where
  "memory_tracks m es \<longleftrightarrow> es \<noteq> [] \<and> am_history m = map ae_id es \<and> sorted (map ae_as_of es) \<and>
     am_updated_at m = ae_as_of (last es) \<and> am_latest_evidence_id m = ae_id (last es) \<and>
     am_hypothesis_id m = ae_hypothesis_id (last es) \<and>
     am_hypothesis_status m = ae_hypothesis_status (last es) \<and>
     (\<forall>e \<in> set es. ae_agent_name e = am_agent_name m) \<and>
     am_began_at m \<in> ae_as_of ` set es \<and> am_began_at m \<le> am_updated_at m \<and>
     0 \<le> am_confirmation_count m \<and> am_confirmation_count m \<le> int (length es)"

lemma tracks_first:
  assumes "transition_memory h None e = Inr m"
  shows "memory_tracks m [e]"
  using transition_first(2)[OF assms]
  by (auto simp: memory_tracks_def memory_from_def next_confirmation_count_def)

lemma tracks_next:
  assumes "memory_tracks p es" "transition_memory h (Some p) e = Inr m"
  shows "memory_tracks m (es @ [e])"
proof -
  from transition_next(2)[OF assms(2)] obtain i where
    m: "m = (memory_from e (if starts_new e \<or> reverses e then ae_as_of e else am_began_at p)
       (Some (am_current_hypothesis p)) (Some (am_current_confidence p))
       (Some (am_latest_evidence_id p)) (am_history p) (am_confirmation_count p))\<lparr>am_id := i\<rparr>" by blast
  have "ae_as_of (last es) \<le> ae_as_of e" "am_agent_name p = ae_agent_name e"
    using transition_next(1)[OF assms(2)] assms(1) by (simp_all add: continuation_rules_def memory_tracks_def)
  moreover have "sorted (map ae_as_of es @ [ae_as_of e])"
    using assms(1) calculation(1) by (simp add: sorted_snoc memory_tracks_def last_map)
  ultimately show ?thesis
    using assms(1) transition_next(3)[OF assms(2)]
    by (auto simp: memory_tracks_def m memory_from_def next_confirmation_count_def)
qed

lemma run_tracks:
  "run_memory h es (Some p) = Inr r \<Longrightarrow> memory_tracks p done \<Longrightarrow>
   \<exists>m. r = Some m \<and> memory_tracks m (done @ es)"
proof (induction es arbitrary: p "done")
  case (Cons e es)
  then obtain p' where "transition_memory h (Some p) e = Inr p'" "run_memory h es (Some p') = Inr r"
    by (auto simp: res_simps)
  with Cons.IH[of p' "done @ [e]"] Cons.prems(2) tracks_next show ?case by fastforce
qed auto

definition memory_ok :: "agent_memory \<Rightarrow> bool" where
  "memory_ok m \<longleftrightarrow> list_all fst (memory_rules m)"

lemma transition_result_ok:
  assumes "evidence_ok e" "began \<le> ae_as_of e" "opt_all unit_float c" "0 \<le> n"
  shows "list_all fst (memory_rules (memory_from e began h c l hs n))"
  using assms by (auto simp: memory_rules_def memory_from_def evidence_rules next_confirmation_count_def)

lemma mk_memory_ok_iff: "am_id m = [] \<Longrightarrow> is_ok (mk_agent_memory h m) \<longleftrightarrow> list_all fst (memory_rules m)"
  by (auto simp: mk_agent_memory_def is_ok_iff res_simps memory_identity.bind_ok_iff)

lemma result_named_mem: "result_named a i = Some t \<Longrightarrow> t \<in> set (ai_tool_results a) \<and> tr_id t = i"
  by (auto simp: result_named_def map_of_dict_by dest: lookup_by_Some)

lemma cited_fact_mem:
  "cited_fact a i = Some f \<Longrightarrow>
   \<exists>t. result_named a (er_tool_result_id i) = Some t \<and> f \<in> set (tr_facts t) \<and> tf_name f = er_fact_name i"
  by (auto simp: cited_fact_def find_Some_iff split: option.splits)

definition quotes :: "tool_result \<Rightarrow> evidence_reference \<Rightarrow> bool" where
  "quotes t i \<longleftrightarrow> tr_id t = er_tool_result_id i \<and> tr_tool_name t = er_tool_name i \<and>
     tr_freshness t = er_freshness i \<and> tq_valid (tr_quality t) = er_quality_valid i \<and>
     (\<exists>f \<in> set (tr_facts t). tf_name f = er_fact_name i \<and> scalar_eq (tf_value f) (er_fact_value i))"

lemma citation_rules_quote:
  assumes "list_all fst (citation_rules a i)"
  shows "\<exists>t \<in> set (ai_tool_results a). quotes t i"
proof -
  obtain t where t: "result_named a (er_tool_result_id i) = Some t" "tr_tool_name t = er_tool_name i"
      "tr_freshness t = er_freshness i" "tq_valid (tr_quality t) = er_quality_valid i"
    using assms by (auto simp: citation_rules_def opt_some_iff)
  obtain f where f: "cited_fact a i = Some f" "scalar_eq (tf_value f) (er_fact_value i)"
    using assms by (auto simp: citation_rules_def opt_some_iff)
  show ?thesis
    using t f(2) cited_fact_mem[OF f(1)] result_named_mem[OF t(1)] by (auto simp: quotes_def)
qed

lemma run_terminal:
  "run_memory h es (Some p) = Inr (Some m) \<Longrightarrow> list_all (\<lambda>e. \<not> starts_new e \<and> \<not> reverses e) es \<Longrightarrow>
   am_hypothesis_status p \<in> {HS_INVALIDATED, HS_EXPIRED} \<Longrightarrow>
   am_hypothesis_status m = am_hypothesis_status p \<and> am_began_at m = am_began_at p \<and>
   (list_all (\<lambda>e. ae_relationship e \<noteq> HR_NEW \<and> ae_relationship e \<noteq> HR_REVERSED \<longrightarrow>
       Some (ae_hypothesis_id e) = ae_previous_hypothesis_id e) es
     \<longrightarrow> am_hypothesis_id m = am_hypothesis_id p)"
proof (induction es arbitrary: p)
  case (Cons e es)
  then obtain p' where p': "transition_memory h (Some p) e = Inr p'" "run_memory h es (Some p') = Inr (Some m)"
    by (auto simp: res_simps)
  have c: "list_all fst (continuation_rules p e)" by (rule transition_next(1)[OF p'(1)])
  obtain i where i: "p' = (memory_from e (am_began_at p)
       (Some (am_current_hypothesis p)) (Some (am_current_confidence p))
       (Some (am_latest_evidence_id p)) (am_history p) (am_confirmation_count p))\<lparr>am_id := i\<rparr>"
    using transition_next(2)[OF p'(1)] Cons.prems(2) by auto
  have st: "am_hypothesis_status p' = am_hypothesis_status p"
    using c Cons.prems(2,3) by (auto simp: i continuation_rules_def memory_from_def)
  have hy: "ae_previous_hypothesis_id e = Some (am_hypothesis_id p)"
    using c Cons.prems(2) by (simp add: continuation_rules_def)
  show ?case
    using Cons.IH[OF p'(2)] Cons.prems(2,3) st hy by (auto simp: i memory_from_def starts_new_def reverses_def)
qed simp

lemma transition_ok_iff:
  assumes "memory_ok p" "evidence_ok e"
  shows "is_ok (transition_memory h (Some p) e) \<longleftrightarrow> list_all fst (continuation_rules p e)"
proof -
  let ?m = "memory_from e (if starts_new e \<or> reverses e then ae_as_of e else am_began_at p)
       (Some (am_current_hypothesis p)) (Some (am_current_confidence p))
       (Some (am_latest_evidence_id p)) (am_history p) (am_confirmation_count p)"
  have "list_all fst (memory_rules ?m)" if "am_updated_at p \<le> ae_as_of e"
    using assms that by (intro transition_result_ok) (auto simp: memory_ok_def memory_rules_def)
  moreover have "am_id ?m = []" by (simp add: memory_from_def)
  ultimately have "is_ok (mk_agent_memory h ?m)" if "list_all fst (continuation_rules p e)"
    using that mk_memory_ok_iff[of ?m h] by (simp add: continuation_rules_def)
  then show ?thesis
    by (cases "list_all fst (continuation_rules p e)")
      (auto simp: transition_memory_def is_ok_iff validate_Inr_iff res_bind_Inr_iff)
qed

lemma transition_result:
  assumes "transition_memory h mo e = Inr m"
  shows "mk_agent_memory h m = Inr m" "am_hypothesis_status m = ae_hypothesis_status e"
    "am_hypothesis_id m = ae_hypothesis_id e" "memory_ok m" "am_agent_name m = ae_agent_name e"
proof -
  have ok: "mk_agent_memory h m = Inr m \<and> memory_ok m" if "mk_agent_memory h r = Inr m" for r
    using that by (auto simp: mk_agent_memory_def res_simps memory_identity.bind_ok_iff memory_ok_def
        memory_rules_def memory_identity.bound_def)
  show "mk_agent_memory h m = Inr m" "memory_ok m"
    using assms ok by (auto simp: transition_memory_def res_bind_Inr_iff split: option.splits if_splits)
  show "am_hypothesis_status m = ae_hypothesis_status e" "am_hypothesis_id m = ae_hypothesis_id e"
      "am_agent_name m = ae_agent_name e"
    using assms by (auto simp: transition_memory_def mk_agent_memory_def memory_identity.bind_ok_iff
        res_bind_Inr_iff validate_Inr_iff memory_from_def split: option.splits if_splits)
qed

subsection \<open>Properties\<close>

text \<open>Concrete evidence for the witnesses.\<close>

definition demo_evidence ::
  "string \<Rightarrow> dt \<Rightarrow> hypothesis_status \<Rightarrow> hypothesis_relationship \<Rightarrow> string option \<Rightarrow> f64 \<Rightarrow> agent_evidence" where
  "demo_evidence i t st rel prev conf = \<lparr>ae_id = i, ae_agent_name = ''chart'', ae_agent_version = ''1'',
     ae_runtime_state_id = ''state-1'', ae_feature_snapshot_id = None, ae_as_of = t, ae_available_at = t,
     ae_hypothesis_id = ''hyp-1'', ae_hypothesis = ''trend'', ae_hypothesis_status = st,
     ae_relationship = rel, ae_previous_hypothesis_id = prev, ae_direction = Some BULLISH,
     ae_confidence = conf, ae_uncertainty = Fin (1 / 2), ae_evidence_quality = Fin 1,
     ae_evidence_for = [], ae_evidence_against = [],
     ae_invalidation = (if st = HS_INVALIDATED
       then \<lparr>hi_invalidated = True, hi_reason = Some ''broken'', hi_tool_result_id = None, hi_fact_name = None\<rparr>
       else \<lparr>hi_invalidated = False, hi_reason = None, hi_tool_result_id = None, hi_fact_name = None\<rparr>),
     ae_freshness = FS_AVAILABLE, ae_status = AS_READY, ae_tool_inputs = [], ae_tool_requests = [],
     ae_abstention_reason = None, ae_setup_id = None, ae_thesis_id = None, ae_rationale = None,
     ae_reasoning = \<lparr>rr_mode = DETERMINISTIC, rr_component_version = ''deterministic-v1'',
       rr_fallback_reason = None\<rparr>\<rparr>"

definition demo_memory :: agent_memory where
  "demo_memory = (memory_from (demo_evidence ''ae-1'' 10 HS_DEVELOPING HR_NEW None (Fin (1 / 2)))
     10 None None None [] 0)\<lparr>am_id := ''am-00000000000000000000''\<rparr>"

definition invalid_memory :: agent_memory where
  "invalid_memory = (memory_from (demo_evidence ''ae-2'' 20 HS_INVALIDATED HR_INVALIDATED (Some ''hyp-1'') (Fin 0))
     10 None None None [''ae-1''] 0)\<lparr>am_id := ''am-00000000000000000000''\<rparr>"

definition zero_hash :: "'a \<Rightarrow> string" where
  "zero_hash _ = ''00000000000000000000''"

lemmas memory_eval = transition_memory_def mk_agent_memory_def memory_rules_def validate.simps
  bind_identity_def content_id_def zero_hash_def memory_from_def demo_evidence_def demo_memory_def
  invalid_memory_def continuation_rules_def starts_new_def reverses_def next_confirmation_count_def

text \<open>A memory built by any accepted sequence of evidence records exactly that sequence: its history is
  the evidence identifiers in order, nothing is dropped or rewritten, the evidence times never go
  backwards and all come from the memory's own agent, the latest identifier, hypothesis and status
  are those of the last evidence, the hypothesis began at the time of one of them, and no more
  confirmations are counted than evidence was absorbed.\<close>

theorem memory_records_its_run:
  assumes "run_memory h (e # es) None = Inr (Some m)"
  shows "memory_tracks m (e # es)"
proof -
  from assms obtain p where p: "transition_memory h None e = Inr p" "run_memory h es (Some p) = Inr (Some m)"
    by (auto simp: res_simps)
  show ?thesis using run_tracks[OF p(2) tracks_first[OF p(1)]] by simp
qed

theorem memory_records_its_run_witness:
  "\<exists>m. memory_tracks m [demo_evidence ''ae-1'' 10 HS_DEVELOPING HR_NEW None (Fin (1 / 2)),
       demo_evidence ''ae-2'' 20 HS_ACTIVE HR_STRENGTHENED (Some ''hyp-1'') (Fin (3 / 4))]"
proof -
  obtain m where "run_memory zero_hash [demo_evidence ''ae-1'' 10 HS_DEVELOPING HR_NEW None (Fin (1 / 2)),
       demo_evidence ''ae-2'' 20 HS_ACTIVE HR_STRENGTHENED (Some ''hyp-1'') (Fin (3 / 4))] None = Inr (Some m)"
    by (simp add: memory_eval)
  from memory_records_its_run[OF this] show ?thesis by blast
qed

text \<open>An invalidated or expired hypothesis is never revived: as long as the evidence continues it
  (it neither opens a new hypothesis nor reverses), every accepted run keeps the terminal status, the
  start time and, for evidence that passed its contract, the hypothesis itself.\<close>

theorem terminal_hypothesis_absorbing:
  assumes "run_memory h es (Some p) = Inr (Some m)"
    and "list_all (\<lambda>e. evidence_ok e \<and> \<not> starts_new e \<and> \<not> reverses e) es"
    and "am_hypothesis_status p \<in> {HS_INVALIDATED, HS_EXPIRED}"
  shows "am_hypothesis_status m = am_hypothesis_status p \<and> am_began_at m = am_began_at p \<and>
    am_hypothesis_id m = am_hypothesis_id p"
proof -
  have 1: "list_all (\<lambda>e. \<not> starts_new e \<and> \<not> reverses e) es"
    using assms(2) by (simp add: list_all_iff)
  have "list_all (\<lambda>e. ae_relationship e \<noteq> HR_NEW \<and> ae_relationship e \<noteq> HR_REVERSED \<longrightarrow>
       Some (ae_hypothesis_id e) = ae_previous_hypothesis_id e) es"
    using assms(2) by (auto simp: list_all_iff evidence_rules starts_new_def reverses_def)
  with run_terminal[OF assms(1) 1 assms(3)] show ?thesis by blast
qed

theorem terminal_hypothesis_absorbing_witness:
  "\<exists>m. run_memory zero_hash [demo_evidence ''ae-3'' 30 HS_INVALIDATED HR_UNCHANGED (Some ''hyp-1'') (Fin 0)]
         (Some invalid_memory) = Inr (Some m) \<and> am_began_at m = 10"
proof -
  let ?es = "[demo_evidence ''ae-3'' 30 HS_INVALIDATED HR_UNCHANGED (Some ''hyp-1'') (Fin 0)]"
  obtain m where m: "run_memory zero_hash ?es (Some invalid_memory) = Inr (Some m)"
    by (simp add: memory_eval)
  have "list_all (\<lambda>e. evidence_ok e \<and> \<not> starts_new e \<and> \<not> reverses e) ?es"
    by (simp add: evidence_rules demo_evidence_def starts_new_def reverses_def rnd_eval)
  from terminal_hypothesis_absorbing[OF m this] m show ?thesis by (simp add: memory_eval)
qed

text \<open>For validated evidence and a validated memory, the transition succeeds exactly when the lifecycle
  guards hold: same agent, no time reversal, and either a new hypothesis after a terminal one, or a
  continuation of the same hypothesis along the transition table, or a reversal of it. The resulting
  memory's own contract can never fail.\<close>

theorem transition_accepts_iff:
  assumes "memory_ok p" "evidence_ok e"
  shows "is_ok (transition_memory h (Some p) e) \<longleftrightarrow> list_all fst (continuation_rules p e)"
  using assms by (rule transition_ok_iff)

theorem transition_accepts_iff_witness:
  "\<not> is_ok (transition_memory zero_hash (Some invalid_memory)
     (demo_evidence ''ae-3'' 30 HS_ACTIVE HR_UNCHANGED (Some ''hyp-1'') (Fin (1 / 2))))"
  by (subst transition_accepts_iff) (simp_all add: memory_ok_def memory_eval evidence_rules rnd_eval)

text \<open>C32. Evidence accepted by the output check cites only what its input holds: every supporting or opposing
  reference names a tool result of the input by identifier and tool, quotes one of its facts with an
  equal value, and repeats its freshness and quality; the evidence is of the same runtime state and
  feature snapshot and was available by the time of the input.\<close>

theorem accepted_evidence_quotes_input:
  assumes "validate_agent_output a e = Inr ()"
  shows "ae_runtime_state_id e = ai_runtime_state_id a \<and>
    ae_feature_snapshot_id e = ai_feature_snapshot_id a \<and> ae_available_at e \<le> ai_as_of a \<and>
    (\<forall>i \<in> set (ae_evidence_for e @ ae_evidence_against e). \<exists>t \<in> set (ai_tool_results a). quotes t i) \<and>
    (\<forall>r \<in> set (ae_tool_inputs e). \<exists>t \<in> set (ai_tool_results a). reference_from_result t = r)"
proof -
  have checks: "\<forall>c \<in> set (concat (map (reference_rules a) (ae_tool_inputs e))). fst c"
      "\<forall>c \<in> set (concat (map (citation_rules a) (ae_evidence_for e @ ae_evidence_against e))). fst c"
      "ae_runtime_state_id e = ai_runtime_state_id a" "ae_feature_snapshot_id e = ai_feature_snapshot_id a"
      "ae_available_at e \<le> ai_as_of a"
    using assms by (auto simp: validate_agent_output_def validate_Inr_iff list_all_iff)
  have "\<exists>t \<in> set (ai_tool_results a). quotes t i" if "i \<in> set (ae_evidence_for e @ ae_evidence_against e)" for i
    using checks(2) that by (intro citation_rules_quote) (auto simp: list_all_iff)
  moreover have "\<exists>t \<in> set (ai_tool_results a). reference_from_result t = r" if "r \<in> set (ae_tool_inputs e)" for r
    using checks(1) that result_named_mem[of a "trr_tool_result_id r"]
    by (auto simp: reference_rules_def opt_some_iff)
  ultimately show ?thesis using checks(3-5) by blast
qed

definition demo_input :: agent_input where
  "demo_input = \<lparr>ai_id = [], ai_runtime_state_id = ''state-1'', ai_feature_snapshot_id = None,
     ai_as_of = 10, ai_tool_results = [\<lparr>tr_id = ''tool-1'', tr_tool_name = ''trend'', tr_tool_version = ''1'',
       tr_category = TC_TREND, tr_as_of = 10, tr_available_at = 9, tr_runtime_state_id = ''state-1'',
       tr_input_snapshot_id = ''state-1'', tr_freshness = FS_AVAILABLE, tr_status = TS_AVAILABLE,
       tr_facts = [\<lparr>tf_name = ''slope'', tf_value = FInt 1, tf_unit = None\<rparr>],
       tr_quality = \<lparr>tq_valid = True, tq_sample_size = None, tq_missing_fields = [], tq_notes = []\<rparr>,
       tr_warnings = [], tr_provenance = []\<rparr>],
     ai_previous_memory = None, ai_setup_id = None, ai_thesis_id = None, ai_reasoning_budget = None\<rparr>"

definition demo_cited :: agent_evidence where
  "demo_cited = (demo_evidence ''ae-1'' 10 HS_DEVELOPING HR_NEW None (Fin (1 / 2)))\<lparr>
     ae_evidence_for := [\<lparr>er_tool_name = ''trend'', er_tool_result_id = ''tool-1'', er_fact_name = ''slope'',
       er_fact_value = FFloat (Fin 1), er_polarity = SUPPORTS, er_strength = Fin 1,
       er_freshness = FS_AVAILABLE, er_quality_valid = True, er_explanation = None\<rparr>]\<rparr>"

theorem accepted_evidence_quotes_input_witness:
  "\<exists>t \<in> set (ai_tool_results demo_input). quotes t (hd (ae_evidence_for demo_cited))"
proof -
  have "validate_agent_output demo_input demo_cited = Inr ()"
    by (simp add: validate_agent_output_def demo_input_def demo_cited_def demo_evidence_def validate.simps
        citation_rules_def result_named_def dict_by_def cited_fact_def)
  from accepted_evidence_quotes_input[OF this] show ?thesis
    by (simp add: demo_cited_def)
qed

end
