(* ===== verification/PyValue.thy ===== *)
theory PyValue
  imports PyFloat
begin

section \<open>Dynamically typed values\<close>

text \<open>
  The broker's gateway answers with mappings from names to values of any type. This theory models the
  conversions the sources apply to such values: Python's \<open>int(x)\<close>, \<open>float(x)\<close> and \<open>str(x)\<close> with the grammar
  of numerals in text, \<open>round(x)\<close>, and \<open>datetime.fromtimestamp\<close>. Text is ASCII.
\<close>

text \<open>\<open>PvBytes\<close> stands for \<open>bytes\<close> and \<open>bytearray\<close>, \<open>PvOther\<close> for a value of any other type.\<close>

datatype py_value =
    PvNone | PvBool bool | PvInt int | PvFloat f64 | PvText string | PvBytes string | PvOther

subsection \<open>Numerals in text\<close>

definition is_space :: "char \<Rightarrow> bool" where
  "is_space c \<longleftrightarrow> (let n = of_char c :: nat in 9 \<le> n \<and> n \<le> 13 \<or> 28 \<le> n \<and> n \<le> 31 \<or> n = 32)"

definition is_byte_space :: "char \<Rightarrow> bool" where
  "is_byte_space c \<longleftrightarrow> (let n = of_char c :: nat in 9 \<le> n \<and> n \<le> 13 \<or> n = 32)"

definition strip :: "(char \<Rightarrow> bool) \<Rightarrow> string \<Rightarrow> string" where
  "strip p s = rev (dropWhile p (rev (dropWhile p s)))"

definition digit_of :: "char \<Rightarrow> int option" where
  "digit_of c = (let n = of_char c :: nat in if 48 \<le> n \<and> n \<le> 57 then Some (int n - 48) else None)"

text \<open>Digits with single underscores between them; the flag says whether the last character was a digit.\<close>

fun scan_digits :: "bool \<Rightarrow> int \<Rightarrow> string \<Rightarrow> int option" where
  "scan_digits seen acc [] = (if seen then Some acc else None)"
| "scan_digits seen acc (c # cs) = (case digit_of c of
     Some d \<Rightarrow> scan_digits True (10 * acc + d) cs
   | None \<Rightarrow> if c = CHR ''_'' \<and> seen then scan_digits False acc cs else None)"

definition digit_count :: "string \<Rightarrow> nat" where
  "digit_count s = length (filter (\<lambda>c. digit_of c \<noteq> None) s)"

fun signed :: "string \<Rightarrow> bool \<times> string" where
  "signed [] = (False, [])"
| "signed (c # cs) = (if c = CHR ''-'' then (True, cs) else if c = CHR ''+'' then (False, cs) else (False, c # cs))"

definition scan_signed :: "string \<Rightarrow> int option" where
  "scan_signed s = (case signed s of (neg, t) \<Rightarrow>
     map_option (\<lambda>n. if neg then - n else n) (scan_digits False 0 t))"

text \<open>\<open>int(text)\<close>: more than 4300 digits are refused.\<close>

definition parse_int :: "(char \<Rightarrow> bool) \<Rightarrow> string \<Rightarrow> int res" where
  "parse_int p s = (case scan_signed (strip p s) of
     None \<Rightarrow> Inl (ValueError ''invalid literal for int()'')
   | Some n \<Rightarrow>
       if 4300 < digit_count s then Inl (ValueError ''Exceeds the limit for integer string conversion'')
       else Inr n)"

definition optional_digits :: "string \<Rightarrow> int option" where
  "optional_digits s = (if s = [] then Some 0 else scan_digits False 0 s)"

definition scan_mantissa :: "string \<Rightarrow> rat option" where
  "scan_mantissa m =
     (let whole = takeWhile (\<lambda>c. c \<noteq> CHR ''.'') m; frac = drop 1 (dropWhile (\<lambda>c. c \<noteq> CHR ''.'') m)
      in if whole = [] \<and> frac = [] then None
         else case (optional_digits whole, optional_digits frac) of
           (Some a, Some b) \<Rightarrow> Some (of_int a + of_int b / 10 ^ digit_count frac)
         | _ \<Rightarrow> None)"

definition scan_decimal :: "string \<Rightarrow> rat option" where
  "scan_decimal s =
     (let is_e = (\<lambda>c. c = CHR ''e'' \<or> c = CHR ''E'');
          m = takeWhile (\<lambda>c. \<not> is_e c) s; x = dropWhile (\<lambda>c. \<not> is_e c) s
      in case (scan_mantissa m, if x = [] then Some 0 else scan_signed (tl x)) of
           (Some q, Some e) \<Rightarrow> Some (q * 10 powi e)
         | _ \<Rightarrow> None)"

definition lower_char :: "char \<Rightarrow> char" where
  "lower_char c = (let n = of_char c :: nat in if 65 \<le> n \<and> n \<le> 90 then char_of (n + 32) else c)"

definition parse_float :: "(char \<Rightarrow> bool) \<Rightarrow> string \<Rightarrow> f64 res" where
  "parse_float p s = (case signed (strip p s) of (neg, t) \<Rightarrow>
     let name = map lower_char t in
     if name = ''inf'' \<or> name = ''infinity'' then Inr (if neg then NInf else PInf)
     else if name = ''nan'' then Inr NaN
     else case scan_decimal t of
       None \<Rightarrow> Inl (ValueError ''could not convert string to float'')
     | Some q \<Rightarrow> Inr (rnd (if neg then - q else q)))"

subsection \<open>Conversions\<close>

fun py_trunc :: "f64 \<Rightarrow> int res" where
  "py_trunc (Fin x) = Inr (if 0 \<le> x then \<lfloor>x\<rfloor> else \<lceil>x\<rceil>)"
| "py_trunc NaN = Inl (ValueError ''cannot convert float NaN to integer'')"
| "py_trunc _ = Inl OverflowError"

text \<open>\<open>round(x)\<close>.\<close>

fun py_round_int :: "f64 \<Rightarrow> int res" where
  "py_round_int (Fin x) = Inr (rhe x)"
| "py_round_int NaN = Inl (ValueError ''cannot convert float NaN to integer'')"
| "py_round_int _ = Inl OverflowError"

text \<open>\<open>isinstance(value, (str, bytes, bytearray, int, float))\<close>, and the constructors \<open>int\<close> and \<open>float\<close> on those.\<close>

definition convertible :: "py_value \<Rightarrow> bool" where
  "convertible v \<longleftrightarrow> v \<noteq> PvNone \<and> v \<noteq> PvOther"

fun to_int :: "py_value \<Rightarrow> int res" where
  "to_int (PvBool b) = Inr (if b then 1 else 0)"
| "to_int (PvInt n) = Inr n"
| "to_int (PvFloat x) = py_trunc x"
| "to_int (PvText s) = parse_int is_space s"
| "to_int (PvBytes s) = parse_int is_byte_space s"
| "to_int _ = Inl (ValueError ''int() argument'')"

fun to_float :: "py_value \<Rightarrow> f64 res" where
  "to_float (PvBool b) = Inr (if b then Fin 1 else Fin 0)"
| "to_float (PvInt n) = float_of_int n"
| "to_float (PvFloat x) = Inr x"
| "to_float (PvText s) = parse_float is_space s"
| "to_float (PvBytes s) = parse_float is_byte_space s"
| "to_float _ = Inl (ValueError ''float() argument'')"

text \<open>\<open>value is True or value == 1\<close>; a value of another type is not equal to one.\<close>

fun is_one :: "py_value \<Rightarrow> bool" where
  "is_one (PvBool b) = b"
| "is_one (PvInt n) = (n = 1)"
| "is_one (PvFloat x) = (x = Fin 1)"
| "is_one _ = False"

definition digit_char :: "nat \<Rightarrow> char" where
  "digit_char k = char_of (48 + k)"

fun nat_text :: "nat \<Rightarrow> string" where
  "nat_text n = (if n < 10 then [digit_char n] else nat_text (n div 10) @ [digit_char (n mod 10)])"

declare nat_text.simps [simp del]

definition int_text :: "int \<Rightarrow> string" where
  "int_text n = (if n < 0 then CHR ''-'' # nat_text (nat (- n)) else nat_text (nat n))"

text \<open>\<open>datetime.fromtimestamp(x, tz=UTC)\<close>: whole seconds, and microseconds rounded to even.\<close>

definition from_timestamp :: "f64 \<Rightarrow> dt res" where
  "from_timestamp x = (case x of
     Fin q \<Rightarrow>
       let s = (if 0 \<le> q then \<lfloor>q\<rfloor> else \<lceil>q\<rceil>) in
       res_bind (py_round_int (fmul (Fin (q - of_int s)) (Fin 1000000))) (\<lambda>us.
         let t = s * 1000000 + us in
         if dt_min \<le> t \<and> t \<le> dt_max then Inr t else Inl (ValueError ''year is out of range''))
   | NaN \<Rightarrow> Inl (ValueError ''cannot convert float NaN to integer'')
   | _ \<Rightarrow> Inl OverflowError)"

subsection \<open>Laws\<close>

lemma char_of_digit: "k < 10 \<Longrightarrow> digit_of (digit_char k) = Some (int k)"
  by (simp add: digit_of_def digit_char_def)

lemma scan_nat_text: "scan_digits seen acc (nat_text n @ cs) = scan_digits True (acc * 10 ^ length (nat_text n) + int n) cs"
proof (induction n arbitrary: seen acc cs rule: nat_text.induct)
  case (1 n)
  show ?case
  proof (cases "n < 10")
    case True
    then show ?thesis by (simp add: nat_text.simps[of n] char_of_digit algebra_simps)
  next
    case False
    have "int n = int (n div 10) * 10 + int (n mod 10)" by (metis div_mult_mod_eq of_nat_add of_nat_mult of_nat_numeral)
    then show ?thesis
      using 1[OF False] False by (simp add: nat_text.simps[of n] char_of_digit algebra_simps)
  qed
qed

text \<open>Reading back the decimal text of an integer gives the integer.\<close>

lemma digits_of_nat_text: "c \<in> set (nat_text n) \<Longrightarrow> \<exists>k < 10. c = digit_char k"
proof (induction n rule: nat_text.induct)
  case (1 n)
  show ?case
  proof (cases "n < 10")
    case True
    then show ?thesis using 1(2) by (auto simp: nat_text.simps[of n])
  next
    case False
    then have "c \<in> set (nat_text (n div 10)) \<or> c = digit_char (n mod 10)"
      using 1(2) by (auto simp: nat_text.simps[of n])
    then show ?thesis using 1(1)[OF False] by (metis mod_less_divisor zero_less_numeral)
  qed
qed

lemma nat_text_nonempty: "nat_text n \<noteq> []"
  by (simp add: nat_text.simps[of n])

lemma signed_nat_text: "signed (nat_text n) = (False, nat_text n)"
proof (cases "nat_text n")
  case (Cons c cs)
  then obtain k where "k < 10" "c = digit_char k" using digits_of_nat_text[of c n] by auto
  then have "digit_of c \<noteq> None" by (simp add: char_of_digit)
  then show ?thesis using Cons by (auto simp: digit_of_def)
qed (simp add: nat_text_nonempty)

lemma scan_int_text: "scan_signed (int_text n) = Some n"
  using scan_nat_text[of False 0 _ "[]"]
  by (simp add: scan_signed_def int_text_def signed_nat_text)

lemma strip_id: "(\<And>c. c \<in> set s \<Longrightarrow> \<not> p c) \<Longrightarrow> strip p s = s"
proof -
  have id: "dropWhile p t = t" if "\<And>c. c \<in> set t \<Longrightarrow> \<not> p c" for t
    using that by (cases t) auto
  assume "\<And>c. c \<in> set s \<Longrightarrow> \<not> p c"
  then show ?thesis using id[of s] id[of "rev s"] by (simp add: strip_def)
qed

lemma parse_int_text: "digit_count (int_text n) \<le> 4300 \<Longrightarrow> parse_int is_space (int_text n) = Inr n"
proof -
  have "\<not> is_space c" if "c \<in> set (int_text n)" for c
  proof -
    from that have "c = CHR ''-'' \<or> (\<exists>k < 10. c = digit_char k)"
      using digits_of_nat_text by (auto simp: int_text_def split: if_splits)
    then show ?thesis by (auto simp: is_space_def digit_char_def)
  qed
  then have "strip is_space (int_text n) = int_text n" by (rule strip_id)
  then show "digit_count (int_text n) \<le> 4300 \<Longrightarrow> parse_int is_space (int_text n) = Inr n"
    by (simp add: parse_int_def scan_int_text)
qed

end
