(* ===== verification/RuntimeEvents.thy ===== *)
theory RuntimeEvents
  imports RuntimeState
begin

section \<open>Runtime events (\<open>runtime/events.py\<close>)\<close>

text \<open>
  The event envelope, its payload union, the payload class every event type requires, the
  validator and the global ordering key \<open>(available_at, source_sequence, event_id)\<close>.
\<close>

datatype event_type =
    M5_CLOSED | HTF_CLOSED | TICK | M1_CLOSED | ACCOUNT_UPDATED | POSITIONS_UPDATED
  | ORDERS_UPDATED | EXPOSURE_UPDATED | BROKER_CONSTRAINTS_UPDATED | EXECUTION_FEEDBACK
  | SLOW_CONTEXT_UPDATED

datatype event_payload =
    P_Market market_state
  | P_Account account_state
  | P_Positions position_book_state
  | P_Orders order_book_state
  | P_Exposure exposure_state
  | P_Constraints broker_constraints
  | P_Feedback execution_feedback_state
  | P_Context slow_context_state

record runtime_event =
  ev_id :: string
  ev_type :: event_type
  ev_event_time :: dt
  ev_observed_at :: dt
  ev_available_at :: dt
  ev_source :: string
  ev_source_version :: string
  ev_source_sequence :: int
  ev_symbol :: "string option"
  ev_payload :: event_payload
  ev_ingested_at :: "dt option"

text \<open>The \<open>expected\<close> table: \<open>isinstance(payload, expected[event_type])\<close>.\<close>

datatype payload_class =
    C_Market | C_Account | C_Positions | C_Orders | C_Exposure | C_Constraints | C_Feedback | C_Context

primrec class_of :: "event_payload \<Rightarrow> payload_class" where
  "class_of (P_Market _) = C_Market"
| "class_of (P_Account _) = C_Account"
| "class_of (P_Positions _) = C_Positions"
| "class_of (P_Orders _) = C_Orders"
| "class_of (P_Exposure _) = C_Exposure"
| "class_of (P_Constraints _) = C_Constraints"
| "class_of (P_Feedback _) = C_Feedback"
| "class_of (P_Context _) = C_Context"

primrec expected_class :: "event_type \<Rightarrow> payload_class" where
  "expected_class M5_CLOSED = C_Market"
| "expected_class HTF_CLOSED = C_Market"
| "expected_class TICK = C_Market"
| "expected_class M1_CLOSED = C_Market"
| "expected_class ACCOUNT_UPDATED = C_Account"
| "expected_class POSITIONS_UPDATED = C_Positions"
| "expected_class ORDERS_UPDATED = C_Orders"
| "expected_class EXPOSURE_UPDATED = C_Exposure"
| "expected_class BROKER_CONSTRAINTS_UPDATED = C_Constraints"
| "expected_class EXECUTION_FEEDBACK = C_Feedback"
| "expected_class SLOW_CONTEXT_UPDATED = C_Context"

definition payload_matches :: "event_type \<Rightarrow> event_payload \<Rightarrow> bool" where
  "payload_matches t p \<longleftrightarrow> class_of p = expected_class t"

primrec event_type_value :: "event_type \<Rightarrow> string" where
  "event_type_value M5_CLOSED = ''M5_CLOSED''"
| "event_type_value HTF_CLOSED = ''HTF_CLOSED''"
| "event_type_value TICK = ''TICK''"
| "event_type_value M1_CLOSED = ''M1_CLOSED''"
| "event_type_value ACCOUNT_UPDATED = ''ACCOUNT_UPDATED''"
| "event_type_value POSITIONS_UPDATED = ''POSITIONS_UPDATED''"
| "event_type_value ORDERS_UPDATED = ''ORDERS_UPDATED''"
| "event_type_value EXPOSURE_UPDATED = ''EXPOSURE_UPDATED''"
| "event_type_value BROKER_CONSTRAINTS_UPDATED = ''BROKER_CONSTRAINTS_UPDATED''"
| "event_type_value EXECUTION_FEEDBACK = ''EXECUTION_FEEDBACK''"
| "event_type_value SLOW_CONTEXT_UPDATED = ''SLOW_CONTEXT_UPDATED''"

definition mk_runtime_event :: "(runtime_event \<Rightarrow> string) \<Rightarrow> runtime_event \<Rightarrow> runtime_event res" where
  "mk_runtime_event h e = res_bind (validate
     [nonempty ''source'' (ev_source e), nonempty ''source_version'' (ev_source_version e),
      field_ok ''source_sequence'' (0 \<le> ev_source_sequence e),
      rule_ok ''event timestamps must satisfy event_time <= observed_at <= available_at''
        (ev_event_time e \<le> ev_observed_at e \<and> ev_observed_at e \<le> ev_available_at e),
      rule_ok ''ingested_at must not precede available_at''
        (opt_all (\<lambda>i. ev_available_at e \<le> i) (ev_ingested_at e)),
      rule_ok (''payload does not match event type '' @ event_type_value (ev_type e))
        (payload_matches (ev_type e) (ev_payload e))] e)
     (bind_identity ''ev-'' h (\<lambda>r. r\<lparr>ev_id := [], ev_ingested_at := None\<rparr>) ev_id
        (\<lambda>i r. r\<lparr>ev_id := i\<rparr>) ''event_id does not match event content'')"

interpretation event_identity: content_addressed "''ev-''" h
    "\<lambda>r. r\<lparr>ev_id := [], ev_ingested_at := None\<rparr>" ev_id
    "\<lambda>i r. r\<lparr>ev_id := i\<rparr>" "''event_id does not match event content''"
  for h :: "runtime_event \<Rightarrow> string"
  by unfold_locales simp_all

text \<open>Tuple comparison of two ordering keys.\<close>

fun key_less :: "dt \<times> int \<times> string \<Rightarrow> dt \<times> int \<times> string \<Rightarrow> bool" where
  "key_less (t, n, i) (t', n', i') =
     (t < t' \<or> t = t' \<and> (n < n' \<or> n = n' \<and> i < i'))"

definition ordering_key :: "runtime_event \<Rightarrow> dt \<times> int \<times> string" where
  "ordering_key e = (ev_available_at e, ev_source_sequence e, ev_id e)"

lemma key_less_irrefl [simp]: "\<not> key_less k k"
  by (cases k) auto

lemma key_less_trans: "key_less a b \<Longrightarrow> key_less b c \<Longrightarrow> key_less a c"
  by (cases a; cases b; cases c) (auto dest: less_trans)

lemma not_key_less_trans: "\<not> key_less b a \<Longrightarrow> \<not> key_less c b \<Longrightarrow> \<not> key_less c a"
  by (cases a; cases b; cases c) (auto simp: not_less)

text \<open>What every validated event satisfies.\<close>

definition valid_event :: "runtime_event \<Rightarrow> bool" where
  "valid_event e \<longleftrightarrow> ev_source e \<noteq> [] \<and> ev_source_version e \<noteq> [] \<and> 0 \<le> ev_source_sequence e
     \<and> ev_event_time e \<le> ev_observed_at e \<and> ev_observed_at e \<le> ev_available_at e
     \<and> payload_matches (ev_type e) (ev_payload e) \<and> ev_id e \<noteq> []"

lemma mk_runtime_event_valid: "mk_runtime_event h e = Inr e' \<Longrightarrow> valid_event e'"
  by (auto simp: mk_runtime_event_def valid_event_def res_simps event_identity.bind_ok_iff
      content_id_def)

end
