(* ===== verification/Reducer.thy ===== *)
theory Reducer
  imports RuntimeEvents
begin

section \<open>The pure reducer (\<open>runtime/reducer.py\<close>)\<close>

text \<open>
  \<open>reduce_state\<close> applies one causally available event to the shared state. The model keeps its
  guards, its dictionary updates and the final re-validation; the properties are about every state
  reachable from \<open>initial_runtime_state\<close> by accepted validated events.
\<close>

subsection \<open>Initial state\<close>

definition unknown_freshness :: "string \<Rightarrow> component_freshness" where
  "unknown_freshness c = \<lparr>cf_component = c, cf_status = FS_UNKNOWN, cf_observed_at = None,
     cf_available_at = None, cf_stale_after_ms = None, cf_reason = None\<rparr>"

definition initial_components :: "string list" where
  "initial_components =
     [''market'', ''account'', ''positions'', ''orders'', ''exposure'', ''broker_constraints'']"

definition initial_raw :: "string \<Rightarrow> dt \<Rightarrow> shared_state" where
  "initial_raw symb as_of =
     \<lparr>st_id = [], st_as_of = as_of,
      st_market = \<lparr>ms_source = ''unknown'', ms_symbol = symb, ms_as_of = as_of,
        ms_freshness = unknown_freshness ''market'', ms_bid = None, ms_ask = None, ms_last = None,
        ms_spread_points = None, ms_base_timeframe = None, ms_completed_timeframes = [],
        ms_feature_manifest_id = None, ms_market_data_version = None\<rparr>,
      st_account = \<lparr>ac_source = ''unknown'', ac_account_id = ''unknown'', ac_as_of = as_of,
        ac_freshness = unknown_freshness ''account'', ac_currency = None, ac_balance = None,
        ac_equity = None, ac_free_margin = None, ac_used_margin = None, ac_margin_level = None,
        ac_floating_pnl = None, ac_daily_realized_pnl = None, ac_daily_unrealized_pnl = None,
        ac_daily_drawdown = None, ac_total_drawdown = None\<rparr>,
      st_positions = \<lparr>pb_source = ''unknown'', pb_as_of = as_of,
        pb_freshness = unknown_freshness ''positions'', pb_positions = []\<rparr>,
      st_orders = \<lparr>ob_source = ''unknown'', ob_as_of = as_of,
        ob_freshness = unknown_freshness ''orders'', ob_orders = []\<rparr>,
      st_exposure = \<lparr>ex_as_of = as_of, ex_freshness = unknown_freshness ''exposure'',
        ex_gross_lots = None, ex_net_lots = None, ex_gross_notional = None, ex_net_notional = None\<rparr>,
      st_broker_constraints = \<lparr>bc_source = ''unknown'', bc_symbol = symb, bc_as_of = as_of,
        bc_freshness = unknown_freshness ''broker_constraints'', bc_trade_allowed = None,
        bc_digits = None, bc_volume_min = None, bc_volume_max = None, bc_volume_step = None,
        bc_point_size = None, bc_tick_size = None, bc_tick_value_loss = None,
        bc_stops_level_points = None, bc_freeze_level_points = None\<rparr>,
      st_component_freshness = map unknown_freshness initial_components,
      st_source_cursors = [], st_last_event = None, st_execution_feedback = [],
      st_latest_execution_feedback = None, st_slow_context = [], st_recorded_at = None\<rparr>"

definition initial_runtime_state ::
  "(shared_state \<Rightarrow> string) \<Rightarrow> string \<Rightarrow> py_datetime \<Rightarrow> shared_state res" where
  "initial_runtime_state h symb at_time = res_bind (ensure_utc at_time) (\<lambda>as_of.
     res_bind (mk_market_state (st_market (initial_raw symb as_of))) (\<lambda>_.
     res_bind (mk_broker_constraints (st_broker_constraints (initial_raw symb as_of))) (\<lambda>_.
     mk_shared_state h (initial_raw symb as_of))))"

subsection \<open>Order of events\<close>

definition find_source_cursor :: "shared_state \<Rightarrow> string \<Rightarrow> source_cursor option" where
  "find_source_cursor s src = lookup_by cur_source (st_source_cursors s) src"

definition cursor_key :: "event_cursor \<Rightarrow> dt \<times> int \<times> string" where
  "cursor_key c = (ec_available_at c, ec_source_sequence c, ec_event_id c)"

text \<open>\<open>False\<close> marks the duplicate that leaves the state untouched.\<close>

definition validate_global_order :: "shared_state \<Rightarrow> runtime_event \<Rightarrow> bool res" where
  "validate_global_order s e =
     (case st_last_event s of
        None \<Rightarrow> Inr True
      | Some c \<Rightarrow> (if key_less (ordering_key e) (cursor_key c)
                  then Inl (ValueError ''event violates global event order'') else Inr True))"

definition validate_order :: "shared_state \<Rightarrow> runtime_event \<Rightarrow> bool res" where
  "validate_order s e =
     (case find_source_cursor s (ev_source e) of
        None \<Rightarrow> validate_global_order s e
      | Some c \<Rightarrow>
          (if cur_source_sequence c = ev_source_sequence e then
             (if cur_event_id c = Some (ev_id e) then Inr False
              else Inl (ValueError ''source sequence collision''))
           else if ev_source_sequence e < cur_source_sequence c then
             Inl (ValueError ''stale source sequence'')
           else validate_global_order s e))"

subsection \<open>Component updates\<close>

definition keep_known :: "'a option \<Rightarrow> 'a option \<Rightarrow> 'a option" where
  "keep_known old new = (case new of None \<Rightarrow> old | Some v \<Rightarrow> Some v)"

definition account_update :: "account_state \<Rightarrow> account_state \<Rightarrow> account_state res" where
  "account_update prev new =
     (if cf_status (ac_freshness new) \<noteq> FS_STALE then Inr new
      else mk_account_state (new\<lparr>
        ac_currency := keep_known (ac_currency prev) (ac_currency new),
        ac_balance := keep_known (ac_balance prev) (ac_balance new),
        ac_equity := keep_known (ac_equity prev) (ac_equity new),
        ac_free_margin := keep_known (ac_free_margin prev) (ac_free_margin new),
        ac_used_margin := keep_known (ac_used_margin prev) (ac_used_margin new),
        ac_margin_level := keep_known (ac_margin_level prev) (ac_margin_level new),
        ac_floating_pnl := keep_known (ac_floating_pnl prev) (ac_floating_pnl new),
        ac_daily_realized_pnl := keep_known (ac_daily_realized_pnl prev) (ac_daily_realized_pnl new),
        ac_daily_unrealized_pnl :=
          keep_known (ac_daily_unrealized_pnl prev) (ac_daily_unrealized_pnl new),
        ac_daily_drawdown := keep_known (ac_daily_drawdown prev) (ac_daily_drawdown new),
        ac_total_drawdown := keep_known (ac_total_drawdown prev) (ac_total_drawdown new)\<rparr>))"

fun execution_progress :: "execution_status \<Rightarrow> int option" where
  "execution_progress ES_SUBMITTED = Some 0"
| "execution_progress ES_ACCEPTED = Some 1"
| "execution_progress ES_PARTIALLY_FILLED = Some 2"
| "execution_progress ES_FILLED = Some 3"
| "execution_progress ES_CLOSED = Some 4"
| "execution_progress _ = None"

definition terminal_execution :: "execution_status \<Rightarrow> bool" where
  "terminal_execution s \<longleftrightarrow> s \<in> {ES_REJECTED, ES_CANCELLED, ES_EXPIRED, ES_FAILED, ES_CLOSED}"

definition status_regresses :: "execution_status \<Rightarrow> execution_status \<Rightarrow> bool" where
  "status_regresses old new \<longleftrightarrow>
     terminal_execution old \<and> new \<noteq> old \<or>
     (case execution_progress old of
        None \<Rightarrow> False
      | Some r \<Rightarrow> (case execution_progress new of None \<Rightarrow> True | Some r' \<Rightarrow> r' < r))"

definition validate_execution_progress ::
  "execution_feedback_state option \<Rightarrow> execution_feedback_state \<Rightarrow> unit res" where
  "validate_execution_progress previous incoming =
     (case previous of
        None \<Rightarrow> Inr ()
      | Some p \<Rightarrow>
          (if xf_instruction_id p \<noteq> xf_instruction_id incoming then Inr ()
           else if status_regresses (xf_status p) (xf_status incoming)
           then Inl (ValueError ''execution feedback regression'') else Inr ()))"

definition updated_execution_feedback ::
  "shared_state \<Rightarrow> execution_feedback_state \<Rightarrow> execution_feedback_state list res" where
  "updated_execution_feedback s incoming =
     res_bind (validate_execution_progress
         (map_of (dict_by xf_instruction_id (st_execution_feedback s)) (xf_instruction_id incoming))
         incoming)
       (\<lambda>_. Inr (upsert xf_instruction_id (st_execution_feedback s) incoming))"

definition updated_freshness :: "shared_state \<Rightarrow> component_freshness \<Rightarrow> component_freshness list" where
  "updated_freshness s c = upsert cf_component
     (filter (\<lambda>i. cf_component i \<noteq> cf_component c) (st_component_freshness s)) c"

definition updated_source_cursors :: "shared_state \<Rightarrow> runtime_event \<Rightarrow> source_cursor list res" where
  "updated_source_cursors s e =
     res_bind (mk_source_cursor
         \<lparr>cur_source = ev_source e, cur_source_sequence = ev_source_sequence e,
          cur_event_id = Some (ev_id e), cur_available_at = Some (ev_available_at e)\<rparr>)
       (\<lambda>c. Inr (upsert cur_source (st_source_cursors s) c))"

definition updated_slow_context :: "shared_state \<Rightarrow> slow_context_state \<Rightarrow> slow_context_state list" where
  "updated_slow_context s c = upsert sc_provider (st_slow_context s) c"

text \<open>
  The branch on the event type: the payload was checked against the type, so its class decides
  the branch. The result carries the freshness of the component, when there is one.
\<close>

definition apply_payload ::
  "shared_state \<Rightarrow> event_payload \<Rightarrow> (shared_state \<times> component_freshness option) res" where
  "apply_payload s p = (case p of
     P_Market m \<Rightarrow> Inr (s\<lparr>st_market := m\<rparr>, Some (ms_freshness m))
   | P_Account a \<Rightarrow> res_bind (account_update (st_account s) a)
       (\<lambda>a'. Inr (s\<lparr>st_account := a'\<rparr>, Some (ac_freshness a')))
   | P_Positions b \<Rightarrow> Inr (s\<lparr>st_positions := b\<rparr>, Some (pb_freshness b))
   | P_Orders b \<Rightarrow> Inr (s\<lparr>st_orders := b\<rparr>, Some (ob_freshness b))
   | P_Exposure x \<Rightarrow> Inr (s\<lparr>st_exposure := x\<rparr>, Some (ex_freshness x))
   | P_Constraints b \<Rightarrow> Inr (s\<lparr>st_broker_constraints := b\<rparr>, Some (bc_freshness b))
   | P_Feedback f \<Rightarrow> res_bind (updated_execution_feedback s f)
       (\<lambda>fs. Inr (s\<lparr>st_execution_feedback := fs, st_latest_execution_feedback := Some f\<rparr>, None))
   | P_Context c \<Rightarrow> Inr (s\<lparr>st_slow_context := updated_slow_context s c\<rparr>, None))"

definition advance_state ::
  "shared_state \<Rightarrow> runtime_event \<Rightarrow> dt \<Rightarrow> shared_state \<times> component_freshness option
     \<Rightarrow> shared_state res" where
  "advance_state prev e now d =
     res_bind (updated_source_cursors prev e) (\<lambda>cursors.
     res_bind (mk_event_cursor \<lparr>ec_available_at = ev_available_at e,
         ec_source_sequence = ev_source_sequence e, ec_event_id = ev_id e\<rparr>) (\<lambda>lst.
     Inr ((case snd d of None \<Rightarrow> fst d
           | Some c \<Rightarrow> (fst d)\<lparr>st_component_freshness := updated_freshness prev c\<rparr>)
          \<lparr>st_id := [], st_as_of := ev_available_at e, st_source_cursors := cursors,
           st_last_event := Some lst, st_recorded_at := Some now\<rparr>)))"

definition reduce_state ::
  "(shared_state \<Rightarrow> string) \<Rightarrow> shared_state \<Rightarrow> runtime_event \<Rightarrow> py_datetime \<Rightarrow> shared_state res" where
  "reduce_state h prev e now = res_bind (ensure_utc now) (\<lambda>t.
     if t < ev_available_at e then Inl (ValueError ''event is not yet available'')
     else if \<not> payload_matches (ev_type e) (ev_payload e)
     then Inl (ValueError (''payload does not match event type '' @ event_type_value (ev_type e)))
     else res_bind (validate_order prev e) (\<lambda>fresh.
       if \<not> fresh then Inr prev
       else res_bind (apply_payload prev (ev_payload e)) (\<lambda>d.
            res_bind (advance_state prev e t d) (mk_shared_state h))))"

subsection \<open>Reachable states and their invariant\<close>

text \<open>
  The payload of a validated event is itself validated; only the account contract is run again
  by the reducer. A state is reachable when accepted validated events lead to it.
\<close>

definition valid_payload :: "event_payload \<Rightarrow> bool" where
  "valid_payload p = (case p of P_Account a \<Rightarrow> is_ok (mk_account_state a) | _ \<Rightarrow> True)"

inductive reachable_state :: "(shared_state \<Rightarrow> string) \<Rightarrow> shared_state \<Rightarrow> bool" for h where
  start: "initial_runtime_state h symb at_time = Inr s \<Longrightarrow> reachable_state h s"
| event: "reachable_state h s \<Longrightarrow> valid_event e \<Longrightarrow> valid_payload (ev_payload e) \<Longrightarrow>
    reduce_state h s e now = Inr s' \<Longrightarrow> reachable_state h s'"

definition source_key :: "source_cursor \<Rightarrow> (dt \<times> int \<times> string) option" where
  "source_key c = (case (cur_available_at c, cur_event_id c) of
     (Some t, Some i) \<Rightarrow> Some (t, cur_source_sequence c, i) | _ \<Rightarrow> None)"

definition cursors_below :: "source_cursor list \<Rightarrow> event_cursor option \<Rightarrow> bool" where
  "cursors_below cs recent = (case recent of
     None \<Rightarrow> cs = []
   | Some l \<Rightarrow> list_all (\<lambda>c. opt_some (\<lambda>k. \<not> key_less (cursor_key l) k) (source_key c)) cs)"

definition reducer_invariant :: "shared_state \<Rightarrow> bool" where
  "reducer_invariant s \<longleftrightarrow>
     keyed cur_source (st_source_cursors s) \<and>
     keyed xf_instruction_id (st_execution_feedback s) \<and>
     keyed sc_provider (st_slow_context s) \<and>
     distinct (map cf_component (st_component_freshness s)) \<and>
     opt_all (\<lambda>l. ec_available_at l = st_as_of s) (st_last_event s) \<and>
     cursors_below (st_source_cursors s) (st_last_event s) \<and>
     opt_all (\<lambda>f. lookup_by xf_instruction_id (st_execution_feedback s) (xf_instruction_id f) = Some f)
       (st_latest_execution_feedback s) \<and>
     is_ok (mk_account_state (st_account s))"

lemmas reducer_step_simps =
  reduce_state_def advance_state_def mk_shared_state_def state_identity.bind_ok_iff
  updated_source_cursors_def mk_source_cursor_def mk_event_cursor_def res_simps

text \<open>What an accepted event does to the state, before the identity is bound again.\<close>

lemma reduce_state_cases:
  assumes "reduce_state h s e now = Inr s'"
  obtains (duplicate) "validate_order s e = Inr False" "s' = s"
  | (accepted) t u c where "validate_order s e = Inr True" "ensure_utc now = Inr t"
      "ev_available_at e \<le> t" "apply_payload s (ev_payload e) = Inr (u, c)"
      "st_market s' = st_market u" "st_account s' = st_account u" "st_positions s' = st_positions u"
      "st_orders s' = st_orders u" "st_exposure s' = st_exposure u"
      "st_broker_constraints s' = st_broker_constraints u"
      "st_execution_feedback s' = st_execution_feedback u"
      "st_latest_execution_feedback s' = st_latest_execution_feedback u"
      "st_slow_context s' = st_slow_context u"
      "st_component_freshness s' = (case c of None \<Rightarrow> st_component_freshness u
         | Some f \<Rightarrow> updated_freshness s f)"
      "st_as_of s' = ev_available_at e"
      "st_source_cursors s' = upsert cur_source (st_source_cursors s)
         \<lparr>cur_source = ev_source e, cur_source_sequence = ev_source_sequence e,
          cur_event_id = Some (ev_id e), cur_available_at = Some (ev_available_at e)\<rparr>"
      "st_last_event s' = Some \<lparr>ec_available_at = ev_available_at e,
         ec_source_sequence = ev_source_sequence e, ec_event_id = ev_id e\<rparr>"
      "st_recorded_at s' = Some t"
proof -
  obtain t where t: "ensure_utc now = Inr t" "\<not> t < ev_available_at e"
    using assms by (auto simp: reduce_state_def res_simps split: if_splits)
  obtain b where b: "validate_order s e = Inr b"
    using assms t by (auto simp: reduce_state_def res_simps split: if_splits)
  show ?thesis
  proof (cases b)
    case False
    then show ?thesis
      using assms t b duplicate by (auto simp: reduce_state_def split: if_splits)
  next
    case True
    then obtain u c where a: "apply_payload s (ev_payload e) = Inr (u, c)"
      and r: "res_bind (advance_state s e t (u, c)) (mk_shared_state h) = Inr s'"
      using assms t b by (auto simp: reduce_state_def res_simps split: if_splits)
    from r obtain v i where v: "advance_state s e t (u, c) = Inr v" "s' = v\<lparr>st_id := i\<rparr>"
      by (auto simp: mk_shared_state_def state_identity.bind_ok_iff res_simps)
    show ?thesis
      by (rule accepted[OF _ t(1) _ a])
        (use True b t v in \<open>auto simp: advance_state_def updated_source_cursors_def
          mk_source_cursor_def mk_event_cursor_def res_simps split: option.splits\<close>)
  qed
qed

lemma apply_payload_keeps:
  assumes "apply_payload s p = Inr (u, c)"
  shows "st_source_cursors u = st_source_cursors s" "st_last_event u = st_last_event s"
    "st_as_of u = st_as_of s" "st_component_freshness u = st_component_freshness s"
    "st_recorded_at u = st_recorded_at s"
  using assms by (auto simp: apply_payload_def res_simps split: event_payload.splits)

lemma account_update_ok:
  assumes "account_update prev new = Inr a" "is_ok (mk_account_state prev)" "is_ok (mk_account_state new)"
  shows "is_ok (mk_account_state a)"
  using assms by (auto simp: account_update_def mk_account_state_def is_ok_validate res_simps
      split: if_splits)

lemma apply_payload_account:
  assumes "apply_payload s p = Inr (u, c)" "valid_payload p" "is_ok (mk_account_state (st_account s))"
  shows "is_ok (mk_account_state (st_account u))"
  using assms account_update_ok
  by (auto simp: apply_payload_def valid_payload_def res_simps split: event_payload.splits)

lemma apply_payload_feedback:
  assumes "apply_payload s p = Inr (u, c)"
    and "keyed xf_instruction_id (st_execution_feedback s)"
    and "keyed sc_provider (st_slow_context s)"
    and "opt_all (\<lambda>f. lookup_by xf_instruction_id (st_execution_feedback s) (xf_instruction_id f) = Some f)
       (st_latest_execution_feedback s)"
  shows "keyed xf_instruction_id (st_execution_feedback u)"
    "keyed sc_provider (st_slow_context u)"
    "opt_all (\<lambda>f. lookup_by xf_instruction_id (st_execution_feedback u) (xf_instruction_id f) = Some f)
       (st_latest_execution_feedback u)"
  using assms
  by (auto simp: apply_payload_def updated_execution_feedback_def updated_slow_context_def
      res_simps lookup_upsert split: event_payload.splits)

lemma validate_order_True:
  assumes "validate_order s e = Inr True"
  shows "opt_all (\<lambda>c. cur_source_sequence c < ev_source_sequence e) (find_source_cursor s (ev_source e))"
    and "opt_all (\<lambda>l. \<not> key_less (ordering_key e) (cursor_key l)) (st_last_event s)"
  using assms
  by (auto simp: validate_order_def validate_global_order_def split: option.splits if_splits)

lemma validate_order_False_iff:
  "validate_order s e = Inr False \<longleftrightarrow>
     opt_some (\<lambda>c. cur_source_sequence c = ev_source_sequence e \<and> cur_event_id c = Some (ev_id e))
       (find_source_cursor s (ev_source e))"
  by (auto simp: validate_order_def validate_global_order_def split: option.splits if_splits)

lemma cursors_below_step:
  assumes "cursors_below cs recent" "opt_all (\<lambda>l. \<not> key_less (cursor_key new) (cursor_key l)) recent"
    and "source_key c = Some (cursor_key new)" "set cs' \<subseteq> insert c (set cs)"
  shows "cursors_below cs' (Some new)"
proof -
  have "opt_some (\<lambda>k. \<not> key_less (cursor_key new) k) (source_key d)" if "d \<in> set cs" for d
    using assms(1,2) that
    by (cases recent)
      (auto simp: cursors_below_def list_all_iff opt_some_iff dest!: bspec dest: not_key_less_trans)
  then show ?thesis
    using assms(3,4) by (fastforce simp: cursors_below_def list_all_iff)
qed

lemma mk_account_unknown: "is_ok (mk_account_state (st_account (initial_raw symb t)))"
  by (simp add: mk_account_state_def is_ok_validate initial_raw_def account_values_def)

lemma initial_invariant:
  assumes "initial_runtime_state h symb at_time = Inr s"
  shows "reducer_invariant s"
proof -
  from assms obtain t i where s: "s = initial_raw symb t\<lparr>st_id := i\<rparr>"
    by (auto simp: initial_runtime_state_def mk_shared_state_def state_identity.bind_ok_iff res_simps)
  show ?thesis
    unfolding reducer_invariant_def s using mk_account_unknown[of symb t]
    by (simp add: initial_raw_def cursors_below_def initial_components_def unknown_freshness_def)
qed

lemma reducer_step_invariant:
  assumes "reducer_invariant s" "valid_event e" "valid_payload (ev_payload e)"
    and "reduce_state h s e now = Inr s'"
  shows "reducer_invariant s'"
  using assms(4)
proof (cases rule: reduce_state_cases)
  case duplicate
  then show ?thesis using assms(1) by simp
next
  case (accepted t u c)
  note keeps = apply_payload_keeps[OF accepted(4)]
  have "distinct (map cf_component (updated_freshness s f))" for f
    using keyed_upsert[of cf_component _ f] unfolding updated_freshness_def keyed_def by blast
  then have "distinct (map cf_component (st_component_freshness s'))"
    using assms(1) by (simp add: accepted keeps reducer_invariant_def split: option.split)
  moreover have "cursors_below (st_source_cursors s') (st_last_event s')"
    unfolding accepted
    using assms(1) validate_order_True(2)[OF accepted(1)]
    by (intro cursors_below_step[where recent = "st_last_event s", OF _ _ _ set_upsert])
      (auto simp: reducer_invariant_def ordering_key_def cursor_key_def source_key_def)
  moreover have "is_ok (mk_account_state (st_account u))"
    using apply_payload_account[OF accepted(4) assms(3)] assms(1)
    by (simp add: reducer_invariant_def)
  moreover note apply_payload_feedback[OF accepted(4)]
  ultimately show ?thesis using assms(1) by (simp add: reducer_invariant_def accepted)
qed

lemma reachable_invariant: "reachable_state h s \<Longrightarrow> reducer_invariant s"
  by (induction rule: reachable_state.induct) (auto intro: initial_invariant reducer_step_invariant)

subsection \<open>Acceptance, duplicates and feedback\<close>

definition feedback_ok :: "shared_state \<Rightarrow> event_payload \<Rightarrow> bool" where
  "feedback_ok s p = (case p of
     P_Feedback f \<Rightarrow> opt_all (\<lambda>old. \<not> status_regresses (xf_status old) (xf_status f))
       (lookup_by xf_instruction_id (st_execution_feedback s) (xf_instruction_id f))
   | _ \<Rightarrow> True)"

lemma dict_by_keyed: "keyed key xs \<Longrightarrow> map_of (dict_by key xs) k = lookup_by key xs k"
  by (simp add: map_of_dict_by keyed_def lookup_by_rev)

lemma updated_execution_feedback_iff:
  assumes "keyed xf_instruction_id (st_execution_feedback s)"
  shows "updated_execution_feedback s f = Inr fs \<longleftrightarrow>
     feedback_ok s (P_Feedback f) \<and> fs = upsert xf_instruction_id (st_execution_feedback s) f"
  using assms
  by (auto simp: updated_execution_feedback_def feedback_ok_def validate_execution_progress_def
      dict_by_keyed res_simps split: option.splits if_splits dest: lookup_by_Some)

lemma account_update_total:
  assumes "is_ok (mk_account_state prev)" "is_ok (mk_account_state new)"
  shows "is_ok (account_update prev new)"
proof (cases "cf_status (ac_freshness new) = FS_STALE")
  case True
  have keep: "opt_all P (keep_known a b)" if "opt_all P a" "opt_all P b" for P and a b :: "f64 option"
    using that by (auto simp: keep_known_def split: option.splits)
  from assms True show ?thesis
    by (auto simp: account_update_def mk_account_state_def is_ok_validate without_measurements_def
        intro!: keep)
qed (simp add: account_update_def)

lemma apply_payload_ok_iff:
  assumes "reducer_invariant s" "valid_payload p"
  shows "is_ok (apply_payload s p) \<longleftrightarrow> feedback_ok s p"
proof (cases p)
  case (P_Account a)
  then obtain a' where "account_update (st_account s) a = Inr a'"
    using assms account_update_total[of "st_account s" a]
    by (auto simp: reducer_invariant_def valid_payload_def is_ok_iff)
  with P_Account show ?thesis by (simp add: apply_payload_def feedback_ok_def)
next
  case (P_Feedback f)
  then show ?thesis using assms(1) updated_execution_feedback_iff[of s f]
    by (auto simp: apply_payload_def is_ok_iff reducer_invariant_def res_simps)
qed (simp_all add: apply_payload_def feedback_ok_def)

lemma advance_state_total: "valid_event e \<Longrightarrow> is_ok (advance_state s e t d)"
  by (auto simp: is_ok_iff advance_state_def updated_source_cursors_def mk_source_cursor_def
      mk_event_cursor_def res_simps valid_event_def)

lemma advance_state_fresh_id: "advance_state s e t d = Inr u \<Longrightarrow> is_ok (mk_shared_state h u)"
  by (auto simp: advance_state_def mk_shared_state_def bind_identity_def Let_def res_simps)

lemma validate_order_True_iff:
  "validate_order s e = Inr True \<longleftrightarrow>
     opt_all (\<lambda>c. cur_source_sequence c < ev_source_sequence e) (find_source_cursor s (ev_source e))
     \<and> opt_all (\<lambda>l. \<not> key_less (ordering_key e) (cursor_key l)) (st_last_event s)"
  by (auto simp: validate_order_def validate_global_order_def split: option.splits if_splits)

lemma find_cursor_after:
  assumes "reduce_state h s e now = Inr s'"
  shows "opt_some (\<lambda>c. cur_source_sequence c = ev_source_sequence e \<and> cur_event_id c = Some (ev_id e))
    (find_source_cursor s' (ev_source e))"
  using assms
proof (cases rule: reduce_state_cases)
  case duplicate
  then show ?thesis by (simp add: validate_order_False_iff)
next
  case accepted
  then show ?thesis by (simp add: find_source_cursor_def lookup_upsert)
qed

primrec run_events ::
  "(shared_state \<Rightarrow> string) \<Rightarrow> (runtime_event \<times> py_datetime) list \<Rightarrow> shared_state \<Rightarrow> shared_state res" where
  "run_events h [] s = Inr s"
| "run_events h (x # xs) s = res_bind (reduce_state h s (fst x) (snd x)) (run_events h xs)"

definition valid_input :: "runtime_event \<times> py_datetime \<Rightarrow> bool" where
  "valid_input x \<longleftrightarrow> valid_event (fst x) \<and> valid_payload (ev_payload (fst x))"

lemma not_regress_trans:
  "\<not> status_regresses a b \<Longrightarrow> \<not> status_regresses b c \<Longrightarrow> \<not> status_regresses a c"
  by (cases a; cases b; cases c) (simp_all add: status_regresses_def terminal_execution_def)

lemma not_regress_refl [simp]: "\<not> status_regresses a a"
  by (cases a) (simp_all add: status_regresses_def)

definition feedback_of :: "shared_state \<Rightarrow> string \<Rightarrow> execution_feedback_state option" where
  "feedback_of s i = lookup_by xf_instruction_id (st_execution_feedback s) i"

lemma step_no_regress:
  assumes "reducer_invariant s" "reduce_state h s e now = Inr s'" "feedback_of s i = Some f"
  shows "\<exists>f'. feedback_of s' i = Some f' \<and> \<not> status_regresses (xf_status f) (xf_status f')"
  using assms(2)
proof (cases rule: reduce_state_cases)
  case duplicate
  then show ?thesis using assms(3) by simp
next
  case (accepted t u c)
  have k: "keyed xf_instruction_id (st_execution_feedback s)"
    using assms(1) by (simp add: reducer_invariant_def)
  show ?thesis
  proof (cases "ev_payload e")
    case (P_Feedback g)
    with accepted(4) have g: "feedback_ok s (P_Feedback g)"
      and u: "st_execution_feedback u = upsert xf_instruction_id (st_execution_feedback s) g"
      by (auto simp: apply_payload_def res_simps updated_execution_feedback_iff[OF k])
    show ?thesis
      using g assms(3) by (auto simp: feedback_of_def accepted u lookup_upsert_keyed[OF k] feedback_ok_def)
  qed (use accepted(4) assms(3) in \<open>auto simp: apply_payload_def feedback_of_def accepted res_simps\<close>)
qed

lemma run_no_regress:
  "run_events h xs s = Inr s' \<Longrightarrow> list_all valid_input xs \<Longrightarrow> reducer_invariant s \<Longrightarrow>
   feedback_of s i = Some f \<Longrightarrow>
   \<exists>f'. feedback_of s' i = Some f' \<and> \<not> status_regresses (xf_status f) (xf_status f')"
proof (induction xs arbitrary: s f)
  case (Cons x xs)
  then obtain s1 where s1: "reduce_state h s (fst x) (snd x) = Inr s1" "run_events h xs s1 = Inr s'"
    by (auto simp: res_simps)
  obtain f1 where f1: "feedback_of s1 i = Some f1" "\<not> status_regresses (xf_status f) (xf_status f1)"
    using step_no_regress[OF Cons.prems(3) s1(1) Cons.prems(4)] by blast
  have "reducer_invariant s1"
    using reducer_step_invariant[OF Cons.prems(3) _ _ s1(1)] Cons.prems(2) by (simp add: valid_input_def)
  then show ?case
    using Cons.IH[OF s1(2) _ _ f1(1)] Cons.prems(2) f1(2) not_regress_trans by auto
qed simp

lemma reduce_state_ok_iff:
  assumes "reducer_invariant s" "valid_event e" "valid_payload (ev_payload e)"
  shows "is_ok (reduce_state h s e now) \<longleftrightarrow>
    (\<exists>t. ensure_utc now = Inr t \<and> ev_available_at e \<le> t) \<and>
    (opt_some (\<lambda>c. cur_source_sequence c = ev_source_sequence e \<and> cur_event_id c = Some (ev_id e))
        (find_source_cursor s (ev_source e)) \<or>
     opt_all (\<lambda>c. cur_source_sequence c < ev_source_sequence e) (find_source_cursor s (ev_source e)) \<and>
     opt_all (\<lambda>l. \<not> key_less (ordering_key e) (cursor_key l)) (st_last_event s) \<and>
     feedback_ok s (ev_payload e))"
proof -
  have "is_ok (res_bind (apply_payload s (ev_payload e))
      (\<lambda>d. res_bind (advance_state s e t d) (mk_shared_state h))) \<longleftrightarrow> feedback_ok s (ev_payload e)" for t
    using apply_payload_ok_iff[OF assms(1,3)] advance_state_total[OF assms(2)] advance_state_fresh_id
    by (fastforce simp: is_ok_iff res_simps)
  moreover have "payload_matches (ev_type e) (ev_payload e)" using assms(2) by (simp add: valid_event_def)
  ultimately show ?thesis
    unfolding validate_order_False_iff[symmetric] validate_order_True_iff[symmetric] conj_assoc[symmetric]
    by (cases "validate_order s e"; cases "ensure_utc now") (auto simp: reduce_state_def not_less is_ok_iff)
qed

subsection \<open>Properties\<close>

text \<open>Concrete inputs for the witnesses: an opening state and three feedback events.\<close>

definition demo_hash :: "'a \<Rightarrow> string" where
  "demo_hash _ = ''00112233445566778899''"

definition demo_state :: shared_state where
  "demo_state = (initial_raw ''XAUUSD'' 0)\<lparr>st_id := ''state-00112233445566778899''\<rparr>"

definition demo_feedback :: "execution_status \<Rightarrow> execution_feedback_state" where
  "demo_feedback s = \<lparr>xf_id = ''xfb-00112233445566778899'', xf_source = ''mt5'',
     xf_instruction_id = ''xint-1'', xf_broker_ticket = None, xf_replay_execution_id = None,
     xf_status = s, xf_event_time = 1, xf_observed_at = 1, xf_requested_volume_lots = None,
     xf_filled_volume_lots = None, xf_requested_price = None, xf_fill_price = None,
     xf_spread_points = None, xf_slippage_points = None, xf_commission = None, xf_swap = None,
     xf_broker_code = None, xf_broker_message = None\<rparr>"

definition demo_event :: "int \<Rightarrow> event_type \<Rightarrow> event_payload \<Rightarrow> runtime_event" where
  "demo_event n ty p = \<lparr>ev_id = ''ev-1'', ev_type = ty, ev_event_time = n, ev_observed_at = n,
     ev_available_at = n, ev_source = ''mt5'', ev_source_version = ''1'', ev_source_sequence = n,
     ev_symbol = None, ev_payload = p, ev_ingested_at = None\<rparr>"

abbreviation demo_report :: "int \<Rightarrow> execution_status \<Rightarrow> runtime_event" where
  "demo_report n s \<equiv> demo_event n EXECUTION_FEEDBACK (P_Feedback (demo_feedback s))"

lemma demo_reachable: "reachable_state demo_hash demo_state"
proof (rule reachable_state.start)
  show "initial_runtime_state demo_hash ''XAUUSD'' (utc 0) = Inr demo_state"
    by (simp add: initial_runtime_state_def ensure_utc_def dt_min_def dt_max_def res_simps
        mk_market_state_def mk_broker_constraints_def mk_shared_state_def bind_identity_def
        content_id_def demo_state_def initial_raw_def market_values_def demo_hash_def validate.simps)
qed

lemmas reduce_eval = reduce_state_def ensure_utc_def dt_min_def dt_max_def validate_order_def
  validate_global_order_def find_source_cursor_def apply_payload_def updated_execution_feedback_def
  validate_execution_progress_def advance_state_def updated_source_cursors_def mk_source_cursor_def
  mk_event_cursor_def mk_shared_state_def bind_identity_def content_id_def demo_hash_def
  demo_event_def demo_feedback_def upsert_def dict_by_def sorted_values_def validate.simps
  ordering_key_def cursor_key_def payload_matches_def

definition demo_submitted :: shared_state where
  "demo_submitted = demo_state\<lparr>st_as_of := 1,
     st_source_cursors := [\<lparr>cur_source = ''mt5'', cur_source_sequence = 1,
       cur_event_id = Some ''ev-1'', cur_available_at = Some 1\<rparr>],
     st_last_event := Some \<lparr>ec_available_at = 1, ec_source_sequence = 1, ec_event_id = ''ev-1''\<rparr>,
     st_execution_feedback := [demo_feedback ES_SUBMITTED],
     st_latest_execution_feedback := Some (demo_feedback ES_SUBMITTED),
     st_recorded_at := Some 1\<rparr>"

lemma demo_submitted_step:
  "reduce_state demo_hash demo_state (demo_report 1 ES_SUBMITTED) (utc 1) = Inr demo_submitted"
  by (simp add: demo_submitted_def reduce_eval demo_state_def initial_raw_def)

lemma demo_valid: "valid_event (demo_report 1 s)" "valid_payload (P_Feedback f)"
  by (simp_all add: valid_event_def valid_payload_def demo_event_def payload_matches_def)

lemma demo_submitted_reachable: "reachable_state demo_hash demo_submitted"
  using reachable_state.event[OF demo_reachable demo_valid(1) _ demo_submitted_step] demo_valid(2)
  by (simp add: demo_event_def)

text \<open>C30. In every reachable shared state the tuples of source cursors, execution feedback and slow
  contexts are sorted and free of duplicate keys, no component has two freshness entries, \<open>as_of\<close>
  is the availability of the last event, no source cursor lies beyond the last event in the global
  order, the latest feedback is the one stored for its instruction, and the account still passes its
  contract.\<close>

theorem reachable_states_well_formed:
  assumes "reachable_state h s"
  shows "reducer_invariant s"
  using assms by (rule reachable_invariant)

theorem reachable_states_well_formed_witness: "reducer_invariant demo_submitted"
  using demo_submitted_reachable by (rule reachable_states_well_formed)

text \<open>C6. For a well-formed state and a validated event, the reducer accepts exactly when the clock is a
  legal aware timestamp not before the availability of the event, and the event is either the
  duplicate of its source's cursor or strictly newer than that cursor, not before the last event in
  the global order and, for feedback, not a regression. No contract of the rebuilt state can fail.\<close>

theorem reduce_state_accepts_iff:
  assumes "reducer_invariant s" "valid_event e" "valid_payload (ev_payload e)"
  shows "is_ok (reduce_state h s e now) \<longleftrightarrow>
    (\<exists>t. ensure_utc now = Inr t \<and> ev_available_at e \<le> t) \<and>
    (opt_some (\<lambda>c. cur_source_sequence c = ev_source_sequence e \<and> cur_event_id c = Some (ev_id e))
        (find_source_cursor s (ev_source e)) \<or>
     opt_all (\<lambda>c. cur_source_sequence c < ev_source_sequence e) (find_source_cursor s (ev_source e)) \<and>
     opt_all (\<lambda>l. \<not> key_less (ordering_key e) (cursor_key l)) (st_last_event s) \<and>
     feedback_ok s (ev_payload e))"
  using assms by (rule reduce_state_ok_iff)

theorem reduce_state_accepts_iff_witness:
  "is_ok (reduce_state demo_hash demo_submitted (demo_report 1 ES_FILLED) (utc 1))"
  by (rule reduce_state_accepts_iff[THEN iffD2, OF reachable_invariant[OF demo_submitted_reachable] demo_valid(1)])
    (simp_all add: demo_valid valid_payload_def demo_submitted_def reduce_eval demo_state_def initial_raw_def)

text \<open>An accepted event that is not a duplicate strictly advances the cursor of its source, is not
  before the last event of the whole state in the global order, and never moves \<open>as_of\<close> of a state
  that has seen an event backwards; a duplicate leaves the state exactly as it was.\<close>

theorem accepted_event_advances:
  assumes "reducer_invariant s" "reduce_state h s e now = Inr s'"
  shows "s' = s \<and> validate_order s e = Inr False \<or>
    opt_all (\<lambda>c. cur_source_sequence c < ev_source_sequence e) (find_source_cursor s (ev_source e)) \<and>
    opt_all (\<lambda>l. \<not> key_less (ordering_key e) (cursor_key l) \<and> st_as_of s \<le> st_as_of s') (st_last_event s) \<and>
    st_as_of s' = ev_available_at e"
  using assms(2)
proof (cases rule: reduce_state_cases)
  case (accepted t u c)
  with validate_order_True[OF accepted(1)] assms(1) show ?thesis
    by (cases "st_last_event s") (auto simp: reducer_invariant_def ordering_key_def cursor_key_def)
qed simp

theorem accepted_event_advances_witness: "st_as_of demo_submitted = 1"
  using accepted_event_advances[OF reachable_invariant[OF demo_reachable] demo_submitted_step]
  by (auto simp: validate_order_def find_source_cursor_def demo_state_def initial_raw_def demo_event_def
      validate_global_order_def)

text \<open>Delivering an accepted event again, at any later legal clock reading, is a no-op.\<close>

theorem redelivery_is_noop:
  assumes "valid_event e" "reduce_state h s e now = Inr s'" "ensure_utc later = Inr t" "ev_available_at e \<le> t"
  shows "reduce_state h s' e later = Inr s'"
proof -
  have "validate_order s' e = Inr False"
    using find_cursor_after[OF assms(2)] by (simp add: validate_order_False_iff)
  then show ?thesis using assms by (simp add: reduce_state_def valid_event_def)
qed

theorem redelivery_is_noop_witness:
  "reduce_state demo_hash demo_submitted (demo_report 1 ES_SUBMITTED) (utc 7) = Inr demo_submitted"
  by (rule redelivery_is_noop[OF demo_valid(1) demo_submitted_step ensure_utc_utc])
    (simp_all add: dt_min_def dt_max_def demo_event_def)

text \<open>C31. Along every accepted run of validated events the execution status recorded for an instruction
  never regresses: it stays recorded, a progress rank never falls, and a terminal status never changes.\<close>

theorem execution_feedback_never_regresses:
  assumes "reachable_state h s" "list_all valid_input xs" "run_events h xs s = Inr s'"
    and "feedback_of s i = Some f"
  shows "\<exists>f'. feedback_of s' i = Some f' \<and> \<not> status_regresses (xf_status f) (xf_status f')"
  using run_no_regress[OF assms(3,2) reachable_invariant[OF assms(1)] assms(4)] .

theorem execution_feedback_never_regresses_witness:
  "\<exists>f'. feedback_of demo_submitted ''xint-1'' = Some f' \<and> \<not> status_regresses ES_SUBMITTED (xf_status f')"
proof -
  have "run_events demo_hash [(demo_report 1 ES_SUBMITTED, utc 1)] demo_submitted = Inr demo_submitted"
    by (simp add: demo_submitted_def reduce_eval demo_state_def initial_raw_def)
  moreover have "list_all valid_input [(demo_report 1 ES_SUBMITTED, utc 1)]"
    by (simp add: valid_input_def demo_valid) (simp add: demo_event_def demo_valid)
  moreover have "feedback_of demo_submitted ''xint-1'' = Some (demo_feedback ES_SUBMITTED)"
    by (simp add: demo_submitted_def reduce_eval demo_state_def initial_raw_def feedback_of_def)
  ultimately show ?thesis
    using execution_feedback_never_regresses[OF demo_submitted_reachable] by (simp add: demo_feedback_def)
qed

text \<open>Once an instruction has reported progress (submitted, accepted, partially filled, filled), a
  later rejection, cancellation, expiry, failure or unknown outcome of it is refused as a regression:
  every such report makes the reducer raise, and the state keeps the old status.\<close>

theorem progress_refuses_failure:
  assumes "reachable_state h s" "validate_order s e = Inr True"
    and "ensure_utc now = Inr t" "ev_available_at e \<le> t"
    and "ev_type e = EXECUTION_FEEDBACK" "ev_payload e = P_Feedback f"
    and "feedback_of s (xf_instruction_id f) = Some old" "execution_progress (xf_status old) \<noteq> None"
    and "xf_status f \<in> {ES_REJECTED, ES_CANCELLED, ES_EXPIRED, ES_FAILED, ES_UNKNOWN}"
  shows "reduce_state h s e now = Inl (ValueError ''execution feedback regression'')"
proof -
  have "keyed xf_instruction_id (st_execution_feedback s)"
    using reachable_invariant[OF assms(1)] by (simp add: reducer_invariant_def)
  moreover have "status_regresses (xf_status old) (xf_status f)"
    using assms(8,9) by (auto simp: status_regresses_def)
  ultimately show ?thesis
    using assms by (auto simp: reduce_state_def apply_payload_def updated_execution_feedback_def
        validate_execution_progress_def dict_by_keyed feedback_of_def payload_matches_def
        dest: lookup_by_Some)
qed

theorem progress_refuses_failure_witness:
  "reduce_state demo_hash demo_submitted (demo_report 2 ES_REJECTED) (utc 2)
     = Inl (ValueError ''execution feedback regression'')"
  by (rule progress_refuses_failure[OF demo_submitted_reachable, where old = "demo_feedback ES_SUBMITTED"
        and f = "demo_feedback ES_REJECTED" and t = 2])
    (simp_all add: demo_submitted_def reduce_eval demo_state_def initial_raw_def feedback_of_def)

text \<open>An account event changes the account and nothing else of the market view: a stale account keeps
  every earlier measurement it does not replace, a live one replaces the account wholesale.\<close>

theorem account_event_frame:
  assumes "reducer_invariant s" "reduce_state h s e now = Inr s'" "validate_order s e = Inr True"
    and "ev_payload e = P_Account a"
  shows "st_market s' = st_market s \<and> st_positions s' = st_positions s \<and> st_orders s' = st_orders s \<and>
    st_exposure s' = st_exposure s \<and> st_broker_constraints s' = st_broker_constraints s \<and>
    st_execution_feedback s' = st_execution_feedback s \<and> st_slow_context s' = st_slow_context s \<and>
    (if cf_status (ac_freshness a) = FS_STALE
     then account_values (st_account s') = map2 keep_known (account_values (st_account s)) (account_values a)
        \<and> ac_freshness (st_account s') = ac_freshness a
     else st_account s' = a)"
  using assms(2)
proof (cases rule: reduce_state_cases)
  case (accepted t u c)
  then show ?thesis
    using assms(4) by (auto simp: apply_payload_def account_update_def mk_account_state_def
        account_values_def res_simps split: if_splits)
qed (use assms(3) in simp)

definition demo_account :: account_state where
  "demo_account = (st_account demo_state)\<lparr>
     ac_freshness := \<lparr>cf_component = ''account'', cf_status = FS_AVAILABLE, cf_observed_at = Some 2,
       cf_available_at = Some 2, cf_stale_after_ms = None, cf_reason = None\<rparr>,
     ac_equity := Some (Fin 1000)\<rparr>"

lemma demo_account_ok: "mk_account_state demo_account = Inr demo_account"
  by (simp add: mk_account_state_def validate_Inr_iff demo_account_def demo_state_def initial_raw_def
      without_measurements_def)

theorem account_event_frame_witness:
  "\<exists>s'. reduce_state demo_hash demo_submitted (demo_event 2 ACCOUNT_UPDATED (P_Account demo_account)) (utc 2)
     = Inr s' \<and> st_account s' = demo_account"
proof -
  let ?e = "demo_event 2 ACCOUNT_UPDATED (P_Account demo_account)"
  obtain s' where s': "reduce_state demo_hash demo_submitted ?e (utc 2) = Inr s'"
    using reduce_state_ok_iff[OF reachable_invariant[OF demo_submitted_reachable], of ?e demo_hash "utc 2"]
    by (auto simp: is_ok_iff valid_event_def valid_payload_def demo_account_ok demo_event_def
        ensure_utc_utc dt_min_def dt_max_def find_source_cursor_def demo_submitted_def demo_state_def
        initial_raw_def ordering_key_def cursor_key_def feedback_ok_def payload_matches_def)
  have "validate_order demo_submitted ?e = Inr True"
    by (simp add: demo_submitted_def reduce_eval demo_state_def initial_raw_def)
  from account_event_frame[OF reachable_invariant[OF demo_submitted_reachable] s' this, of demo_account] s'
  show ?thesis by (simp add: demo_event_def demo_account_def)
qed

end
