(* ===== verification/ToolCatalog.thy ===== *)
theory ToolCatalog
  imports AgentMemory PyValue Reducer
begin

section \<open>Fact tools and their catalog (\<open>tools/contracts.py\<close>, \<open>tools/catalog.py\<close>)\<close>

text \<open>
  The causal feature snapshot, the input of a tool, the two fact tools and the catalog that evaluates tools
  by name and turns the failure of one into a result of its own. A tool that needs no modelled code is a
  parameter: a function from its input to a result or an exception.
\<close>

subsection \<open>Facts cannot be decisions\<close>

definition upper_char :: "char \<Rightarrow> char" where
  "upper_char c = (let n = of_char c :: nat in if 97 \<le> n \<and> n \<le> 122 then char_of (n - 32) else c)"

text \<open>\<open>re.split(r"[^a-z0-9]+", name)\<close> as a set: the runs of letters and digits.\<close>

definition is_alnum :: "char \<Rightarrow> bool" where
  "is_alnum c \<longleftrightarrow> (let n = of_char c :: nat in 48 \<le> n \<and> n \<le> 57 \<or> 97 \<le> n \<and> n \<le> 122)"

fun runs :: "string \<Rightarrow> string \<Rightarrow> string list" where
  "runs acc [] = [acc]"
| "runs acc (c # cs) = (if is_alnum c then runs (acc @ [c]) cs else acc # runs [] cs)"

text \<open>\<open>re.sub(r"[_-]+", " ", value)\<close>; the flag says whether a run of dashes is open.\<close>

fun dashes_to_space :: "bool \<Rightarrow> string \<Rightarrow> string" where
  "dashes_to_space open_run [] = []"
| "dashes_to_space open_run (c # cs) =
     (if c = CHR ''_'' \<or> c = CHR ''-'' then (if open_run then [] else '' '') @ dashes_to_space True cs
      else c # dashes_to_space False cs)"

definition decision_name :: "string \<Rightarrow> bool" where
  "decision_name name \<longleftrightarrow> list_ex (\<lambda>t. t \<in> {''action'', ''decision'', ''recommendation'', ''signal''})
     (runs [] (map lower_char (strip is_space name)))"

text \<open>The text of a number or a truth value is never a decision.\<close>

fun decision_value :: "fact_scalar \<Rightarrow> bool" where
  "decision_value (FStr s) \<longleftrightarrow> dashes_to_space False (map upper_char (strip is_space s))
     \<in> {''BUY'', ''SELL'', ''ENTER'', ''HOLD'', ''STRONG BUY'', ''STRONG SELL''}"
| "decision_value _ \<longleftrightarrow> False"

fun scalar_ok :: "fact_scalar \<Rightarrow> bool" where
  "scalar_ok (FFloat x) = is_fin x"
| "scalar_ok _ = True"

definition mk_tool_fact :: "tool_fact \<Rightarrow> tool_fact res" where
  "mk_tool_fact f = validate
     [nonempty ''name'' (tf_name f), field_ok ''value'' (scalar_ok (tf_value f)),
      rule_ok ''tool facts cannot contain a trading decision''
        (\<not> (decision_name (tf_name f) \<or> decision_value (tf_value f)))] f"

subsection \<open>Feature snapshots\<close>

record feature_value =
  fv_name :: string
  fv_value :: fact_scalar

definition mk_feature_value :: "feature_value \<Rightarrow> feature_value res" where
  "mk_feature_value v = validate
     [nonempty ''name'' (fv_name v), field_ok ''value'' (scalar_ok (fv_value v))] v"

record feature_snapshot =
  fs_id :: string
  fs_symbol :: string
  fs_base_timeframe :: string
  fs_as_of :: dt
  fs_available_at :: dt
  fs_manifest_id :: string
  fs_completed_timeframes :: "string list"
  fs_values :: "feature_value list"
  fs_source :: string
  fs_source_version :: string

text \<open>The field validators normalise before the model validator checks.\<close>

definition normalized_snapshot :: "feature_snapshot \<Rightarrow> feature_snapshot" where
  "normalized_snapshot s = s\<lparr>fs_base_timeframe := map upper_char (fs_base_timeframe s),
     fs_completed_timeframes := sorted_list_of_set (map upper_char ` set (fs_completed_timeframes s))\<rparr>"

definition feature_snapshot_rules :: "feature_snapshot \<Rightarrow> (bool \<times> py_error) list" where
  "feature_snapshot_rules s =
     [nonempty ''symbol'' (fs_symbol s), nonempty ''base_timeframe'' (fs_base_timeframe s),
      nonempty ''feature_manifest_id'' (fs_manifest_id s), nonempty ''source'' (fs_source s),
      nonempty ''source_version'' (fs_source_version s),
      rule_ok ''feature available_at must not precede as_of'' (fs_as_of s \<le> fs_available_at s),
      rule_ok ''feature values must be unique and sorted by name'' (keyed fv_name (fs_values s))]"

definition mk_feature_snapshot ::
  "(feature_snapshot \<Rightarrow> string) \<Rightarrow> feature_snapshot \<Rightarrow> feature_snapshot res" where
  "mk_feature_snapshot h s = res_bind (validate (feature_snapshot_rules (normalized_snapshot s)) (normalized_snapshot s))
     (bind_identity ''fs-'' h (\<lambda>r. r\<lparr>fs_id := []\<rparr>) fs_id (\<lambda>i r. r\<lparr>fs_id := i\<rparr>)
        ''snapshot_id does not match feature content'')"

text \<open>
  \<open>from_mapping\<close>: values that are absent or not a number are left out. A mapping has unique names; a value
  that is no scalar of the contract has been converted by its own \<open>item()\<close> method.
\<close>

fun skipped_value :: "fact_scalar option \<Rightarrow> bool" where
  "skipped_value None = True"
| "skipped_value (Some (FFloat NaN)) = True"
| "skipped_value _ = False"

definition snapshot_from_mapping ::
  "(feature_snapshot \<Rightarrow> string) \<Rightarrow> feature_snapshot \<Rightarrow> (string \<times> fact_scalar option) list \<Rightarrow> feature_snapshot res" where
  "snapshot_from_mapping h s values =
     res_bind (res_map (\<lambda>(n, v). mk_feature_value \<lparr>fv_name = n, fv_value = the v\<rparr>)
       (filter (\<lambda>(n, v). \<not> skipped_value v) (sort_key fst values))) (\<lambda>vs.
     mk_feature_snapshot h (s\<lparr>fs_id := [], fs_values := vs\<rparr>))"

definition feature_of :: "feature_snapshot \<Rightarrow> string \<Rightarrow> fact_scalar option" where
  "feature_of s n = map_option fv_value (lookup_by fv_name (fs_values s) n)"

record tool_input =
  ti_state :: shared_state
  ti_snapshot :: "feature_snapshot option"

definition mk_tool_input :: "tool_input \<Rightarrow> tool_input res" where
  "mk_tool_input i = validate
     [rule_ok ''feature snapshot symbol does not match runtime state''
        (opt_all (\<lambda>s. fs_symbol s = ms_symbol (st_market (ti_state i))) (ti_snapshot i))] i"

subsection \<open>Results of tools\<close>

record analytical_tool =
  at_name :: string
  at_version :: string
  at_category :: tool_category
  at_evaluate :: "tool_input \<Rightarrow> tool_result res"

definition blank_tool_result :: "string \<Rightarrow> string \<Rightarrow> tool_category \<Rightarrow> tool_input \<Rightarrow> tool_result" where
  "blank_tool_result name version category i =
     \<lparr>tr_id = [], tr_tool_name = name, tr_tool_version = version, tr_category = category,
      tr_as_of = st_as_of (ti_state i), tr_available_at = st_as_of (ti_state i),
      tr_runtime_state_id = st_id (ti_state i),
      tr_input_snapshot_id = (case ti_snapshot i of None \<Rightarrow> st_id (ti_state i) | Some s \<Rightarrow> fs_id s),
      tr_freshness = FS_UNAVAILABLE, tr_status = TS_UNAVAILABLE, tr_facts = [],
      tr_quality = \<lparr>tq_valid = False, tq_sample_size = None, tq_missing_fields = [], tq_notes = []\<rparr>,
      tr_warnings = [], tr_provenance = []\<rparr>"

record feature_tool =
  ft_name :: string
  ft_category :: tool_category
  ft_features :: "string list"
  ft_timeframe :: string
  ft_version :: string

text \<open>The obstacles to a fact, in source order: what the result states instead.\<close>

definition feature_obstacle :: "feature_tool \<Rightarrow> tool_input \<Rightarrow> (tool_result \<Rightarrow> tool_result) option" where
  "feature_obstacle t i =
     (let st = ti_state i; market = st_market st; tf = map upper_char (ft_timeframe t);
          status = cf_status (ms_freshness market)
      in case ti_snapshot i of
        None \<Rightarrow> Some (\<lambda>r. r\<lparr>tr_warnings := [''causal feature snapshot is unavailable'']\<rparr>)
      | Some s \<Rightarrow>
          if st_as_of st < fs_available_at s
          then Some (\<lambda>r. r\<lparr>tr_warnings := [''feature snapshot is not yet causally available'']\<rparr>)
          else if \<not> (tf \<in> set (fs_completed_timeframes s) \<and> tf \<in> set (ms_completed_timeframes market))
          then Some (\<lambda>r. r\<lparr>tr_warnings := [tf @ '' candle is not completed and available'']\<rparr>)
          else if Some (fs_manifest_id s) \<noteq> ms_feature_manifest_id market
          then Some (\<lambda>r. r\<lparr>tr_status := TS_ERROR,
                 tr_warnings := [''feature manifest does not match runtime market state'']\<rparr>)
          else if status \<in> {FS_UNKNOWN, FS_UNAVAILABLE}
          then Some (\<lambda>r. r\<lparr>tr_freshness := status, tr_warnings := [''market state is unavailable'']\<rparr>)
          else let missing = filter (\<lambda>n. feature_of s n = None) (ft_features t)
          in if missing \<noteq> []
             then Some (\<lambda>r. r\<lparr>tr_status := TS_INSUFFICIENT_DATA, tr_freshness := status,
                    tr_quality := (tr_quality r)\<lparr>tq_missing_fields := missing\<rparr>,
                    tr_warnings := [''required causal features are not valid''],
                    tr_available_at := fs_available_at s\<rparr>)
             else None)"

definition feature_evaluate :: "(tool_result \<Rightarrow> string) \<Rightarrow> feature_tool \<Rightarrow> tool_input \<Rightarrow> tool_result res" where
  "feature_evaluate h t i =
     (let blank = blank_tool_result (ft_name t) (ft_version t) (ft_category t) i in
     case feature_obstacle t i of
       Some fill \<Rightarrow> mk_tool_result h (fill blank)
     | None \<Rightarrow>
         let s = the (ti_snapshot i); status = cf_status (ms_freshness (st_market (ti_state i))) in
         res_bind (res_map (\<lambda>n. mk_tool_fact \<lparr>tf_name = n, tf_value = the (feature_of s n), tf_unit = None\<rparr>)
           (ft_features t)) (\<lambda>facts.
         mk_tool_result h (blank\<lparr>tr_status := (if status = FS_STALE then TS_STALE else TS_AVAILABLE),
           tr_freshness := status, tr_facts := facts, tr_quality := (tr_quality blank)\<lparr>tq_valid := True\<rparr>,
           tr_provenance := [\<lparr>tp_source = fs_source s, tp_source_version = fs_source_version s,
             tp_source_identity = Some (fs_manifest_id s)\<rparr>],
           tr_available_at := fs_available_at s\<rparr>)))"

definition slow_context_name :: "string \<Rightarrow> string" where
  "slow_context_name provider = ''slow_context.'' @ provider"

definition slow_context_evaluate ::
  "(tool_result \<Rightarrow> string) \<Rightarrow> string \<Rightarrow> string \<Rightarrow> tool_category \<Rightarrow> tool_input \<Rightarrow> tool_result res" where
  "slow_context_evaluate h provider version category i =
     (let st = ti_state i; blank = blank_tool_result (slow_context_name provider) version category i;
          refused = (\<lambda>msg. mk_tool_result h (blank\<lparr>tr_warnings := [msg]\<rparr>))
      in case (find (\<lambda>c. sc_provider c = provider) (st_slow_context st),
               find (\<lambda>c. cur_source c = provider) (st_source_cursors st)) of
        (Some c, Some u) \<Rightarrow> (case cur_available_at u of
           None \<Rightarrow> refused ''slow context is unavailable''
         | Some seen \<Rightarrow>
             let usable = max (sc_effective_at c) seen; stale = sc_expires_at c \<le> st_as_of st in
             if st_as_of st < usable then refused ''slow context is not yet causally available''
             else res_bind (mk_tool_fact \<lparr>tf_name = ''context_version'', tf_value = FStr (sc_context_version c),
                    tf_unit = None\<rparr>) (\<lambda>f1.
                  res_bind (mk_tool_fact \<lparr>tf_name = ''content_hash'', tf_value = FStr (sc_content_hash c),
                    tf_unit = None\<rparr>) (\<lambda>f2.
                  mk_tool_result h (blank\<lparr>tr_status := (if stale then TS_STALE else TS_AVAILABLE),
                    tr_freshness := (if stale then FS_STALE else FS_AVAILABLE), tr_facts := [f1, f2],
                    tr_quality := (tr_quality blank)\<lparr>tq_valid := True\<rparr>,
                    tr_provenance := [\<lparr>tp_source = provider, tp_source_version = sc_context_version c,
                      tp_source_identity = Some (sc_content_hash c)\<rparr>],
                    tr_available_at := usable\<rparr>))))
      | _ \<Rightarrow> refused ''slow context is unavailable'')"

text \<open>The tools as the catalog sees them.\<close>

definition feature_fact_tool :: "(tool_result \<Rightarrow> string) \<Rightarrow> feature_tool \<Rightarrow> analytical_tool" where
  "feature_fact_tool h t = \<lparr>at_name = ft_name t, at_version = ft_version t, at_category = ft_category t,
     at_evaluate = feature_evaluate h t\<rparr>"

definition slow_context_tool :: "(tool_result \<Rightarrow> string) \<Rightarrow> string \<Rightarrow> string \<Rightarrow> tool_category \<Rightarrow> analytical_tool" where
  "slow_context_tool h provider version category = \<lparr>at_name = slow_context_name provider,
     at_version = version, at_category = category,
     at_evaluate = slow_context_evaluate h provider version category\<rparr>"

subsection \<open>The catalog\<close>

type_synonym tool_catalog = "(string \<times> analytical_tool) list"

definition register :: "analytical_tool \<Rightarrow> tool_catalog \<Rightarrow> tool_catalog res" where
  "register t c = (if at_name t \<in> fst ` set c then Inl (ValueError (''duplicate tool: '' @ at_name t))
     else Inr (c @ [(at_name t, t)]))"

fun build_catalog :: "tool_catalog \<Rightarrow> analytical_tool list \<Rightarrow> tool_catalog res" where
  "build_catalog c [] = Inr c"
| "build_catalog c (t # ts) = res_bind (register t c) (\<lambda>d. build_catalog d ts)"

definition catalog_names :: "tool_catalog \<Rightarrow> string list" where
  "catalog_names c = sort (map fst c)"

text \<open>\<open>failed\<close> renders the type and the text of an exception.\<close>

definition evaluate_tool ::
  "(tool_result \<Rightarrow> string) \<Rightarrow> (py_error \<Rightarrow> string) \<Rightarrow> analytical_tool \<Rightarrow> tool_input \<Rightarrow> tool_result res" where
  "evaluate_tool h failed t i = (case at_evaluate t i of
     Inr r \<Rightarrow> Inr r
   | Inl e \<Rightarrow> mk_tool_result h ((blank_tool_result (at_name t) (at_version t) (at_category t) i)
       \<lparr>tr_status := TS_ERROR, tr_warnings := [''tool evaluation failed: '' @ failed e]\<rparr>))"

definition evaluate_catalog ::
  "(tool_result \<Rightarrow> string) \<Rightarrow> (py_error \<Rightarrow> string) \<Rightarrow> tool_catalog \<Rightarrow> string list \<Rightarrow> tool_input
     \<Rightarrow> tool_result list res" where
  "evaluate_catalog h failed c names i =
     (if list_ex (\<lambda>n. map_of c n = None) names then Inl (ValueError ''unknown tools'')
      else res_map (\<lambda>n. evaluate_tool h failed (the (map_of c n)) i) names)"

subsection \<open>Properties\<close>

interpretation tool_result_identity: content_addressed "''tool-''" h "\<lambda>r. r\<lparr>tr_id := []\<rparr>" tr_id
    "\<lambda>i r. r\<lparr>tr_id := i\<rparr>" "''result_id does not match tool result content''"
  for h :: "tool_result \<Rightarrow> string"
  by unfold_locales simp_all

lemma mk_tool_result_Inr:
  "mk_tool_result h r = Inr r' \<Longrightarrow> tr_id r = [] \<Longrightarrow>
     tr_available_at r \<le> tr_as_of r \<and> (\<exists>i. r' = r\<lparr>tr_id := i\<rparr>)"
  by (auto simp: mk_tool_result_def res_bind_Inr_iff validate_Inr_iff tool_result_identity.bind_ok_iff)

text \<open>What a result that carries facts says of its input.\<close>

definition facts_causal :: "feature_tool \<Rightarrow> tool_input \<Rightarrow> tool_result \<Rightarrow> bool" where
  "facts_causal t i r \<longleftrightarrow> (\<exists>s. ti_snapshot i = Some s \<and> fs_available_at s \<le> st_as_of (ti_state i) \<and>
     map upper_char (ft_timeframe t) \<in> set (fs_completed_timeframes s) \<and>
     map upper_char (ft_timeframe t) \<in> set (ms_completed_timeframes (st_market (ti_state i))) \<and>
     Some (fs_manifest_id s) = ms_feature_manifest_id (st_market (ti_state i)) \<and>
     cf_status (ms_freshness (st_market (ti_state i))) \<in> {FS_STALE, FS_AVAILABLE} \<and>
     map tf_name (tr_facts r) = ft_features t \<and>
     list_all (\<lambda>f. feature_of s (tf_name f) = Some (tf_value f) \<and> \<not> decision_name (tf_name f) \<and>
       \<not> decision_value (tf_value f)) (tr_facts r) \<and>
     tr_available_at r = fs_available_at s \<and> tq_valid (tr_quality r))"

lemma facts_from_snapshot:
  assumes "res_map (\<lambda>n. mk_tool_fact \<lparr>tf_name = n, tf_value = the (feature_of s n), tf_unit = None\<rparr>) ns = Inr fs"
    and "list_all (\<lambda>n. feature_of s n \<noteq> None) ns"
  shows "map tf_name fs = ns \<and> list_all (\<lambda>f. feature_of s (tf_name f) = Some (tf_value f) \<and>
     \<not> decision_name (tf_name f) \<and> \<not> decision_value (tf_value f)) fs"
  using assms
  by (induction ns arbitrary: fs) (auto simp: res_bind_Inr_iff mk_tool_fact_def validate_Inr_iff)

lemma obstacle_fields:
  assumes "feature_obstacle t i = Some fill"
  shows "tr_id (fill r) = tr_id r \<and> tr_facts (fill r) = tr_facts r \<and> tr_as_of (fill r) = tr_as_of r \<and>
     tr_runtime_state_id (fill r) = tr_runtime_state_id r \<and> tr_tool_name (fill r) = tr_tool_name r \<and>
     (tr_status r = TS_UNAVAILABLE \<longrightarrow> tr_status (fill r) \<notin> {TS_AVAILABLE, TS_STALE})"
  using assms by (auto simp: feature_obstacle_def Let_def split: option.splits if_splits)

lemma no_obstacle:
  assumes "feature_obstacle t i = None"
  obtains s where "ti_snapshot i = Some s" "fs_available_at s \<le> st_as_of (ti_state i)"
    "map upper_char (ft_timeframe t) \<in> set (fs_completed_timeframes s)"
    "map upper_char (ft_timeframe t) \<in> set (ms_completed_timeframes (st_market (ti_state i)))"
    "Some (fs_manifest_id s) = ms_feature_manifest_id (st_market (ti_state i))"
    "cf_status (ms_freshness (st_market (ti_state i))) \<in> {FS_STALE, FS_AVAILABLE}"
    "list_all (\<lambda>n. feature_of s n \<noteq> None) (ft_features t)"
  using assms
  by (cases "cf_status (ms_freshness (st_market (ti_state i)))")
    (auto simp: feature_obstacle_def Let_def filter_empty_conv list_all_iff split: option.splits if_splits)

text \<open>C25. A feature tool never looks ahead and never invents: every result it returns is bound to the state it was
  asked about and available no later; a usable result exists only when the snapshot is available by the
  state's time, the candle is completed both in the snapshot and in the market state, the manifest is the market's and the market is not unavailable, and
  its facts are exactly the snapshot's values of the configured features, none of them a trading decision.
  Every other result carries no fact at all.\<close>

theorem feature_facts_causal:
  assumes "feature_evaluate h t i = Inr r"
  shows "tr_as_of r = st_as_of (ti_state i) \<and> tr_available_at r \<le> st_as_of (ti_state i) \<and>
     tr_runtime_state_id r = st_id (ti_state i) \<and> tr_tool_name r = ft_name t \<and>
     (if tr_status r \<in> {TS_AVAILABLE, TS_STALE} then facts_causal t i r else tr_facts r = [])"
proof (cases "feature_obstacle t i")
  case (Some fill)
  let ?b = "blank_tool_result (ft_name t) (ft_version t) (ft_category t) i"
  have "mk_tool_result h (fill ?b) = Inr r" using assms Some by (simp add: feature_evaluate_def Let_def)
  from mk_tool_result_Inr[OF this] obstacle_fields[OF Some, of ?b] show ?thesis
    by (auto simp: blank_tool_result_def)
next
  case None
  then obtain s where s: "ti_snapshot i = Some s" "fs_available_at s \<le> st_as_of (ti_state i)"
    "map upper_char (ft_timeframe t) \<in> set (fs_completed_timeframes s)"
    "map upper_char (ft_timeframe t) \<in> set (ms_completed_timeframes (st_market (ti_state i)))"
    "Some (fs_manifest_id s) = ms_feature_manifest_id (st_market (ti_state i))"
    "cf_status (ms_freshness (st_market (ti_state i))) \<in> {FS_STALE, FS_AVAILABLE}"
    "list_all (\<lambda>n. feature_of s n \<noteq> None) (ft_features t)"
    by (rule no_obstacle)
  obtain facts x where f: "res_map (\<lambda>n. mk_tool_fact \<lparr>tf_name = n, tf_value = the (feature_of s n), tf_unit = None\<rparr>)
      (ft_features t) = Inr facts"
    and r: "mk_tool_result h x = Inr r" "tr_id x = []" "tr_facts x = facts" "tr_as_of x = st_as_of (ti_state i)"
      "tr_available_at x = fs_available_at s" "tr_runtime_state_id x = st_id (ti_state i)"
      "tr_tool_name x = ft_name t" "tr_status x \<in> {TS_AVAILABLE, TS_STALE}" "tq_valid (tr_quality x)"
    using assms None s(1) by (auto simp: feature_evaluate_def Let_def res_bind_Inr_iff blank_tool_result_def)
  from mk_tool_result_Inr[OF r(1,2)] facts_from_snapshot[OF f s(7)] show ?thesis
    using r s unfolding facts_causal_def by auto
qed

text \<open>
  One tool's failure is its own: the catalog answers for every requested name in order, whatever a tool
  raises.
\<close>

lemma catalog_isolates_failures:
  assumes "list_all (\<lambda>n. map_of c n \<noteq> None) names" "st_id (ti_state i) \<noteq> []"
    and "list_all (\<lambda>(n, t). at_name t \<noteq> [] \<and> at_version t \<noteq> []) c"
    and "opt_all (\<lambda>s. fs_id s \<noteq> []) (ti_snapshot i)"
  shows "\<exists>rs. evaluate_catalog h failed c names i = Inr rs \<and> length rs = length names"
proof -
  have one: "\<exists>r. evaluate_tool h failed (the (map_of c n)) i = Inr r \<and> True" if n: "n \<in> set names" for n
  proof -
    obtain t where t: "map_of c n = Some t" using assms(1) n by (auto simp: list_all_iff)
    then have "at_name t \<noteq> [] \<and> at_version t \<noteq> []"
      using assms(3) map_of_SomeD[OF t] by (auto simp: list_all_iff)
    then show ?thesis
      using assms(2,4) t by (cases "at_evaluate t i"; cases "ti_snapshot i")
        (auto simp: evaluate_tool_def mk_tool_result_def validate_ok blank_tool_result_def
          tool_result_identity.bind_fresh nonempty_def)
  qed
  have known: "\<not> list_ex (\<lambda>n. map_of c n = None) names"
    using assms(1) by (auto simp: list_all_iff list_ex_iff)
  from res_map_ok[of names "\<lambda>n. evaluate_tool h failed (the (map_of c n)) i" "\<lambda>_. True", OF one] known
  show ?thesis by (auto simp: evaluate_catalog_def dest: res_map_length)
qed

subsection \<open>Witness\<close>

definition demo_tool_state :: shared_state where
  "demo_tool_state = demo_state\<lparr>st_id := ''rs-1'', st_as_of := 60, st_market := (st_market demo_state)
     \<lparr>ms_completed_timeframes := [''M5''], ms_feature_manifest_id := Some ''fm-1'',
      ms_freshness := \<lparr>cf_component = ''market'', cf_status = FS_AVAILABLE, cf_observed_at = None,
        cf_available_at = None, cf_stale_after_ms = None, cf_reason = None\<rparr>\<rparr>\<rparr>"

definition demo_features :: feature_snapshot where
  "demo_features = \<lparr>fs_id = ''fs-1'', fs_symbol = ''XAUUSD'', fs_base_timeframe = ''M5'', fs_as_of = 50,
     fs_available_at = 55, fs_manifest_id = ''fm-1'', fs_completed_timeframes = [''M5''],
     fs_values = [\<lparr>fv_name = ''atr'', fv_value = FFloat (Fin 2)\<rparr>, \<lparr>fv_name = ''rsi'', fv_value = FInt 70\<rparr>],
     fs_source = ''features'', fs_source_version = ''1''\<rparr>"

definition demo_tool :: feature_tool where
  "demo_tool = \<lparr>ft_name = ''momentum'', ft_category = TC_MOMENTUM, ft_features = [''rsi''],
     ft_timeframe = ''M5'', ft_version = ''1''\<rparr>"

theorem feature_facts_causal_witness:
  "\<exists>r. feature_evaluate zero_hash demo_tool \<lparr>ti_state = demo_tool_state, ti_snapshot = Some demo_features\<rparr> = Inr r \<and>
     map tf_name (tr_facts r) = [''rsi''] \<and> tr_available_at r = 55"
proof -
  let ?i = "\<lparr>ti_state = demo_tool_state, ti_snapshot = Some demo_features\<rparr>"
  have o: "feature_obstacle demo_tool ?i = None"
    by (simp add: feature_obstacle_def demo_tool_def demo_tool_state_def demo_features_def feature_of_def
        upper_char_def)
  have "\<not> decision_name ''rsi''"
    by (simp add: decision_name_def strip_def is_space_def lower_char_def is_alnum_def)
  then have f: "mk_tool_fact \<lparr>tf_name = ''rsi'', tf_value = FInt 70, tf_unit = None\<rparr> =
      Inr \<lparr>tf_name = ''rsi'', tf_value = FInt 70, tf_unit = None\<rparr>"
    by (simp add: mk_tool_fact_def validate_ok)
  obtain r where r: "feature_evaluate zero_hash demo_tool ?i = Inr r" "tr_status r = TS_AVAILABLE"
    using o f by (auto simp: feature_evaluate_def demo_tool_def demo_features_def feature_of_def
        demo_tool_state_def blank_tool_result_def mk_tool_result_def validate_ok
        tool_result_identity.bind_fresh)
  from feature_facts_causal[OF r(1)] r show ?thesis
    by (auto simp: facts_causal_def demo_tool_def demo_features_def)
qed

end
