(* ===== verification/Fusion.thy ===== *)
theory Fusion
  imports AgentMemory
begin

section \<open>Evidence bundles and fusion (\<open>runtime/kernel.py\<close>, \<open>master/contracts.py\<close>, \<open>master/fusion.py\<close>)\<close>

text \<open>
  The bundle of the five specialists' evidence, the fusion policy, and \<open>fuse_evidence\<close>, the pure
  function that turns a bundle into a \<open>MasterProposal\<close>. All arithmetic is binary64.
\<close>

subsection \<open>Bundles\<close>

definition agent_order :: "string list" where
  "agent_order = [''chart'', ''quant'', ''historical'', ''regime'', ''news'']"

record evidence_bundle =
  eb_id :: string
  eb_event_id :: string
  eb_runtime_state_id :: string
  eb_as_of :: dt
  eb_agent_inputs :: "agent_input list"
  eb_evidence :: "agent_evidence list"
  eb_memories :: "agent_memory list"

definition bundle_rules :: "evidence_bundle \<Rightarrow> (bool \<times> py_error) list" where
  "bundle_rules b =
     (let evidence_agents = map ae_agent_name (eb_evidence b);
          memory_agents = map am_agent_name (eb_memories b)
      in [nonempty ''event_id'' (eb_event_id b), nonempty ''runtime_state_id'' (eb_runtime_state_id b),
          rule_ok ''bundle agent inputs, evidence, and memories must align''
            (length (eb_agent_inputs b) = length (eb_evidence b)
             \<and> length (eb_evidence b) = length (eb_memories b) \<and> evidence_agents = memory_agents),
          rule_ok ''bundle specialists must use canonical agent order'' (evidence_agents = agent_order),
          rule_ok ''bundle input references a different runtime state''
            (list_all (\<lambda>i. ai_runtime_state_id i = eb_runtime_state_id b) (eb_agent_inputs b)),
          rule_ok ''bundle evidence references a different runtime state''
            (list_all (\<lambda>e. ae_runtime_state_id e = eb_runtime_state_id b) (eb_evidence b))])"

definition mk_bundle :: "(evidence_bundle \<Rightarrow> string) \<Rightarrow> evidence_bundle \<Rightarrow> evidence_bundle res" where
  "mk_bundle h b = res_bind (validate (bundle_rules b) b)
     (bind_identity ''eb-'' h (\<lambda>r. r\<lparr>eb_id := []\<rparr>) eb_id (\<lambda>i r. r\<lparr>eb_id := i\<rparr>)
        ''bundle_id does not match evidence content'')"

interpretation bundle_identity: content_addressed "''eb-''" h "\<lambda>r. r\<lparr>eb_id := []\<rparr>" eb_id
    "\<lambda>i r. r\<lparr>eb_id := i\<rparr>" "''bundle_id does not match evidence content''"
  for h :: "evidence_bundle \<Rightarrow> string"
  by unfold_locales simp_all

definition bundle_by_agent :: "evidence_bundle \<Rightarrow> string \<Rightarrow> agent_evidence res" where
  "bundle_by_agent b n = (case find (\<lambda>e. ae_agent_name e = n) (eb_evidence b) of
     Some e \<Rightarrow> Inr e | None \<Rightarrow> Inl (KeyError n))"

subsection \<open>Policy and proposal contracts\<close>

datatype signal = SIG_BUY | SIG_SELL | SIG_HOLD

datatype evidence_disposition =
    CONTRIBUTED | DEGRADED_CONTRIBUTION | CONTEXT_ONLY | D_ABSTAINED | D_ERROR | TERMINAL | ZERO_CONFIDENCE

datatype fusion_reason =
    ACTIONABLE_BUY | ACTIONABLE_SELL | NO_READY_DIRECTIONAL_EVIDENCE | BELOW_SCORE_THRESHOLD
  | LOW_CONFIDENCE | HIGH_UNCERTAINTY | HIGH_CONTRADICTION | HIGH_DISAGREEMENT

record specialist_weight =
  sw_agent_name :: string
  sw_weight :: f64

record fusion_policy =
  fp_id :: string
  fp_version :: string
  fp_weights :: "specialist_weight list"
  fp_degraded_multiplier :: f64
  fp_min_score :: f64
  fp_min_confidence :: f64
  fp_max_uncertainty :: f64
  fp_max_contradiction :: f64
  fp_max_disagreement :: f64
  fp_min_ready :: int

definition weight_ok :: "specialist_weight \<Rightarrow> bool" where
  "weight_ok w \<longleftrightarrow> sw_agent_name w \<noteq> [] \<and> is_f64 (sw_weight w)
     \<and> flt (Fin 0) (sw_weight w) \<and> fle (sw_weight w) (Fin 10)"

definition policy_rules :: "fusion_policy \<Rightarrow> (bool \<times> py_error) list" where
  "policy_rules p =
     [nonempty ''policy_version'' (fp_version p),
      field_ok ''specialist_weights'' (list_all weight_ok (fp_weights p)),
      field_ok ''degraded_weight_multiplier'' (unit_float (fp_degraded_multiplier p)),
      field_ok ''minimum_actionable_score'' (unit_float (fp_min_score p)),
      field_ok ''minimum_actionable_confidence'' (unit_float (fp_min_confidence p)),
      field_ok ''maximum_actionable_uncertainty'' (unit_float (fp_max_uncertainty p)),
      field_ok ''maximum_actionable_contradiction'' (unit_float (fp_max_contradiction p)),
      field_ok ''maximum_actionable_disagreement'' (unit_float (fp_max_disagreement p)),
      field_ok ''minimum_ready_directional_agents''
        (1 \<le> fp_min_ready p \<and> fp_min_ready p \<le> int (length agent_order)),
      rule_ok ''specialist fusion weights must be unique'' (distinct (map sw_agent_name (fp_weights p))),
      rule_ok ''fusion policy requires exactly the canonical specialists''
        (set (map sw_agent_name (fp_weights p)) = set agent_order)]"

text \<open>The validated policy holds its weights in canonical order.\<close>

definition order_weights :: "fusion_policy \<Rightarrow> fusion_policy" where
  "order_weights p = p\<lparr>fp_weights :=
     map (\<lambda>n. the (map_of (dict_by sw_agent_name (fp_weights p)) n)) agent_order\<rparr>"

definition mk_fusion_policy :: "(fusion_policy \<Rightarrow> string) \<Rightarrow> fusion_policy \<Rightarrow> fusion_policy res" where
  "mk_fusion_policy h p = res_bind (validate (policy_rules p) (order_weights p))
     (bind_identity ''mfp-'' h (\<lambda>r. r\<lparr>fp_id := []\<rparr>) fp_id (\<lambda>i r. r\<lparr>fp_id := i\<rparr>)
        ''policy_id does not match fusion policy content'')"

interpretation policy_identity: content_addressed "''mfp-''" h "\<lambda>r. r\<lparr>fp_id := []\<rparr>" fp_id
    "\<lambda>i r. r\<lparr>fp_id := i\<rparr>" "''policy_id does not match fusion policy content''"
  for h :: "fusion_policy \<Rightarrow> string"
  by unfold_locales simp_all

record specialist_contribution =
  co_agent_name :: string
  co_evidence_id :: string
  co_status :: agent_status
  co_direction :: "directional_bias option"
  co_disposition :: evidence_disposition
  co_configured_weight :: f64
  co_applied_weight :: f64
  co_strength :: f64
  co_signed_score :: f64
  co_uncertainty :: f64
  co_internal_contradiction :: f64

definition mk_contribution :: "specialist_contribution \<Rightarrow> specialist_contribution res" where
  "mk_contribution c = validate
     [nonempty ''agent_name'' (co_agent_name c), nonempty ''evidence_id'' (co_evidence_id c),
      field_ok ''configured_weight'' (flt (Fin 0) (co_configured_weight c)),
      field_ok ''applied_weight'' (fle (Fin 0) (co_applied_weight c)),
      field_ok ''effective_strength'' (fle (Fin 0) (co_strength c) \<and> fle (co_strength c) (Fin 10)),
      field_ok ''signed_score'' (fle (Fin (- 10)) (co_signed_score c) \<and> fle (co_signed_score c) (Fin 10)),
      field_ok ''uncertainty'' (unit_float (co_uncertainty c)),
      field_ok ''internal_contradiction'' (unit_float (co_internal_contradiction c))] c"

record master_proposal =
  mp_id :: string
  mp_bundle_id :: string
  mp_event_id :: string
  mp_runtime_state_id :: string
  mp_as_of :: dt
  mp_policy_id :: string
  mp_policy_version :: string
  mp_decision :: signal
  mp_actionable :: bool
  mp_confidence :: f64
  mp_net_score :: f64
  mp_bullish_score :: f64
  mp_bearish_score :: f64
  mp_contradiction :: f64
  mp_disagreement :: f64
  mp_uncertainty :: f64
  mp_ready_directional_agents :: int
  mp_contributing_evidence_ids :: "string list"
  mp_contributions :: "specialist_contribution list"
  mp_reason_codes :: "fusion_reason list"

definition proposal_fields :: "master_proposal \<Rightarrow> (bool \<times> py_error) list" where
  "proposal_fields m =
     [nonempty ''bundle_id'' (mp_bundle_id m), nonempty ''event_id'' (mp_event_id m),
      nonempty ''runtime_state_id'' (mp_runtime_state_id m), nonempty ''policy_id'' (mp_policy_id m),
      nonempty ''policy_version'' (mp_policy_version m),
      field_ok ''confidence'' (unit_float (mp_confidence m)),
      field_ok ''net_score'' (fle (Fin (- 1)) (mp_net_score m) \<and> fle (mp_net_score m) (Fin 1)),
      field_ok ''bullish_score'' (unit_float (mp_bullish_score m)),
      field_ok ''bearish_score'' (unit_float (mp_bearish_score m)),
      field_ok ''contradiction'' (unit_float (mp_contradiction m)),
      field_ok ''disagreement'' (unit_float (mp_disagreement m)),
      field_ok ''uncertainty'' (unit_float (mp_uncertainty m)),
      field_ok ''ready_directional_agents'' (0 \<le> mp_ready_directional_agents m),
      field_ok ''reason_codes'' (mp_reason_codes m \<noteq> [])]"

definition proposal_rules :: "master_proposal \<Rightarrow> (bool \<times> py_error) list" where
  "proposal_rules m =
     [rule_ok ''proposal contributions must use canonical specialist order''
        (map co_agent_name (mp_contributions m) = agent_order),
      rule_ok ''contributing evidence IDs do not match contribution audit''
        (mp_contributing_evidence_ids m = map co_evidence_id
           (filter (\<lambda>c. co_disposition c \<in> {CONTRIBUTED, DEGRADED_CONTRIBUTION}) (mp_contributions m))),
      rule_ok ''only BUY or SELL proposals are actionable''
        (mp_actionable m = (mp_decision m \<noteq> SIG_HOLD)),
      rule_ok ''fusion reason codes must be unique'' (distinct (mp_reason_codes m)),
      rule_ok ''actionable proposal requires exactly its action reason''
        (case mp_decision m of SIG_BUY \<Rightarrow> mp_reason_codes m = [ACTIONABLE_BUY]
           | SIG_SELL \<Rightarrow> mp_reason_codes m = [ACTIONABLE_SELL] | SIG_HOLD \<Rightarrow> True),
      rule_ok ''HOLD proposal cannot contain an actionable reason''
        (\<not> (mp_decision m = SIG_HOLD
            \<and> list_ex (\<lambda>r. r \<in> {ACTIONABLE_BUY, ACTIONABLE_SELL}) (mp_reason_codes m)))]"

definition mk_master_proposal :: "(master_proposal \<Rightarrow> string) \<Rightarrow> master_proposal \<Rightarrow> master_proposal res" where
  "mk_master_proposal h m = res_bind (validate (proposal_fields m @ proposal_rules m) m)
     (bind_identity ''mp-'' h (\<lambda>r. r\<lparr>mp_id := []\<rparr>) mp_id (\<lambda>i r. r\<lparr>mp_id := i\<rparr>)
        ''proposal_id does not match proposal content'')"

interpretation proposal_identity: content_addressed "''mp-''" h "\<lambda>r. r\<lparr>mp_id := []\<rparr>" mp_id
    "\<lambda>i r. r\<lparr>mp_id := i\<rparr>" "''proposal_id does not match proposal content''"
  for h :: "master_proposal \<Rightarrow> string"
  by unfold_locales simp_all

subsection \<open>Contributions\<close>

text \<open>The truth value of a float: only zero is false.\<close>

definition ftrue :: "f64 \<Rightarrow> bool" where
  "ftrue a \<longleftrightarrow> a \<noteq> Fin 0"

definition ratio_or :: "f64 \<Rightarrow> f64 \<Rightarrow> f64 \<Rightarrow> f64 res" where
  "ratio_or a tot d = (if ftrue tot then fdiv a tot else Inr d)"

definition internal_contradiction :: "agent_evidence \<Rightarrow> f64 res" where
  "internal_contradiction e =
     (let supporting = fsum (map er_strength (ae_evidence_for e));
          opposing = fsum (map er_strength (ae_evidence_against e))
      in ratio_or opposing (fadd supporting opposing) (Fin 0))"

definition disposition_of :: "agent_evidence \<Rightarrow> f64 \<Rightarrow> evidence_disposition \<times> f64" where
  "disposition_of e degraded_multiplier =
     (if ae_status e = AS_ERROR then (D_ERROR, Fin 0)
      else if ae_status e = AS_ABSTAINED then (D_ABSTAINED, Fin 0)
      else if ae_hypothesis_status e \<in> {HS_INVALIDATED, HS_EXPIRED} \<or> hi_invalidated (ae_invalidation e)
      then (TERMINAL, Fin 0)
      else if ae_direction e \<in> {None, Some NEUTRAL} then (CONTEXT_ONLY, Fin 0)
      else if feq (ae_confidence e) (Fin 0) then (ZERO_CONFIDENCE, Fin 0)
      else if ae_status e = AS_DEGRADED then (DEGRADED_CONTRIBUTION, degraded_multiplier)
      else (CONTRIBUTED, Fin 1))"

definition direction_sign :: "directional_bias option \<Rightarrow> f64" where
  "direction_sign d = (if d = Some BULLISH then Fin 1 else if d = Some BEARISH then Fin (- 1) else Fin 0)"

definition contribution :: "agent_evidence \<Rightarrow> f64 \<Rightarrow> f64 \<Rightarrow> specialist_contribution res" where
  "contribution e configured_weight degraded_multiplier =
     (let (disposition, multiplier) = disposition_of e degraded_multiplier;
          applied_weight = fmul configured_weight multiplier;
          strength = fmul (fmul applied_weight (ae_confidence e)) (fsub (Fin 1) (ae_uncertainty e))
      in res_bind (internal_contradiction e) (\<lambda>ic.
         mk_contribution \<lparr>co_agent_name = ae_agent_name e, co_evidence_id = ae_id e,
           co_status = ae_status e, co_direction = ae_direction e, co_disposition = disposition,
           co_configured_weight = configured_weight, co_applied_weight = applied_weight,
           co_strength = strength, co_signed_score = fmul (direction_sign (ae_direction e)) strength,
           co_uncertainty = ae_uncertainty e, co_internal_contradiction = ic\<rparr>))"

definition bounded :: "f64 \<Rightarrow> f64" where
  "bounded v = pymin (Fin 1) (pymax (Fin 0) v)"

subsection \<open>Fusion\<close>

record fusion_metrics =
  fm_bullish :: f64
  fm_bearish :: f64
  fm_net :: f64
  fm_disagreement :: f64
  fm_contradiction :: f64
  fm_uncertainty :: f64
  fm_confidence :: f64
  fm_ready :: int

definition directional :: "specialist_contribution list \<Rightarrow> specialist_contribution list" where
  "directional cs = filter (\<lambda>c. flt (Fin 0) (co_applied_weight c)) cs"

definition bullish_strength :: "specialist_contribution list \<Rightarrow> f64" where
  "bullish_strength ds = fsum (map (\<lambda>c. pymax (Fin 0) (co_signed_score c)) ds)"

definition bearish_strength :: "specialist_contribution list \<Rightarrow> f64" where
  "bearish_strength ds = fsum (map (\<lambda>c. pymax (Fin 0) (fneg (co_signed_score c))) ds)"

definition fusion_metrics_of :: "specialist_contribution list \<Rightarrow> fusion_metrics res" where
  "fusion_metrics_of cs =
     (let ds = directional cs;
          total_weight = fsum (map co_applied_weight ds);
          bull = bullish_strength ds; bear = bearish_strength ds;
          ready = int (length (filter (\<lambda>c. co_disposition c = CONTRIBUTED) cs))
      in res_bind (ratio_or bull total_weight (Fin 0)) (\<lambda>bullish.
         res_bind (ratio_or bear total_weight (Fin 0)) (\<lambda>bearish.
         res_bind (ratio_or (fmul (Fin 2) (pymin bull bear)) (fadd bull bear) (Fin 0)) (\<lambda>disagreement.
         res_bind (ratio_or (fsum (map (\<lambda>c. fmul (co_strength c) (co_internal_contradiction c)) ds))
             (fadd bull bear) (Fin 0)) (\<lambda>contradiction.
         res_bind (ratio_or (fsum (map (\<lambda>c. fmul (co_applied_weight c) (co_uncertainty c)) ds))
             total_weight (Fin 1)) (\<lambda>uncertainty.
         Inr \<lparr>fm_bullish = bullish, fm_bearish = bearish, fm_net = fsub bullish bearish,
              fm_disagreement = disagreement, fm_contradiction = contradiction,
              fm_uncertainty = uncertainty,
              fm_confidence = fmul (fmul (pymax bullish bearish) (fsub (Fin 1) disagreement))
                 (fsub (Fin 1) contradiction),
              fm_ready = ready\<rparr>))))))"

definition hold_reasons :: "fusion_policy \<Rightarrow> fusion_metrics \<Rightarrow> fusion_reason list" where
  "hold_reasons p m =
     (if fm_ready m < fp_min_ready p then [NO_READY_DIRECTIONAL_EVIDENCE] else []) @
     (if flt (fabs (fm_net m)) (fp_min_score p) then [BELOW_SCORE_THRESHOLD] else []) @
     (if flt (fm_confidence m) (fp_min_confidence p) then [LOW_CONFIDENCE] else []) @
     (if flt (fp_max_uncertainty p) (fm_uncertainty m) then [HIGH_UNCERTAINTY] else []) @
     (if flt (fp_max_contradiction p) (fm_contradiction m) then [HIGH_CONTRADICTION] else []) @
     (if flt (fp_max_disagreement p) (fm_disagreement m) then [HIGH_DISAGREEMENT] else [])"

definition fusion_decision :: "fusion_policy \<Rightarrow> fusion_metrics \<Rightarrow> signal \<times> fusion_reason list" where
  "fusion_decision p m =
     (if hold_reasons p m \<noteq> [] then (SIG_HOLD, hold_reasons p m)
      else if flt (Fin 0) (fm_net m) then (SIG_BUY, [ACTIONABLE_BUY])
      else (SIG_SELL, [ACTIONABLE_SELL]))"

definition weight_of :: "fusion_policy \<Rightarrow> string \<Rightarrow> f64 res" where
  "weight_of p n = (case map_of (map (\<lambda>w. (sw_agent_name w, sw_weight w)) (rev (fp_weights p))) n of
     Some w \<Rightarrow> Inr w | None \<Rightarrow> Inl (KeyError n))"

definition contributions_of :: "fusion_policy \<Rightarrow> agent_evidence list \<Rightarrow> specialist_contribution list res" where
  "contributions_of p es = res_map (\<lambda>e. res_bind (weight_of p (ae_agent_name e))
     (\<lambda>w. contribution e w (fp_degraded_multiplier p))) es"

definition fuse_evidence ::
  "(master_proposal \<Rightarrow> string) \<Rightarrow> evidence_bundle \<Rightarrow> fusion_policy \<Rightarrow> master_proposal res" where
  "fuse_evidence h b p =
     res_bind (contributions_of p (eb_evidence b)) (\<lambda>cs.
     res_bind (fusion_metrics_of cs) (\<lambda>m.
     let (decision, reasons) = fusion_decision p m in
     mk_master_proposal h
       \<lparr>mp_id = [], mp_bundle_id = eb_id b, mp_event_id = eb_event_id b,
        mp_runtime_state_id = eb_runtime_state_id b, mp_as_of = eb_as_of b,
        mp_policy_id = fp_id p, mp_policy_version = fp_version p, mp_decision = decision,
        mp_actionable = (decision \<noteq> SIG_HOLD), mp_confidence = bounded (fm_confidence m),
        mp_net_score = pymax (Fin (- 1)) (pymin (Fin 1) (fm_net m)),
        mp_bullish_score = bounded (fm_bullish m), mp_bearish_score = bounded (fm_bearish m),
        mp_contradiction = bounded (fm_contradiction m), mp_disagreement = bounded (fm_disagreement m),
        mp_uncertainty = bounded (fm_uncertainty m), mp_ready_directional_agents = fm_ready m,
        mp_contributing_evidence_ids = map co_evidence_id (directional cs), mp_contributions = cs,
        mp_reason_codes = reasons\<rparr>))"

subsection \<open>Ranges\<close>

text \<open>A finite binary64 value between two bounds.\<close>

definition fin_in :: "rat \<Rightarrow> rat \<Rightarrow> f64 \<Rightarrow> bool" where
  "fin_in a b v \<longleftrightarrow> is_f64 v \<and> (\<exists>x. v = Fin x \<and> a \<le> x \<and> x \<le> b)"

lemma fin_inE: "fin_in a b v \<Longrightarrow> (\<And>x. v = Fin x \<Longrightarrow> is_f64 (Fin x) \<Longrightarrow> a \<le> x \<Longrightarrow> x \<le> b \<Longrightarrow> P) \<Longrightarrow> P"
  by (auto simp: fin_in_def)

lemma fin_in_Fin [simp]: "fin_in a b (Fin x) \<longleftrightarrow> is_f64 (Fin x) \<and> a \<le> x \<and> x \<le> b"
  by (auto simp: fin_in_def)

lemma unit_float_fin_in: "unit_float v \<longleftrightarrow> fin_in 0 1 v"
  by (cases v) (auto simp: fin_in_def)

lemma fin_in_mono: "fin_in a b v \<Longrightarrow> a' \<le> a \<Longrightarrow> b \<le> b' \<Longrightarrow> fin_in a' b' v"
  by (auto simp: fin_in_def)

lemma fmul_unit: "fin_in 0 b v \<Longrightarrow> unit_float u \<Longrightarrow> fin_in 0 b (fmul v u)"
proof -
  assume "fin_in 0 b v" "unit_float u"
  then obtain x y where x: "v = Fin x" "is_f64 (Fin x)" "0 \<le> x" "x \<le> b" and y: "u = Fin y" "0 \<le> y" "y \<le> 1"
    by (auto elim!: fin_inE unit_floatE)
  have "x * y \<le> x" using x y by (simp add: mult_left_le)
  then obtain r where "rnd (x * y) = Fin r" "0 \<le> r" "r \<le> x"
    using rnd_between[of 0 "x * y" x] x y by auto
  then show ?thesis using x y is_f64_rnd[of "x * y"] by simp
qed

lemma fsub_unit: "unit_float u \<Longrightarrow> unit_float (fsub (Fin 1) u)"
proof -
  assume "unit_float u"
  then obtain y where y: "u = Fin y" "0 \<le> y" "y \<le> 1" by (auto elim!: unit_floatE)
  then obtain r where "rnd (1 - y) = Fin r" "0 \<le> r" "r \<le> 1"
    using rnd_between[of 0 "1 - y" 1] by auto
  then show ?thesis using y is_f64_rnd[of "1 - y"] by (simp add: fsub_def)
qed

lemma fsum_fin_in:
  assumes "list_all (fin_in 0 16) xs"
  shows "fin_in 0 (2 ^ 59) (fsum xs)"
proof -
  have "list_all (\<lambda>a. \<exists>x. a = Fin x \<and> is_f64 a \<and> 0 \<le> x \<and> x \<le> 16) xs"
    using assms by (auto simp: list_all_iff fin_in_def)
  moreover have "is_f64 (fsum xs)"
    using assms by (intro is_f64_fsum) (auto simp: list_all_iff fin_in_def)
  ultimately show ?thesis using fsum_range[of xs] by (auto simp: fin_in_def)
qed

lemma is_f64_2_60: "is_f64 (Fin (2 ^ 60))"
  using round_val_exact[of 1 60 "2 ^ 60"] f64_max_ge by (simp add: is_f64.simps)

lemma fadd_nonneg:
  assumes "fin_in 0 (2 ^ 59) a" "fin_in 0 (2 ^ 59) b"
  shows "fin_in 0 (2 ^ 60) (fadd a b)" "fle a (fadd a b)" "fle b (fadd a b)"
proof -
  from assms obtain x y where x: "a = Fin x" "is_f64 (Fin x)" "0 \<le> x" "x \<le> 2 ^ 59"
    and y: "b = Fin y" "is_f64 (Fin y)" "0 \<le> y" "y \<le> 2 ^ 59" by (auto elim!: fin_inE)
  then obtain r where r: "rnd (x + y) = Fin r" "0 \<le> r" "r \<le> 2 ^ 60"
    using rnd_between[of 0 "x + y" "2 ^ 60"] is_f64_2_60 by auto
  then show "fin_in 0 (2 ^ 60) (fadd a b)" using x y is_f64_rnd[of "x + y"] by simp
  show "fle a (fadd a b)" "fle b (fadd a b)"
    using x y rnd_ge[of x "x + y"] rnd_ge[of y "x + y"] by simp_all
qed

lemma ratio_unit:
  assumes "fin_in 0 c a" "fin_in 0 d b" "fle a b" "unit_float e"
  shows "\<exists>r. ratio_or a b e = Inr r \<and> unit_float r"
proof -
  from assms obtain x y where x: "a = Fin x" "0 \<le> x" and y: "b = Fin y" "0 \<le> y" "x \<le> y"
    by (auto elim!: fin_inE)
  show ?thesis
  proof (cases "y = 0")
    case False
    with x y have "0 \<le> x / y" "x / y \<le> 1" by (simp_all add: divide_le_eq)
    then obtain r where "rnd (x / y) = Fin r" "0 \<le> r" "r \<le> 1"
      using rnd_between[of 0 "x / y" 1] by auto
    then show ?thesis using False x y is_f64_rnd[of "x / y"] by (simp add: ratio_or_def ftrue_def)
  qed (simp add: ratio_or_def ftrue_def y assms(4))
qed

text \<open>The clamps absorb every float, even an infinity or a NaN.\<close>

lemma bounded_unit: "is_f64 v \<Longrightarrow> unit_float (bounded v)"
  by (cases v) (auto simp: bounded_def pymin_def pymax_def)

lemma bounded_net: "fle (Fin (- 1)) (pymax (Fin (- 1)) (pymin (Fin 1) v)) \<and>
    fle (pymax (Fin (- 1)) (pymin (Fin 1) v)) (Fin 1)"
  by (cases v) (auto simp: pymin_def pymax_def)

subsection \<open>Contributions are well formed\<close>

definition refs_ok :: "agent_evidence \<Rightarrow> bool" where
  "refs_ok e \<longleftrightarrow> list_all (\<lambda>r. unit_float (er_strength r)) (ae_evidence_for e @ ae_evidence_against e)"

lemma internal_contradiction_unit:
  assumes "refs_ok e"
  shows "\<exists>r. internal_contradiction e = Inr r \<and> unit_float r"
proof -
  have "fin_in 0 16 v" if "unit_float v" for v using that by (auto simp: unit_float_fin_in intro: fin_in_mono)
  then have "list_all (fin_in 0 16) (map er_strength (ae_evidence_for e))"
      "list_all (fin_in 0 16) (map er_strength (ae_evidence_against e))"
    using assms by (auto simp: refs_ok_def list_all_iff)
  note sums = this[THEN fsum_fin_in]
  show ?thesis
    unfolding internal_contradiction_def Let_def
    using fadd_nonneg[OF sums] sums by (intro ratio_unit) auto
qed

definition contribution_ok :: "specialist_contribution \<Rightarrow> bool" where
  "contribution_ok c \<longleftrightarrow> fin_in 0 10 (co_applied_weight c) \<and> fin_in 0 10 (co_strength c) \<and>
     (co_signed_score c = co_strength c \<or> co_signed_score c = fneg (co_strength c) \<or> co_signed_score c = Fin 0) \<and>
     unit_float (co_uncertainty c) \<and> unit_float (co_internal_contradiction c)"

lemma sign_mul:
  assumes "fin_in 0 10 s"
  shows "fmul (direction_sign d) s = (if d = Some BULLISH then s else if d = Some BEARISH then fneg s else Fin 0)"
proof -
  from assms obtain x where x: "s = Fin x" "is_f64 (Fin x)" by (auto elim!: fin_inE)
  then have "rnd x = Fin x" by (simp add: rnd_of_is_f64)
  then show ?thesis using x rnd_minus[of x] by (simp add: direction_sign_def)
qed

lemma is_f64_10: "is_f64 (Fin 10)" "is_f64 (Fin (- 10))"
  using is_f64_minus[of 10] by simp_all

lemma contribution_total:
  assumes "evidence_ok e" "refs_ok e" "weight_ok w" "unit_float m"
  shows "\<exists>c. contribution e (sw_weight w) m = Inr c \<and> contribution_ok c \<and> co_agent_name c = ae_agent_name e
    \<and> co_evidence_id c = ae_id e \<and> (co_disposition c, co_applied_weight c) =
      (fst (disposition_of e m), fmul (sw_weight w) (snd (disposition_of e m)))"
proof -
  obtain d k where dk: "disposition_of e m = (d, k)" by fastforce
  have k: "unit_float k" using dk assms(4) by (auto simp: disposition_of_def split: if_splits)
  have w: "fin_in 0 10 (sw_weight w)" "flt (Fin 0) (sw_weight w)"
    using assms(3) by (cases "sw_weight w"; auto simp: weight_ok_def)+
  define a where "a = fmul (sw_weight w) k"
  define s where "s = fmul (fmul a (ae_confidence e)) (fsub (Fin 1) (ae_uncertainty e))"
  have a: "fin_in 0 10 a" unfolding a_def by (rule fmul_unit[OF w(1) k])
  have s: "fin_in 0 10 s" unfolding s_def
    by (intro fmul_unit fsub_unit a evidence_okD[OF assms(1)])
  obtain ic where ic: "internal_contradiction e = Inr ic" "unit_float ic"
    using internal_contradiction_unit[OF assms(2)] by blast
  have sg: "fle (Fin (- 10)) (fmul (direction_sign dir) s) \<and> fle (fmul (direction_sign dir) s) (Fin 10)" for dir
    unfolding sign_mul[OF s] using s by (auto elim!: fin_inE)
  have "fle (Fin 0) a" "fle (Fin 0) s" "fle s (Fin 10)" using a s by (auto elim!: fin_inE)
  then show ?thesis
    unfolding contribution_def dk a_def[symmetric] prod.case Let_def s_def[symmetric] ic(1) res_bind.simps
    using sg[of "ae_direction e"] w(2) ic(2) a s evidence_okD[OF assms(1)]
    by (auto simp: mk_contribution_def validate_Inr_iff contribution_ok_def sign_mul[OF s] a_def)
qed

subsection \<open>Fusion is total\<close>

lemma signed_parts:
  assumes "contribution_ok c"
  shows "fin_in 0 10 (pymax (Fin 0) (co_signed_score c))"
    and "fin_in 0 10 (pymax (Fin 0) (fneg (co_signed_score c)))"
proof -
  obtain x where "co_strength c = Fin x" "is_f64 (Fin x)" "0 \<le> x" "x \<le> 10"
    using assms by (auto simp: contribution_ok_def elim!: fin_inE)
  then show "fin_in 0 10 (pymax (Fin 0) (co_signed_score c))"
    and "fin_in 0 10 (pymax (Fin 0) (fneg (co_signed_score c)))"
    using assms by (auto simp: contribution_ok_def pymax_def)
qed

lemma pymin_sum_le:
  assumes "fin_in 0 (2 ^ 59) a" "fin_in 0 (2 ^ 59) b"
  shows "fin_in 0 (2 ^ 59) (pymin a b)"
  using assms by (auto simp: pymin_def)

lemma double_nonneg: "fin_in 0 (2 ^ 59) a \<Longrightarrow> fin_in 0 (2 ^ 60) (fmul (Fin 2) a)"
proof -
  assume "fin_in 0 (2 ^ 59) a"
  then obtain x where x: "a = Fin x" "0 \<le> x" "x \<le> 2 ^ 59" by (auto elim!: fin_inE)
  then obtain r where "rnd (2 * x) = Fin r" "0 \<le> r" "r \<le> 2 ^ 60"
    using rnd_between[of 0 "2 * x" "2 ^ 60"] is_f64_2_60 by auto
  then show ?thesis using x is_f64_rnd[of "2 * x"] by simp
qed

lemma is_f64_ratio: "ratio_or a b d = Inr r \<Longrightarrow> is_f64 d \<Longrightarrow> is_f64 r"
  by (auto simp: ratio_or_def split: if_splits dest: is_f64_fdiv)

lemma ratio_total: "\<exists>r. ratio_or a (Fin x) (Fin d) = Inr r"
  by (auto simp: ratio_or_def ftrue_def)

definition evidence_valid :: "agent_evidence \<Rightarrow> bool" where
  "evidence_valid e \<longleftrightarrow> evidence_ok e \<and> refs_ok e"

definition policy_ok :: "fusion_policy \<Rightarrow> bool" where
  "policy_ok p \<longleftrightarrow> list_all fst (policy_rules p) \<and> fp_id p \<noteq> []"

definition bundle_ok :: "evidence_bundle \<Rightarrow> bool" where
  "bundle_ok b \<longleftrightarrow> list_all fst (bundle_rules b) \<and> eb_id b \<noteq> [] \<and> list_all evidence_valid (eb_evidence b)"

lemma weight_of_ok:
  assumes "policy_ok p" "n \<in> set agent_order"
  shows "\<exists>w \<in> set (fp_weights p). weight_of p n = Inr (sw_weight w) \<and> weight_ok w"
proof -
  have d: "distinct (map fst (map (\<lambda>w. (sw_agent_name w, sw_weight w)) (rev (fp_weights p))))"
    using assms(1) by (simp add: policy_ok_def policy_rules_def comp_def rev_map[symmetric])
  have "n \<in> sw_agent_name ` set (fp_weights p)"
    using assms by (simp add: policy_ok_def policy_rules_def)
  then obtain w where w: "w \<in> set (fp_weights p)" "sw_agent_name w = n" by blast
  then have "weight_of p n = Inr (sw_weight w)"
    using map_of_is_SomeI[OF d, of n "sw_weight w"] by (force simp: weight_of_def)
  moreover have "weight_ok w"
    using assms(1) w(1) by (simp add: policy_ok_def policy_rules_def list_all_iff)
  ultimately show ?thesis using w(1) by blast
qed

text \<open>The contribution that belongs to a piece of evidence.\<close>

definition contributes :: "fusion_policy \<Rightarrow> agent_evidence \<Rightarrow> specialist_contribution \<Rightarrow> bool" where
  "contributes p e c \<longleftrightarrow> contribution_ok c \<and> co_agent_name c = ae_agent_name e \<and> co_evidence_id c = ae_id e \<and>
     co_disposition c = fst (disposition_of e (fp_degraded_multiplier p)) \<and>
     (\<exists>w. weight_ok w \<and> weight_of p (ae_agent_name e) = Inr (sw_weight w) \<and>
        co_applied_weight c = fmul (sw_weight w) (snd (disposition_of e (fp_degraded_multiplier p))))"

lemma contributions_total:
  assumes "policy_ok p" "list_all evidence_valid es" "set (map ae_agent_name es) \<subseteq> set agent_order"
  shows "\<exists>cs. contributions_of p es = Inr cs \<and> list_all2 (contributes p) es cs"
  using assms(2,3)
proof (induction es)
  case (Cons e es)
  obtain w where w: "weight_of p (ae_agent_name e) = Inr (sw_weight w)" "weight_ok w"
    using weight_of_ok[OF assms(1), of "ae_agent_name e"] Cons.prems(2) by auto
  have "unit_float (fp_degraded_multiplier p)" using assms(1) by (simp add: policy_ok_def policy_rules_def)
  then obtain c where c: "contribution e (sw_weight w) (fp_degraded_multiplier p) = Inr c" "contributes p e c"
    using contribution_total[of e w "fp_degraded_multiplier p"] w Cons.prems(1)
    by (fastforce simp: contributes_def evidence_valid_def)
  then show ?case
    using Cons w(1) by (auto simp: contributions_of_def)
qed (simp add: contributions_of_def)

lemma fsum_over: "(\<And>c. c \<in> set cs \<Longrightarrow> fin_in 0 10 (f c)) \<Longrightarrow> fin_in 0 (2 ^ 59) (fsum (map f cs))"
  by (rule fsum_fin_in) (force simp: list_all_iff intro: fin_in_mono)

lemma strength_sums:
  assumes "list_all contribution_ok cs"
  shows "fin_in 0 (2 ^ 59) (fsum (map co_applied_weight cs))" "fin_in 0 (2 ^ 59) (bullish_strength cs)"
    "fin_in 0 (2 ^ 59) (bearish_strength cs)"
    "fin_in 0 (2 ^ 59) (fsum (map (\<lambda>c. fmul (co_strength c) (co_internal_contradiction c)) cs))"
    "fin_in 0 (2 ^ 59) (fsum (map (\<lambda>c. fmul (co_applied_weight c) (co_uncertainty c)) cs))"
proof -
  have c: "contribution_ok c" if "c \<in> set cs" for c using assms that by (simp add: list_all_iff)
  show "fin_in 0 (2 ^ 59) (fsum (map co_applied_weight cs))"
    "fin_in 0 (2 ^ 59) (bullish_strength cs)" "fin_in 0 (2 ^ 59) (bearish_strength cs)"
    "fin_in 0 (2 ^ 59) (fsum (map (\<lambda>c. fmul (co_strength c) (co_internal_contradiction c)) cs))"
    "fin_in 0 (2 ^ 59) (fsum (map (\<lambda>c. fmul (co_applied_weight c) (co_uncertainty c)) cs))"
    unfolding bullish_strength_def bearish_strength_def
    by (rule fsum_over; use c in \<open>auto simp: contribution_ok_def intro: fmul_unit signed_parts\<close>)+
qed

lemma metrics_total:
  assumes "list_all contribution_ok cs"
  shows "\<exists>m. fusion_metrics_of cs = Inr m \<and> list_all is_f64 [fm_bullish m, fm_bearish m, fm_net m,
     fm_contradiction m, fm_uncertainty m, fm_confidence m] \<and> unit_float (fm_disagreement m) \<and>
     fm_ready m = int (length (filter (\<lambda>c. co_disposition c = CONTRIBUTED) cs))"
proof -
  have "list_all contribution_ok (directional cs)" using assms by (auto simp: list_all_iff directional_def)
  note sums = strength_sums[OF this]
  define tot bull bear con unc where "tot = fsum (map co_applied_weight (directional cs))"
    and "bull = bullish_strength (directional cs)" and "bear = bearish_strength (directional cs)"
    and "con = fsum (map (\<lambda>c. fmul (co_strength c) (co_internal_contradiction c)) (directional cs))"
    and "unc = fsum (map (\<lambda>c. fmul (co_applied_weight c) (co_uncertainty c)) (directional cs))"
  note defs = tot_def[symmetric] bull_def[symmetric] bear_def[symmetric] con_def[symmetric] unc_def[symmetric]
  note sums = sums[unfolded defs]
  have ds: "fin_in 0 (2 ^ 60) (fadd bull bear)" by (rule fadd_nonneg(1)[OF sums(2,3)])
  have "fle (fmul (Fin 2) (pymin bull bear)) (fadd bull bear)"
    using sums(2,3) by (auto elim!: fin_inE simp: pymin_def intro!: rnd_mono)
  then obtain dis where dis: "ratio_or (fmul (Fin 2) (pymin bull bear)) (fadd bull bear) (Fin 0) = Inr dis" "unit_float dis"
    using ratio_unit[OF double_nonneg[OF pymin_sum_le[OF sums(2,3)]] ds, of "Fin 0"] by auto
  have t: "\<exists>x. tot = Fin x" "\<exists>x. fadd bull bear = Fin x" using sums(1) ds by (auto elim!: fin_inE)
  obtain r1 r2 r4 r5 where r: "ratio_or bull tot (Fin 0) = Inr r1" "ratio_or bear tot (Fin 0) = Inr r2"
      "ratio_or con (fadd bull bear) (Fin 0) = Inr r4" "ratio_or unc tot (Fin 1) = Inr r5"
    using t ratio_total by metis
  note f = r[THEN is_f64_ratio, simplified]
  have "is_f64 dis" using dis(2) by (simp add: unit_float_def)
  then show ?thesis
    using f dis(2) by (simp add: fusion_metrics_of_def Let_def defs r dis(1) del: is_f64_fsub)
      (simp add: f)
qed

lemma fm_bounds_decision:
  "fst (fusion_decision p m) = SIG_BUY \<longleftrightarrow> hold_reasons p m = [] \<and> flt (Fin 0) (fm_net m)"
  "fst (fusion_decision p m) = SIG_SELL \<longleftrightarrow> hold_reasons p m = [] \<and> \<not> flt (Fin 0) (fm_net m)"
  "fst (fusion_decision p m) = SIG_HOLD \<longleftrightarrow> hold_reasons p m \<noteq> []"
  by (auto simp: fusion_decision_def)

lemma hold_reasons_distinct: "distinct (hold_reasons p m)"
  by (simp add: hold_reasons_def)

lemma hold_reasons_holding: "ACTIONABLE_BUY \<notin> set (hold_reasons p m)" "ACTIONABLE_SELL \<notin> set (hold_reasons p m)"
  by (simp_all add: hold_reasons_def)

definition proposal_of ::
  "evidence_bundle \<Rightarrow> fusion_policy \<Rightarrow> specialist_contribution list \<Rightarrow> fusion_metrics \<Rightarrow> master_proposal" where
  "proposal_of b p cs m =
     \<lparr>mp_id = [], mp_bundle_id = eb_id b, mp_event_id = eb_event_id b,
        mp_runtime_state_id = eb_runtime_state_id b, mp_as_of = eb_as_of b,
        mp_policy_id = fp_id p, mp_policy_version = fp_version p, mp_decision = fst (fusion_decision p m),
        mp_actionable = (fst (fusion_decision p m) \<noteq> SIG_HOLD), mp_confidence = bounded (fm_confidence m),
        mp_net_score = pymax (Fin (- 1)) (pymin (Fin 1) (fm_net m)),
        mp_bullish_score = bounded (fm_bullish m), mp_bearish_score = bounded (fm_bearish m),
        mp_contradiction = bounded (fm_contradiction m), mp_disagreement = bounded (fm_disagreement m),
        mp_uncertainty = bounded (fm_uncertainty m), mp_ready_directional_agents = fm_ready m,
        mp_contributing_evidence_ids = map co_evidence_id (directional cs), mp_contributions = cs,
        mp_reason_codes = snd (fusion_decision p m)\<rparr>"

lemma fuse_evidence_alt:
  "fuse_evidence h b p = res_bind (contributions_of p (eb_evidence b)) (\<lambda>cs.
     res_bind (fusion_metrics_of cs) (\<lambda>m. mk_master_proposal h (proposal_of b p cs m)))"
  by (simp add: fuse_evidence_def proposal_of_def Let_def split_beta)

text \<open>Every rule of the proposal but the contributor audit holds by construction.\<close>

definition audit_ok :: "specialist_contribution list \<Rightarrow> bool" where
  "audit_ok cs \<longleftrightarrow> map co_evidence_id (directional cs) = map co_evidence_id
     (filter (\<lambda>c. co_disposition c \<in> {CONTRIBUTED, DEGRADED_CONTRIBUTION}) cs)"

lemma proposal_checks:
  assumes "bundle_ok b" "policy_ok p" "fusion_metrics_of cs = Inr m" "list_all contribution_ok cs"
    and "map co_agent_name cs = agent_order"
  shows "list_all fst (proposal_fields (proposal_of b p cs m) @ proposal_rules (proposal_of b p cs m))
    \<longleftrightarrow> audit_ok cs"
proof -
  have m: "list_all is_f64 [fm_bullish m, fm_bearish m, fm_net m, fm_contradiction m, fm_uncertainty m,
      fm_confidence m]" "is_f64 (fm_disagreement m)" "0 \<le> fm_ready m"
    using metrics_total[OF assms(4)] assms(3) by (auto simp: unit_float_def)
  have "list_all fst (proposal_fields (proposal_of b p cs m))"
    using m assms(1,2) bounded_net
    by (auto simp: proposal_fields_def proposal_of_def bounded_unit bundle_ok_def bundle_rules_def Let_def
        policy_ok_def policy_rules_def fusion_decision_def)
  moreover have "list_all fst (proposal_rules (proposal_of b p cs m)) \<longleftrightarrow> audit_ok cs"
    using assms(5) hold_reasons_distinct hold_reasons_holding
    by (auto simp: proposal_rules_def proposal_of_def audit_ok_def fusion_decision_def list_ex_iff
        split: signal.splits if_splits)
  ultimately show ?thesis by simp
qed

lemma applied_positive:
  assumes "contributes p e c" "unit_float (fp_degraded_multiplier p)"
  shows "flt (Fin 0) (co_applied_weight c) \<longleftrightarrow>
     co_disposition c = CONTRIBUTED \<or>
     co_disposition c = DEGRADED_CONTRIBUTION \<and> flt (Fin 0) (co_applied_weight c)"
proof -
  obtain w where w: "weight_ok w" "co_applied_weight c = fmul (sw_weight w) (snd (disposition_of e (fp_degraded_multiplier p)))"
    and d: "co_disposition c = fst (disposition_of e (fp_degraded_multiplier p))"
    using assms(1) by (auto simp: contributes_def)
  obtain x where x: "sw_weight w = Fin x" "0 < x" "is_f64 (Fin x)"
    using w(1) by (cases "sw_weight w") (auto simp: weight_ok_def)
  have "rnd x = Fin x" using x(3) by (simp add: rnd_of_is_f64)
  then show ?thesis
    using x w(2) d by (auto simp: disposition_of_def split: if_splits)
qed

lemma map_filter_eq_iff:
  assumes "\<And>x. x \<in> set xs \<Longrightarrow> P x \<Longrightarrow> Q x"
  shows "map f (filter P xs) = map f (filter Q xs) \<longleftrightarrow> (\<forall>x \<in> set xs. Q x \<longrightarrow> P x)"
proof
  assume "map f (filter P xs) = map f (filter Q xs)"
  then have l: "length (filter P xs) = length (filter Q xs)" by (metis length_map)
  have "filter P xs = filter P (filter Q xs)" using assms by (auto intro: filter_cong)
  then have "\<forall>x \<in> set (filter Q xs). P x" using l by (metis filter_id_conv length_filter_less less_irrefl)
  then show "\<forall>x \<in> set xs. Q x \<longrightarrow> P x" by simp
next
  assume "\<forall>x \<in> set xs. Q x \<longrightarrow> P x"
  then have "filter P xs = filter Q xs" using assms by (auto intro: filter_cong)
  then show "map f (filter P xs) = map f (filter Q xs)" by simp
qed

lemma audit_ok_iff:
  assumes "list_all2 (contributes p) es cs" "unit_float (fp_degraded_multiplier p)"
  shows "audit_ok cs \<longleftrightarrow> (\<forall>c \<in> set cs. co_disposition c = DEGRADED_CONTRIBUTION \<longrightarrow> flt (Fin 0) (co_applied_weight c))"
proof -
  have pos: "flt (Fin 0) (co_applied_weight c) \<longleftrightarrow> co_disposition c = CONTRIBUTED \<or>
     co_disposition c = DEGRADED_CONTRIBUTION \<and> flt (Fin 0) (co_applied_weight c)" if "c \<in> set cs" for c
    using assms that applied_positive by (metis list_all2_conv_all_nth in_set_conv_nth)
  have "audit_ok cs \<longleftrightarrow> (\<forall>c \<in> set cs. co_disposition c \<in> {CONTRIBUTED, DEGRADED_CONTRIBUTION}
      \<longrightarrow> flt (Fin 0) (co_applied_weight c))"
    unfolding audit_ok_def directional_def using pos by (intro map_filter_eq_iff) auto
  then show ?thesis using pos by auto
qed

lemma fuse_contributions:
  assumes "bundle_ok b" "policy_ok p"
  shows "\<exists>cs m. contributions_of p (eb_evidence b) = Inr cs \<and> list_all2 (contributes p) (eb_evidence b) cs \<and>
     fusion_metrics_of cs = Inr m \<and> (is_ok (fuse_evidence h b p) \<longleftrightarrow> audit_ok cs) \<and>
     (\<forall>q. fuse_evidence h b p = Inr q \<longrightarrow> (\<exists>i. q = proposal_of b p cs m\<lparr>mp_id := i\<rparr>) \<and> audit_ok cs)"
proof -
  have names: "map ae_agent_name (eb_evidence b) = agent_order"
    using assms(1) by (auto simp: bundle_ok_def bundle_rules_def Let_def)
  obtain cs where cs: "contributions_of p (eb_evidence b) = Inr cs" "list_all2 (contributes p) (eb_evidence b) cs"
    using contributions_total[OF assms(2), of "eb_evidence b"] assms(1) names by (auto simp: bundle_ok_def)
  have ok: "list_all contribution_ok cs"
    using cs(2) by (auto simp: contributes_def list_all_iff list_all2_conv_all_nth in_set_conv_nth)
  have nm: "map co_agent_name cs = agent_order"
    using cs(2) unfolding names[symmetric]
    by (auto simp: contributes_def list_all2_conv_all_nth intro: nth_equalityI)
  obtain m where m: "fusion_metrics_of cs = Inr m" using metrics_total[OF ok] by blast
  note c = proposal_checks[OF assms m ok nm]
  have "mp_id (proposal_of b p cs m) = []" by (simp add: proposal_of_def)
  then show ?thesis
    using cs m c by (auto simp: fuse_evidence_alt mk_master_proposal_def res_simps is_ok_iff
        proposal_identity.bind_ok_iff)
qed

lemma contributes_all: "list_all2 (contributes p) es cs \<Longrightarrow> c \<in> set cs \<Longrightarrow> \<exists>e \<in> set es. contributes p e c"
  by (metis list_all2_conv_all_nth in_set_conv_nth)

lemma contributes_all': "list_all2 (contributes p) es cs \<Longrightarrow> e \<in> set es \<Longrightarrow> \<exists>c \<in> set cs. contributes p e c"
  by (metis list_all2_conv_all_nth in_set_conv_nth)

text \<open>Evidence that may move the scores.\<close>

definition influential :: "agent_evidence \<Rightarrow> bool" where
  "influential e \<longleftrightarrow> ae_status e \<in> {AS_READY, AS_DEGRADED} \<and>
     ae_hypothesis_status e \<notin> {HS_INVALIDATED, HS_EXPIRED} \<and> \<not> hi_invalidated (ae_invalidation e) \<and>
     ae_direction e \<in> {Some BULLISH, Some BEARISH} \<and> \<not> feq (ae_confidence e) (Fin 0)"

lemma influential_iff:
  "influential e \<longleftrightarrow> fst (disposition_of e k) \<in> {CONTRIBUTED, DEGRADED_CONTRIBUTION}"
  by (cases "ae_status e"; cases "ae_direction e" rule: option.exhaust[case_product directional_bias.exhaust])
    (auto simp: influential_def disposition_of_def split: if_splits, (metis directional_bias.exhaust)+)

lemma filter_list_all2:
  "list_all2 R xs ys \<Longrightarrow> (\<And>x y. R x y \<Longrightarrow> P x = Q y \<and> f x = g y) \<Longrightarrow> map f (filter P xs) = map g (filter Q ys)"
  by (induction rule: list_all2_induct) auto

subsection \<open>Mirrored evidence\<close>

text \<open>Exchanging bullish and bearish in every piece of evidence.\<close>

fun flip_bias :: "directional_bias option \<Rightarrow> directional_bias option" where
  "flip_bias (Some BULLISH) = Some BEARISH"
| "flip_bias (Some BEARISH) = Some BULLISH"
| "flip_bias d = d"

definition mirror_evidence :: "agent_evidence \<Rightarrow> agent_evidence" where
  "mirror_evidence e = e\<lparr>ae_direction := flip_bias (ae_direction e)\<rparr>"

definition mirror_contribution :: "specialist_contribution \<Rightarrow> specialist_contribution" where
  "mirror_contribution c =
     c\<lparr>co_direction := flip_bias (co_direction c), co_signed_score := fneg (co_signed_score c)\<rparr>"

definition mirror_bundle :: "evidence_bundle \<Rightarrow> evidence_bundle" where
  "mirror_bundle b = b\<lparr>eb_evidence := map mirror_evidence (eb_evidence b)\<rparr>"

primrec flip_signal :: "signal \<Rightarrow> signal" where
  "flip_signal SIG_BUY = SIG_SELL"
| "flip_signal SIG_SELL = SIG_BUY"
| "flip_signal SIG_HOLD = SIG_HOLD"

definition mirror_metrics :: "fusion_metrics \<Rightarrow> fusion_metrics" where
  "mirror_metrics m = m\<lparr>fm_bullish := fm_bearish m, fm_bearish := fm_bullish m, fm_net := fneg (fm_net m)\<rparr>"

lemma flip_bias_simps [simp]:
  "flip_bias d = None \<longleftrightarrow> d = None" "flip_bias d = Some NEUTRAL \<longleftrightarrow> d = Some NEUTRAL"
  "direction_sign (flip_bias d) = fneg (direction_sign d)"
  by (cases d rule: flip_bias.cases; simp add: direction_sign_def)+

lemma mirror_disposition [simp]: "disposition_of (mirror_evidence e) k = disposition_of e k"
  by (simp add: disposition_of_def mirror_evidence_def)

lemma mirror_mk: "mk_contribution (mirror_contribution c) =
    res_bind (mk_contribution c) (\<lambda>c. Inr (mirror_contribution c))"
proof -
  have "fle (Fin (- 10)) (fneg v) \<and> fle (fneg v) (Fin 10) \<longleftrightarrow> fle (Fin (- 10)) v \<and> fle v (Fin 10)" for v
    by (cases v) auto
  then show ?thesis
    by (simp add: mk_contribution_def mirror_contribution_def validate.simps)
qed

lemma mirror_contribution_of:
  "contribution (mirror_evidence e) w k = res_bind (contribution e w k) (\<lambda>c. Inr (mirror_contribution c))"
proof -
  have ic: "internal_contradiction (mirror_evidence e) = internal_contradiction e"
    by (simp add: internal_contradiction_def mirror_evidence_def)
  show ?thesis
    unfolding contribution_def ic mirror_disposition split_beta Let_def res_bind_assoc mirror_mk[symmetric]
    by (simp add: mirror_evidence_def mirror_contribution_def fmul_fneg_left)
qed

lemma mirror_contributions:
  "contributions_of p (map mirror_evidence es) =
     res_bind (contributions_of p es) (\<lambda>cs. Inr (map mirror_contribution cs))"
proof (induction es)
  case (Cons e es)
  have n: "ae_agent_name (mirror_evidence e) = ae_agent_name e" by (simp add: mirror_evidence_def)
  show ?case
    using Cons by (simp add: contributions_of_def n mirror_contribution_of res_bind_assoc)
qed (simp add: contributions_of_def)

lemma ratio_number:
  assumes "\<exists>x. a = Fin x" "\<exists>y. b = Fin y" "ratio_or a b (Fin d) = Inr r"
  shows "r \<noteq> NaN"
  using assms by (auto simp: ratio_or_def ftrue_def split: if_splits)

lemma pymax_commute: "a \<noteq> NaN \<Longrightarrow> b \<noteq> NaN \<Longrightarrow> pymax a b = pymax b a"
  by (cases a; cases b) (auto simp: pymax_def)

lemma mirror_strengths:
  "directional (map mirror_contribution cs) = map mirror_contribution (directional cs)"
  "bullish_strength (map mirror_contribution cs) = bearish_strength cs"
  "bearish_strength (map mirror_contribution cs) = bullish_strength cs"
  by (simp_all add: directional_def bullish_strength_def bearish_strength_def filter_map comp_def
      mirror_contribution_def)

lemma mirror_metrics_of:
  assumes "list_all contribution_ok cs" "fusion_metrics_of cs = Inr m"
  shows "fusion_metrics_of (map mirror_contribution cs) = Inr (mirror_metrics m)"
proof -
  have "list_all contribution_ok (directional cs)" using assms(1) by (auto simp: list_all_iff directional_def)
  note sums = strength_sums[OF this]
  obtain x y z where bb: "bullish_strength (directional cs) = Fin x" "bearish_strength (directional cs) = Fin y"
      and tw: "fsum (map co_applied_weight (directional cs)) = Fin z"
    using sums(1-3) by (auto elim!: fin_inE)
  have mn: "pymin (Fin x) (Fin y) = pymin (Fin y) (Fin x)" by (simp add: pymin_def)
  have nn: "fm_bullish m \<noteq> NaN" "fm_bearish m \<noteq> NaN"
    using assms(2) by (auto simp: fusion_metrics_of_def Let_def res_simps bb tw dest: ratio_number[rotated 2])
  have f: "map (\<lambda>c. g (mirror_contribution c)) xs = map g xs"
    if "\<And>c. g (mirror_contribution c) = g c" for g :: "specialist_contribution \<Rightarrow> f64" and xs
    using that by simp
  have maps: "map co_applied_weight (map mirror_contribution xs) = map co_applied_weight xs"
    "map (\<lambda>c. fmul (co_strength c) (co_internal_contradiction c)) (map mirror_contribution xs)
       = map (\<lambda>c. fmul (co_strength c) (co_internal_contradiction c)) xs"
    "map (\<lambda>c. fmul (co_applied_weight c) (co_uncertainty c)) (map mirror_contribution xs)
       = map (\<lambda>c. fmul (co_applied_weight c) (co_uncertainty c)) xs" for xs
    by (simp_all add: mirror_contribution_def)
  have ready: "length (filter (\<lambda>c. co_disposition c = CONTRIBUTED) (map mirror_contribution cs))
      = length (filter (\<lambda>c. co_disposition c = CONTRIBUTED) cs)"
    by (simp add: filter_map comp_def mirror_contribution_def)
  show ?thesis
    using assms(2) nn
    unfolding fusion_metrics_of_def Let_def mirror_strengths maps ready bb mn fadd_commute[of "Fin y" "Fin x"]
    by (auto simp: res_simps mirror_metrics_def pymax_commute intro: fsub_swap)
qed

lemma mirror_hold [simp]: "hold_reasons p (mirror_metrics m) = hold_reasons p m"
  by (simp add: hold_reasons_def mirror_metrics_def)

lemma mirror_decision:
  assumes "fm_net m \<noteq> NaN"
  shows "fst (fusion_decision p (mirror_metrics m)) =
    (if fm_net m = Fin 0 then fst (fusion_decision p m) else flip_signal (fst (fusion_decision p m)))"
proof -
  have "fm_net (mirror_metrics m) = fneg (fm_net m)" by (simp add: mirror_metrics_def)
  then show ?thesis
    using assms unfolding fusion_decision_def mirror_hold by (cases "fm_net m") auto
qed

lemma mirror_valid: "bundle_ok b \<Longrightarrow> bundle_ok (mirror_bundle b)"
proof -
  have 1: "evidence_valid (mirror_evidence e)" if "evidence_valid e" for e
    using that by (cases "ae_direction e")
      (auto simp: evidence_valid_def refs_ok_def evidence_rules mirror_evidence_def)
  have 2: "ae_agent_name (mirror_evidence e) = ae_agent_name e"
      "ae_runtime_state_id (mirror_evidence e) = ae_runtime_state_id e" for e
    by (simp_all add: mirror_evidence_def)
  assume "bundle_ok b"
  then show ?thesis
    using 1 by (auto simp: bundle_ok_def bundle_rules_def Let_def mirror_bundle_def comp_def 2 list_all_iff)
qed

subsection \<open>Properties\<close>

text \<open>A concrete bundle: the chart specialist is bullish, the others give context only.\<close>

definition demo_specialist :: "agent_status \<Rightarrow> directional_bias option \<Rightarrow> f64 \<Rightarrow> string \<Rightarrow> agent_evidence" where
  "demo_specialist st d conf n = (demo_evidence (''ae-'' @ n) 10 HS_ACTIVE HR_UNCHANGED (Some ''hyp-1'') conf)
     \<lparr>ae_agent_name := n, ae_direction := d, ae_status := st, ae_uncertainty := Fin 0\<rparr>"

definition demo_bundle :: "agent_status \<Rightarrow> f64 \<Rightarrow> evidence_bundle" where
  "demo_bundle st conf = \<lparr>eb_id = ''eb-1'', eb_event_id = ''ev-1'', eb_runtime_state_id = ''state-1'', eb_as_of = 10,
     eb_agent_inputs = replicate 5 demo_input,
     eb_evidence = demo_specialist st (Some BULLISH) conf ''chart'' #
       map (demo_specialist AS_READY None (Fin 1)) [''quant'', ''historical'', ''regime'', ''news''],
     eb_memories = map (\<lambda>n. demo_memory\<lparr>am_agent_name := n\<rparr>) agent_order\<rparr>"

definition demo_policy :: "f64 \<Rightarrow> fusion_policy" where
  "demo_policy k = \<lparr>fp_id = ''mfp-1'', fp_version = ''1.0.0'',
     fp_weights = map (\<lambda>n. \<lparr>sw_agent_name = n, sw_weight = Fin 1\<rparr>) agent_order,
     fp_degraded_multiplier = k, fp_min_score = Fin (1 / 4), fp_min_confidence = Fin (1 / 2),
     fp_max_uncertainty = Fin (1 / 2), fp_max_contradiction = Fin (1 / 2),
     fp_max_disagreement = Fin (1 / 2), fp_min_ready = 1\<rparr>"

lemma demo_policy_ok: "unit_float k \<Longrightarrow> policy_ok (demo_policy k)"
  by (simp add: policy_ok_def policy_rules_def demo_policy_def agent_order_def weight_ok_def)

lemma demo_bundle_ok:
  assumes "st = AS_READY \<and> unit_float conf \<or> st = AS_DEGRADED \<and> conf = Fin (1 / 2)"
  shows "bundle_ok (demo_bundle st conf)"
proof -
  have "evidence_valid (demo_specialist AS_READY None (Fin 1) n)" if "n \<in> set agent_order" for n
    using that by (auto simp: evidence_valid_def refs_ok_def evidence_rules demo_specialist_def
        demo_evidence_def agent_order_def rnd_eval)
  moreover have "evidence_valid (demo_specialist st (Some BULLISH) conf ''chart'')"
    using assms by (auto simp: evidence_valid_def refs_ok_def evidence_rules demo_specialist_def
        demo_evidence_def rnd_eval elim!: unit_floatE)
  ultimately show ?thesis
    by (simp add: bundle_ok_def bundle_rules_def demo_bundle_def agent_order_def Let_def demo_input_def
        demo_memory_def) (simp add: demo_specialist_def demo_evidence_def numeral_eq_Suc)
qed

definition demo_contribution :: "string \<Rightarrow> specialist_contribution" where
  "demo_contribution n = \<lparr>co_agent_name = n, co_evidence_id = ''ae-'' @ n, co_status = AS_READY,
     co_direction = (if n = ''chart'' then Some BULLISH else None),
     co_disposition = (if n = ''chart'' then CONTRIBUTED else CONTEXT_ONLY), co_configured_weight = Fin 1,
     co_applied_weight = (if n = ''chart'' then Fin 1 else Fin 0),
     co_strength = (if n = ''chart'' then Fin 1 else Fin 0),
     co_signed_score = (if n = ''chart'' then Fin 1 else Fin 0),
     co_uncertainty = Fin 0, co_internal_contradiction = Fin 0\<rparr>"

lemma demo_contributions:
  "contributions_of (demo_policy (Fin (1 / 2))) (eb_evidence (demo_bundle AS_READY (Fin 1)))
     = Inr (map demo_contribution agent_order)"
  by (simp add: contributions_of_def demo_bundle_def demo_policy_def weight_of_def agent_order_def
      demo_specialist_def demo_evidence_def contribution_def disposition_of_def feq_def
      internal_contradiction_def ratio_or_def ftrue_def fsub_def direction_sign_def mk_contribution_def
      validate.simps demo_contribution_def Let_def)

definition demo_metrics :: fusion_metrics where
  "demo_metrics = \<lparr>fm_bullish = Fin 1, fm_bearish = Fin 0, fm_net = Fin 1, fm_disagreement = Fin 0,
     fm_contradiction = Fin 0, fm_uncertainty = Fin 0, fm_confidence = Fin 1, fm_ready = 1\<rparr>"

lemma demo_metrics_of: "fusion_metrics_of (map demo_contribution agent_order) = Inr demo_metrics"
  by (simp add: fusion_metrics_of_def demo_contribution_def agent_order_def directional_def
      bullish_strength_def bearish_strength_def pymax_def pymin_def ratio_or_def ftrue_def
      fsub_def demo_metrics_def Let_def)

definition demo_proposal :: master_proposal where
  "demo_proposal = (proposal_of (demo_bundle AS_READY (Fin 1)) (demo_policy (Fin (1 / 2)))
     (map demo_contribution agent_order) demo_metrics)\<lparr>mp_id := ''mp-00000000000000000000''\<rparr>"

lemma demo_fuse:
  "fuse_evidence zero_hash (demo_bundle AS_READY (Fin 1)) (demo_policy (Fin (1 / 2))) = Inr demo_proposal"
proof -
  let ?b = "demo_bundle AS_READY (Fin 1)" and ?p = "demo_policy (Fin (1 / 2))"
    and ?cs = "map demo_contribution agent_order"
  have ok: "list_all contribution_ok ?cs"
    by (simp add: contribution_ok_def demo_contribution_def agent_order_def)
  have nm: "map co_agent_name ?cs = agent_order" by (simp add: demo_contribution_def agent_order_def)
  have "audit_ok ?cs" by (simp add: audit_ok_def directional_def demo_contribution_def agent_order_def)
  then have "list_all fst (proposal_fields (proposal_of ?b ?p ?cs demo_metrics)
      @ proposal_rules (proposal_of ?b ?p ?cs demo_metrics))"
    using proposal_checks[OF demo_bundle_ok demo_policy_ok demo_metrics_of ok nm] by simp
  then show ?thesis
    by (simp add: fuse_evidence_alt demo_contributions demo_metrics_of mk_master_proposal_def
        validate_ok bind_identity_def content_id_def demo_proposal_def zero_hash_def)
      (simp add: proposal_of_def)
qed

text \<open>C29. Fusing a validated bundle under a validated policy fails in exactly one situation: some degraded
  directional evidence whose weight times the degraded multiplier is zero. Then the contributor audit
  of the proposal contract rejects the fusion's own output. In every other case a proposal results:
  no lookup, division, clamp or contract can fail.\<close>

theorem fusion_accepts_iff:
  assumes "bundle_ok b" "policy_ok p"
  shows "is_ok (fuse_evidence h b p) \<longleftrightarrow>
    (\<forall>e \<in> set (eb_evidence b). \<forall>w. weight_of p (ae_agent_name e) = Inr w \<longrightarrow>
       fst (disposition_of e (fp_degraded_multiplier p)) = DEGRADED_CONTRIBUTION \<longrightarrow>
       flt (Fin 0) (fmul w (fp_degraded_multiplier p)))"
proof -
  obtain cs m where cs: "list_all2 (contributes p) (eb_evidence b) cs"
      "is_ok (fuse_evidence h b p) \<longleftrightarrow> audit_ok cs"
    using fuse_contributions[OF assms, of h] by blast
  have u: "unit_float (fp_degraded_multiplier p)"
    using assms(2) by (simp add: policy_ok_def policy_rules_def)
  have d: "snd (disposition_of e k) = k" if "fst (disposition_of e k) = DEGRADED_CONTRIBUTION" for e k
    using that by (auto simp: disposition_of_def split: if_splits)
  show ?thesis
    unfolding cs(2) audit_ok_iff[OF cs(1) u]
  proof (intro iffI ballI allI impI)
    fix e w assume a: "\<forall>c \<in> set cs. co_disposition c = DEGRADED_CONTRIBUTION \<longrightarrow> flt (Fin 0) (co_applied_weight c)"
      and e: "e \<in> set (eb_evidence b)" "weight_of p (ae_agent_name e) = Inr w"
        "fst (disposition_of e (fp_degraded_multiplier p)) = DEGRADED_CONTRIBUTION"
    obtain c where "c \<in> set cs" "contributes p e c" using contributes_all'[OF cs(1) e(1)] by blast
    then show "flt (Fin 0) (fmul w (fp_degraded_multiplier p))"
      using a e(2,3) d by (fastforce simp: contributes_def)
  next
    fix c assume a: "\<forall>e \<in> set (eb_evidence b). \<forall>w. weight_of p (ae_agent_name e) = Inr w \<longrightarrow>
       fst (disposition_of e (fp_degraded_multiplier p)) = DEGRADED_CONTRIBUTION \<longrightarrow>
       flt (Fin 0) (fmul w (fp_degraded_multiplier p))"
      and c: "c \<in> set cs" "co_disposition c = DEGRADED_CONTRIBUTION"
    obtain e where "e \<in> set (eb_evidence b)" "contributes p e c" using contributes_all[OF cs(1) c(1)] by blast
    then show "flt (Fin 0) (co_applied_weight c)"
      using a c(2) d by (fastforce simp: contributes_def)
  qed
qed

theorem fusion_accepts_iff_witness:
  "\<not> is_ok (fuse_evidence zero_hash (demo_bundle AS_DEGRADED (Fin (1 / 2))) (demo_policy (Fin 0)))"
proof (subst fusion_accepts_iff)
  show "bundle_ok (demo_bundle AS_DEGRADED (Fin (1 / 2)))" "policy_ok (demo_policy (Fin 0))"
    by (simp_all add: demo_bundle_ok demo_policy_ok)
qed (simp add: demo_bundle_def demo_specialist_def demo_evidence_def demo_policy_def weight_of_def
    agent_order_def disposition_of_def feq_def)

text \<open>C7. A proposal is actionable exactly when no threshold of the policy objects: enough ready directional
  specialists, absolute net score and confidence not below their minima, uncertainty, contradiction
  and disagreement not above their maxima. It is a BUY exactly when, moreover, the net score is
  positive. All its published scores lie in the unit interval and its net score in [-1, 1].\<close>

theorem fusion_decision_exact:
  assumes "bundle_ok b" "policy_ok p" "contributions_of p (eb_evidence b) = Inr cs"
    and "fusion_metrics_of cs = Inr m" "fuse_evidence h b p = Inr q"
  shows "(mp_actionable q \<longleftrightarrow> fp_min_ready p \<le> fm_ready m \<and> \<not> flt (fabs (fm_net m)) (fp_min_score p) \<and>
      \<not> flt (fm_confidence m) (fp_min_confidence p) \<and> \<not> flt (fp_max_uncertainty p) (fm_uncertainty m) \<and>
      \<not> flt (fp_max_contradiction p) (fm_contradiction m) \<and> \<not> flt (fp_max_disagreement p) (fm_disagreement m)) \<and>
    (mp_decision q = SIG_BUY \<longleftrightarrow> mp_actionable q \<and> flt (Fin 0) (fm_net m)) \<and>
    (mp_decision q = SIG_SELL \<longleftrightarrow> mp_actionable q \<and> \<not> flt (Fin 0) (fm_net m)) \<and>
    list_all unit_float [mp_confidence q, mp_bullish_score q, mp_bearish_score q, mp_contradiction q,
      mp_disagreement q, mp_uncertainty q] \<and>
    fle (Fin (- 1)) (mp_net_score q) \<and> fle (mp_net_score q) (Fin 1)"
proof -
  have q: "mk_master_proposal h (proposal_of b p cs m) = Inr q"
    using assms(3-5) by (simp add: fuse_evidence_alt)
  then obtain i where i: "q = proposal_of b p cs m\<lparr>mp_id := i\<rparr>"
    and f: "list_all fst (proposal_fields (proposal_of b p cs m))"
    by (auto simp: mk_master_proposal_def res_simps proposal_identity.bind_ok_iff)
  show ?thesis
    using f by (auto simp: i proposal_of_def fusion_decision_def hold_reasons_def proposal_fields_def)
qed

theorem fusion_decision_exact_witness: "mp_decision demo_proposal = SIG_BUY"
  using fusion_decision_exact[OF demo_bundle_ok demo_policy_ok demo_contributions demo_metrics_of demo_fuse]
  by (simp add: demo_metrics_def demo_policy_def)

text \<open>Only ready or degraded evidence with a direction, a live hypothesis and a nonzero confidence
  influences a proposal: the contributors it lists are exactly the identifiers of those pieces of
  evidence, in canonical order, and the ready count is the number of them that is not degraded.\<close>

theorem fusion_contributors_exact:
  assumes "bundle_ok b" "policy_ok p" "fuse_evidence h b p = Inr q"
  shows "mp_contributing_evidence_ids q = map ae_id (filter influential (eb_evidence b)) \<and>
    mp_ready_directional_agents q =
      int (length (filter (\<lambda>e. influential e \<and> ae_status e = AS_READY) (eb_evidence b)))"
proof -
  obtain cs m where c: "list_all2 (contributes p) (eb_evidence b) cs" "fusion_metrics_of cs = Inr m"
      "\<exists>i. q = proposal_of b p cs m\<lparr>mp_id := i\<rparr>" "audit_ok cs"
    using fuse_contributions[OF assms(1,2), of h] assms(3) by blast
  have ok: "list_all contribution_ok cs"
    using c(1) by (auto simp: contributes_def list_all_iff list_all2_conv_all_nth in_set_conv_nth)
  have 1: "map ae_id (filter influential (eb_evidence b)) = map co_evidence_id
      (filter (\<lambda>c. co_disposition c \<in> {CONTRIBUTED, DEGRADED_CONTRIBUTION}) cs)"
    using c(1) by (rule filter_list_all2)
      (auto simp: contributes_def influential_iff[where k = "fp_degraded_multiplier p"])
  have "influential e \<and> ae_status e = AS_READY \<longleftrightarrow> co_disposition d = CONTRIBUTED" if "contributes p e d" for e d
    using that by (cases "ae_status e")
      (auto simp: contributes_def influential_iff[of e "fp_degraded_multiplier p"] disposition_of_def split: if_splits)
  then have "map (\<lambda>_. ()) (filter (\<lambda>e. influential e \<and> ae_status e = AS_READY) (eb_evidence b)) =
      map (\<lambda>_. ()) (filter (\<lambda>c. co_disposition c = CONTRIBUTED) cs)"
    by (intro filter_list_all2[OF c(1)]) auto
  from arg_cong[OF this, of length]
  have 2: "length (filter (\<lambda>e. influential e \<and> ae_status e = AS_READY) (eb_evidence b)) =
      length (filter (\<lambda>c. co_disposition c = CONTRIBUTED) cs)"
    by simp
  have "fm_ready m = int (length (filter (\<lambda>c. co_disposition c = CONTRIBUTED) cs))"
    using metrics_total[OF ok] c(2) by auto
  then show ?thesis
    using c(3,4) 1 2 by (auto simp: proposal_of_def audit_ok_def)
qed

theorem fusion_contributors_exact_witness: "mp_contributing_evidence_ids demo_proposal = [''ae-chart'']"
  using fusion_contributors_exact[OF demo_bundle_ok demo_policy_ok demo_fuse]
  by (simp add: demo_bundle_def demo_specialist_def demo_evidence_def influential_def feq_def)

text \<open>C26. Fusion has no directional bias of its own: exchanging bullish and bearish in all the evidence leaves
  confidence, contradiction, disagreement and uncertainty as they were, exchanges the two scores and
  turns BUY into SELL and SELL into BUY. The one exception is a net score of exactly zero, which both
  orientations resolve the same way.\<close>

theorem fusion_mirror_symmetry:
  assumes "bundle_ok b" "policy_ok p" "contributions_of p (eb_evidence b) = Inr cs"
    and "fusion_metrics_of cs = Inr m" "fm_net m \<noteq> NaN" "fuse_evidence h b p = Inr q"
  shows "\<exists>q'. fuse_evidence h (mirror_bundle b) p = Inr q' \<and>
    mp_decision q' = (if fm_net m = Fin 0 then mp_decision q else flip_signal (mp_decision q)) \<and>
    mp_bullish_score q' = mp_bearish_score q \<and> mp_bearish_score q' = mp_bullish_score q \<and>
    mp_confidence q' = mp_confidence q \<and> mp_contradiction q' = mp_contradiction q \<and>
    mp_disagreement q' = mp_disagreement q \<and> mp_uncertainty q' = mp_uncertainty q \<and>
    (mp_decision q = SIG_HOLD \<longrightarrow> mp_reason_codes q' = mp_reason_codes q)"
proof -
  have fc: "list_all2 (contributes p) (eb_evidence b) cs" "audit_ok cs"
      "\<exists>i. q = proposal_of b p cs m\<lparr>mp_id := i\<rparr>"
    using fuse_contributions[OF assms(1,2), of h] assms(3,4,6) by auto
  have ok: "list_all contribution_ok cs"
    using fc(1) by (auto simp: contributes_def list_all_iff list_all2_conv_all_nth in_set_conv_nth)
  have c': "contributions_of p (eb_evidence (mirror_bundle b)) = Inr (map mirror_contribution cs)"
    by (simp add: mirror_bundle_def mirror_contributions assms(3))
  have m': "fusion_metrics_of (map mirror_contribution cs) = Inr (mirror_metrics m)"
    using mirror_metrics_of[OF ok assms(4)] .
  have "audit_ok (map mirror_contribution cs)"
    using fc(2) by (simp add: audit_ok_def directional_def filter_map comp_def mirror_contribution_def)
  then obtain q' where q': "fuse_evidence h (mirror_bundle b) p = Inr q'"
      "\<exists>i. q' = proposal_of (mirror_bundle b) p (map mirror_contribution cs) (mirror_metrics m)\<lparr>mp_id := i\<rparr>"
    using fuse_contributions[OF mirror_valid[OF assms(1)] assms(2), of h] c' m' by (auto simp: is_ok_iff)
  have d: "mp_decision q' = (if fm_net m = Fin 0 then mp_decision q else flip_signal (mp_decision q))"
    using q'(2) fc(3) mirror_decision[OF assms(5)] by (auto simp: proposal_of_def)
  have "mp_reason_codes q' = mp_reason_codes q" if "mp_decision q = SIG_HOLD"
    using that q'(2) fc(3) by (auto simp: proposal_of_def fusion_decision_def split: if_splits)
  then show ?thesis
    using q' d fc(3) by (auto simp: proposal_of_def mirror_metrics_def)
qed

theorem fusion_mirror_symmetry_witness:
  "\<exists>q'. fuse_evidence zero_hash (mirror_bundle (demo_bundle AS_READY (Fin 1))) (demo_policy (Fin (1 / 2))) = Inr q' \<and>
    mp_decision q' = SIG_SELL"
proof -
  have "mp_decision demo_proposal = SIG_BUY"
    by (simp add: demo_proposal_def proposal_of_def fusion_decision_def hold_reasons_def demo_metrics_def demo_policy_def)
  then show ?thesis
    using fusion_mirror_symmetry[OF demo_bundle_ok demo_policy_ok demo_contributions demo_metrics_of _ demo_fuse]
    by (auto simp: demo_metrics_def)
qed

end
