(* ===== verification/Kernel.thy ===== *)
theory Kernel
  imports ToolCatalog Fusion
begin

section \<open>The evidence kernel (\<open>runtime/kernel.py\<close>)\<close>

text \<open>
  \<open>EvidenceKernel\<close>: reduce an event, resolve the bounded facts of each specialist, let the five
  specialists observe in canonical order, and commit state, memories and bundle together. The
  specialists are parameters: \<open>SpecialistAgent\<close> is a protocol whose \<open>observe\<close> is a function of its
  input. The wall-clock timings (\<open>KernelPerformance\<close>) carry no meaning for the decisions and are left out.
\<close>

subsection \<open>Construction\<close>

record specialist =
  sp_name :: string
  sp_observe :: "agent_input \<Rightarrow> (agent_evidence \<times> agent_memory) res"

text \<open>The digests of the contracts the kernel builds, and the text of a tool's exception.\<close>

record kernel_digests =
  kd_state :: "shared_state \<Rightarrow> string"
  kd_result :: "tool_result \<Rightarrow> string"
  kd_input :: "agent_input \<Rightarrow> string"
  kd_bundle :: "evidence_bundle \<Rightarrow> string"
  kd_failed :: "py_error \<Rightarrow> string"

record kernel_setup =
  ks_catalog :: tool_catalog
  ks_access :: "(string \<times> string list) list"
  ks_agents :: "specialist list"

definition mk_kernel_setup ::
  "tool_catalog \<Rightarrow> (string \<times> string list) list \<Rightarrow> specialist list \<Rightarrow> kernel_setup res" where
  "mk_kernel_setup c access agents = res_bind (validate
     [rule_ok ''kernel requires exactly one of each specialist agent''
        (set (map sp_name agents) = set agent_order \<and> distinct (map sp_name agents)),
      rule_ok ''tool access must be explicit for every specialist'' (set (map fst access) = set agent_order),
      rule_ok ''tool access references unknown tools''
        (list_all (\<lambda>(a, names). set names \<subseteq> set (catalog_names c)) access)] ())
     (\<lambda>_. Inr \<lparr>ks_catalog = c, ks_access = map (\<lambda>a. (a, the (map_of access a))) agent_order,
        ks_agents = map (\<lambda>a. the (find (\<lambda>s. sp_name s = a) agents)) agent_order\<rparr>)"

record kernel =
  kn_state :: shared_state
  kn_memories :: "(string \<times> agent_memory) list"
  kn_last :: "(string \<times> string option \<times> evidence_bundle) option"

definition fresh_kernel :: "shared_state \<Rightarrow> kernel" where
  "fresh_kernel s = \<lparr>kn_state = s, kn_memories = [], kn_last = None\<rparr>"

definition kernel_restore :: "shared_state \<Rightarrow> agent_memory list \<Rightarrow> (kernel, unit) eff" where
  "kernel_restore s ms k =
     (if kn_last k \<noteq> None
      then (Inl (RuntimeError ''kernel restoration is only valid before event processing''), k)
      else if ms \<noteq> [] \<and> \<not> (set (map am_agent_name ms) = set agent_order \<and> distinct (map am_agent_name ms))
      then (Inl (ValueError ''restored memories require exactly the canonical specialists''), k)
      else (Inr (), k\<lparr>kn_state := s, kn_memories := dict_by am_agent_name ms\<rparr>))"

subsection \<open>Processing an event\<close>

definition input_of ::
  "shared_state \<Rightarrow> feature_snapshot option \<Rightarrow> tool_result list \<Rightarrow> agent_memory option \<Rightarrow> agent_input" where
  "input_of s f rs m = \<lparr>ai_id = [], ai_runtime_state_id = st_id s, ai_feature_snapshot_id = map_option fs_id f,
     ai_as_of = st_as_of s, ai_tool_results = rs, ai_previous_memory = m, ai_setup_id = None,
     ai_thesis_id = None, ai_reasoning_budget = None\<rparr>"

definition observe_agent ::
  "kernel_digests \<Rightarrow> kernel_setup \<Rightarrow> shared_state \<Rightarrow> feature_snapshot option \<Rightarrow> (string \<times> agent_memory) list
     \<Rightarrow> specialist \<Rightarrow> (agent_input \<times> agent_evidence \<times> agent_memory) res" where
  "observe_agent D K s f memories a =
     res_bind (evaluate_catalog (kd_result D) (kd_failed D) (ks_catalog K)
       (the (map_of (ks_access K) (sp_name a))) \<lparr>ti_state = s, ti_snapshot = f\<rparr>) (\<lambda>rs.
     res_bind (mk_agent_input (kd_input D) (input_of s f rs (map_of memories (sp_name a)))) (\<lambda>i.
     res_bind (sp_observe a i) (\<lambda>(e, m). Inr (i, e, m))))"

definition kernel_bundle ::
  "kernel_digests \<Rightarrow> kernel_setup \<Rightarrow> (string \<times> agent_memory) list \<Rightarrow> runtime_event \<Rightarrow> feature_snapshot option
     \<Rightarrow> shared_state \<Rightarrow> evidence_bundle res" where
  "kernel_bundle D K memories e f s =
     res_bind (mk_tool_input \<lparr>ti_state = s, ti_snapshot = f\<rparr>) (\<lambda>_.
     res_bind (res_map (observe_agent D K s f memories) (ks_agents K)) (\<lambda>obs.
     mk_bundle (kd_bundle D) \<lparr>eb_id = [], eb_event_id = ev_id e, eb_runtime_state_id = st_id s,
       eb_as_of = st_as_of s, eb_agent_inputs = map fst obs, eb_evidence = map (fst \<circ> snd) obs,
       eb_memories = map (snd \<circ> snd) obs\<rparr>))"

definition reduce_now :: "kernel_digests \<Rightarrow> runtime_event \<Rightarrow> shared_state \<Rightarrow> shared_state res" where
  "reduce_now D e s = reduce_state (kd_state D) s e (utc (ev_available_at e))"

definition kernel_commit ::
  "kernel_digests \<Rightarrow> kernel_setup \<Rightarrow> runtime_event \<Rightarrow> feature_snapshot option \<Rightarrow> (kernel, evidence_bundle) eff" where
  "kernel_commit D K e f k =
     (case res_bind (reduce_now D e (kn_state k)) (\<lambda>s.
         res_bind (kernel_bundle D K (kn_memories k) e f s) (\<lambda>b. Inr (s, b))) of
        Inl err \<Rightarrow> (Inl err, k)
      | Inr (s, b) \<Rightarrow> (Inr b, \<lparr>kn_state = s, kn_memories = dict_by am_agent_name (eb_memories b),
          kn_last = Some (ev_id e, map_option fs_id f, b)\<rparr>))"

text \<open>An exact immediate redelivery returns the cached bundle; with another snapshot it is refused.\<close>

definition kernel_process ::
  "kernel_digests \<Rightarrow> kernel_setup \<Rightarrow> runtime_event \<Rightarrow> feature_snapshot option \<Rightarrow> (kernel, evidence_bundle) eff" where
  "kernel_process D K e f k = (case kn_last k of
     Some (i, sid, b) \<Rightarrow>
       if i = ev_id e then
         (if sid \<noteq> map_option fs_id f
          then (Inl (ValueError ''duplicate event has a different feature snapshot''), k) else (Inr b, k))
       else kernel_commit D K e f k
   | None \<Rightarrow> kernel_commit D K e f k)"

definition kernel_reduce_event :: "kernel_digests \<Rightarrow> runtime_event \<Rightarrow> (kernel, shared_state) eff" where
  "kernel_reduce_event D e k =
     (if ev_type e \<in> {M5_CLOSED, M1_CLOSED, TICK}
      then (Inl (ValueError ''decision-capable market events require kernel processing''), k)
      else case reduce_now D e (kn_state k) of
        Inl err \<Rightarrow> (Inl err, k) | Inr s \<Rightarrow> (Inr s, k\<lparr>kn_state := s\<rparr>))"

definition broker_refresh_types :: "event_type set" where
  "broker_refresh_types = {TICK, ACCOUNT_UPDATED, POSITIONS_UPDATED, ORDERS_UPDATED, EXPOSURE_UPDATED,
     BROKER_CONSTRAINTS_UPDATED}"

definition kernel_reduce_broker_refresh :: "kernel_digests \<Rightarrow> runtime_event \<Rightarrow> (kernel, shared_state) eff" where
  "kernel_reduce_broker_refresh D e k =
     (if ev_type e \<notin> broker_refresh_types
      then (Inl (ValueError ''broker refresh reduction rejects non-snapshot event types''), k)
      else case reduce_now D e (kn_state k) of
        Inl err \<Rightarrow> (Inl err, k) | Inr s \<Rightarrow> (Inr s, k\<lparr>kn_state := s\<rparr>))"

subsection \<open>Properties\<close>

text \<open>The operations a caller has, and the events that one of them committed.\<close>

datatype kernel_op =
    KProcess runtime_event "feature_snapshot option"
  | KReduce runtime_event
  | KRefresh runtime_event

fun op_event :: "kernel_op \<Rightarrow> runtime_event" where
  "op_event (KProcess e f) = e"
| "op_event (KReduce e) = e"
| "op_event (KRefresh e) = e"

fun kernel_call :: "kernel_digests \<Rightarrow> kernel_setup \<Rightarrow> kernel_op \<Rightarrow> kernel \<Rightarrow> bool \<times> kernel" where
  "kernel_call D K (KProcess e f) k = map_prod is_ok id (kernel_process D K e f k)"
| "kernel_call D K (KReduce e) k = map_prod is_ok id (kernel_reduce_event D e k)"
| "kernel_call D K (KRefresh e) k = map_prod is_ok id (kernel_reduce_broker_refresh D e k)"

fun cached :: "kernel_op \<Rightarrow> kernel \<Rightarrow> bool" where
  "cached (KProcess e f) k = opt_some (\<lambda>(i, _). i = ev_id e) (kn_last k)"
| "cached _ _ = False"

fun run_kernel_ops :: "kernel_digests \<Rightarrow> kernel_setup \<Rightarrow> kernel_op list \<Rightarrow> kernel \<Rightarrow> kernel" where
  "run_kernel_ops D K [] k = k"
| "run_kernel_ops D K (x # xs) k = run_kernel_ops D K xs (snd (kernel_call D K x k))"

fun committed_events :: "kernel_digests \<Rightarrow> kernel_setup \<Rightarrow> kernel_op list \<Rightarrow> kernel \<Rightarrow> runtime_event list" where
  "committed_events D K [] k = []"
| "committed_events D K (x # xs) k =
     (if fst (kernel_call D K x k) \<and> \<not> cached x k then [op_event x] else [])
       @ committed_events D K xs (snd (kernel_call D K x k))"

lemma kernel_commit_cases:
  obtains (failed) err where "kernel_commit D K e f k = (Inl err, k)"
  | (committed) s b where "reduce_now D e (kn_state k) = Inr s" "kernel_bundle D K (kn_memories k) e f s = Inr b"
      "kernel_commit D K e f k = (Inr b, \<lparr>kn_state = s, kn_memories = dict_by am_agent_name (eb_memories b),
         kn_last = Some (ev_id e, map_option fs_id f, b)\<rparr>)"
proof (cases "reduce_now D e (kn_state k)")
  case (Inl err)
  then show thesis by (intro failed[of err]) (simp add: kernel_commit_def)
next
  case (Inr s)
  then show thesis
    by (cases "kernel_bundle D K (kn_memories k) e f s")
      (auto simp: kernel_commit_def intro: failed committed)
qed

lemma kernel_process_uncached:
  "\<not> cached (KProcess e f) k \<Longrightarrow> kernel_process D K e f k = kernel_commit D K e f k"
  by (auto simp: kernel_process_def opt_some_iff split: option.splits)

text \<open>An operation that raises leaves the kernel as it was.\<close>

lemma kernel_op_failed: "\<not> fst (kernel_call D K x k) \<Longrightarrow> snd (kernel_call D K x k) = k"
proof (cases x)
  case (KProcess e f)
  assume n: "\<not> fst (kernel_call D K x k)"
  show ?thesis
  proof (cases "cached x k")
    case True
    then show ?thesis using KProcess by (auto simp: kernel_process_def opt_some_iff split: prod.splits)
  next
    case False
    then show ?thesis using n KProcess
      by (cases rule: kernel_commit_cases[of D K e f k]) (auto simp: kernel_process_uncached)
  qed
qed (auto simp: kernel_reduce_event_def kernel_reduce_broker_refresh_def split: sum.splits)

lemma kernel_op_cached: "cached x k \<Longrightarrow> snd (kernel_call D K x k) = k"
  by (cases x) (auto simp: kernel_process_def opt_some_iff split: prod.splits)

lemma kernel_op_reduces:
  assumes "fst (kernel_call D K x k)" "\<not> cached x k"
  shows "reduce_now D (op_event x) (kn_state k) = Inr (kn_state (snd (kernel_call D K x k)))"
proof (cases x)
  case (KProcess e f)
  then show ?thesis using assms
    by (cases rule: kernel_commit_cases[of D K e f k]) (auto simp: kernel_process_uncached)
qed (use assms in \<open>auto simp: kernel_reduce_event_def kernel_reduce_broker_refresh_def
      split: sum.splits if_splits\<close>)

abbreviation at_availability :: "runtime_event list \<Rightarrow> (runtime_event \<times> py_datetime) list" where
  "at_availability \<equiv> map (\<lambda>e. (e, utc (ev_available_at e)))"

lemma committed_reduction:
  "run_events (kd_state D) (at_availability (committed_events D K ops k)) (kn_state k)
     = Inr (kn_state (run_kernel_ops D K ops k))"
proof (induction ops arbitrary: k)
  case (Cons x xs)
  show ?case
  proof (cases "fst (kernel_call D K x k) \<and> \<not> cached x k")
    case True
    then show ?thesis using Cons.IH kernel_op_reduces[of D K x k] by (simp add: reduce_now_def)
  next
    case False
    then have "snd (kernel_call D K x k) = k" using kernel_op_failed kernel_op_cached by blast
    with False show ?thesis using Cons.IH by auto
  qed
qed simp

text \<open>C10. The kernel implements the reducer: after any sequence of \<open>process\<close>, \<open>reduce_event\<close> and
  \<open>reduce_broker_refresh_event\<close> calls, whatever the tools and the specialists answer or raise, the shared state is
  the reduction, in order, of exactly the events of the calls that neither raised nor hit the cache of the
  last event; a call that raised or hit the cache left the whole kernel as it was.\<close>

theorem kernel_refines_reducer:
  "run_events (kd_state D) (at_availability (committed_events D K ops (fresh_kernel s))) s
       = Inr (kn_state (run_kernel_ops D K ops (fresh_kernel s))) \<and>
   (let k = run_kernel_ops D K ops (fresh_kernel s); r = kernel_call D K x k in
      if fst r \<and> \<not> cached x k
      then reduce_now D (op_event x) (kn_state k) = Inr (kn_state (snd r)) else snd r = k)"
  using committed_reduction[of D K ops "fresh_kernel s"] kernel_op_reduces kernel_op_failed kernel_op_cached
  by (auto simp: fresh_kernel_def Let_def)

end
