(* ===== verification/Discipline.thy ===== *)
theory Discipline
  imports Fusion
begin

section \<open>Trading discipline (\<open>discipline/contracts.py\<close>, \<open>discipline/guard.py\<close>)\<close>

text \<open>
  The discipline policy, state, context and outcome contracts and \<open>evaluate_discipline\<close>, the chain
  of behavioural rules between fusion and risk. Each group of early returns of the source is one
  stage; a stage yields a verdict, continues, or raises.
\<close>

subsection \<open>Contracts\<close>

datatype discipline_result = DR_PASS | DR_REJECT | DR_PAUSE | DR_NO_ACTION

datatype entry_intent = INITIAL | REENTRY

datatype reentry_policy = RP_DISABLED | AFTER_EXIT_WITH_NEW_SETUP

datatype loss_streak_reset = AFTER_NON_LOSS_EXIT

datatype duplicate_status =
    DS_NONE | DS_DUPLICATE_PROPOSAL | DS_DUPLICATE_SETUP | DS_DUPLICATE_THESIS
  | DS_ACTIVE_SETUP | DS_ACTIVE_THESIS

datatype reentry_status =
    RS_NOT_REENTRY | RS_ALLOWED | RS_POLICY_BLOCKED | RS_NOT_PREVIOUSLY_EXECUTED
  | RS_ACTIVE_THESIS | RS_MISSING_EXIT | RS_COOLDOWN

datatype discipline_reason =
    MASTER_HOLD | PASSED | STATE_SCOPE_MISMATCH | POLICY_PAUSE | LOSS_STREAK_PAUSE
  | MISSING_STABLE_IDENTITY | DUPLICATE_PROPOSAL | DUPLICATE_SETUP | DUPLICATE_THESIS
  | ACTIVE_SETUP | ACTIVE_THESIS | REENTRY_DISABLED | REENTRY_NOT_PREVIOUSLY_EXECUTED
  | REENTRY_MISSING_EXIT | REENTRY_COOLDOWN | MAX_SIMULTANEOUS_POSITIONS
  | SAME_DIRECTION_POSITION_ACTIVE | DAILY_TRADE_CAP | SESSION_TRADE_CAP | STOP_LOSS_COOLDOWN
  | ORDINARY_COOLDOWN | POST_REJECTION_COOLDOWN

record discipline_policy =
  dp_id :: string
  dp_version :: string
  dp_max_trades_per_day :: int
  dp_max_trades_per_session :: int
  dp_max_positions :: int
  dp_ordinary_cooldown :: int
  dp_stop_loss_cooldown :: int
  dp_post_rejection_cooldown :: int
  dp_reentry_cooldown :: int
  dp_loss_threshold :: int
  dp_loss_pause :: int
  dp_loss_reset :: loss_streak_reset
  dp_prevent_duplicate_setup :: bool
  dp_prevent_duplicate_thesis :: bool
  dp_prevent_same_direction :: bool
  dp_reentry_policy :: reentry_policy

definition discipline_policy_rules :: "discipline_policy \<Rightarrow> (bool \<times> py_error) list" where
  "discipline_policy_rules p =
     [nonempty ''policy_version'' (dp_version p),
      field_ok ''max_trades_per_day'' (0 < dp_max_trades_per_day p),
      field_ok ''max_trades_per_session'' (0 < dp_max_trades_per_session p),
      field_ok ''max_simultaneous_positions'' (0 < dp_max_positions p),
      field_ok ''ordinary_cooldown_seconds'' (0 \<le> dp_ordinary_cooldown p),
      field_ok ''stop_loss_cooldown_seconds'' (0 \<le> dp_stop_loss_cooldown p),
      field_ok ''post_rejection_cooldown_seconds'' (0 \<le> dp_post_rejection_cooldown p),
      field_ok ''same_direction_reentry_cooldown_seconds'' (0 \<le> dp_reentry_cooldown p),
      field_ok ''consecutive_loss_threshold'' (0 < dp_loss_threshold p),
      field_ok ''loss_streak_pause_seconds'' (0 < dp_loss_pause p)]"

definition mk_discipline_policy ::
  "(discipline_policy \<Rightarrow> string) \<Rightarrow> discipline_policy \<Rightarrow> discipline_policy res" where
  "mk_discipline_policy h p = res_bind (validate (discipline_policy_rules p) p)
     (bind_identity ''dp-'' h (\<lambda>r. r\<lparr>dp_id := []\<rparr>) dp_id (\<lambda>i r. r\<lparr>dp_id := i\<rparr>)
        ''policy_id does not match discipline policy content'')"

record discipline_position =
  dpos_ref :: string
  dpos_direction :: signal
  dpos_setup_id :: "string option"
  dpos_thesis_id :: "string option"
  dpos_opened_at :: dt

definition mk_discipline_position :: "discipline_position \<Rightarrow> discipline_position res" where
  "mk_discipline_position p = validate
     [nonempty ''position_ref'' (dpos_ref p),
      rule_ok ''discipline position direction cannot be HOLD'' (dpos_direction p \<noteq> SIG_HOLD)] p"

record discipline_state =
  ds_id :: string
  ds_policy_id :: string
  ds_as_of :: dt
  ds_available_at :: dt
  ds_trading_day :: int
  ds_session_id :: string
  ds_trades_today :: int
  ds_trades_this_session :: int
  ds_consecutive_losses :: int
  ds_last_entry_at :: "dt option"
  ds_last_exit_at :: "dt option"
  ds_last_stop_loss_at :: "dt option"
  ds_last_rejection_at :: "dt option"
  ds_last_entry_direction :: "signal option"
  ds_paused_until :: "dt option"
  ds_pause_reason :: "string option"
  ds_active_positions :: "discipline_position list"
  ds_active_setup_ids :: "string list"
  ds_active_thesis_ids :: "string list"
  ds_executed_setup_ids :: "string list"
  ds_executed_thesis_ids :: "string list"
  ds_last_accepted :: "string option"
  ds_last_rejected :: "string option"
  ds_recorded_at :: "dt option"

definition discipline_state_rules :: "discipline_state \<Rightarrow> (bool \<times> py_error) list" where
  "discipline_state_rules s =
     [nonempty ''policy_id'' (ds_policy_id s), nonempty ''session_id'' (ds_session_id s),
      field_ok ''trades_today'' (0 \<le> ds_trades_today s),
      field_ok ''trades_this_session'' (0 \<le> ds_trades_this_session s),
      field_ok ''consecutive_losses'' (0 \<le> ds_consecutive_losses s),
      field_ok ''pause_reason'' (opt_all (\<lambda>r. length r \<le> 200) (ds_pause_reason s)),
      rule_ok ''discipline state cannot be available after as_of'' (ds_available_at s \<le> ds_as_of s),
      rule_ok ''discipline history cannot be in the future''
        (list_all (opt_all (\<lambda>t. t \<le> ds_as_of s))
          [ds_last_entry_at s, ds_last_exit_at s, ds_last_stop_loss_at s, ds_last_rejection_at s]),
      rule_ok ''last entry direction cannot be HOLD'' (ds_last_entry_direction s \<noteq> Some SIG_HOLD),
      rule_ok ''active discipline positions must be unique''
        (distinct (map dpos_ref (ds_active_positions s))),
      rule_ok ''discipline position cannot open after state as_of''
        (list_all (\<lambda>p. dpos_opened_at p \<le> ds_as_of s) (ds_active_positions s)),
      rule_ok ''active_setup_ids must be unique'' (distinct (ds_active_setup_ids s)),
      rule_ok ''active_thesis_ids must be unique'' (distinct (ds_active_thesis_ids s)),
      rule_ok ''recently_executed_setup_ids must be unique'' (distinct (ds_executed_setup_ids s)),
      rule_ok ''recently_executed_thesis_ids must be unique'' (distinct (ds_executed_thesis_ids s))]"

text \<open>The validator also stores positions and identifier sets in sorted order.\<close>

definition sort_discipline_state :: "discipline_state \<Rightarrow> discipline_state" where
  "sort_discipline_state s = s\<lparr>
     ds_active_positions := sort_key dpos_ref (ds_active_positions s),
     ds_active_setup_ids := sort (ds_active_setup_ids s),
     ds_active_thesis_ids := sort (ds_active_thesis_ids s),
     ds_executed_setup_ids := sort (ds_executed_setup_ids s),
     ds_executed_thesis_ids := sort (ds_executed_thesis_ids s)\<rparr>"

definition mk_discipline_state ::
  "(discipline_state \<Rightarrow> string) \<Rightarrow> discipline_state \<Rightarrow> discipline_state res" where
  "mk_discipline_state h s =
     res_bind (validate (discipline_state_rules s) (sort_discipline_state s))
       (bind_identity ''ds-'' h (\<lambda>r. r\<lparr>ds_id := [], ds_recorded_at := None\<rparr>) ds_id
          (\<lambda>i r. r\<lparr>ds_id := i\<rparr>) ''state_id does not match discipline state content'')"

record discipline_context =
  dc_id :: string
  dc_as_of :: dt
  dc_available_at :: dt
  dc_trading_day :: int
  dc_session_id :: string
  dc_setup_id :: "string option"
  dc_thesis_id :: "string option"
  dc_scenario_id :: "string option"
  dc_thesis_relationship :: "hypothesis_relationship option"
  dc_entry_intent :: entry_intent

definition mk_discipline_context ::
  "(discipline_context \<Rightarrow> string) \<Rightarrow> discipline_context \<Rightarrow> discipline_context res" where
  "mk_discipline_context h c = res_bind (validate
     [nonempty ''session_id'' (dc_session_id c),
      rule_ok ''discipline context cannot be available after as_of'' (dc_available_at c \<le> dc_as_of c)] c)
     (bind_identity ''dc-'' h (\<lambda>r. r\<lparr>dc_id := []\<rparr>) dc_id (\<lambda>i r. r\<lparr>dc_id := i\<rparr>)
        ''context_id does not match discipline context content'')"

record discipline_counters =
  dk_trades_today :: int
  dk_trades_this_session :: int
  dk_consecutive_losses :: int
  dk_active_positions :: int

record discipline_outcome =
  do_id :: string
  do_master_proposal_id :: string
  do_evidence_bundle_id :: string
  do_policy_id :: string
  do_policy_version :: string
  do_state_id :: string
  do_context_id :: string
  do_setup_id :: "string option"
  do_thesis_id :: "string option"
  do_scenario_id :: "string option"
  do_as_of :: dt
  do_available_at :: dt
  do_master_decision :: signal
  do_result :: discipline_result
  do_eligible_for_risk :: bool
  do_reason_codes :: "discipline_reason list"
  do_counters :: discipline_counters
  do_next_eligible_at :: "dt option"
  do_duplicate_status :: duplicate_status
  do_reentry_status :: reentry_status
  do_rationale :: string

definition discipline_outcome_rules :: "discipline_outcome \<Rightarrow> (bool \<times> py_error) list" where
  "discipline_outcome_rules d =
     [nonempty ''master_proposal_id'' (do_master_proposal_id d),
      nonempty ''evidence_bundle_id'' (do_evidence_bundle_id d),
      nonempty ''discipline_policy_id'' (do_policy_id d),
      nonempty ''discipline_policy_version'' (do_policy_version d),
      nonempty ''discipline_state_id'' (do_state_id d),
      nonempty ''discipline_context_id'' (do_context_id d),
      field_ok ''reason_codes'' (do_reason_codes d \<noteq> []),
      field_ok ''counters'' (0 \<le> dk_trades_today (do_counters d)
        \<and> 0 \<le> dk_trades_this_session (do_counters d) \<and> 0 \<le> dk_consecutive_losses (do_counters d)
        \<and> 0 \<le> dk_active_positions (do_counters d)),
      field_ok ''rationale'' (1 \<le> length (do_rationale d) \<and> length (do_rationale d) \<le> 300),
      rule_ok ''discipline outcome cannot be available after as_of'' (do_available_at d \<le> do_as_of d),
      rule_ok ''only PASS remains eligible for downstream Risk''
        (do_eligible_for_risk d = (do_result d = DR_PASS)),
      rule_ok ''Master HOLD must produce NO_ACTION''
        (\<not> (do_master_decision d = SIG_HOLD \<and> do_result d \<noteq> DR_NO_ACTION)),
      rule_ok ''NO_ACTION requires Master HOLD''
        (\<not> (do_result d = DR_NO_ACTION \<and> do_master_decision d \<noteq> SIG_HOLD)),
      rule_ok ''discipline reason codes must be unique'' (distinct (do_reason_codes d))]"

definition mk_discipline_outcome ::
  "(discipline_outcome \<Rightarrow> string) \<Rightarrow> discipline_outcome \<Rightarrow> discipline_outcome res" where
  "mk_discipline_outcome h d = res_bind (validate (discipline_outcome_rules d) d)
     (bind_identity ''do-'' h (\<lambda>r. r\<lparr>do_id := []\<rparr>) do_id (\<lambda>i r. r\<lparr>do_id := i\<rparr>)
        ''outcome_id does not match discipline outcome content'')"

interpretation discipline_outcome_identity: content_addressed "''do-''" h "\<lambda>r. r\<lparr>do_id := []\<rparr>" do_id
    "\<lambda>i r. r\<lparr>do_id := i\<rparr>" "''outcome_id does not match discipline outcome content''"
  for h :: "discipline_outcome \<Rightarrow> string"
  by unfold_locales simp_all

subsection \<open>The guard\<close>

definition default_demo_discipline_policy :: discipline_policy where
  "default_demo_discipline_policy =
     \<lparr>dp_id = [], dp_version = ''demo-v1'', dp_max_trades_per_day = 16, dp_max_trades_per_session = 10,
      dp_max_positions = 1, dp_ordinary_cooldown = 60, dp_stop_loss_cooldown = 300,
      dp_post_rejection_cooldown = 0, dp_reentry_cooldown = 300, dp_loss_threshold = 3,
      dp_loss_pause = 900, dp_loss_reset = AFTER_NON_LOSS_EXIT, dp_prevent_duplicate_setup = True,
      dp_prevent_duplicate_thesis = True, dp_prevent_same_direction = True,
      dp_reentry_policy = AFTER_EXIT_WITH_NEW_SETUP\<rparr>"

text \<open>The arguments of \<open>_outcome\<close> that vary between the early returns.\<close>

record verdict =
  vd_result :: discipline_result
  vd_reason :: discipline_reason
  vd_rationale :: string
  vd_next :: "dt option"
  vd_duplicate :: duplicate_status
  vd_reentry :: "reentry_status option"

definition verdict_of :: "discipline_result \<Rightarrow> discipline_reason \<Rightarrow> string \<Rightarrow> verdict" where
  "verdict_of r c t = \<lparr>vd_result = r, vd_reason = c, vd_rationale = t, vd_next = None,
     vd_duplicate = DS_NONE, vd_reentry = None\<rparr>"

definition discipline_outcome_of ::
  "(discipline_outcome \<Rightarrow> string) \<Rightarrow> master_proposal \<Rightarrow> discipline_context \<Rightarrow> discipline_state
     \<Rightarrow> discipline_policy \<Rightarrow> verdict \<Rightarrow> discipline_outcome res" where
  "discipline_outcome_of h m c s p v = mk_discipline_outcome h
     \<lparr>do_id = [], do_master_proposal_id = mp_id m, do_evidence_bundle_id = mp_bundle_id m,
      do_policy_id = dp_id p, do_policy_version = dp_version p, do_state_id = ds_id s,
      do_context_id = dc_id c, do_setup_id = dc_setup_id c, do_thesis_id = dc_thesis_id c,
      do_scenario_id = dc_scenario_id c, do_as_of = mp_as_of m,
      do_available_at = max (mp_as_of m) (max (dc_available_at c) (ds_available_at s)),
      do_master_decision = mp_decision m, do_result = vd_result v,
      do_eligible_for_risk = (vd_result v = DR_PASS), do_reason_codes = [vd_reason v],
      do_counters = \<lparr>dk_trades_today = ds_trades_today s,
        dk_trades_this_session = ds_trades_this_session s,
        dk_consecutive_losses = ds_consecutive_losses s,
        dk_active_positions = int (length (ds_active_positions s))\<rparr>,
      do_next_eligible_at = vd_next v, do_duplicate_status = vd_duplicate v,
      do_reentry_status = (case vd_reentry v of Some r \<Rightarrow> r
        | None \<Rightarrow> if dc_entry_intent c = REENTRY \<and> vd_result v = DR_PASS then RS_ALLOWED else RS_NOT_REENTRY),
      do_rationale = vd_rationale v\<rparr>"

definition cooldown_end :: "dt option \<Rightarrow> int \<Rightarrow> dt option res" where
  "cooldown_end value secs = (case value of
     None \<Rightarrow> Inr None
   | Some t \<Rightarrow> if secs \<noteq> 0 then res_bind (add_seconds t secs) (\<lambda>e. Inr (Some e)) else Inr None)"

definition input_guards ::
  "master_proposal \<Rightarrow> discipline_context \<Rightarrow> discipline_state \<Rightarrow> discipline_policy
     \<Rightarrow> (bool \<times> py_error) list" where
  "input_guards m c s p =
     [rule_ok ''discipline state policy does not match evaluation policy'' (ds_policy_id s = dp_id p),
      rule_ok ''discipline context as_of must match Master proposal'' (dc_as_of c = mp_as_of m),
      rule_ok ''discipline inputs are not causally available''
        (\<not> (mp_as_of m < dc_available_at c \<or> mp_as_of m < ds_available_at s \<or> mp_as_of m < ds_as_of s))]"

type_synonym stage = "verdict option res"

definition hold_stage :: "master_proposal \<Rightarrow> stage" where
  "hold_stage m = Inr (if mp_decision m = SIG_HOLD
     then Some (verdict_of DR_NO_ACTION MASTER_HOLD ''Master produced no actionable proposal.'') else None)"

definition scope_stage :: "discipline_context \<Rightarrow> discipline_state \<Rightarrow> stage" where
  "scope_stage c s = Inr (if ds_trading_day s \<noteq> dc_trading_day c \<or> ds_session_id s \<noteq> dc_session_id c
     then Some (verdict_of DR_PAUSE STATE_SCOPE_MISMATCH
       ''Discipline counters have not been rolled into the current day/session.'') else None)"

definition pause_stage :: "master_proposal \<Rightarrow> discipline_state \<Rightarrow> stage" where
  "pause_stage m s = Inr (if opt_some (\<lambda>t. mp_as_of m < t) (ds_paused_until s)
     then Some ((verdict_of DR_PAUSE POLICY_PAUSE
       (if truthy (ds_pause_reason s) then the (ds_pause_reason s)
        else ''A persisted behavioral pause is active.''))\<lparr>vd_next := ds_paused_until s\<rparr>) else None)"

definition pause_anchor :: "discipline_state \<Rightarrow> dt" where
  "pause_anchor s = (case ds_last_stop_loss_at s of Some t \<Rightarrow> t
     | None \<Rightarrow> (case ds_last_exit_at s of Some t \<Rightarrow> t | None \<Rightarrow> ds_as_of s))"

definition loss_streak_stage :: "master_proposal \<Rightarrow> discipline_state \<Rightarrow> discipline_policy \<Rightarrow> stage" where
  "loss_streak_stage m s p =
     (if dp_loss_threshold p \<le> ds_consecutive_losses s then
        res_bind (add_seconds (pause_anchor s) (dp_loss_pause p)) (\<lambda>pause_end. Inr
          (if mp_as_of m < pause_end
           then Some ((verdict_of DR_PAUSE LOSS_STREAK_PAUSE
             ''The configured consecutive-loss pause is active.'')\<lparr>vd_next := Some pause_end\<rparr>)
           else None))
      else Inr None)"

definition identity_stage :: "discipline_context \<Rightarrow> stage" where
  "identity_stage c = Inr (if dc_setup_id c = None \<or> dc_thesis_id c = None
     then Some (verdict_of DR_REJECT MISSING_STABLE_IDENTITY
       ''Actionable proposals require stable setup and thesis identity.'') else None)"

definition proposal_stage :: "master_proposal \<Rightarrow> discipline_state \<Rightarrow> stage" where
  "proposal_stage m s = Inr (if Some (mp_id m) \<in> {ds_last_accepted s, ds_last_rejected s}
     then Some ((verdict_of DR_REJECT DUPLICATE_PROPOSAL
       ''This exact Master proposal was already handled.'')\<lparr>vd_duplicate := DS_DUPLICATE_PROPOSAL\<rparr>)
     else None)"

definition setup_stage :: "discipline_context \<Rightarrow> discipline_state \<Rightarrow> discipline_policy \<Rightarrow> stage" where
  "setup_stage c s p = Inr
     (if dp_prevent_duplicate_setup p \<and> opt_some (\<lambda>x. x \<in> set (ds_active_setup_ids s)) (dc_setup_id c)
      then Some ((verdict_of DR_REJECT ACTIVE_SETUP ''The setup already has an active disciplined entry.'')
        \<lparr>vd_duplicate := DS_ACTIVE_SETUP\<rparr>)
      else if dp_prevent_duplicate_setup p \<and> opt_some (\<lambda>x. x \<in> set (ds_executed_setup_ids s)) (dc_setup_id c)
      then Some ((verdict_of DR_REJECT DUPLICATE_SETUP ''The stable setup identity was already executed.'')
        \<lparr>vd_duplicate := DS_DUPLICATE_SETUP\<rparr>)
      else None)"

definition reentry_cooldown_stage ::
  "master_proposal \<Rightarrow> discipline_state \<Rightarrow> discipline_policy \<Rightarrow> stage" where
  "reentry_cooldown_stage m s p =
     res_bind (cooldown_end (ds_last_exit_at s) (dp_reentry_cooldown p)) (\<lambda>reentry_end. Inr
       (if opt_some (\<lambda>t. mp_as_of m < t) reentry_end \<and> ds_last_entry_direction s = Some (mp_decision m)
        then Some ((verdict_of DR_REJECT REENTRY_COOLDOWN
          ''The same-direction re-entry cooldown is active.'')
            \<lparr>vd_next := reentry_end, vd_reentry := Some RS_COOLDOWN\<rparr>)
        else None))"

definition thesis_stage ::
  "master_proposal \<Rightarrow> discipline_context \<Rightarrow> discipline_state \<Rightarrow> discipline_policy \<Rightarrow> stage" where
  "thesis_stage m c s p =
     (let active = opt_some (\<lambda>x. x \<in> set (ds_active_thesis_ids s)) (dc_thesis_id c);
          executed = opt_some (\<lambda>x. x \<in> set (ds_executed_thesis_ids s)) (dc_thesis_id c)
      in if dc_entry_intent c = REENTRY then
           (if dp_reentry_policy p = RP_DISABLED
            then Inr (Some ((verdict_of DR_REJECT REENTRY_DISABLED ''The active policy disables re-entry.'')
              \<lparr>vd_reentry := Some RS_POLICY_BLOCKED\<rparr>))
            else if \<not> executed
            then Inr (Some ((verdict_of DR_REJECT REENTRY_NOT_PREVIOUSLY_EXECUTED
              ''Re-entry must reference a previously executed thesis.'')
              \<lparr>vd_reentry := Some RS_NOT_PREVIOUSLY_EXECUTED\<rparr>))
            else if active
            then Inr (Some ((verdict_of DR_REJECT ACTIVE_THESIS
              ''The thesis remains active and cannot be re-entered.'')
              \<lparr>vd_duplicate := DS_ACTIVE_THESIS, vd_reentry := Some RS_ACTIVE_THESIS\<rparr>))
            else if ds_last_exit_at s = None
            then Inr (Some ((verdict_of DR_REJECT REENTRY_MISSING_EXIT
              ''Re-entry requires a causally recorded prior exit.'')
              \<lparr>vd_reentry := Some RS_MISSING_EXIT\<rparr>))
            else reentry_cooldown_stage m s p)
         else if dp_prevent_duplicate_thesis p \<and> (active \<or> executed)
         then Inr (Some (if active
           then (verdict_of DR_REJECT ACTIVE_THESIS ''The thesis already has an active disciplined entry.'')
             \<lparr>vd_duplicate := DS_ACTIVE_THESIS\<rparr>
           else (verdict_of DR_REJECT DUPLICATE_THESIS ''The stable thesis identity was already executed.'')
             \<lparr>vd_duplicate := DS_DUPLICATE_THESIS\<rparr>))
         else Inr None)"

definition position_stage :: "master_proposal \<Rightarrow> discipline_state \<Rightarrow> discipline_policy \<Rightarrow> stage" where
  "position_stage m s p = Inr
     (if dp_max_positions p \<le> int (length (ds_active_positions s))
      then Some (verdict_of DR_REJECT MAX_SIMULTANEOUS_POSITIONS
        ''The behavioral simultaneous-position cap is reached.'')
      else if dp_prevent_same_direction p
        \<and> list_ex (\<lambda>x. dpos_direction x = mp_decision m) (ds_active_positions s)
      then Some (verdict_of DR_REJECT SAME_DIRECTION_POSITION_ACTIVE
        ''A position in the proposed direction is already active.'')
      else None)"

definition cap_stage :: "discipline_state \<Rightarrow> discipline_policy \<Rightarrow> stage" where
  "cap_stage s p = Inr
     (if dp_max_trades_per_day p \<le> ds_trades_today s
      then Some (verdict_of DR_REJECT DAILY_TRADE_CAP
        ''The configured daily behavioral trade cap is reached.'')
      else if dp_max_trades_per_session p \<le> ds_trades_this_session s
      then Some (verdict_of DR_REJECT SESSION_TRADE_CAP
        ''The configured session behavioral trade cap is reached.'')
      else None)"

definition cooldown_stage ::
  "master_proposal \<Rightarrow> dt option \<Rightarrow> int \<Rightarrow> discipline_reason \<Rightarrow> string \<Rightarrow> stage" where
  "cooldown_stage m timestamp secs reason rationale =
     res_bind (cooldown_end timestamp secs) (\<lambda>e. Inr
       (if opt_some (\<lambda>t. mp_as_of m < t) e
        then Some ((verdict_of DR_REJECT reason rationale)\<lparr>vd_next := e\<rparr>) else None))"

text \<open>The first verdict wins; later stages are not evaluated. No verdict means the proposal passes.\<close>

primrec first_verdict :: "stage list \<Rightarrow> verdict res" where
  "first_verdict [] = Inr (verdict_of DR_PASS PASSED
     ''The proposal passed all configured behavioral discipline rules.'')"
| "first_verdict (x # xs) =
     res_bind x (\<lambda>v. case v of Some w \<Rightarrow> Inr w | None \<Rightarrow> first_verdict xs)"

definition discipline_stages ::
  "master_proposal \<Rightarrow> discipline_context \<Rightarrow> discipline_state \<Rightarrow> discipline_policy \<Rightarrow> stage list" where
  "discipline_stages m c s p =
     [hold_stage m, scope_stage c s, pause_stage m s, loss_streak_stage m s p, identity_stage c,
      proposal_stage m s, setup_stage c s p, thesis_stage m c s p, position_stage m s p, cap_stage s p,
      cooldown_stage m (ds_last_stop_loss_at s) (dp_stop_loss_cooldown p) STOP_LOSS_COOLDOWN
        ''The post-stop-loss cooldown is active.'',
      cooldown_stage m (ds_last_entry_at s) (dp_ordinary_cooldown p) ORDINARY_COOLDOWN
        ''The ordinary post-entry cooldown is active.'',
      cooldown_stage m (ds_last_rejection_at s) (dp_post_rejection_cooldown p) POST_REJECTION_COOLDOWN
        ''The optional post-rejection cooldown is active.'']"

definition evaluate_discipline ::
  "(discipline_outcome \<Rightarrow> string) \<Rightarrow> master_proposal \<Rightarrow> discipline_context \<Rightarrow> discipline_state
     \<Rightarrow> discipline_policy \<Rightarrow> discipline_outcome res" where
  "evaluate_discipline h m c s p =
     res_bind (validate (input_guards m c s p) ()) (\<lambda>_.
     res_bind (first_verdict (discipline_stages m c s p)) (discipline_outcome_of h m c s p))"

subsection \<open>Stages one by one\<close>

lemma first_verdict_simps [simp]:
  "first_verdict (Inr None # xs) = first_verdict xs"
  "first_verdict (Inr (Some v) # xs) = Inr v"
  "first_verdict (Inl e # xs) = Inl e"
  by simp_all

lemma first_verdict_from:
  "first_verdict xs = Inr v \<Longrightarrow> Inr (Some v) \<in> set xs \<or>
     list_all (\<lambda>x. x = Inr None) xs \<and> vd_result v = DR_PASS \<and> vd_next v = None \<and> vd_reason v = PASSED"
proof (induction xs)
  case (Cons x xs)
  then show ?case
    by (cases "x = Inr None"; cases x) (auto split: option.splits)
qed (auto simp: verdict_of_def)

lemma first_verdict_ok: "list_all is_ok xs \<Longrightarrow> is_ok (first_verdict xs)"
  by (induction xs) (auto simp: is_ok_iff split: option.splits)

definition elapsed :: "dt \<Rightarrow> dt option \<Rightarrow> int \<Rightarrow> bool" where
  "elapsed now t secs \<longleftrightarrow> secs = 0 \<or> opt_all (\<lambda>t. t + secs * 1000000 \<le> now) t"

lemma cooldown_end_elapsed:
  "cooldown_end t secs = Inr e \<Longrightarrow> \<not> opt_some (\<lambda>x. now < x) e \<longleftrightarrow> elapsed now t secs"
  by (auto simp: cooldown_end_def elapsed_def res_simps split: option.splits if_splits
      dest: add_seconds_Inr)

lemma cooldown_end_next:
  "cooldown_end t secs = Inr e \<Longrightarrow> opt_some (\<lambda>x. x \<le> now) e \<Longrightarrow> elapsed now t secs"
  using cooldown_end_elapsed by (cases e) force+

text \<open>When a stage has nothing to object.\<close>

lemma stage_None:
  "hold_stage m = Inr None \<longleftrightarrow> mp_decision m \<noteq> SIG_HOLD"
  "scope_stage c s = Inr None \<longleftrightarrow> ds_trading_day s = dc_trading_day c \<and> ds_session_id s = dc_session_id c"
  "pause_stage m s = Inr None \<longleftrightarrow> opt_all (\<lambda>t. t \<le> mp_as_of m) (ds_paused_until s)"
  "identity_stage c = Inr None \<longleftrightarrow> dc_setup_id c \<noteq> None \<and> dc_thesis_id c \<noteq> None"
  "proposal_stage m s = Inr None \<longleftrightarrow> Some (mp_id m) \<noteq> ds_last_accepted s \<and> Some (mp_id m) \<noteq> ds_last_rejected s"
  "setup_stage c s p = Inr None \<longleftrightarrow> (dp_prevent_duplicate_setup p \<longrightarrow>
     opt_all (\<lambda>x. x \<notin> set (ds_active_setup_ids s) \<and> x \<notin> set (ds_executed_setup_ids s)) (dc_setup_id c))"
  "position_stage m s p = Inr None \<longleftrightarrow> int (length (ds_active_positions s)) < dp_max_positions p \<and>
     (dp_prevent_same_direction p \<longrightarrow> list_all (\<lambda>x. dpos_direction x \<noteq> mp_decision m) (ds_active_positions s))"
  "cap_stage s p = Inr None \<longleftrightarrow> ds_trades_today s < dp_max_trades_per_day p \<and>
     ds_trades_this_session s < dp_max_trades_per_session p"
  by (auto simp: hold_stage_def scope_stage_def pause_stage_def identity_stage_def proposal_stage_def
      setup_stage_def position_stage_def cap_stage_def list_ex_iff list_all_iff opt_some_def opt_all_def
      not_less split: option.splits)

lemma loss_streak_None:
  "is_ok (loss_streak_stage m s p) \<Longrightarrow> loss_streak_stage m s p = Inr None \<longleftrightarrow>
     ds_consecutive_losses s < dp_loss_threshold p \<or> pause_anchor s + dp_loss_pause p * 1000000 \<le> mp_as_of m"
  using add_seconds_Inr[of "pause_anchor s" "dp_loss_pause p"]
  by (cases "add_seconds (pause_anchor s) (dp_loss_pause p)")
    (auto simp: loss_streak_stage_def split: if_splits)

lemma cooldown_None:
  "is_ok (cooldown_stage m t n r x) \<Longrightarrow>
     cooldown_stage m t n r x = Inr None \<longleftrightarrow> elapsed (mp_as_of m) t n"
  using cooldown_end_elapsed[of t n _ "mp_as_of m"]
  by (auto simp: cooldown_stage_def res_simps is_ok_iff split: if_splits)

lemma reentry_cooldown_None:
  "is_ok (reentry_cooldown_stage m s p) \<Longrightarrow> reentry_cooldown_stage m s p = Inr None \<longleftrightarrow>
     (ds_last_entry_direction s = Some (mp_decision m) \<longrightarrow>
        elapsed (mp_as_of m) (ds_last_exit_at s) (dp_reentry_cooldown p))"
  using cooldown_end_elapsed[of "ds_last_exit_at s" "dp_reentry_cooldown p" _ "mp_as_of m"]
  by (auto simp: reentry_cooldown_stage_def res_simps is_ok_iff split: if_splits)

lemma thesis_None:
  assumes "is_ok (thesis_stage m c s p)"
  shows "thesis_stage m c s p = Inr None \<longleftrightarrow>
    (if dc_entry_intent c = REENTRY then
       dp_reentry_policy p \<noteq> RP_DISABLED \<and> opt_some (\<lambda>x. x \<in> set (ds_executed_thesis_ids s)) (dc_thesis_id c) \<and>
       \<not> opt_some (\<lambda>x. x \<in> set (ds_active_thesis_ids s)) (dc_thesis_id c) \<and> ds_last_exit_at s \<noteq> None \<and>
       (ds_last_entry_direction s = Some (mp_decision m) \<longrightarrow>
          elapsed (mp_as_of m) (ds_last_exit_at s) (dp_reentry_cooldown p))
     else dp_prevent_duplicate_thesis p \<longrightarrow>
       \<not> opt_some (\<lambda>x. x \<in> set (ds_active_thesis_ids s)) (dc_thesis_id c) \<and>
       \<not> opt_some (\<lambda>x. x \<in> set (ds_executed_thesis_ids s)) (dc_thesis_id c))"
  using assms reentry_cooldown_None[of m s p]
  by (auto simp: thesis_stage_def Let_def split: if_splits)

text \<open>No stage passes a proposal, and a stage that names a time names one in the future.\<close>

definition good_verdict :: "master_proposal \<Rightarrow> verdict \<Rightarrow> bool" where
  "good_verdict m v \<longleftrightarrow> vd_result v \<noteq> DR_PASS \<and> vd_reason v \<noteq> PASSED \<and>
     (vd_result v = DR_NO_ACTION \<longleftrightarrow> mp_decision m = SIG_HOLD) \<and>
     opt_all (\<lambda>t. mp_as_of m < t) (vd_next v) \<and> 1 \<le> length (vd_rationale v) \<and> length (vd_rationale v) \<le> 300"

lemma good_hold: "hold_stage m = Inr (Some v) \<Longrightarrow> good_verdict m v"
  by (auto simp: hold_stage_def good_verdict_def verdict_of_def split: if_splits)

text \<open>The remaining stages are reached only by an actionable proposal.\<close>

lemma good_simple:
  assumes "mp_decision m \<noteq> SIG_HOLD"
  shows "scope_stage c s = Inr (Some v) \<Longrightarrow> good_verdict m v"
    "identity_stage c = Inr (Some v) \<Longrightarrow> good_verdict m v"
    "proposal_stage m s = Inr (Some v) \<Longrightarrow> good_verdict m v"
    "setup_stage c s p = Inr (Some v) \<Longrightarrow> good_verdict m v"
    "position_stage m s p = Inr (Some v) \<Longrightarrow> good_verdict m v"
    "cap_stage s p = Inr (Some v) \<Longrightarrow> good_verdict m v"
  using assms
  by (auto simp: scope_stage_def identity_stage_def proposal_stage_def setup_stage_def position_stage_def
      cap_stage_def good_verdict_def verdict_of_def split: if_splits)

lemma good_pause:
  assumes "mp_decision m \<noteq> SIG_HOLD" "opt_all (\<lambda>r. length r \<le> 200) (ds_pause_reason s)"
    and "pause_stage m s = Inr (Some v)"
  shows "good_verdict m v"
  using assms by (auto simp: pause_stage_def good_verdict_def verdict_of_def opt_some_iff truthy_def
      Suc_le_eq split: if_splits)

lemma good_loss:
  assumes "mp_decision m \<noteq> SIG_HOLD" "loss_streak_stage m s p = Inr (Some v)"
  shows "good_verdict m v"
  using assms by (auto simp: loss_streak_stage_def good_verdict_def verdict_of_def res_bind_Inr_iff
      split: if_splits)

lemma good_cooldown:
  assumes "mp_decision m \<noteq> SIG_HOLD" "cooldown_stage m t n r x = Inr (Some v)" "r \<noteq> PASSED"
    and "1 \<le> length x" "length x \<le> 300"
  shows "good_verdict m v"
  using assms by (auto simp: cooldown_stage_def good_verdict_def verdict_of_def res_bind_Inr_iff
      opt_some_iff split: if_splits)

lemma good_reentry:
  assumes "mp_decision m \<noteq> SIG_HOLD" "reentry_cooldown_stage m s p = Inr (Some v)"
  shows "good_verdict m v"
  using assms by (auto simp: reentry_cooldown_stage_def good_verdict_def verdict_of_def res_bind_Inr_iff
      opt_some_iff split: if_splits)

lemma good_thesis:
  assumes "mp_decision m \<noteq> SIG_HOLD" "thesis_stage m c s p = Inr (Some v)"
  shows "good_verdict m v"
proof (cases "reentry_cooldown_stage m s p = Inr (Some v)")
  case True
  then show ?thesis using assms(1) by (rule good_reentry[rotated])
next
  case False
  then show ?thesis
    using assms by (auto simp: thesis_stage_def Let_def good_verdict_def verdict_of_def split: if_splits)
qed

lemma first_verdict_good:
  assumes "first_verdict (discipline_stages m c s p) = Inr v"
    and "opt_all (\<lambda>r. length r \<le> 200) (ds_pause_reason s)"
  shows "good_verdict m v \<or> list_all (\<lambda>x. x = Inr None) (discipline_stages m c s p) \<and>
     vd_result v = DR_PASS \<and> vd_next v = None \<and> vd_reason v = PASSED"
proof (cases "mp_decision m = SIG_HOLD")
  case True
  then obtain w where w: "hold_stage m = Inr (Some w)" by (simp add: hold_stage_def)
  then have "v = w" using assms(1) by (simp add: discipline_stages_def)
  then show ?thesis using good_hold[OF w] by simp
next
  case False
  note g = good_simple[OF False] good_pause[OF False assms(2)] good_loss[OF False] good_thesis[OF False]
    good_cooldown[OF False]
  have "good_verdict m v" if "Inr (Some v) \<in> set (discipline_stages m c s p)"
    using that False unfolding discipline_stages_def
    by (auto dest!: g good_hold sym[of "Inr (Some v)"])
  then show ?thesis using first_verdict_from[OF assms(1)] by blast
qed

subsection \<open>The rule set as one predicate\<close>

text \<open>
  The specification of the guard: every behavioural rule, stated independently of the order in
  which the source tests them and of the timestamps' representation.
\<close>

definition discipline_pass ::
  "master_proposal \<Rightarrow> discipline_context \<Rightarrow> discipline_state \<Rightarrow> discipline_policy \<Rightarrow> bool" where
  "discipline_pass m c s p \<longleftrightarrow>
     mp_decision m \<noteq> SIG_HOLD \<and>
     ds_trading_day s = dc_trading_day c \<and> ds_session_id s = dc_session_id c \<and>
     opt_all (\<lambda>t. t \<le> mp_as_of m) (ds_paused_until s) \<and>
     (ds_consecutive_losses s < dp_loss_threshold p \<or> pause_anchor s + dp_loss_pause p * 1000000 \<le> mp_as_of m) \<and>
     dc_setup_id c \<noteq> None \<and> dc_thesis_id c \<noteq> None \<and>
     Some (mp_id m) \<noteq> ds_last_accepted s \<and> Some (mp_id m) \<noteq> ds_last_rejected s \<and>
     (dp_prevent_duplicate_setup p \<longrightarrow>
        opt_all (\<lambda>x. x \<notin> set (ds_active_setup_ids s) \<and> x \<notin> set (ds_executed_setup_ids s)) (dc_setup_id c)) \<and>
     (if dc_entry_intent c = REENTRY then
        dp_reentry_policy p \<noteq> RP_DISABLED \<and> opt_some (\<lambda>x. x \<in> set (ds_executed_thesis_ids s)) (dc_thesis_id c) \<and>
        \<not> opt_some (\<lambda>x. x \<in> set (ds_active_thesis_ids s)) (dc_thesis_id c) \<and> ds_last_exit_at s \<noteq> None \<and>
        (ds_last_entry_direction s = Some (mp_decision m) \<longrightarrow>
           elapsed (mp_as_of m) (ds_last_exit_at s) (dp_reentry_cooldown p))
      else dp_prevent_duplicate_thesis p \<longrightarrow>
        \<not> opt_some (\<lambda>x. x \<in> set (ds_active_thesis_ids s)) (dc_thesis_id c) \<and>
        \<not> opt_some (\<lambda>x. x \<in> set (ds_executed_thesis_ids s)) (dc_thesis_id c)) \<and>
     int (length (ds_active_positions s)) < dp_max_positions p \<and>
     (dp_prevent_same_direction p \<longrightarrow> list_all (\<lambda>x. dpos_direction x \<noteq> mp_decision m) (ds_active_positions s)) \<and>
     ds_trades_today s < dp_max_trades_per_day p \<and> ds_trades_this_session s < dp_max_trades_per_session p \<and>
     elapsed (mp_as_of m) (ds_last_stop_loss_at s) (dp_stop_loss_cooldown p) \<and>
     elapsed (mp_as_of m) (ds_last_entry_at s) (dp_ordinary_cooldown p) \<and>
     elapsed (mp_as_of m) (ds_last_rejection_at s) (dp_post_rejection_cooldown p)"

text \<open>Every pause and cooldown of the state ends at a date Python can represent.\<close>

definition calendar_ok :: "discipline_state \<Rightarrow> discipline_policy \<Rightarrow> bool" where
  "calendar_ok s p \<longleftrightarrow> is_ok (add_seconds (pause_anchor s) (dp_loss_pause p)) \<and>
     list_all (\<lambda>(t, n). is_ok (cooldown_end t n))
       [(ds_last_exit_at s, dp_reentry_cooldown p), (ds_last_stop_loss_at s, dp_stop_loss_cooldown p),
        (ds_last_entry_at s, dp_ordinary_cooldown p), (ds_last_rejection_at s, dp_post_rejection_cooldown p)]"

lemma stages_ok: "calendar_ok s p \<Longrightarrow> list_all is_ok (discipline_stages m c s p)"
  by (auto simp: calendar_ok_def discipline_stages_def hold_stage_def scope_stage_def pause_stage_def
      loss_streak_stage_def identity_stage_def proposal_stage_def setup_stage_def thesis_stage_def Let_def
      reentry_cooldown_stage_def position_stage_def cap_stage_def cooldown_stage_def is_ok_iff)

lemma stages_pass_iff:
  assumes "calendar_ok s p"
  shows "list_all (\<lambda>x. x = Inr None) (discipline_stages m c s p) \<longleftrightarrow> discipline_pass m c s p"
proof -
  have ok: "is_ok (loss_streak_stage m s p)" "is_ok (thesis_stage m c s p)"
      "is_ok (cooldown_stage m (ds_last_stop_loss_at s) (dp_stop_loss_cooldown p) r1 x1)"
      "is_ok (cooldown_stage m (ds_last_entry_at s) (dp_ordinary_cooldown p) r2 x2)"
      "is_ok (cooldown_stage m (ds_last_rejection_at s) (dp_post_rejection_cooldown p) r3 x3)"
    for r1 r2 r3 x1 x2 x3
    using assms by (auto simp: calendar_ok_def loss_streak_stage_def thesis_stage_def Let_def
        reentry_cooldown_stage_def cooldown_stage_def is_ok_iff)
  show ?thesis
    unfolding discipline_stages_def discipline_pass_def list.pred_inject
      stage_None loss_streak_None[OF ok(1)] thesis_None[OF ok(2)] cooldown_None[OF ok(3)]
      cooldown_None[OF ok(4)] cooldown_None[OF ok(5)]
    by (simp only: conj_assoc simp_thms list.pred_inject)
qed

text \<open>Validated inputs.\<close>

definition discipline_inputs_ok ::
  "master_proposal \<Rightarrow> discipline_context \<Rightarrow> discipline_state \<Rightarrow> discipline_policy \<Rightarrow> bool" where
  "discipline_inputs_ok m c s p \<longleftrightarrow> mp_id m \<noteq> [] \<and> mp_bundle_id m \<noteq> [] \<and>
     dc_id c \<noteq> [] \<and> dc_available_at c \<le> dc_as_of c \<and> list_all fst (discipline_state_rules s) \<and> ds_id s \<noteq> [] \<and>
     list_all fst (discipline_policy_rules p) \<and> dp_id p \<noteq> []"

lemma outcome_total:
  assumes "discipline_inputs_ok m c s p" "list_all fst (input_guards m c s p)"
    and "good_verdict m v \<or> vd_result v = DR_PASS \<and> mp_decision m \<noteq> SIG_HOLD"
    and "1 \<le> length (vd_rationale v)" "length (vd_rationale v) \<le> 300"
  shows "is_ok (discipline_outcome_of h m c s p v)"
  using assms
  by (auto simp: discipline_outcome_of_def mk_discipline_outcome_def is_ok_iff res_simps
      discipline_outcome_identity.bind_ok_iff discipline_outcome_rules_def discipline_inputs_ok_def
      input_guards_def discipline_state_rules_def discipline_policy_rules_def good_verdict_def)

lemma pass_rationale:
  "first_verdict xs = Inr v \<Longrightarrow> list_all (\<lambda>x. x = Inr None) xs \<Longrightarrow>
   1 \<le> length (vd_rationale v) \<and> length (vd_rationale v) \<le> 300"
  by (induction xs) (auto simp: verdict_of_def)

lemma outcome_fields:
  assumes "discipline_outcome_of h m c s p v = Inr d"
  shows "do_result d = vd_result v" "do_reason_codes d = [vd_reason v]" "do_next_eligible_at d = vd_next v"
    "do_eligible_for_risk d \<longleftrightarrow> vd_result v = DR_PASS" "do_master_decision d = mp_decision m"
  using assms by (auto simp: discipline_outcome_of_def mk_discipline_outcome_def res_simps
      discipline_outcome_identity.bind_ok_iff)

lemma evaluate_verdict:
  assumes "evaluate_discipline h m c s p = Inr d"
  obtains v where "first_verdict (discipline_stages m c s p) = Inr v" "discipline_outcome_of h m c s p v = Inr d"
  using assms by (auto simp: evaluate_discipline_def res_simps)

text \<open>The date a refusal names depends on the state and the policy only.\<close>

definition refusal_end :: "discipline_state \<Rightarrow> discipline_policy \<Rightarrow> discipline_reason \<Rightarrow> dt option res" where
  "refusal_end s p r =
     (if r = POLICY_PAUSE then Inr (ds_paused_until s)
      else if r = LOSS_STREAK_PAUSE then
        res_bind (add_seconds (pause_anchor s) (dp_loss_pause p)) (\<lambda>t. Inr (Some t))
      else if r = REENTRY_COOLDOWN then cooldown_end (ds_last_exit_at s) (dp_reentry_cooldown p)
      else if r = STOP_LOSS_COOLDOWN then cooldown_end (ds_last_stop_loss_at s) (dp_stop_loss_cooldown p)
      else if r = ORDINARY_COOLDOWN then cooldown_end (ds_last_entry_at s) (dp_ordinary_cooldown p)
      else if r = POST_REJECTION_COOLDOWN then
        cooldown_end (ds_last_rejection_at s) (dp_post_rejection_cooldown p)
      else Inr None)"

lemma stage_refusal_end:
  assumes "Inr (Some v) \<in> set (discipline_stages m c s p)"
  shows "refusal_end s p (vd_reason v) = Inr (vd_next v) \<and> opt_all (\<lambda>t. mp_as_of m < t) (vd_next v)"
proof -
  note d = verdict_of_def opt_some_iff res_bind_Inr_iff refusal_end_def
  from assms consider "hold_stage m = Inr (Some v)" | "scope_stage c s = Inr (Some v)"
    | "pause_stage m s = Inr (Some v)" | "loss_streak_stage m s p = Inr (Some v)"
    | "identity_stage c = Inr (Some v)" | "proposal_stage m s = Inr (Some v)"
    | "setup_stage c s p = Inr (Some v)" | "thesis_stage m c s p = Inr (Some v)"
    | "position_stage m s p = Inr (Some v)" | "cap_stage s p = Inr (Some v)"
    | (c) t' n r x where "cooldown_stage m t' n r x = Inr (Some v)"
        "(t', n, r) \<in> {(ds_last_stop_loss_at s, dp_stop_loss_cooldown p, STOP_LOSS_COOLDOWN),
          (ds_last_entry_at s, dp_ordinary_cooldown p, ORDINARY_COOLDOWN),
          (ds_last_rejection_at s, dp_post_rejection_cooldown p, POST_REJECTION_COOLDOWN)}"
    unfolding discipline_stages_def by (simp only: list.set insert_iff empty_iff) (metis insertCI)
  then show ?thesis
  proof cases
    case c
    then show ?thesis by (auto simp: cooldown_stage_def d split: if_splits)
  next
    case 8
    then show ?thesis
      by (cases "reentry_cooldown_stage m s p = Inr (Some v)")
        (auto simp: thesis_stage_def reentry_cooldown_stage_def Let_def d split: if_splits)
  next
    case 1
    then show ?thesis by (auto simp: hold_stage_def d split: if_splits)
  next
    case 2
    then show ?thesis by (auto simp: scope_stage_def d split: if_splits)
  next
    case 3
    then show ?thesis by (auto simp: pause_stage_def d split: if_splits)
  next
    case 4
    then show ?thesis by (auto simp: loss_streak_stage_def d split: if_splits)
  next
    case 5
    then show ?thesis by (auto simp: identity_stage_def d split: if_splits)
  next
    case 6
    then show ?thesis by (auto simp: proposal_stage_def d split: if_splits)
  next
    case 7
    then show ?thesis by (auto simp: setup_stage_def d split: if_splits)
  next
    case 9
    then show ?thesis by (auto simp: position_stage_def d split: if_splits)
  next
    case 10
    then show ?thesis by (auto simp: cap_stage_def d split: if_splits)
  qed
qed

subsection \<open>Properties\<close>

text \<open>Concrete inputs for the witnesses: a BUY proposal ten seconds after a stop loss, and one later.\<close>

definition demo_master :: "dt \<Rightarrow> master_proposal" where
  "demo_master t = demo_proposal\<lparr>mp_as_of := t\<rparr>"

definition demo_context :: "dt \<Rightarrow> discipline_context" where
  "demo_context t = \<lparr>dc_id = ''dc-1'', dc_as_of = t, dc_available_at = t, dc_trading_day = 1,
     dc_session_id = ''london'', dc_setup_id = Some ''setup-1'', dc_thesis_id = Some ''thesis-1'',
     dc_scenario_id = None, dc_thesis_relationship = None, dc_entry_intent = INITIAL\<rparr>"

definition demo_dstate :: discipline_state where
  "demo_dstate = \<lparr>ds_id = ''ds-1'', ds_policy_id = ''dp-1'', ds_as_of = 0, ds_available_at = 0,
     ds_trading_day = 1, ds_session_id = ''london'', ds_trades_today = 1, ds_trades_this_session = 1,
     ds_consecutive_losses = 1, ds_last_entry_at = Some (- 60000000), ds_last_exit_at = Some 0,
     ds_last_stop_loss_at = Some 0, ds_last_rejection_at = None, ds_last_entry_direction = Some SIG_BUY,
     ds_paused_until = None, ds_pause_reason = None, ds_active_positions = [], ds_active_setup_ids = [],
     ds_active_thesis_ids = [], ds_executed_setup_ids = [''setup-0''], ds_executed_thesis_ids = [''thesis-0''],
     ds_last_accepted = None, ds_last_rejected = None, ds_recorded_at = None\<rparr>"

definition demo_dpolicy :: discipline_policy where
  "demo_dpolicy = default_demo_discipline_policy\<lparr>dp_id := ''dp-1''\<rparr>"

lemmas demo_discipline_defs = demo_master_def demo_context_def demo_dstate_def demo_dpolicy_def
  default_demo_discipline_policy_def

lemma demo_master_simps [simp]:
  "mp_decision (demo_master t) = SIG_BUY" "mp_as_of (demo_master t) = t" "mp_id (demo_master t) \<noteq> []"
  "mp_bundle_id (demo_master t) \<noteq> []"
  by (simp_all add: demo_master_def demo_proposal_def proposal_of_def fusion_decision_def hold_reasons_def
      demo_metrics_def demo_policy_def demo_bundle_def)

lemma demo_discipline_ok:
  "discipline_inputs_ok (demo_master t) (demo_context t) demo_dstate demo_dpolicy"
  by (simp add: discipline_inputs_ok_def discipline_state_rules_def discipline_policy_rules_def
      demo_context_def demo_dstate_def demo_dpolicy_def default_demo_discipline_policy_def)

lemma demo_guards_ok: "0 \<le> t \<Longrightarrow> list_all fst (input_guards (demo_master t) (demo_context t) demo_dstate demo_dpolicy)"
  by (simp add: input_guards_def demo_context_def demo_dstate_def demo_dpolicy_def
      default_demo_discipline_policy_def)

lemma demo_calendar_ok: "calendar_ok demo_dstate demo_dpolicy"
  by (simp add: calendar_ok_def pause_anchor_def cooldown_end_def add_seconds_def dt_min_def dt_max_def
      demo_dstate_def demo_dpolicy_def default_demo_discipline_policy_def)

lemma demo_evaluate:
  assumes "0 \<le> t"
  shows "\<exists>d. evaluate_discipline zero_hash (demo_master t) (demo_context t) demo_dstate demo_dpolicy = Inr d \<and>
    do_reason_codes d = [if t < 300000000 then STOP_LOSS_COOLDOWN else PASSED] \<and>
    do_next_eligible_at d = (if t < 300000000 then Some 300000000 else None)"
proof -
  let ?v = "if t < 300000000 then (verdict_of DR_REJECT STOP_LOSS_COOLDOWN
      ''The post-stop-loss cooldown is active.'')\<lparr>vd_next := Some 300000000\<rparr>
    else verdict_of DR_PASS PASSED ''The proposal passed all configured behavioral discipline rules.''"
  have v: "first_verdict (discipline_stages (demo_master t) (demo_context t) demo_dstate demo_dpolicy) = Inr ?v"
    using assms
    by (simp add: discipline_stages_def hold_stage_def scope_stage_def pause_stage_def loss_streak_stage_def
        identity_stage_def proposal_stage_def setup_stage_def thesis_stage_def position_stage_def cap_stage_def
        cooldown_stage_def cooldown_end_def add_seconds_def dt_min_def dt_max_def demo_context_def
        demo_dstate_def demo_dpolicy_def default_demo_discipline_policy_def)
  have "is_ok (discipline_outcome_of zero_hash (demo_master t) (demo_context t) demo_dstate demo_dpolicy ?v)"
    by (rule outcome_total[OF demo_discipline_ok demo_guards_ok[OF assms]])
      (auto simp: good_verdict_def verdict_of_def)
  then obtain d where d: "discipline_outcome_of zero_hash (demo_master t) (demo_context t) demo_dstate demo_dpolicy ?v = Inr d"
    by (auto simp: is_ok_iff)
  have "evaluate_discipline zero_hash (demo_master t) (demo_context t) demo_dstate demo_dpolicy = Inr d"
    unfolding evaluate_discipline_def validate_ok[OF demo_guards_ok[OF assms]] v res_bind.simps d ..
  then show ?thesis
    using outcome_fields[OF d] by (auto simp: verdict_of_def)
qed

text \<open>C11. For validated inputs that meet the causal guards, and pauses that end within the calendar, the
  guard always returns an outcome, and the proposal remains eligible for risk exactly when every
  behavioural rule holds: actionable decision, current day and session, no pause in force, stable and
  fresh setup and thesis (or a permitted re-entry), free position slots and trade caps, and every
  cooldown elapsed. NO_ACTION is reserved for HOLD, and every refusal carries exactly one reason.\<close>

theorem discipline_eligible_iff:
  assumes "discipline_inputs_ok m c s p" "list_all fst (input_guards m c s p)" "calendar_ok s p"
  shows "\<exists>d. evaluate_discipline h m c s p = Inr d \<and>
    (do_eligible_for_risk d \<longleftrightarrow> discipline_pass m c s p) \<and>
    (do_result d = DR_PASS \<longleftrightarrow> do_eligible_for_risk d) \<and>
    (do_result d = DR_NO_ACTION \<longleftrightarrow> mp_decision m = SIG_HOLD) \<and>
    (\<exists>r. do_reason_codes d = [r] \<and> (r = PASSED \<longleftrightarrow> do_eligible_for_risk d))"
proof -
  have pr: "opt_all (\<lambda>r. length r \<le> 200) (ds_pause_reason s)"
    using assms(1) by (simp add: discipline_inputs_ok_def discipline_state_rules_def)
  obtain v where v: "first_verdict (discipline_stages m c s p) = Inr v"
    using first_verdict_ok[OF stages_ok[OF assms(3)]] by (auto simp: is_ok_iff)
  note pass = stages_pass_iff[OF assms(3), of m c]
  consider (refused) "good_verdict m v" "\<not> discipline_pass m c s p"
    | (passed) "discipline_pass m c s p" "vd_result v = DR_PASS" "vd_reason v = PASSED"
        "1 \<le> length (vd_rationale v)" "length (vd_rationale v) \<le> 300"
  proof -
    have "good_verdict m v \<Longrightarrow> \<not> discipline_pass m c s p"
    proof
      assume "good_verdict m v" "discipline_pass m c s p"
      then have "list_all (\<lambda>x. x = Inr None) (discipline_stages m c s p)" using pass by simp
      then have "vd_result v = DR_PASS"
        using v by (induction "discipline_stages m c s p") (auto simp: verdict_of_def discipline_stages_def)
      then show False using \<open>good_verdict m v\<close> by (simp add: good_verdict_def)
    qed
    then show thesis using first_verdict_good[OF v pr] pass pass_rationale[OF v] that by blast
  qed
  then show ?thesis
  proof cases
    case refused
    then obtain d where d: "discipline_outcome_of h m c s p v = Inr d"
      using outcome_total[OF assms(1,2), of v] by (auto simp: good_verdict_def is_ok_iff)
    then show ?thesis
      using outcome_fields[OF d] refused assms(2) v
      by (auto simp: evaluate_discipline_def validate_ok good_verdict_def)
  next
    case passed
    then have nh: "mp_decision m \<noteq> SIG_HOLD" by (simp add: discipline_pass_def)
    then obtain d where d: "discipline_outcome_of h m c s p v = Inr d"
      using outcome_total[OF assms(1,2), of v] passed by (auto simp: is_ok_iff)
    then show ?thesis
      using outcome_fields[OF d] passed assms(2) v nh
      by (auto simp: evaluate_discipline_def validate_ok)
  qed
qed

theorem discipline_eligible_iff_witness:
  "\<exists>d. evaluate_discipline zero_hash (demo_master 400000000) (demo_context 400000000) demo_dstate demo_dpolicy = Inr d \<and>
    do_eligible_for_risk d"
proof -
  have "discipline_pass (demo_master 400000000) (demo_context 400000000) demo_dstate demo_dpolicy"
    by (simp add: discipline_pass_def elapsed_def demo_context_def demo_dstate_def demo_dpolicy_def
        default_demo_discipline_policy_def)
  then show ?thesis
    using discipline_eligible_iff[OF demo_discipline_ok demo_guards_ok demo_calendar_ok, of 400000000 zero_hash]
    by auto
qed

text \<open>A refusal that names the next eligible time is honest: that time lies after the proposal, and
  against the same discipline state no later proposal, in any context, is refused for that reason
  again once the time has come.\<close>

theorem discipline_refusal_expires:
  assumes "evaluate_discipline h m c s p = Inr d" "do_next_eligible_at d = Some t"
    and "evaluate_discipline h m' c' s p = Inr d'" "t \<le> mp_as_of m'"
  shows "mp_as_of m < t \<and> do_reason_codes d' \<noteq> do_reason_codes d"
proof -
  obtain v where v: "first_verdict (discipline_stages m c s p) = Inr v" "discipline_outcome_of h m c s p v = Inr d"
    using evaluate_verdict[OF assms(1)] .
  obtain w where w: "first_verdict (discipline_stages m' c' s p) = Inr w" "discipline_outcome_of h m' c' s p w = Inr d'"
    using evaluate_verdict[OF assms(3)] .
  have n: "vd_next v = Some t" using assms(2) outcome_fields(3)[OF v(2)] by simp
  have r: "refusal_end s p (vd_reason v) = Inr (Some t)" "mp_as_of m < t"
    using first_verdict_from[OF v(1)] stage_refusal_end[of v m c s p] n by auto
  have "refusal_end s p (vd_reason w) = Inr (vd_next w) \<and> opt_all (\<lambda>t. mp_as_of m' < t) (vd_next w)"
    using first_verdict_from[OF w(1)] stage_refusal_end[of w m' c' s p] by (auto simp: refusal_end_def)
  then have "vd_reason w \<noteq> vd_reason v" using r(1) assms(4) by (cases "vd_next w") auto
  then show ?thesis using r(2) outcome_fields(2)[OF v(2)] outcome_fields(2)[OF w(2)] by simp
qed

theorem discipline_refusal_expires_witness:
  "\<exists>d d'. evaluate_discipline zero_hash (demo_master 10) (demo_context 10) demo_dstate demo_dpolicy = Inr d \<and>
    evaluate_discipline zero_hash (demo_master 400000000) (demo_context 400000000) demo_dstate demo_dpolicy = Inr d' \<and>
    do_reason_codes d' \<noteq> do_reason_codes d"
proof -
  obtain d where d: "evaluate_discipline zero_hash (demo_master 10) (demo_context 10) demo_dstate demo_dpolicy = Inr d"
      "do_next_eligible_at d = Some 300000000"
    using demo_evaluate[of 10] by auto
  obtain d' where d': "evaluate_discipline zero_hash (demo_master 400000000) (demo_context 400000000) demo_dstate demo_dpolicy = Inr d'"
    using demo_evaluate[of 400000000] by auto
  show ?thesis using discipline_refusal_expires[OF d d'] d(1) d' by auto
qed

end
