(* ===== verification/RiskSizing.thy ===== *)
theory RiskSizing
  imports PyFloat RuntimeState
begin

section \<open>Pre-trade veto and position sizing (\<open>risk.py\<close>)\<close>

text \<open>
  \<open>veto_reasons\<close> and \<open>calculate_volume_lots\<close> in binary64. The base-ten logarithm of the C library
  is a parameter; it only chooses the number of decimals kept by the final rounding.
\<close>

record veto_limits =
  vl_max_risk_fraction :: f64
  vl_max_daily_loss_fraction :: f64
  vl_max_drawdown_fraction :: f64
  vl_max_open_positions :: int
  vl_max_spread_points :: f64
  vl_min_master_confidence :: f64
  vl_max_data_age_seconds :: f64

record veto_context =
  vc_equity :: f64
  vc_daily_loss_fraction :: f64
  vc_drawdown_fraction :: f64
  vc_open_positions :: int
  vc_spread_points :: f64
  vc_master_confidence :: f64
  vc_data_age_seconds :: f64
  vc_python_healthy :: bool
  vc_mt5_healthy :: bool

definition veto_reasons :: "veto_context \<Rightarrow> veto_limits \<Rightarrow> string list" where
  "veto_reasons c l =
     (if fle (vc_equity c) (Fin 0) then [''invalid_equity''] else []) @
     (if fle (vl_max_daily_loss_fraction l) (vc_daily_loss_fraction c) then [''daily_loss_limit''] else []) @
     (if fle (vl_max_drawdown_fraction l) (vc_drawdown_fraction c) then [''drawdown_limit''] else []) @
     (if vl_max_open_positions l \<le> vc_open_positions c then [''position_limit''] else []) @
     (if flt (vl_max_spread_points l) (vc_spread_points c) then [''spread_limit''] else []) @
     (if flt (vc_master_confidence c) (vl_min_master_confidence l) then [''confidence_below_minimum''] else []) @
     (if flt (vl_max_data_age_seconds l) (vc_data_age_seconds c) then [''stale_data''] else []) @
     (if \<not> vc_python_healthy c then [''python_unhealthy''] else []) @
     (if \<not> vc_mt5_healthy c then [''mt5_unhealthy''] else [])"

record sizing_input =
  si_equity :: f64
  si_risk_fraction :: f64
  si_stop_distance_price :: f64
  si_tick_size :: f64
  si_tick_value_loss :: f64
  si_volume_min :: f64
  si_volume_max :: f64
  si_volume_step :: f64

definition sizing_values :: "sizing_input \<Rightarrow> f64 list" where
  "sizing_values i = [si_equity i, si_risk_fraction i, si_stop_distance_price i, si_tick_size i,
     si_tick_value_loss i, si_volume_min i, si_volume_max i, si_volume_step i]"

definition raw_volume :: "sizing_input \<Rightarrow> f64 res" where
  "raw_volume i =
     res_bind (fdiv (si_stop_distance_price i) (si_tick_size i)) (\<lambda>ticks.
     fdiv (fmul (si_equity i) (si_risk_fraction i)) (fmul ticks (si_tick_value_loss i)))"

definition stepped_volume :: "f64 \<Rightarrow> f64 \<Rightarrow> f64 res" where
  "stepped_volume capped stp =
     res_bind (fdiv (fadd capped (lit (1 / 10 ^ 12))) stp) (\<lambda>q.
     res_bind (py_floor q) (\<lambda>n.
     res_bind (float_of_int n) (\<lambda>k. Inr (fmul k stp))))"

definition rounding_precision :: "(f64 \<Rightarrow> f64) \<Rightarrow> f64 \<Rightarrow> int res" where
  "rounding_precision log10 stp =
     res_bind (py_floor (log10 stp)) (\<lambda>e. Inr (max 0 (- e) + 2))"

definition calculate_volume_lots :: "(f64 \<Rightarrow> f64) \<Rightarrow> sizing_input \<Rightarrow> f64 res" where
  "calculate_volume_lots log10 i =
     (if list_ex (\<lambda>v. \<not> is_fin v \<or> fle v (Fin 0)) (sizing_values i)
      then Inl (ValueError ''all sizing inputs must be finite and positive'')
      else res_bind (raw_volume i) (\<lambda>raw.
           res_bind (stepped_volume (pymin raw (si_volume_max i)) (si_volume_step i)) (\<lambda>stepped.
           if flt stepped (si_volume_min i) then Inr (Fin 0)
           else res_bind (rounding_precision log10 (si_volume_step i)) (\<lambda>n. py_round stepped n))))"

subsection \<open>Monotonicity of the float operations\<close>

definition fpos :: "f64 \<Rightarrow> bool" where
  "fpos a \<longleftrightarrow> is_fin a \<and> flt (Fin 0) a"

lemma fposE: "fpos a \<Longrightarrow> (\<And>x. a = Fin x \<Longrightarrow> 0 < x \<Longrightarrow> P) \<Longrightarrow> P"
  by (cases a) (auto simp: fpos_def)

lemma fle_inf [simp]: "fle a PInf \<longleftrightarrow> a \<noteq> NaN" "fle NInf a \<longleftrightarrow> a \<noteq> NaN"
  by (cases a; simp)+

lemma fle_rnd_0 [simp]: "0 \<le> q \<Longrightarrow> fle (Fin 0) (rnd q)"
  by (rule rnd_nonneg)

lemma fmul_mono:
  assumes "fle (Fin 0) a" "fle a b" "fle (Fin 0) c" "fle c d" "is_fin b" "is_fin d"
  shows "fle (fmul a c) (fmul b d)" "fle (Fin 0) (fmul a c)"
  using assms by (cases a; cases b; cases c; cases d; auto intro!: rnd_mono mult_mono)+

lemma fdiv_pos:
  assumes "fdiv a c = Inr x" "fle (Fin 0) a" "fle (Fin 0) c" "c \<noteq> PInf"
  shows "\<exists>z. c = Fin z \<and> 0 < z" "fle (Fin 0) x"
  using assms by (cases a; cases c; auto simp: inf_of_sign_def split: if_splits)+

lemma fdiv_mono:
  assumes "fle (Fin 0) a" "fle a b" "is_fin b" "fle (Fin 0) c'" "fle c' c"
    and "fdiv a c = Inr x" "fdiv b c' = Inr y"
  shows "fle x y" "fle (Fin 0) x"
proof -
  from assms(1-3) obtain p q where pq: "a = Fin p" "b = Fin q" "0 \<le> p" "p \<le> q" by (cases a; cases b) auto
  have "fle x y \<and> fle (Fin 0) x"
  proof (cases c)
    case (Fin z)
    then obtain z' where z': "c' = Fin z'" "0 < z'" "z' \<le> z"
      using assms(4,5,7) pq by (cases c') (auto split: if_splits)
    have "p / z \<le> q / z'" using pq z' by (intro frac_le) auto
    then show ?thesis using assms(6,7) pq z' Fin by (auto intro!: rnd_mono split: if_splits)
  next
    case PInf
    then have "x = Fin 0" using assms(6) pq by simp
    moreover have "fle (Fin 0) y" using assms(4,7) pq by (cases c') (auto split: if_splits)
    ultimately show ?thesis by simp
  qed (use assms(4,5) in \<open>cases c'; simp\<close>)+
  then show "fle x y" "fle (Fin 0) x" by simp_all
qed

lemma fadd_mono_right: "fle a b \<Longrightarrow> fle (fadd a (Fin k)) (fadd b (Fin k))"
  by (cases a; cases b) (auto intro!: rnd_mono)

lemma py_floor_mono: "fle a b \<Longrightarrow> py_floor a = Inr m \<Longrightarrow> py_floor b = Inr n \<Longrightarrow> m \<le> n"
  by (cases a; cases b) (auto intro: floor_mono)

lemma float_of_int_mono:
  "m \<le> n \<Longrightarrow> float_of_int m = Inr x \<Longrightarrow> float_of_int n = Inr y \<Longrightarrow> fle x y \<and> is_fin x \<and> is_fin y"
  using rnd_mono[of "of_int m" "of_int n"]
  by (cases "rnd (of_int m)"; cases "rnd (of_int n)") (auto simp: float_of_int_def)

lemma py_round_not_NaN: "py_round a n = Inr x \<Longrightarrow> a \<noteq> NaN \<Longrightarrow> x \<noteq> NaN"
  by (cases a) (auto split: if_splits f64.splits)

lemma py_round_mono:
  assumes "fle a b" "py_round a n = Inr x" "py_round b n = Inr y"
  shows "fle x y"
proof (cases "is_fin a \<and> is_fin b")
  case True
  then obtain p q where pq: "a = Fin p" "b = Fin q" "p \<le> q" using assms(1) by (cases a; cases b) auto
  have "of_int (rhe (p * 10 powi n)) / (10::rat) powi n \<le> of_int (rhe (q * 10 powi n)) / 10 powi n"
    using pq(3) by (intro divide_right_mono) (simp_all add: rhe_mono mult_right_mono)
  from rnd_mono[OF this] show ?thesis
    using assms(2,3) pq by (auto split: if_splits f64.splits)
next
  case False
  then consider "a = NInf" | "b = PInf"
    using assms(1) by (cases a; cases b) auto
  then show ?thesis
  proof cases
    case 1
    then show ?thesis using assms py_round_not_NaN[OF assms(3)] by auto
  next
    case 2
    then show ?thesis using assms py_round_not_NaN[OF assms(2)] by auto
  qed
qed

lemma stepped_mono:
  assumes "fle (Fin 0) a" "fle a b" "is_fin b" "fpos stp"
    and "stepped_volume a stp = Inr x" "stepped_volume b stp = Inr y"
  shows "fle x y \<and> fle (Fin 0) x"
proof -
  obtain z where z: "stp = Fin z" "0 < z" using assms(4) by (auto elim: fposE)
  obtain q1 m k1 where 1: "fdiv (fadd a (lit (1 / 10 ^ 12))) stp = Inr q1" "py_floor q1 = Inr m"
      "float_of_int m = Inr k1" "x = fmul k1 stp"
    using assms(5) by (auto simp: stepped_volume_def res_simps)
  obtain q2 n k2 where 2: "fdiv (fadd b (lit (1 / 10 ^ 12))) stp = Inr q2" "py_floor q2 = Inr n"
      "float_of_int n = Inr k2" "y = fmul k2 stp"
    using assms(6) by (auto simp: stepped_volume_def res_simps)
  obtain p where p: "lit (1 / 10 ^ 12) = Fin p" "0 \<le> p"
    by (rule that[OF rnd_pico]) simp
  obtain r s where rs: "a = Fin r" "b = Fin s" "0 \<le> r" "r \<le> s"
    using assms(1-3) by (cases a; cases b) auto
  have sums: "fle (Fin 0) (fadd a (Fin p))" "fle (fadd a (Fin p)) (fadd b (Fin p))"
    using rs p by (auto intro!: rnd_mono)
  have fin2: "is_fin (fadd b (Fin p))"
    using 2(1,2) p z rs by (cases "rnd (s + p)") (auto simp: inf_of_sign_def)
  have q: "fle q1 q2" "fle (Fin 0) q1"
    using fdiv_mono[OF sums fin2 _ _ 1(1)[unfolded p(1)] 2(1)[unfolded p(1)]] z by simp_all
  have mn: "m \<le> n" "0 \<le> m" using py_floor_mono[OF q(1) 1(2) 2(2)] py_floor_mono[OF q(2) _ 1(2), of 0] by simp_all
  have k: "fle k1 k2" "is_fin k2" "fle (Fin 0) k1"
    using float_of_int_mono[OF mn(1) 1(3) 2(3)] float_of_int_mono[OF mn(2) _ 1(3), of "Fin 0"]
    by (auto simp: float_of_int_def)
  show ?thesis using fmul_mono[OF k(3,1) _ _ k(2), of "Fin z" "Fin z"] z 1(4) 2(4) by simp
qed

subsection \<open>Sizing\<close>

lemma calculate_cases:
  assumes "calculate_volume_lots log10 i = Inr v"
  obtains raw stepped where "list_all fpos (sizing_values i)" "raw_volume i = Inr raw"
    "stepped_volume (pymin raw (si_volume_max i)) (si_volume_step i) = Inr stepped"
    "if flt stepped (si_volume_min i) then v = Fin 0
     else \<exists>n. rounding_precision log10 (si_volume_step i) = Inr n \<and> py_round stepped n = Inr v"
proof -
  have "list_all fpos (sizing_values i) \<longleftrightarrow> \<not> list_ex (\<lambda>v. \<not> is_fin v \<or> fle v (Fin 0)) (sizing_values i)"
  proof -
    have "fpos a \<longleftrightarrow> \<not> (\<not> is_fin a \<or> fle a (Fin 0))" for a by (cases a) (auto simp: fpos_def)
    then show ?thesis by (simp add: list_all_iff list_ex_iff)
  qed
  then show thesis
    using assms that by (auto simp: calculate_volume_lots_def res_simps split: if_splits)
qed

text \<open>A sizing input with more equity and a tighter stop.\<close>

definition safer_input :: "sizing_input \<Rightarrow> sizing_input \<Rightarrow> bool" where
  "safer_input i j \<longleftrightarrow> fle (si_equity i) (si_equity j) \<and> fle (si_stop_distance_price j) (si_stop_distance_price i) \<and>
     j = i\<lparr>si_equity := si_equity j, si_stop_distance_price := si_stop_distance_price j\<rparr>"

lemma safer_same:
  assumes "safer_input i j"
  shows "si_risk_fraction j = si_risk_fraction i" "si_tick_size j = si_tick_size i"
    "si_tick_value_loss j = si_tick_value_loss i" "si_volume_min j = si_volume_min i"
    "si_volume_max j = si_volume_max i" "si_volume_step j = si_volume_step i"
  using assms unfolding safer_input_def by (metis sizing_input.select_convs sizing_input.surjective
      sizing_input.update_convs)+

lemma raw_mono:
  assumes "safer_input i j" "list_all fpos (sizing_values i)" "list_all fpos (sizing_values j)"
    and "raw_volume i = Inr a" "raw_volume j = Inr b" "a \<noteq> NaN" "b \<noteq> NaN"
  shows "fle a b \<and> fle (Fin 0) a"
proof -
  note same = safer_same[OF assms(1)]
  have mono: "fle (si_equity i) (si_equity j)" "fle (si_stop_distance_price j) (si_stop_distance_price i)"
    using assms(1) by (simp_all add: safer_input_def)
  obtain e e' r d d' ts tv where v: "si_equity i = Fin e" "si_equity j = Fin e'" "si_risk_fraction i = Fin r"
      "si_stop_distance_price i = Fin d" "si_stop_distance_price j = Fin d'" "si_tick_size i = Fin ts"
      "si_tick_value_loss i = Fin tv" and pos: "0 < e" "0 < e'" "0 < r" "0 < d" "0 < d'" "0 < ts" "0 < tv"
    using assms(2,3) by (auto simp: sizing_values_def elim!: fposE)
  have le: "e \<le> e'" "d' \<le> d" using mono v by simp_all
  define t t' where "t = rnd (d / ts)" and "t' = rnd (d' / ts)"
  have tt: "fle t' t" "fle (Fin 0) t'"
    unfolding t_def t'_def using le pos by (auto intro!: rnd_mono divide_right_mono)
  have L: "fle (fmul t' (Fin tv)) (fmul t (Fin tv))" "fle (Fin 0) (fmul t' (Fin tv))"
    using tt pos by (cases t; cases t'; auto simp: inf_of_sign_def intro!: rnd_mono mult_right_mono)+
  have a: "fdiv (fmul (Fin e) (Fin r)) (fmul t (Fin tv)) = Inr a"
    using assms(4) v pos by (simp add: raw_volume_def t_def)
  have b: "fdiv (fmul (Fin e') (Fin r)) (fmul t' (Fin tv)) = Inr b"
    using assms(5) v pos by (simp add: raw_volume_def t'_def same)
  have er: "fle (Fin 0) (fmul (Fin e) (Fin r))" "fle (fmul (Fin e) (Fin r)) (fmul (Fin e') (Fin r))"
    using le pos by (auto intro!: rnd_mono mult_right_mono)
  show ?thesis
  proof (cases "is_fin (fmul (Fin e') (Fin r))")
    case True
    from fdiv_mono[OF er True L(2,1) a b] show ?thesis by simp
  next
    case False
    then have inf: "fmul (Fin e') (Fin r) = PInf"
      using er fle_trans[OF er] by (cases "fmul (Fin e') (Fin r)") (auto split: f64.splits)
    then have "b = PInf"
      using b assms(7) L(2) by (cases "fmul t' (Fin tv)") (auto simp: inf_of_sign_def split: if_splits)
    moreover have "fle (Fin 0) (fmul t (Fin tv))" using fle_trans[OF L(2,1)] .
    then have "fle (Fin 0) a"
      using a er(1) assms(6) by (cases "fmul (Fin e) (Fin r)"; cases "fmul t (Fin tv)")
        (auto simp: inf_of_sign_def split: if_splits)
    ultimately show ?thesis using assms(6) by simp
  qed
qed

lemma stepped_not_NaN: "stepped_volume a stp = Inr x \<Longrightarrow> fpos stp \<Longrightarrow> a \<noteq> NaN"
  by (auto simp: stepped_volume_def res_simps elim!: fposE)

subsection \<open>Properties\<close>

text \<open>C33. Sizing is monotone through all its roundings: with the same broker specification, more equity and
  a tighter stop never give a smaller volume. A volume is never negative.\<close>

theorem sizing_monotone:
  assumes "safer_input i j" "calculate_volume_lots log10 i = Inr v" "calculate_volume_lots log10 j = Inr w"
  shows "fle v w \<and> fle (Fin 0) v"
proof -
  note same = safer_same[OF assms(1)]
  obtain a x where i: "list_all fpos (sizing_values i)" "raw_volume i = Inr a"
      "stepped_volume (pymin a (si_volume_max i)) (si_volume_step i) = Inr x"
      "if flt x (si_volume_min i) then v = Fin 0
       else \<exists>n. rounding_precision log10 (si_volume_step i) = Inr n \<and> py_round x n = Inr v"
    using calculate_cases[OF assms(2)] by metis
  obtain b y where j: "list_all fpos (sizing_values j)" "raw_volume j = Inr b"
      "stepped_volume (pymin b (si_volume_max i)) (si_volume_step i) = Inr y"
      "if flt y (si_volume_min i) then w = Fin 0
       else \<exists>n. rounding_precision log10 (si_volume_step i) = Inr n \<and> py_round y n = Inr w"
    using calculate_cases[OF assms(3)] unfolding same by metis
  obtain mx mn stp where p: "si_volume_max i = Fin mx" "0 < mx" "fpos (si_volume_step i)"
      "si_volume_min i = Fin mn" "0 < mn"
    using i(1) by (auto simp: sizing_values_def elim!: fposE)
  have nn: "a \<noteq> NaN" "b \<noteq> NaN"
    using stepped_not_NaN[OF i(3) p(3)] stepped_not_NaN[OF j(3) p(3)] p(1) by (auto simp: pymin_def)
  have ab: "fle a b" "fle (Fin 0) a" using raw_mono[OF assms(1) i(1) j(1) i(2) j(2) nn] by simp_all
  have "fle (pymin a (Fin mx)) (pymin b (Fin mx))" using ab(1) by (intro pymin_mono) auto
  moreover have "fle (Fin 0) (pymin a (Fin mx))" using ab(2) p(2) by (auto simp: pymin_def)
  moreover have "is_fin (pymin b (Fin mx))"
    using fle_trans[OF ab(2,1)] by (cases b) (auto simp: pymin_def)
  ultimately have xy: "fle x y" "fle (Fin 0) x"
    using stepped_mono[OF _ _ _ p(3) i(3)[unfolded p(1)] j(3)[unfolded p(1)]] by simp_all
  have r0: "fle (Fin 0) r" if "py_round z n = Inr r" "fle (Fin 0) z" for z n r
  proof -
    have "\<exists>r0. py_round (Fin 0) n = Inr r0 \<and> r0 = Fin 0" by auto
    then show ?thesis using py_round_mono[OF that(2) _ that(1), of "Fin 0"] by auto
  qed
  have y0: "fle (Fin 0) y" using fle_trans[OF xy(2,1)] .
  have w0: "fle (Fin 0) w" using j(4) r0[OF _ y0] by (auto split: if_splits)
  have v0: "fle (Fin 0) v" using i(4) r0[OF _ xy(2)] by (auto split: if_splits)
  show ?thesis
  proof (cases "flt x (si_volume_min i)")
    case True
    then show ?thesis using i(4) w0 by simp
  next
    case False
    then have "\<not> flt y (si_volume_min i)" using fle_flt_trans[OF xy(1)] by blast
    with False i(4) j(4) obtain n n' where "py_round x n = Inr v" "py_round y n' = Inr w" "n = n'" by auto
    then show ?thesis using py_round_mono[OF xy(1)] v0 by auto
  qed
qed

text \<open>Concrete sizing: one currency unit of loss per lot and unit steps.\<close>

definition demo_sizing :: "f64 \<Rightarrow> sizing_input" where
  "demo_sizing equity = \<lparr>si_equity = equity, si_risk_fraction = Fin 1, si_stop_distance_price = Fin 1,
     si_tick_size = Fin 1, si_tick_value_loss = Fin 1, si_volume_min = Fin 1, si_volume_max = Fin 100,
     si_volume_step = Fin 1\<rparr>"

lemma rhe_numeral: "rhe (numeral k) = numeral k"
  using rhe_of_int[of "numeral k"] by simp

lemma demo_sums:
  "rnd (1 + 4951760157141521 / 2 ^ 92) = Fin (562949953421875 / 562949953421312)"
  "rnd (2 + 4951760157141521 / 2 ^ 92) = Fin (1125899906843187 / 562949953421312)"
  "rnd ((1 - 1 / 2 ^ 50) + 4951760157141521 / 2 ^ 92) = Fin (1125899906843749 / 1125899906842624)"
  using rnd_cert[of "- 52" "1 + 4951760157141521 / 2 ^ 92" 4503599627375000]
    rnd_cert[of "- 51" "2 + 4951760157141521 / 2 ^ 92" 4503599627372748]
    rnd_cert[of "- 52" "(1 - 1 / 2 ^ 50) + 4951760157141521 / 2 ^ 92" 4503599627374996]
  by (simp_all add: power_int_def f64_max_def power_one_over)

lemma rnd_quotients:
  "rnd (562949953421875 / 562949953421312) = Fin (562949953421875 / 562949953421312)"
  "rnd (1125899906843187 / 562949953421312) = Fin (1125899906843187 / 562949953421312)"
  "rnd (1125899906843749 / 1125899906842624) = Fin (1125899906843749 / 1125899906842624)"
  using rnd_dyadic[of 562949953421875 49] rnd_dyadic[of 1125899906843187 49]
    rnd_dyadic[of 1125899906843749 50] by simp_all

lemma demo_floors:
  "\<lfloor>562949953421875 / 562949953421312 :: rat\<rfloor> = 1" "\<lfloor>1125899906843187 / 562949953421312 :: rat\<rfloor> = 2"
  "\<lfloor>1125899906843749 / 1125899906842624 :: rat\<rfloor> = 1"
  by (simp_all add: floor_eq_iff)

lemma demo_round: "py_round (Fin 1) 2 = Inr (Fin 1)" "py_round (Fin 2) 2 = Inr (Fin 2)"
  by (simp_all add: power_int_def rhe_numeral rnd_eval)

lemmas sizing_eval = calculate_volume_lots_def sizing_values_def demo_sizing_def raw_volume_def
  stepped_volume_def pymin_def rounding_precision_def float_of_int_def

lemma demo_sizes:
  "calculate_volume_lots (\<lambda>_. Fin 0) (demo_sizing (Fin 1)) = Inr (Fin 1)"
  "calculate_volume_lots (\<lambda>_. Fin 0) (demo_sizing (Fin 2)) = Inr (Fin 2)"
  using rnd_pico demo_sums rnd_quotients demo_floors demo_round
  by (simp_all add: sizing_eval rnd_eval)

theorem sizing_monotone_witness:
  "\<exists>v w. calculate_volume_lots (\<lambda>_. Fin 0) (demo_sizing (Fin 1)) = Inr v \<and>
     calculate_volume_lots (\<lambda>_. Fin 0) (demo_sizing (Fin 2)) = Inr w \<and> fle v w"
proof -
  have "safer_input (demo_sizing (Fin 1)) (demo_sizing (Fin 2))"
    by (simp add: safer_input_def demo_sizing_def)
  from sizing_monotone[OF this demo_sizes] show ?thesis using demo_sizes by blast
qed

end
