(* ===== verification/RiskBoundary.thy ===== *)
theory RiskBoundary
  imports Discipline RiskSizing
begin

section \<open>The risk boundary (\<open>risk_boundary/contracts.py\<close>, \<open>risk_boundary/evaluator.py\<close>)\<close>

text \<open>
  The financial veto between discipline and execution: policy, context and outcome contracts and
  \<open>evaluate_risk\<close>. The evaluator collects reasons in four groups (availability, limits, sizing,
  exposure); each group is a definition and \<open>evaluate_risk\<close> chains them as the source does.
\<close>

subsection \<open>Contracts\<close>

datatype risk_result = RR_PASS | RR_REJECT | RR_NO_ACTION | RR_EMERGENCY_STOP

datatype risk_reason =
    RK_PASSED | DISCIPLINE_NOT_PASSED | KILL_SWITCH | EMERGENCY_DAILY_DRAWDOWN
  | EMERGENCY_TOTAL_DRAWDOWN | ACCOUNT_NOT_FRESH | MARKET_NOT_FRESH | POSITION_BOOK_NOT_FRESH
  | ORDER_BOOK_NOT_FRESH | EXPOSURE_NOT_FRESH | BROKER_CONSTRAINTS_NOT_FRESH | MISSING_ACCOUNT_VALUES
  | ACCOUNT_INCONSISTENT | INSUFFICIENT_FREE_MARGIN | MARGIN_LEVEL_LIMIT | DAILY_DRAWDOWN_LIMIT
  | TOTAL_DRAWDOWN_LIMIT | POSITION_LIMIT | PENDING_ORDER_LIMIT | MISSING_EXPOSURE_VALUES
  | GROSS_EXPOSURE_LIMIT | NET_EXPOSURE_LIMIT | SPREAD_UNAVAILABLE | SPREAD_LIMIT
  | SLIPPAGE_UNAVAILABLE | SLIPPAGE_LIMIT | BROKER_TRADING_DISABLED | MISSING_BROKER_VALUES
  | INVALID_STOP_DIRECTION | MINIMUM_STOP_DISTANCE | BROKER_STOP_LEVEL | BROKER_FREEZE_LEVEL
  | MISSING_SIZING_INPUTS | VOLUME_BELOW_MINIMUM

record risk_policy =
  kp_id :: string
  kp_version :: string
  kp_risk_fraction :: f64
  kp_max_daily_drawdown :: f64
  kp_emergency_daily_drawdown :: f64
  kp_max_total_drawdown :: f64
  kp_emergency_total_drawdown :: f64
  kp_min_margin_level :: f64
  kp_free_margin_buffer :: f64
  kp_max_open_positions :: int
  kp_max_pending_orders :: int
  kp_max_gross_lots :: f64
  kp_max_abs_net_lots :: f64
  kp_max_spread_points :: f64
  kp_max_slippage_points :: f64
  kp_max_age_seconds :: f64
  kp_min_stop_points :: f64
  kp_max_volume_lots :: f64
  kp_consistency_tolerance :: f64

definition open_unit :: "f64 \<Rightarrow> bool" where
  "open_unit x \<longleftrightarrow> flt (Fin 0) x \<and> flt x (Fin 1)"

definition risk_policy_rules :: "risk_policy \<Rightarrow> (bool \<times> py_error) list" where
  "risk_policy_rules p =
     [nonempty ''policy_version'' (kp_version p),
      field_ok ''risk_fraction_per_trade''
        (flt (Fin 0) (kp_risk_fraction p) \<and> fle (kp_risk_fraction p) (lit (1 / 10))),
      field_ok ''max_daily_drawdown_fraction'' (open_unit (kp_max_daily_drawdown p)),
      field_ok ''emergency_daily_drawdown_fraction'' (open_unit (kp_emergency_daily_drawdown p)),
      field_ok ''max_total_drawdown_fraction'' (open_unit (kp_max_total_drawdown p)),
      field_ok ''emergency_total_drawdown_fraction'' (open_unit (kp_emergency_total_drawdown p)),
      field_ok ''minimum_margin_level'' (flt (Fin 0) (kp_min_margin_level p)),
      field_ok ''free_margin_buffer_fraction''
        (fle (Fin 0) (kp_free_margin_buffer p) \<and> fle (kp_free_margin_buffer p) (Fin 10)),
      field_ok ''max_open_positions'' (0 < kp_max_open_positions p),
      field_ok ''max_pending_orders'' (0 \<le> kp_max_pending_orders p),
      field_ok ''max_gross_lots'' (flt (Fin 0) (kp_max_gross_lots p)),
      field_ok ''max_abs_net_lots'' (flt (Fin 0) (kp_max_abs_net_lots p)),
      field_ok ''max_spread_points'' (fle (Fin 0) (kp_max_spread_points p)),
      field_ok ''max_slippage_points'' (fle (Fin 0) (kp_max_slippage_points p)),
      field_ok ''max_component_age_seconds'' (flt (Fin 0) (kp_max_age_seconds p)),
      field_ok ''minimum_stop_distance_points'' (fle (Fin 0) (kp_min_stop_points p)),
      field_ok ''max_approved_volume_lots'' (flt (Fin 0) (kp_max_volume_lots p)),
      field_ok ''account_consistency_tolerance_fraction''
        (fle (Fin 0) (kp_consistency_tolerance p) \<and> fle (kp_consistency_tolerance p) (Fin 1)),
      rule_ok ''emergency daily drawdown must exceed the ordinary limit''
        (\<not> fle (kp_emergency_daily_drawdown p) (kp_max_daily_drawdown p)),
      rule_ok ''emergency total drawdown must exceed the ordinary limit''
        (\<not> fle (kp_emergency_total_drawdown p) (kp_max_total_drawdown p))]"

definition mk_risk_policy :: "(risk_policy \<Rightarrow> string) \<Rightarrow> risk_policy \<Rightarrow> risk_policy res" where
  "mk_risk_policy h p = res_bind (validate (risk_policy_rules p) p)
     (bind_identity ''rp-'' h (\<lambda>r. r\<lparr>kp_id := []\<rparr>) kp_id (\<lambda>i r. r\<lparr>kp_id := i\<rparr>)
        ''policy_id does not match Risk policy content'')"

record risk_context =
  rx_id :: string
  rx_as_of :: dt
  rx_available_at :: dt
  rx_symbol :: string
  rx_account :: account_state
  rx_market :: market_state
  rx_positions :: position_book_state
  rx_orders :: order_book_state
  rx_exposure :: exposure_state
  rx_broker :: broker_constraints
  rx_entry_price :: "f64 option"
  rx_stop_loss_price :: "f64 option"
  rx_margin_required :: "f64 option"
  rx_slippage_points :: "f64 option"
  rx_daily_drawdown :: f64
  rx_total_drawdown :: f64
  rx_kill_switch :: bool

text \<open>The six component states with their \<open>as_of\<close> and freshness, in source order.\<close>

definition context_states :: "risk_context \<Rightarrow> (dt \<times> component_freshness \<times> risk_reason) list" where
  "context_states c =
     [(ac_as_of (rx_account c), ac_freshness (rx_account c), ACCOUNT_NOT_FRESH),
      (ms_as_of (rx_market c), ms_freshness (rx_market c), MARKET_NOT_FRESH),
      (pb_as_of (rx_positions c), pb_freshness (rx_positions c), POSITION_BOOK_NOT_FRESH),
      (ob_as_of (rx_orders c), ob_freshness (rx_orders c), ORDER_BOOK_NOT_FRESH),
      (ex_as_of (rx_exposure c), ex_freshness (rx_exposure c), EXPOSURE_NOT_FRESH),
      (bc_as_of (rx_broker c), bc_freshness (rx_broker c), BROKER_CONSTRAINTS_NOT_FRESH)]"

definition risk_context_rules :: "risk_context \<Rightarrow> (bool \<times> py_error) list" where
  "risk_context_rules c =
     [nonempty ''symbol'' (rx_symbol c),
      field_ok ''entry_price'' (opt_all pos_fin (rx_entry_price c)),
      field_ok ''stop_loss_price'' (opt_all pos_fin (rx_stop_loss_price c)),
      field_ok ''estimated_margin_required'' (opt_all pos_fin (rx_margin_required c)),
      field_ok ''estimated_slippage_points'' (opt_all nonneg_fin (rx_slippage_points c)),
      field_ok ''daily_drawdown_fraction'' (unit_float (rx_daily_drawdown c)),
      field_ok ''total_drawdown_fraction'' (unit_float (rx_total_drawdown c)),
      rule_ok ''Risk context cannot be available after as_of'' (rx_available_at c \<le> rx_as_of c),
      rule_ok ''Risk context cannot contain future state''
        (list_all (\<lambda>(t, _). t \<le> rx_as_of c) (context_states c)),
      rule_ok ''Risk context cannot contain future availability''
        (list_all (\<lambda>(_, f, _). opt_all (\<lambda>t. t \<le> rx_as_of c) (cf_available_at f)) (context_states c)),
      rule_ok ''Risk market and broker symbols must match context symbol''
        (ms_symbol (rx_market c) = rx_symbol c \<and> bc_symbol (rx_broker c) = rx_symbol c),
      rule_ok ''Risk positions must match context symbol''
        (list_all (\<lambda>p. pos_symbol p = rx_symbol c) (pb_positions (rx_positions c))),
      rule_ok ''Risk orders must match context symbol''
        (list_all (\<lambda>p. ord_symbol p = rx_symbol c) (ob_orders (rx_orders c)))]"

definition mk_risk_context :: "(risk_context \<Rightarrow> string) \<Rightarrow> risk_context \<Rightarrow> risk_context res" where
  "mk_risk_context h c = res_bind (validate (risk_context_rules c) c)
     (bind_identity ''rc-'' h (\<lambda>r. r\<lparr>rx_id := []\<rparr>) rx_id (\<lambda>i r. r\<lparr>rx_id := i\<rparr>)
        ''context_id does not match Risk context content'')"

record risk_outcome =
  ro_id :: string
  ro_master_proposal_id :: string
  ro_evidence_bundle_id :: string
  ro_discipline_outcome_id :: string
  ro_discipline_result :: discipline_result
  ro_policy_id :: string
  ro_policy_version :: string
  ro_context_id :: string
  ro_setup_id :: "string option"
  ro_thesis_id :: "string option"
  ro_scenario_id :: "string option"
  ro_symbol :: string
  ro_as_of :: dt
  ro_available_at :: dt
  ro_master_decision :: signal
  ro_result :: risk_result
  ro_eligible :: bool
  ro_reason_codes :: "risk_reason list"
  ro_risk_fraction :: f64
  ro_risk_budget :: "f64 option"
  ro_stop_points :: "f64 option"
  ro_volume :: "f64 option"
  ro_projected_gross :: "f64 option"
  ro_projected_net :: "f64 option"
  ro_margin_required :: "f64 option"
  ro_rationale :: string

definition sized_values :: "risk_outcome \<Rightarrow> f64 option list" where
  "sized_values r = [ro_risk_budget r, ro_stop_points r, ro_volume r, ro_projected_gross r,
     ro_projected_net r, ro_margin_required r]"

definition risk_outcome_rules :: "risk_outcome \<Rightarrow> (bool \<times> py_error) list" where
  "risk_outcome_rules r =
     [nonempty ''master_proposal_id'' (ro_master_proposal_id r),
      nonempty ''evidence_bundle_id'' (ro_evidence_bundle_id r),
      nonempty ''discipline_outcome_id'' (ro_discipline_outcome_id r),
      nonempty ''risk_policy_id'' (ro_policy_id r), nonempty ''risk_policy_version'' (ro_policy_version r),
      nonempty ''risk_context_id'' (ro_context_id r), nonempty ''symbol'' (ro_symbol r),
      field_ok ''reason_codes'' (ro_reason_codes r \<noteq> []),
      field_ok ''risk_fraction'' (fle (Fin 0) (ro_risk_fraction r) \<and> fle (ro_risk_fraction r) (Fin 1)),
      field_ok ''risk_budget_amount'' (opt_all pos_fin (ro_risk_budget r)),
      field_ok ''stop_distance_points'' (opt_all pos_fin (ro_stop_points r)),
      field_ok ''approved_volume_lots'' (opt_all pos_fin (ro_volume r)),
      field_ok ''projected_gross_lots'' (opt_all nonneg_fin (ro_projected_gross r)),
      field_ok ''projected_net_lots'' (opt_all is_fin (ro_projected_net r)),
      field_ok ''estimated_margin_required'' (opt_all pos_fin (ro_margin_required r)),
      field_ok ''rationale'' (1 \<le> length (ro_rationale r) \<and> length (ro_rationale r) \<le> 500),
      rule_ok ''Risk outcome cannot be available after as_of'' (ro_available_at r \<le> ro_as_of r),
      rule_ok ''only PASS may remain eligible for future execution''
        (ro_eligible r = (ro_result r = RR_PASS)),
      rule_ok ''PASS requires complete deterministic sizing output''
        (\<not> (ro_result r = RR_PASS \<and> list_ex (\<lambda>v. v = None) (sized_values r))),
      rule_ok ''non-PASS outcomes cannot approve or project a trade''
        (\<not> (ro_result r \<noteq> RR_PASS \<and> list_ex (\<lambda>v. v \<noteq> None) (sized_values r))),
      rule_ok ''NO_ACTION requires a non-PASS Discipline outcome''
        (\<not> (ro_result r = RR_NO_ACTION \<and> ro_discipline_result r = DR_PASS)),
      rule_ok ''EMERGENCY_STOP requires an emergency reason''
        (\<not> (ro_result r = RR_EMERGENCY_STOP
            \<and> set (ro_reason_codes r) \<inter> {KILL_SWITCH, EMERGENCY_DAILY_DRAWDOWN, EMERGENCY_TOTAL_DRAWDOWN} = {})),
      rule_ok ''Risk reason codes must be unique'' (distinct (ro_reason_codes r))]"

definition mk_risk_outcome :: "(risk_outcome \<Rightarrow> string) \<Rightarrow> risk_outcome \<Rightarrow> risk_outcome res" where
  "mk_risk_outcome h r = res_bind (validate (risk_outcome_rules r) r)
     (bind_identity ''ro-'' h (\<lambda>r. r\<lparr>ro_id := []\<rparr>) ro_id (\<lambda>i r. r\<lparr>ro_id := i\<rparr>)
        ''outcome_id does not match Risk outcome content'')"

interpretation risk_outcome_identity: content_addressed "''ro-''" h "\<lambda>r. r\<lparr>ro_id := []\<rparr>" ro_id
    "\<lambda>i r. r\<lparr>ro_id := i\<rparr>" "''outcome_id does not match Risk outcome content''"
  for h :: "risk_outcome \<Rightarrow> string"
  by unfold_locales simp_all

subsection \<open>The evaluator\<close>

text \<open>The conservative demo defaults.\<close>

definition default_demo_risk_policy :: risk_policy where
  "default_demo_risk_policy =
     \<lparr>kp_id = [], kp_version = ''demo-v1'', kp_risk_fraction = lit (5 / 1000),
      kp_max_daily_drawdown = lit (2 / 100), kp_emergency_daily_drawdown = lit (4 / 100),
      kp_max_total_drawdown = lit (1 / 10), kp_emergency_total_drawdown = lit (15 / 100),
      kp_min_margin_level = Fin 200, kp_free_margin_buffer = lit (1 / 10), kp_max_open_positions = 1,
      kp_max_pending_orders = 0, kp_max_gross_lots = Fin 1, kp_max_abs_net_lots = Fin 1,
      kp_max_spread_points = Fin 50, kp_max_slippage_points = Fin 10, kp_max_age_seconds = Fin 15,
      kp_min_stop_points = Fin 10, kp_max_volume_lots = Fin 10,
      kp_consistency_tolerance = lit (5 / 100)\<rparr>"

record risk_verdict =
  rv_result :: risk_result
  rv_reasons :: "risk_reason list"
  rv_rationale :: string
  rv_budget :: "f64 option"
  rv_stop_points :: "f64 option"
  rv_volume :: "f64 option"
  rv_gross :: "f64 option"
  rv_net :: "f64 option"
  rv_margin :: "f64 option"

definition refusal :: "risk_result \<Rightarrow> risk_reason list \<Rightarrow> string \<Rightarrow> risk_verdict" where
  "refusal r cs t = \<lparr>rv_result = r, rv_reasons = cs, rv_rationale = t, rv_budget = None,
     rv_stop_points = None, rv_volume = None, rv_gross = None, rv_net = None, rv_margin = None\<rparr>"

definition risk_outcome_of ::
  "(risk_outcome \<Rightarrow> string) \<Rightarrow> master_proposal \<Rightarrow> discipline_outcome \<Rightarrow> risk_context \<Rightarrow> risk_policy
     \<Rightarrow> risk_verdict \<Rightarrow> risk_outcome res" where
  "risk_outcome_of h m d c p v = mk_risk_outcome h
     \<lparr>ro_id = [], ro_master_proposal_id = mp_id m, ro_evidence_bundle_id = mp_bundle_id m,
      ro_discipline_outcome_id = do_id d, ro_discipline_result = do_result d,
      ro_policy_id = kp_id p, ro_policy_version = kp_version p, ro_context_id = rx_id c,
      ro_setup_id = do_setup_id d, ro_thesis_id = do_thesis_id d, ro_scenario_id = do_scenario_id d,
      ro_symbol = rx_symbol c, ro_as_of = mp_as_of m,
      ro_available_at = max (do_available_at d) (rx_available_at c),
      ro_master_decision = mp_decision m, ro_result = rv_result v,
      ro_eligible = (rv_result v = RR_PASS), ro_reason_codes = rv_reasons v,
      ro_risk_fraction = (if rv_result v \<noteq> RR_NO_ACTION then kp_risk_fraction p else Fin 0),
      ro_risk_budget = rv_budget v, ro_stop_points = rv_stop_points v, ro_volume = rv_volume v,
      ro_projected_gross = rv_gross v, ro_projected_net = rv_net v, ro_margin_required = rv_margin v,
      ro_rationale = rv_rationale v\<rparr>"

definition is_fresh :: "component_freshness \<Rightarrow> dt \<Rightarrow> dt \<Rightarrow> f64 \<Rightarrow> bool" where
  "is_fresh f state_as_of now max_age \<longleftrightarrow>
     (if cf_status f \<noteq> FS_AVAILABLE then False
      else case cf_available_at f of None \<Rightarrow> False
      | Some av \<Rightarrow> fle (total_seconds (now - av)) max_age \<and> fle (total_seconds (now - state_as_of)) max_age)"

definition risk_guards ::
  "master_proposal \<Rightarrow> discipline_outcome \<Rightarrow> risk_context \<Rightarrow> (bool \<times> py_error) list" where
  "risk_guards m d c =
     [rule_ok ''Discipline outcome does not belong to Master proposal''
        (do_master_proposal_id d = mp_id m),
      rule_ok ''Discipline and Master evidence bundle identities differ''
        (do_evidence_bundle_id d = mp_bundle_id m),
      rule_ok ''Risk inputs must share one causal as_of''
        (\<not> (do_as_of d \<noteq> mp_as_of m \<or> rx_as_of c \<noteq> mp_as_of m)),
      rule_ok ''Discipline and Master decisions differ'' (do_master_decision d = mp_decision m)]"

definition emergency_reasons :: "risk_context \<Rightarrow> risk_policy \<Rightarrow> risk_reason list" where
  "emergency_reasons c p =
     (if fle (kp_emergency_daily_drawdown p) (rx_daily_drawdown c) then [EMERGENCY_DAILY_DRAWDOWN] else []) @
     (if fle (kp_emergency_total_drawdown p) (rx_total_drawdown c) then [EMERGENCY_TOTAL_DRAWDOWN] else [])"

definition account_required :: "risk_context \<Rightarrow> f64 option list" where
  "account_required c = (let a = rx_account c in
     [ac_balance a, ac_equity a, ac_free_margin a, ac_used_margin a, ac_margin_level a,
      ac_daily_drawdown a, ac_total_drawdown a])"

definition broker_required :: "risk_context \<Rightarrow> f64 option list" where
  "broker_required c = (let b = rx_broker c in
     [bc_volume_min b, bc_volume_max b, bc_volume_step b, bc_point_size b, bc_tick_size b,
      bc_tick_value_loss b, bc_stops_level_points b, bc_freeze_level_points b])"

definition availability_reasons ::
  "master_proposal \<Rightarrow> risk_context \<Rightarrow> risk_policy \<Rightarrow> risk_reason list" where
  "availability_reasons m c p =
     map (\<lambda>(_, _, r). r) (filter (\<lambda>(t, f, _). \<not> is_fresh f t (mp_as_of m) (kp_max_age_seconds p))
       (context_states c)) @
     (if None \<in> set (account_required c) then [MISSING_ACCOUNT_VALUES] else []) @
     (if bc_trade_allowed (rx_broker c) = None \<or> None \<in> set (broker_required c)
      then [MISSING_BROKER_VALUES] else []) @
     (if ex_gross_lots (rx_exposure c) = None \<or> ex_net_lots (rx_exposure c) = None
      then [MISSING_EXPOSURE_VALUES] else []) @
     (if ms_spread_points (rx_market c) = None then [SPREAD_UNAVAILABLE] else []) @
     (if rx_entry_price c = None \<or> rx_stop_loss_price c = None \<or> rx_margin_required c = None
      then [MISSING_SIZING_INPUTS] else []) @
     (if rx_slippage_points c = None then [SLIPPAGE_UNAVAILABLE] else [])"

text \<open>The measurements after the assertions that none of them is missing.\<close>

record risk_values =
  kv_balance :: f64
  kv_equity :: f64
  kv_free_margin :: f64
  kv_used_margin :: f64
  kv_margin_level :: f64
  kv_trade_allowed :: bool
  kv_volume_min :: f64
  kv_volume_max :: f64
  kv_volume_step :: f64
  kv_point_size :: f64
  kv_tick_size :: f64
  kv_tick_value_loss :: f64
  kv_stops_level :: f64
  kv_freeze_level :: f64
  kv_gross_lots :: f64
  kv_net_lots :: f64
  kv_spread_points :: f64
  kv_entry_price :: f64
  kv_stop_price :: f64
  kv_margin_required :: f64
  kv_slippage_points :: f64

definition assert_known :: "risk_context \<Rightarrow> risk_values res" where
  "assert_known c = validate
     [(None \<notin> set (account_required c), AssertionError),
      (bc_trade_allowed (rx_broker c) \<noteq> None \<and> None \<notin> set (broker_required c), AssertionError),
      (ex_gross_lots (rx_exposure c) \<noteq> None \<and> ex_net_lots (rx_exposure c) \<noteq> None, AssertionError),
      (ms_spread_points (rx_market c) \<noteq> None, AssertionError),
      (rx_entry_price c \<noteq> None \<and> rx_stop_loss_price c \<noteq> None \<and> rx_margin_required c \<noteq> None
        \<and> rx_slippage_points c \<noteq> None, AssertionError)]
     \<lparr>kv_balance = the (ac_balance (rx_account c)), kv_equity = the (ac_equity (rx_account c)),
      kv_free_margin = the (ac_free_margin (rx_account c)),
      kv_used_margin = the (ac_used_margin (rx_account c)),
      kv_margin_level = the (ac_margin_level (rx_account c)),
      kv_trade_allowed = the (bc_trade_allowed (rx_broker c)),
      kv_volume_min = the (bc_volume_min (rx_broker c)), kv_volume_max = the (bc_volume_max (rx_broker c)),
      kv_volume_step = the (bc_volume_step (rx_broker c)), kv_point_size = the (bc_point_size (rx_broker c)),
      kv_tick_size = the (bc_tick_size (rx_broker c)),
      kv_tick_value_loss = the (bc_tick_value_loss (rx_broker c)),
      kv_stops_level = the (bc_stops_level_points (rx_broker c)),
      kv_freeze_level = the (bc_freeze_level_points (rx_broker c)),
      kv_gross_lots = the (ex_gross_lots (rx_exposure c)), kv_net_lots = the (ex_net_lots (rx_exposure c)),
      kv_spread_points = the (ms_spread_points (rx_market c)),
      kv_entry_price = the (rx_entry_price c), kv_stop_price = the (rx_stop_loss_price c),
      kv_margin_required = the (rx_margin_required c), kv_slippage_points = the (rx_slippage_points c)\<rparr>"

definition account_reasons :: "risk_values \<Rightarrow> risk_policy \<Rightarrow> risk_reason list" where
  "account_reasons v p =
     (if fle (kv_balance v) (Fin 0) \<or> fle (kv_equity v) (Fin 0) then [ACCOUNT_INCONSISTENT] else []) @
     (if flt (fmul (pymax (kv_equity v) (Fin 1)) (kp_consistency_tolerance p))
         (fabs (fsub (fadd (kv_free_margin v) (kv_used_margin v)) (kv_equity v)))
      then [ACCOUNT_INCONSISTENT] else []) @
     (if flt (kv_free_margin v) (fmul (kv_margin_required v) (fadd (Fin 1) (kp_free_margin_buffer p)))
      then [INSUFFICIENT_FREE_MARGIN] else []) @
     (if flt (kv_margin_level v) (kp_min_margin_level p) then [MARGIN_LEVEL_LIMIT] else [])"

definition cap_reasons :: "risk_context \<Rightarrow> risk_values \<Rightarrow> risk_policy \<Rightarrow> risk_reason list" where
  "cap_reasons c v p =
     (if fle (kp_max_daily_drawdown p) (rx_daily_drawdown c) then [DAILY_DRAWDOWN_LIMIT] else []) @
     (if fle (kp_max_total_drawdown p) (rx_total_drawdown c) then [TOTAL_DRAWDOWN_LIMIT] else []) @
     (if kp_max_open_positions p \<le> int (length (pb_positions (rx_positions c))) then [POSITION_LIMIT] else []) @
     (if kp_max_pending_orders p < int (length (ob_orders (rx_orders c))) then [PENDING_ORDER_LIMIT] else []) @
     (if flt (kp_max_spread_points p) (kv_spread_points v) then [SPREAD_LIMIT] else []) @
     (if flt (kp_max_slippage_points p) (kv_slippage_points v) then [SLIPPAGE_LIMIT] else []) @
     (if \<not> kv_trade_allowed v then [BROKER_TRADING_DISABLED] else [])"

definition stop_valid :: "master_proposal \<Rightarrow> risk_values \<Rightarrow> bool" where
  "stop_valid m v \<longleftrightarrow>
     mp_decision m = SIG_BUY \<and> flt (kv_stop_price v) (kv_entry_price v) \<or>
     mp_decision m = SIG_SELL \<and> flt (kv_entry_price v) (kv_stop_price v)"

definition stop_distance :: "risk_values \<Rightarrow> f64" where
  "stop_distance v = fabs (fsub (kv_entry_price v) (kv_stop_price v))"

definition stop_reasons :: "master_proposal \<Rightarrow> risk_values \<Rightarrow> risk_policy \<Rightarrow> f64 \<Rightarrow> risk_reason list" where
  "stop_reasons m v p points =
     (if \<not> stop_valid m v then [INVALID_STOP_DIRECTION] else []) @
     (if flt points (kp_min_stop_points p) then [MINIMUM_STOP_DISTANCE] else []) @
     (if flt points (kv_stops_level v) then [BROKER_STOP_LEVEL] else []) @
     (if flt points (kv_freeze_level v) then [BROKER_FREEZE_LEVEL] else [])"

definition sizing_of :: "risk_values \<Rightarrow> risk_policy \<Rightarrow> sizing_input" where
  "sizing_of v p = \<lparr>si_equity = kv_equity v, si_risk_fraction = kp_risk_fraction p,
     si_stop_distance_price = stop_distance v, si_tick_size = kv_tick_size v,
     si_tick_value_loss = kv_tick_value_loss v, si_volume_min = kv_volume_min v,
     si_volume_max = pymin (kv_volume_max v) (kp_max_volume_lots p), si_volume_step = kv_volume_step v\<rparr>"

definition exposure_reasons :: "risk_policy \<Rightarrow> f64 \<Rightarrow> f64 \<Rightarrow> risk_reason list" where
  "exposure_reasons p gross net =
     (if flt (kp_max_gross_lots p) gross then [GROSS_EXPOSURE_LIMIT] else []) @
     (if flt (kp_max_abs_net_lots p) (fabs net) then [NET_EXPOSURE_LIMIT] else [])"

definition sized_verdict ::
  "(f64 \<Rightarrow> f64) \<Rightarrow> master_proposal \<Rightarrow> risk_values \<Rightarrow> risk_policy \<Rightarrow> f64 \<Rightarrow> risk_verdict res" where
  "sized_verdict log10 m v p points =
     res_bind (calculate_volume_lots log10 (sizing_of v p)) (\<lambda>volume. Inr
       (if feq volume (Fin 0)
        then refusal RR_REJECT [VOLUME_BELOW_MINIMUM] ''Risk-budget sizing is below the broker minimum volume.''
        else
          let gross = fadd (kv_gross_lots v) volume;
              net = fadd (kv_net_lots v) (if mp_decision m = SIG_BUY then volume else fneg volume);
              reasons = exposure_reasons p gross net
          in if reasons \<noteq> []
             then refusal RR_REJECT (dedup reasons) ''The sized proposal would exceed configured financial exposure.''
             else \<lparr>rv_result = RR_PASS, rv_reasons = [RK_PASSED],
               rv_rationale = ''The proposal passed every configured deterministic financial safety veto.'',
               rv_budget = Some (fmul (kv_equity v) (kp_risk_fraction p)), rv_stop_points = Some points,
               rv_volume = Some volume, rv_gross = Some gross, rv_net = Some net,
               rv_margin = Some (kv_margin_required v)\<rparr>))"

definition limit_verdict ::
  "(f64 \<Rightarrow> f64) \<Rightarrow> master_proposal \<Rightarrow> risk_context \<Rightarrow> risk_values \<Rightarrow> risk_policy \<Rightarrow> risk_verdict res" where
  "limit_verdict log10 m c v p =
     res_bind (fdiv (stop_distance v) (kv_point_size v)) (\<lambda>points.
       let reasons = account_reasons v p @ cap_reasons c v p @ stop_reasons m v p points
       in if reasons \<noteq> []
          then Inr (refusal RR_REJECT (dedup reasons)
            ''One or more deterministic financial safety limits rejected the proposal.'')
          else sized_verdict log10 m v p points)"

definition risk_verdict_of ::
  "(f64 \<Rightarrow> f64) \<Rightarrow> master_proposal \<Rightarrow> discipline_outcome \<Rightarrow> risk_context \<Rightarrow> risk_policy
     \<Rightarrow> risk_verdict res" where
  "risk_verdict_of log10 m d c p =
     (if do_result d \<noteq> DR_PASS
      then Inr (refusal RR_NO_ACTION [DISCIPLINE_NOT_PASSED]
        ''Only a Discipline PASS may enter financial Risk evaluation.'')
      else if rx_kill_switch c
      then Inr (refusal RR_EMERGENCY_STOP [KILL_SWITCH] ''The deterministic kill switch is active.'')
      else if emergency_reasons c p \<noteq> []
      then Inr (refusal RR_EMERGENCY_STOP (dedup (emergency_reasons c p))
        ''An emergency account drawdown threshold is reached.'')
      else if availability_reasons m c p \<noteq> []
      then Inr (refusal RR_REJECT (dedup (availability_reasons m c p))
        ''Required financial or broker state is unavailable or stale.'')
      else res_bind (assert_known c) (\<lambda>v. limit_verdict log10 m c v p))"

definition evaluate_risk ::
  "(risk_outcome \<Rightarrow> string) \<Rightarrow> (f64 \<Rightarrow> f64) \<Rightarrow> master_proposal \<Rightarrow> discipline_outcome \<Rightarrow> risk_context
     \<Rightarrow> risk_policy \<Rightarrow> risk_outcome res" where
  "evaluate_risk h log10 m d c p =
     res_bind (validate (risk_guards m d c) ()) (\<lambda>_.
     res_bind (risk_verdict_of log10 m d c p) (risk_outcome_of h m d c p))"

subsection \<open>Facts about verdicts\<close>

definition risk_inputs_ok :: "master_proposal \<Rightarrow> discipline_outcome \<Rightarrow> risk_context \<Rightarrow> risk_policy \<Rightarrow> bool" where
  "risk_inputs_ok m d c p \<longleftrightarrow> mp_id m \<noteq> [] \<and> mp_bundle_id m \<noteq> [] \<and> do_id d \<noteq> [] \<and>
     do_available_at d \<le> do_as_of d \<and> list_all fst (risk_context_rules c) \<and> rx_id c \<noteq> [] \<and>
     list_all fst (risk_policy_rules p) \<and> kp_id p \<noteq> []"

definition emergency :: "risk_context \<Rightarrow> risk_policy \<Rightarrow> bool" where
  "emergency c p \<longleftrightarrow> rx_kill_switch c \<or> fle (kp_emergency_daily_drawdown p) (rx_daily_drawdown c) \<or>
     fle (kp_emergency_total_drawdown p) (rx_total_drawdown c)"

lemma emergency_iff: "emergency c p \<longleftrightarrow> rx_kill_switch c \<or> emergency_reasons c p \<noteq> []"
  by (auto simp: emergency_def emergency_reasons_def)

lemma outcome_of_fields:
  assumes "risk_outcome_of h m d c p v = Inr r"
  shows "ro_result r = rv_result v" "ro_reason_codes r = rv_reasons v" "ro_volume r = rv_volume v"
    "ro_eligible r \<longleftrightarrow> rv_result v = RR_PASS" "ro_stop_points r = rv_stop_points v"
    "ro_risk_budget r = rv_budget v" "ro_projected_gross r = rv_gross v" "ro_projected_net r = rv_net v"
    "ro_margin_required r = rv_margin v" "list_all fst (risk_outcome_rules r)"
  using assms by (auto simp: risk_outcome_of_def mk_risk_outcome_def res_simps
      risk_outcome_identity.bind_ok_iff risk_outcome_rules_def sized_values_def)

lemma evaluate_risk_cases:
  assumes "evaluate_risk h log10 m d c p = Inr r"
  obtains v where "list_all fst (risk_guards m d c)" "risk_verdict_of log10 m d c p = Inr v"
    "risk_outcome_of h m d c p v = Inr r"
  using assms by (auto simp: evaluate_risk_def res_simps)

text \<open>A refusal with a reason of its kind always forms a valid outcome.\<close>

lemma refusal_total:
  assumes "risk_inputs_ok m d c p" "list_all fst (risk_guards m d c)" "rs \<noteq> []" "distinct rs"
    and "1 \<le> length t" "length t \<le> 500" "res \<noteq> RR_PASS" "res = RR_NO_ACTION \<longrightarrow> do_result d \<noteq> DR_PASS"
    and "res = RR_EMERGENCY_STOP \<longrightarrow>
       set rs \<inter> {KILL_SWITCH, EMERGENCY_DAILY_DRAWDOWN, EMERGENCY_TOTAL_DRAWDOWN} \<noteq> {}"
  shows "is_ok (risk_outcome_of h m d c p (refusal res rs t))"
proof -
  have "fle (Fin 0) (kp_risk_fraction p) \<and> fle (kp_risk_fraction p) (Fin 1)"
  proof -
    have "flt (Fin 0) (kp_risk_fraction p)" "fle (kp_risk_fraction p) (lit (1 / 10))"
      using assms(1) by (auto simp: risk_inputs_ok_def risk_policy_rules_def)
    moreover have "fle (lit (1 / 10)) (Fin 1)" unfolding rnd_tenth by simp
    ultimately show ?thesis using flt_imp_fle fle_trans by blast
  qed
  moreover have "rx_symbol c \<noteq> []" "rx_available_at c \<le> rx_as_of c" "kp_version p \<noteq> []"
    using assms(1) by (auto simp: risk_inputs_ok_def risk_context_rules_def risk_policy_rules_def)
  ultimately show ?thesis
    using assms by (auto simp: risk_outcome_of_def mk_risk_outcome_def is_ok_iff res_simps refusal_def
        risk_outcome_identity.bind_ok_iff risk_outcome_rules_def sized_values_def risk_guards_def
        risk_inputs_ok_def)
qed

lemma limit_not_emergency:
  "limit_verdict log10 m c v p = Inr w \<Longrightarrow> rv_result w \<in> {RR_REJECT, RR_PASS}"
  by (auto simp: limit_verdict_def sized_verdict_def refusal_def Let_def res_simps split: if_splits)

lemma limit_pass:
  assumes "limit_verdict log10 m c v p = Inr w" "rv_result w = RR_PASS"
  obtains points volume where "fdiv (stop_distance v) (kv_point_size v) = Inr points"
    "account_reasons v p @ cap_reasons c v p @ stop_reasons m v p points = []"
    "calculate_volume_lots log10 (sizing_of v p) = Inr volume" "\<not> feq volume (Fin 0)"
    "exposure_reasons p (fadd (kv_gross_lots v) volume)
       (fadd (kv_net_lots v) (if mp_decision m = SIG_BUY then volume else fneg volume)) = []"
    "rv_volume w = Some volume" "rv_stop_points w = Some points"
    "rv_budget w = Some (fmul (kv_equity v) (kp_risk_fraction p))"
    "rv_gross w = Some (fadd (kv_gross_lots v) volume)" "rv_reasons w = [RK_PASSED]"
    "rv_net w = Some (fadd (kv_net_lots v) (if mp_decision m = SIG_BUY then volume else fneg volume))"
  using assms
  by (auto simp: limit_verdict_def sized_verdict_def refusal_def Let_def res_simps split: if_splits)

lemma assert_known_after: "availability_reasons m c p = [] \<Longrightarrow> is_ok (assert_known c)"
  by (auto simp: availability_reasons_def assert_known_def is_ok_validate split: if_splits)

lemma fresh_all:
  "availability_reasons m c p = [] \<Longrightarrow>
   list_all (\<lambda>(t, f, _). is_fresh f t (mp_as_of m) (kp_max_age_seconds p)) (context_states c)"
  by (auto simp: availability_reasons_def filter_empty_conv list_all_iff)

subsection \<open>Properties\<close>

text \<open>For validated inputs that belong together, the emergency stop depends on nothing but the kill switch
  and the emergency drawdown thresholds: a discipline pass under an emergency always yields
  EMERGENCY_STOP, whatever is stale, missing or unrepresentable, and no other input yields it.\<close>

theorem risk_emergency_iff:
  assumes "risk_inputs_ok m d c p" "list_all fst (risk_guards m d c)"
  shows "do_result d = DR_PASS \<and> emergency c p \<longleftrightarrow>
    (\<exists>r. evaluate_risk h log10 m d c p = Inr r \<and> ro_result r = RR_EMERGENCY_STOP)"
proof
  assume pass: "do_result d = DR_PASS \<and> emergency c p"
  define rs where "rs = (if rx_kill_switch c then [KILL_SWITCH] else dedup (emergency_reasons c p))"
  define t where "t = (if rx_kill_switch c then ''The deterministic kill switch is active.''
    else ''An emergency account drawdown threshold is reached.'')"
  have v: "risk_verdict_of log10 m d c p = Inr (refusal RR_EMERGENCY_STOP rs t)"
    using pass by (auto simp: risk_verdict_of_def emergency_iff rs_def t_def)
  have "is_ok (risk_outcome_of h m d c p (refusal RR_EMERGENCY_STOP rs t))"
    using pass by (intro refusal_total[OF assms])
      (auto simp: rs_def t_def emergency_iff emergency_reasons_def split: if_splits)
  then obtain r where r: "risk_outcome_of h m d c p (refusal RR_EMERGENCY_STOP rs t) = Inr r"
    by (auto simp: is_ok_iff)
  then show "\<exists>r. evaluate_risk h log10 m d c p = Inr r \<and> ro_result r = RR_EMERGENCY_STOP"
    using v outcome_of_fields(1)[OF r] assms(2) by (auto simp: evaluate_risk_def validate_ok refusal_def)
next
  assume "\<exists>r. evaluate_risk h log10 m d c p = Inr r \<and> ro_result r = RR_EMERGENCY_STOP"
  then obtain r v where "risk_verdict_of log10 m d c p = Inr v" "rv_result v = RR_EMERGENCY_STOP"
    using evaluate_risk_cases outcome_of_fields(1) by metis
  then show "do_result d = DR_PASS \<and> emergency c p"
    using limit_not_emergency
    by (fastforce simp: risk_verdict_of_def refusal_def emergency_iff res_simps split: if_splits)
qed

text \<open>What an approval promises about the measurements it was computed from.\<close>

definition within_limits :: "master_proposal \<Rightarrow> risk_context \<Rightarrow> risk_values \<Rightarrow> risk_policy \<Rightarrow> bool" where
  "within_limits m c v p \<longleftrightarrow>
     \<not> fle (kv_balance v) (Fin 0) \<and> \<not> fle (kv_equity v) (Fin 0) \<and>
     \<not> flt (fmul (pymax (kv_equity v) (Fin 1)) (kp_consistency_tolerance p))
       (fabs (fsub (fadd (kv_free_margin v) (kv_used_margin v)) (kv_equity v))) \<and>
     \<not> fle (kp_max_daily_drawdown p) (rx_daily_drawdown c) \<and>
     \<not> fle (kp_max_total_drawdown p) (rx_total_drawdown c) \<and>
     int (length (pb_positions (rx_positions c))) < kp_max_open_positions p \<and>
     int (length (ob_orders (rx_orders c))) \<le> kp_max_pending_orders p \<and>
     \<not> flt (kp_max_spread_points p) (kv_spread_points v) \<and>
     \<not> flt (kp_max_slippage_points p) (kv_slippage_points v) \<and>
     \<not> flt (kv_margin_level v) (kp_min_margin_level p) \<and>
     \<not> flt (kv_free_margin v) (fmul (kv_margin_required v) (fadd (Fin 1) (kp_free_margin_buffer p))) \<and>
     kv_trade_allowed v \<and> stop_valid m v"

text \<open>C4. Safety of an approval: an outcome that stays eligible for execution comes from a discipline pass
  outside any emergency, from six component states that are all fresh, and from measurements within
  every limit: balance and equity above zero, free and used margin that add up to the equity within the
  tolerance, and the caps on drawdown, positions, orders, spread, slippage and margin, with trading allowed and
  the stop on the losing side. Its volume is exactly the sizing of the risk budget
  and not zero, the stop is no closer than the policy and the broker allow, and the projected gross
  and net exposure stay within the caps.\<close>

theorem risk_pass_safe:
  assumes "evaluate_risk h log10 m d c p = Inr r" "ro_eligible r"
  shows "do_result d = DR_PASS \<and> \<not> emergency c p \<and>
    list_all (\<lambda>(t, f, _). is_fresh f t (mp_as_of m) (kp_max_age_seconds p)) (context_states c) \<and>
    (\<exists>v volume points. assert_known c = Inr v \<and> within_limits m c v p \<and>
       calculate_volume_lots log10 (sizing_of v p) = Inr volume \<and> \<not> feq volume (Fin 0) \<and>
       ro_volume r = Some volume \<and> ro_risk_budget r = Some (fmul (kv_equity v) (kp_risk_fraction p)) \<and>
       fdiv (stop_distance v) (kv_point_size v) = Inr points \<and>
       \<not> flt points (kp_min_stop_points p) \<and> \<not> flt points (kv_stops_level v) \<and>
       \<not> flt points (kv_freeze_level v) \<and>
       \<not> flt (kp_max_gross_lots p) (fadd (kv_gross_lots v) volume) \<and>
       \<not> flt (kp_max_abs_net_lots p)
          (fabs (fadd (kv_net_lots v) (if mp_decision m = SIG_BUY then volume else fneg volume))))"
proof -
  obtain w where w: "risk_verdict_of log10 m d c p = Inr w" "risk_outcome_of h m d c p w = Inr r"
    using evaluate_risk_cases[OF assms(1)] .
  have pass: "rv_result w = RR_PASS" using assms(2) outcome_of_fields(4)[OF w(2)] by simp
  have stages: "do_result d = DR_PASS" "\<not> emergency c p" "availability_reasons m c p = []"
    using w(1) pass by (auto simp: risk_verdict_of_def refusal_def emergency_iff split: if_splits)
  then obtain v where v: "assert_known c = Inr v" "limit_verdict log10 m c v p = Inr w"
    using w(1) by (auto simp: risk_verdict_of_def emergency_iff res_simps split: if_splits)
  obtain points volume where l: "fdiv (stop_distance v) (kv_point_size v) = Inr points"
    "account_reasons v p @ cap_reasons c v p @ stop_reasons m v p points = []"
    "calculate_volume_lots log10 (sizing_of v p) = Inr volume" "\<not> feq volume (Fin 0)"
    "exposure_reasons p (fadd (kv_gross_lots v) volume)
       (fadd (kv_net_lots v) (if mp_decision m = SIG_BUY then volume else fneg volume)) = []"
    "rv_volume w = Some volume" "rv_budget w = Some (fmul (kv_equity v) (kp_risk_fraction p))"
    using limit_pass[OF v(2) pass] .
  have "within_limits m c v p" "\<not> flt points (kp_min_stop_points p)" "\<not> flt points (kv_stops_level v)"
      "\<not> flt points (kv_freeze_level v)"
    using l(2) by (auto simp: within_limits_def account_reasons_def cap_reasons_def stop_reasons_def
        split: if_splits)
  moreover have "\<not> flt (kp_max_gross_lots p) (fadd (kv_gross_lots v) volume)"
      "\<not> flt (kp_max_abs_net_lots p)
         (fabs (fadd (kv_net_lots v) (if mp_decision m = SIG_BUY then volume else fneg volume)))"
    using l(5) unfolding exposure_reasons_def by (metis append_is_Nil_conv list.distinct(1))+
  ultimately show ?thesis
    using stages fresh_all[OF stages(3)] v(1) l outcome_of_fields[OF w(2)] by auto
qed

subsection \<open>Witnesses\<close>

text \<open>A buy at 11 with the stop at 10, an account of 16 units risking one sixteenth, unit contract sizes.\<close>

definition demo_fresh :: component_freshness where
  "demo_fresh = \<lparr>cf_component = ''replay'', cf_status = FS_AVAILABLE, cf_observed_at = Some 0,
     cf_available_at = Some 0, cf_stale_after_ms = None, cf_reason = None\<rparr>"

definition demo_account_state :: account_state where
  "demo_account_state = \<lparr>ac_source = ''broker'', ac_account_id = ''acct'', ac_as_of = 0,
     ac_freshness = demo_fresh, ac_currency = None, ac_balance = Some (Fin 16), ac_equity = Some (Fin 16),
     ac_free_margin = Some (Fin 16), ac_used_margin = Some (Fin 0), ac_margin_level = Some (Fin 100),
     ac_floating_pnl = None, ac_daily_realized_pnl = None, ac_daily_unrealized_pnl = None,
     ac_daily_drawdown = Some (Fin 0), ac_total_drawdown = Some (Fin 0)\<rparr>"

definition demo_broker :: broker_constraints where
  "demo_broker = \<lparr>bc_source = ''broker'', bc_symbol = ''XAUUSD'', bc_as_of = 0, bc_freshness = demo_fresh,
     bc_trade_allowed = Some True, bc_digits = Some 2, bc_volume_min = Some (Fin 1),
     bc_volume_max = Some (Fin 100), bc_volume_step = Some (Fin 1), bc_point_size = Some (Fin 1),
     bc_tick_size = Some (Fin 1), bc_tick_value_loss = Some (Fin 1), bc_stops_level_points = Some (Fin 0),
     bc_freeze_level_points = Some (Fin 0)\<rparr>"

definition demo_risk_context :: "bool \<Rightarrow> risk_context" where
  "demo_risk_context kill = \<lparr>rx_id = ''rc-1'', rx_as_of = 0, rx_available_at = 0, rx_symbol = ''XAUUSD'',
     rx_account = demo_account_state,
     rx_market = \<lparr>ms_source = ''broker'', ms_symbol = ''XAUUSD'', ms_as_of = 0, ms_freshness = demo_fresh,
       ms_bid = None, ms_ask = None, ms_last = None, ms_spread_points = Some (Fin 1),
       ms_base_timeframe = None, ms_completed_timeframes = [], ms_feature_manifest_id = None,
       ms_market_data_version = None\<rparr>,
     rx_positions = \<lparr>pb_source = ''broker'', pb_as_of = 0, pb_freshness = demo_fresh, pb_positions = []\<rparr>,
     rx_orders = \<lparr>ob_source = ''broker'', ob_as_of = 0, ob_freshness = demo_fresh, ob_orders = []\<rparr>,
     rx_exposure = \<lparr>ex_as_of = 0, ex_freshness = demo_fresh, ex_gross_lots = Some (Fin 0),
       ex_net_lots = Some (Fin 0), ex_gross_notional = None, ex_net_notional = None\<rparr>,
     rx_broker = demo_broker, rx_entry_price = Some (Fin 11), rx_stop_loss_price = Some (Fin 10),
     rx_margin_required = Some (Fin 1), rx_slippage_points = Some (Fin 0), rx_daily_drawdown = Fin 0,
     rx_total_drawdown = Fin 0, rx_kill_switch = kill\<rparr>"

definition demo_risk_policy :: risk_policy where
  "demo_risk_policy = \<lparr>kp_id = ''rp-1'', kp_version = ''v1'', kp_risk_fraction = Fin (1 / 16),
     kp_max_daily_drawdown = Fin (1 / 4), kp_emergency_daily_drawdown = Fin (1 / 2),
     kp_max_total_drawdown = Fin (1 / 4), kp_emergency_total_drawdown = Fin (1 / 2),
     kp_min_margin_level = Fin 1, kp_free_margin_buffer = Fin 0, kp_max_open_positions = 1,
     kp_max_pending_orders = 0, kp_max_gross_lots = Fin 2, kp_max_abs_net_lots = Fin 2,
     kp_max_spread_points = Fin 1, kp_max_slippage_points = Fin 1, kp_max_age_seconds = Fin 60,
     kp_min_stop_points = Fin 1, kp_max_volume_lots = Fin 100, kp_consistency_tolerance = Fin 0\<rparr>"

definition demo_outcome :: discipline_outcome where
  "demo_outcome = \<lparr>do_id = ''do-1'', do_master_proposal_id = mp_id (demo_master 0),
     do_evidence_bundle_id = mp_bundle_id (demo_master 0), do_policy_id = ''dp-1'',
     do_policy_version = ''v1'', do_state_id = ''ds-1'', do_context_id = ''dc-1'',
     do_setup_id = None, do_thesis_id = None, do_scenario_id = None, do_as_of = 0, do_available_at = 0,
     do_master_decision = SIG_BUY, do_result = DR_PASS, do_eligible_for_risk = True,
     do_reason_codes = [PASSED], do_counters = \<lparr>dk_trades_today = 0, dk_trades_this_session = 0,
       dk_consecutive_losses = 0, dk_active_positions = 0\<rparr>, do_next_eligible_at = None,
     do_duplicate_status = DS_NONE, do_reentry_status = RS_NOT_REENTRY, do_rationale = ''passed''\<rparr>"

lemmas demo_risk_defs = demo_risk_context_def demo_account_state_def demo_broker_def demo_fresh_def
  demo_risk_policy_def demo_outcome_def

lemma demo_risk_inputs:
  "risk_inputs_ok (demo_master 0) demo_outcome (demo_risk_context k) demo_risk_policy"
  by (simp add: risk_inputs_ok_def risk_context_rules_def risk_policy_rules_def context_states_def
      open_unit_def rnd_tenth demo_risk_defs is_f64_eval)

lemma demo_risk_guards: "list_all fst (risk_guards (demo_master 0) demo_outcome (demo_risk_context k))"
  by (simp add: risk_guards_def demo_risk_defs)

theorem risk_emergency_iff_witness:
  "\<exists>r. evaluate_risk zero_hash (\<lambda>_. Fin 0) (demo_master 0) demo_outcome (demo_risk_context True) demo_risk_policy
     = Inr r \<and> ro_result r = RR_EMERGENCY_STOP"
  using risk_emergency_iff[OF demo_risk_inputs demo_risk_guards, of True zero_hash]
  by (simp add: emergency_def demo_risk_defs)

definition demo_values :: risk_values where
  "demo_values = \<lparr>kv_balance = Fin 16, kv_equity = Fin 16, kv_free_margin = Fin 16, kv_used_margin = Fin 0,
     kv_margin_level = Fin 100, kv_trade_allowed = True, kv_volume_min = Fin 1, kv_volume_max = Fin 100,
     kv_volume_step = Fin 1, kv_point_size = Fin 1, kv_tick_size = Fin 1, kv_tick_value_loss = Fin 1,
     kv_stops_level = Fin 0, kv_freeze_level = Fin 0, kv_gross_lots = Fin 0, kv_net_lots = Fin 0,
     kv_spread_points = Fin 1, kv_entry_price = Fin 11, kv_stop_price = Fin 10,
     kv_margin_required = Fin 1, kv_slippage_points = Fin 0\<rparr>"

lemma demo_known: "assert_known (demo_risk_context False) = Inr demo_values"
  by (simp add: assert_known_def validate.simps account_required_def broker_required_def demo_values_def
      demo_risk_defs)

lemma demo_volume: "calculate_volume_lots (\<lambda>_. Fin 0) (sizing_of demo_values demo_risk_policy) = Inr (Fin 1)"
  using rnd_pico demo_sums rnd_quotients demo_floors demo_round
  by (simp add: sizing_eval sizing_of_def stop_distance_def demo_values_def demo_risk_policy_def rnd_eval fsub_def)

lemma demo_points: "fdiv (stop_distance demo_values) (kv_point_size demo_values) = Inr (Fin 1)"
  by (simp add: stop_distance_def demo_values_def rnd_eval fsub_def)

lemma demo_limits:
  "account_reasons demo_values demo_risk_policy = []"
  "cap_reasons (demo_risk_context False) demo_values demo_risk_policy = []"
  "stop_reasons (demo_master 0) demo_values demo_risk_policy (Fin 1) = []"
  "exposure_reasons demo_risk_policy (Fin 1) (Fin 1) = []"
  by (simp_all add: account_reasons_def cap_reasons_def stop_reasons_def stop_valid_def exposure_reasons_def
      pymax_def demo_values_def demo_risk_defs rnd_eval fsub_def)

lemma demo_available:
  "availability_reasons (demo_master 0) (demo_risk_context False) demo_risk_policy = []"
  "emergency_reasons (demo_risk_context False) demo_risk_policy = []"
  by (simp_all add: availability_reasons_def emergency_reasons_def context_states_def is_fresh_def
      total_seconds_def account_required_def broker_required_def demo_risk_defs)

definition demo_pass :: risk_verdict where
  "demo_pass = \<lparr>rv_result = RR_PASS, rv_reasons = [RK_PASSED],
     rv_rationale = ''The proposal passed every configured deterministic financial safety veto.'',
     rv_budget = Some (Fin 1), rv_stop_points = Some (Fin 1), rv_volume = Some (Fin 1),
     rv_gross = Some (Fin 1), rv_net = Some (Fin 1), rv_margin = Some (Fin 1)\<rparr>"

lemma demo_risk_verdict:
  "risk_verdict_of (\<lambda>_. Fin 0) (demo_master 0) demo_outcome (demo_risk_context False) demo_risk_policy
     = Inr demo_pass"
proof -
  have "sized_verdict (\<lambda>_. Fin 0) (demo_master 0) demo_values demo_risk_policy (Fin 1) = Inr demo_pass"
    using demo_limits(4)
    by (simp add: sized_verdict_def demo_volume Let_def demo_pass_def feq_def)
      (simp add: demo_values_def demo_risk_policy_def rnd_eval fsub_def)
  then have "limit_verdict (\<lambda>_. Fin 0) (demo_master 0) (demo_risk_context False) demo_values demo_risk_policy
     = Inr demo_pass"
    by (simp add: limit_verdict_def demo_points demo_limits)
  moreover have "do_result demo_outcome = DR_PASS" "\<not> rx_kill_switch (demo_risk_context False)"
    by (simp_all add: demo_outcome_def demo_risk_context_def)
  ultimately show ?thesis by (simp add: risk_verdict_of_def demo_available demo_known)
qed

lemma demo_risk_outcome:
  "is_ok (risk_outcome_of zero_hash (demo_master 0) demo_outcome (demo_risk_context False) demo_risk_policy demo_pass)"
  by (simp add: risk_outcome_of_def mk_risk_outcome_def is_ok_iff res_simps risk_outcome_identity.bind_ok_iff
      risk_outcome_rules_def sized_values_def demo_pass_def demo_risk_defs is_f64_eval)

theorem risk_pass_safe_witness:
  "\<exists>r. evaluate_risk zero_hash (\<lambda>_. Fin 0) (demo_master 0) demo_outcome (demo_risk_context False) demo_risk_policy
     = Inr r \<and> ro_volume r = Some (Fin 1)"
proof -
  obtain r where r: "risk_outcome_of zero_hash (demo_master 0) demo_outcome (demo_risk_context False)
      demo_risk_policy demo_pass = Inr r"
    using demo_risk_outcome by (auto simp: is_ok_iff)
  then have e: "evaluate_risk zero_hash (\<lambda>_. Fin 0) (demo_master 0) demo_outcome (demo_risk_context False)
      demo_risk_policy = Inr r"
    by (simp add: evaluate_risk_def validate_ok[OF demo_risk_guards] demo_risk_verdict)
  have "ro_eligible r" using outcome_of_fields(4)[OF r] by (simp add: demo_pass_def)
  from risk_pass_safe[OF e this] show ?thesis
    using e demo_known demo_volume by auto
qed

end
