(* ===== verification/ExecutionContracts.thy ===== *)
theory ExecutionContracts
  imports RiskBoundary
begin

section \<open>Execution intents and results (\<open>execution_boundary/contracts.py\<close>, \<open>builder.py\<close>)\<close>

text \<open>
  The contracts between the risk boundary and the broker, and the builder that carries a linked risk
  approval into an intent without changing it.
\<close>

subsection \<open>Contracts\<close>

datatype execution_mode = EM_DISABLED | EM_DRY_RUN | EM_DEMO_ENABLED

datatype execution_account_mode = XA_UNKNOWN | XA_DEMO | XA_LIVE

datatype execution_order_type = XO_MARKET

datatype execution_result_status =
    XS_NO_ACTION | XS_SUBMITTED | XS_ACCEPTED | XS_PARTIALLY_FILLED | XS_FILLED | XS_REJECTED
  | XS_CANCELLED | XS_EXPIRED | XS_FAILED | XS_UNKNOWN

datatype execution_reason =
    EXECUTION_DISABLED | DRY_RUN | LIVE_ACCOUNT_BLOCKED | UNKNOWN_ACCOUNT_MODE | INTENT_EXPIRED
  | OBSERVATION_STALE | SYMBOL_MISMATCH | XR_SPREAD_LIMIT | XR_SLIPPAGE_LIMIT | PRICE_DEVIATION_LIMIT
  | BROKER_REJECTED | BROKER_CANCELLED | BROKER_EXPIRED | TRANSPORT_FAILED | UNKNOWN_SUBMISSION
  | INVALID_BROKER_REPORT

text \<open>The values of the enumeration, which the adapter writes into the \<open>reason\<close> text.\<close>

primrec reason_value :: "execution_reason \<Rightarrow> string" where
  "reason_value EXECUTION_DISABLED = ''EXECUTION_DISABLED''"
| "reason_value DRY_RUN = ''DRY_RUN''"
| "reason_value LIVE_ACCOUNT_BLOCKED = ''LIVE_ACCOUNT_BLOCKED''"
| "reason_value UNKNOWN_ACCOUNT_MODE = ''UNKNOWN_ACCOUNT_MODE''"
| "reason_value INTENT_EXPIRED = ''INTENT_EXPIRED''"
| "reason_value OBSERVATION_STALE = ''OBSERVATION_STALE''"
| "reason_value SYMBOL_MISMATCH = ''SYMBOL_MISMATCH''"
| "reason_value XR_SPREAD_LIMIT = ''SPREAD_LIMIT''"
| "reason_value XR_SLIPPAGE_LIMIT = ''SLIPPAGE_LIMIT''"
| "reason_value PRICE_DEVIATION_LIMIT = ''PRICE_DEVIATION_LIMIT''"
| "reason_value BROKER_REJECTED = ''BROKER_REJECTED''"
| "reason_value BROKER_CANCELLED = ''BROKER_CANCELLED''"
| "reason_value BROKER_EXPIRED = ''BROKER_EXPIRED''"
| "reason_value TRANSPORT_FAILED = ''TRANSPORT_FAILED''"
| "reason_value UNKNOWN_SUBMISSION = ''UNKNOWN_SUBMISSION''"
| "reason_value INVALID_BROKER_REPORT = ''INVALID_BROKER_REPORT''"

record execution_policy =
  ep_id :: string
  ep_version :: string
  ep_mode :: execution_mode
  ep_intent_ttl_seconds :: int
  ep_max_latency_seconds :: f64
  ep_max_spread_points :: f64
  ep_max_slippage_points :: f64
  ep_max_deviation_points :: f64

definition execution_policy_rules :: "execution_policy \<Rightarrow> (bool \<times> py_error) list" where
  "execution_policy_rules p =
     [nonempty ''policy_version'' (ep_version p),
      field_ok ''intent_ttl_seconds'' (0 < ep_intent_ttl_seconds p),
      field_ok ''max_observation_latency_seconds'' (flt (Fin 0) (ep_max_latency_seconds p)),
      field_ok ''max_actual_spread_points'' (fle (Fin 0) (ep_max_spread_points p)),
      field_ok ''max_pre_submit_slippage_points'' (fle (Fin 0) (ep_max_slippage_points p)),
      field_ok ''max_price_deviation_points'' (fle (Fin 0) (ep_max_deviation_points p))]"

definition mk_execution_policy :: "(execution_policy \<Rightarrow> string) \<Rightarrow> execution_policy \<Rightarrow> execution_policy res" where
  "mk_execution_policy h p = res_bind (validate (execution_policy_rules p) p)
     (bind_identity ''ep-'' h (\<lambda>r. r\<lparr>ep_id := []\<rparr>) ep_id (\<lambda>i r. r\<lparr>ep_id := i\<rparr>)
        ''policy_id does not match execution policy content'')"

record execution_intent =
  xi_id :: string
  xi_evidence_bundle_id :: string
  xi_master_proposal_id :: string
  xi_discipline_outcome_id :: string
  xi_risk_outcome_id :: string
  xi_risk_context_id :: string
  xi_setup_id :: string
  xi_thesis_id :: string
  xi_scenario_id :: "string option"
  xi_symbol :: string
  xi_broker_symbol :: string
  xi_broker_source :: string
  xi_point_size :: f64
  xi_direction :: signal
  xi_volume :: f64
  xi_order_type :: execution_order_type
  xi_entry_price :: f64
  xi_stop_price :: f64
  xi_as_of :: dt
  xi_available_at :: dt
  xi_expires_at :: dt
  xi_policy_id :: string
  xi_policy_version :: string
  xi_mode :: execution_mode

definition intent_stop_valid :: "execution_intent \<Rightarrow> bool" where
  "intent_stop_valid i \<longleftrightarrow>
     xi_direction i = SIG_BUY \<and> flt (xi_stop_price i) (xi_entry_price i) \<or>
     xi_direction i = SIG_SELL \<and> flt (xi_entry_price i) (xi_stop_price i)"

definition execution_intent_rules :: "execution_intent \<Rightarrow> (bool \<times> py_error) list" where
  "execution_intent_rules i =
     [nonempty ''evidence_bundle_id'' (xi_evidence_bundle_id i),
      nonempty ''master_proposal_id'' (xi_master_proposal_id i),
      nonempty ''discipline_outcome_id'' (xi_discipline_outcome_id i),
      nonempty ''risk_outcome_id'' (xi_risk_outcome_id i),
      nonempty ''risk_context_id'' (xi_risk_context_id i),
      nonempty ''setup_id'' (xi_setup_id i), nonempty ''thesis_id'' (xi_thesis_id i),
      nonempty ''symbol'' (xi_symbol i), nonempty ''broker_symbol'' (xi_broker_symbol i),
      nonempty ''broker_source'' (xi_broker_source i),
      field_ok ''point_size'' (pos_fin (xi_point_size i)),
      field_ok ''approved_volume_lots'' (pos_fin (xi_volume i)),
      field_ok ''requested_entry_price'' (pos_fin (xi_entry_price i)),
      field_ok ''stop_loss_price'' (pos_fin (xi_stop_price i)),
      nonempty ''execution_policy_id'' (xi_policy_id i),
      nonempty ''execution_policy_version'' (xi_policy_version i),
      rule_ok ''HOLD cannot become an execution intent'' (xi_direction i \<noteq> SIG_HOLD),
      rule_ok ''execution intent cannot be available after as_of'' (xi_available_at i \<le> xi_as_of i),
      rule_ok ''execution intent expiry must follow availability''
        (xi_available_at i < xi_expires_at i),
      rule_ok ''execution intent stop cannot increase directional risk'' (intent_stop_valid i)]"

definition mk_execution_intent :: "(execution_intent \<Rightarrow> string) \<Rightarrow> execution_intent \<Rightarrow> execution_intent res" where
  "mk_execution_intent h i = res_bind (validate (execution_intent_rules i) i)
     (bind_identity ''xi-'' h (\<lambda>r. r\<lparr>xi_id := []\<rparr>) xi_id (\<lambda>i r. r\<lparr>xi_id := i\<rparr>)
        ''intent_id does not match execution intent content'')"

interpretation execution_intent_identity: content_addressed "''xi-''" h "\<lambda>r. r\<lparr>xi_id := []\<rparr>" xi_id
    "\<lambda>i r. r\<lparr>xi_id := i\<rparr>" "''intent_id does not match execution intent content''"
  for h :: "execution_intent \<Rightarrow> string"
  by unfold_locales simp_all

record execution_observation =
  xb_id :: string
  xb_observed_at :: dt
  xb_available_at :: dt
  xb_account_mode :: execution_account_mode
  xb_broker_symbol :: string
  xb_market_price :: f64
  xb_spread_points :: f64
  xb_slippage_points :: f64

definition execution_observation_rules :: "execution_observation \<Rightarrow> (bool \<times> py_error) list" where
  "execution_observation_rules b =
     [nonempty ''broker_symbol'' (xb_broker_symbol b),
      field_ok ''market_price'' (pos_fin (xb_market_price b)),
      field_ok ''spread_points'' (nonneg_fin (xb_spread_points b)),
      field_ok ''estimated_slippage_points'' (nonneg_fin (xb_slippage_points b)),
      rule_ok ''execution observation availability cannot precede observation''
        (xb_observed_at b \<le> xb_available_at b)]"

definition mk_execution_observation ::
  "(execution_observation \<Rightarrow> string) \<Rightarrow> execution_observation \<Rightarrow> execution_observation res" where
  "mk_execution_observation h b = res_bind (validate (execution_observation_rules b) b)
     (bind_identity ''xo-'' h (\<lambda>r. r\<lparr>xb_id := []\<rparr>) xb_id (\<lambda>i r. r\<lparr>xb_id := i\<rparr>)
        ''observation_id does not match execution observation content'')"

record broker_report =
  br_id :: string
  br_status :: execution_result_status
  br_event_time :: dt
  br_observed_at :: dt
  br_available_at :: dt
  br_broker_ticket :: "int option"
  br_transport_id :: "string option"
  br_filled_volume :: f64
  br_fill_price :: "f64 option"
  br_retcode :: "string option"
  br_broker_status :: "string option"
  br_message :: "string option"

definition broker_report_rules :: "broker_report \<Rightarrow> (bool \<times> py_error) list" where
  "broker_report_rules r =
     [field_ok ''broker_ticket'' (opt_all (\<lambda>t. 0 < t) (br_broker_ticket r)),
      field_ok ''transport_execution_id'' (opt_all (\<lambda>s. s \<noteq> []) (br_transport_id r)),
      field_ok ''filled_volume_lots'' (nonneg_fin (br_filled_volume r)),
      field_ok ''fill_price'' (opt_all pos_fin (br_fill_price r)),
      rule_ok ''transport report cannot claim local-only execution status''
        (br_status r \<notin> {XS_NO_ACTION, XS_UNKNOWN}),
      rule_ok ''report timestamps must be causally ordered''
        (br_event_time r \<le> br_observed_at r \<and> br_observed_at r \<le> br_available_at r),
      rule_ok ''filled broker report requires fill price''
        (\<not> (flt (Fin 0) (br_filled_volume r) \<and> br_fill_price r = None))]"

definition mk_broker_report :: "(broker_report \<Rightarrow> string) \<Rightarrow> broker_report \<Rightarrow> broker_report res" where
  "mk_broker_report h r = res_bind (validate (broker_report_rules r) r)
     (bind_identity ''xr-'' h (\<lambda>r. r\<lparr>br_id := []\<rparr>) br_id (\<lambda>i r. r\<lparr>br_id := i\<rparr>)
        ''report_id does not match broker report content'')"

record execution_result =
  xe_id :: string
  xe_intent_id :: string
  xe_evidence_bundle_id :: string
  xe_master_proposal_id :: string
  xe_discipline_outcome_id :: string
  xe_risk_outcome_id :: string
  xe_setup_id :: string
  xe_thesis_id :: string
  xe_scenario_id :: "string option"
  xe_symbol :: string
  xe_direction :: signal
  xe_status :: execution_result_status
  xe_reason_code :: "execution_reason option"
  xe_reason :: "string option"
  xe_requested_volume :: f64
  xe_filled_volume :: "f64 option"
  xe_remaining_volume :: "f64 option"
  xe_requested_price :: f64
  xe_fill_price :: "f64 option"
  xe_spread_points :: "f64 option"
  xe_slippage_points :: "f64 option"
  xe_broker_ticket :: "int option"
  xe_transport_id :: "string option"
  xe_broker_retcode :: "string option"
  xe_broker_status :: "string option"
  xe_event_time :: dt
  xe_observed_at :: dt
  xe_available_at :: dt

text \<open>\<open>math.isclose(a, b, abs_tol=1e-10)\<close>, and the volume checks of a result with a known status.\<close>

definition lots_close :: "f64 \<Rightarrow> f64 \<Rightarrow> bool" where
  "lots_close a b = isclose a b rel_default (lit (1 / 10 ^ 10))"

definition known_volume_rules :: "execution_result \<Rightarrow> f64 option \<times> f64 option \<Rightarrow> (bool \<times> py_error) list" where
  "known_volume_rules r v = (case v of
     (Some filled, Some remaining) \<Rightarrow>
       [rule_ok ''filled and remaining volume must equal requested volume''
          (lots_close (fadd filled remaining) (xe_requested_volume r)),
        rule_ok ''partial fill requires a strict partial volume''
          (\<not> (xe_status r = XS_PARTIALLY_FILLED
              \<and> \<not> (flt (Fin 0) filled \<and> flt filled (xe_requested_volume r)))),
        rule_ok ''filled result must fill the requested volume''
          (\<not> (xe_status r = XS_FILLED \<and> \<not> lots_close filled (xe_requested_volume r)))]
   | _ \<Rightarrow> [rule_ok ''known execution status requires fill and remaining volumes'' False])"

text \<open>\<open>self.filled_volume_lots or 0.0\<close>.\<close>

definition or_zero :: "f64 option \<Rightarrow> f64" where
  "or_zero v = (case v of None \<Rightarrow> Fin 0 | Some x \<Rightarrow> if feq x (Fin 0) then Fin 0 else x)"

definition execution_result_rules :: "execution_result \<Rightarrow> (bool \<times> py_error) list" where
  "execution_result_rules r =
     [nonempty ''execution_intent_id'' (xe_intent_id r),
      nonempty ''evidence_bundle_id'' (xe_evidence_bundle_id r),
      nonempty ''master_proposal_id'' (xe_master_proposal_id r),
      nonempty ''discipline_outcome_id'' (xe_discipline_outcome_id r),
      nonempty ''risk_outcome_id'' (xe_risk_outcome_id r), nonempty ''setup_id'' (xe_setup_id r),
      nonempty ''thesis_id'' (xe_thesis_id r), nonempty ''symbol'' (xe_symbol r),
      field_ok ''reason'' (opt_all (\<lambda>t. length t \<le> 500) (xe_reason r)),
      field_ok ''requested_volume_lots'' (pos_fin (xe_requested_volume r)),
      field_ok ''filled_volume_lots'' (opt_all nonneg_fin (xe_filled_volume r)),
      field_ok ''remaining_volume_lots'' (opt_all nonneg_fin (xe_remaining_volume r)),
      field_ok ''requested_price'' (pos_fin (xe_requested_price r)),
      field_ok ''fill_price'' (opt_all pos_fin (xe_fill_price r)),
      field_ok ''actual_spread_points'' (opt_all nonneg_fin (xe_spread_points r)),
      field_ok ''realized_slippage_points'' (opt_all is_fin (xe_slippage_points r)),
      field_ok ''broker_ticket'' (opt_all (\<lambda>t. 0 < t) (xe_broker_ticket r)),
      field_ok ''transport_execution_id'' (opt_all (\<lambda>s. s \<noteq> []) (xe_transport_id r)),
      rule_ok ''execution result direction cannot be HOLD'' (xe_direction r \<noteq> SIG_HOLD),
      rule_ok ''execution result timestamps must be causally ordered''
        (xe_event_time r \<le> xe_observed_at r \<and> xe_observed_at r \<le> xe_available_at r)]
     @ (if xe_status r = XS_UNKNOWN
        then [rule_ok ''unknown submission cannot claim known volume state''
                (\<not> (xe_filled_volume r \<noteq> None \<or> xe_remaining_volume r \<noteq> None))]
        else known_volume_rules r (xe_filled_volume r, xe_remaining_volume r))
     @ [rule_ok ''positive fill volume requires fill price''
          (\<not> (flt (Fin 0) (or_zero (xe_filled_volume r)) \<and> xe_fill_price r = None)),
        rule_ok ''non-success execution status requires a reason code''
          (\<not> (xe_status r \<in> {XS_NO_ACTION, XS_REJECTED, XS_FAILED, XS_UNKNOWN}
              \<and> xe_reason_code r = None))]"

definition mk_execution_result :: "(execution_result \<Rightarrow> string) \<Rightarrow> execution_result \<Rightarrow> execution_result res" where
  "mk_execution_result h r = res_bind (validate (execution_result_rules r) r)
     (bind_identity ''xe-'' h (\<lambda>r. r\<lparr>xe_id := []\<rparr>) xe_id (\<lambda>i r. r\<lparr>xe_id := i\<rparr>)
        ''result_id does not match execution result content'')"

interpretation execution_result_identity: content_addressed "''xe-''" h "\<lambda>r. r\<lparr>xe_id := []\<rparr>" xe_id
    "\<lambda>i r. r\<lparr>xe_id := i\<rparr>" "''result_id does not match execution result content''"
  for h :: "execution_result \<Rightarrow> string"
  by unfold_locales simp_all

subsection \<open>Building an intent\<close>

definition default_execution_policy :: execution_policy where
  "default_execution_policy = \<lparr>ep_id = [], ep_version = ''demo-v1'', ep_mode = EM_DISABLED,
     ep_intent_ttl_seconds = 15, ep_max_latency_seconds = Fin 2, ep_max_spread_points = Fin 50,
     ep_max_slippage_points = Fin 10, ep_max_deviation_points = Fin 10\<rparr>"

definition upstream_links ::
  "master_proposal \<Rightarrow> discipline_outcome \<Rightarrow> risk_outcome \<Rightarrow> risk_context \<Rightarrow> (bool \<times> py_error) list" where
  "upstream_links m d r c =
     [rule_ok ''Discipline outcome does not bind the supplied Master proposal''
        (do_master_proposal_id d = mp_id m),
      rule_ok ''Discipline and Master evidence bundle IDs differ''
        (do_evidence_bundle_id d = mp_bundle_id m),
      rule_ok ''Risk outcome does not bind the supplied Master proposal''
        (ro_master_proposal_id r = mp_id m),
      rule_ok ''Risk and Master evidence bundle IDs differ'' (ro_evidence_bundle_id r = mp_bundle_id m),
      rule_ok ''Risk outcome does not bind the supplied Discipline outcome''
        (ro_discipline_outcome_id r = do_id d),
      rule_ok ''Risk outcome does not bind the supplied Risk context'' (ro_context_id r = rx_id c),
      rule_ok ''Risk direction differs from the Master proposal'' (ro_master_decision r = mp_decision m),
      rule_ok ''Discipline direction differs from the Master proposal''
        (do_master_decision d = mp_decision m),
      rule_ok ''Risk outcome and context symbols differ'' (ro_symbol r = rx_symbol c),
      rule_ok ''Risk setup/thesis/scenario provenance differs from Discipline''
        ((ro_setup_id r, ro_thesis_id r, ro_scenario_id r) = (do_setup_id d, do_thesis_id d, do_scenario_id d)),
      rule_ok ''execution inputs violate causal availability''
        (ro_available_at r \<le> ro_as_of r \<and> rx_available_at c \<le> ro_as_of r)]"

definition approval_rules ::
  "master_proposal \<Rightarrow> discipline_outcome \<Rightarrow> risk_outcome \<Rightarrow> risk_context \<Rightarrow> (bool \<times> py_error) list" where
  "approval_rules m d r c =
     [rule_ok ''Risk PASS must be downstream of a Discipline PASS''
        (\<not> (do_result d \<noteq> DR_PASS \<or> \<not> do_eligible_for_risk d)),
      rule_ok ''Risk PASS must be downstream of an actionable Master proposal'' (mp_actionable m),
      rule_ok ''Risk PASS is missing approved volume'' (ro_volume r \<noteq> None),
      rule_ok ''Risk PASS execution requires approved entry and stop prices''
        (\<not> (rx_entry_price c = None \<or> rx_stop_loss_price c = None)),
      rule_ok ''Risk PASS execution requires broker point size'' (bc_point_size (rx_broker c) \<noteq> None),
      rule_ok ''Risk PASS execution requires setup and thesis identity''
        (\<not> (ro_setup_id r = None \<or> ro_thesis_id r = None))]"

definition intent_of ::
  "risk_outcome \<Rightarrow> risk_context \<Rightarrow> execution_policy \<Rightarrow> dt \<Rightarrow> execution_intent" where
  "intent_of r c p expires_at =
     \<lparr>xi_id = [], xi_evidence_bundle_id = ro_evidence_bundle_id r,
      xi_master_proposal_id = ro_master_proposal_id r,
      xi_discipline_outcome_id = ro_discipline_outcome_id r, xi_risk_outcome_id = ro_id r,
      xi_risk_context_id = ro_context_id r, xi_setup_id = the (ro_setup_id r),
      xi_thesis_id = the (ro_thesis_id r), xi_scenario_id = ro_scenario_id r, xi_symbol = ro_symbol r,
      xi_broker_symbol = bc_symbol (rx_broker c), xi_broker_source = bc_source (rx_broker c),
      xi_point_size = the (bc_point_size (rx_broker c)), xi_direction = ro_master_decision r,
      xi_volume = the (ro_volume r), xi_order_type = XO_MARKET,
      xi_entry_price = the (rx_entry_price c), xi_stop_price = the (rx_stop_loss_price c),
      xi_as_of = ro_as_of r, xi_available_at = ro_available_at r, xi_expires_at = expires_at,
      xi_policy_id = ep_id p, xi_policy_version = ep_version p, xi_mode = ep_mode p\<rparr>"

definition build_execution_intent ::
  "(execution_intent \<Rightarrow> string) \<Rightarrow> master_proposal \<Rightarrow> discipline_outcome \<Rightarrow> risk_outcome \<Rightarrow> risk_context
     \<Rightarrow> execution_policy \<Rightarrow> execution_intent option res" where
  "build_execution_intent h m d r c p =
     res_bind (validate (upstream_links m d r c) ()) (\<lambda>_.
     if ro_result r \<noteq> RR_PASS \<or> \<not> ro_eligible r then Inr None
     else res_bind (validate (approval_rules m d r c) ()) (\<lambda>_.
          res_bind (add_seconds (ro_available_at r) (ep_intent_ttl_seconds p)) (\<lambda>e.
          res_bind (mk_execution_intent h (intent_of r c p e)) (\<lambda>i. Inr (Some i)))))"

end
