(* ===== verification/ExecutionAdapter.thy ===== *)
theory ExecutionAdapter
  imports ExecutionContracts
begin

section \<open>The demo execution adapter (\<open>execution_boundary/adapter.py\<close>)\<close>

text \<open>
  The guarded adapter that hands an intent to the broker transport at most once. Its collaborators
  are parameters: the observation provider, the optional preflight validator and the transport are
  arbitrary effectful functions on a world of their own, and the ledger is reached through the
  operations of its protocol. The locale \<open>submission_ledger\<close> states what a ledger promises; the
  in-memory ledger is interpreted here and the durable one in \<open>ExecutionRecovery\<close>.
\<close>

subsection \<open>The ledger protocol\<close>

record 'l ledger_port =
  lp_get :: "string \<Rightarrow> 'l \<Rightarrow> execution_result option"
  lp_is_reserved :: "string \<Rightarrow> 'l \<Rightarrow> bool"
  lp_reserve :: "execution_intent \<Rightarrow> ('l, bool) eff"
  lp_record :: "execution_result \<Rightarrow> ('l, unit) eff"

text \<open>The in-memory ledger: the set of reserved identifiers and the recorded results.\<close>

record memory_ledger =
  ml_reserved :: "string set"
  ml_results :: "string \<rightharpoonup> execution_result"

definition empty_memory_ledger :: memory_ledger where
  "empty_memory_ledger = \<lparr>ml_reserved = {}, ml_results = Map.empty\<rparr>"

definition memory_reserve :: "execution_intent \<Rightarrow> (memory_ledger, bool) eff" where
  "memory_reserve i l =
     (if xi_id i \<in> ml_reserved l then (Inr False, l)
      else (Inr True, l\<lparr>ml_reserved := insert (xi_id i) (ml_reserved l)\<rparr>))"

definition memory_record :: "execution_result \<Rightarrow> (memory_ledger, unit) eff" where
  "memory_record r l =
     (if xe_intent_id r \<notin> ml_reserved l
      then (Inl (ValueError ''execution intent must be reserved before recording''), l)
      else if ml_results l (xe_intent_id r) \<noteq> None \<and> ml_results l (xe_intent_id r) \<noteq> Some r
      then (Inl (ValueError ''execution intent already has a different result''), l)
      else (Inr (), l\<lparr>ml_results := (ml_results l)(xe_intent_id r \<mapsto> r)\<rparr>))"

definition memory_port :: "memory_ledger ledger_port" where
  "memory_port = \<lparr>lp_get = (\<lambda>i l. ml_results l i), lp_is_reserved = (\<lambda>i l. i \<in> ml_reserved l),
     lp_reserve = memory_reserve, lp_record = memory_record\<rparr>"

subsection \<open>Results of the adapter\<close>

text \<open>\<open>_provenance\<close> fills the fields every result copies from its intent.\<close>

definition blank_result :: "execution_intent \<Rightarrow> execution_result_status \<Rightarrow> dt \<Rightarrow> execution_result" where
  "blank_result i st t =
     \<lparr>xe_id = [], xe_intent_id = xi_id i, xe_evidence_bundle_id = xi_evidence_bundle_id i,
      xe_master_proposal_id = xi_master_proposal_id i,
      xe_discipline_outcome_id = xi_discipline_outcome_id i, xe_risk_outcome_id = xi_risk_outcome_id i,
      xe_setup_id = xi_setup_id i, xe_thesis_id = xi_thesis_id i, xe_scenario_id = xi_scenario_id i,
      xe_symbol = xi_symbol i, xe_direction = xi_direction i, xe_status = st, xe_reason_code = None,
      xe_reason = None, xe_requested_volume = xi_volume i, xe_filled_volume = None,
      xe_remaining_volume = None, xe_requested_price = xi_entry_price i, xe_fill_price = None,
      xe_spread_points = None, xe_slippage_points = None, xe_broker_ticket = None,
      xe_transport_id = None, xe_broker_retcode = None, xe_broker_status = None,
      xe_event_time = t, xe_observed_at = t, xe_available_at = t\<rparr>"

definition known_result ::
  "(execution_result \<Rightarrow> string) \<Rightarrow> execution_intent \<Rightarrow> execution_result_status \<Rightarrow> execution_reason
     \<Rightarrow> string \<Rightarrow> dt \<Rightarrow> execution_observation option \<Rightarrow> execution_result res" where
  "known_result h i st code reason t obs = mk_execution_result h ((blank_result i st t)
     \<lparr>xe_reason_code := Some code, xe_reason := Some reason, xe_filled_volume := Some (Fin 0),
      xe_remaining_volume := Some (xi_volume i), xe_spread_points := map_option xb_spread_points obs\<rparr>)"

definition unknown_result ::
  "(execution_result \<Rightarrow> string) \<Rightarrow> execution_intent \<Rightarrow> string \<Rightarrow> execution_observation option
     \<Rightarrow> execution_result res" where
  "unknown_result h i reason obs = mk_execution_result h
     ((blank_result i XS_UNKNOWN (case obs of None \<Rightarrow> xi_available_at i | Some b \<Rightarrow> xb_available_at b))
     \<lparr>xe_reason_code := Some UNKNOWN_SUBMISSION, xe_reason := Some reason,
      xe_spread_points := map_option xb_spread_points obs\<rparr>)"

definition failed_result ::
  "(execution_result \<Rightarrow> string) \<Rightarrow> execution_intent \<Rightarrow> string \<Rightarrow> dt \<Rightarrow> execution_observation option
     \<Rightarrow> execution_result res" where
  "failed_result h i reason t obs = known_result h i XS_FAILED TRANSPORT_FAILED reason t obs"

text \<open>The preflight checks in source order: the first that objects decides.\<close>

definition price_deviation :: "execution_intent \<Rightarrow> execution_observation \<Rightarrow> f64 res" where
  "price_deviation i b = fdiv (fabs (fsub (xb_market_price b) (xi_entry_price i))) (xi_point_size i)"

definition preflight_reason ::
  "execution_policy \<Rightarrow> execution_intent \<Rightarrow> execution_observation
     \<Rightarrow> (execution_reason \<times> execution_result_status) option res" where
  "preflight_reason p i b =
     (if xb_account_mode b = XA_LIVE then Inr (Some (LIVE_ACCOUNT_BLOCKED, XS_REJECTED))
      else if xb_account_mode b = XA_UNKNOWN then Inr (Some (UNKNOWN_ACCOUNT_MODE, XS_REJECTED))
      else if xb_broker_symbol b \<noteq> xi_broker_symbol i then Inr (Some (SYMBOL_MISMATCH, XS_REJECTED))
      else if xi_expires_at i < xb_available_at b then Inr (Some (INTENT_EXPIRED, XS_EXPIRED))
      else if flt (ep_max_latency_seconds p) (total_seconds (xb_available_at b - xb_observed_at b))
      then Inr (Some (OBSERVATION_STALE, XS_REJECTED))
      else if flt (ep_max_spread_points p) (xb_spread_points b) then Inr (Some (XR_SPREAD_LIMIT, XS_REJECTED))
      else if flt (ep_max_slippage_points p) (xb_slippage_points b)
      then Inr (Some (XR_SLIPPAGE_LIMIT, XS_REJECTED))
      else res_bind (price_deviation i b) (\<lambda>d. Inr
             (if flt (ep_max_deviation_points p) d then Some (PRICE_DEVIATION_LIMIT, XS_REJECTED) else None)))"

definition preflight ::
  "(execution_result \<Rightarrow> string) \<Rightarrow> execution_policy \<Rightarrow> execution_intent \<Rightarrow> execution_observation
     \<Rightarrow> execution_result option res" where
  "preflight h p i b = res_bind (preflight_reason p i b) (\<lambda>v. case v of
     None \<Rightarrow> Inr None
   | Some (reason, st) \<Rightarrow> res_bind
       (known_result h i st reason (reason_value reason) (xb_available_at b) (Some b)) (\<lambda>r. Inr (Some r)))"

definition invalid_report ::
  "(execution_result \<Rightarrow> string) \<Rightarrow> execution_intent \<Rightarrow> execution_observation \<Rightarrow> broker_report
     \<Rightarrow> execution_result res" where
  "invalid_report h i b r = known_result h i XS_FAILED INVALID_BROKER_REPORT
     ''broker report status and fill volume are inconsistent'' (br_available_at r) (Some b)"

fun report_reason :: "execution_result_status \<Rightarrow> execution_reason option" where
  "report_reason XS_REJECTED = Some BROKER_REJECTED"
| "report_reason XS_CANCELLED = Some BROKER_CANCELLED"
| "report_reason XS_EXPIRED = Some BROKER_EXPIRED"
| "report_reason XS_FAILED = Some TRANSPORT_FAILED"
| "report_reason _ = None"

definition realized_slippage :: "execution_intent \<Rightarrow> broker_report \<Rightarrow> f64 option res" where
  "realized_slippage i r = (case br_fill_price r of
     None \<Rightarrow> Inr None
   | Some price \<Rightarrow>
       let delta = fsub price (xi_entry_price i);
           delta = (if xi_direction i = SIG_SELL then fneg delta else delta)
       in res_bind (fdiv delta (xi_point_size i)) (\<lambda>q. res_bind (py_round q 10) (\<lambda>s. Inr (Some s))))"

definition result_from_report ::
  "(execution_result \<Rightarrow> string) \<Rightarrow> execution_intent \<Rightarrow> execution_observation \<Rightarrow> broker_report
     \<Rightarrow> execution_result res" where
  "result_from_report h i b r =
     (let filled = br_filled_volume r in
      if flt (xi_volume i) filled
      then known_result h i XS_FAILED INVALID_BROKER_REPORT ''broker report exceeds approved volume''
             (br_available_at r) (Some b)
      else res_bind (py_round (pymax (Fin 0) (fsub (xi_volume i) filled)) 10) (\<lambda>remaining.
        if br_status r = XS_PARTIALLY_FILLED \<and> \<not> (flt (Fin 0) filled \<and> flt filled (xi_volume i))
        then invalid_report h i b r
        else if br_status r = XS_FILLED \<and> \<not> lots_close filled (xi_volume i)
        then invalid_report h i b r
        else res_bind (realized_slippage i r) (\<lambda>slippage.
          mk_execution_result h ((blank_result i (br_status r) (br_event_time r))
            \<lparr>xe_reason_code := report_reason (br_status r),
             xe_reason := (if report_reason (br_status r) \<noteq> None then br_message r else None),
             xe_filled_volume := Some filled, xe_remaining_volume := Some remaining,
             xe_fill_price := br_fill_price r, xe_spread_points := Some (xb_spread_points b),
             xe_slippage_points := slippage, xe_broker_ticket := br_broker_ticket r,
             xe_transport_id := br_transport_id r, xe_broker_retcode := br_retcode r,
             xe_broker_status := br_broker_status r, xe_observed_at := br_observed_at r,
             xe_available_at := br_available_at r\<rparr>))))"

subsection \<open>The adapter\<close>

text \<open>
  The adapter with its collaborators, and the state an execution runs on. The log records every call
  of the transport: it is what the properties about submissions speak of.
\<close>

record 'w adapter =
  xa_policy :: execution_policy
  xa_provider :: "execution_intent \<Rightarrow> ('w, execution_observation) eff"
  xa_validator :: "(execution_intent \<Rightarrow> execution_observation \<Rightarrow> ('w, unit) eff) option"
  xa_transport :: "execution_intent \<Rightarrow> execution_observation \<Rightarrow> ('w, broker_report) eff"

type_synonym submission = "execution_policy \<times> execution_intent \<times> execution_observation"

record ('l, 'w) adapter_state =
  ad_ledger :: 'l
  ad_world :: 'w
  ad_log :: "submission list"

definition on_ledger :: "('l, 'a) eff \<Rightarrow> (('l, 'w) adapter_state, 'a) eff" where
  "on_ledger m s = (case m (ad_ledger s) of (x, l) \<Rightarrow> (x, s\<lparr>ad_ledger := l\<rparr>))"

definition on_world :: "('w, 'a) eff \<Rightarrow> (('l, 'w) adapter_state, 'a) eff" where
  "on_world m s = (case m (ad_world s) of (x, w) \<Rightarrow> (x, s\<lparr>ad_world := w\<rparr>))"

definition submit ::
  "'w adapter \<Rightarrow> execution_intent \<Rightarrow> execution_observation \<Rightarrow> (('l, 'w) adapter_state, broker_report) eff" where
  "submit a i b s = on_world (xa_transport a i b) (s\<lparr>ad_log := ad_log s @ [(xa_policy a, i, b)]\<rparr>)"

definition record_and_return ::
  "'l ledger_port \<Rightarrow> execution_result res \<Rightarrow> (('l, 'w) adapter_state, execution_result) eff" where
  "record_and_return L m = eff_bind (eff_of m) (\<lambda>r.
     eff_bind (on_ledger (lp_record L r)) (\<lambda>_. eff_return r))"

definition policy_bound :: "execution_policy \<Rightarrow> execution_intent \<Rightarrow> bool" where
  "policy_bound p i \<longleftrightarrow>
     \<not> (xi_policy_id i \<noteq> ep_id p \<or> xi_policy_version i \<noteq> ep_version p \<or> xi_mode i \<noteq> ep_mode p)"

definition on_transport_failure ::
  "(string \<Rightarrow> ('s, 'a) eff) \<Rightarrow> py_error \<Rightarrow> ('s, 'a) eff option" where
  "on_transport_failure k e = (case e of TransportError msg \<Rightarrow> Some (k msg) | _ \<Rightarrow> None)"

definition submit_and_record ::
  "(execution_result \<Rightarrow> string) \<Rightarrow> 'l ledger_port \<Rightarrow> 'w adapter \<Rightarrow> execution_intent
     \<Rightarrow> execution_observation \<Rightarrow> (('l, 'w) adapter_state, execution_result) eff" where
  "submit_and_record h L a i b =
     eff_bind
       (eff_catch (eff_bind (submit a i b) (\<lambda>r. eff_return (result_from_report h i b r)))
         (\<lambda>e. case e of
            UnknownSubmission msg \<Rightarrow> Some (eff_return (unknown_result h i msg (Some b)))
          | TransportError msg \<Rightarrow>
              Some (eff_return (failed_result h i msg (xb_available_at b) (Some b)))
          | _ \<Rightarrow> None))
       (record_and_return L)"

definition validated_execution ::
  "(execution_result \<Rightarrow> string) \<Rightarrow> 'l ledger_port \<Rightarrow> 'w adapter \<Rightarrow> execution_intent
     \<Rightarrow> execution_observation \<Rightarrow> (('l, 'w) adapter_state, execution_result) eff" where
  "validated_execution h L a i b =
     eff_bind
       (eff_catch
         (case xa_validator a of
            None \<Rightarrow> eff_return None
          | Some f \<Rightarrow> eff_bind (on_world (f i b)) (\<lambda>_. eff_return None))
         (on_transport_failure (\<lambda>msg.
            eff_return (Some (failed_result h i msg (xb_available_at b) (Some b))))))
       (\<lambda>failed. case failed of
          Some m \<Rightarrow> record_and_return L m
        | None \<Rightarrow>
            if ep_mode (xa_policy a) = EM_DRY_RUN
            then record_and_return L (known_result h i XS_NO_ACTION DRY_RUN (reason_value DRY_RUN)
                   (xb_available_at b) (Some b))
            else submit_and_record h L a i b)"

definition observed_execution ::
  "(execution_result \<Rightarrow> string) \<Rightarrow> 'l ledger_port \<Rightarrow> 'w adapter \<Rightarrow> execution_intent
     \<Rightarrow> execution_observation \<Rightarrow> (('l, 'w) adapter_state, execution_result) eff" where
  "observed_execution h L a i b =
     (case preflight h (xa_policy a) i b of
        Inl e \<Rightarrow> eff_of (Inl e)
      | Inr (Some r) \<Rightarrow> record_and_return L (Inr r)
      | Inr None \<Rightarrow> validated_execution h L a i b)"

definition reserved_execution ::
  "(execution_result \<Rightarrow> string) \<Rightarrow> 'l ledger_port \<Rightarrow> 'w adapter \<Rightarrow> execution_intent
     \<Rightarrow> (('l, 'w) adapter_state, execution_result) eff" where
  "reserved_execution h L a i =
     (if ep_mode (xa_policy a) = EM_DISABLED
      then record_and_return L (known_result h i XS_NO_ACTION EXECUTION_DISABLED
             (reason_value EXECUTION_DISABLED) (xi_available_at i) None)
      else eff_bind
        (eff_catch (eff_bind (on_world (xa_provider a i)) (\<lambda>b. eff_return (Inr b)))
          (on_transport_failure (\<lambda>msg.
             eff_return (Inl (failed_result h i msg (xi_available_at i) None)))))
        (\<lambda>v. case v of
           Inl m \<Rightarrow> record_and_return L m
         | Inr b \<Rightarrow> observed_execution h L a i b))"

definition adapter_execute ::
  "(execution_result \<Rightarrow> string) \<Rightarrow> 'l ledger_port \<Rightarrow> 'w adapter \<Rightarrow> execution_intent
     \<Rightarrow> (('l, 'w) adapter_state, execution_result) eff" where
  "adapter_execute h L a i s =
     (if \<not> policy_bound (xa_policy a) i
      then (Inl (ValueError ''execution intent is not bound to this adapter policy''), s)
      else case lp_get L (xi_id i) (ad_ledger s) of
        Some prior \<Rightarrow> (Inr prior, s)
      | None \<Rightarrow> eff_bind (on_ledger (lp_reserve L i)) (\<lambda>fresh.
          if \<not> fresh then record_and_return L (unknown_result h i ''reserved intent requires reconciliation'' None)
          else reserved_execution h L a i) s)"

text \<open>A life of the system: executions in any order, by any adapters, whatever each returns or raises.\<close>

fun run_all ::
  "(execution_result \<Rightarrow> string) \<Rightarrow> 'l ledger_port \<Rightarrow> ('w adapter \<times> execution_intent) list
     \<Rightarrow> ('l, 'w) adapter_state \<Rightarrow> ('l, 'w) adapter_state" where
  "run_all h L [] s = s"
| "run_all h L ((a, i) # cs) s = run_all h L cs (snd (adapter_execute h L a i s))"

subsection \<open>What an effectful method may do to its state\<close>

definition effect_of :: "('s \<Rightarrow> 's \<Rightarrow> bool) \<Rightarrow> ('s, 'a) eff \<Rightarrow> bool" where
  "effect_of R m \<longleftrightarrow> (\<forall>s. R s (snd (m s)))"

lemma effect_ofD: "effect_of R m \<Longrightarrow> m s = (x, s') \<Longrightarrow> R s s'"
  by (metis effect_of_def snd_conv)

lemma effect_of_pure: "reflp R \<Longrightarrow> effect_of R (eff_return x)" "reflp R \<Longrightarrow> effect_of R (eff_of m)"
  by (auto simp: effect_of_def eff_simps reflp_def)

lemma effect_of_seq:
  assumes "effect_of R m" "\<And>x. effect_of Q (k x)" "reflp Q"
  shows "effect_of (R OO Q) (eff_bind m k)"
  unfolding effect_of_def
proof
  fix s
  obtain y t where m: "m s = (y, t)" by fastforce
  then have "R s t" by (rule effect_ofD[OF assms(1)])
  moreover have "Q t (snd (eff_bind m k s))"
  proof (cases y)
    case (Inl e)
    then show ?thesis using reflpD[OF assms(3), of t] m by (simp add: eff_bind_def)
  next
    case (Inr z)
    have "Q t (snd (k z t))" using assms(2)[of z] unfolding effect_of_def by blast
    then show ?thesis using Inr m by (simp add: eff_bind_def)
  qed
  ultimately show "(R OO Q) s (snd (eff_bind m k s))" by blast
qed

lemma effect_of_catch_seq:
  assumes "effect_of R m" "\<And>e k. h e = Some k \<Longrightarrow> effect_of Q k" "reflp Q"
  shows "effect_of (R OO Q) (eff_catch m h)"
  unfolding effect_of_def
proof
  fix s
  obtain y t where m: "m s = (y, t)" by fastforce
  then have "R s t" by (rule effect_ofD[OF assms(1)])
  moreover have "Q t (snd (eff_catch m h s))"
  proof (cases y)
    case (Inl e)
    show ?thesis
    proof (cases "h e")
      case None
      then show ?thesis using Inl reflpD[OF assms(3), of t] m by (simp add: eff_catch_def)
    next
      case (Some k)
      have "Q t (snd (k t))" using assms(2)[OF Some] unfolding effect_of_def by blast
      then show ?thesis using Inl Some m by (simp add: eff_catch_def)
    qed
  next
    case (Inr z)
    then show ?thesis using reflpD[OF assms(3), of t] m by (simp add: eff_catch_def)
  qed
  ultimately show "(R OO Q) s (snd (eff_catch m h s))" by blast
qed

lemma effect_of_mono: "effect_of R m \<Longrightarrow> (\<And>s s'. R s s' \<Longrightarrow> Q s s') \<Longrightarrow> effect_of Q m"
  by (simp add: effect_of_def)

lemma effect_of_bind:
  "effect_of R m \<Longrightarrow> (\<And>x. effect_of R (k x)) \<Longrightarrow> reflp R \<Longrightarrow> transp R \<Longrightarrow> effect_of R (eff_bind m k)"
  by (rule effect_of_mono[OF effect_of_seq[of R m R k]]) (auto dest: transpD)

lemma effect_of_catch:
  "effect_of R m \<Longrightarrow> (\<And>e k. h e = Some k \<Longrightarrow> effect_of R k) \<Longrightarrow> reflp R \<Longrightarrow> transp R \<Longrightarrow>
   effect_of R (eff_catch m h)"
  by (rule effect_of_mono[OF effect_of_catch_seq[of R m h R]]) (auto dest: transpD)

subsection \<open>The contract of a ledger\<close>

text \<open>A submission the adapter may make: the enabled policy, a demo account and every preflight limit.\<close>

definition cleared :: "execution_policy \<Rightarrow> execution_intent \<Rightarrow> execution_observation \<Rightarrow> bool" where
  "cleared p i b \<longleftrightarrow> policy_bound p i \<and> ep_mode p = EM_DEMO_ENABLED \<and> xb_account_mode b = XA_DEMO \<and>
     xb_broker_symbol b = xi_broker_symbol i \<and> xb_available_at b \<le> xi_expires_at i \<and>
     \<not> flt (ep_max_latency_seconds p) (total_seconds (xb_available_at b - xb_observed_at b)) \<and>
     \<not> flt (ep_max_spread_points p) (xb_spread_points b) \<and>
     \<not> flt (ep_max_slippage_points p) (xb_slippage_points b) \<and>
     (\<exists>d. price_deviation i b = Inr d \<and> \<not> flt (ep_max_deviation_points p) d)"

lemma preflight_clear:
  assumes "preflight h p i b = Inr None" "policy_bound p i" "ep_mode p \<noteq> EM_DISABLED" "ep_mode p \<noteq> EM_DRY_RUN"
  shows "cleared p i b"
proof -
  have "preflight_reason p i b = Inr None"
    using assms(1) by (cases "preflight_reason p i b")
      (auto simp: preflight_def res_simps split: option.split_asm prod.split_asm)
  moreover have "ep_mode p = EM_DEMO_ENABLED" using assms(3,4) by (cases "ep_mode p") auto
  ultimately show ?thesis
    using assms(2) by (cases "xb_account_mode b")
      (auto simp: preflight_reason_def cleared_def res_simps split: if_splits)
qed

locale submission_ledger =
  fixes L :: "'l ledger_port" and inv :: "'l \<Rightarrow> bool"
  assumes reserve_inv: "inv l \<Longrightarrow> lp_reserve L i l = (x, l') \<Longrightarrow> inv l'"
    and reserve_fresh: "inv l \<Longrightarrow> lp_reserve L i l = (Inr True, l') \<Longrightarrow>
      \<not> lp_is_reserved L (xi_id i) l \<and> (\<forall>j. lp_is_reserved L j l' \<longleftrightarrow> j = xi_id i \<or> lp_is_reserved L j l)"
    and reserve_refused: "lp_reserve L i l = (x, l') \<Longrightarrow> x \<noteq> Inr True \<Longrightarrow> l' = l"
    and reserve_get: "lp_reserve L i l = (x, l') \<Longrightarrow> lp_get L j l' = lp_get L j l"
    and record_inv: "inv l \<Longrightarrow> lp_record L r l = (y, l') \<Longrightarrow> inv l'"
    and record_ok: "lp_record L r l = (Inr (), l') \<Longrightarrow> lp_get L (xe_intent_id r) l' = Some r"
    and record_reserved: "lp_record L r l = (y, l') \<Longrightarrow> lp_is_reserved L j l' = lp_is_reserved L j l"
    and record_stable: "lp_record L r l = (y, l') \<Longrightarrow> lp_get L j l = Some r' \<Longrightarrow> lp_get L j l' = Some r'"
begin

text \<open>A quiet effect keeps the log and the reservations and never changes a recorded result.\<close>

definition quiet :: "('l, 'w) adapter_state \<Rightarrow> ('l, 'w) adapter_state \<Rightarrow> bool" where
  "quiet s s' \<longleftrightarrow> ad_log s' = ad_log s \<and> (inv (ad_ledger s) \<longrightarrow> inv (ad_ledger s')) \<and>
     (\<forall>j. lp_is_reserved L j (ad_ledger s') = lp_is_reserved L j (ad_ledger s)) \<and>
     (\<forall>j r. lp_get L j (ad_ledger s) = Some r \<longrightarrow> lp_get L j (ad_ledger s') = Some r)"

lemma quiet_rel [simp]: "reflp quiet" "transp quiet"
  by (auto simp: reflp_def transp_def quiet_def)

lemma quiet_world: "effect_of quiet (on_world m)"
  by (auto simp: effect_of_def on_world_def quiet_def split: prod.split)

lemma quiet_record: "effect_of quiet (on_ledger (lp_record L r))"
  by (auto simp: effect_of_def on_ledger_def quiet_def split: prod.split
      dest: record_inv record_reserved record_stable)

lemma quiet_record_and_return: "effect_of quiet (record_and_return L m)"
  unfolding record_and_return_def by (intro effect_of_bind effect_of_pure quiet_record quiet_rel)

definition submits ::
  "execution_policy \<Rightarrow> execution_intent \<Rightarrow> ('l, 'w) adapter_state \<Rightarrow> ('l, 'w) adapter_state \<Rightarrow> bool" where
  "submits p i s s' \<longleftrightarrow> quiet s (s'\<lparr>ad_log := ad_log s\<rparr>) \<and>
     (ad_log s' = ad_log s \<or> (\<exists>b. cleared p i b \<and> ad_log s' = ad_log s @ [(p, i, b)]))"

lemma quiet_submits: "quiet s s' \<Longrightarrow> submits p i s s'"
  by (simp add: submits_def quiet_def)

lemma submits_quiet: "submits p i s t \<Longrightarrow> quiet t u \<Longrightarrow> submits p i s u"
  by (auto simp: submits_def quiet_def)

lemma quiet_then_submits: "quiet s t \<Longrightarrow> submits p i t u \<Longrightarrow> submits p i s u"
  by (auto simp: submits_def quiet_def)

lemma submit_effect: "cleared (xa_policy a) i b \<Longrightarrow> effect_of (submits (xa_policy a) i) (submit a i b)"
  by (auto simp: effect_of_def submit_def on_world_def submits_def quiet_def split: prod.split)

lemma submit_and_record_effect:
  assumes "cleared (xa_policy a) i b"
  shows "effect_of (submits (xa_policy a) i) (submit_and_record h L a i b)"
proof -
  let ?R = "submits (xa_policy a) i"
  have "effect_of (?R OO quiet) (eff_bind (submit a i b) (\<lambda>r. eff_return (result_from_report h i b r)))"
    by (intro effect_of_seq submit_effect assms effect_of_pure quiet_rel)
  then have "effect_of ?R (eff_bind (submit a i b) (\<lambda>r. eff_return (result_from_report h i b r)))"
    by (rule effect_of_mono) (auto dest: submits_quiet)
  then have "effect_of (?R OO quiet OO quiet) (submit_and_record h L a i b)"
    unfolding submit_and_record_def relcompp_assoc[symmetric]
    by (intro effect_of_seq effect_of_catch_seq quiet_record_and_return quiet_rel)
      (auto split: py_error.splits intro: effect_of_pure quiet_rel)
  then show ?thesis by (rule effect_of_mono) (auto dest: submits_quiet)
qed

lemma quiet_seq_submits:
  fixes m :: "(('l, 'w) adapter_state, 'a) eff"
  assumes "effect_of quiet m" "\<And>x. effect_of (submits p i) (k x)"
  shows "effect_of (submits p i) (eff_bind m k)"
proof (rule effect_of_mono)
  show "effect_of (quiet OO submits p i) (eff_bind m k)"
    by (rule effect_of_seq[OF assms]) (auto simp: reflp_def submits_def quiet_def)
  show "(quiet OO submits p i) s s' \<Longrightarrow> submits p i s s'" for s s' :: "('l, 'w) adapter_state"
    by (auto intro: quiet_then_submits)
qed

lemma quiet_is_submits: "effect_of quiet m \<Longrightarrow> effect_of (submits p i) m"
  by (simp add: effect_of_def quiet_submits)

lemma validated_execution_effect:
  assumes "preflight h (xa_policy a) i b = Inr None" "policy_bound (xa_policy a) i"
    "ep_mode (xa_policy a) \<noteq> EM_DISABLED"
  shows "effect_of (submits (xa_policy a) i) (validated_execution h L a i b)"
  unfolding validated_execution_def
proof (rule quiet_seq_submits)
  show "effect_of quiet (eff_catch
         (case xa_validator a of
            None \<Rightarrow> eff_return None
          | Some f \<Rightarrow> eff_bind (on_world (f i b)) (\<lambda>_. eff_return None))
         (on_transport_failure (\<lambda>msg.
            eff_return (Some (failed_result h i msg (xb_available_at b) (Some b))))))"
    by (auto intro!: effect_of_catch effect_of_bind effect_of_pure quiet_world quiet_rel
        simp: on_transport_failure_def split: option.splits py_error.splits)
next
  fix failed
  show "effect_of (submits (xa_policy a) i) (case failed of
          Some m \<Rightarrow> record_and_return L m
        | None \<Rightarrow>
            if ep_mode (xa_policy a) = EM_DRY_RUN
            then record_and_return L (known_result h i XS_NO_ACTION DRY_RUN (reason_value DRY_RUN)
                   (xb_available_at b) (Some b))
            else submit_and_record h L a i b)"
  proof (cases "failed = None \<and> ep_mode (xa_policy a) \<noteq> EM_DRY_RUN")
    case True
    then show ?thesis using submit_and_record_effect[OF preflight_clear[OF assms]] by simp
  next
    case False
    then show ?thesis by (cases failed) (simp_all add: quiet_is_submits quiet_record_and_return)
  qed
qed

lemma observed_execution_effect:
  assumes "policy_bound (xa_policy a) i" "ep_mode (xa_policy a) \<noteq> EM_DISABLED"
  shows "effect_of (submits (xa_policy a) i) (observed_execution h L a i b)"
proof (cases "preflight h (xa_policy a) i b")
  case (Inl e)
  then show ?thesis by (simp add: observed_execution_def quiet_is_submits effect_of_pure)
next
  case (Inr v)
  then show ?thesis
    by (cases v) (simp_all add: observed_execution_def validated_execution_effect assms
        quiet_is_submits quiet_record_and_return)
qed

lemma reserved_execution_effect:
  assumes "policy_bound (xa_policy a) i"
  shows "effect_of (submits (xa_policy a) i) (reserved_execution h L a i)"
proof (cases "ep_mode (xa_policy a) = EM_DISABLED")
  case True
  then show ?thesis by (simp add: reserved_execution_def quiet_is_submits quiet_record_and_return)
next
  case False
  have "effect_of quiet (eff_catch (eff_bind (on_world (xa_provider a i)) (\<lambda>b. eff_return (Inr b)))
          (on_transport_failure (\<lambda>msg.
             eff_return (Inl (failed_result h i msg (xi_available_at i) None)))))"
    by (auto intro!: effect_of_catch effect_of_bind effect_of_pure quiet_world quiet_rel
        simp: on_transport_failure_def split: py_error.splits)
  then have "effect_of (submits (xa_policy a) i) (eff_bind
        (eff_catch (eff_bind (on_world (xa_provider a i)) (\<lambda>b. eff_return (Inr b)))
          (on_transport_failure (\<lambda>msg.
             eff_return (Inl (failed_result h i msg (xi_available_at i) None)))))
        (\<lambda>v. case v of
           Inl m \<Rightarrow> record_and_return L m
         | Inr b \<Rightarrow> observed_execution h L a i b))"
    by (intro quiet_seq_submits) (simp_all add: observed_execution_effect[OF assms False]
        quiet_is_submits quiet_record_and_return split: sum.split)
  then show ?thesis using False by (simp add: reserved_execution_def)
qed

text \<open>One execution: reservations only grow, results never change, and at most one cleared submission
  is made, of an intent that was not reserved before and is reserved after.\<close>

lemma execute_effect:
  fixes s s' :: "('l, 'w) adapter_state"
  assumes "adapter_execute h L a i s = (x, s')" "inv (ad_ledger s)"
  shows "inv (ad_ledger s')"
    and "lp_is_reserved L j (ad_ledger s) \<Longrightarrow> lp_is_reserved L j (ad_ledger s')"
    and "lp_get L j (ad_ledger s) = Some r \<Longrightarrow> lp_get L j (ad_ledger s') = Some r"
    and "ad_log s' = ad_log s \<or> (\<exists>b. cleared (xa_policy a) i b \<and> ad_log s' = ad_log s @ [(xa_policy a, i, b)]
       \<and> \<not> lp_is_reserved L (xi_id i) (ad_ledger s) \<and> lp_is_reserved L (xi_id i) (ad_ledger s'))"
proof -
  consider (same) "s' = s"
    | (again) l where "lp_reserve L i (ad_ledger s) = (Inr False, l)" "quiet s s'"
    | (first) l where "lp_reserve L i (ad_ledger s) = (Inr True, l)" "submits (xa_policy a) i (s\<lparr>ad_ledger := l\<rparr>) s'"
  proof (cases "policy_bound (xa_policy a) i \<and> lp_get L (xi_id i) (ad_ledger s) = None")
    case False
    then have "s' = s"
      using assms(1) by (cases "policy_bound (xa_policy a) i"; cases "lp_get L (xi_id i) (ad_ledger s)")
        (simp_all add: adapter_execute_def)
    then show thesis by (rule same)
  next
    case True
    obtain y l where l: "lp_reserve L i (ad_ledger s) = (y, l)" by fastforce
    show thesis
    proof (cases "y = Inr True")
      case y: True
      have "reserved_execution h L a i (s\<lparr>ad_ledger := l\<rparr>) = (x, s')"
        using assms(1) True l y by (simp add: adapter_execute_def eff_bind_def on_ledger_def)
      then have "submits (xa_policy a) i (s\<lparr>ad_ledger := l\<rparr>) s'"
        using True by (intro effect_ofD[OF reserved_execution_effect]) simp_all
      then show thesis using first l y by simp
    next
      case y: False
      then have ls: "s\<lparr>ad_ledger := l\<rparr> = s" using reserve_refused[OF l] by simp
      show thesis
      proof (cases y)
        case (Inl e)
        then show thesis using same assms(1) True l ls by (simp add: adapter_execute_def eff_bind_def on_ledger_def)
      next
        case (Inr fresh)
        then have "record_and_return L (unknown_result h i ''reserved intent requires reconciliation'' None) s = (x, s')"
          using assms(1) True l ls y by (simp add: adapter_execute_def eff_bind_def on_ledger_def)
        then have "quiet s s'" by (rule effect_ofD[OF quiet_record_and_return])
        then show thesis using again l Inr y by simp
      qed
    qed
  qed
  note cases = this
  show "inv (ad_ledger s')"
    using assms(2) by (cases rule: cases) (auto simp: quiet_def submits_def dest: reserve_inv)
  show "lp_is_reserved L j (ad_ledger s) \<Longrightarrow> lp_is_reserved L j (ad_ledger s')"
    using assms(2) by (cases rule: cases) (auto simp: quiet_def submits_def dest: reserve_fresh)
  show "lp_get L j (ad_ledger s) = Some r \<Longrightarrow> lp_get L j (ad_ledger s') = Some r"
    by (cases rule: cases) (auto simp: quiet_def submits_def reserve_get[of i "ad_ledger s"])
  show "ad_log s' = ad_log s \<or> (\<exists>b. cleared (xa_policy a) i b \<and> ad_log s' = ad_log s @ [(xa_policy a, i, b)]
       \<and> \<not> lp_is_reserved L (xi_id i) (ad_ledger s) \<and> lp_is_reserved L (xi_id i) (ad_ledger s'))"
    using assms(2) by (cases rule: cases) (auto simp: quiet_def submits_def dest: reserve_fresh)
qed

text \<open>The invariant of a whole life of the system.\<close>

definition log_ok :: "('l, 'w) adapter_state \<Rightarrow> bool" where
  "log_ok s \<longleftrightarrow> inv (ad_ledger s) \<and> distinct (map (\<lambda>(_, i, _). xi_id i) (ad_log s)) \<and>
     list_all (\<lambda>(p, i, b). cleared p i b \<and> lp_is_reserved L (xi_id i) (ad_ledger s)) (ad_log s)"

lemma execute_log_ok: "log_ok s \<Longrightarrow> log_ok (snd (adapter_execute h L a i s))"
proof -
  assume ok: "log_ok s"
  obtain x s' where e: "adapter_execute h L a i s = (x, s')" by fastforce
  have inv: "inv (ad_ledger s)" using ok by (simp add: log_ok_def)
  note ef = execute_effect[OF e inv]
  have keep: "list_all (\<lambda>(p, i, b). cleared p i b \<and> lp_is_reserved L (xi_id i) (ad_ledger s')) (ad_log s)"
    using ok ef(2) by (auto simp: log_ok_def list_all_iff)
  from ef(4) show ?thesis
  proof (elim disjE exE conjE)
    assume "ad_log s' = ad_log s"
    then show ?thesis using ok ef(1) keep e by (simp add: log_ok_def)
  next
    fix b assume b: "cleared (xa_policy a) i b" "ad_log s' = ad_log s @ [(xa_policy a, i, b)]"
      "\<not> lp_is_reserved L (xi_id i) (ad_ledger s)" "lp_is_reserved L (xi_id i) (ad_ledger s')"
    then have "xi_id i \<notin> set (map (\<lambda>(_, i, _). xi_id i) (ad_log s))"
      using ok by (auto simp: log_ok_def list_all_iff)
    then show ?thesis using ok ef(1) keep b e by (auto simp: log_ok_def)
  qed
qed

lemma run_all_log_ok: "log_ok s \<Longrightarrow> log_ok (run_all h L cs s)"
proof (induction cs arbitrary: s)
  case (Cons c cs)
  then show ?case by (cases c) (simp add: execute_log_ok)
qed simp

lemma run_all_results:
  assumes "log_ok s" "lp_get L j (ad_ledger s) = Some r"
  shows "lp_get L j (ad_ledger (run_all h L cs s)) = Some r"
  using assms
proof (induction cs arbitrary: s)
  case (Cons c cs)
  obtain a i where c: "c = (a, i)" by fastforce
  obtain x s' where e: "adapter_execute h L a i s = (x, s')" by fastforce
  have "lp_get L j (ad_ledger s') = Some r"
    using execute_effect(3)[OF e] Cons.prems by (simp add: log_ok_def)
  then show ?case using Cons.IH[of s'] execute_log_ok[OF Cons.prems(1), of h a i] c e by simp
qed simp

end

text \<open>What a returned value guarantees.\<close>

definition returns :: "('a \<Rightarrow> 's \<Rightarrow> bool) \<Rightarrow> ('s, 'a) eff \<Rightarrow> bool" where
  "returns P m \<longleftrightarrow> (\<forall>s x s'. m s = (Inr x, s') \<longrightarrow> P x s')"

lemma returnsD: "returns P m \<Longrightarrow> m s = (Inr x, s') \<Longrightarrow> P x s'"
  by (auto simp: returns_def)

lemma returns_pure: "returns (\<lambda>x _. P x) (eff_return y) \<longleftrightarrow> P y"
  by (auto simp: returns_def eff_simps)

lemma returns_bind:
  "returns (\<lambda>x _. Q x) m \<Longrightarrow> (\<And>x. Q x \<Longrightarrow> returns P (k x)) \<Longrightarrow> returns P (eff_bind m k)"
  unfolding returns_def eff_bind_def by (fastforce split: prod.splits sum.splits)

lemma returns_any: "returns (\<lambda>_ _. True) m"
  by (simp add: returns_def)

lemma returns_catch:
  "returns (\<lambda>x _. Q x) m \<Longrightarrow> (\<And>e k. h e = Some k \<Longrightarrow> returns (\<lambda>x _. Q x) k) \<Longrightarrow>
   returns (\<lambda>x _. Q x) (eff_catch m h)"
  unfolding returns_def eff_catch_def
  by (auto split: prod.splits sum.splits option.splits)

text \<open>Every result the adapter builds belongs to its intent.\<close>

definition result_for :: "execution_intent \<Rightarrow> execution_result res \<Rightarrow> bool" where
  "result_for i m \<longleftrightarrow> (\<forall>r. m = Inr r \<longrightarrow> xe_intent_id r = xi_id i)"

lemma result_for_mk: "xe_intent_id x = xi_id i \<Longrightarrow> result_for i (mk_execution_result h x)"
  by (auto simp: result_for_def mk_execution_result_def res_simps execution_result_identity.bind_ok_iff)

lemma result_for_intro [simp]:
  "result_for i (known_result h i st c reason t obs)" "result_for i (unknown_result h i reason obs)"
  "result_for i (failed_result h i reason t obs)" "result_for i (invalid_report h i b r)"
  by (simp_all add: known_result_def unknown_result_def failed_result_def invalid_report_def result_for_mk
      blank_result_def)

lemma result_for_bind: "(\<And>x. result_for i (k x)) \<Longrightarrow> result_for i (res_bind m k)"
  by (cases m) (simp_all add: result_for_def)

lemma result_for_report [simp]: "result_for i (result_from_report h i b r)"
  unfolding result_from_report_def Let_def
  by (simp add: result_for_bind result_for_mk blank_result_def)

lemma preflight_for: "preflight h p i b = Inr (Some r) \<Longrightarrow> result_for i (Inr r)"
proof -
  assume "preflight h p i b = Inr (Some r)"
  then obtain c st where "known_result h i st c (reason_value c) (xb_available_at b) (Some b) = Inr r"
    by (cases "preflight_reason p i b")
      (auto simp: preflight_def res_simps split: option.split_asm prod.split_asm)
  then show ?thesis using result_for_intro(1)[of i h st c] by (metis result_for_def)
qed

context submission_ledger
begin

abbreviation recorded_for :: "execution_intent \<Rightarrow> execution_result \<Rightarrow> ('l, 'w) adapter_state \<Rightarrow> bool" where
  "recorded_for i r s \<equiv> lp_get L (xi_id i) (ad_ledger s) = Some r"

lemma record_returns: "result_for i m \<Longrightarrow> returns (recorded_for i) (record_and_return L m)"
  by (cases m) (auto simp: returns_def record_and_return_def eff_bind_def eff_of_def eff_return_def
      on_ledger_def result_for_def dest: record_ok split: prod.splits sum.splits)

lemma validated_returns: "returns (recorded_for i) (validated_execution h L a i b)"
proof -
  have s: "returns (recorded_for i) (submit_and_record h L a i b)"
    unfolding submit_and_record_def
    by (rule returns_bind[where Q = "result_for i"])
      (auto intro!: returns_catch returns_bind[where Q = "\<lambda>_. True"] returns_any record_returns
        simp: returns_pure split: py_error.splits)
  show ?thesis
    unfolding validated_execution_def
    by (rule returns_bind[where Q = "opt_all (result_for i)"])
      (auto intro!: returns_catch returns_bind[where Q = "\<lambda>_. True"] returns_any record_returns s
        simp: returns_pure on_transport_failure_def split: py_error.splits option.splits)
qed

lemma reserved_returns: "returns (recorded_for i) (reserved_execution h L a i)"
proof -
  have ob: "returns (recorded_for i) (observed_execution h L a i b)" for b
    unfolding observed_execution_def
    by (auto intro!: record_returns validated_returns preflight_for simp: returns_def[of _ "eff_of _"] eff_of_def
        split: sum.splits option.splits)
  have provided: "returns (\<lambda>v _. case v of Inl m \<Rightarrow> result_for i m | Inr _ \<Rightarrow> True)
      (eff_catch (eff_bind (on_world (xa_provider a i)) (\<lambda>b. eff_return (Inr b)))
        (on_transport_failure (\<lambda>msg.
           eff_return (Inl (failed_result h i msg (xi_available_at i) None)))))"
    by (auto intro!: returns_catch returns_bind[where Q = "\<lambda>_. True"] returns_any
        simp: returns_pure on_transport_failure_def split: py_error.splits)
  show ?thesis
    unfolding reserved_execution_def using provided
    by (auto intro!: record_returns returns_bind[OF provided] ob split: sum.splits)
qed

lemma execute_records:
  assumes "adapter_execute h L a i s = (Inr r, s')"
  shows "recorded_for i r s'" "policy_bound (xa_policy a) i"
proof -
  show b: "policy_bound (xa_policy a) i"
    using assms by (cases "policy_bound (xa_policy a) i") (simp_all add: adapter_execute_def)
  have "returns (recorded_for i) (eff_bind (on_ledger (lp_reserve L i)) (\<lambda>fresh.
          if \<not> fresh then record_and_return L (unknown_result h i ''reserved intent requires reconciliation'' None)
          else reserved_execution h L a i))"
    by (rule returns_bind[where Q = "\<lambda>_. True"]) (auto intro!: record_returns reserved_returns returns_any)
  then show "recorded_for i r s'"
    using assms b returnsD by (cases "lp_get L (xi_id i) (ad_ledger s)") (fastforce simp: adapter_execute_def)+
qed

text \<open>Executing again, after whatever happened in between, returns the recorded result and does nothing.\<close>

lemma execute_again:
  assumes "log_ok s" "adapter_execute h L a i s = (Inr r, s')"
  shows "adapter_execute h L a i (run_all h L cs s') = (Inr r, run_all h L cs s')"
proof -
  have "log_ok s'" using execute_log_ok[OF assms(1), of h a i] assms(2) by simp
  then have "lp_get L (xi_id i) (ad_ledger (run_all h L cs s')) = Some r"
    using run_all_results execute_records(1)[OF assms(2)] by blast
  then show ?thesis using execute_records(2)[OF assms(2)] by (simp add: adapter_execute_def)
qed

end

text \<open>The in-memory ledger keeps the contract.\<close>

interpretation memory_ledger: submission_ledger memory_port "\<lambda>_. True"
  by unfold_locales
    (auto simp: memory_port_def memory_reserve_def memory_record_def split: if_splits)

end
