(* ===== verification/ExecutionLedger.thy ===== *)
theory ExecutionLedger
  imports ExecutionAdapter
begin

section \<open>Durable execution ledger (\<open>execution_boundary/recovery_contracts.py\<close>, \<open>persistence.py\<close>)\<close>

text \<open>
  The recovery contracts and the append-only SQLite ledger. The database is the list of its rows: the
  table is append-only (its triggers abort updates and deletions), \<open>transition_id\<close> is unique and a
  partial unique index allows one \<open>RESERVED\<close> row per intent. A row read back is the record that was
  written: the JSON dump and its parser are outside the repository.
\<close>

subsection \<open>Recovery contracts\<close>

datatype broker_object_kind = BK_POSITION | BK_ORDER

datatype reconciliation_kind = RCK_MATCHED | RCK_BROKER_ONLY | RCK_LOCAL_ONLY | RCK_CONFLICT | RCK_UNKNOWN

primrec kind_value :: "reconciliation_kind \<Rightarrow> string" where
  "kind_value RCK_MATCHED = ''MATCHED''"
| "kind_value RCK_BROKER_ONLY = ''BROKER_ONLY''"
| "kind_value RCK_LOCAL_ONLY = ''LOCAL_ONLY''"
| "kind_value RCK_CONFLICT = ''CONFLICT''"
| "kind_value RCK_UNKNOWN = ''UNKNOWN''"

datatype resolution_status = RESOLVED | RECONCILIATION_REQUIRED

datatype resume_status = RSM_STARTING | RSM_RECONCILING | RSM_SAFE | RSM_BLOCKED

datatype resume_block_reason =
    BLK_MARKET_NOT_FRESH | BLK_ACCOUNT_NOT_FRESH | BLK_POSITIONS_NOT_FRESH | BLK_ORDERS_NOT_FRESH
  | BLK_EXPOSURE_NOT_FRESH | BLK_BROKER_CONSTRAINTS_NOT_FRESH | BLK_RECONCILIATION_INCOMPLETE
  | BLK_UNRESOLVED_EXECUTION_ANOMALY | BLK_MISSING_INTRABAR_CONTINUITY | BLK_THESIS_EXPIRED

record broker_intent_link =
  bl_id :: string
  bl_intent_id :: string
  bl_object_kind :: broker_object_kind
  bl_object_id :: string
  bl_ticket :: "int option"
  bl_transport_id :: "string option"

definition mk_broker_intent_link ::
  "(broker_intent_link \<Rightarrow> string) \<Rightarrow> broker_intent_link \<Rightarrow> broker_intent_link res" where
  "mk_broker_intent_link h b = res_bind (validate
     [nonempty ''intent_id'' (bl_intent_id b), nonempty ''broker_object_id'' (bl_object_id b),
      field_ok ''broker_ticket'' (opt_all (\<lambda>t. 0 < t) (bl_ticket b)),
      field_ok ''transport_execution_id'' (opt_all (\<lambda>s. s \<noteq> []) (bl_transport_id b)),
      rule_ok ''broker intent link requires exact persisted linkage''
        (\<not> (bl_ticket b = None \<and> bl_transport_id b = None))] b)
     (bind_identity ''bil-'' h (\<lambda>r. r\<lparr>bl_id := []\<rparr>) bl_id (\<lambda>i r. r\<lparr>bl_id := i\<rparr>)
        ''link_id does not match broker linkage content'')"

record broker_snapshot =
  sn_id :: string
  sn_source :: string
  sn_source_version :: string
  sn_as_of :: dt
  sn_observed_at :: dt
  sn_available_at :: dt
  sn_account :: account_state
  sn_market :: market_state
  sn_positions :: position_book_state
  sn_orders :: order_book_state
  sn_exposure :: exposure_state
  sn_broker :: broker_constraints
  sn_links :: "broker_intent_link list"

definition snapshot_times :: "broker_snapshot \<Rightarrow> dt list" where
  "snapshot_times s = [ac_as_of (sn_account s), ms_as_of (sn_market s), pb_as_of (sn_positions s),
     ob_as_of (sn_orders s), ex_as_of (sn_exposure s), bc_as_of (sn_broker s)]"

definition broker_snapshot_rules :: "broker_snapshot \<Rightarrow> (bool \<times> py_error) list" where
  "broker_snapshot_rules s =
     [nonempty ''source'' (sn_source s), nonempty ''source_version'' (sn_source_version s),
      rule_ok ''broker snapshot timestamps must be causally ordered''
        (sn_as_of s \<le> sn_observed_at s \<and> sn_observed_at s \<le> sn_available_at s),
      rule_ok ''broker snapshot contains future component state''
        (list_all (\<lambda>t. t \<le> sn_as_of s) (snapshot_times s)),
      rule_ok ''broker intent link references an absent broker object''
        (list_all (\<lambda>l. bl_object_id l \<in> pos_id ` set (pb_positions (sn_positions s))
           \<union> ord_id ` set (ob_orders (sn_orders s))) (sn_links s))]"

definition mk_broker_snapshot :: "(broker_snapshot \<Rightarrow> string) \<Rightarrow> broker_snapshot \<Rightarrow> broker_snapshot res" where
  "mk_broker_snapshot h s = res_bind (validate (broker_snapshot_rules s) s)
     (bind_identity ''brs-'' h (\<lambda>r. r\<lparr>sn_id := []\<rparr>) sn_id (\<lambda>i r. r\<lparr>sn_id := i\<rparr>)
        ''snapshot_id does not match broker snapshot content'')"

record reconciliation_finding =
  fd_id :: string
  fd_kind :: reconciliation_kind
  fd_status :: resolution_status
  fd_intent_id :: "string option"
  fd_object_id :: "string option"
  fd_ticket :: "int option"
  fd_reason_code :: string

definition mk_finding ::
  "(reconciliation_finding \<Rightarrow> string) \<Rightarrow> reconciliation_finding \<Rightarrow> reconciliation_finding res" where
  "mk_finding h f = res_bind (validate
     [field_ok ''broker_ticket'' (opt_all (\<lambda>t. 0 < t) (fd_ticket f)),
      nonempty ''reason_code'' (fd_reason_code f),
      rule_ok ''matched finding must be resolved''
        (\<not> (fd_kind f = RCK_MATCHED \<and> fd_status f \<noteq> RESOLVED)),
      rule_ok ''anomaly finding cannot silently resolve itself''
        (\<not> (fd_kind f \<noteq> RCK_MATCHED \<and> fd_status f = RESOLVED))] f)
     (bind_identity ''rf-'' h (\<lambda>r. r\<lparr>fd_id := []\<rparr>) fd_id (\<lambda>i r. r\<lparr>fd_id := i\<rparr>)
        ''finding_id does not match finding content'')"

interpretation finding_identity: content_addressed "''rf-''" h "\<lambda>r. r\<lparr>fd_id := []\<rparr>" fd_id
    "\<lambda>i r. r\<lparr>fd_id := i\<rparr>" "''finding_id does not match finding content''"
  for h :: "reconciliation_finding \<Rightarrow> string"
  by unfold_locales simp_all

record reconciliation_report =
  rp_id :: string
  rp_snapshot_id :: string
  rp_as_of :: dt
  rp_available_at :: dt
  rp_status :: resolution_status
  rp_findings :: "reconciliation_finding list"
  rp_supersedes :: "string option"

definition findings_status :: "reconciliation_finding list \<Rightarrow> resolution_status" where
  "findings_status fs =
     (if list_all (\<lambda>f. fd_status f = RESOLVED) fs then RESOLVED else RECONCILIATION_REQUIRED)"

definition mk_reconciliation_report ::
  "(reconciliation_report \<Rightarrow> string) \<Rightarrow> reconciliation_report \<Rightarrow> reconciliation_report res" where
  "mk_reconciliation_report h r = res_bind (validate
     [nonempty ''snapshot_id'' (rp_snapshot_id r),
      rule_ok ''reconciliation cannot be available after as_of'' (rp_available_at r \<le> rp_as_of r),
      rule_ok ''report status does not match findings'' (rp_status r = findings_status (rp_findings r))] r)
     (bind_identity ''rr-'' h (\<lambda>r. r\<lparr>rp_id := []\<rparr>) rp_id (\<lambda>i r. r\<lparr>rp_id := i\<rparr>)
        ''report_id does not match reconciliation content'')"

interpretation report_identity: content_addressed "''rr-''" h "\<lambda>r. r\<lparr>rp_id := []\<rparr>" rp_id
    "\<lambda>i r. r\<lparr>rp_id := i\<rparr>" "''report_id does not match reconciliation content''"
  for h :: "reconciliation_report \<Rightarrow> string"
  by unfold_locales simp_all

record resume_readiness =
  rd_id :: string
  rd_runtime_state_id :: string
  rd_report_id :: string
  rd_as_of :: dt
  rd_status :: resume_status
  rd_reasons :: "resume_block_reason list"

definition mk_resume_readiness :: "(resume_readiness \<Rightarrow> string) \<Rightarrow> resume_readiness \<Rightarrow> resume_readiness res" where
  "mk_resume_readiness h r = res_bind (validate
     [nonempty ''runtime_state_id'' (rd_runtime_state_id r),
      nonempty ''reconciliation_report_id'' (rd_report_id r),
      rule_ok ''safe readiness cannot contain block reasons''
        (\<not> (rd_status r = RSM_SAFE \<and> rd_reasons r \<noteq> [])),
      rule_ok ''blocked readiness requires reasons''
        (\<not> (rd_status r = RSM_BLOCKED \<and> rd_reasons r = []))] r)
     (bind_identity ''ready-'' h (\<lambda>r. r\<lparr>rd_id := []\<rparr>) rd_id (\<lambda>i r. r\<lparr>rd_id := i\<rparr>)
        ''readiness_id does not match readiness content'')"

interpretation readiness_identity: content_addressed "''ready-''" h "\<lambda>r. r\<lparr>rd_id := []\<rparr>" rd_id
    "\<lambda>i r. r\<lparr>rd_id := i\<rparr>" "''readiness_id does not match readiness content''"
  for h :: "resume_readiness \<Rightarrow> string"
  by unfold_locales simp_all

record recovery_checkpoint =
  ck_id :: string
  ck_runtime_state_id :: string
  ck_source_cursors :: "source_cursor list"
  ck_report_id :: "string option"
  ck_readiness_id :: "string option"
  ck_thesis_state_ids :: "string list"
  ck_available_at :: dt

definition mk_recovery_checkpoint ::
  "(recovery_checkpoint \<Rightarrow> string) \<Rightarrow> recovery_checkpoint \<Rightarrow> recovery_checkpoint res" where
  "mk_recovery_checkpoint h c = res_bind (validate
     [nonempty ''runtime_state_id'' (ck_runtime_state_id c)] c)
     (bind_identity ''rcp-'' h (\<lambda>r. r\<lparr>ck_id := []\<rparr>) ck_id (\<lambda>i r. r\<lparr>ck_id := i\<rparr>)
        ''checkpoint_id does not match checkpoint content'')"

datatype transition_type = TT_RESERVED | TT_RESULT_RECORDED | TT_RECONCILIATION_RECORDED

record execution_transition =
  et_id :: string
  et_type :: transition_type
  et_intent_id :: "string option"
  et_intent :: "execution_intent option"
  et_result :: "execution_result option"
  et_reconciliation :: "reconciliation_report option"
  et_available_at :: dt

definition present :: "'a option \<Rightarrow> int" where
  "present v = (case v of None \<Rightarrow> 0 | Some _ \<Rightarrow> 1)"

definition expected_transition_type :: "execution_transition \<Rightarrow> transition_type" where
  "expected_transition_type t =
     (if et_intent t \<noteq> None then TT_RESERVED
      else if et_result t \<noteq> None then TT_RESULT_RECORDED else TT_RECONCILIATION_RECORDED)"

definition payload_intent_id :: "execution_transition \<Rightarrow> string option" where
  "payload_intent_id t = (case et_intent t of
     Some i \<Rightarrow> Some (xi_id i)
   | None \<Rightarrow> map_option xe_intent_id (et_result t))"

definition execution_transition_rules :: "execution_transition \<Rightarrow> (bool \<times> py_error) list" where
  "execution_transition_rules t =
     [rule_ok ''transition requires exactly one semantic payload''
        (present (et_intent t) + present (et_result t) + present (et_reconciliation t) = 1),
      rule_ok ''transition type does not match payload'' (et_type t = expected_transition_type t),
      rule_ok ''transition intent_id does not match payload'' (et_intent_id t = payload_intent_id t)]"

definition mk_execution_transition ::
  "(execution_transition \<Rightarrow> string) \<Rightarrow> execution_transition \<Rightarrow> execution_transition res" where
  "mk_execution_transition h t = res_bind (validate (execution_transition_rules t) t)
     (bind_identity ''xt-'' h (\<lambda>r. r\<lparr>et_id := []\<rparr>) et_id (\<lambda>i r. r\<lparr>et_id := i\<rparr>)
        ''transition_id does not match transition content'')"

interpretation transition_identity: content_addressed "''xt-''" h "\<lambda>r. r\<lparr>et_id := []\<rparr>" et_id
    "\<lambda>i r. r\<lparr>et_id := i\<rparr>" "''transition_id does not match transition content''"
  for h :: "execution_transition \<Rightarrow> string"
  by unfold_locales simp_all

subsection \<open>The SQLite ledger\<close>

record execution_db =
  xd_rows :: "execution_transition list"
  xd_checkpoints :: "recovery_checkpoint list"

definition empty_execution_db :: execution_db where
  "empty_execution_db = \<lparr>xd_rows = [], xd_checkpoints = []\<rparr>"

text \<open>\<open>_append_transition\<close>: the insertion fails on a duplicate identifier or a second reservation.\<close>

definition append_transition :: "execution_transition \<Rightarrow> (execution_db, unit) eff" where
  "append_transition t d =
     (if list_ex (\<lambda>u. et_id u = et_id t \<or>
          et_type t = TT_RESERVED \<and> et_type u = TT_RESERVED \<and> et_intent_id u = et_intent_id t
          \<and> et_intent_id t \<noteq> None) (xd_rows d)
      then (Inl IntegrityError, d)
      else (Inr (), d\<lparr>xd_rows := xd_rows d @ [t]\<rparr>))"

definition db_is_reserved :: "string \<Rightarrow> execution_db \<Rightarrow> bool" where
  "db_is_reserved i d \<longleftrightarrow> list_ex (\<lambda>t. et_type t = TT_RESERVED \<and> et_intent_id t = Some i) (xd_rows d)"

definition reservation :: "execution_intent \<Rightarrow> execution_transition" where
  "reservation i = \<lparr>et_id = [], et_type = TT_RESERVED, et_intent_id = Some (xi_id i), et_intent = Some i,
     et_result = None, et_reconciliation = None, et_available_at = xi_available_at i\<rparr>"

definition result_transition :: "execution_result \<Rightarrow> execution_transition" where
  "result_transition r = \<lparr>et_id = [], et_type = TT_RESULT_RECORDED, et_intent_id = Some (xe_intent_id r),
     et_intent = None, et_result = Some r, et_reconciliation = None, et_available_at = xe_available_at r\<rparr>"

definition reconciliation_transition :: "reconciliation_report \<Rightarrow> execution_transition" where
  "reconciliation_transition r = \<lparr>et_id = [], et_type = TT_RECONCILIATION_RECORDED, et_intent_id = None,
     et_intent = None, et_result = None, et_reconciliation = Some r, et_available_at = rp_available_at r\<rparr>"

definition db_reserve ::
  "(execution_transition \<Rightarrow> string) \<Rightarrow> execution_intent \<Rightarrow> (execution_db, bool) eff" where
  "db_reserve h i = eff_bind (eff_of (mk_execution_transition h (reservation i))) (\<lambda>t.
     eff_catch (eff_bind (append_transition t) (\<lambda>_. eff_return True))
       (\<lambda>e. if e = IntegrityError then Some (eff_return False) else None))"

definition db_results :: "string \<Rightarrow> execution_db \<Rightarrow> execution_result list" where
  "db_results i d = List.map_filter (\<lambda>t. if et_intent_id t = Some i then et_result t else None) (xd_rows d)"

definition db_get :: "string \<Rightarrow> execution_db \<Rightarrow> execution_result option" where
  "db_get i d = (if db_results i d = [] then None else Some (last (db_results i d)))"

definition db_record ::
  "(execution_transition \<Rightarrow> string) \<Rightarrow> execution_result \<Rightarrow> (execution_db, unit) eff" where
  "db_record h r d =
     (if \<not> db_is_reserved (xe_intent_id r) d
      then (Inl (ValueError ''execution intent must be reserved before recording''), d)
      else case db_get (xe_intent_id r) d of
        Some prior \<Rightarrow>
          (if prior = r then Inr () else Inl (ValueError ''execution intent already has a different result''), d)
      | None \<Rightarrow> eff_bind (eff_of (mk_execution_transition h (result_transition r))) append_transition d)"

definition db_intents :: "execution_db \<Rightarrow> execution_intent list" where
  "db_intents d = List.map_filter et_intent (xd_rows d)"

definition db_latest_results :: "execution_db \<Rightarrow> execution_result list" where
  "db_latest_results d = sorted_values (dict_by xe_intent_id (List.map_filter et_result (xd_rows d)))"

definition db_reconciliations :: "execution_db \<Rightarrow> reconciliation_report list" where
  "db_reconciliations d = List.map_filter et_reconciliation (xd_rows d)"

definition db_latest_reconciliation :: "execution_db \<Rightarrow> reconciliation_report option" where
  "db_latest_reconciliation d =
     (if db_reconciliations d = [] then None else Some (last (db_reconciliations d)))"

definition supersedes_ok :: "reconciliation_report option \<Rightarrow> reconciliation_report \<Rightarrow> (bool \<times> py_error) list" where
  "supersedes_ok previous r =
     [rule_ok ''first reconciliation cannot supersede an absent report''
        (\<not> (previous = None \<and> rp_supersedes r \<noteq> None)),
      rule_ok ''new reconciliation must supersede the latest report''
        (opt_all (\<lambda>p. rp_supersedes r = Some (rp_id p)) previous)]"

definition db_append_reconciliation ::
  "(execution_transition \<Rightarrow> string) \<Rightarrow> reconciliation_report \<Rightarrow> (execution_db, unit) eff" where
  "db_append_reconciliation h r d =
     eff_bind (eff_of (validate (supersedes_ok (db_latest_reconciliation d) r) ())) (\<lambda>_.
     eff_bind (eff_of (mk_execution_transition h (reconciliation_transition r))) append_transition) d"

definition db_requires_reconciliation :: "string \<Rightarrow> execution_db \<Rightarrow> bool" where
  "db_requires_reconciliation i d = (case db_get i d of
     None \<Rightarrow> db_is_reserved i d
   | Some r \<Rightarrow>
       if xe_status r \<noteq> XS_UNKNOWN then False
       else case db_latest_reconciliation d of
         None \<Rightarrow> True
       | Some p \<Rightarrow> rp_status p = RECONCILIATION_REQUIRED
           \<or> \<not> list_ex (\<lambda>f. fd_intent_id f = Some i) (rp_findings p))"

text \<open>\<open>INSERT OR IGNORE\<close> on the unique checkpoint identifier.\<close>

definition db_append_checkpoint :: "recovery_checkpoint \<Rightarrow> (execution_db, unit) eff" where
  "db_append_checkpoint c d =
     (Inr (), if list_ex (\<lambda>x. ck_id x = ck_id c) (xd_checkpoints d) then d
              else d\<lparr>xd_checkpoints := xd_checkpoints d @ [c]\<rparr>)"

definition db_latest_checkpoint :: "execution_db \<Rightarrow> recovery_checkpoint option" where
  "db_latest_checkpoint d = (if xd_checkpoints d = [] then None else Some (last (xd_checkpoints d)))"

definition sqlite_port :: "(execution_transition \<Rightarrow> string) \<Rightarrow> execution_db ledger_port" where
  "sqlite_port h = \<lparr>lp_get = db_get, lp_is_reserved = db_is_reserved, lp_reserve = db_reserve h,
     lp_record = db_record h\<rparr>"

subsection \<open>Facts about the rows\<close>

definition stamped :: "(execution_transition \<Rightarrow> string) \<Rightarrow> execution_transition \<Rightarrow> execution_transition" where
  "stamped h t = t\<lparr>et_id := content_id ''xt-'' h (t\<lparr>et_id := []\<rparr>)\<rparr>"

lemma stamped_fields [simp]:
  "et_type (stamped h t) = et_type t" "et_intent_id (stamped h t) = et_intent_id t"
  "et_intent (stamped h t) = et_intent t" "et_result (stamped h t) = et_result t"
  "et_reconciliation (stamped h t) = et_reconciliation t"
  by (simp_all add: stamped_def)

lemma mk_payload [simp]:
  "mk_execution_transition h (reservation i) = Inr (stamped h (reservation i))"
  "mk_execution_transition h (result_transition r) = Inr (stamped h (result_transition r))"
  "mk_execution_transition h (reconciliation_transition p) = Inr (stamped h (reconciliation_transition p))"
  by (simp_all add: mk_execution_transition_def res_simps transition_identity.bind_ok_iff stamped_def
      execution_transition_rules_def present_def expected_transition_type_def payload_intent_id_def
      reservation_def result_transition_def reconciliation_transition_def)

lemma payload_fields [simp]:
  "et_type (reservation i) = TT_RESERVED" "et_intent_id (reservation i) = Some (xi_id i)"
  "et_intent (reservation i) = Some i" "et_result (reservation i) = None" "et_reconciliation (reservation i) = None"
  "et_type (result_transition r) = TT_RESULT_RECORDED"
  "et_intent_id (result_transition r) = Some (xe_intent_id r)" "et_intent (result_transition r) = None"
  "et_result (result_transition r) = Some r" "et_reconciliation (result_transition r) = None"
  "et_type (reconciliation_transition p) = TT_RECONCILIATION_RECORDED"
  "et_intent_id (reconciliation_transition p) = None" "et_intent (reconciliation_transition p) = None"
  "et_result (reconciliation_transition p) = None" "et_reconciliation (reconciliation_transition p) = Some p"
  by (simp_all add: reservation_def result_transition_def reconciliation_transition_def)

lemma append_cases:
  "append_transition t d = (x, d') \<Longrightarrow>
   (x = Inl IntegrityError \<and> d' = d) \<or> (x = Inr () \<and> d' = d\<lparr>xd_rows := xd_rows d @ [t]\<rparr>)"
  by (auto simp: append_transition_def split: if_splits)

lemma append_ok_iff:
  "append_transition t d = (Inr (), d') \<longleftrightarrow> d' = d\<lparr>xd_rows := xd_rows d @ [t]\<rparr> \<and>
     list_all (\<lambda>u. et_id u \<noteq> et_id t) (xd_rows d) \<and>
     (et_type t = TT_RESERVED \<and> et_intent_id t \<noteq> None \<longrightarrow>
        list_all (\<lambda>u. et_type u = TT_RESERVED \<longrightarrow> et_intent_id u \<noteq> et_intent_id t) (xd_rows d))"
  by (auto simp: append_transition_def list_ex_iff list_all_iff split: if_splits)

lemma db_reserve_cases:
  assumes "db_reserve h i d = (x, d')"
  obtains (fresh) "x = Inr True" "append_transition (stamped h (reservation i)) d = (Inr (), d')"
    "d' = d\<lparr>xd_rows := xd_rows d @ [stamped h (reservation i)]\<rparr>" "\<not> db_is_reserved (xi_id i) d"
  | (refused) "x = Inr False" "d' = d"
proof -
  obtain y e where a: "append_transition (stamped h (reservation i)) d = (y, e)" by fastforce
  from append_cases[OF a] show ?thesis
  proof (elim disjE conjE)
    assume "y = Inl IntegrityError" "e = d"
    then show ?thesis using assms a refused by (simp add: db_reserve_def eff_bind_def eff_of_def eff_catch_def eff_return_def)
  next
    assume y: "y = Inr ()" "e = d\<lparr>xd_rows := xd_rows d @ [stamped h (reservation i)]\<rparr>"
    then have ok: "append_transition (stamped h (reservation i)) d = (Inr (), e)" using a by simp
    then have new: "\<not> db_is_reserved (xi_id i) d"
      unfolding append_ok_iff by (auto simp: db_is_reserved_def list_ex_iff list_all_iff)
    have "x = Inr True" "d' = e"
      using assms unfolding db_reserve_def by (simp_all add: eff_bind_def eff_of_def eff_catch_def eff_return_def ok)
    then show ?thesis using fresh ok y(2) new by simp
  qed
qed

lemma db_record_cases:
  assumes "db_record h r d = (x, d')"
  obtains (new) "x = Inr ()" "db_is_reserved (xe_intent_id r) d" "db_get (xe_intent_id r) d = None"
    "append_transition (stamped h (result_transition r)) d = (Inr (), d')"
    "d' = d\<lparr>xd_rows := xd_rows d @ [stamped h (result_transition r)]\<rparr>"
  | (again) "x = Inr ()" "d' = d" "db_get (xe_intent_id r) d = Some r"
  | (failed) e where "x = Inl e" "d' = d"
proof (cases "db_is_reserved (xe_intent_id r) d \<and> db_get (xe_intent_id r) d = None")
  case True
  obtain y e where a: "append_transition (stamped h (result_transition r)) d = (y, e)" by fastforce
  then show ?thesis
    using assms True new failed append_cases[OF a] by (auto simp: db_record_def eff_bind_def eff_of_def)
next
  case False
  then show ?thesis
    using assms again failed by (auto simp: db_record_def split: if_splits option.splits)
qed

lemma db_results_append [simp]:
  "db_results i (d\<lparr>xd_rows := xd_rows d @ [t]\<rparr>) =
     db_results i d @ (if et_intent_id t = Some i then (case et_result t of None \<Rightarrow> [] | Some r \<Rightarrow> [r]) else [])"
  by (simp add: db_results_def map_filter_def split: option.split)

lemma db_reserved_append [simp]:
  "db_is_reserved i (d\<lparr>xd_rows := xd_rows d @ [t]\<rparr>) \<longleftrightarrow>
     db_is_reserved i d \<or> et_type t = TT_RESERVED \<and> et_intent_id t = Some i"
  by (auto simp: db_is_reserved_def)

lemma db_reconciliations_append [simp]:
  "db_reconciliations (d\<lparr>xd_rows := xd_rows d @ [t]\<rparr>) =
     db_reconciliations d @ (case et_reconciliation t of None \<Rightarrow> [] | Some r \<Rightarrow> [r])"
  by (simp add: db_reconciliations_def map_filter_def split: option.split)

text \<open>The durable ledger keeps the contract of the adapter, without any assumption on its rows.\<close>

interpretation sqlite_ledger: submission_ledger "sqlite_port h" "\<lambda>_. True"
  for h :: "execution_transition \<Rightarrow> string"
proof unfold_locales
  fix i r l l' and x :: "bool res" and y :: "unit res" and j r'
  show "lp_reserve (sqlite_port h) i l = (Inr True, l') \<Longrightarrow>
      \<not> lp_is_reserved (sqlite_port h) (xi_id i) l \<and>
      (\<forall>j. lp_is_reserved (sqlite_port h) j l' \<longleftrightarrow> j = xi_id i \<or> lp_is_reserved (sqlite_port h) j l)"
    by (auto simp: sqlite_port_def elim!: db_reserve_cases)
  show "lp_reserve (sqlite_port h) i l = (x, l') \<Longrightarrow> x \<noteq> Inr True \<Longrightarrow> l' = l"
    by (auto simp: sqlite_port_def elim!: db_reserve_cases)
  show "lp_reserve (sqlite_port h) i l = (x, l') \<Longrightarrow> lp_get (sqlite_port h) j l' = lp_get (sqlite_port h) j l"
    by (auto simp: sqlite_port_def db_get_def elim!: db_reserve_cases split: if_splits)
  show "lp_record (sqlite_port h) r l = (Inr (), l') \<Longrightarrow> lp_get (sqlite_port h) (xe_intent_id r) l' = Some r"
    by (auto simp: sqlite_port_def db_get_def elim!: db_record_cases split: if_splits)
  show "lp_record (sqlite_port h) r l = (y, l') \<Longrightarrow> lp_is_reserved (sqlite_port h) j l' = lp_is_reserved (sqlite_port h) j l"
    by (auto simp: sqlite_port_def elim!: db_record_cases)
  show "lp_record (sqlite_port h) r l = (y, l') \<Longrightarrow> lp_get (sqlite_port h) j l = Some r' \<Longrightarrow>
      lp_get (sqlite_port h) j l' = Some r'"
    by (auto simp: sqlite_port_def db_get_def elim!: db_record_cases split: if_splits)
qed simp_all

subsection \<open>Reachable ledgers\<close>

text \<open>The operations the program performs on the ledger, and what every ledger they build satisfies.\<close>

inductive reachable_db :: "(execution_transition \<Rightarrow> string) \<Rightarrow> execution_db \<Rightarrow> bool" for h where
  empty: "reachable_db h empty_execution_db"
| reserve: "reachable_db h d \<Longrightarrow> db_reserve h i d = (x, d') \<Longrightarrow> reachable_db h d'"
| recorded: "reachable_db h d \<Longrightarrow> db_record h r d = (y, d') \<Longrightarrow> reachable_db h d'"
| reconcile: "reachable_db h d \<Longrightarrow> db_append_reconciliation h p d = (y, d') \<Longrightarrow> reachable_db h d'"
| checkpoint: "reachable_db h d \<Longrightarrow> db_append_checkpoint c d = (y, d') \<Longrightarrow> reachable_db h d'"

text \<open>Every report supersedes the one before it, the first supersedes none.\<close>

fun chain_from :: "reconciliation_report option \<Rightarrow> reconciliation_report list \<Rightarrow> bool" where
  "chain_from prev [] = True"
| "chain_from prev (p # ps) = (rp_supersedes p = map_option rp_id prev \<and> chain_from (Some p) ps)"

lemma chain_from_append:
  "chain_from prev (ps @ [p]) \<longleftrightarrow> chain_from prev ps \<and>
     rp_supersedes p = map_option rp_id (if ps = [] then prev else Some (last ps))"
  by (induction ps arbitrary: prev) auto

definition reservations :: "string \<Rightarrow> execution_db \<Rightarrow> execution_transition list" where
  "reservations i d = filter (\<lambda>t. et_type t = TT_RESERVED \<and> et_intent_id t = Some i) (xd_rows d)"

definition ledger_ok :: "(execution_transition \<Rightarrow> string) \<Rightarrow> execution_db \<Rightarrow> bool" where
  "ledger_ok h d \<longleftrightarrow>
     distinct (map et_id (xd_rows d)) \<and> list_all (\<lambda>t. mk_execution_transition h t = Inr t) (xd_rows d) \<and>
     (\<forall>i. length (reservations i d) \<le> 1 \<and> length (db_results i d) \<le> length (reservations i d)) \<and>
     chain_from None (db_reconciliations d) \<and> distinct (map ck_id (xd_checkpoints d))"

lemma stamped_valid [simp]:
  "mk_execution_transition h (stamped h (reservation i)) = Inr (stamped h (reservation i))"
  "mk_execution_transition h (stamped h (result_transition r)) = Inr (stamped h (result_transition r))"
  "mk_execution_transition h (stamped h (reconciliation_transition p)) = Inr (stamped h (reconciliation_transition p))"
  by (simp_all add: mk_execution_transition_def res_simps transition_identity.bind_ok_iff stamped_def
      transition_identity.bound_def execution_transition_rules_def present_def expected_transition_type_def
      payload_intent_id_def reservation_def result_transition_def reconciliation_transition_def)

lemma reservations_append [simp]:
  "reservations i (d\<lparr>xd_rows := xd_rows d @ [t]\<rparr>) =
     reservations i d @ (if et_type t = TT_RESERVED \<and> et_intent_id t = Some i then [t] else [])"
  by (simp add: reservations_def)

lemma reserved_iff: "db_is_reserved i d \<longleftrightarrow> reservations i d \<noteq> []"
  by (auto simp: db_is_reserved_def reservations_def list_ex_iff filter_empty_conv)

lemma results_none_iff: "db_get i d = None \<longleftrightarrow> db_results i d = []"
  by (simp add: db_get_def)

lemma append_new_id:
  "append_transition t d = (Inr (), d') \<Longrightarrow> distinct (map et_id (xd_rows d)) \<Longrightarrow>
   distinct (map et_id (xd_rows d @ [t]))"
  by (auto simp: append_ok_iff list_all_iff)

lemma ledger_ok_append:
  assumes "ledger_ok h d" "append_transition t d = (Inr (), d')" "mk_execution_transition h t = Inr t"
    and "\<And>i. et_type t = TT_RESERVED \<Longrightarrow> et_intent_id t = Some i \<Longrightarrow> \<not> db_is_reserved i d"
    and "\<And>i. et_intent_id t = Some i \<Longrightarrow> et_result t \<noteq> None \<Longrightarrow> db_is_reserved i d \<and> db_get i d = None"
    and "opt_all (\<lambda>p. rp_supersedes p = map_option rp_id (db_latest_reconciliation d)) (et_reconciliation t)"
  shows "ledger_ok h (d\<lparr>xd_rows := xd_rows d @ [t]\<rparr>)"
proof -
  have d: "distinct (map et_id (xd_rows d))" "list_all (\<lambda>t. mk_execution_transition h t = Inr t) (xd_rows d)"
      "length (reservations i d) \<le> 1" "length (db_results i d) \<le> length (reservations i d)"
      "chain_from None (db_reconciliations d)" "distinct (map ck_id (xd_checkpoints d))" for i
    using assms(1) by (auto simp: ledger_ok_def)
  have len: "length (reservations i (d\<lparr>xd_rows := xd_rows d @ [t]\<rparr>)) \<le> 1 \<and>
      length (db_results i (d\<lparr>xd_rows := xd_rows d @ [t]\<rparr>)) \<le> length (reservations i (d\<lparr>xd_rows := xd_rows d @ [t]\<rparr>))" for i
  proof (cases "et_intent_id t = Some i")
    case True
    then show ?thesis
      using d(3,4)[of i] assms(4)[OF _ True] assms(5)[OF True]
      by (cases "reservations i d"; cases "et_result t") (auto simp: reserved_iff results_none_iff)
  next
    case False
    then show ?thesis using d(3,4)[of i] by simp
  qed
  have chain: "chain_from None (db_reconciliations (d\<lparr>xd_rows := xd_rows d @ [t]\<rparr>))"
    using d(5) assms(6) by (cases "et_reconciliation t")
      (auto simp: chain_from_append db_latest_reconciliation_def)
  show ?thesis
    using append_new_id[OF assms(2) d(1)] d(2,6) len chain assms(3) by (simp add: ledger_ok_def)
qed

lemma db_append_reconciliation_cases:
  assumes "db_append_reconciliation h p d = (x, d')"
  obtains (new) "x = Inr ()" "append_transition (stamped h (reconciliation_transition p)) d = (Inr (), d')"
    "rp_supersedes p = map_option rp_id (db_latest_reconciliation d)"
    "d' = d\<lparr>xd_rows := xd_rows d @ [stamped h (reconciliation_transition p)]\<rparr>"
  | (failed) e where "x = Inl e" "d' = d"
proof (cases "list_all fst (supersedes_ok (db_latest_reconciliation d) p)")
  case True
  obtain y e where a: "append_transition (stamped h (reconciliation_transition p)) d = (y, e)" by fastforce
  have "rp_supersedes p = map_option rp_id (db_latest_reconciliation d)"
    using True by (cases "db_latest_reconciliation d") (auto simp: supersedes_ok_def)
  moreover have "x = y" "d' = e"
    using assms a by (simp_all add: db_append_reconciliation_def validate_ok[OF True] eff_bind_def eff_of_def)
  ultimately show ?thesis using a append_cases[OF a] new failed by blast
next
  case False
  then obtain e where "validate (supersedes_ok (db_latest_reconciliation d) p) () = Inl e"
    by (cases "validate (supersedes_ok (db_latest_reconciliation d) p) ()") (auto simp: validate_Inr_iff)
  then have "x = Inl e" "d' = d"
    using assms by (simp_all add: db_append_reconciliation_def eff_bind_def eff_of_def)
  then show ?thesis by (rule failed)
qed

lemma reachable_ledger_ok: "reachable_db h d \<Longrightarrow> ledger_ok h d"
proof (induction rule: reachable_db.induct)
  case empty
  then show ?case
    by (simp add: ledger_ok_def empty_execution_db_def reservations_def db_results_def db_reconciliations_def map_filter_def)
next
  case (reserve d i x d')
  from reserve.hyps(2) reserve.IH show ?case
    by (auto elim!: db_reserve_cases intro!: ledger_ok_append)
next
  case (recorded d r y d')
  from recorded.hyps(2) recorded.IH show ?case
    by (auto elim!: db_record_cases intro!: ledger_ok_append)
next
  case (reconcile d p y d')
  from reconcile.hyps(2) reconcile.IH show ?case
    by (auto elim!: db_append_reconciliation_cases intro!: ledger_ok_append)
next
  case (checkpoint d c y d')
  show ?case
  proof (cases "list_ex (\<lambda>x. ck_id x = ck_id c) (xd_checkpoints d)")
    case True
    then show ?thesis using checkpoint by (simp add: db_append_checkpoint_def)
  next
    case False
    then have "ck_id c \<notin> ck_id ` set (xd_checkpoints d)" by (auto simp: list_ex_iff)
    then show ?thesis
      using checkpoint False by (auto simp: db_append_checkpoint_def ledger_ok_def reservations_def
          db_results_def db_reconciliations_def)
  qed
qed

subsection \<open>Properties\<close>

text \<open>No intent reaches the broker twice. Whatever the durable ledger holds at the start, however often
  intents are executed, by whatever adapters, and whatever the broker, the observation provider and the
  validator return or raise, the transport is called at most once per intent; every call is made under
  an enabled policy the intent is bound to, for a demo account, the intent's symbol and an unexpired
  observation within the latency, spread, slippage and deviation limits, and only after the intent was
  reserved in the ledger.\<close>

theorem durable_at_most_once:
  "let s = run_all h (sqlite_port ht) cs \<lparr>ad_ledger = d, ad_world = w, ad_log = []\<rparr> in
     distinct (map (\<lambda>(_, i, _). xi_id i) (ad_log s)) \<and>
     list_all (\<lambda>(p, i, b). cleared p i b \<and> db_is_reserved (xi_id i) (ad_ledger s)) (ad_log s)"
proof -
  have "sqlite_ledger.log_ok ht \<lparr>ad_ledger = d, ad_world = w, ad_log = []\<rparr>"
    by (simp add: sqlite_ledger.log_ok_def)
  from sqlite_ledger.run_all_log_ok[OF this, of h cs] show ?thesis
    by (simp add: sqlite_ledger.log_ok_def Let_def) (simp add: sqlite_port_def)
qed

text \<open>C13. Execution is idempotent across restarts: once an execution has returned a result, executing the
  intent again, after any further history of the ledger, returns the same result and touches nothing:
  not the ledger, not the broker, not the log of submissions.\<close>

theorem execute_idempotent:
  assumes "adapter_execute h (sqlite_port ht) a i \<lparr>ad_ledger = d, ad_world = w, ad_log = []\<rparr> = (Inr r, s)"
  shows "adapter_execute h (sqlite_port ht) a i (run_all h (sqlite_port ht) cs s) =
     (Inr r, run_all h (sqlite_port ht) cs s)"
  by (rule sqlite_ledger.execute_again[OF _ assms]) (simp add: sqlite_ledger.log_ok_def)

text \<open>C34. An execution interrupted between its reservation and its result is never repeated: when the ledger
  holds a reservation without a result, executing the intent records UNKNOWN without calling the
  provider or the transport, and the intent requires reconciliation until a report mentions it.\<close>

theorem interrupted_execution_unknown:
  assumes "db_is_reserved (xi_id i) d" "db_get (xi_id i) d = None"
    and "adapter_execute h (sqlite_port ht) a i \<lparr>ad_ledger = d, ad_world = w, ad_log = l\<rparr> = (Inr r, s)"
  shows "xe_status r = XS_UNKNOWN \<and> xe_filled_volume r = None \<and> ad_world s = w \<and> ad_log s = l \<and>
     db_get (xi_id i) (ad_ledger s) = Some r \<and>
     db_latest_reconciliation (ad_ledger s) = db_latest_reconciliation d \<and>
     (opt_all (\<lambda>p. \<not> list_ex (\<lambda>f. fd_intent_id f = Some (xi_id i)) (rp_findings p)) (db_latest_reconciliation d)
        \<longrightarrow> db_requires_reconciliation (xi_id i) (ad_ledger s))"
proof -
  let ?s = "\<lparr>ad_ledger = d, ad_world = w, ad_log = l\<rparr>"
  note bound = sqlite_ledger.execute_records(2)[OF assms(3)]
  have got: "db_get (xi_id i) (ad_ledger s) = Some r"
    using sqlite_ledger.execute_records(1)[OF assms(3)] by (simp add: sqlite_port_def)
  obtain x d1 where rs: "db_reserve ht i d = (x, d1)" by fastforce
  then have "x = Inr False \<and> d1 = d" using assms(1) by (auto elim: db_reserve_cases)
  then have "record_and_return (sqlite_port ht) (unknown_result h i ''reserved intent requires reconciliation'' None) ?s
     = (Inr r, s)"
    using assms(2,3) bound rs
    by (simp add: adapter_execute_def sqlite_port_def eff_bind_def on_ledger_def)
  then obtain d2 where u: "unknown_result h i ''reserved intent requires reconciliation'' None = Inr r"
      "db_record ht r d = (Inr (), d2)" "s = ?s\<lparr>ad_ledger := d2\<rparr>"
    by (auto simp: record_and_return_def eff_bind_def eff_of_def eff_return_def on_ledger_def sqlite_port_def
        split: sum.splits prod.splits)
  have r: "xe_status r = XS_UNKNOWN" "xe_filled_volume r = None"
    using u(1) by (auto simp: unknown_result_def mk_execution_result_def res_simps
        execution_result_identity.bind_ok_iff blank_result_def)
  have rec: "db_reconciliations d2 = db_reconciliations d"
    using u(2) by (auto elim!: db_record_cases)
  then have lr: "db_latest_reconciliation d2 = db_latest_reconciliation d"
    by (simp add: db_latest_reconciliation_def)
  then show ?thesis
    using r u(3) got by (auto simp: db_requires_reconciliation_def split: option.split)
qed

text \<open>C35. Every ledger the program builds is well formed: transition and checkpoint identifiers are unique, an
  intent is reserved at most once and has at most one result, and none unless it is reserved, and the
  reconciliation reports form one chain in which each supersedes the one before. Reading a stored row
  back through its contract returns it unchanged.\<close>

theorem durable_ledger_well_formed:
  assumes "reachable_db h d"
  shows "distinct (map et_id (xd_rows d)) \<and> distinct (map ck_id (xd_checkpoints d)) \<and>
     (\<forall>i. length (reservations i d) \<le> 1 \<and> length (db_results i d) \<le> length (reservations i d)) \<and>
     chain_from None (db_reconciliations d) \<and>
     res_map (mk_execution_transition h) (xd_rows d) = Inr (xd_rows d)"
proof -
  have "list_all (\<lambda>t. mk_execution_transition h t = Inr t) (xd_rows d)"
    using reachable_ledger_ok[OF assms] by (simp add: ledger_ok_def)
  then have "res_map (mk_execution_transition h) (xd_rows d) = Inr (xd_rows d)"
    by (simp add: res_map_Inr_iff list_all2_same list_all_iff)
  then show ?thesis using reachable_ledger_ok[OF assms] by (simp add: ledger_ok_def)
qed

subsection \<open>Witnesses\<close>

text \<open>A demo buy of one lot at 11 with the stop at 10, filled by the broker at the requested price.\<close>

definition demo_xpolicy :: execution_policy where
  "demo_xpolicy = default_execution_policy\<lparr>ep_id := ''ep-1'', ep_mode := EM_DEMO_ENABLED\<rparr>"

definition demo_intent :: execution_intent where
  "demo_intent = \<lparr>xi_id = ''xi-1'', xi_evidence_bundle_id = ''eb-1'', xi_master_proposal_id = ''mp-1'',
     xi_discipline_outcome_id = ''do-1'', xi_risk_outcome_id = ''ro-1'', xi_risk_context_id = ''rc-1'',
     xi_setup_id = ''setup-1'', xi_thesis_id = ''thesis-1'', xi_scenario_id = None, xi_symbol = ''XAUUSD'',
     xi_broker_symbol = ''XAUUSD'', xi_broker_source = ''broker'', xi_point_size = Fin 1,
     xi_direction = SIG_BUY, xi_volume = Fin 1, xi_order_type = XO_MARKET, xi_entry_price = Fin 11,
     xi_stop_price = Fin 10, xi_as_of = 0, xi_available_at = 0, xi_expires_at = 15000000,
     xi_policy_id = ''ep-1'', xi_policy_version = ''demo-v1'', xi_mode = EM_DEMO_ENABLED\<rparr>"

definition demo_observation :: execution_observation where
  "demo_observation = \<lparr>xb_id = ''xo-1'', xb_observed_at = 0, xb_available_at = 0, xb_account_mode = XA_DEMO,
     xb_broker_symbol = ''XAUUSD'', xb_market_price = Fin 11, xb_spread_points = Fin 1,
     xb_slippage_points = Fin 0\<rparr>"

definition demo_report :: broker_report where
  "demo_report = \<lparr>br_id = ''xr-1'', br_status = XS_FILLED, br_event_time = 0, br_observed_at = 0,
     br_available_at = 0, br_broker_ticket = Some 7, br_transport_id = None, br_filled_volume = Fin 1,
     br_fill_price = Some (Fin 11), br_retcode = None, br_broker_status = None, br_message = None\<rparr>"

text \<open>The world counts the calls of the transport.\<close>

definition demo_adapter :: "int adapter" where
  "demo_adapter = \<lparr>xa_policy = demo_xpolicy, xa_provider = (\<lambda>i w. (Inr demo_observation, w)),
     xa_validator = None, xa_transport = (\<lambda>i b w. (Inr demo_report, w + 1))\<rparr>"

definition demo_filled :: execution_result where
  "demo_filled = (blank_result demo_intent XS_FILLED 0)\<lparr>xe_filled_volume := Some (Fin 1),
     xe_remaining_volume := Some (Fin 0), xe_fill_price := Some (Fin 11), xe_spread_points := Some (Fin 1),
     xe_slippage_points := Some (Fin 0), xe_broker_ticket := Some 7,
     xe_id := content_id ''xe-'' zero_hash ((blank_result demo_intent XS_FILLED 0)\<lparr>
       xe_filled_volume := Some (Fin 1), xe_remaining_volume := Some (Fin 0),
       xe_fill_price := Some (Fin 11), xe_spread_points := Some (Fin 1),
       xe_slippage_points := Some (Fin 0), xe_broker_ticket := Some 7\<rparr>)\<rparr>"

lemma demo_preflight: "preflight zero_hash demo_xpolicy demo_intent demo_observation = Inr None"
  by (simp add: preflight_def preflight_reason_def price_deviation_def demo_xpolicy_def demo_intent_def
      demo_observation_def default_execution_policy_def total_seconds_def fsub_def rnd_eval)

lemma demo_result: "result_from_report zero_hash demo_intent demo_observation demo_report = Inr demo_filled"
proof -
  have c: "lots_close (Fin 1) (Fin 1)" by (simp add: lots_close_def isclose_refl)
  have r: "py_round (Fin 0) 10 = Inr (Fin 0)" by (simp add: power_int_def)
  show ?thesis
    by (simp add: result_from_report_def realized_slippage_def demo_intent_def demo_report_def
        demo_observation_def pymax_def fsub_def r c Let_def)
      (simp add: demo_filled_def demo_intent_def mk_execution_result_def res_simps execution_result_rules_def
        execution_result_identity.bind_ok_iff known_volume_rules_def blank_result_def or_zero_def feq_def c
        is_f64_eval content_id_def)
qed

definition demo_row_hash :: "execution_transition \<Rightarrow> string" where
  "demo_row_hash t = (if et_type t = TT_RESERVED then ''00000000000000000000'' else ''11111111111111111111'')"

definition demo_start :: "(execution_db, int) adapter_state" where
  "demo_start = \<lparr>ad_ledger = empty_execution_db, ad_world = 0, ad_log = []\<rparr>"

definition demo_reserved_db :: execution_db where
  "demo_reserved_db = \<lparr>xd_rows = [stamped demo_row_hash (reservation demo_intent)], xd_checkpoints = []\<rparr>"

definition demo_final :: "(execution_db, int) adapter_state" where
  "demo_final = \<lparr>ad_ledger = \<lparr>xd_rows = [stamped demo_row_hash (reservation demo_intent),
       stamped demo_row_hash (result_transition demo_filled)], xd_checkpoints = []\<rparr>,
     ad_world = 1, ad_log = [(demo_xpolicy, demo_intent, demo_observation)]\<rparr>"

lemma demo_ids [simp]:
  "et_id (stamped demo_row_hash (reservation i)) = ''xt-00000000000000000000''"
  "et_id (stamped demo_row_hash (result_transition r)) = ''xt-11111111111111111111''"
  "xe_intent_id demo_filled = ''xi-1''" "xi_id demo_intent = ''xi-1''"
  by (simp_all add: stamped_def content_id_def demo_row_hash_def reservation_def result_transition_def
      demo_filled_def blank_result_def demo_intent_def)

lemma demo_reserve: "db_reserve demo_row_hash demo_intent empty_execution_db = (Inr True, demo_reserved_db)"
  by (simp add: db_reserve_def append_transition_def empty_execution_db_def demo_reserved_db_def eff_bind_def
      eff_of_def eff_return_def eff_catch_def)

lemma demo_reserved: "db_is_reserved ''xi-1'' demo_reserved_db" "db_get ''xi-1'' demo_reserved_db = None"
  by (simp_all add: db_is_reserved_def demo_reserved_db_def db_get_def db_results_def map_filter_def)

lemma demo_record: "db_record demo_row_hash demo_filled demo_reserved_db = (Inr (), ad_ledger demo_final)"
  by (simp add: db_record_def demo_reserved)
    (simp add: eff_bind_def eff_of_def append_transition_def demo_reserved_db_def demo_final_def)

lemma demo_execution:
  "adapter_execute zero_hash (sqlite_port demo_row_hash) demo_adapter demo_intent demo_start = (Inr demo_filled, demo_final)"
proof -
  have "policy_bound demo_xpolicy demo_intent" "ep_mode demo_xpolicy = EM_DEMO_ENABLED"
      "db_get ''xi-1'' empty_execution_db = None"
    by (simp_all add: policy_bound_def demo_xpolicy_def demo_intent_def default_execution_policy_def
        db_get_def db_results_def empty_execution_db_def map_filter_def)
  then show ?thesis
    by (simp add: adapter_execute_def demo_adapter_def sqlite_port_def demo_start_def on_ledger_def eff_bind_def
        demo_reserve reserved_execution_def on_world_def eff_catch_def eff_return_def observed_execution_def
        demo_preflight validated_execution_def submit_and_record_def submit_def demo_result
        record_and_return_def eff_of_def demo_record)
      (simp add: demo_final_def)
qed

theorem execute_idempotent_witness:
  "adapter_execute zero_hash (sqlite_port demo_row_hash) demo_adapter demo_intent demo_final = (Inr demo_filled, demo_final) \<and>
   ad_log demo_final = [(demo_xpolicy, demo_intent, demo_observation)]"
  using execute_idempotent[OF demo_execution[unfolded demo_start_def], of "[]"] by (simp add: demo_final_def)

text \<open>The same execution after a crash that left only the reservation.\<close>

lemma demo_unknown:
  "\<exists>r. unknown_result zero_hash demo_intent ''reserved intent requires reconciliation'' None = Inr r \<and>
     xe_intent_id r = ''xi-1''"
  by (auto simp: unknown_result_def blank_result_def demo_intent_def mk_execution_result_def res_simps
      execution_result_rules_def execution_result_identity.bind_ok_iff or_zero_def is_f64_eval)

theorem interrupted_execution_unknown_witness:
  "\<exists>r s. adapter_execute zero_hash (sqlite_port demo_row_hash) demo_adapter demo_intent
       \<lparr>ad_ledger = demo_reserved_db, ad_world = 0, ad_log = []\<rparr> = (Inr r, s) \<and>
     xe_status r = XS_UNKNOWN \<and> ad_world s = 0 \<and> db_requires_reconciliation ''xi-1'' (ad_ledger s)"
proof -
  obtain r where r: "unknown_result zero_hash demo_intent ''reserved intent requires reconciliation'' None = Inr r"
      "xe_intent_id r = ''xi-1''"
    using demo_unknown by blast
  have again: "db_reserve demo_row_hash demo_intent demo_reserved_db = (Inr False, demo_reserved_db)"
    by (simp add: db_reserve_def append_transition_def demo_reserved_db_def eff_bind_def eff_of_def
        eff_return_def eff_catch_def)
  have "\<exists>d. db_record demo_row_hash r demo_reserved_db = (Inr (), d)"
    using r(2) demo_reserved by (simp add: db_record_def)
      (simp add: eff_bind_def eff_of_def append_transition_def demo_reserved_db_def)
  then obtain d where d: "db_record demo_row_hash r demo_reserved_db = (Inr (), d)" by blast
  have "policy_bound demo_xpolicy demo_intent"
    by (simp add: policy_bound_def demo_xpolicy_def demo_intent_def default_execution_policy_def)
  then have e: "adapter_execute zero_hash (sqlite_port demo_row_hash) demo_adapter demo_intent
       \<lparr>ad_ledger = demo_reserved_db, ad_world = 0, ad_log = []\<rparr> =
       (Inr r, \<lparr>ad_ledger = d, ad_world = 0, ad_log = []\<rparr>)"
    by (simp add: adapter_execute_def demo_adapter_def sqlite_port_def demo_reserved on_ledger_def eff_bind_def
        again record_and_return_def eff_of_def eff_return_def r(1) d)
  have "db_latest_reconciliation demo_reserved_db = None"
    by (simp add: db_latest_reconciliation_def db_reconciliations_def demo_reserved_db_def map_filter_def)
  then show ?thesis
    using interrupted_execution_unknown[OF _ _ e] demo_reserved e by auto
qed

theorem durable_ledger_well_formed_witness:
  "res_map (mk_execution_transition demo_row_hash) (xd_rows (ad_ledger demo_final)) =
     Inr (xd_rows (ad_ledger demo_final)) \<and> length (xd_rows (ad_ledger demo_final)) = 2"
proof -
  have "reachable_db demo_row_hash (ad_ledger demo_final)"
    by (intro reachable_db.recorded[OF reachable_db.reserve[OF reachable_db.empty demo_reserve] demo_record])
  from durable_ledger_well_formed[OF this] show ?thesis by (simp add: demo_final_def)
qed

end
