(* ===== verification/Reconciliation.thy ===== *)
theory Reconciliation
  imports ExecutionLedger Reducer "HOL-Library.Product_Lexorder"
begin

section \<open>Reconciliation, recovery and feedback
  (\<open>execution_boundary/reconciliation.py\<close>, \<open>recovery.py\<close>, \<open>feedback.py\<close>)\<close>

text \<open>
  The exact-linkage comparison of the local ledger with a broker snapshot, the events that refresh the
  runtime state from the snapshot, the recovery checkpoint, and the bridge from execution results to
  runtime feedback events.
\<close>

subsection \<open>Broker objects\<close>

datatype broker_object = BO_Position position_state | BO_Order order_state

primrec object_id :: "broker_object \<Rightarrow> string" where
  "object_id (BO_Position p) = pos_id p"
| "object_id (BO_Order q) = ord_id q"

primrec object_ticket :: "broker_object \<Rightarrow> int option" where
  "object_ticket (BO_Position p) = pos_broker_ticket p"
| "object_ticket (BO_Order q) = ord_broker_ticket q"

primrec object_volume :: "broker_object \<Rightarrow> f64" where
  "object_volume (BO_Position p) = pos_volume_lots p"
| "object_volume (BO_Order q) = ord_volume_lots q"

text \<open>\<open>order_type.value.startswith("BUY")\<close>.\<close>

definition buy_order :: "order_type \<Rightarrow> bool" where
  "buy_order t \<longleftrightarrow> t \<in> {BUY_LIMIT, BUY_STOP, BUY_STOP_LIMIT}"

primrec object_direction :: "broker_object \<Rightarrow> signal" where
  "object_direction (BO_Position p) = (if pos_side p = PS_BUY then SIG_BUY else SIG_SELL)"
| "object_direction (BO_Order q) = (if buy_order (ord_order_type q) then SIG_BUY else SIG_SELL)"

text \<open>The dictionary of all objects: an order replaces a position of the same identifier.\<close>

definition broker_objects :: "broker_snapshot \<Rightarrow> (string \<times> broker_object) list" where
  "broker_objects s = dict_by object_id
     (map BO_Position (pb_positions (sn_positions s)) @ map BO_Order (ob_orders (sn_orders s)))"

definition links_by_intent :: "broker_snapshot \<Rightarrow> (string \<times> broker_intent_link) list" where
  "links_by_intent s = dict_by bl_intent_id (sn_links s)"

subsection \<open>Comparing one result\<close>

text \<open>\<open>result.filled_volume_lots or result.requested_volume_lots\<close>.\<close>

definition expected_volume :: "execution_result \<Rightarrow> f64" where
  "expected_volume r = (case xe_filled_volume r of
     None \<Rightarrow> xe_requested_volume r
   | Some v \<Rightarrow> if feq v (Fin 0) then xe_requested_volume r else v)"

definition conflict_reason :: "execution_result \<Rightarrow> broker_object \<Rightarrow> int option \<Rightarrow> string option" where
  "conflict_reason r b linked_ticket =
     (if xe_broker_ticket r \<noteq> None \<and> object_ticket b \<noteq> xe_broker_ticket r then Some ''TICKET_MISMATCH''
      else if linked_ticket \<noteq> None \<and> object_ticket b \<noteq> linked_ticket then Some ''TICKET_MISMATCH''
      else if object_direction b \<noteq> xe_direction r then Some ''DIRECTION_MISMATCH''
      else if \<not> isclose (object_volume b) (expected_volume r) rel_default (lit (1 / 10 ^ 8))
        then Some ''VOLUME_MISMATCH''
      else None)"

definition finding_of ::
  "(reconciliation_finding \<Rightarrow> string) \<Rightarrow> reconciliation_kind \<Rightarrow> execution_result \<Rightarrow> broker_object option
     \<Rightarrow> string \<Rightarrow> reconciliation_finding res" where
  "finding_of h k r b reason = mk_finding h
     \<lparr>fd_id = [], fd_kind = k,
      fd_status = (if k = RCK_MATCHED then RESOLVED else RECONCILIATION_REQUIRED),
      fd_intent_id = Some (xe_intent_id r), fd_object_id = map_option object_id b,
      fd_ticket = (case b of None \<Rightarrow> xe_broker_ticket r | Some x \<Rightarrow> object_ticket x),
      fd_reason_code = reason\<rparr>"

definition settled_locally :: "execution_result \<Rightarrow> bool" where
  "settled_locally r \<longleftrightarrow> xe_status r \<in> {XS_NO_ACTION, XS_REJECTED, XS_CANCELLED, XS_EXPIRED, XS_FAILED}"

definition linked_object :: "broker_snapshot \<Rightarrow> execution_result \<Rightarrow> broker_object option" where
  "linked_object s r = (case map_of (links_by_intent s) (xe_intent_id r) of
     None \<Rightarrow> None | Some l \<Rightarrow> map_of (broker_objects s) (bl_object_id l))"

definition candidate :: "broker_snapshot \<Rightarrow> execution_result \<Rightarrow> broker_object option" where
  "candidate s r = (case linked_object s r of
     Some b \<Rightarrow> Some b
   | None \<Rightarrow>
       if xe_broker_ticket r \<noteq> None
       then find (\<lambda>b. object_ticket b = xe_broker_ticket r) (map snd (broker_objects s))
       else None)"

definition linked_ticket :: "broker_snapshot \<Rightarrow> execution_result \<Rightarrow> int option" where
  "linked_ticket s r = (case map_of (links_by_intent s) (xe_intent_id r) of
     None \<Rightarrow> None | Some l \<Rightarrow> bl_ticket l)"

text \<open>One turn of the loop: the finding, with the identifier of the object it consumes.\<close>

definition compare_result ::
  "(reconciliation_finding \<Rightarrow> string) \<Rightarrow> broker_snapshot \<Rightarrow> execution_result
     \<Rightarrow> (string option \<times> reconciliation_finding) res" where
  "compare_result h s r = (case candidate s r of
     None \<Rightarrow>
       res_bind (finding_of h
           (if xe_status r \<in> {XS_UNKNOWN, XS_SUBMITTED} then RCK_UNKNOWN else RCK_LOCAL_ONLY)
           r None ''NO_EXACT_BROKER_EVIDENCE'') (\<lambda>f. Inr (None, f))
   | Some b \<Rightarrow>
       (let reason = conflict_reason r b (linked_ticket s r) in
        res_bind (finding_of h (if reason \<noteq> None then RCK_CONFLICT else RCK_MATCHED) r (Some b)
            (case reason of None \<Rightarrow> ''EXACT_LINK_MATCH'' | Some c \<Rightarrow> c))
          (\<lambda>f. Inr (Some (object_id b), f))))"

definition broker_only ::
  "(reconciliation_finding \<Rightarrow> string) \<Rightarrow> broker_snapshot \<Rightarrow> string \<Rightarrow> reconciliation_finding res" where
  "broker_only h s i = mk_finding h
     \<lparr>fd_id = [], fd_kind = RCK_BROKER_ONLY, fd_status = RECONCILIATION_REQUIRED, fd_intent_id = None,
      fd_object_id = Some i,
      fd_ticket = (case map_of (broker_objects s) i of None \<Rightarrow> None | Some b \<Rightarrow> object_ticket b),
      fd_reason_code = ''UNCLASSIFIED_BROKER_OBJECT''\<rparr>"

definition or_empty :: "string option \<Rightarrow> string" where
  "or_empty v = (case v of None \<Rightarrow> [] | Some x \<Rightarrow> x)"

definition finding_key :: "reconciliation_finding \<Rightarrow> string \<times> string \<times> string" where
  "finding_key f = (or_empty (fd_intent_id f), or_empty (fd_object_id f), kind_value (fd_kind f))"

definition unconsumed :: "broker_snapshot \<Rightarrow> (string option \<times> reconciliation_finding) list \<Rightarrow> string list" where
  "unconsumed s compared =
     sort (filter (\<lambda>i. Some i \<notin> fst ` set compared) (map fst (broker_objects s)))"

definition reconciliation_report_of ::
  "(reconciliation_finding \<Rightarrow> string) \<Rightarrow> (reconciliation_report \<Rightarrow> string) \<Rightarrow> execution_result list
     \<Rightarrow> broker_snapshot \<Rightarrow> dt \<Rightarrow> reconciliation_report option \<Rightarrow> reconciliation_report res" where
  "reconciliation_report_of hf hr results s as_of prior =
     res_bind (res_map (compare_result hf s) (filter (\<lambda>r. \<not> settled_locally r) results)) (\<lambda>compared.
     res_bind (res_map (broker_only hf s) (unconsumed s compared)) (\<lambda>extra.
     let findings = sort_key finding_key (map snd compared @ extra) in
     mk_reconciliation_report hr
       \<lparr>rp_id = [], rp_snapshot_id = sn_id s, rp_as_of = as_of, rp_available_at = sn_available_at s,
        rp_status = findings_status findings, rp_findings = findings,
        rp_supersedes = map_option rp_id prior\<rparr>))"

text \<open>\<open>reconcile_execution_state\<close> on the durable ledger.\<close>

definition reconcile_execution_state ::
  "(execution_transition \<Rightarrow> string) \<Rightarrow> (reconciliation_finding \<Rightarrow> string) \<Rightarrow> (reconciliation_report \<Rightarrow> string)
     \<Rightarrow> broker_snapshot \<Rightarrow> dt \<Rightarrow> reconciliation_report option
     \<Rightarrow> (execution_db, reconciliation_report) eff" where
  "reconcile_execution_state ht hf hr s as_of prior d =
     eff_bind (eff_of (reconciliation_report_of hf hr (db_latest_results d) s as_of prior)) (\<lambda>report.
     eff_bind (db_append_reconciliation ht report) (\<lambda>_. eff_return report)) d"

subsection \<open>Refreshing the runtime state\<close>

definition snapshot_payloads :: "broker_snapshot \<Rightarrow> (event_type \<times> event_payload) list" where
  "snapshot_payloads s =
     [(TICK, P_Market (sn_market s)), (ACCOUNT_UPDATED, P_Account (sn_account s)),
      (POSITIONS_UPDATED, P_Positions (sn_positions s)), (ORDERS_UPDATED, P_Orders (sn_orders s)),
      (EXPOSURE_UPDATED, P_Exposure (sn_exposure s)),
      (BROKER_CONSTRAINTS_UPDATED, P_Constraints (sn_broker s))]"

definition snapshot_event ::
  "(runtime_event \<Rightarrow> string) \<Rightarrow> broker_snapshot \<Rightarrow> int \<Rightarrow> event_type \<times> event_payload \<Rightarrow> runtime_event res" where
  "snapshot_event h s n p = mk_runtime_event h
     \<lparr>ev_id = [], ev_type = fst p, ev_event_time = sn_as_of s, ev_observed_at = sn_observed_at s,
      ev_available_at = sn_available_at s, ev_source = sn_source s,
      ev_source_version = sn_source_version s, ev_source_sequence = n,
      ev_symbol = Some (ms_symbol (sn_market s)), ev_payload = snd p, ev_ingested_at = None\<rparr>"

definition broker_snapshot_runtime_events ::
  "(runtime_event \<Rightarrow> string) \<Rightarrow> broker_snapshot \<Rightarrow> int \<Rightarrow> runtime_event list res" where
  "broker_snapshot_runtime_events h s start =
     res_map (\<lambda>x. snapshot_event h s (start + int (fst x)) (snd x))
       (enumerate 0 (snapshot_payloads s))"

definition create_recovery_checkpoint ::
  "(recovery_checkpoint \<Rightarrow> string) \<Rightarrow> shared_state \<Rightarrow> reconciliation_report option
     \<Rightarrow> resume_readiness option \<Rightarrow> string list \<Rightarrow> dt \<Rightarrow> recovery_checkpoint res" where
  "create_recovery_checkpoint h st report ready theses available_at = mk_recovery_checkpoint h
     \<lparr>ck_id = [], ck_runtime_state_id = st_id st, ck_source_cursors = st_source_cursors st,
      ck_report_id = map_option rp_id report, ck_readiness_id = map_option rd_id ready,
      ck_thesis_state_ids = sort theses, ck_available_at = available_at\<rparr>"

text \<open>The checkpoint is appended before both stores are flushed; flushing is I/O.\<close>

definition persist_graceful_shutdown :: "recovery_checkpoint \<Rightarrow> (execution_db, unit) eff" where
  "persist_graceful_shutdown c = db_append_checkpoint c"

subsection \<open>Execution feedback\<close>

fun status_map :: "execution_result_status \<Rightarrow> execution_status option" where
  "status_map XS_SUBMITTED = Some ES_SUBMITTED"
| "status_map XS_ACCEPTED = Some ES_ACCEPTED"
| "status_map XS_PARTIALLY_FILLED = Some ES_PARTIALLY_FILLED"
| "status_map XS_FILLED = Some ES_FILLED"
| "status_map XS_REJECTED = Some ES_REJECTED"
| "status_map XS_CANCELLED = Some ES_CANCELLED"
| "status_map XS_EXPIRED = Some ES_EXPIRED"
| "status_map XS_FAILED = Some ES_FAILED"
| "status_map XS_UNKNOWN = Some ES_UNKNOWN"
| "status_map XS_NO_ACTION = None"

text \<open>\<open>result.reason or result.broker_status\<close>.\<close>

definition broker_message :: "execution_result \<Rightarrow> string option" where
  "broker_message r = (if truthy (xe_reason r) then xe_reason r else xe_broker_status r)"

definition feedback_of_result :: "execution_result \<Rightarrow> string \<Rightarrow> execution_status \<Rightarrow> execution_feedback_state" where
  "feedback_of_result r source status =
     \<lparr>xf_id = [], xf_source = source, xf_instruction_id = xe_intent_id r,
      xf_broker_ticket = xe_broker_ticket r, xf_replay_execution_id = xe_transport_id r,
      xf_status = status, xf_event_time = xe_event_time r, xf_observed_at = xe_observed_at r,
      xf_requested_volume_lots = Some (xe_requested_volume r),
      xf_filled_volume_lots = xe_filled_volume r, xf_requested_price = Some (xe_requested_price r),
      xf_fill_price = xe_fill_price r, xf_spread_points = xe_spread_points r,
      xf_slippage_points = xe_slippage_points r, xf_commission = None, xf_swap = None,
      xf_broker_code = xe_broker_retcode r, xf_broker_message = broker_message r\<rparr>"

definition execution_result_to_runtime_event ::
  "(execution_feedback_state \<Rightarrow> string) \<Rightarrow> (runtime_event \<Rightarrow> string) \<Rightarrow> execution_result \<Rightarrow> string
     \<Rightarrow> string \<Rightarrow> int \<Rightarrow> runtime_event option res" where
  "execution_result_to_runtime_event hx he r source version n =
     (if xe_status r = XS_NO_ACTION then Inr None
      else res_bind (case status_map (xe_status r) of
          None \<Rightarrow> Inl (KeyError ''status'') | Some s \<Rightarrow> Inr s) (\<lambda>status.
        res_bind (mk_execution_feedback hx (feedback_of_result r source status)) (\<lambda>f.
        res_bind (mk_runtime_event he
          \<lparr>ev_id = [], ev_type = EXECUTION_FEEDBACK, ev_event_time = xe_event_time r,
           ev_observed_at = xe_observed_at r, ev_available_at = xe_available_at r, ev_source = source,
           ev_source_version = version, ev_source_sequence = n, ev_symbol = Some (xe_symbol r),
           ev_payload = P_Feedback f, ev_ingested_at = None\<rparr>) (\<lambda>e. Inr (Some e)))))"

subsection \<open>What a report says\<close>

text \<open>
  The promise of a report: every local result that is not settled locally has its broker object and
  agrees with it in ticket, direction and volume, and no broker object is left over. Nothing keeps two results
  from sharing an object.
\<close>

definition exact_match :: "broker_snapshot \<Rightarrow> execution_result \<Rightarrow> broker_object \<Rightarrow> bool" where
  "exact_match s r b \<longleftrightarrow> opt_all (\<lambda>t. object_ticket b = Some t) (xe_broker_ticket r) \<and>
     opt_all (\<lambda>t. object_ticket b = Some t) (linked_ticket s r) \<and> object_direction b = xe_direction r \<and>
     isclose (object_volume b) (expected_volume r) rel_default (lit (1 / 10 ^ 8))"

definition fully_reconciled :: "broker_snapshot \<Rightarrow> execution_result list \<Rightarrow> bool" where
  "fully_reconciled s rs \<longleftrightarrow>
     (\<forall>r \<in> set rs. \<not> settled_locally r \<longrightarrow> opt_some (exact_match s r) (candidate s r)) \<and>
     (\<forall>i \<in> fst ` set (broker_objects s). \<exists>r \<in> set rs. \<not> settled_locally r \<and>
        opt_some (\<lambda>b. object_id b = i) (candidate s r))"

lemma conflict_None_iff: "conflict_reason r b (linked_ticket s r) = None \<longleftrightarrow> exact_match s r b"
  by (cases "xe_broker_ticket r"; cases "linked_ticket s r")
    (auto simp: conflict_reason_def exact_match_def)

lemma mk_finding_fields:
  "mk_finding h f = Inr g \<Longrightarrow> fd_status g = fd_status f \<and> fd_kind g = fd_kind f \<and>
     fd_intent_id g = fd_intent_id f \<and> fd_object_id g = fd_object_id f"
  by (auto simp: mk_finding_def res_bind_Inr_iff validate_Inr_iff finding_identity.bind_ok_iff)

lemma compare_result_status:
  assumes "compare_result h s r = Inr (c, f)"
  shows "c = map_option object_id (candidate s r)"
    "fd_status f = RESOLVED \<longleftrightarrow> opt_some (exact_match s r) (candidate s r)"
    "fd_intent_id f = Some (xe_intent_id r)"
  using assms
  by (auto simp: compare_result_def finding_of_def res_bind_Inr_iff Let_def conflict_None_iff[symmetric]
      dest!: mk_finding_fields split: option.splits if_splits)

lemma findings_status_iff: "findings_status fs = RESOLVED \<longleftrightarrow> (\<forall>f \<in> set fs. fd_status f = RESOLVED)"
  by (auto simp: findings_status_def list_all_iff)

lemma unconsumed_Nil_iff:
  "unconsumed s c = [] \<longleftrightarrow> (\<forall>i \<in> fst ` set (broker_objects s). Some i \<in> fst ` set c)"
proof -
  have "sort xs = [] \<longleftrightarrow> xs = []" for xs :: "string list"
    by (metis length_0_conv length_sort)
  then show ?thesis by (auto simp: unconsumed_def filter_empty_conv)
qed

lemma report_resolved_iff:
  assumes "reconciliation_report_of hf hr rs s as_of prior = Inr p"
  shows "rp_status p = RESOLVED \<longleftrightarrow> fully_reconciled s rs"
    "\<forall>r \<in> set rs. \<not> settled_locally r \<longrightarrow> list_ex (\<lambda>f. fd_intent_id f = Some (xe_intent_id r)) (rp_findings p)"
    "rp_supersedes p = map_option rp_id prior" "rp_snapshot_id p = sn_id s"
proof -
  let ?live = "filter (\<lambda>r. \<not> settled_locally r) rs"
  from assms obtain compared extra where
    c: "res_map (compare_result hf s) ?live = Inr compared" and
    x: "res_map (broker_only hf s) (unconsumed s compared) = Inr extra" and
    p: "rp_status p = findings_status (sort_key finding_key (map snd compared @ extra))"
      "rp_findings p = sort_key finding_key (map snd compared @ extra)"
      "rp_supersedes p = map_option rp_id prior" "rp_snapshot_id p = sn_id s"
    by (auto simp: reconciliation_report_of_def mk_reconciliation_report_def res_bind_Inr_iff validate_Inr_iff
        report_identity.bind_ok_iff Let_def)
  have l2: "list_all2 (\<lambda>r y. compare_result hf s r = Inr y) ?live compared"
    using c by (simp add: res_map_Inr_iff)
  have one: "\<exists>c f. (c, f) \<in> set compared \<and> compare_result hf s r = Inr (c, f)" if "r \<in> set ?live" for r
    using l2 that by (induction rule: list_all2_induct) auto
  have two: "\<exists>r \<in> set ?live. compare_result hf s r = Inr y" if "y \<in> set compared" for y
    using l2 that by (induction rule: list_all2_induct) auto
  have "fd_status f \<noteq> RESOLVED" if "f \<in> set extra" for f
    using res_map_mem[OF x that] by (auto simp: broker_only_def dest!: mk_finding_fields)
  then have extra: "extra = [] \<longleftrightarrow> unconsumed s compared = []" "\<forall>f \<in> set extra. fd_status f \<noteq> RESOLVED"
    using res_map_length[OF x] by auto
  have matched: "(\<forall>f \<in> set (map snd compared). fd_status f = RESOLVED) \<longleftrightarrow>
      (\<forall>r \<in> set ?live. opt_some (exact_match s r) (candidate s r))"
    using one two compare_result_status(2) by (fastforce simp del: set_filter)
  have left: "unconsumed s compared = [] \<longleftrightarrow> (\<forall>i \<in> fst ` set (broker_objects s). \<exists>r \<in> set ?live.
      opt_some (\<lambda>b. object_id b = i) (candidate s r))"
  proof -
    have "Some i \<in> fst ` set compared \<longleftrightarrow> (\<exists>r \<in> set ?live. opt_some (\<lambda>b. object_id b = i) (candidate s r))" for i
    proof
      assume "Some i \<in> fst ` set compared"
      then obtain f where "(Some i, f) \<in> set compared" by auto
      from two[OF this] obtain r where r: "r \<in> set ?live" "compare_result hf s r = Inr (Some i, f)" ..
      then show "\<exists>r \<in> set ?live. opt_some (\<lambda>b. object_id b = i) (candidate s r)"
        using compare_result_status(1)[OF r(2)]
        by (intro bexI[OF _ r(1)]) (cases "candidate s r"; auto)
    next
      assume "\<exists>r \<in> set ?live. opt_some (\<lambda>b. object_id b = i) (candidate s r)"
      then obtain r b where r: "r \<in> set ?live" "candidate s r = Some b" "object_id b = i"
        by (auto simp: opt_some_iff)
      from one[OF r(1)] obtain c f where "(c, f) \<in> set compared" "compare_result hf s r = Inr (c, f)" by auto
      with compare_result_status(1)[OF this(2)] r show "Some i \<in> fst ` set compared"
        by (auto intro: rev_image_eqI)
    qed
    then show ?thesis by (auto simp: unconsumed_Nil_iff)
  qed
  have "rp_status p = RESOLVED \<longleftrightarrow> (\<forall>f \<in> set (map snd compared). fd_status f = RESOLVED) \<and> extra = []"
    using extra(2) by (cases extra) (auto simp: p findings_status_iff)
  then show "rp_status p = RESOLVED \<longleftrightarrow> fully_reconciled s rs"
    unfolding matched extra(1) left fully_reconciled_def by auto
  show "\<forall>r \<in> set rs. \<not> settled_locally r \<longrightarrow> list_ex (\<lambda>f. fd_intent_id f = Some (xe_intent_id r)) (rp_findings p)"
  proof (intro ballI impI)
    fix r assume "r \<in> set rs" "\<not> settled_locally r"
    with one[of r] obtain c f where f: "(c, f) \<in> set compared" "compare_result hf s r = Inr (c, f)" by auto
    then have "f \<in> set (rp_findings p)" by (auto simp: p intro: rev_image_eqI)
    with compare_result_status(3)[OF f(2)] show "list_ex (\<lambda>f. fd_intent_id f = Some (xe_intent_id r)) (rp_findings p)"
      by (auto simp: list_ex_iff)
  qed
  show "rp_supersedes p = map_option rp_id prior" "rp_snapshot_id p = sn_id s" by (rule p)+
qed

lemma reconcile_cases:
  assumes "reconcile_execution_state ht hf hr s as_of prior d = (Inr p, d')"
  shows "reconciliation_report_of hf hr (db_latest_results d) s as_of prior = Inr p"
    "db_append_reconciliation ht p d = (Inr (), d')"
  using assms by (auto simp: reconcile_execution_state_def eff_bind_def eff_of_def eff_return_def
      split: prod.splits sum.splits)

lemma reconcile_rows:
  assumes "reconcile_execution_state ht hf hr s as_of prior d = (Inr p, d')"
  shows "d' = d\<lparr>xd_rows := xd_rows d @ [stamped ht (reconciliation_transition p)]\<rparr>"
    "rp_supersedes p = map_option rp_id (db_latest_reconciliation d)"
  using reconcile_cases(2)[OF assms] by (auto elim!: db_append_reconciliation_cases)

lemma latest_results_cover:
  assumes "reachable_db h d" "db_get i d = Some r"
  shows "r \<in> set (db_latest_results d)" "xe_intent_id r = i"
proof -
  have ok: "ledger_ok h d" using assms(1) by (rule reachable_ledger_ok)
  have row: "et_intent_id t = Some (xe_intent_id q)" if "t \<in> set (xd_rows d)" "et_result t = Some q" for t q
  proof -
    have "mk_execution_transition h t = Inr t" using ok that(1) by (auto simp: ledger_ok_def list_all_iff)
    then show ?thesis
      using that(2) by (auto simp: mk_execution_transition_def execution_transition_rules_def res_bind_Inr_iff
          validate_Inr_iff payload_intent_id_def present_def split: option.splits)
  qed
  let ?rs = "List.map_filter et_result (xd_rows d)"
  have at: "q \<in> set (db_results (xe_intent_id q) d)" if "q \<in> set ?rs" for q
    using that row by (force simp: db_results_def map_filter_def)
  have r: "r \<in> set (db_results i d)" using assms(2) by (auto simp: db_get_def split: if_splits)
  then obtain t where t: "t \<in> set (xd_rows d)" "et_intent_id t = Some i" "et_result t = Some r"
    by (auto simp: db_results_def map_filter_def split: if_splits)
  then show id: "xe_intent_id r = i" using row by simp
  have mem: "r \<in> set ?rs" using t by (force simp: map_filter_def)
  have "lookup_by xe_intent_id (db_latest_results d) i = lookup_by xe_intent_id (rev ?rs) i"
    unfolding db_latest_results_def
    by (subst lookup_sorted_values) (auto simp: distinct_dict_by map_of_dict_by dest: dict_by_keys)
  moreover have "lookup_by xe_intent_id (rev ?rs) i \<noteq> None"
    using mem id by (auto simp: lookup_by_None_iff)
  ultimately obtain q where q: "lookup_by xe_intent_id (db_latest_results d) i = Some q"
      "lookup_by xe_intent_id (rev ?rs) i = Some q" by auto
  have "q \<in> set (db_results i d)" using at lookup_by_Some[OF q(2)] by auto
  moreover have "length (db_results i d) \<le> 1"
  proof -
    have "length (db_results i d) \<le> length (reservations i d)" "length (reservations i d) \<le> 1"
      using ok by (simp_all add: ledger_ok_def)
    then show ?thesis by simp
  qed
  ultimately have "q = r" using r by (cases "db_results i d") auto
  then show "r \<in> set (db_latest_results d)" using lookup_by_Some[OF q(1)] by simp
qed

subsection \<open>Refreshing the state\<close>

definition shows_payload :: "shared_state \<Rightarrow> event_payload \<Rightarrow> bool" where
  "shows_payload st p = (case p of
     P_Market m \<Rightarrow> st_market st = m
   | P_Account a \<Rightarrow> cf_status (ac_freshness a) \<noteq> FS_STALE \<longrightarrow> st_account st = a
   | P_Positions b \<Rightarrow> st_positions st = b | P_Orders b \<Rightarrow> st_orders st = b
   | P_Exposure x \<Rightarrow> st_exposure st = x | P_Constraints b \<Rightarrow> st_broker_constraints st = b
   | _ \<Rightarrow> True)"

text \<open>One event that is not feedback: it is accepted, shows in the state, and moves nothing else.\<close>

lemma refresh_step:
  assumes "reducer_invariant s" "valid_event e" "valid_payload (ev_payload e)"
    and "class_of (ev_payload e) \<noteq> C_Feedback" "ensure_utc now = Inr t" "ev_available_at e \<le> t"
    and "validate_order s e = Inr True"
  shows "\<exists>s'. reduce_state h s e now = Inr s' \<and> reducer_invariant s' \<and> shows_payload s' (ev_payload e) \<and>
    (\<forall>q. class_of q \<noteq> class_of (ev_payload e) \<longrightarrow> shows_payload s' q = shows_payload s q) \<and>
    (\<forall>e'. ev_source e' = ev_source e \<longrightarrow> ev_source_sequence e < ev_source_sequence e' \<longrightarrow>
       ev_available_at e' = ev_available_at e \<longrightarrow> validate_order s' e' = Inr True)"
proof -
  have "feedback_ok s (ev_payload e)" using assms(4) by (cases "ev_payload e") (simp_all add: feedback_ok_def)
  then obtain s' where s': "reduce_state h s e now = Inr s'"
    using assms reduce_state_ok_iff[of s e h now] by (auto simp: is_ok_iff validate_order_True_iff)
  have inv: "reducer_invariant s'" using reducer_step_invariant[OF assms(1-3) s'] .
  from s' show ?thesis
  proof (cases rule: reduce_state_cases)
    case duplicate
    with assms(7) show ?thesis by simp
  next
    case (accepted t' u c)
    show ?thesis
    proof (intro exI[of _ s'] conjI allI impI s' inv)
      show "shows_payload s' (ev_payload e)"
        using accepted by (auto simp: shows_payload_def apply_payload_def account_update_def res_bind_Inr_iff
            split: event_payload.splits)
      show "shows_payload s' q = shows_payload s q" if "class_of q \<noteq> class_of (ev_payload e)" for q
        using accepted that by (cases q; cases "ev_payload e")
          (auto simp: shows_payload_def apply_payload_def res_bind_Inr_iff)
      show "validate_order s' e' = Inr True" if "ev_source e' = ev_source e"
        "ev_source_sequence e < ev_source_sequence e'" "ev_available_at e' = ev_available_at e" for e'
        using that accepted
        by (simp add: validate_order_True_iff find_source_cursor_def lookup_upsert ordering_key_def cursor_key_def)
    qed
  qed
qed

definition refresh_event :: "string \<Rightarrow> dt \<Rightarrow> runtime_event \<Rightarrow> bool" where
  "refresh_event src a e \<longleftrightarrow> valid_event e \<and> valid_payload (ev_payload e) \<and>
     class_of (ev_payload e) \<noteq> C_Feedback \<and> ev_source e = src \<and> ev_available_at e = a"

lemma refresh_events:
  assumes "list_all (refresh_event src a) es" "sorted_wrt (<) (map ev_source_sequence es)"
    and "distinct (map (class_of \<circ> ev_payload) es)" "ensure_utc now = Inr t" "a \<le> t" "reducer_invariant st"
    and "\<forall>e \<in> set (take 1 es). validate_order st e = Inr True"
  shows "\<exists>st'. run_events h (map (\<lambda>e. (e, now)) es) st = Inr st' \<and> reducer_invariant st' \<and>
    (\<forall>e \<in> set es. shows_payload st' (ev_payload e)) \<and>
    (\<forall>q. class_of q \<notin> set (map (class_of \<circ> ev_payload) es) \<longrightarrow> shows_payload st' q = shows_payload st q)"
  using assms(1,2,3,6,7)
proof (induction es arbitrary: st)
  case (Cons e es)
  have e: "valid_event e" "valid_payload (ev_payload e)" "class_of (ev_payload e) \<noteq> C_Feedback"
      "ev_available_at e \<le> t" "validate_order st e = Inr True"
    using Cons.prems assms(5) by (auto simp: refresh_event_def)
  obtain s1 where s1: "reduce_state h st e now = Inr s1" "reducer_invariant s1" "shows_payload s1 (ev_payload e)"
    "\<forall>q. class_of q \<noteq> class_of (ev_payload e) \<longrightarrow> shows_payload s1 q = shows_payload st q"
    "\<forall>e'. ev_source e' = ev_source e \<longrightarrow> ev_source_sequence e < ev_source_sequence e' \<longrightarrow>
       ev_available_at e' = ev_available_at e \<longrightarrow> validate_order s1 e' = Inr True"
    using refresh_step[OF Cons.prems(4) e(1-3) assms(4) e(4,5), of h] by auto
  have "\<forall>e' \<in> set (take 1 es). validate_order s1 e' = Inr True"
    using Cons.prems(1,2) by (cases es) (auto simp: refresh_event_def intro!: s1(5)[rule_format])
  then obtain st' where "run_events h (map (\<lambda>e. (e, now)) es) s1 = Inr st'" "reducer_invariant st'"
    "\<forall>e \<in> set es. shows_payload st' (ev_payload e)"
    "\<forall>q. class_of q \<notin> set (map (class_of \<circ> ev_payload) es) \<longrightarrow> shows_payload st' q = shows_payload s1 q"
    using Cons.IH[OF _ _ _ s1(2)] Cons.prems(1-3) by auto
  with s1(1,3,4) Cons.prems(3) show ?case by (intro exI[of _ st']) auto
qed simp

text \<open>The snapshot events themselves.\<close>

definition valid_snapshot :: "broker_snapshot \<Rightarrow> bool" where
  "valid_snapshot s \<longleftrightarrow> list_all fst (broker_snapshot_rules s) \<and> is_ok (mk_account_state (sn_account s))"

lemma snapshot_event_ok:
  assumes "valid_snapshot s" "0 \<le> n" "p \<in> set (snapshot_payloads s)"
  shows "\<exists>e. snapshot_event h s n p = Inr e \<and> valid_event e \<and> ev_payload e = snd p \<and>
    ev_source e = sn_source s \<and> ev_source_sequence e = n \<and> ev_available_at e = sn_available_at s"
proof -
  have "payload_matches (fst p) (snd p)"
    using assms(3) by (auto simp: snapshot_payloads_def payload_matches_def)
  moreover have "sn_source s \<noteq> []" "sn_source_version s \<noteq> []" "sn_as_of s \<le> sn_observed_at s"
      "sn_observed_at s \<le> sn_available_at s"
    using assms(1) by (auto simp: valid_snapshot_def broker_snapshot_rules_def)
  ultimately obtain e where e: "snapshot_event h s n p = Inr e"
    using assms(2) by (auto simp: snapshot_event_def mk_runtime_event_def validate_ok event_identity.bind_fresh)
  moreover have "valid_event e" using e unfolding snapshot_event_def by (rule mk_runtime_event_valid)
  ultimately show ?thesis
    by (auto simp: snapshot_event_def mk_runtime_event_def res_bind_Inr_iff validate_Inr_iff
        event_identity.bind_ok_iff)
qed

lemma snapshot_valid_payload: "valid_snapshot s \<Longrightarrow> p \<in> set (snapshot_payloads s) \<Longrightarrow> valid_payload (snd p)"
  by (auto simp: snapshot_payloads_def valid_payload_def valid_snapshot_def)

text \<open>The six components of the state after a refresh.\<close>

definition shows_snapshot :: "broker_snapshot \<Rightarrow> shared_state \<Rightarrow> bool" where
  "shows_snapshot s st \<longleftrightarrow> st_market st = sn_market s \<and>
     (cf_status (ac_freshness (sn_account s)) \<noteq> FS_STALE \<longrightarrow> st_account st = sn_account s) \<and>
     st_positions st = sn_positions s \<and> st_orders st = sn_orders s \<and> st_exposure st = sn_exposure s \<and>
     st_broker_constraints st = sn_broker s"

lemma refresh_run:
  assumes s: "valid_snapshot s" and n: "0 \<le> start" and now: "ensure_utc now = Inr t" "sn_available_at s \<le> t"
    and st: "reducer_invariant st"
    and first: "\<And>e. ev_source e = sn_source s \<Longrightarrow> ev_source_sequence e = start \<Longrightarrow>
       ev_available_at e = sn_available_at s \<Longrightarrow> validate_order st e = Inr True"
  shows "\<exists>es st'. broker_snapshot_runtime_events he s start = Inr es \<and>
    run_events h (map (\<lambda>e. (e, now)) es) st = Inr st' \<and> reducer_invariant st' \<and> shows_snapshot s st'"
proof -
  let ?P = "snapshot_payloads s"
  have "\<exists>e. snapshot_event he s (start + int (fst x)) (snd x) = Inr e \<and> True" if "x \<in> set (enumerate 0 ?P)" for x
  proof -
    have "snd x \<in> set ?P" using that in_set_enumerate_eq[of x 0 ?P] nth_mem[of "fst x" ?P] by auto
    with snapshot_event_ok[OF s, of "start + int (fst x)" "snd x" he] n show ?thesis by auto
  qed
  then have "\<exists>es. broker_snapshot_runtime_events he s start = Inr es \<and> (\<forall>e \<in> set es. True)"
    unfolding broker_snapshot_runtime_events_def by (rule res_map_ok)
  then obtain es where es: "broker_snapshot_runtime_events he s start = Inr es" by blast
  then have len: "length es = length ?P" and nth: "\<And>k. k < length ?P \<Longrightarrow>
      snapshot_event he s (start + int k) (?P ! k) = Inr (es ! k)"
    by (auto simp: broker_snapshot_runtime_events_def res_map_Inr_iff list_all2_conv_all_nth nth_enumerate_eq)
  have each: "refresh_event (sn_source s) (sn_available_at s) (es ! k) \<and> ev_payload (es ! k) = snd (?P ! k) \<and>
      ev_source_sequence (es ! k) = start + int k" if "k < length ?P" for k
    using snapshot_event_ok[OF s _ nth_mem[OF that], of "start + int k" he] nth[OF that] n
      snapshot_valid_payload[OF s nth_mem[OF that]] that
    by (auto simp: refresh_event_def snapshot_payloads_def nth_Cons')
  have pay: "map ev_payload es = map snd ?P"
    using each len by (intro nth_equalityI) auto
  have "\<exists>st'. run_events h (map (\<lambda>e. (e, now)) es) st = Inr st' \<and> reducer_invariant st' \<and>
    (\<forall>e \<in> set es. shows_payload st' (ev_payload e)) \<and>
    (\<forall>q. class_of q \<notin> set (map (class_of \<circ> ev_payload) es) \<longrightarrow> shows_payload st' q = shows_payload st q)"
  proof (rule refresh_events[OF _ _ _ now st])
    show "list_all (refresh_event (sn_source s) (sn_available_at s)) es"
      using each len by (auto simp: list_all_length)
    show "sorted_wrt (<) (map ev_source_sequence es)"
      using each len by (auto simp: sorted_wrt_iff_nth_less)
    show "distinct (map (class_of \<circ> ev_payload) es)"
      unfolding map_map[symmetric] pay by (simp add: snapshot_payloads_def)
    show "\<forall>e \<in> set (take 1 es). validate_order st e = Inr True"
      using each[of 0] len by (cases es) (auto simp: snapshot_payloads_def refresh_event_def intro!: first)
  qed
  then obtain st' where st': "run_events h (map (\<lambda>e. (e, now)) es) st = Inr st'" "reducer_invariant st'"
    "\<forall>p \<in> set (map ev_payload es). shows_payload st' p" by auto
  then have "shows_snapshot s st'"
    unfolding pay by (simp add: snapshot_payloads_def shows_payload_def shows_snapshot_def)
  with es st' show ?thesis by blast
qed

subsection \<open>Properties\<close>

text \<open>C15. A reconciliation report claims resolution exactly when the books agree: every local result not
  settled locally has its broker object and agrees with it in ticket, link, direction and volume, and
  every position and order of the snapshot belongs to at least one such result (the code keeps the set of the
  objects it met, so two results may share one). The report is appended as the
  latest one, supersedes the previous one, and the execution results are untouched.\<close>

theorem reconciliation_resolved_iff:
  assumes "reconcile_execution_state ht hf hr s as_of prior d = (Inr p, d')"
  shows "(rp_status p = RESOLVED \<longleftrightarrow> fully_reconciled s (db_latest_results d)) \<and>
    db_latest_reconciliation d' = Some p \<and>
    rp_supersedes p = map_option rp_id (db_latest_reconciliation d) \<and>
    (\<forall>i. db_get i d' = db_get i d \<and> db_is_reserved i d' = db_is_reserved i d)"
proof -
  note d' = reconcile_rows(1)[OF assms]
  have "db_latest_reconciliation d' = Some p"
    by (simp add: d' db_latest_reconciliation_def)
  then show ?thesis
    using report_resolved_iff(1)[OF reconcile_cases(1)[OF assms]] reconcile_rows(2)[OF assms]
    by (simp add: d' db_get_def)
qed

text \<open>A resolved report releases every recorded intent: afterwards an intent still requires
  reconciliation exactly when it is reserved and has no result at all.\<close>

theorem resolved_report_releases:
  assumes "reachable_db ht d" "reconcile_execution_state ht hf hr s as_of prior d = (Inr p, d')"
    and "rp_status p = RESOLVED"
  shows "db_requires_reconciliation i d' \<longleftrightarrow> db_is_reserved i d \<and> db_get i d = None"
proof -
  note d' = reconcile_rows(1)[OF assms(2)]
  have same: "db_get i d' = db_get i d" "db_is_reserved i d' = db_is_reserved i d"
      "db_latest_reconciliation d' = Some p"
    by (simp_all add: d' db_get_def db_latest_reconciliation_def)
  show ?thesis
  proof (cases "db_get i d")
    case (Some r)
    then have r: "r \<in> set (db_latest_results d)" "xe_intent_id r = i"
      using latest_results_cover[OF assms(1)] by auto
    have "list_ex (\<lambda>f. fd_intent_id f = Some i) (rp_findings p)" if "xe_status r = XS_UNKNOWN"
      using report_resolved_iff(2)[OF reconcile_cases(1)[OF assms(2)]] r that
      by (auto simp: settled_locally_def)
    then show ?thesis using Some same assms(3) by (auto simp: db_requires_reconciliation_def)
  qed (simp add: db_requires_reconciliation_def same)
qed

text \<open>C37. Restart recovery installs broker truth: for a validated snapshot that became available after the last
  event of the state, with sequence numbers above the cursor of its source, building the six refresh
  events never fails, the reducer accepts all six in order, and afterwards market, positions, orders,
  exposure and broker constraints are those of the snapshot, and so is the account unless it is stale.\<close>

theorem recovery_refresh_installs_snapshot:
  assumes "reachable_state h st" "valid_snapshot s" "0 \<le> start" "ensure_utc now = Inr t" "sn_available_at s \<le> t"
    and "opt_all (\<lambda>c. cur_source_sequence c < start) (find_source_cursor st (sn_source s))"
    and "st_last_event st = None \<or> st_as_of st < sn_available_at s"
  shows "\<exists>es st'. broker_snapshot_runtime_events he s start = Inr es \<and> length es = 6 \<and>
    run_events h (map (\<lambda>e. (e, now)) es) st = Inr st' \<and> shows_snapshot s st'"
proof -
  have inv: "reducer_invariant st" using assms(1) by (rule reachable_invariant)
  have first: "validate_order st e = Inr True" if "ev_source e = sn_source s" "ev_source_sequence e = start"
      "ev_available_at e = sn_available_at s" for e
    using that assms(6,7) inv by (cases "st_last_event st")
      (auto simp: validate_order_True_iff ordering_key_def cursor_key_def reducer_invariant_def)
  obtain es st' where r: "broker_snapshot_runtime_events he s start = Inr es"
      "run_events h (map (\<lambda>e. (e, now)) es) st = Inr st'" "shows_snapshot s st'"
    using refresh_run[OF assms(2-5) inv first] by blast
  have "length es = length (enumerate 0 (snapshot_payloads s))"
    using r(1) unfolding broker_snapshot_runtime_events_def by (rule res_map_length)
  then have "length es = 6" by (simp add: snapshot_payloads_def)
  with r show ?thesis by blast
qed

text \<open>Execution feedback never gets lost in translation: for every result that satisfies its contract the
  bridge returns nothing exactly for local NO_ACTION results and otherwise a valid feedback event
  with the same intent, times, volumes and prices, and the corresponding status.\<close>

theorem feedback_event_total:
  assumes "mk_execution_result h r = Inr r" "source \<noteq> []" "version \<noteq> []" "0 \<le> n"
  shows "if xe_status r = XS_NO_ACTION
    then execution_result_to_runtime_event hx he r source version n = Inr None
    else \<exists>e f. execution_result_to_runtime_event hx he r source version n = Inr (Some e) \<and> valid_event e \<and>
      ev_type e = EXECUTION_FEEDBACK \<and> ev_payload e = P_Feedback f \<and> ev_available_at e = xe_available_at r \<and>
      xf_instruction_id f = xe_intent_id r \<and> Some (xf_status f) = status_map (xe_status r) \<and>
      xf_filled_volume_lots f = xe_filled_volume r \<and> xf_fill_price f = xe_fill_price r"
proof (cases "xe_status r = XS_NO_ACTION")
  case False
  then obtain status where status: "status_map (xe_status r) = Some status" by (cases "xe_status r") auto
  have rules: "list_all fst (execution_result_rules r)"
    using assms(1) by (auto simp: mk_execution_result_def res_bind_Inr_iff validate_Inr_iff)
  let ?f = "feedback_of_result r source status"
  obtain f where f: "mk_execution_feedback hx ?f = Inr f"
    using rules assms(2)
    by (auto simp: mk_execution_feedback_def feedback_of_result_def validate_ok feedback_identity.bind_fresh
        execution_result_rules_def)
  then obtain i where i: "f = ?f\<lparr>xf_id := i\<rparr>"
    by (auto simp: mk_execution_feedback_def res_bind_Inr_iff validate_Inr_iff feedback_identity.bind_ok_iff)
  let ?e = "\<lparr>ev_id = [], ev_type = EXECUTION_FEEDBACK, ev_event_time = xe_event_time r,
           ev_observed_at = xe_observed_at r, ev_available_at = xe_available_at r, ev_source = source,
           ev_source_version = version, ev_source_sequence = n, ev_symbol = Some (xe_symbol r),
           ev_payload = P_Feedback f, ev_ingested_at = None\<rparr>"
  obtain e where e: "mk_runtime_event he ?e = Inr e"
    using rules assms(2-4) by (auto simp: mk_runtime_event_def validate_ok event_identity.bind_fresh
        payload_matches_def execution_result_rules_def)
  then obtain j where j: "e = ?e\<lparr>ev_id := j\<rparr>"
    by (auto simp: mk_runtime_event_def res_bind_Inr_iff validate_Inr_iff event_identity.bind_ok_iff)
  have "valid_event e" using e by (rule mk_runtime_event_valid)
  with False status f e i j show ?thesis
    by (simp add: execution_result_to_runtime_event_def feedback_of_result_def)
qed (simp add: execution_result_to_runtime_event_def)

subsection \<open>Witnesses\<close>

text \<open>The books after the demo execution: one reserved and filled intent, one broker position with its ticket.\<close>

definition demo_books_hash :: "execution_transition \<Rightarrow> string" where
  "demo_books_hash t = (case et_type t of TT_RESERVED \<Rightarrow> ''00000000000000000000''
     | TT_RESULT_RECORDED \<Rightarrow> ''11111111111111111111'' | TT_RECONCILIATION_RECORDED \<Rightarrow> ''22222222222222222222'')"

definition demo_books :: execution_db where
  "demo_books = \<lparr>xd_rows = [stamped demo_books_hash (reservation demo_intent),
     stamped demo_books_hash (result_transition demo_filled)], xd_checkpoints = []\<rparr>"

definition demo_position :: position_state where
  "demo_position = \<lparr>pos_id = ''pos-1'', pos_source = ''broker'', pos_broker_ticket = Some 7,
     pos_replay_position_id = None, pos_symbol = ''XAUUSD'', pos_side = PS_BUY, pos_volume_lots = Fin 1,
     pos_opened_at = 0, pos_open_price = Fin 11, pos_current_price = None, pos_stop_loss = Some (Fin 10),
     pos_take_profit = None, pos_floating_pnl = None, pos_commission = None, pos_swap = None,
     pos_setup_id = None, pos_thesis_id = None\<rparr>"

definition demo_snapshot :: broker_snapshot where
  "demo_snapshot = (let c = demo_risk_context False in
     \<lparr>sn_id = ''brs-1'', sn_source = ''broker'', sn_source_version = ''1'', sn_as_of = 5, sn_observed_at = 5,
      sn_available_at = 5, sn_account = rx_account c, sn_market = rx_market c,
      sn_positions = (rx_positions c)\<lparr>pb_positions := [demo_position]\<rparr>, sn_orders = rx_orders c,
      sn_exposure = rx_exposure c, sn_broker = rx_broker c, sn_links = []\<rparr>)"

lemma execution_result_rules_id [simp]: "execution_result_rules (r\<lparr>xe_id := i\<rparr>) = execution_result_rules r"
  by (simp add: execution_result_rules_def known_volume_rules_def split: option.split)

lemma execution_result_again: "mk_execution_result h r = Inr r' \<Longrightarrow> mk_execution_result h r' = Inr r'"
  by (auto simp: mk_execution_result_def res_bind_Inr_iff validate_Inr_iff execution_result_identity.bind_ok_iff
      execution_result_identity.bound_def)

lemma demo_books_ids [simp]:
  "et_id (stamped demo_books_hash (reservation i)) = ''xt-00000000000000000000''"
  "et_id (stamped demo_books_hash (result_transition r)) = ''xt-11111111111111111111''"
  "et_id (stamped demo_books_hash (reconciliation_transition p)) = ''xt-22222222222222222222''"
  by (simp_all add: stamped_def content_id_def demo_books_hash_def)

lemma demo_books_reachable: "reachable_db demo_books_hash demo_books"
proof (rule reachable_db.recorded[OF reachable_db.reserve[OF reachable_db.empty]])
  let ?d = "\<lparr>xd_rows = [stamped demo_books_hash (reservation demo_intent)], xd_checkpoints = []\<rparr>"
  show "db_reserve demo_books_hash demo_intent empty_execution_db = (Inr True, ?d)"
    by (simp add: db_reserve_def append_transition_def empty_execution_db_def eff_bind_def
        eff_of_def eff_return_def eff_catch_def)
  have "db_is_reserved ''xi-1'' ?d" "db_get ''xi-1'' ?d = None"
    by (simp_all add: db_is_reserved_def db_get_def db_results_def map_filter_def)
  then show "db_record demo_books_hash demo_filled ?d = (Inr (), demo_books)"
    by (simp add: db_record_def) (simp add: eff_bind_def eff_of_def append_transition_def demo_books_def)
qed

lemma demo_results: "db_latest_results demo_books = [demo_filled]" "db_latest_reconciliation demo_books = None"
  by (simp_all add: db_latest_results_def demo_books_def map_filter_def dict_by_def sorted_values_def
      db_latest_reconciliation_def db_reconciliations_def)

lemma demo_candidate: "candidate demo_snapshot demo_filled = Some (BO_Position demo_position)"
    "broker_objects demo_snapshot = [(''pos-1'', BO_Position demo_position)]"
  by (simp_all add: candidate_def linked_object_def links_by_intent_def broker_objects_def demo_snapshot_def
      demo_risk_context_def dict_by_def demo_position_def demo_filled_def)

lemma demo_match: "conflict_reason demo_filled (BO_Position demo_position) (linked_ticket demo_snapshot demo_filled) = None"
  by (simp add: conflict_reason_def demo_filled_def demo_position_def blank_result_def demo_intent_def
      expected_volume_def feq_def isclose_refl linked_ticket_def links_by_intent_def demo_snapshot_def dict_by_def
      Let_def)

lemma demo_report_of:
  "\<exists>p. reconciliation_report_of zero_hash zero_hash [demo_filled] demo_snapshot 5 None = Inr p \<and>
     rp_status p = RESOLVED \<and> rp_supersedes p = None"
proof -
  have live: "\<not> settled_locally demo_filled"
    by (simp add: settled_locally_def demo_filled_def blank_result_def)
  have "sn_available_at demo_snapshot = 5" "sn_id demo_snapshot = ''brs-1''"
    by (simp_all add: demo_snapshot_def Let_def)
  moreover have pos: "pos_broker_ticket demo_position = Some 7" "pos_id demo_position = ''pos-1''"
    by (simp_all add: demo_position_def)
  ultimately show ?thesis
    by (simp add: reconciliation_report_of_def live compare_result_def demo_candidate demo_match
        finding_of_def mk_finding_def res_simps finding_identity.bind_ok_iff unconsumed_def pos
        mk_reconciliation_report_def report_identity.bind_ok_iff findings_status_def Let_def)
qed

lemma demo_reconcile:
  "\<exists>p d. reconcile_execution_state demo_books_hash zero_hash zero_hash demo_snapshot 5 None demo_books = (Inr p, d) \<and>
     rp_status p = RESOLVED"
proof -
  obtain p where p: "reconciliation_report_of zero_hash zero_hash [demo_filled] demo_snapshot 5 None = Inr p"
      "rp_status p = RESOLVED" "rp_supersedes p = None"
    using demo_report_of by blast
  have "\<exists>d. db_append_reconciliation demo_books_hash p demo_books = (Inr (), d)"
    using p(3) by (simp add: db_append_reconciliation_def demo_results supersedes_ok_def validate.simps
        eff_bind_def eff_of_def append_transition_def)
      (simp add: demo_books_def)
  then show ?thesis
    using p by (auto simp: reconcile_execution_state_def eff_bind_def eff_of_def eff_return_def demo_results)
qed

theorem reconciliation_resolved_iff_witness:
  "fully_reconciled demo_snapshot [demo_filled]"
proof -
  obtain p d where p: "reconcile_execution_state demo_books_hash zero_hash zero_hash demo_snapshot 5 None demo_books
      = (Inr p, d)" "rp_status p = RESOLVED"
    using demo_reconcile by blast
  from reconciliation_resolved_iff[OF p(1)] p(2) show ?thesis by (simp add: demo_results)
qed

theorem resolved_report_releases_witness:
  "\<exists>p d. reconcile_execution_state demo_books_hash zero_hash zero_hash demo_snapshot 5 None demo_books = (Inr p, d) \<and>
     \<not> db_requires_reconciliation ''xi-1'' d"
proof -
  obtain p d where p: "reconcile_execution_state demo_books_hash zero_hash zero_hash demo_snapshot 5 None demo_books
      = (Inr p, d)" "rp_status p = RESOLVED"
    using demo_reconcile by blast
  have "db_get ''xi-1'' demo_books \<noteq> None"
    by (simp add: db_get_def db_results_def demo_books_def map_filter_def)
  with resolved_report_releases[OF demo_books_reachable p, of "''xi-1''"] p(1) show ?thesis by blast
qed

theorem recovery_refresh_installs_snapshot_witness:
  "\<exists>es st'. broker_snapshot_runtime_events zero_hash demo_snapshot 0 = Inr es \<and>
     run_events demo_hash (map (\<lambda>e. (e, utc 5)) es) demo_state = Inr st' \<and>
     pb_positions (st_positions st') = [demo_position]"
proof -
  have "is_ok (mk_account_state demo_account_state)"
    by (simp add: mk_account_state_def is_ok_validate demo_account_state_def without_measurements_def demo_fresh_def)
  then have s: "valid_snapshot demo_snapshot"
    by (simp add: valid_snapshot_def demo_snapshot_def Let_def broker_snapshot_rules_def demo_risk_context_def
        demo_account_state_def demo_broker_def snapshot_times_def)
  have now: "ensure_utc (utc 5) = Inr 5" "sn_available_at demo_snapshot \<le> 5"
    by (simp_all add: ensure_utc_utc dt_min_def dt_max_def demo_snapshot_def Let_def)
  have first: "find_source_cursor demo_state (sn_source demo_snapshot) = None" "st_last_event demo_state = None"
    by (simp_all add: find_source_cursor_def demo_state_def initial_raw_def)
  obtain es st' where r: "broker_snapshot_runtime_events zero_hash demo_snapshot 0 = Inr es"
      "run_events demo_hash (map (\<lambda>e. (e, utc 5)) es) demo_state = Inr st'" "shows_snapshot demo_snapshot st'"
    using recovery_refresh_installs_snapshot[OF demo_reachable s order_refl now, of zero_hash] first by auto
  then have "pb_positions (st_positions st') = [demo_position]"
    by (simp add: shows_snapshot_def demo_snapshot_def Let_def)
  with r(1,2) show ?thesis by blast
qed

theorem feedback_event_total_witness:
  "\<exists>e f. execution_result_to_runtime_event zero_hash zero_hash demo_filled ''broker'' ''1'' 0 = Inr (Some e) \<and>
     ev_payload e = P_Feedback f \<and> xf_status f = ES_FILLED"
proof -
  have "mk_execution_result zero_hash demo_filled = Inr demo_filled"
    using demo_result unfolding result_from_report_def Let_def
    by (auto simp: res_bind_Inr_iff known_result_def invalid_report_def intro: execution_result_again
        split: if_split_asm)
  from feedback_event_total[OF this, of "''broker''" "''1''" 0 zero_hash zero_hash]
  show ?thesis by (auto simp: demo_filled_def blank_result_def)
qed

end
