(* ===== verification/Scenarios.thy ===== *)
theory Scenarios
  imports AgentMemory RuntimeEvents
begin

section \<open>M5 theses and intrabar scenarios (\<open>agents/scenarios.py\<close>)\<close>

text \<open>
  The thesis state machine: an M5 close opens a thesis with up to three scenarios, ticks and M1
  closes move the scenarios towards confirmation or invalidation, and time, bar count or evidence
  end the thesis. A contract that the code dumps and reads back (\<open>model_dump\<close> followed by
  \<open>model_validate\<close>) is validated again, with a blank \<open>state_id\<close>.
\<close>

datatype entry_eligibility = EE_NOT_ELIGIBLE | EE_WATCHING | EE_ELIGIBLE | EE_INVALIDATED | EE_EXPIRED

datatype scenario_status =
  SS_WATCHING | SS_STRENGTHENED | SS_WEAKENED | SS_CONFIRMED | SS_INVALIDATED | SS_EXPIRED

datatype continuity_status = CS_COMPLETE | CS_UNKNOWN | CS_MISSING_INTRABAR_DATA

record scenario_definition =
  sd_name :: string
  sd_confirmation_facts :: "string list"
  sd_invalidation_facts :: "string list"

definition scenario_definition_rules :: "scenario_definition \<Rightarrow> (bool \<times> py_error) list" where
  "scenario_definition_rules d =
     [field_ok ''name'' (1 \<le> length (sd_name d) \<and> length (sd_name d) \<le> 100),
      field_ok ''confirmation_facts''
        (1 \<le> length (sd_confirmation_facts d) \<and> length (sd_confirmation_facts d) \<le> 8),
      field_ok ''invalidation_facts'' (length (sd_invalidation_facts d) \<le> 8),
      rule_ok ''scenario conditions must be unique''
        (distinct (sd_confirmation_facts d) \<and> distinct (sd_invalidation_facts d))]"

definition mk_scenario_definition :: "scenario_definition \<Rightarrow> scenario_definition res" where
  "mk_scenario_definition d = validate (scenario_definition_rules d) d"

record scenario_policy =
  sp_ttl_seconds :: int
  sp_max_m5_bars :: int
  sp_max_scenarios :: int

definition mk_scenario_policy :: "scenario_policy \<Rightarrow> scenario_policy res" where
  "mk_scenario_policy p = validate
     [field_ok ''ttl_seconds'' (0 < sp_ttl_seconds p), field_ok ''max_m5_bars'' (0 < sp_max_m5_bars p),
      field_ok ''max_scenarios'' (0 < sp_max_scenarios p \<and> sp_max_scenarios p \<le> 3)] p"

record scenario_state =
  scn_scenario_id :: string
  scn_state_id :: string
  scn_parent_thesis_id :: string
  scn_name :: string
  scn_status :: scenario_status
  scn_confirmation_facts :: "string list"
  scn_invalidation_facts :: "string list"
  scn_matched_facts :: "string list"
  scn_confirmation_progress :: f64
  scn_confidence :: f64
  scn_last_matched_event_id :: "string option"
  scn_began_at :: dt
  scn_updated_at :: dt
  scn_expires_at :: dt
  scn_entry_eligibility :: entry_eligibility
  scn_evidence_ids :: "string list"
  scn_tool_result_ids :: "string list"

record thesis_state =
  th_state_id :: string
  th_thesis_id :: string
  th_supersedes_thesis_id :: "string option"
  th_symbol :: string
  th_agent_name :: string
  th_agent_version :: string
  th_hypothesis_id :: string
  th_hypothesis :: string
  th_direction :: "directional_bias option"
  th_hypothesis_status :: hypothesis_status
  th_relationship :: hypothesis_relationship
  th_runtime_state_id :: string
  th_feature_snapshot_id :: "string option"
  th_began_at :: dt
  th_updated_at :: dt
  th_expires_at :: dt
  th_m5_bars_observed :: int
  th_entry_eligibility :: entry_eligibility
  th_scenarios :: "scenario_state list"
  th_evidence_ids :: "string list"
  th_latest_evidence_id :: string
  th_latest_evidence_as_of :: dt
  th_latest_evidence_available_at :: dt
  th_agent_memory :: agent_memory
  th_last_event_id :: string
  th_last_event_time :: dt
  th_last_observed_at :: dt
  th_last_available_at :: dt
  th_last_source_sequence :: int
  th_continuity_status :: continuity_status

text \<open>What \<open>_thesis_id\<close> hashes.\<close>

record thesis_key =
  tk_symbol :: "string option"
  tk_primary_m5_available_at :: dt
  tk_agent_name :: string
  tk_agent_version :: string
  tk_hypothesis_id :: string
  tk_hypothesis :: string
  tk_direction :: "directional_bias option"
  tk_feature_snapshot_id :: "string option"

text \<open>The digests of the module, one for each kind of record it hashes.\<close>

record scenario_hashes =
  sh_memory :: "agent_memory \<Rightarrow> string"
  sh_root :: "string \<times> scenario_definition \<Rightarrow> string"
  sh_scenario :: "scenario_state \<Rightarrow> string"
  sh_key :: "thesis_key \<Rightarrow> string"
  sh_thesis :: "thesis_state \<Rightarrow> string"

definition scenario_root :: "scenario_state \<Rightarrow> string \<times> scenario_definition" where
  "scenario_root s = (scn_parent_thesis_id s,
     \<lparr>sd_name = scn_name s, sd_confirmation_facts = scn_confirmation_facts s,
      sd_invalidation_facts = scn_invalidation_facts s\<rparr>)"

definition scenario_rules :: "scenario_state \<Rightarrow> (bool \<times> py_error) list" where
  "scenario_rules s =
     [nonempty ''parent_thesis_id'' (scn_parent_thesis_id s), nonempty ''name'' (scn_name s),
      field_ok ''confirmation_progress'' (unit_float (scn_confirmation_progress s)),
      field_ok ''confidence'' (unit_float (scn_confidence s)),
      rule_ok ''scenario timestamps are inconsistent''
        (scn_began_at s \<le> scn_updated_at s \<and> scn_updated_at s \<le> scn_expires_at s),
      rule_ok ''matched facts must belong to confirmation conditions''
        (list_all (\<lambda>f. f \<in> set (scn_confirmation_facts s)) (scn_matched_facts s)),
      rule_ok ''confirmed scenario must be eligible''
        (\<not> (scn_status s = SS_CONFIRMED \<and> scn_entry_eligibility s \<noteq> EE_ELIGIBLE))]"

definition mk_scenario_state :: "scenario_hashes \<Rightarrow> scenario_state \<Rightarrow> scenario_state res" where
  "mk_scenario_state hs s = res_bind (validate (scenario_rules s) s) (\<lambda>s.
     res_bind (bind_identity ''scenario-root-'' (\<lambda>s. sh_root hs (scenario_root s))
         (\<lambda>s. s\<lparr>scn_scenario_id := []\<rparr>) scn_scenario_id (\<lambda>i s. s\<lparr>scn_scenario_id := i\<rparr>)
         ''scenario_id does not match scenario content'' s)
       (bind_identity ''scenario-state-'' (sh_scenario hs) (\<lambda>s. s\<lparr>scn_state_id := []\<rparr>) scn_state_id
         (\<lambda>i s. s\<lparr>scn_state_id := i\<rparr>) ''state_id does not match scenario state content''))"

interpretation scenario_root_identity: content_addressed "''scenario-root-''"
    "\<lambda>s. sh_root hs (scenario_root s)" "\<lambda>s. s\<lparr>scn_scenario_id := []\<rparr>" scn_scenario_id
    "\<lambda>i s. s\<lparr>scn_scenario_id := i\<rparr>" "''scenario_id does not match scenario content''"
  for hs :: scenario_hashes
  by unfold_locales simp_all

interpretation scenario_identity: content_addressed "''scenario-state-''"
    "sh_scenario hs" "\<lambda>s. s\<lparr>scn_state_id := []\<rparr>" scn_state_id
    "\<lambda>i s. s\<lparr>scn_state_id := i\<rparr>" "''state_id does not match scenario state content''"
  for hs :: scenario_hashes
  by unfold_locales simp_all

definition thesis_rules :: "thesis_state \<Rightarrow> (bool \<times> py_error) list" where
  "thesis_rules t =
     [nonempty ''thesis_id'' (th_thesis_id t), nonempty ''symbol'' (th_symbol t),
      nonempty ''agent_name'' (th_agent_name t), nonempty ''agent_version'' (th_agent_version t),
      nonempty ''hypothesis_id'' (th_hypothesis_id t), nonempty ''hypothesis'' (th_hypothesis t),
      nonempty ''runtime_state_id'' (th_runtime_state_id t),
      field_ok ''m5_bars_observed'' (1 \<le> th_m5_bars_observed t),
      field_ok ''scenarios'' (1 \<le> length (th_scenarios t) \<and> length (th_scenarios t) \<le> 3),
      nonempty ''latest_evidence_id'' (th_latest_evidence_id t),
      nonempty ''last_event_id'' (th_last_event_id t),
      field_ok ''last_source_sequence'' (0 \<le> th_last_source_sequence t),
      rule_ok ''thesis timestamps are inconsistent''
        (th_began_at t \<le> th_updated_at t \<and> th_updated_at t \<le> th_expires_at t),
      rule_ok ''evidence availability cannot follow its as_of time''
        (th_latest_evidence_available_at t \<le> th_latest_evidence_as_of t),
      rule_ok ''scenario is linked to a different thesis''
        (\<not> list_ex (\<lambda>s. scn_parent_thesis_id s \<noteq> th_thesis_id t) (th_scenarios t)),
      rule_ok ''eligible thesis requires an eligible scenario''
        (\<not> (th_entry_eligibility t = EE_ELIGIBLE \<and>
            \<not> list_ex (\<lambda>s. scn_entry_eligibility s = EE_ELIGIBLE) (th_scenarios t)))]"

definition mk_thesis_state :: "scenario_hashes \<Rightarrow> thesis_state \<Rightarrow> thesis_state res" where
  "mk_thesis_state hs t = res_bind (validate (thesis_rules t) t)
     (bind_identity ''thesis-state-'' (sh_thesis hs) (\<lambda>t. t\<lparr>th_state_id := []\<rparr>) th_state_id
        (\<lambda>i t. t\<lparr>th_state_id := i\<rparr>) ''state_id does not match thesis state content'')"

interpretation thesis_identity: content_addressed "''thesis-state-''"
    "sh_thesis hs" "\<lambda>t. t\<lparr>th_state_id := []\<rparr>" th_state_id
    "\<lambda>i t. t\<lparr>th_state_id := i\<rparr>" "''state_id does not match thesis state content''"
  for hs :: scenario_hashes
  by unfold_locales simp_all

subsection \<open>Opening a thesis\<close>

definition thesis_id_of :: "scenario_hashes \<Rightarrow> runtime_event \<Rightarrow> agent_evidence \<Rightarrow> string" where
  "thesis_id_of hs ev e = content_id ''thesis-'' (sh_key hs)
     \<lparr>tk_symbol = ev_symbol ev, tk_primary_m5_available_at = ev_available_at ev,
      tk_agent_name = ae_agent_name e, tk_agent_version = ae_agent_version e,
      tk_hypothesis_id = ae_hypothesis_id e, tk_hypothesis = ae_hypothesis e,
      tk_direction = ae_direction e, tk_feature_snapshot_id = ae_feature_snapshot_id e\<rparr>"

definition scenario_id_of :: "scenario_hashes \<Rightarrow> string \<Rightarrow> scenario_definition \<Rightarrow> string" where
  "scenario_id_of hs thesis d = content_id ''scenario-root-'' (sh_root hs) (thesis, d)"

definition evidence_tool_ids :: "agent_evidence \<Rightarrow> string list" where
  "evidence_tool_ids e = map trr_tool_result_id (ae_tool_inputs e)"

definition new_scenario ::
  "scenario_hashes \<Rightarrow> string \<Rightarrow> agent_evidence \<Rightarrow> runtime_event \<Rightarrow> dt \<Rightarrow> scenario_definition
     \<Rightarrow> scenario_state res" where
  "new_scenario hs thesis e ev expires d = mk_scenario_state hs
     \<lparr>scn_scenario_id = scenario_id_of hs thesis d, scn_state_id = [], scn_parent_thesis_id = thesis,
      scn_name = sd_name d, scn_status = SS_WATCHING, scn_confirmation_facts = sd_confirmation_facts d,
      scn_invalidation_facts = sd_invalidation_facts d, scn_matched_facts = [],
      scn_confirmation_progress = Fin 0, scn_confidence = ae_confidence e,
      scn_last_matched_event_id = None, scn_began_at = ev_available_at ev,
      scn_updated_at = ev_available_at ev, scn_expires_at = expires,
      scn_entry_eligibility = EE_WATCHING, scn_evidence_ids = [ae_id e],
      scn_tool_result_ids = evidence_tool_ids e\<rparr>"

definition new_scenarios ::
  "scenario_hashes \<Rightarrow> string \<Rightarrow> scenario_definition list \<Rightarrow> agent_evidence \<Rightarrow> runtime_event \<Rightarrow> dt
     \<Rightarrow> scenario_state list res" where
  "new_scenarios hs thesis ds e ev expires = res_map (new_scenario hs thesis e ev expires) ds"

definition create_thesis ::
  "scenario_hashes \<Rightarrow> runtime_event \<Rightarrow> agent_evidence \<Rightarrow> scenario_policy \<Rightarrow> scenario_definition list
     \<Rightarrow> agent_memory option \<Rightarrow> string option \<Rightarrow> thesis_state res" where
  "create_thesis hs ev e policy ds memory supersedes = (case ev_symbol ev of
     None \<Rightarrow> Inl (ValueError ''M5 thesis event requires a symbol'')
   | Some symbol \<Rightarrow>
       res_bind (validate
         [rule_ok ''new thesis requires at least one scenario'' (ds \<noteq> []),
          rule_ok ''scenario count exceeds configured maximum''
            (int (length ds) \<le> sp_max_scenarios policy),
          rule_ok ''scenario names must be unique'' (distinct (map sd_name ds))] ()) (\<lambda>_.
       res_bind (transition_memory (sh_memory hs) memory e) (\<lambda>m.
       res_bind (add_seconds (ev_available_at ev) (sp_ttl_seconds policy)) (\<lambda>expires.
       res_bind (new_scenarios hs (thesis_id_of hs ev e) ds e ev expires) (\<lambda>scenarios.
       mk_thesis_state hs
         \<lparr>th_state_id = [], th_thesis_id = thesis_id_of hs ev e, th_supersedes_thesis_id = supersedes,
          th_symbol = symbol, th_agent_name = ae_agent_name e, th_agent_version = ae_agent_version e,
          th_hypothesis_id = ae_hypothesis_id e, th_hypothesis = ae_hypothesis e,
          th_direction = ae_direction e, th_hypothesis_status = ae_hypothesis_status e,
          th_relationship = ae_relationship e, th_runtime_state_id = ae_runtime_state_id e,
          th_feature_snapshot_id = ae_feature_snapshot_id e, th_began_at = ev_available_at ev,
          th_updated_at = ev_available_at ev, th_expires_at = expires, th_m5_bars_observed = 1,
          th_entry_eligibility = EE_WATCHING, th_scenarios = scenarios, th_evidence_ids = [ae_id e],
          th_latest_evidence_id = ae_id e, th_latest_evidence_as_of = ae_as_of e,
          th_latest_evidence_available_at = ae_available_at e, th_agent_memory = m,
          th_last_event_id = ev_id ev, th_last_event_time = ev_event_time ev,
          th_last_observed_at = ev_observed_at ev, th_last_available_at = ev_available_at ev,
          th_last_source_sequence = ev_source_sequence ev, th_continuity_status = CS_COMPLETE\<rparr>)))))"

subsection \<open>Ending a thesis\<close>

definition after_event :: "runtime_event \<Rightarrow> thesis_state \<Rightarrow> thesis_state" where
  "after_event ev t = t\<lparr>th_state_id := [], th_last_event_id := ev_id ev,
     th_last_event_time := ev_event_time ev, th_last_observed_at := ev_observed_at ev,
     th_last_available_at := ev_available_at ev, th_last_source_sequence := ev_source_sequence ev\<rparr>"

definition terminal_scenario ::
  "scenario_hashes \<Rightarrow> runtime_event \<Rightarrow> bool \<Rightarrow> scenario_state \<Rightarrow> scenario_state res" where
  "terminal_scenario hs ev expired s = mk_scenario_state hs
     (s\<lparr>scn_state_id := [], scn_status := (if expired then SS_EXPIRED else SS_INVALIDATED),
        scn_updated_at := min (ev_available_at ev) (scn_expires_at s),
        scn_entry_eligibility := (if expired then EE_EXPIRED else EE_INVALIDATED)\<rparr>)"

definition terminal_state ::
  "scenario_hashes \<Rightarrow> thesis_state \<Rightarrow> runtime_event \<Rightarrow> bool \<Rightarrow> thesis_state res" where
  "terminal_state hs t ev expired =
     res_bind (res_map (terminal_scenario hs ev expired) (th_scenarios t)) (\<lambda>scenarios.
     res_bind (mk_agent_memory (sh_memory hs) (th_agent_memory t)) (\<lambda>m.
     mk_thesis_state hs ((after_event ev t)\<lparr>
       th_hypothesis_status := (if expired then HS_EXPIRED else HS_INVALIDATED),
       th_relationship := (if expired then HR_EXPIRED else HR_INVALIDATED),
       th_updated_at := min (ev_available_at ev) (th_expires_at t),
       th_entry_eligibility := (if expired then EE_EXPIRED else EE_INVALIDATED),
       th_scenarios := scenarios, th_agent_memory := m\<rparr>)))"

subsection \<open>Intrabar progress\<close>

definition supporting_facts :: "agent_evidence \<Rightarrow> string list" where
  "supporting_facts e =
     map er_fact_name (filter (\<lambda>i. er_polarity i = SUPPORTS) (ae_evidence_for e))"

definition scenario_invalidated :: "agent_evidence \<Rightarrow> scenario_state \<Rightarrow> bool" where
  "scenario_invalidated e s \<longleftrightarrow> hi_invalidated (ae_invalidation e) \<or>
     list_ex (\<lambda>f. f \<in> set (scn_invalidation_facts s)) (supporting_facts e)"

definition matched_facts :: "agent_evidence \<Rightarrow> scenario_state \<Rightarrow> string list" where
  "matched_facts e s = filter (\<lambda>f. f \<in> set (scn_confirmation_facts s))
     (sort (dedup (scn_matched_facts s @ supporting_facts e)))"

definition scenario_outcome ::
  "agent_evidence \<Rightarrow> scenario_state \<Rightarrow> f64 \<Rightarrow> scenario_status \<times> entry_eligibility" where
  "scenario_outcome e s progress =
     (if scenario_invalidated e s then (SS_INVALIDATED, EE_INVALIDATED)
      else if feq progress (Fin 1) \<and> ae_hypothesis_status e = HS_CONFIRMED
        then (SS_CONFIRMED, EE_ELIGIBLE)
      else if ae_relationship e = HR_STRENGTHENED then (SS_STRENGTHENED, EE_WATCHING)
      else if ae_relationship e = HR_WEAKENED then (SS_WEAKENED, EE_WATCHING)
      else (SS_WATCHING, EE_WATCHING))"

definition updated_scenario ::
  "scenario_hashes \<Rightarrow> agent_evidence \<Rightarrow> runtime_event \<Rightarrow> scenario_state \<Rightarrow> scenario_state res" where
  "updated_scenario hs e ev s =
     res_bind (int_div (int (length (matched_facts e s))) (int (length (scn_confirmation_facts s))))
       (\<lambda>progress. mk_scenario_state hs
         (s\<lparr>scn_state_id := [], scn_status := fst (scenario_outcome e s progress),
            scn_matched_facts := matched_facts e s, scn_confirmation_progress := progress,
            scn_confidence := ae_confidence e,
            scn_last_matched_event_id := (if supporting_facts e \<noteq> [] then Some (ev_id ev) else None),
            scn_updated_at := ev_available_at ev,
            scn_entry_eligibility := snd (scenario_outcome e s progress),
            scn_evidence_ids := scn_evidence_ids s @ [ae_id e],
            scn_tool_result_ids := dedup (scn_tool_result_ids s @ evidence_tool_ids e)\<rparr>))"

definition updated_scenarios ::
  "scenario_hashes \<Rightarrow> thesis_state \<Rightarrow> agent_evidence \<Rightarrow> runtime_event \<Rightarrow> scenario_state list res" where
  "updated_scenarios hs t e ev = res_map (updated_scenario hs e ev) (th_scenarios t)"

subsection \<open>The state machine\<close>

definition scenario_causality_rules ::
  "runtime_event \<Rightarrow> agent_input \<Rightarrow> agent_evidence \<Rightarrow> thesis_state option \<Rightarrow> (bool \<times> py_error) list" where
  "scenario_causality_rules ev a e previous =
     [rule_ok ''runtime event is not yet causally available'' (ev_available_at ev \<le> ai_as_of a),
      rule_ok ''agent evidence predates event availability'' (ev_available_at ev \<le> ae_available_at e),
      rule_ok ''scenario event violates causal ordering''
        (opt_all (\<lambda>p. \<not> key_less (ordering_key ev)
            (th_last_available_at p, th_last_source_sequence p, th_last_event_id p)) previous)]"

definition validate_causality ::
  "runtime_event \<Rightarrow> agent_input \<Rightarrow> agent_evidence \<Rightarrow> thesis_state option \<Rightarrow> unit res" where
  "validate_causality ev a e previous = res_bind (validate_agent_output a e)
     (\<lambda>_. validate (scenario_causality_rules ev a e previous) ())"

definition terminal_status :: "hypothesis_status \<Rightarrow> bool" where
  "terminal_status s \<longleftrightarrow> s \<in> {HS_INVALIDATED, HS_EXPIRED}"

text \<open>The condition of the branch that rolls an expired thesis over to a successor.\<close>

definition rolls_over :: "runtime_event \<Rightarrow> agent_evidence \<Rightarrow> thesis_state \<Rightarrow> bool" where
  "rolls_over ev e p \<longleftrightarrow> ev_type ev = M5_CLOSED \<and> th_hypothesis_status p = HS_EXPIRED \<and>
     ae_status e \<in> {AS_READY, AS_DEGRADED} \<and>
     ae_hypothesis_status e \<in> {HS_DEVELOPING, HS_ACTIVE, HS_CONFIRMED, HS_WEAKENING} \<and>
     ae_relationship e \<in> {HR_UNCHANGED, HR_STRENGTHENED, HR_WEAKENED} \<and>
     ae_hypothesis_id e = th_hypothesis_id p \<and>
     ae_previous_hypothesis_id e = Some (th_hypothesis_id p) \<and>
     ae_thesis_id e \<in> {None, Some (th_thesis_id p)}"

definition link_rules :: "agent_evidence \<Rightarrow> thesis_state \<Rightarrow> (bool \<times> py_error) list" where
  "link_rules e p =
     [rule_ok ''evidence references an unrelated thesis''
        (\<not> (ae_hypothesis_id e \<noteq> th_hypothesis_id p \<or>
            (ae_thesis_id e \<noteq> None \<and> ae_thesis_id e \<noteq> Some (th_thesis_id p)))),
      rule_ok ''evidence does not reference current hypothesis''
        (ae_previous_hypothesis_id e = Some (th_hypothesis_id p))]"

text \<open>The branch on evidence that ends the hypothesis.\<close>

definition end_by_evidence ::
  "scenario_hashes \<Rightarrow> runtime_event \<Rightarrow> agent_evidence \<Rightarrow> thesis_state \<Rightarrow> thesis_state res" where
  "end_by_evidence hs ev e p =
     res_bind (transition_memory (sh_memory hs) (Some (th_agent_memory p)) e) (\<lambda>m.
     res_bind (terminal_state hs p ev (ae_hypothesis_status e = HS_EXPIRED)) (\<lambda>t.
     res_bind (res_map (mk_scenario_state hs) (th_scenarios t)) (\<lambda>scenarios.
     mk_thesis_state hs (t\<lparr>th_state_id := [], th_scenarios := scenarios, th_agent_memory := m,
       th_evidence_ids := th_evidence_ids p @ [ae_id e], th_latest_evidence_id := ae_id e,
       th_latest_evidence_as_of := ae_as_of e, th_latest_evidence_available_at := ae_available_at e,
       th_runtime_state_id := ae_runtime_state_id e,
       th_feature_snapshot_id := ae_feature_snapshot_id e\<rparr>))))"

text \<open>The last branch: the thesis continues, until it has seen too many M5 bars.\<close>

definition thesis_eligibility :: "scenario_state list \<Rightarrow> entry_eligibility" where
  "thesis_eligibility ss =
     (if list_ex (\<lambda>s. scn_entry_eligibility s = EE_ELIGIBLE) ss then EE_ELIGIBLE else EE_WATCHING)"

definition continue_thesis ::
  "scenario_hashes \<Rightarrow> runtime_event \<Rightarrow> agent_evidence \<Rightarrow> scenario_policy \<Rightarrow> thesis_state
     \<Rightarrow> thesis_state res" where
  "continue_thesis hs ev e policy p =
     res_bind (transition_memory (sh_memory hs) (Some (th_agent_memory p)) e) (\<lambda>m.
     res_bind (updated_scenarios hs p e ev) (\<lambda>scenarios.
     let bars = th_m5_bars_observed p + (if ev_type ev = M5_CLOSED then 1 else 0) in
     res_bind (mk_thesis_state hs ((after_event ev p)\<lparr>
       th_hypothesis := ae_hypothesis e, th_direction := ae_direction e,
       th_hypothesis_status := ae_hypothesis_status e, th_relationship := ae_relationship e,
       th_runtime_state_id := ae_runtime_state_id e,
       th_feature_snapshot_id := ae_feature_snapshot_id e, th_updated_at := ev_available_at ev,
       th_m5_bars_observed := bars, th_entry_eligibility := thesis_eligibility scenarios,
       th_scenarios := scenarios, th_evidence_ids := th_evidence_ids p @ [ae_id e],
       th_latest_evidence_id := ae_id e, th_latest_evidence_as_of := ae_as_of e,
       th_latest_evidence_available_at := ae_available_at e, th_agent_memory := m\<rparr>)) (\<lambda>t.
     if sp_max_m5_bars policy < bars then terminal_state hs t ev True else Inr t)))"

definition update_thesis ::
  "scenario_hashes \<Rightarrow> runtime_event \<Rightarrow> agent_evidence \<Rightarrow> thesis_state \<Rightarrow> scenario_policy
     \<Rightarrow> scenario_definition list \<Rightarrow> thesis_state res" where
  "update_thesis hs ev e p policy ds =
     (if ev_id ev = th_last_event_id p then Inr p
      else if ev_type ev = M5_CLOSED \<and> ae_relationship e = HR_REVERSED then
        (if ae_previous_hypothesis_id e \<noteq> Some (th_hypothesis_id p)
         then Inl (ValueError ''reversal does not reference current thesis hypothesis'')
         else create_thesis hs ev e policy ds (Some (th_agent_memory p)) (Some (th_thesis_id p)))
      else if ev_type ev = M5_CLOSED \<and> ae_relationship e = HR_NEW \<and>
          (terminal_status (th_hypothesis_status p) \<or> th_expires_at p \<le> ev_available_at ev) then
        (if ae_hypothesis_id e = th_hypothesis_id p
         then Inl (ValueError ''new M5 thesis must use a distinct hypothesis_id'')
         else create_thesis hs ev e policy ds
           (if terminal_status (am_hypothesis_status (th_agent_memory p))
            then Some (th_agent_memory p) else None)
           (Some (th_thesis_id p)))
      else if rolls_over ev e p then
        create_thesis hs ev e policy ds (Some (th_agent_memory p)) (Some (th_thesis_id p))
      else if terminal_status (th_hypothesis_status p) \<and> ev_type ev \<noteq> M5_CLOSED then Inr p
      else if th_expires_at p \<le> ev_available_at ev then terminal_state hs p ev True
      else res_bind (validate (link_rules e p) p) (\<lambda>p.
        if terminal_status (ae_hypothesis_status e) then end_by_evidence hs ev e p
        else continue_thesis hs ev e policy p))"

definition update_scenario ::
  "scenario_hashes \<Rightarrow> runtime_event \<Rightarrow> agent_input \<Rightarrow> agent_evidence \<Rightarrow> thesis_state option
     \<Rightarrow> scenario_policy \<Rightarrow> scenario_definition list \<Rightarrow> thesis_state option res" where
  "update_scenario hs ev a e previous policy ds =
     (if ev_type ev \<notin> {M5_CLOSED, M1_CLOSED, TICK}
      then Inl (ValueError ''scenario state machine only accepts M5, M1, or tick events'')
      else if previous = None \<and> ev_type ev \<noteq> M5_CLOSED then Inr None
      else res_bind (validate_causality ev a e previous) (\<lambda>_.
        res_bind (case previous of
            None \<Rightarrow>
              (if ae_relationship e \<noteq> HR_NEW
               then Inl (ValueError ''new M5 thesis requires NEW evidence'')
               else create_thesis hs ev e policy ds None None)
          | Some p \<Rightarrow> update_thesis hs ev e p policy ds) (\<lambda>t. Inr (Some t))))"

subsection \<open>Revalidation\<close>

text \<open>A validated contract passes its own validation unchanged.\<close>

lemma scenario_root_id [simp]: "scenario_root (s\<lparr>scn_scenario_id := i\<rparr>) = scenario_root s"
    "scenario_root (s\<lparr>scn_state_id := i\<rparr>) = scenario_root s"
    "scenario_rules (s\<lparr>scn_scenario_id := i\<rparr>) = scenario_rules s"
    "scenario_rules (s\<lparr>scn_state_id := i\<rparr>) = scenario_rules s"
  by (simp_all add: scenario_root_def scenario_rules_def)

lemma content_root:
  "content_id p (\<lambda>s. sh_root hs (scenario_root s)) s = content_id p (sh_root hs) (scenario_root s)"
  by (simp add: content_id_def)

lemma mk_scenario_iff:
  "mk_scenario_state hs s = Inr s' \<longleftrightarrow> list_all fst (scenario_rules s) \<and>
     (scn_scenario_id s = [] \<or> scn_scenario_id s = content_id ''scenario-root-'' (sh_root hs) (scenario_root s)) \<and>
     (scn_state_id s = [] \<or> scenario_identity.bound hs
        (s\<lparr>scn_scenario_id := content_id ''scenario-root-'' (sh_root hs) (scenario_root s)\<rparr>)) \<and>
     s' = (let r = s\<lparr>scn_scenario_id := content_id ''scenario-root-'' (sh_root hs) (scenario_root s)\<rparr>
           in r\<lparr>scn_state_id := content_id ''scenario-state-'' (sh_scenario hs) (r\<lparr>scn_state_id := []\<rparr>)\<rparr>)"
  by (auto simp: mk_scenario_state_def res_bind_Inr_iff validate_Inr_iff Let_def
      scenario_root_identity.bind_ok_iff scenario_root_identity.bound_def scenario_identity.bind_ok_iff
      content_root)

lemma mk_scenario_again: "mk_scenario_state hs s = Inr s' \<Longrightarrow> mk_scenario_state hs s' = Inr s'"
  by (auto simp: mk_scenario_iff Let_def scenario_identity.bound_def)

lemma same_id: "scn_scenario_id r = i \<Longrightarrow> r\<lparr>scn_scenario_id := i\<rparr> = r"
    "th_state_id t = i \<Longrightarrow> t\<lparr>th_state_id := i\<rparr> = t"
  by simp_all

text \<open>A validated scenario keeps its root when only its progress changes, so only the rules decide.\<close>

lemma mk_scenario_progress:
  assumes "mk_scenario_state hs s = Inr s" "scenario_root r = scenario_root s"
    and "scn_scenario_id r = scn_scenario_id s" "scn_state_id r = []" "list_all fst (scenario_rules r)"
  obtains i where "mk_scenario_state hs r = Inr (r\<lparr>scn_state_id := i\<rparr>)"
proof -
  from assms(1) have "scn_scenario_id s = content_id ''scenario-root-'' (sh_root hs) (scenario_root s)"
    unfolding mk_scenario_iff Let_def
    by (metis (no_types, lifting) scenario_state.select_convs(1) scenario_state.surjective
        scenario_state.update_convs(1,2))
  then have root: "scn_scenario_id r = content_id ''scenario-root-'' (sh_root hs) (scenario_root r)"
    using assms(2,3) by simp
  note same = same_id(1)[OF root]
  have "mk_scenario_state hs r =
      Inr (r\<lparr>scn_state_id := content_id ''scenario-state-'' (sh_scenario hs) (r\<lparr>scn_state_id := []\<rparr>)\<rparr>)"
    unfolding mk_scenario_iff Let_def same using assms(2-5) root by simp
  then show ?thesis by (rule that)
qed

lemma mk_thesis_iff:
  "th_state_id t = [] \<Longrightarrow> mk_thesis_state hs t = Inr t' \<longleftrightarrow> list_all fst (thesis_rules t) \<and>
     t' = t\<lparr>th_state_id := content_id ''thesis-state-'' (sh_thesis hs) t\<rparr>"
  by (auto simp: mk_thesis_state_def res_bind_Inr_iff validate_Inr_iff thesis_identity.bind_ok_iff same_id)

lemma mk_thesis_again: "mk_thesis_state hs t = Inr t' \<Longrightarrow> mk_thesis_state hs t' = Inr t'"
  by (auto simp: mk_thesis_state_def res_bind_Inr_iff validate_Inr_iff thesis_identity.bind_ok_iff
      thesis_identity.bound_def thesis_rules_def)

lemma mk_thesis_rules: "mk_thesis_state hs t = Inr t' \<Longrightarrow> list_all fst (thesis_rules t')"
  by (auto simp: mk_thesis_state_def res_bind_Inr_iff validate_Inr_iff thesis_identity.bind_ok_iff
      thesis_rules_def)

subsection \<open>Invariant\<close>

definition scenario_inv :: "scenario_hashes \<Rightarrow> thesis_state \<Rightarrow> scenario_state \<Rightarrow> bool" where
  "scenario_inv hs t s \<longleftrightarrow> mk_scenario_state hs s = Inr s \<and>
     scn_parent_thesis_id s = th_thesis_id t \<and> scn_began_at s = th_began_at t \<and>
     scn_expires_at s = th_expires_at t \<and> scn_confirmation_facts s \<noteq> [] \<and>
     length (scn_confirmation_facts s) \<le> 8 \<and> distinct (scn_confirmation_facts s) \<and>
     (scn_entry_eligibility s = EE_ELIGIBLE \<longrightarrow>
        scn_status s = SS_CONFIRMED \<and> set (scn_matched_facts s) = set (scn_confirmation_facts s))"

definition thesis_inv :: "scenario_hashes \<Rightarrow> scenario_policy \<Rightarrow> thesis_state \<Rightarrow> bool" where
  "thesis_inv hs policy t \<longleftrightarrow> mk_thesis_state hs t = Inr t \<and>
     mk_agent_memory (sh_memory hs) (th_agent_memory t) = Inr (th_agent_memory t) \<and>
     (\<forall>s \<in> set (th_scenarios t). scenario_inv hs t s) \<and>
     am_hypothesis_id (th_agent_memory t) = th_hypothesis_id t \<and>
     am_agent_name (th_agent_memory t) = th_agent_name t \<and>
     th_began_at t \<le> th_last_available_at t \<and>
     th_expires_at t = th_began_at t + sp_ttl_seconds policy * 1000000 \<and>
     (th_entry_eligibility t = EE_ELIGIBLE \<longrightarrow> th_hypothesis_status t = HS_CONFIRMED) \<and>
     (\<not> terminal_status (th_hypothesis_status t) \<longrightarrow>
        am_hypothesis_status (th_agent_memory t) = th_hypothesis_status t \<and>
        th_updated_at t = th_last_available_at t \<and>
        th_last_available_at t < th_expires_at t \<and> th_m5_bars_observed t \<le> sp_max_m5_bars policy) \<and>
     (th_hypothesis_status t = HS_INVALIDATED \<longrightarrow>
        terminal_status (am_hypothesis_status (th_agent_memory t))) \<and>
     (th_hypothesis_status t = HS_EXPIRED \<longrightarrow>
        terminal_status (am_hypothesis_status (th_agent_memory t)) \<or>
        th_expires_at t \<le> th_last_available_at t \<or> sp_max_m5_bars policy < th_m5_bars_observed t)"

text \<open>What the state machine relies on: a validated policy, event, evidence and definitions.\<close>

definition valid_step ::
  "scenario_policy \<Rightarrow> runtime_event \<Rightarrow> agent_evidence \<Rightarrow> scenario_definition list \<Rightarrow> bool" where
  "valid_step policy ev e ds \<longleftrightarrow> 0 < sp_ttl_seconds policy \<and> 0 < sp_max_m5_bars policy \<and>
     valid_event ev \<and> evidence_ok e \<and> list_all (\<lambda>d. list_all fst (scenario_definition_rules d)) ds"

inductive thesis_reachable :: "scenario_hashes \<Rightarrow> scenario_policy \<Rightarrow> thesis_state \<Rightarrow> bool"
  for hs policy where
  opened: "update_scenario hs ev a e None policy ds = Inr (Some t) \<Longrightarrow> valid_step policy ev e ds \<Longrightarrow>
     thesis_reachable hs policy t"
| moved: "thesis_reachable hs policy p \<Longrightarrow> update_scenario hs ev a e (Some p) policy ds = Inr (Some t) \<Longrightarrow>
     valid_step policy ev e ds \<Longrightarrow> thesis_reachable hs policy t"

lemma new_scenario_inv:
  assumes "new_scenario hs (th_thesis_id t) e ev (th_expires_at t) d = Inr s"
    and "list_all fst (scenario_definition_rules d)" "th_began_at t = ev_available_at ev"
  shows "scenario_inv hs t s"
proof -
  have "mk_scenario_state hs s = Inr s"
    using assms(1) unfolding new_scenario_def by (rule mk_scenario_again)
  then show ?thesis
    using assms by (auto simp: scenario_inv_def new_scenario_def mk_scenario_iff Let_def
        scenario_definition_rules_def)
qed

lemma create_thesis_inv:
  assumes "create_thesis hs ev e policy ds mo old = Inr t" "valid_step policy ev e ds"
  shows "thesis_inv hs policy t" "th_last_available_at t = ev_available_at ev"
    "th_supersedes_thesis_id t = old" "th_thesis_id t = thesis_id_of hs ev e"
    "th_began_at t = ev_available_at ev" "th_m5_bars_observed t = 1" "th_entry_eligibility t = EE_WATCHING"
proof -
  from assms(1) obtain m expires ss r where
    m: "transition_memory (sh_memory hs) mo e = Inr m" and
    ex: "add_seconds (ev_available_at ev) (sp_ttl_seconds policy) = Inr expires" and
    ss: "new_scenarios hs (thesis_id_of hs ev e) ds e ev expires = Inr ss" and
    t: "mk_thesis_state hs r = Inr t" and
    r: "th_thesis_id r = thesis_id_of hs ev e" "th_supersedes_thesis_id r = old"
      "th_hypothesis_id r = ae_hypothesis_id e" "th_hypothesis_status r = ae_hypothesis_status e"
      "th_agent_name r = ae_agent_name e" "th_began_at r = ev_available_at ev" "th_updated_at r = ev_available_at ev"
      "th_expires_at r = expires" "th_m5_bars_observed r = 1" "th_entry_eligibility r = EE_WATCHING"
      "th_scenarios r = ss" "th_agent_memory r = m" "th_last_available_at r = ev_available_at ev"
      "th_state_id r = []"
    by (auto simp: create_thesis_def res_bind_Inr_iff split: option.splits)
  obtain i where i: "t = r\<lparr>th_state_id := i\<rparr>"
    using t r(14) by (auto simp: mk_thesis_iff)
  have lt: "ev_available_at ev < expires" "expires = ev_available_at ev + sp_ttl_seconds policy * 1000000"
    using ex assms(2) by (auto simp: valid_step_def dest: add_seconds_gt add_seconds_Inr)
  have "scenario_inv hs t s" if "s \<in> set ss" for s
  proof -
    from res_map_mem[OF ss[unfolded new_scenarios_def] that] obtain d
      where d: "d \<in> set ds" "new_scenario hs (thesis_id_of hs ev e) e ev expires d = Inr s" by auto
    then show ?thesis
      using assms(2) i r
      by (intro new_scenario_inv[of hs t e ev d s]) (simp_all add: valid_step_def list_all_iff)
  qed
  then show "thesis_inv hs policy t"
    using mk_thesis_again[OF t] transition_result[OF m] lt i r assms(2)
    by (auto simp: thesis_inv_def valid_step_def terminal_status_def)
  show "th_last_available_at t = ev_available_at ev" "th_supersedes_thesis_id t = old"
      "th_thesis_id t = thesis_id_of hs ev e" "th_began_at t = ev_available_at ev"
      "th_m5_bars_observed t = 1" "th_entry_eligibility t = EE_WATCHING"
    using i r by simp_all
qed

subsection \<open>Every step returns a valid thesis\<close>

text \<open>Ending a valid thesis at an event that is not before its last one cannot fail.\<close>

lemma terminal_scenario_ok:
  assumes "scenario_inv hs t s" "th_began_at t \<le> ev_available_at ev"
  shows "\<exists>s'. terminal_scenario hs ev expired s = Inr s' \<and> scenario_inv hs t s' \<and>
    scn_status s' = (if expired then SS_EXPIRED else SS_INVALIDATED)"
proof -
  let ?r = "s\<lparr>scn_state_id := [], scn_status := (if expired then SS_EXPIRED else SS_INVALIDATED),
        scn_updated_at := min (ev_available_at ev) (scn_expires_at s),
        scn_entry_eligibility := (if expired then EE_EXPIRED else EE_INVALIDATED)\<rparr>"
  have s: "mk_scenario_state hs s = Inr s" and b: "scn_began_at s = th_began_at t"
    using assms(1) by (simp_all add: scenario_inv_def)
  then have rules: "list_all fst (scenario_rules s)" by (simp add: mk_scenario_iff)
  obtain i where i: "mk_scenario_state hs ?r = Inr (?r\<lparr>scn_state_id := i\<rparr>)"
  proof (rule mk_scenario_progress[OF s, of ?r])
    show "list_all fst (scenario_rules ?r)"
      using rules b assms(2) by (auto simp: scenario_rules_def)
  qed (simp_all add: scenario_root_def)
  moreover have "scenario_inv hs t (?r\<lparr>scn_state_id := i\<rparr>)"
    using assms(1) mk_scenario_again[OF i] by (auto simp: scenario_inv_def)
  ultimately show ?thesis by (auto simp: terminal_scenario_def)
qed

lemma scenario_inv_thesis:
  "th_thesis_id t' = th_thesis_id t \<Longrightarrow> th_began_at t' = th_began_at t \<Longrightarrow>
   th_expires_at t' = th_expires_at t \<Longrightarrow> scenario_inv hs t' s = scenario_inv hs t s"
  by (simp add: scenario_inv_def)

lemma terminal_state_ok:
  assumes inv: "mk_thesis_state hs t = Inr t" "\<forall>s \<in> set (th_scenarios t). scenario_inv hs t s"
      "mk_agent_memory (sh_memory hs) (th_agent_memory t) = Inr (th_agent_memory t)"
    and t: "th_began_at t \<le> ev_available_at ev" "valid_event ev"
  shows "\<exists>ss i. terminal_state hs t ev expired = Inr (t\<lparr>th_state_id := i, th_last_event_id := ev_id ev,
       th_last_event_time := ev_event_time ev, th_last_observed_at := ev_observed_at ev,
       th_last_available_at := ev_available_at ev, th_last_source_sequence := ev_source_sequence ev,
       th_hypothesis_status := (if expired then HS_EXPIRED else HS_INVALIDATED),
       th_relationship := (if expired then HR_EXPIRED else HR_INVALIDATED),
       th_updated_at := min (ev_available_at ev) (th_expires_at t),
       th_entry_eligibility := (if expired then EE_EXPIRED else EE_INVALIDATED), th_scenarios := ss\<rparr>) \<and>
     length ss = length (th_scenarios t) \<and> (\<forall>s \<in> set ss. scenario_inv hs t s \<and>
       scn_status s = (if expired then SS_EXPIRED else SS_INVALIDATED))"
proof -
  have "\<exists>s'. terminal_scenario hs ev expired s = Inr s' \<and> scenario_inv hs t s' \<and>
      scn_status s' = (if expired then SS_EXPIRED else SS_INVALIDATED)" if "s \<in> set (th_scenarios t)" for s
    using inv(2) that t(1) by (intro terminal_scenario_ok) auto
  then have "\<exists>ss. res_map (terminal_scenario hs ev expired) (th_scenarios t) = Inr ss \<and>
      (\<forall>s \<in> set ss. scenario_inv hs t s \<and> scn_status s = (if expired then SS_EXPIRED else SS_INVALIDATED))"
    by (rule res_map_ok)
  then obtain ss where
    ss: "res_map (terminal_scenario hs ev expired) (th_scenarios t) = Inr ss"
      "\<forall>s \<in> set ss. scenario_inv hs t s \<and> scn_status s = (if expired then SS_EXPIRED else SS_INVALIDATED)"
    by blast
  have len: "length ss = length (th_scenarios t)" using ss(1) by (rule res_map_length)
  have rules: "list_all fst (thesis_rules t)" using inv(1) by (rule mk_thesis_rules)
  have parents: "\<forall>s \<in> set ss. scn_parent_thesis_id s = th_thesis_id t"
    using ss(2) by (simp add: scenario_inv_def)
  let ?r = "(after_event ev t)\<lparr>
       th_hypothesis_status := (if expired then HS_EXPIRED else HS_INVALIDATED),
       th_relationship := (if expired then HR_EXPIRED else HR_INVALIDATED),
       th_updated_at := min (ev_available_at ev) (th_expires_at t),
       th_entry_eligibility := (if expired then EE_EXPIRED else EE_INVALIDATED),
       th_scenarios := ss, th_agent_memory := th_agent_memory t\<rparr>"
  have "list_all fst (thesis_rules ?r)"
    using rules parents len t by (auto simp: thesis_rules_def after_event_def list_ex_iff valid_event_def)
  then have "mk_thesis_state hs ?r = Inr (?r\<lparr>th_state_id := content_id ''thesis-state-'' (sh_thesis hs) ?r\<rparr>)"
    by (subst mk_thesis_iff) (simp_all add: after_event_def)
  with ss len inv(3) show ?thesis
    by (intro exI[of _ ss] exI[of _ "content_id ''thesis-state-'' (sh_thesis hs) ?r"])
      (simp add: terminal_state_def after_event_def)
qed

text \<open>The progress quotient: between 0 and 1, and 1 only when every condition is matched.\<close>

lemma progress_bounds:
  assumes "0 \<le> n" "n \<le> m" "0 < m"
  shows "unit_float (rnd (of_int n / of_int m))"
proof -
  have "of_int n / of_int m \<le> (1 :: rat)" "0 \<le> (of_int n / of_int m :: rat)"
    using assms by (simp_all add: divide_le_eq)
  then show ?thesis by (simp add: unit_float_def rnd_le rnd_nonneg)
qed

lemma progress_complete:
  assumes "feq (rnd (of_int n / of_int m)) (Fin 1)" "n \<le> m" "0 < m" "m \<le> 8"
  shows "n = m"
proof (rule ccontr)
  assume "n \<noteq> m"
  with assms have "8 * n \<le> 7 * m" by simp
  then have "of_int (8 * n) \<le> (of_int (7 * m) :: rat)" by (rule of_int_le_iff[THEN iffD2])
  then have "of_int n / of_int m \<le> (7 / 8 :: rat)"
    using assms(3) by (simp add: divide_le_eq)
  then have "fle (rnd (of_int n / of_int m)) (Fin (7 / 8))"
    by (intro rnd_le is_f64_of_rnd rnd_eighth) simp_all
  with assms(1) show False
    by (cases "rnd (of_int n / of_int m :: rat)") (simp_all add: feq_def)
qed

lemma distinct_subset_length: "distinct xs \<Longrightarrow> set xs \<subseteq> set ys \<Longrightarrow> length xs \<le> length ys"
  by (metis card_length card_mono distinct_card finite_set le_trans)

lemma distinct_subset_full:
  "distinct xs \<Longrightarrow> set xs \<subseteq> set ys \<Longrightarrow> length ys \<le> length xs \<Longrightarrow> set xs = set ys"
  by (metis card_length card_seteq distinct_card finite_set le_trans)

lemma matched_facts_props: "distinct (matched_facts e s)" "set (matched_facts e s) \<subseteq> set (scn_confirmation_facts s)"
  by (auto simp: matched_facts_def)

lemma updated_scenario_ok:
  assumes inv: "scenario_inv hs t s" and e: "evidence_ok e"
    and time: "th_began_at t \<le> ev_available_at ev" "ev_available_at ev \<le> th_expires_at t"
  shows "\<exists>s'. updated_scenario hs e ev s = Inr s' \<and> scenario_inv hs t s' \<and>
    scn_parent_thesis_id s' = th_thesis_id t \<and>
    (scn_entry_eligibility s' = EE_ELIGIBLE \<longrightarrow> ae_hypothesis_status e = HS_CONFIRMED)"
proof -
  let ?n = "int (length (matched_facts e s))" and ?m = "int (length (scn_confirmation_facts s))"
  let ?p = "rnd (of_int ?n / of_int ?m)"
  have m: "0 < ?m" "?m \<le> 8" using inv by (auto simp: scenario_inv_def)
  have nm: "?n \<le> ?m" using distinct_subset_length[OF matched_facts_props] by simp
  let ?r = "s\<lparr>scn_state_id := [], scn_status := fst (scenario_outcome e s ?p),
            scn_matched_facts := matched_facts e s, scn_confirmation_progress := ?p,
            scn_confidence := ae_confidence e,
            scn_last_matched_event_id := (if supporting_facts e \<noteq> [] then Some (ev_id ev) else None),
            scn_updated_at := ev_available_at ev,
            scn_entry_eligibility := snd (scenario_outcome e s ?p),
            scn_evidence_ids := scn_evidence_ids s @ [ae_id e],
            scn_tool_result_ids := dedup (scn_tool_result_ids s @ evidence_tool_ids e)\<rparr>"
  have s: "mk_scenario_state hs s = Inr s" using inv by (simp add: scenario_inv_def)
  then have rules: "list_all fst (scenario_rules s)" by (simp add: mk_scenario_iff)
  have "unit_float ?p" using nm m(1) by (intro progress_bounds) simp_all
  then have rules': "list_all fst (scenario_rules ?r)"
    using rules inv time matched_facts_props(2)[of e s] evidence_okD(1)[OF e]
    by (auto simp: scenario_rules_def scenario_inv_def list_all_iff scenario_outcome_def)
  obtain i where i: "mk_scenario_state hs ?r = Inr (?r\<lparr>scn_state_id := i\<rparr>)"
    by (rule mk_scenario_progress[OF s _ _ _ rules']) (simp_all add: scenario_root_def)
  have upd: "updated_scenario hs e ev s = Inr (?r\<lparr>scn_state_id := i\<rparr>)"
    using i m(1) by (simp add: updated_scenario_def int_div_def)
  have "set (matched_facts e s) = set (scn_confirmation_facts s)" if "feq ?p (Fin 1)"
    using progress_complete[OF that nm m] matched_facts_props
    by (intro distinct_subset_full) simp_all
  then have "scenario_inv hs t (?r\<lparr>scn_state_id := i\<rparr>)"
    using inv mk_scenario_again[OF i]
    by (auto simp: scenario_inv_def scenario_outcome_def split: if_splits)
  with upd inv show ?thesis
    by (intro exI[of _ "?r\<lparr>scn_state_id := i\<rparr>"])
      (auto simp: scenario_inv_def scenario_outcome_def split: if_splits)
qed

lemma updated_scenarios_ok:
  assumes "\<forall>s \<in> set (th_scenarios t). scenario_inv hs t s" "evidence_ok e"
    and "th_began_at t \<le> ev_available_at ev" "ev_available_at ev \<le> th_expires_at t"
  obtains ss where "updated_scenarios hs t e ev = Inr ss" "length ss = length (th_scenarios t)"
    "\<forall>s \<in> set ss. scenario_inv hs t s \<and> scn_parent_thesis_id s = th_thesis_id t \<and>
      (scn_entry_eligibility s = EE_ELIGIBLE \<longrightarrow> ae_hypothesis_status e = HS_CONFIRMED)"
proof -
  have "\<exists>s'. updated_scenario hs e ev s = Inr s' \<and> scenario_inv hs t s' \<and>
    scn_parent_thesis_id s' = th_thesis_id t \<and>
    (scn_entry_eligibility s' = EE_ELIGIBLE \<longrightarrow> ae_hypothesis_status e = HS_CONFIRMED)"
    if "s \<in> set (th_scenarios t)" for s
    using assms that by (intro updated_scenario_ok) auto
  then have "\<exists>ss. res_map (updated_scenario hs e ev) (th_scenarios t) = Inr ss \<and>
    (\<forall>s \<in> set ss. scenario_inv hs t s \<and> scn_parent_thesis_id s = th_thesis_id t \<and>
      (scn_entry_eligibility s = EE_ELIGIBLE \<longrightarrow> ae_hypothesis_status e = HS_CONFIRMED))"
    by (rule res_map_ok)
  then show ?thesis
    using that by (auto simp: updated_scenarios_def dest: res_map_length)
qed

lemma thesis_inv_memory_ok: "thesis_inv hs policy p \<Longrightarrow> memory_ok (th_agent_memory p)"
  by (auto simp: thesis_inv_def mk_agent_memory_def memory_ok_def res_bind_Inr_iff validate_Inr_iff)

text \<open>Expiry of a thesis that satisfies the invariant.\<close>

lemma expire_ok:
  assumes inv: "thesis_inv hs policy p" and step: "valid_step policy ev e ds"
    and t: "th_last_available_at p \<le> ev_available_at ev" "th_expires_at p \<le> ev_available_at ev"
  shows "\<exists>t. terminal_state hs p ev True = Inr t \<and> thesis_inv hs policy t \<and>
    th_hypothesis_status t = HS_EXPIRED \<and> th_thesis_id t = th_thesis_id p \<and>
    th_last_available_at t = ev_available_at ev"
proof -
  have p: "mk_thesis_state hs p = Inr p" "\<forall>s \<in> set (th_scenarios p). scenario_inv hs p s"
      "mk_agent_memory (sh_memory hs) (th_agent_memory p) = Inr (th_agent_memory p)"
    using inv by (auto simp: thesis_inv_def)
  have b: "th_began_at p \<le> ev_available_at ev" "valid_event ev"
    using inv step t by (auto simp: thesis_inv_def valid_step_def)
  from terminal_state_ok[OF p b, of True] obtain t where t': "terminal_state hs p ev True = Inr t" and
    f: "\<forall>s \<in> set (th_scenarios t). scenario_inv hs p s" "th_thesis_id t = th_thesis_id p"
      "th_began_at t = th_began_at p" "th_expires_at t = th_expires_at p"
      "th_agent_memory t = th_agent_memory p" "th_last_available_at t = ev_available_at ev"
      "th_hypothesis_status t = HS_EXPIRED" "th_entry_eligibility t = EE_EXPIRED"
      "th_hypothesis_id t = th_hypothesis_id p" "th_agent_name t = th_agent_name p"
    by auto
  have "mk_thesis_state hs t = Inr t"
    using t' by (auto simp: terminal_state_def res_bind_Inr_iff dest: mk_thesis_again)
  with inv t' f b t show ?thesis
    by (intro exI[of _ t]) (auto simp: thesis_inv_def terminal_status_def scenario_inv_thesis[of t p])
qed

lemma evidence_fields_ok:
  assumes "evidence_ok e"
  shows "ae_hypothesis e \<noteq> []" "ae_hypothesis_id e \<noteq> []" "ae_runtime_state_id e \<noteq> []" "ae_id e \<noteq> []"
    "ae_available_at e \<le> ae_as_of e" "ae_agent_name e \<noteq> []" "ae_agent_version e \<noteq> []"
proof -
  have "list_all fst (evidence_fields e)" "list_all fst (evidence_numeric_rules e)" "ae_id e \<noteq> []"
    using assms by (simp_all add: evidence_ok_def)
  then show "ae_hypothesis e \<noteq> []" "ae_hypothesis_id e \<noteq> []" "ae_runtime_state_id e \<noteq> []" "ae_id e \<noteq> []"
      "ae_available_at e \<le> ae_as_of e" "ae_agent_name e \<noteq> []" "ae_agent_version e \<noteq> []"
    by (auto simp: evidence_fields_def evidence_numeric_rules_def)
qed

lemma continuation_links:
  assumes "list_all fst (link_rules e p)" "evidence_ok e"
  shows "\<not> starts_new e" "\<not> reverses e" "ae_hypothesis_id e = th_hypothesis_id p"
    "ae_previous_hypothesis_id e = Some (th_hypothesis_id p)"
proof -
  have "list_all fst (evidence_relationship_rules e)" using assms(2) by (simp add: evidence_ok_def)
  then show "\<not> starts_new e" "\<not> reverses e" "ae_hypothesis_id e = th_hypothesis_id p"
      "ae_previous_hypothesis_id e = Some (th_hypothesis_id p)"
    using assms(1) by (auto simp: link_rules_def evidence_relationship_rules_def starts_new_def reverses_def)
qed

text \<open>A terminal memory admits only terminal evidence.\<close>

lemma terminal_memory_only:
  assumes "list_all fst (continuation_rules m e)" "\<not> starts_new e" "\<not> reverses e"
    and "terminal_status (am_hypothesis_status m)"
  shows "terminal_status (ae_hypothesis_status e)"
  using assms by (auto simp: continuation_rules_def terminal_status_def)

lemma continue_thesis_ok:
  assumes inv: "thesis_inv hs policy p" and step: "valid_step policy ev e ds"
    and t: "th_last_available_at p \<le> ev_available_at ev" "ev_available_at ev < th_expires_at p"
    and link: "list_all fst (link_rules e p)" "list_all fst (continuation_rules (th_agent_memory p) e)"
    and live: "\<not> terminal_status (ae_hypothesis_status e)"
  shows "\<exists>t. continue_thesis hs ev e policy p = Inr t \<and> thesis_inv hs policy t \<and>
    th_thesis_id t = th_thesis_id p \<and> th_last_available_at t = ev_available_at ev \<and>
    th_began_at t = th_began_at p \<and>
    (th_hypothesis_status t = ae_hypothesis_status e \<and>
       th_m5_bars_observed p \<le> sp_max_m5_bars policy \<or> th_hypothesis_status t = HS_EXPIRED)"
proof -
  have e: "evidence_ok e" and ev: "valid_event ev" using step by (auto simp: valid_step_def)
  obtain m where m: "transition_memory (sh_memory hs) (Some (th_agent_memory p)) e = Inr m"
    using transition_ok_iff[OF thesis_inv_memory_ok[OF inv] e] link(2) by (auto simp: is_ok_iff)
  have began: "th_began_at p \<le> ev_available_at ev"
    using inv t by (auto simp: thesis_inv_def)
  obtain ss where ss: "updated_scenarios hs p e ev = Inr ss" "length ss = length (th_scenarios p)"
    "\<forall>s \<in> set ss. scenario_inv hs p s \<and> scn_parent_thesis_id s = th_thesis_id p \<and>
      (scn_entry_eligibility s = EE_ELIGIBLE \<longrightarrow> ae_hypothesis_status e = HS_CONFIRMED)"
    by (rule updated_scenarios_ok[of p hs e ev]) (use inv e began t(2) in \<open>auto simp: thesis_inv_def\<close>)
  let ?bars = "th_m5_bars_observed p + (if ev_type ev = M5_CLOSED then 1 else 0)"
  let ?r = "(after_event ev p)\<lparr>
       th_hypothesis := ae_hypothesis e, th_direction := ae_direction e,
       th_hypothesis_status := ae_hypothesis_status e, th_relationship := ae_relationship e,
       th_runtime_state_id := ae_runtime_state_id e,
       th_feature_snapshot_id := ae_feature_snapshot_id e, th_updated_at := ev_available_at ev,
       th_m5_bars_observed := ?bars, th_entry_eligibility := thesis_eligibility ss,
       th_scenarios := ss, th_evidence_ids := th_evidence_ids p @ [ae_id e],
       th_latest_evidence_id := ae_id e, th_latest_evidence_as_of := ae_as_of e,
       th_latest_evidence_available_at := ae_available_at e, th_agent_memory := m\<rparr>"
  have life: "th_expires_at p = th_began_at p + sp_ttl_seconds policy * 1000000"
    using inv by (simp add: thesis_inv_def)
  have rules: "list_all fst (thesis_rules p)" using inv by (auto simp: thesis_inv_def dest: mk_thesis_rules)
  have parents: "\<not> list_ex (\<lambda>s. scn_parent_thesis_id s \<noteq> th_thesis_id p) ss"
    using ss(3) by (simp add: list_ex_iff)
  have seq: "0 \<le> ev_source_sequence ev" "ev_id ev \<noteq> []" using ev by (simp_all add: valid_event_def)
  have "list_all fst (thesis_rules ?r)"
    using rules ss(2) parents began t(2) seq evidence_fields_ok[OF e]
    by (simp add: thesis_rules_def after_event_def thesis_eligibility_def)
  then have r: "mk_thesis_state hs ?r = Inr (?r\<lparr>th_state_id := content_id ''thesis-state-'' (sh_thesis hs) ?r\<rparr>)"
    by (subst mk_thesis_iff) (simp_all add: after_event_def)
  define t where "t = ?r\<lparr>th_state_id := content_id ''thesis-state-'' (sh_thesis hs) ?r\<rparr>"
  have f: "th_thesis_id t = th_thesis_id p" "th_began_at t = th_began_at p" "th_expires_at t = th_expires_at p"
      "th_agent_memory t = m" "th_scenarios t = ss" "th_last_available_at t = ev_available_at ev"
      "th_updated_at t = ev_available_at ev" "th_hypothesis_status t = ae_hypothesis_status e"
      "th_entry_eligibility t = thesis_eligibility ss" "th_m5_bars_observed t = ?bars"
      "th_hypothesis_id t = th_hypothesis_id p" "th_agent_name t = th_agent_name p"
    by (simp_all add: t_def after_event_def)
  have upd: "continue_thesis hs ev e policy p =
      (if sp_max_m5_bars policy < ?bars then terminal_state hs t ev True else Inr t)"
    using m ss(1) r by (simp add: continue_thesis_def Let_def t_def)
  have t1: "mk_thesis_state hs t = Inr t" using mk_thesis_again[OF r] by (simp add: t_def)
  have t2: "\<forall>s \<in> set (th_scenarios t). scenario_inv hs t s"
    using ss(3) scenario_inv_thesis[OF f(1-3)] by (simp add: f(5))
  have t3: "mk_agent_memory (sh_memory hs) (th_agent_memory t) = Inr (th_agent_memory t)"
    using transition_result(1)[OF m] by (simp add: f(4))
  have mem: "am_hypothesis_id m = th_hypothesis_id p" "am_agent_name m = th_agent_name p"
      "am_hypothesis_status m = ae_hypothesis_status e"
    using transition_result[OF m] continuation_links(3)[OF link(1) e] link(2) inv
    by (auto simp: continuation_rules_def thesis_inv_def)
  show ?thesis
  proof (cases "sp_max_m5_bars policy < ?bars")
    case False
    have "ae_hypothesis_status e = HS_CONFIRMED" if "thesis_eligibility ss = EE_ELIGIBLE"
      using that ss(3) by (auto simp: thesis_eligibility_def list_ex_iff split: if_splits)
    then have "thesis_inv hs policy t"
      unfolding thesis_inv_def using t1 t2 t3 mem began t(2) False live f life
      by (simp add: terminal_status_def)
    with upd False f show ?thesis by (auto split: if_splits)
  next
    case True
    have b: "th_began_at t \<le> ev_available_at ev" using began f by simp
    from terminal_state_ok[OF t1 t2 t3 b ev, of True] obtain t' where
      t': "terminal_state hs t ev True = Inr t'" and
      f': "\<forall>s \<in> set (th_scenarios t'). scenario_inv hs t s" "th_thesis_id t' = th_thesis_id t"
      "th_began_at t' = th_began_at t" "th_expires_at t' = th_expires_at t"
      "th_agent_memory t' = th_agent_memory t" "th_last_available_at t' = ev_available_at ev"
      "th_hypothesis_status t' = HS_EXPIRED" "th_entry_eligibility t' = EE_EXPIRED"
      "th_hypothesis_id t' = th_hypothesis_id t" "th_agent_name t' = th_agent_name t"
      "th_m5_bars_observed t' = th_m5_bars_observed t"
      by auto
    have "mk_thesis_state hs t' = Inr t'"
      using t' by (auto simp: terminal_state_def res_bind_Inr_iff dest: mk_thesis_again)
    moreover have "\<forall>s \<in> set (th_scenarios t'). scenario_inv hs t' s"
      using f'(1) scenario_inv_thesis[OF f'(2-4)] by simp
    ultimately have "thesis_inv hs policy t'"
      using f f' mem began t3 True life by (simp add: thesis_inv_def terminal_status_def)
    with upd True t' f f' show ?thesis by simp
  qed
qed

text \<open>Evidence that ends the hypothesis.\<close>

lemma end_by_evidence_ok:
  assumes inv: "thesis_inv hs policy p" and step: "valid_step policy ev e ds"
    and t: "th_last_available_at p \<le> ev_available_at ev"
    and link: "list_all fst (link_rules e p)" "list_all fst (continuation_rules (th_agent_memory p) e)"
    and over: "terminal_status (ae_hypothesis_status e)"
  shows "\<exists>t. end_by_evidence hs ev e p = Inr t \<and> thesis_inv hs policy t \<and>
    th_thesis_id t = th_thesis_id p \<and> th_last_available_at t = ev_available_at ev \<and>
    th_hypothesis_status t = ae_hypothesis_status e"
proof -
  have e: "evidence_ok e" and ev: "valid_event ev" using step by (auto simp: valid_step_def)
  obtain m where m: "transition_memory (sh_memory hs) (Some (th_agent_memory p)) e = Inr m"
    using transition_ok_iff[OF thesis_inv_memory_ok[OF inv] e] link(2) by (auto simp: is_ok_iff)
  have p: "mk_thesis_state hs p = Inr p" "\<forall>s \<in> set (th_scenarios p). scenario_inv hs p s"
      "mk_agent_memory (sh_memory hs) (th_agent_memory p) = Inr (th_agent_memory p)"
    using inv by (auto simp: thesis_inv_def)
  have b: "th_began_at p \<le> ev_available_at ev" using inv t by (auto simp: thesis_inv_def)
  have life: "th_expires_at p = th_began_at p + sp_ttl_seconds policy * 1000000"
    using inv by (simp add: thesis_inv_def)
  let ?x = "ae_hypothesis_status e = HS_EXPIRED"
  from terminal_state_ok[OF p b ev, of ?x] obtain q where q: "terminal_state hs p ev ?x = Inr q" and
    f: "\<forall>s \<in> set (th_scenarios q). scenario_inv hs p s" "th_thesis_id q = th_thesis_id p"
      "th_began_at q = th_began_at p" "th_expires_at q = th_expires_at p"
      "th_last_available_at q = ev_available_at ev"
      "th_hypothesis_status q = (if ?x then HS_EXPIRED else HS_INVALIDATED)"
      "th_entry_eligibility q = (if ?x then EE_EXPIRED else EE_INVALIDATED)"
      "th_hypothesis_id q = th_hypothesis_id p" "th_agent_name q = th_agent_name p"
    by auto
  have ss: "res_map (mk_scenario_state hs) (th_scenarios q) = Inr (th_scenarios q)"
    using f(1) by (induction "th_scenarios q" arbitrary: q)
      (auto simp: res_map_Inr_iff list_all2_same scenario_inv_def)
  let ?r = "q\<lparr>th_state_id := [], th_scenarios := th_scenarios q, th_agent_memory := m,
       th_evidence_ids := th_evidence_ids p @ [ae_id e], th_latest_evidence_id := ae_id e,
       th_latest_evidence_as_of := ae_as_of e, th_latest_evidence_available_at := ae_available_at e,
       th_runtime_state_id := ae_runtime_state_id e,
       th_feature_snapshot_id := ae_feature_snapshot_id e\<rparr>"
  have "mk_thesis_state hs q = Inr q"
    using q by (auto simp: terminal_state_def res_bind_Inr_iff dest: mk_thesis_again)
  then have "list_all fst (thesis_rules ?r)"
    using evidence_fields_ok[OF e] by (auto simp: thesis_rules_def dest!: mk_thesis_rules)
  then have r: "mk_thesis_state hs ?r = Inr (?r\<lparr>th_state_id := content_id ''thesis-state-'' (sh_thesis hs) ?r\<rparr>)"
    by (subst mk_thesis_iff) simp_all
  define t where "t = ?r\<lparr>th_state_id := content_id ''thesis-state-'' (sh_thesis hs) ?r\<rparr>"
  have g: "th_thesis_id t = th_thesis_id q" "th_began_at t = th_began_at q" "th_expires_at t = th_expires_at q"
      "th_agent_memory t = m" "th_scenarios t = th_scenarios q" "th_last_available_at t = th_last_available_at q"
      "th_hypothesis_status t = th_hypothesis_status q" "th_entry_eligibility t = th_entry_eligibility q"
      "th_hypothesis_id t = th_hypothesis_id q" "th_agent_name t = th_agent_name q"
    by (simp_all add: t_def)
  have "end_by_evidence hs ev e p = Inr t"
    using m q ss r by (simp add: end_by_evidence_def t_def)
  moreover have "mk_thesis_state hs t = Inr t" using mk_thesis_again[OF r] by (simp add: t_def)
  moreover have "\<forall>s \<in> set (th_scenarios t). scenario_inv hs t s"
    using f(1-4) g by (simp add: scenario_inv_def)
  moreover have "am_hypothesis_id m = th_hypothesis_id p" "am_agent_name m = th_agent_name p"
      "am_hypothesis_status m = ae_hypothesis_status e"
    using transition_result[OF m] continuation_links(3)[OF link(1) e] link(2) inv
    by (auto simp: continuation_rules_def thesis_inv_def)
  ultimately show ?thesis
    using transition_result(1)[OF m] f g over b life
    by (intro exI[of _ t]) (auto simp: thesis_inv_def terminal_status_def)
qed

lemma causality_order:
  "validate_causality ev a e (Some p) = Inr u \<Longrightarrow> th_last_available_at p \<le> ev_available_at ev"
  by (auto simp: validate_causality_def scenario_causality_rules_def ordering_key_def
      res_bind_Inr_iff validate_Inr_iff)

text \<open>
  What one step of the machine does to a valid thesis: nothing, a fresh thesis, expiry by time, or
  the effect of evidence that continues the same hypothesis.
\<close>

lemma link_accepts:
  assumes inv: "thesis_inv hs policy p" and e: "evidence_ok e"
    and ok: "transition_memory (sh_memory hs) (Some (th_agent_memory p)) e = Inr m"
  shows "list_all fst (continuation_rules (th_agent_memory p) e)"
  using transition_ok_iff[OF thesis_inv_memory_ok[OF inv] e] ok by (metis is_ok_simps(1))

lemma rolls_over_M5: "rolls_over ev e p \<Longrightarrow> ev_type ev = M5_CLOSED"
  by (simp add: rolls_over_def)

lemma update_thesis_cases:
  assumes upd: "update_thesis hs ev e p policy ds = Inr t"
    and inv: "thesis_inv hs policy p" and step: "valid_step policy ev e ds"
    and time: "th_last_available_at p \<le> ev_available_at ev"
  obtains (same) "t = p"
    | (fresh) mo where "ev_type ev = M5_CLOSED" "create_thesis hs ev e policy ds mo (Some (th_thesis_id p)) = Inr t"
    | (expired) "\<not> (terminal_status (th_hypothesis_status p) \<and> ev_type ev \<noteq> M5_CLOSED)"
        "th_expires_at p \<le> ev_available_at ev" "terminal_state hs p ev True = Inr t"
    | (ended) "\<not> (terminal_status (th_hypothesis_status p) \<and> ev_type ev \<noteq> M5_CLOSED)"
        "list_all fst (link_rules e p)" "list_all fst (continuation_rules (th_agent_memory p) e)"
        "terminal_status (ae_hypothesis_status e)" "ev_available_at ev < th_expires_at p"
        "end_by_evidence hs ev e p = Inr t"
    | (continued) "list_all fst (link_rules e p)" "list_all fst (continuation_rules (th_agent_memory p) e)"
        "\<not> terminal_status (ae_hypothesis_status e)" "ev_available_at ev < th_expires_at p"
        "\<not> (terminal_status (th_hypothesis_status p) \<and> ev_type ev \<noteq> M5_CLOSED)"
        "continue_thesis hs ev e policy p = Inr t"
proof -
  have e: "evidence_ok e" using step by (simp add: valid_step_def)
  consider "t = p" | mo where "ev_type ev = M5_CLOSED"
        "create_thesis hs ev e policy ds mo (Some (th_thesis_id p)) = Inr t"
    | "\<not> (terminal_status (th_hypothesis_status p) \<and> ev_type ev \<noteq> M5_CLOSED)"
        "th_expires_at p \<le> ev_available_at ev" "terminal_state hs p ev True = Inr t"
    | "\<not> (terminal_status (th_hypothesis_status p) \<and> ev_type ev \<noteq> M5_CLOSED)"
        "list_all fst (link_rules e p)" "terminal_status (ae_hypothesis_status e)"
        "ev_available_at ev < th_expires_at p" "end_by_evidence hs ev e p = Inr t"
    | "list_all fst (link_rules e p)" "\<not> terminal_status (ae_hypothesis_status e)"
        "ev_available_at ev < th_expires_at p"
        "\<not> (terminal_status (th_hypothesis_status p) \<and> ev_type ev \<noteq> M5_CLOSED)"
        "continue_thesis hs ev e policy p = Inr t"
    using upd rolls_over_M5[of ev e p]
    by (auto simp: update_thesis_def res_bind_Inr_iff validate_Inr_iff not_le split: if_splits)
  then show ?thesis
  proof cases
    case 4
    moreover from 4(5) obtain m where "transition_memory (sh_memory hs) (Some (th_agent_memory p)) e = Inr m"
      by (auto simp: end_by_evidence_def res_bind_Inr_iff)
    ultimately show ?thesis by (intro ended link_accepts[OF inv e])
  next
    case 5
    moreover from 5(5) obtain m where "transition_memory (sh_memory hs) (Some (th_agent_memory p)) e = Inr m"
      by (auto simp: continue_thesis_def res_bind_Inr_iff)
    ultimately show ?thesis by (intro continued link_accepts[OF inv e])
  qed (rule same fresh expired; assumption)+
qed

lemma update_thesis_inv:
  assumes upd: "update_thesis hs ev e p policy ds = Inr t"
    and inv: "thesis_inv hs policy p" and step: "valid_step policy ev e ds"
    and time: "th_last_available_at p \<le> ev_available_at ev"
  shows "thesis_inv hs policy t"
proof (rule update_thesis_cases[OF assms])
  assume "t = p" with inv show ?thesis by simp
next
  fix mo assume "create_thesis hs ev e policy ds mo (Some (th_thesis_id p)) = Inr t"
  then show ?thesis using step by (rule create_thesis_inv(1))
next
  assume "th_expires_at p \<le> ev_available_at ev" "terminal_state hs p ev True = Inr t"
  with expire_ok[OF inv step time] show ?thesis by auto
next
  assume "list_all fst (link_rules e p)" "list_all fst (continuation_rules (th_agent_memory p) e)"
    "terminal_status (ae_hypothesis_status e)" "end_by_evidence hs ev e p = Inr t"
  with end_by_evidence_ok[OF inv step time] show ?thesis by auto
next
  assume "list_all fst (link_rules e p)" "list_all fst (continuation_rules (th_agent_memory p) e)"
    "\<not> terminal_status (ae_hypothesis_status e)" "ev_available_at ev < th_expires_at p"
    "continue_thesis hs ev e policy p = Inr t"
  with continue_thesis_ok[OF inv step time] show ?thesis by auto
qed

lemma update_scenario_next:
  assumes "update_scenario hs ev a e (Some p) policy ds = Inr (Some t)"
  shows "update_thesis hs ev e p policy ds = Inr t" "th_last_available_at p \<le> ev_available_at ev"
  using assms by (auto simp: update_scenario_def res_bind_Inr_iff split: if_splits dest: causality_order)

lemma update_scenario_first:
  assumes "update_scenario hs ev a e None policy ds = Inr (Some t)"
  shows "create_thesis hs ev e policy ds None None = Inr t" "ev_type ev = M5_CLOSED"
  using assms by (auto simp: update_scenario_def res_bind_Inr_iff split: if_splits)

lemma reachable_thesis_inv: "thesis_reachable hs policy t \<Longrightarrow> thesis_inv hs policy t"
proof (induction rule: thesis_reachable.induct)
  case (opened ev a e ds t)
  then show ?case by (blast dest: update_scenario_first intro: create_thesis_inv(1))
next
  case (moved p ev a e ds t)
  then show ?case by (blast dest: update_scenario_next intro: update_thesis_inv)
qed

lemma accepted_guards:
  assumes "update_thesis hs ev e p policy ds = Inr t" "thesis_inv hs policy p" "valid_step policy ev e ds"
    and "\<not> terminal_status (th_hypothesis_status p)" "ev_type ev \<noteq> M5_CLOSED" "ev_id ev \<noteq> th_last_event_id p"
  shows "th_expires_at p \<le> ev_available_at ev \<or>
     list_all fst (link_rules e p) \<and> list_all fst (continuation_rules (th_agent_memory p) e)"
proof (cases "th_expires_at p \<le> ev_available_at ev")
  case False
  have e: "evidence_ok e" using assms(3) by (simp add: valid_step_def)
  have "list_all fst (link_rules e p) \<and>
      (\<exists>m. transition_memory (sh_memory hs) (Some (th_agent_memory p)) e = Inr m)"
    using assms(1,4-6) False
    by (auto simp: update_thesis_def rolls_over_def end_by_evidence_def continue_thesis_def
        res_bind_Inr_iff validate_Inr_iff split: if_splits)
  with link_accepts[OF assms(2) e] show ?thesis by auto
qed simp

lemma eligible_has_scenario:
  "mk_thesis_state hs t = Inr t \<Longrightarrow> th_entry_eligibility t = EE_ELIGIBLE \<Longrightarrow>
   \<exists>s \<in> set (th_scenarios t). scn_entry_eligibility s = EE_ELIGIBLE"
  by (auto simp: thesis_rules_def list_ex_iff dest!: mk_thesis_rules)

subsection \<open>Properties\<close>

text \<open>Concrete steps for the witnesses: an M5 close opens a thesis, a tick confirms its only scenario.\<close>

definition demo_hashes :: scenario_hashes where
  "demo_hashes = \<lparr>sh_memory = zero_hash, sh_root = zero_hash, sh_scenario = zero_hash,
     sh_key = zero_hash, sh_thesis = zero_hash\<rparr>"

definition demo_scenario_policy :: scenario_policy where
  "demo_scenario_policy = \<lparr>sp_ttl_seconds = 900, sp_max_m5_bars = 3, sp_max_scenarios = 3\<rparr>"

definition demo_definitions :: "scenario_definition list" where
  "demo_definitions =
     [\<lparr>sd_name = ''retest'', sd_confirmation_facts = [''slope''], sd_invalidation_facts = [''break'']\<rparr>]"

definition demo_bar :: "string \<Rightarrow> event_type \<Rightarrow> dt \<Rightarrow> runtime_event" where
  "demo_bar i ty t = \<lparr>ev_id = i, ev_type = ty, ev_event_time = t, ev_observed_at = t, ev_available_at = t,
     ev_source = ''mt5'', ev_source_version = ''1'', ev_source_sequence = t, ev_symbol = Some ''XAUUSD'',
     ev_payload = P_Market \<lparr>ms_source = ''mt5'', ms_symbol = ''XAUUSD'', ms_as_of = t,
       ms_freshness = \<lparr>cf_component = ''market'', cf_status = FS_AVAILABLE, cf_observed_at = Some t,
         cf_available_at = Some t, cf_stale_after_ms = None, cf_reason = None\<rparr>,
       ms_bid = None, ms_ask = None, ms_last = None, ms_spread_points = None, ms_base_timeframe = None,
       ms_completed_timeframes = [], ms_feature_manifest_id = None, ms_market_data_version = None\<rparr>,
     ev_ingested_at = None\<rparr>"

definition demo_opening :: agent_evidence where
  "demo_opening = demo_evidence ''ae-1'' 10 HS_DEVELOPING HR_NEW None (Fin (1 / 2))"

definition demo_confirming :: agent_evidence where
  "demo_confirming = (demo_evidence ''ae-2'' 20 HS_CONFIRMED HR_STRENGTHENED (Some ''hyp-1'') (Fin (3 / 4)))\<lparr>
     ae_evidence_for := ae_evidence_for demo_cited\<rparr>"

definition demo_ending :: agent_evidence where
  "demo_ending = demo_evidence ''ae-3'' 30 HS_INVALIDATED HR_INVALIDATED (Some ''hyp-1'') (Fin 0)"

definition demo_thesis :: thesis_state where
  "demo_thesis = \<lparr>th_state_id = ''thesis-state-00000000000000000000'',
     th_thesis_id = ''thesis-00000000000000000000'', th_supersedes_thesis_id = None, th_symbol = ''XAUUSD'',
     th_agent_name = ''chart'', th_agent_version = ''1'', th_hypothesis_id = ''hyp-1'',
     th_hypothesis = ''trend'', th_direction = Some BULLISH, th_hypothesis_status = HS_DEVELOPING,
     th_relationship = HR_NEW, th_runtime_state_id = ''state-1'', th_feature_snapshot_id = None,
     th_began_at = 10, th_updated_at = 10, th_expires_at = 900000010, th_m5_bars_observed = 1,
     th_entry_eligibility = EE_WATCHING,
     th_scenarios = [\<lparr>scn_scenario_id = ''scenario-root-00000000000000000000'',
       scn_state_id = ''scenario-state-00000000000000000000'',
       scn_parent_thesis_id = ''thesis-00000000000000000000'', scn_name = ''retest'', scn_status = SS_WATCHING,
       scn_confirmation_facts = [''slope''], scn_invalidation_facts = [''break''], scn_matched_facts = [],
       scn_confirmation_progress = Fin 0, scn_confidence = Fin (1 / 2), scn_last_matched_event_id = None,
       scn_began_at = 10, scn_updated_at = 10, scn_expires_at = 900000010,
       scn_entry_eligibility = EE_WATCHING, scn_evidence_ids = [''ae-1''], scn_tool_result_ids = []\<rparr>],
     th_evidence_ids = [''ae-1''], th_latest_evidence_id = ''ae-1'', th_latest_evidence_as_of = 10,
     th_latest_evidence_available_at = 10, th_agent_memory = demo_memory, th_last_event_id = ''ev-1'',
     th_last_event_time = 10, th_last_observed_at = 10, th_last_available_at = 10,
     th_last_source_sequence = 10, th_continuity_status = CS_COMPLETE\<rparr>"

lemmas scenario_eval = update_scenario_def update_thesis_def create_thesis_def mk_thesis_state_def
  mk_scenario_state_def thesis_rules_def scenario_rules_def validate_causality_def
  scenario_causality_rules_def validate_agent_output_def citation_rules_def reference_rules_def
  result_named_def dict_by_def cited_fact_def continue_thesis_def end_by_evidence_def terminal_state_def
  terminal_scenario_def updated_scenarios_def updated_scenario_def scenario_outcome_def
  matched_facts_def supporting_facts_def scenario_invalidated_def thesis_eligibility_def
  new_scenarios_def new_scenario_def evidence_tool_ids_def thesis_id_of_def scenario_id_of_def
  after_event_def link_rules_def terminal_status_def rolls_over_def ordering_key_def
  add_seconds_def dt_min_def dt_max_def int_div_def feq_def demo_hashes_def demo_scenario_policy_def
  demo_definitions_def demo_bar_def demo_opening_def demo_confirming_def demo_ending_def demo_cited_def
  demo_input_def

lemma demo_steps:
  "update_scenario demo_hashes (demo_bar ''ev-1'' M5_CLOSED 10) demo_input demo_opening None
     demo_scenario_policy demo_definitions = Inr (Some demo_thesis)"
  "\<exists>t. update_scenario demo_hashes (demo_bar ''ev-2'' TICK 20) (demo_input\<lparr>ai_as_of := 20\<rparr>) demo_confirming
     (Some demo_thesis) demo_scenario_policy [] = Inr (Some t) \<and> th_entry_eligibility t = EE_ELIGIBLE"
  by (simp_all add: scenario_eval memory_eval demo_thesis_def)

lemma demo_ended_step:
  "\<exists>t. update_scenario demo_hashes (demo_bar ''ev-3'' TICK 30) (demo_input\<lparr>ai_as_of := 30\<rparr>) demo_ending
     (Some demo_thesis) demo_scenario_policy [] = Inr (Some t) \<and> th_hypothesis_status t = HS_INVALIDATED \<and>
     th_last_event_id t = ''ev-3'' \<and> th_last_available_at t = 30 \<and> th_last_source_sequence t = 30"
  by (simp add: scenario_eval memory_eval demo_thesis_def)

lemma demo_late_tick:
  "th_hypothesis_status p = HS_INVALIDATED \<Longrightarrow> th_last_event_id p = ''ev-3'' \<Longrightarrow>
   th_last_available_at p = 30 \<Longrightarrow> th_last_source_sequence p = 30 \<Longrightarrow>
   update_scenario demo_hashes (demo_bar ''ev-4'' TICK 40) (demo_input\<lparr>ai_as_of := 40\<rparr>)
     (demo_ending\<lparr>ae_as_of := 40, ae_available_at := 40\<rparr>) (Some p) demo_scenario_policy [] = Inr (Some p)"
  by (simp add: scenario_eval memory_eval)

lemma demo_evidence_ok: "evidence_ok demo_opening" "evidence_ok demo_confirming" "evidence_ok demo_ending"
    "evidence_ok (demo_ending\<lparr>ae_as_of := 40, ae_available_at := 40\<rparr>)"
    "evidence_ok (demo_confirming\<lparr>ae_thesis_id := Some ''other''\<rparr>)"
  by (simp_all add: evidence_rules demo_opening_def demo_confirming_def demo_ending_def demo_evidence_def rnd_eval)

lemma demo_valid_steps:
  "valid_step demo_scenario_policy (demo_bar ''ev-1'' M5_CLOSED 10) demo_opening demo_definitions"
  "valid_step demo_scenario_policy (demo_bar ''ev-2'' TICK 20) demo_confirming []"
  "valid_step demo_scenario_policy (demo_bar ''ev-3'' TICK 30) demo_ending []"
  "valid_step demo_scenario_policy (demo_bar ''ev-4'' TICK 40) (demo_ending\<lparr>ae_as_of := 40, ae_available_at := 40\<rparr>) []"
  "valid_step demo_scenario_policy (demo_bar ''ev-2'' TICK 20) (demo_confirming\<lparr>ae_thesis_id := Some ''other''\<rparr>) []"
  using demo_evidence_ok
  by (simp_all add: valid_step_def demo_scenario_policy_def valid_event_def demo_bar_def payload_matches_def
      demo_definitions_def scenario_definition_rules_def)

lemma demo_thesis_reachable: "thesis_reachable demo_hashes demo_scenario_policy demo_thesis"
  by (rule thesis_reachable.opened[OF demo_steps(1) demo_valid_steps(1)])

lemma demo_eligible_reachable:
  "\<exists>t. thesis_reachable demo_hashes demo_scenario_policy t \<and> th_entry_eligibility t = EE_ELIGIBLE"
  using demo_steps(2) thesis_reachable.moved[OF demo_thesis_reachable _ demo_valid_steps(2)] by blast

lemma demo_ended_reachable:
  "\<exists>t. thesis_reachable demo_hashes demo_scenario_policy t \<and> th_hypothesis_status t = HS_INVALIDATED \<and>
     th_last_event_id t = ''ev-3'' \<and> th_last_available_at t = 30 \<and> th_last_source_sequence t = 30"
  using demo_ended_step thesis_reachable.moved[OF demo_thesis_reachable _ demo_valid_steps(3)] by blast

text \<open>C27. Entry is opened only by confirmation: in every reachable thesis that is entry-eligible the
  agent's hypothesis is confirmed, some scenario of the same lifetime is confirmed with every one of its
  confirmation conditions matched by facts, and the thesis is neither past its expiry time nor past its
  bar limit.\<close>

theorem entry_needs_confirmed_scenario:
  assumes "thesis_reachable hs policy t" "th_entry_eligibility t = EE_ELIGIBLE"
  shows "th_hypothesis_status t = HS_CONFIRMED \<and> th_last_available_at t < th_expires_at t \<and>
    th_m5_bars_observed t \<le> sp_max_m5_bars policy \<and>
    (\<exists>s \<in> set (th_scenarios t). scn_status s = SS_CONFIRMED \<and> scn_expires_at s = th_expires_at t \<and>
       set (scn_matched_facts s) = set (scn_confirmation_facts s))"
proof -
  have inv: "thesis_inv hs policy t" using assms(1) by (rule reachable_thesis_inv)
  then have status: "th_hypothesis_status t = HS_CONFIRMED" using assms(2) by (simp add: thesis_inv_def)
  obtain s where "s \<in> set (th_scenarios t)" "scn_entry_eligibility s = EE_ELIGIBLE"
    using eligible_has_scenario[OF _ assms(2)] inv by (auto simp: thesis_inv_def)
  with inv have "\<exists>s \<in> set (th_scenarios t). scn_status s = SS_CONFIRMED \<and> scn_expires_at s = th_expires_at t \<and>
       set (scn_matched_facts s) = set (scn_confirmation_facts s)"
    by (auto simp: thesis_inv_def scenario_inv_def)
  with inv status show ?thesis by (simp add: thesis_inv_def terminal_status_def)
qed

theorem entry_needs_confirmed_scenario_witness:
  "\<exists>t :: thesis_state. th_entry_eligibility t = EE_ELIGIBLE \<and> th_hypothesis_status t = HS_CONFIRMED \<and>
     (\<exists>s \<in> set (th_scenarios t). scn_status s = SS_CONFIRMED)"
proof -
  obtain t where t: "thesis_reachable demo_hashes demo_scenario_policy t" "th_entry_eligibility t = EE_ELIGIBLE"
    using demo_eligible_reachable by auto
  from entry_needs_confirmed_scenario[OF t] t(2) show ?thesis by blast
qed

text \<open>An ended thesis never comes back: whatever event follows an invalidated or expired thesis, the
  result is still ended, or it is a successor opened by an M5 close at that close, linked to its
  predecessor, with one bar seen and nothing eligible. Ticks and M1 closes leave it untouched.\<close>

theorem ended_thesis_stays_ended:
  assumes "thesis_reachable hs policy p" "terminal_status (th_hypothesis_status p)"
    and "update_scenario hs ev a e (Some p) policy ds = Inr (Some t)" "valid_step policy ev e ds"
  shows "t = p \<or> ev_type ev = M5_CLOSED \<and> (terminal_status (th_hypothesis_status t) \<or>
      th_supersedes_thesis_id t = Some (th_thesis_id p) \<and> th_began_at t = ev_available_at ev \<and>
      th_m5_bars_observed t = 1 \<and> th_entry_eligibility t = EE_WATCHING)"
proof -
  have inv: "thesis_inv hs policy p" using assms(1) by (rule reachable_thesis_inv)
  note upd = update_scenario_next[OF assms(3)]
  note step = assms(4)
  show ?thesis
  proof (rule update_thesis_cases[OF upd(1) inv step upd(2)])
    fix mo assume "ev_type ev = M5_CLOSED" "create_thesis hs ev e policy ds mo (Some (th_thesis_id p)) = Inr t"
    with create_thesis_inv[OF this(2) step] show ?thesis by simp
  next
    assume "\<not> (terminal_status (th_hypothesis_status p) \<and> ev_type ev \<noteq> M5_CLOSED)"
      "th_expires_at p \<le> ev_available_at ev" "terminal_state hs p ev True = Inr t"
    with expire_ok[OF inv step upd(2)] assms(2) show ?thesis by (auto simp: terminal_status_def)
  next
    assume "\<not> (terminal_status (th_hypothesis_status p) \<and> ev_type ev \<noteq> M5_CLOSED)"
      "list_all fst (link_rules e p)" "list_all fst (continuation_rules (th_agent_memory p) e)"
      "terminal_status (ae_hypothesis_status e)" "end_by_evidence hs ev e p = Inr t"
    with end_by_evidence_ok[OF inv step upd(2)] assms(2) show ?thesis by auto
  next
    assume c: "\<not> (terminal_status (th_hypothesis_status p) \<and> ev_type ev \<noteq> M5_CLOSED)"
      "list_all fst (link_rules e p)" "list_all fst (continuation_rules (th_agent_memory p) e)"
      "\<not> terminal_status (ae_hypothesis_status e)" "ev_available_at ev < th_expires_at p"
      "continue_thesis hs ev e policy p = Inr t"
    have e: "evidence_ok e" using step by (simp add: valid_step_def)
    have "\<not> terminal_status (am_hypothesis_status (th_agent_memory p))"
      using terminal_memory_only[OF c(3) continuation_links(1,2)[OF c(2) e]] c(4) by blast
    then have "sp_max_m5_bars policy < th_m5_bars_observed p"
      using inv assms(2) c(5) upd(2) by (auto simp: thesis_inv_def terminal_status_def)
    with continue_thesis_ok[OF inv step upd(2) c(5,2,3,4)] c(1,6) assms(2) show ?thesis
      by (auto simp: terminal_status_def)
  qed simp
qed

theorem ended_thesis_stays_ended_witness:
  "\<exists>p t. th_hypothesis_status p = HS_INVALIDATED \<and> t = p \<and>
     update_scenario demo_hashes (demo_bar ''ev-4'' TICK 40) (demo_input\<lparr>ai_as_of := 40\<rparr>)
       (demo_ending\<lparr>ae_as_of := 40, ae_available_at := 40\<rparr>) (Some p) demo_scenario_policy [] = Inr (Some t)"
proof -
  obtain p where p: "thesis_reachable demo_hashes demo_scenario_policy p" "th_hypothesis_status p = HS_INVALIDATED"
      "th_last_event_id p = ''ev-3''" "th_last_available_at p = 30" "th_last_source_sequence p = 30"
    using demo_ended_reachable by auto
  have "terminal_status (th_hypothesis_status p)" using p(2) by (simp add: terminal_status_def)
  from ended_thesis_stays_ended[OF p(1) this demo_late_tick[OF p(2-5)] demo_valid_steps(4)]
  show ?thesis using p(2) demo_late_tick[OF p(2-5)] by blast
qed

text \<open>C36. Every reachable thesis is well formed: it and its scenarios pass their own contracts with their
  content-derived identities, the scenarios belong to the thesis and live exactly as long as it, its
  memory is the memory of the same agent and hypothesis, and its lifetime is the configured one.\<close>

theorem reachable_thesis_well_formed:
  assumes "thesis_reachable hs policy t"
  shows "mk_thesis_state hs t = Inr t \<and> (\<forall>s \<in> set (th_scenarios t). mk_scenario_state hs s = Inr s \<and>
      scn_began_at s = th_began_at t \<and> scn_expires_at s = th_expires_at t) \<and>
    am_hypothesis_id (th_agent_memory t) = th_hypothesis_id t \<and>
    am_agent_name (th_agent_memory t) = th_agent_name t \<and>
    th_expires_at t = th_began_at t + sp_ttl_seconds policy * 1000000"
  using reachable_thesis_inv[OF assms] by (simp add: thesis_inv_def scenario_inv_def)

theorem reachable_thesis_well_formed_witness:
  "th_expires_at demo_thesis = th_began_at demo_thesis + 900 * 1000000"
  using reachable_thesis_well_formed[OF demo_thesis_reachable] by (simp add: demo_scenario_policy_def)

text \<open>Intrabar evidence about a live thesis is accepted exactly when the guards hold: the evidence
  quotes its input, the event is causally in order, and, unless the thesis has just expired, the evidence
  continues the same hypothesis and thesis along the agent's lifecycle. No contract of the new state, no
  scenario and no quotient can fail.\<close>

theorem live_update_accepts_iff:
  assumes "thesis_reachable hs policy p" "\<not> terminal_status (th_hypothesis_status p)"
    and "valid_step policy ev e ds" "ev_type ev \<in> {M1_CLOSED, TICK}" "ev_id ev \<noteq> th_last_event_id p"
  shows "is_ok (update_scenario hs ev a e (Some p) policy ds) \<longleftrightarrow>
    is_ok (validate_causality ev a e (Some p)) \<and>
    (th_expires_at p \<le> ev_available_at ev \<or>
     list_all fst (link_rules e p) \<and> list_all fst (continuation_rules (th_agent_memory p) e))"
proof -
  have inv: "thesis_inv hs policy p" using assms(1) by (rule reachable_thesis_inv)
  have e: "evidence_ok e" using assms(3) by (simp add: valid_step_def)
  have intrabar: "ev_type ev \<noteq> M5_CLOSED" using assms(4) by auto
  have "is_ok (update_scenario hs ev a e (Some p) policy ds) \<longleftrightarrow>
      is_ok (validate_causality ev a e (Some p)) \<and> is_ok (update_thesis hs ev e p policy ds)"
    using assms(4) by (auto simp: update_scenario_def is_ok_iff res_bind_Inr_iff)
  also have "\<dots> \<longleftrightarrow> is_ok (validate_causality ev a e (Some p)) \<and>
    (th_expires_at p \<le> ev_available_at ev \<or>
     list_all fst (link_rules e p) \<and> list_all fst (continuation_rules (th_agent_memory p) e))"
  proof (rule conj_cong[OF refl])
    assume "is_ok (validate_causality ev a e (Some p))"
    then have time: "th_last_available_at p \<le> ev_available_at ev"
      by (auto simp: is_ok_iff dest: causality_order)
    have live: "update_thesis hs ev e p policy ds =
        (if th_expires_at p \<le> ev_available_at ev then terminal_state hs p ev True
         else res_bind (validate (link_rules e p) p) (\<lambda>p.
          if terminal_status (ae_hypothesis_status e) then end_by_evidence hs ev e p
          else continue_thesis hs ev e policy p))"
      unfolding update_thesis_def using assms(2,5) intrabar by (simp add: rolls_over_def)
    show "is_ok (update_thesis hs ev e p policy ds) \<longleftrightarrow> th_expires_at p \<le> ev_available_at ev \<or>
       list_all fst (link_rules e p) \<and> list_all fst (continuation_rules (th_agent_memory p) e)"
    proof
      assume "is_ok (update_thesis hs ev e p policy ds)"
      then obtain t where t: "update_thesis hs ev e p policy ds = Inr t" by (auto simp: is_ok_iff)
      show "th_expires_at p \<le> ev_available_at ev \<or>
         list_all fst (link_rules e p) \<and> list_all fst (continuation_rules (th_agent_memory p) e)"
        by (rule accepted_guards[OF t inv assms(3)]) (use assms(2,4,5) in auto)
    next
      assume ok: "th_expires_at p \<le> ev_available_at ev \<or>
         list_all fst (link_rules e p) \<and> list_all fst (continuation_rules (th_agent_memory p) e)"
      show "is_ok (update_thesis hs ev e p policy ds)"
      proof (cases "th_expires_at p \<le> ev_available_at ev")
        case True
        with expire_ok[OF inv assms(3) time] show ?thesis by (auto simp: live is_ok_iff)
      next
        case False
        with ok have link: "list_all fst (link_rules e p)" "list_all fst (continuation_rules (th_agent_memory p) e)"
          by auto
        have run: "update_thesis hs ev e p policy ds =
            (if terminal_status (ae_hypothesis_status e) then end_by_evidence hs ev e p
             else continue_thesis hs ev e policy p)"
          using False by (simp add: live validate_ok[OF link(1)])
        have "ev_available_at ev < th_expires_at p" using False by simp
        then have "is_ok (end_by_evidence hs ev e p)" if "terminal_status (ae_hypothesis_status e)"
          using end_by_evidence_ok[OF inv assms(3) time link that] by (auto simp: is_ok_iff)
        moreover have "is_ok (continue_thesis hs ev e policy p)" if "\<not> terminal_status (ae_hypothesis_status e)"
          using continue_thesis_ok[OF inv assms(3) time _ link that] False by (auto simp: is_ok_iff)
        ultimately show ?thesis unfolding run by simp
      qed
    qed
  qed
  finally show ?thesis .
qed

theorem live_update_accepts_iff_witness:
  "\<not> is_ok (update_scenario demo_hashes (demo_bar ''ev-2'' TICK 20) (demo_input\<lparr>ai_as_of := 20\<rparr>)
     (demo_confirming\<lparr>ae_thesis_id := Some ''other''\<rparr>) (Some demo_thesis) demo_scenario_policy [])"
proof -
  have live: "\<not> terminal_status (th_hypothesis_status demo_thesis)"
    by (simp add: terminal_status_def demo_thesis_def)
  have ev: "ev_type (demo_bar ''ev-2'' TICK 20) \<in> {M1_CLOSED, TICK}"
      "ev_id (demo_bar ''ev-2'' TICK 20) \<noteq> th_last_event_id demo_thesis"
    by (simp_all add: demo_bar_def demo_thesis_def)
  show ?thesis
    unfolding live_update_accepts_iff[OF demo_thesis_reachable live demo_valid_steps(5) ev]
    by (simp add: link_rules_def demo_confirming_def demo_evidence_def demo_thesis_def demo_bar_def)
qed

end
