(* ===== verification/Readiness.thy ===== *)
theory Readiness
  imports Reconciliation Scenarios
begin

section \<open>Startup readiness (\<open>execution_boundary/readiness.py\<close>)\<close>

text \<open>
  The fail-closed decision whether the program may resume after a restart. The age of a component is
  computed in binary64 milliseconds and compared with an integer limit.
\<close>

record recovery_thesis =
  rt_continuity_status :: continuity_status
  rt_expires_at :: dt

text \<open>\<open>age_ms <= limit\<close> of a float and an int compares the exact values.\<close>

definition fle_int :: "f64 \<Rightarrow> int \<Rightarrow> bool" where
  "fle_int a n = (case a of Fin x \<Rightarrow> x \<le> of_int n | NInf \<Rightarrow> True | _ \<Rightarrow> False)"

definition age_ms :: "dt \<Rightarrow> dt \<Rightarrow> f64" where
  "age_ms as_of available_at = fmul (total_seconds (as_of - available_at)) (lit 1000)"

definition resume_fresh :: "component_freshness \<Rightarrow> dt \<Rightarrow> bool" where
  "resume_fresh f as_of =
     (if cf_status f \<noteq> FS_AVAILABLE then False
      else case (cf_available_at f, cf_stale_after_ms f) of
        (Some av, Some limit) \<Rightarrow> fle (Fin 0) (age_ms as_of av) \<and> fle_int (age_ms as_of av) limit
      | _ \<Rightarrow> False)"

definition freshness_checks :: "shared_state \<Rightarrow> (component_freshness \<times> resume_block_reason) list" where
  "freshness_checks st =
     [(ms_freshness (st_market st), BLK_MARKET_NOT_FRESH),
      (ac_freshness (st_account st), BLK_ACCOUNT_NOT_FRESH),
      (pb_freshness (st_positions st), BLK_POSITIONS_NOT_FRESH),
      (ob_freshness (st_orders st), BLK_ORDERS_NOT_FRESH),
      (ex_freshness (st_exposure st), BLK_EXPOSURE_NOT_FRESH),
      (bc_freshness (st_broker_constraints st), BLK_BROKER_CONSTRAINTS_NOT_FRESH)]"

definition block_reasons ::
  "shared_state \<Rightarrow> reconciliation_report \<Rightarrow> recovery_thesis list \<Rightarrow> dt \<Rightarrow> continuity_status
     \<Rightarrow> resume_block_reason list" where
  "block_reasons st report theses as_of continuity =
     map snd (filter (\<lambda>c. \<not> resume_fresh (fst c) as_of) (freshness_checks st))
     @ (if rp_status report = RECONCILIATION_REQUIRED then [BLK_UNRESOLVED_EXECUTION_ANOMALY] else [])
     @ (if continuity \<noteq> CS_COMPLETE \<or> list_ex (\<lambda>t. rt_continuity_status t \<noteq> CS_COMPLETE) theses
        then [BLK_MISSING_INTRABAR_CONTINUITY] else [])
     @ (if list_ex (\<lambda>t. rt_expires_at t \<le> as_of) theses then [BLK_THESIS_EXPIRED] else [])"

definition evaluate_resume_readiness ::
  "(resume_readiness \<Rightarrow> string) \<Rightarrow> shared_state \<Rightarrow> reconciliation_report \<Rightarrow> recovery_thesis list \<Rightarrow> dt
     \<Rightarrow> continuity_status \<Rightarrow> resume_readiness res" where
  "evaluate_resume_readiness h st report theses as_of continuity =
     (let ordered = dedup (block_reasons st report theses as_of continuity) in
      mk_resume_readiness h
        \<lparr>rd_id = [], rd_runtime_state_id = st_id st, rd_report_id = rp_id report, rd_as_of = as_of,
         rd_status = (if ordered \<noteq> [] then RSM_BLOCKED else RSM_SAFE), rd_reasons = ordered\<rparr>)"

subsection \<open>Rounded ages\<close>

text \<open>Rounding a normal number changes it by at most one part in \<open>2 ^ 53\<close>.\<close>

lemma round_val_relative:
  assumes "2 powi (- 1022) \<le> q"
  shows "\<bar>round_val q - q\<bar> \<le> q / 2 ^ 53"
proof -
  let ?u = "(2::rat) powi (quantum_exp q)"
  have q: "0 < q" using assms by (meson order.strict_trans2 zero_less_power_int zero_less_numeral)
  have "2 powi (- 1022) < (2::rat) powi (ilog2 q + 1)"
    using assms ilog2_bounds(2)[OF q] by (meson order.strict_trans1)
  then have "- 1022 \<le> ilog2 q" unfolding powi2_less_iff by simp
  then have e: "quantum_exp q = ilog2 q - 52" using q by (simp add: quantum_exp_def)
  have "?u * 2 ^ 52 \<le> q"
    using ilog2_bounds(1)[OF q] by (simp add: e power_int_diff)
  moreover have "\<bar>round_val q - q\<bar> \<le> ?u / 2"
  proof -
    have "round_val q - q = (of_int (rhe (q / ?u)) - q / ?u) * ?u"
      using q by (simp add: round_val_def Let_def left_diff_distrib)
    then have "\<bar>round_val q - q\<bar> = \<bar>of_int (rhe (q / ?u)) - q / ?u\<bar> * ?u"
      by (simp add: abs_mult)
    also have "\<dots> \<le> 1 / 2 * ?u" by (intro mult_right_mono rhe_error) simp
    finally show ?thesis by simp
  qed
  ultimately show ?thesis by (simp add: field_simps)
qed

lemma rnd_relative:
  assumes "1 / 2 ^ 30 \<le> q" "q \<le> 2 ^ 100"
  obtains v where "rnd q = Fin v" "q - q / 2 ^ 53 \<le> v" "v \<le> q + q / 2 ^ 53"
proof
  have "(2::rat) powi (- 1022) \<le> 2 powi (- 30)" unfolding powi2_le_iff by simp
  also have "(2::rat) powi (- 30) = 1 / 2 ^ 30" by (simp add: power_int_def power_one_over)
  finally have "2 powi (- 1022) \<le> q" using assms(1) by (rule order_trans)
  note r = round_val_relative[OF this, unfolded abs_diff_le_iff]
  have b: "q - q / 2 ^ 53 \<le> round_val q" "round_val q \<le> q + q / 2 ^ 53"
    by (rule r[THEN conjunct1], rule r[THEN conjunct2])
  have q: "0 < q" using assms(1) by (rule order.strict_trans2[rotated]) simp
  have "q + q / 2 ^ 53 \<le> 2 ^ 101" using assms(2) q by (simp add: field_simps)
  also have "\<dots> \<le> f64_max" by (simp add: f64_max_def)
  finally have "round_val q \<le> f64_max" using b(2) by simp
  moreover have "0 \<le> round_val q" using q by (simp add: round_val_nonneg)
  moreover have "- f64_max < 0" by (simp add: f64_max_def)
  ultimately show "rnd q = Fin (round_val q)" by (simp add: rnd_def Let_def)
  show "q - q / 2 ^ 53 \<le> round_val q" "round_val q \<le> q + q / 2 ^ 53" by (rule b)+
qed

text \<open>An age of at least one microsecond over the limit is seen as over the limit.\<close>

lemma age_late:
  assumes "0 \<le> n" "n \<le> 2 ^ 40" "1000 * n < us" "us \<le> 2 ^ 51"
  shows "\<not> fle_int (fmul (total_seconds us) (lit 1000)) n"
proof -
  define q :: rat where "q = of_int us / 1000000"
  have us: "1 \<le> us" using assms by linarith
  have U: "of_int (1000 * n + 1) \<le> (of_int us :: rat)" "(of_int us :: rat) \<le> of_int (2 ^ 51)"
      "of_int 1 \<le> (of_int us :: rat)"
    using assms(3,4) us by (simp_all only: of_int_le_iff)
  have q: "1 / 2 ^ 30 \<le> q" "q \<le> 2 ^ 51"
    using U(2,3) by (simp_all add: q_def)
  have "q \<le> 2 ^ 100" using q(2) by (rule order_trans) simp
  from rnd_relative[OF q(1) this] obtain v where
    v: "total_seconds us = Fin v" "q - q / 2 ^ 53 \<le> v" "v \<le> q + q / 2 ^ 53"
    unfolding total_seconds_def q_def[symmetric] by blast
  have p: "(2::rat) ^ 53 = 9007199254740992" "(2::rat) ^ 30 = 1073741824" "(2::rat) ^ 51 = 2251799813685248"
      "(2::rat) ^ 100 = 1267650600228229401496703205376"
    by simp_all
  have v1: "1 / 2 ^ 30 \<le> v * 1000" using v(2) q(1) unfolding p by linarith
  have v2: "v * 1000 \<le> 2 ^ 100" using v(3) q(2) unfolding p by linarith
  obtain w where w: "rnd (v * 1000) = Fin w" "v * 1000 - v * 1000 / 2 ^ 53 \<le> w"
    by (rule rnd_relative[OF v1 v2])
  have "1000 * of_int n + 1 \<le> (of_int us :: rat)" "(of_int us :: rat) \<le> 2 ^ 51" using U by simp_all
  with w(2) v(2) have "of_int n < w" unfolding q_def p by linarith
  moreover have "lit 1000 = Fin 1000" by (simp add: rnd_numeral)
  ultimately show ?thesis using v(1) w(1) by (simp add: fle_int_def)
qed

lemma fle_int_mono: "fle a b \<Longrightarrow> fle_int b n \<Longrightarrow> fle_int a n"
  by (cases a; cases b) (auto simp: fle_int_def)

lemma rnd_infs: "fle (rnd q) PInf" "fle NInf (rnd q)"
  using rnd_not_NaN[of q] by (cases "rnd q"; simp)+

lemma fmul_mono_pos: "fle a b \<Longrightarrow> 0 < c \<Longrightarrow> fle (fmul a (Fin c)) (fmul b (Fin c))"
  by (cases a; cases b) (auto simp: inf_of_sign_def rnd_infs intro: rnd_mono)

lemma age_within:
  assumes "fle_int (fmul (total_seconds us) (lit 1000)) n" "0 \<le> n" "n \<le> 2 ^ 40"
  shows "us \<le> 1000 * n"
proof (rule ccontr)
  assume "\<not> us \<le> 1000 * n"
  then have "total_seconds (1000 * n + 1) = total_seconds (1000 * n + 1) \<and>
      fle (total_seconds (1000 * n + 1)) (total_seconds us)"
    by (simp add: total_seconds_mono)
  then have "fle (fmul (total_seconds (1000 * n + 1)) (lit 1000)) (fmul (total_seconds us) (lit 1000))"
    by (simp add: rnd_numeral fmul_mono_pos)
  then have "fle_int (fmul (total_seconds (1000 * n + 1)) (lit 1000)) n"
    using assms(1) by (rule fle_int_mono)
  moreover have "1000 * n + 1 \<le> 2 ^ 51" using assms(3) by simp
  ultimately show False using age_late[OF assms(2,3), of "1000 * n + 1"] by simp
qed

lemma age_nonneg:
  assumes "fle (Fin 0) (fmul (total_seconds us) (lit 1000))"
  shows "0 \<le> us"
proof (rule ccontr)
  assume "\<not> 0 \<le> us"
  then have "us \<le> - 1" by simp
  then have "total_seconds us = total_seconds us \<and> fle (total_seconds us) (total_seconds (- 1))"
    by (simp add: total_seconds_mono)
  then have a: "fle (total_seconds us) (Fin (- 1 / 2 ^ 20))"
  proof -
    have "fle (total_seconds (- 1)) (Fin (of_int (- 1) / 2 ^ 20))"
      unfolding total_seconds_def by (intro rnd_le is_f64_of_rnd rnd_dyadic) simp_all
    then show ?thesis using \<open>_ \<and> fle (total_seconds us) _\<close> by (auto intro: fle_trans)
  qed
  have "fle (fmul (total_seconds us) (lit 1000)) (Fin (- 1 / 2 ^ 20))"
  proof (cases "total_seconds us")
    case (Fin v)
    then have "v \<le> - 1 / 2 ^ 20" using a by simp
    then have "v * 1000 \<le> of_int (- 1) / 2 ^ 20" by simp
    then have "fle (rnd (v * 1000)) (Fin (of_int (- 1) / 2 ^ 20))"
      by (intro rnd_le is_f64_of_rnd rnd_dyadic) simp_all
    then show ?thesis using Fin by (simp add: rnd_numeral)
  qed (use a in \<open>simp_all add: rnd_numeral inf_of_sign_def\<close>)
  with assms have "fle (Fin 0) (Fin (- 1 / 2 ^ 20))" by (rule fle_trans)
  then show False by simp
qed

text \<open>
  The check rounds only towards refusal: an age accepted as fresh is within its limit exactly. At some
  limits an age of exactly the limit is refused, because the product rounds up.
\<close>

lemma resume_fresh_within:
  assumes "resume_fresh f as_of" "opt_all (\<lambda>n. 0 < n \<and> n \<le> 2 ^ 40) (cf_stale_after_ms f)"
  shows "cf_status f = FS_AVAILABLE \<and> (\<exists>av n. cf_available_at f = Some av \<and> cf_stale_after_ms f = Some n \<and>
    av \<le> as_of \<and> as_of \<le> av + 1000 * n)"
  using assms age_nonneg age_within
  by (auto simp: resume_fresh_def age_ms_def split: if_splits option.splits) force+

lemma boundary_refused: "\<not> fle_int (age_ms 2007000 0) 2007"
proof -
  have "total_seconds 2007000 = Fin (4519362226066293 / 2 ^ 51)"
    unfolding total_seconds_def using rnd_cert[of "- 51" "2007 / 1000" 4519362226066293]
    by (simp add: power_int_def f64_max_def power_one_over)
  moreover have "rnd (4519362226066293 / 2 ^ 51 * 1000) = Fin (8826879347785729 / 2 ^ 42)"
    using rnd_cert[of "- 42" "4519362226066293 / 2 ^ 51 * 1000" 8826879347785729]
    by (simp add: power_int_def f64_max_def power_one_over)
  ultimately show ?thesis by (simp add: age_ms_def rnd_numeral fle_int_def)
qed

lemma block_reasons_empty_iff:
  "block_reasons st report theses as_of continuity = [] \<longleftrightarrow>
     (\<forall>c \<in> set (freshness_checks st). resume_fresh (fst c) as_of) \<and> rp_status report = RESOLVED \<and>
     continuity = CS_COMPLETE \<and>
     (\<forall>t \<in> set theses. rt_continuity_status t = CS_COMPLETE \<and> as_of < rt_expires_at t)"
  by (cases "rp_status report") (auto simp: block_reasons_def filter_empty_conv list_ex_iff dest: leD)

subsection \<open>Properties\<close>

text \<open>C16. Resuming fails closed: with identified state and report the evaluation never fails, and it is SAFE
  exactly when all six components are fresh, the reconciliation is resolved, continuity is complete and
  no thesis is expired or incomplete. A component counted as fresh is available and, for limits up to
  2 to the 40 milliseconds, truly was available at most its limit ago: rounding never admits a stale one.\<close>

theorem resume_safe_iff:
  assumes "st_id st \<noteq> []" "rp_id report \<noteq> []"
    and "\<forall>c \<in> set (freshness_checks st). opt_all (\<lambda>n. 0 < n \<and> n \<le> 2 ^ 40) (cf_stale_after_ms (fst c))"
  shows "\<exists>rd. evaluate_resume_readiness h st report theses as_of continuity = Inr rd \<and>
    rd_status rd \<in> {RSM_SAFE, RSM_BLOCKED} \<and>
    (rd_status rd = RSM_SAFE \<longleftrightarrow>
      (\<forall>c \<in> set (freshness_checks st). resume_fresh (fst c) as_of) \<and> rp_status report = RESOLVED \<and>
      continuity = CS_COMPLETE \<and>
      (\<forall>t \<in> set theses. rt_continuity_status t = CS_COMPLETE \<and> as_of < rt_expires_at t)) \<and>
    (rd_status rd = RSM_SAFE \<longrightarrow> (\<forall>c \<in> set (freshness_checks st). cf_status (fst c) = FS_AVAILABLE \<and>
      (\<exists>av n. cf_available_at (fst c) = Some av \<and> cf_stale_after_ms (fst c) = Some n \<and>
        av \<le> as_of \<and> as_of \<le> av + 1000 * n)))"
proof -
  let ?rs = "dedup (block_reasons st report theses as_of continuity)"
  obtain rd where rd: "evaluate_resume_readiness h st report theses as_of continuity = Inr rd"
      "rd_status rd = (if ?rs \<noteq> [] then RSM_BLOCKED else RSM_SAFE)"
    using assms(1,2) by (auto simp: evaluate_resume_readiness_def mk_resume_readiness_def Let_def validate_ok
        readiness_identity.bind_fresh)
  then have iff: "rd_status rd = RSM_SAFE \<longleftrightarrow> block_reasons st report theses as_of continuity = []" by simp
  show ?thesis
    using rd iff[unfolded block_reasons_empty_iff] assms(3) resume_fresh_within
    by (intro exI[of _ rd]) (auto simp del: dedup_eq_Nil_iff)
qed

definition demo_ready_freshness :: component_freshness where
  "demo_ready_freshness = \<lparr>cf_component = ''replay'', cf_status = FS_AVAILABLE, cf_observed_at = Some 5,
     cf_available_at = Some 5, cf_stale_after_ms = Some 5000, cf_reason = None\<rparr>"

definition demo_ready_state :: shared_state where
  "demo_ready_state = demo_state\<lparr>
     st_market := (st_market demo_state)\<lparr>ms_freshness := demo_ready_freshness\<rparr>,
     st_account := (st_account demo_state)\<lparr>ac_freshness := demo_ready_freshness\<rparr>,
     st_positions := (st_positions demo_state)\<lparr>pb_freshness := demo_ready_freshness\<rparr>,
     st_orders := (st_orders demo_state)\<lparr>ob_freshness := demo_ready_freshness\<rparr>,
     st_exposure := (st_exposure demo_state)\<lparr>ex_freshness := demo_ready_freshness\<rparr>,
     st_broker_constraints := (st_broker_constraints demo_state)\<lparr>bc_freshness := demo_ready_freshness\<rparr>\<rparr>"

definition demo_resolved :: reconciliation_report where
  "demo_resolved = \<lparr>rp_id = ''rr-1'', rp_snapshot_id = ''brs-1'', rp_as_of = 5, rp_available_at = 5,
     rp_status = RESOLVED, rp_findings = [], rp_supersedes = None\<rparr>"

theorem resume_safe_iff_witness:
  "\<exists>rd. evaluate_resume_readiness zero_hash demo_ready_state demo_resolved [] 5 CS_COMPLETE = Inr rd \<and>
     rd_status rd = RSM_SAFE"
proof -
  have checks: "\<forall>c \<in> set (freshness_checks demo_ready_state). fst c = demo_ready_freshness"
    by (simp add: freshness_checks_def demo_ready_state_def)
  have fresh: "resume_fresh demo_ready_freshness 5"
    by (simp add: resume_fresh_def demo_ready_freshness_def age_ms_def total_seconds_def rnd_numeral fle_int_def)
  have ids: "st_id demo_ready_state \<noteq> []" "rp_id demo_resolved \<noteq> []" "rp_status demo_resolved = RESOLVED"
    by (simp_all add: demo_ready_state_def demo_state_def demo_resolved_def)
  have limits: "\<forall>c \<in> set (freshness_checks demo_ready_state).
      opt_all (\<lambda>n. 0 < n \<and> n \<le> 2 ^ 40) (cf_stale_after_ms (fst c))"
    using checks by (simp add: demo_ready_freshness_def)
  from resume_safe_iff[OF ids(1,2) limits, of zero_hash "[]" 5 CS_COMPLETE] checks fresh ids(3)
  show ?thesis by auto
qed

end
