(* ===== verification/PositionManagement.thy ===== *)
theory PositionManagement
  imports Readiness
begin

section \<open>Management of open positions (\<open>position_management/contracts.py\<close>, \<open>evaluator.py\<close>)\<close>

text \<open>
  The decision about an already open position: nothing, hold, move the stop to protect it, or exit. The
  contracts bind the position to the intent, the execution result, the broker link, the thesis and the
  evidence it came from; the evaluation is pure.
\<close>

datatype management_result = MR_NO_ACTION | MR_HOLD_POSITION | MR_PROTECT_POSITION | MR_EXIT_POSITION

datatype missing_evidence_behavior = MEB_NO_ACTION | MEB_HOLD_POSITION

datatype management_reason =
    PR_NO_OPEN_POSITION | PR_THESIS_ACTIVE | PR_THESIS_CONFIRMED | PR_THESIS_WEAKENING
  | PR_THESIS_INVALIDATED | PR_THESIS_EXPIRED | PR_SCENARIO_INVALIDATED | PR_MISSING_THESIS_LINKAGE
  | PR_MISSING_SCENARIO_LINKAGE | PR_MISSING_EXECUTION_PROVENANCE | PR_MISSING_EXACT_EXECUTION_LINKAGE
  | PR_EXECUTION_PROVENANCE_MISMATCH | PR_UNKNOWN_EXECUTION_STATE | PR_RECONCILIATION_UNRESOLVED
  | PR_RUNTIME_NOT_SAFE | PR_ACCOUNT_STATE_NOT_FRESH | PR_POSITION_STATE_NOT_FRESH
  | PR_BROKER_CONSTRAINTS_NOT_FRESH | PR_INTRABAR_CONTINUITY_MISSING | PR_EVIDENCE_MISSING
  | PR_POSITION_TOO_YOUNG_FOR_PROTECTION | PR_BREAK_EVEN_DISABLED | PR_CURRENT_PRICE_UNAVAILABLE
  | PR_BROKER_PROTECTION_CONSTRAINT | PR_ALREADY_PROTECTED | PR_PROTECTION_NOT_RISK_REDUCING
  | PR_BREAK_EVEN_PROTECTION

subsection \<open>Policy\<close>

record management_policy =
  pmp_id :: string
  pmp_version :: string
  pmp_exit_on_invalidated :: bool
  pmp_exit_on_expired :: bool
  pmp_exit_on_scenario_invalidated :: bool
  pmp_protect_on_weakening :: bool
  pmp_break_even_enabled :: bool
  pmp_min_age_seconds :: f64
  pmp_max_change_points :: f64
  pmp_max_component_age :: f64
  pmp_missing_evidence :: missing_evidence_behavior

definition management_policy_rules :: "management_policy \<Rightarrow> (bool \<times> py_error) list" where
  "management_policy_rules p =
     [nonempty ''policy_version'' (pmp_version p),
      field_ok ''minimum_position_age_seconds'' (fle (Fin 0) (pmp_min_age_seconds p)),
      field_ok ''max_protective_sl_change_points'' (flt (Fin 0) (pmp_max_change_points p)),
      field_ok ''max_component_age_seconds'' (flt (Fin 0) (pmp_max_component_age p))]"

definition mk_management_policy ::
  "(management_policy \<Rightarrow> string) \<Rightarrow> management_policy \<Rightarrow> management_policy res" where
  "mk_management_policy h p = res_bind (validate (management_policy_rules p) p)
     (bind_identity ''pmp-'' h (\<lambda>r. r\<lparr>pmp_id := []\<rparr>) pmp_id (\<lambda>i r. r\<lparr>pmp_id := i\<rparr>)
        ''policy_id does not match position-management policy content'')"

definition default_demo_management_policy :: management_policy where
  "default_demo_management_policy = \<lparr>pmp_id = [], pmp_version = ''demo-v1'', pmp_exit_on_invalidated = True,
     pmp_exit_on_expired = True, pmp_exit_on_scenario_invalidated = True, pmp_protect_on_weakening = True,
     pmp_break_even_enabled = True, pmp_min_age_seconds = Fin 60, pmp_max_change_points = Fin 2000,
     pmp_max_component_age = Fin 30, pmp_missing_evidence = MEB_HOLD_POSITION\<rparr>"

interpretation management_policy_identity: content_addressed "''pmp-''" h "\<lambda>r. r\<lparr>pmp_id := []\<rparr>" pmp_id
    "\<lambda>i r. r\<lparr>pmp_id := i\<rparr>" "''policy_id does not match position-management policy content''"
  for h :: "management_policy \<Rightarrow> string"
  by unfold_locales simp_all

subsection \<open>Context\<close>

record management_context =
  pmx_id :: string
  pmx_runtime_state_id :: string
  pmx_as_of :: dt
  pmx_available_at :: dt
  pmx_position :: "position_state option"
  pmx_intent :: "execution_intent option"
  pmx_result :: "execution_result option"
  pmx_link :: "broker_intent_link option"
  pmx_thesis :: "thesis_state option"
  pmx_evidence :: "evidence_bundle option"
  pmx_account :: account_state
  pmx_position_freshness :: component_freshness
  pmx_broker :: broker_constraints
  pmx_reconciliation :: reconciliation_report
  pmx_readiness :: resume_readiness
  pmx_continuity :: continuity_status
  pmx_r_multiple :: "f64 option"
  pmx_mfe_points :: "f64 option"
  pmx_mae_points :: "f64 option"

definition context_state_rules :: "management_context \<Rightarrow> (bool \<times> py_error) list" where
  "context_state_rules c =
     [nonempty ''runtime_state_id'' (pmx_runtime_state_id c),
      field_ok ''unrealized_r_multiple'' (opt_all is_fin (pmx_r_multiple c)),
      field_ok ''mfe_points'' (opt_all nonneg_fin (pmx_mfe_points c)),
      field_ok ''mae_points'' (opt_all nonneg_fin (pmx_mae_points c)),
      rule_ok ''position-management context cannot be available after as_of''
        (pmx_available_at c \<le> pmx_as_of c),
      rule_ok ''position-management context cannot contain future state''
        (\<not> (pmx_as_of c < ac_as_of (pmx_account c) \<or> pmx_as_of c < bc_as_of (pmx_broker c))),
      rule_ok ''position-management context cannot contain future availability''
        (list_all (\<lambda>f. opt_all (\<lambda>t. t \<le> pmx_as_of c) (cf_available_at f))
           [ac_freshness (pmx_account c), pmx_position_freshness c, bc_freshness (pmx_broker c)]),
      rule_ok ''position-management context cannot contain future reconciliation''
        (\<not> (pmx_as_of c < rp_as_of (pmx_reconciliation c)
            \<or> pmx_as_of c < rp_available_at (pmx_reconciliation c))),
      rule_ok ''position-management context cannot contain future readiness''
        (rd_as_of (pmx_readiness c) \<le> pmx_as_of c),
      rule_ok ''readiness references a different runtime state''
        (rd_runtime_state_id (pmx_readiness c) = pmx_runtime_state_id c),
      rule_ok ''readiness references a different reconciliation report''
        (rd_report_id (pmx_readiness c) = rp_id (pmx_reconciliation c))]"

definition expected_side :: "signal \<Rightarrow> position_side" where
  "expected_side s = (if s = SIG_BUY then PS_BUY else PS_SELL)"

definition intent_provenance_rules :: "position_state \<Rightarrow> execution_intent \<Rightarrow> (bool \<times> py_error) list" where
  "intent_provenance_rules q i =
     [rule_ok ''execution intent and position symbols differ'' (xi_symbol i = pos_symbol q),
      rule_ok ''execution intent and position setup linkage differ'' (Some (xi_setup_id i) = pos_setup_id q),
      rule_ok ''execution intent and position thesis linkage differ''
        (Some (xi_thesis_id i) = pos_thesis_id q),
      rule_ok ''execution intent and position directions differ''
        (expected_side (xi_direction i) = pos_side q)]"

definition result_provenance_rules ::
  "management_context \<Rightarrow> execution_intent \<Rightarrow> execution_result \<Rightarrow> (bool \<times> py_error) list" where
  "result_provenance_rules c i r =
     [rule_ok ''execution result references a different intent'' (xe_intent_id r = xi_id i),
      rule_ok ''context cannot contain a future execution result'' (xe_available_at r \<le> pmx_as_of c)]"

definition link_provenance_rules ::
  "position_state \<Rightarrow> execution_intent option \<Rightarrow> broker_intent_link \<Rightarrow> (bool \<times> py_error) list" where
  "link_provenance_rules q intent l =
     [rule_ok ''broker linkage must identify a position'' (bl_object_kind l = BK_POSITION),
      rule_ok ''broker linkage references a different position'' (bl_object_id l = pos_id q),
      rule_ok ''broker linkage references a different execution intent''
        (opt_all (\<lambda>i. bl_intent_id l = xi_id i) intent),
      rule_ok ''broker linkage ticket differs from position''
        (\<not> (bl_ticket l \<noteq> None \<and> pos_broker_ticket q \<noteq> None \<and> bl_ticket l \<noteq> pos_broker_ticket q))]"

definition execution_provenance_rules ::
  "management_context \<Rightarrow> position_state \<Rightarrow> (bool \<times> py_error) list" where
  "execution_provenance_rules c q =
     (case pmx_intent c of None \<Rightarrow> [] | Some i \<Rightarrow> intent_provenance_rules q i)
     @ (case (pmx_result c, pmx_intent c) of
          (Some r, Some i) \<Rightarrow> result_provenance_rules c i r | _ \<Rightarrow> [])
     @ (case pmx_link c of None \<Rightarrow> [] | Some l \<Rightarrow> link_provenance_rules q (pmx_intent c) l)"

definition scenario_present :: "execution_intent \<Rightarrow> thesis_state \<Rightarrow> bool" where
  "scenario_present i t \<longleftrightarrow> list_ex (\<lambda>s. Some (scn_scenario_id s) = xi_scenario_id i) (th_scenarios t)"

definition thesis_provenance_rules ::
  "management_context \<Rightarrow> position_state \<Rightarrow> (bool \<times> py_error) list" where
  "thesis_provenance_rules c q = (case pmx_thesis c of None \<Rightarrow> [] | Some t \<Rightarrow>
     [rule_ok ''thesis does not belong to position'' (Some (th_thesis_id t) = pos_thesis_id q),
      rule_ok ''context cannot contain future thesis state''
        (\<not> (pmx_as_of c < th_updated_at t \<or> pmx_as_of c < th_latest_evidence_available_at t)),
      rule_ok ''execution intent and current thesis differ''
        (opt_all (\<lambda>i. xi_thesis_id i = th_thesis_id t) (pmx_intent c)),
      rule_ok ''execution scenario is absent from current thesis''
        (opt_all (\<lambda>i. xi_scenario_id i \<noteq> None \<longrightarrow> scenario_present i t) (pmx_intent c))])"

definition position_rules :: "management_context \<Rightarrow> (bool \<times> py_error) list" where
  "position_rules c = (case pmx_position c of
     None \<Rightarrow>
       [rule_ok ''context without a position cannot contain position provenance''
          (pmx_intent c = None \<and> pmx_result c = None \<and> pmx_link c = None \<and> pmx_thesis c = None
           \<and> pmx_evidence c = None)]
   | Some q \<Rightarrow>
       [rule_ok ''position cannot open after context as_of'' (pos_opened_at q \<le> pmx_as_of c),
        rule_ok ''position and broker symbols differ'' (pos_symbol q = bc_symbol (pmx_broker c))]
       @ execution_provenance_rules c q @ thesis_provenance_rules c q
       @ (case pmx_evidence c of None \<Rightarrow> [] | Some b \<Rightarrow>
            [rule_ok ''evidence references a different runtime state''
               (eb_runtime_state_id b = pmx_runtime_state_id c),
             rule_ok ''context cannot contain future evidence'' (eb_as_of b \<le> pmx_as_of c)]))"

definition mk_management_context ::
  "(management_context \<Rightarrow> string) \<Rightarrow> management_context \<Rightarrow> management_context res" where
  "mk_management_context h c = res_bind (validate (context_state_rules c @ position_rules c) c)
     (bind_identity ''pmc-'' h (\<lambda>r. r\<lparr>pmx_id := []\<rparr>) pmx_id (\<lambda>i r. r\<lparr>pmx_id := i\<rparr>)
        ''context_id does not match position-management context content'')"

interpretation management_context_identity: content_addressed "''pmc-''" h "\<lambda>r. r\<lparr>pmx_id := []\<rparr>" pmx_id
    "\<lambda>i r. r\<lparr>pmx_id := i\<rparr>" "''context_id does not match position-management context content''"
  for h :: "management_context \<Rightarrow> string"
  by unfold_locales simp_all

subsection \<open>Outcome\<close>

record management_outcome =
  pmo_id :: string
  pmo_policy_id :: string
  pmo_context_id :: string
  pmo_position_id :: "string option"
  pmo_intent_id :: "string option"
  pmo_result_id :: "string option"
  pmo_setup_id :: "string option"
  pmo_thesis_id :: "string option"
  pmo_scenario_id :: "string option"
  pmo_lifecycle :: "hypothesis_status option"
  pmo_side :: "position_side option"
  pmo_entry_price :: "f64 option"
  pmo_stop_loss :: "f64 option"
  pmo_result :: management_result
  pmo_reasons :: "management_reason list"
  pmo_eligible :: bool
  pmo_requested_stop :: "f64 option"
  pmo_as_of :: dt
  pmo_available_at :: dt
  pmo_rationale :: string

definition actionable_result :: "management_result \<Rightarrow> bool" where
  "actionable_result r \<longleftrightarrow> r \<in> {MR_PROTECT_POSITION, MR_EXIT_POSITION}"

definition protection_rules :: "management_outcome \<Rightarrow> (bool \<times> py_error) list" where
  "protection_rules o' = (case (pmo_requested_stop o', pmo_side o') of
     (Some stop, Some side) \<Rightarrow>
       (case pmo_stop_loss o' of None \<Rightarrow> [] | Some old \<Rightarrow>
          [rule_ok ''protective stop cannot increase risk''
             (\<not> ((side = PS_BUY \<and> flt stop old \<or> side = PS_SELL \<and> flt old stop)
                 \<and> \<not> lots_close stop old))])
   | _ \<Rightarrow> [rule_ok ''PROTECT_POSITION requires a stop and position side'' False])"

definition management_outcome_rules :: "management_outcome \<Rightarrow> (bool \<times> py_error) list" where
  "management_outcome_rules o' =
     [nonempty ''policy_id'' (pmo_policy_id o'),
      nonempty ''position_management_context_id'' (pmo_context_id o'),
      field_ok ''entry_price'' (opt_all pos_fin (pmo_entry_price o')),
      field_ok ''existing_stop_loss'' (opt_all pos_fin (pmo_stop_loss o')),
      field_ok ''reason_codes'' (pmo_reasons o' \<noteq> []),
      field_ok ''requested_protective_stop_loss'' (opt_all pos_fin (pmo_requested_stop o')),
      field_ok ''rationale'' (1 \<le> length (pmo_rationale o') \<and> length (pmo_rationale o') \<le> 500),
      rule_ok ''position-management outcome cannot be available after as_of''
        (pmo_available_at o' \<le> pmo_as_of o'),
      rule_ok ''only PROTECT_POSITION or EXIT_POSITION may request a position action''
        (pmo_eligible o' = actionable_result (pmo_result o')),
      rule_ok ''position-management reason codes must be unique'' (distinct (pmo_reasons o'))]
     @ (if pmo_result o' = MR_PROTECT_POSITION then protection_rules o'
        else [rule_ok ''only PROTECT_POSITION may request a protective stop'' (pmo_requested_stop o' = None)])
     @ [rule_ok ''position action requires complete position and execution provenance''
          (\<not> (actionable_result (pmo_result o') \<and>
              (pmo_position_id o' = None \<or> pmo_intent_id o' = None \<or> pmo_result_id o' = None
               \<or> pmo_setup_id o' = None \<or> pmo_thesis_id o' = None \<or> pmo_side o' = None
               \<or> pmo_entry_price o' = None)))]"

definition mk_management_outcome ::
  "(management_outcome \<Rightarrow> string) \<Rightarrow> management_outcome \<Rightarrow> management_outcome res" where
  "mk_management_outcome h o' = res_bind (validate (management_outcome_rules o') o')
     (bind_identity ''pmo-'' h (\<lambda>r. r\<lparr>pmo_id := []\<rparr>) pmo_id (\<lambda>i r. r\<lparr>pmo_id := i\<rparr>)
        ''outcome_id does not match position-management outcome content'')"

interpretation management_outcome_identity: content_addressed "''pmo-''" h "\<lambda>r. r\<lparr>pmo_id := []\<rparr>" pmo_id
    "\<lambda>i r. r\<lparr>pmo_id := i\<rparr>" "''outcome_id does not match position-management outcome content''"
  for h :: "management_outcome \<Rightarrow> string"
  by unfold_locales simp_all

subsection \<open>Evaluation\<close>

definition outcome_of ::
  "management_context \<Rightarrow> management_policy \<Rightarrow> management_result \<Rightarrow> management_reason list \<Rightarrow> string
     \<Rightarrow> f64 option \<Rightarrow> management_outcome" where
  "outcome_of c p result reasons rationale stop =
     \<lparr>pmo_id = [], pmo_policy_id = pmp_id p, pmo_context_id = pmx_id c,
      pmo_position_id = map_option pos_id (pmx_position c), pmo_intent_id = map_option xi_id (pmx_intent c),
      pmo_result_id = map_option xe_id (pmx_result c),
      pmo_setup_id = (case pmx_intent c of Some i \<Rightarrow> Some (xi_setup_id i)
        | None \<Rightarrow> Option.bind (pmx_position c) pos_setup_id),
      pmo_thesis_id = (case pmx_intent c of Some i \<Rightarrow> Some (xi_thesis_id i)
        | None \<Rightarrow> Option.bind (pmx_position c) pos_thesis_id),
      pmo_scenario_id = Option.bind (pmx_intent c) xi_scenario_id,
      pmo_lifecycle = map_option th_hypothesis_status (pmx_thesis c),
      pmo_side = map_option pos_side (pmx_position c),
      pmo_entry_price = map_option pos_open_price (pmx_position c),
      pmo_stop_loss = Option.bind (pmx_position c) pos_stop_loss, pmo_result = result,
      pmo_reasons = reasons, pmo_eligible = actionable_result result, pmo_requested_stop = stop,
      pmo_as_of = pmx_as_of c, pmo_available_at = pmx_available_at c, pmo_rationale = rationale\<rparr>"

definition pm_outcome ::
  "(management_outcome \<Rightarrow> string) \<Rightarrow> management_context \<Rightarrow> management_policy \<Rightarrow> management_result
     \<Rightarrow> management_reason list \<Rightarrow> string \<Rightarrow> f64 option \<Rightarrow> management_outcome res" where
  "pm_outcome h c p result reasons rationale stop =
     mk_management_outcome h (outcome_of c p result reasons rationale stop)"

definition pm_hold ::
  "(management_outcome \<Rightarrow> string) \<Rightarrow> management_context \<Rightarrow> management_policy \<Rightarrow> management_reason
     \<Rightarrow> management_outcome res" where
  "pm_hold h c p reason = pm_outcome h c p MR_HOLD_POSITION [reason]
     ''The open position remains unchanged and no modification intent is generated.'' None"

definition pm_fresh :: "component_freshness \<Rightarrow> dt \<Rightarrow> dt \<Rightarrow> management_policy \<Rightarrow> bool" where
  "pm_fresh f state_as_of now p =
     (if cf_status f \<noteq> FS_AVAILABLE then False
      else case cf_available_at f of None \<Rightarrow> False | Some av \<Rightarrow>
        fle (Fin 0) (total_seconds (now - av)) \<and> fle (total_seconds (now - av)) (pmp_max_component_age p)
        \<and> fle (Fin 0) (total_seconds (now - state_as_of))
        \<and> fle (total_seconds (now - state_as_of)) (pmp_max_component_age p))"

definition exact_provenance :: "position_state \<Rightarrow> execution_intent \<Rightarrow> execution_result \<Rightarrow> broker_intent_link \<Rightarrow> bool" where
  "exact_provenance q i r l \<longleftrightarrow> bl_intent_id l = xi_id i \<and> xi_id i = xe_intent_id r \<and>
     bl_object_id l = pos_id q \<and>
     (bl_ticket l = None \<or> pos_broker_ticket q = None \<or> bl_ticket l = pos_broker_ticket q) \<and>
     bl_transport_id l = xe_transport_id r"

definition matched_finding :: "reconciliation_report \<Rightarrow> execution_intent \<Rightarrow> position_state \<Rightarrow> bool" where
  "matched_finding r i q \<longleftrightarrow> list_ex (\<lambda>f. fd_kind f = RCK_MATCHED \<and> fd_intent_id f = Some (xi_id i)
     \<and> fd_object_id f = Some (pos_id q)) (rp_findings r)"

definition linkage_reasons :: "management_context \<Rightarrow> position_state \<Rightarrow> management_reason list" where
  "linkage_reasons c q = (case (pmx_intent c, pmx_link c, pmx_result c) of
     (Some i, Some l, Some r) \<Rightarrow>
       (if \<not> exact_provenance q i r l \<or> \<not> matched_finding (pmx_reconciliation c) i q
        then [PR_EXECUTION_PROVENANCE_MISMATCH] else [])
       @ (if xi_scenario_id i \<noteq> None \<and> \<not> opt_some (scenario_present i) (pmx_thesis c)
          then [PR_MISSING_SCENARIO_LINKAGE] else [])
   | _ \<Rightarrow> [])"

definition pm_state_reasons :: "management_context \<Rightarrow> management_policy \<Rightarrow> management_reason list" where
  "pm_state_reasons c p =
     (if rd_status (pmx_readiness c) \<noteq> RSM_SAFE then [PR_RUNTIME_NOT_SAFE] else [])
     @ (if rp_status (pmx_reconciliation c) \<noteq> RESOLVED then [PR_RECONCILIATION_UNRESOLVED] else [])
     @ (if \<not> pm_fresh (ac_freshness (pmx_account c)) (ac_as_of (pmx_account c)) (pmx_as_of c) p
        then [PR_ACCOUNT_STATE_NOT_FRESH] else [])
     @ (if \<not> pm_fresh (pmx_position_freshness c) (pmx_as_of c) (pmx_as_of c) p
        then [PR_POSITION_STATE_NOT_FRESH] else [])
     @ (if \<not> pm_fresh (bc_freshness (pmx_broker c)) (bc_as_of (pmx_broker c)) (pmx_as_of c) p
        then [PR_BROKER_CONSTRAINTS_NOT_FRESH] else [])"

definition pm_provenance_reasons :: "management_context \<Rightarrow> position_state \<Rightarrow> management_reason list" where
  "pm_provenance_reasons c q =
     (if pmx_continuity c \<noteq> CS_COMPLETE
         \<or> opt_some (\<lambda>t. th_continuity_status t \<noteq> CS_COMPLETE) (pmx_thesis c)
      then [PR_INTRABAR_CONTINUITY_MISSING] else [])
     @ (if pmx_thesis c = None \<or> pos_thesis_id q = None then [PR_MISSING_THESIS_LINKAGE] else [])
     @ (if pmx_intent c = None \<or> pmx_result c = None then [PR_MISSING_EXECUTION_PROVENANCE] else [])
     @ (if pmx_link c = None then [PR_MISSING_EXACT_EXECUTION_LINKAGE] else [])
     @ (if opt_some (\<lambda>r. xe_status r = XS_UNKNOWN) (pmx_result c) then [PR_UNKNOWN_EXECUTION_STATE] else [])"

definition pm_safety_reasons ::
  "management_context \<Rightarrow> management_policy \<Rightarrow> position_state \<Rightarrow> management_reason list" where
  "pm_safety_reasons c p q =
     dedup (pm_state_reasons c p @ pm_provenance_reasons c q @ linkage_reasons c q)"

definition already_protected :: "position_state \<Rightarrow> bool" where
  "already_protected q \<longleftrightarrow> opt_some (\<lambda>old.
     pos_side q = PS_BUY \<and> fle (pos_open_price q) old \<or> pos_side q = PS_SELL \<and> fle old (pos_open_price q))
     (pos_stop_loss q)"

definition protective_candidate :: "position_state \<Rightarrow> f64 \<Rightarrow> f64" where
  "protective_candidate q max_change = (case pos_stop_loss q of
     None \<Rightarrow> pos_open_price q
   | Some old \<Rightarrow>
       (if pos_side q = PS_BUY then pymin (pos_open_price q) (fadd old max_change)
        else pymax (pos_open_price q) (fsub old max_change)))"

definition not_risk_reducing :: "position_state \<Rightarrow> f64 \<Rightarrow> bool" where
  "not_risk_reducing q stop \<longleftrightarrow> opt_some (\<lambda>old.
     pos_side q = PS_BUY \<and> fle stop old \<or> pos_side q = PS_SELL \<and> fle old stop) (pos_stop_loss q)"

definition broker_valid_stop :: "position_state \<Rightarrow> f64 \<Rightarrow> f64 \<Rightarrow> f64 \<Rightarrow> bool" where
  "broker_valid_stop q current distance stop \<longleftrightarrow>
     pos_side q = PS_BUY \<and> fle stop (fsub current distance)
     \<or> pos_side q = PS_SELL \<and> fle (fadd current distance) stop"

definition protect_at ::
  "(management_outcome \<Rightarrow> string) \<Rightarrow> management_context \<Rightarrow> management_policy \<Rightarrow> position_state
     \<Rightarrow> f64 \<times> f64 \<times> f64 \<Rightarrow> f64 \<Rightarrow> management_outcome res" where
  "protect_at h c p q levels current = (case levels of (point, stops, freeze) \<Rightarrow>
     if already_protected q then pm_hold h c p PR_ALREADY_PROTECTED
     else let stop = protective_candidate q (fmul (pmp_max_change_points p) point) in
       if not_risk_reducing q stop then pm_hold h c p PR_PROTECTION_NOT_RISK_REDUCING
       else if \<not> broker_valid_stop q current (fmul (pymax stops freeze) point) stop
         then pm_hold h c p PR_BROKER_PROTECTION_CONSTRAINT
       else pm_outcome h c p MR_PROTECT_POSITION [PR_BREAK_EVEN_PROTECTION]
         ''A monotonic broker-valid protective stop is requested without changing the thesis.'' (Some stop))"

definition evaluate_protection ::
  "(management_outcome \<Rightarrow> string) \<Rightarrow> management_context \<Rightarrow> management_policy \<Rightarrow> position_state
     \<Rightarrow> management_outcome res" where
  "evaluate_protection h c p q =
     (if \<not> pmp_protect_on_weakening p then pm_hold h c p PR_THESIS_WEAKENING
      else if \<not> pmp_break_even_enabled p then pm_hold h c p PR_BREAK_EVEN_DISABLED
      else if flt (total_seconds (pmx_as_of c - pos_opened_at q)) (pmp_min_age_seconds p)
        then pm_hold h c p PR_POSITION_TOO_YOUNG_FOR_PROTECTION
      else case (bc_trade_allowed (pmx_broker c), bc_point_size (pmx_broker c),
          bc_stops_level_points (pmx_broker c), bc_freeze_level_points (pmx_broker c)) of
        (Some True, Some point, Some stops, Some freeze) \<Rightarrow>
          (case pos_current_price q of
             None \<Rightarrow> pm_outcome h c p MR_NO_ACTION [PR_CURRENT_PRICE_UNAVAILABLE]
               ''Current price is unavailable, so no protective change can be assessed.'' None
           | Some current \<Rightarrow> protect_at h c p q (point, stops, freeze) current)
      | _ \<Rightarrow> pm_hold h c p PR_BROKER_PROTECTION_CONSTRAINT)"

definition origin_scenario :: "thesis_state \<Rightarrow> execution_intent \<Rightarrow> scenario_state option" where
  "origin_scenario t i = find (\<lambda>s. Some (scn_scenario_id s) = xi_scenario_id i) (th_scenarios t)"

definition manage_open ::
  "(management_outcome \<Rightarrow> string) \<Rightarrow> management_context \<Rightarrow> management_policy \<Rightarrow> position_state
     \<Rightarrow> thesis_state \<Rightarrow> execution_intent \<Rightarrow> management_outcome res" where
  "manage_open h c p q t i =
     (if th_hypothesis_status t = HS_INVALIDATED then
        (if pmp_exit_on_invalidated p
         then pm_outcome h c p MR_EXIT_POSITION [PR_THESIS_INVALIDATED]
           ''The originating thesis is invalidated.'' None
         else pm_hold h c p PR_THESIS_INVALIDATED)
      else if th_hypothesis_status t = HS_EXPIRED then
        (if pmp_exit_on_expired p
         then pm_outcome h c p MR_EXIT_POSITION [PR_THESIS_EXPIRED]
           ''The originating thesis expired under the configured policy.'' None
         else pm_hold h c p PR_THESIS_EXPIRED)
      else if opt_some (\<lambda>s. scn_status s = SS_INVALIDATED) (origin_scenario t i) then
        (if pmp_exit_on_scenario_invalidated p
         then pm_outcome h c p MR_EXIT_POSITION [PR_SCENARIO_INVALIDATED]
           ''The position's exact originating scenario is invalidated.'' None
         else pm_hold h c p PR_SCENARIO_INVALIDATED)
      else if th_hypothesis_status t = HS_WEAKENING then evaluate_protection h c p q
      else if th_hypothesis_status t = HS_CONFIRMED then pm_hold h c p PR_THESIS_CONFIRMED
      else pm_hold h c p PR_THESIS_ACTIVE)"

definition evaluate_position ::
  "(management_outcome \<Rightarrow> string) \<Rightarrow> management_context \<Rightarrow> management_policy \<Rightarrow> management_outcome res" where
  "evaluate_position h c p = (case pmx_position c of
     None \<Rightarrow> pm_outcome h c p MR_NO_ACTION [PR_NO_OPEN_POSITION]
       ''No authoritative open position is available for management.'' None
   | Some q \<Rightarrow>
       if pm_safety_reasons c p q \<noteq> [] then
         pm_outcome h c p MR_NO_ACTION (pm_safety_reasons c p q)
           ''Position management is blocked until authoritative state and provenance are safe.'' None
       else if pmx_evidence c = None then
         (if pmp_missing_evidence p = MEB_NO_ACTION
          then pm_outcome h c p MR_NO_ACTION [PR_EVIDENCE_MISSING]
            ''Current evidence is absent and policy requires no autonomous position action.'' None
          else pm_hold h c p PR_EVIDENCE_MISSING)
       else (case (pmx_thesis c, pmx_intent c) of
           (Some t, Some i) \<Rightarrow> manage_open h c p q t i
         | _ \<Rightarrow> Inl AssertionError))"

subsection \<open>What the safety reasons stand for\<close>

text \<open>The specification of a position that may be acted on: the runtime is safe, its state is fresh and complete,
  and one intent, result, broker link and thesis belong to exactly this position.\<close>

definition state_safe :: "management_context \<Rightarrow> management_policy \<Rightarrow> bool" where
  "state_safe c p \<longleftrightarrow> rd_status (pmx_readiness c) = RSM_SAFE \<and> rp_status (pmx_reconciliation c) = RESOLVED \<and>
     pm_fresh (ac_freshness (pmx_account c)) (ac_as_of (pmx_account c)) (pmx_as_of c) p \<and>
     pm_fresh (pmx_position_freshness c) (pmx_as_of c) (pmx_as_of c) p \<and>
     pm_fresh (bc_freshness (pmx_broker c)) (bc_as_of (pmx_broker c)) (pmx_as_of c) p"

definition provenance_exact ::
  "management_context \<Rightarrow> position_state \<Rightarrow> execution_intent \<Rightarrow> execution_result \<Rightarrow> broker_intent_link
     \<Rightarrow> thesis_state \<Rightarrow> bool" where
  "provenance_exact c q i r l t \<longleftrightarrow> pmx_intent c = Some i \<and> pmx_result c = Some r \<and> pmx_link c = Some l \<and>
     pmx_thesis c = Some t \<and> pos_thesis_id q \<noteq> None \<and> pmx_continuity c = CS_COMPLETE \<and>
     th_continuity_status t = CS_COMPLETE \<and> xe_status r \<noteq> XS_UNKNOWN \<and> exact_provenance q i r l \<and>
     matched_finding (pmx_reconciliation c) i q \<and> (xi_scenario_id i \<noteq> None \<longrightarrow> scenario_present i t)"

lemma safety_reasons_Nil_iff:
  "pm_safety_reasons c p q = [] \<longleftrightarrow> state_safe c p \<and> (\<exists>i r l t. provenance_exact c q i r l t)"
proof -
  have state: "pm_state_reasons c p = [] \<longleftrightarrow> state_safe c p"
    by (simp add: pm_state_reasons_def state_safe_def)
  have prov: "pm_provenance_reasons c q @ linkage_reasons c q = [] \<longleftrightarrow> (\<exists>i r l t. provenance_exact c q i r l t)"
  proof (cases "pmx_intent c = None \<or> pmx_result c = None \<or> pmx_link c = None \<or> pmx_thesis c = None")
    case True
    then show ?thesis by (auto simp: pm_provenance_reasons_def provenance_exact_def)
  next
    case False
    then obtain i r l t where "pmx_intent c = Some i" "pmx_result c = Some r" "pmx_link c = Some l"
        "pmx_thesis c = Some t" by auto
    then show ?thesis by (auto simp: pm_provenance_reasons_def linkage_reasons_def provenance_exact_def)
  qed
  show ?thesis unfolding pm_safety_reasons_def dedup_eq_Nil_iff append_is_Nil_conv state prov[unfolded append_is_Nil_conv] by blast
qed

text \<open>Every outcome is the requested one with its identifier filled in.\<close>

lemma pm_outcome_fields:
  "pm_outcome h c p result reasons rationale stop = Inr o' \<Longrightarrow>
     (\<exists>i. o' = (outcome_of c p result reasons rationale stop)\<lparr>pmo_id := i\<rparr>)"
  by (auto simp: pm_outcome_def mk_management_outcome_def res_bind_Inr_iff validate_Inr_iff
      management_outcome_identity.bind_ok_iff)

lemma outcome_eligible [simp]:
  "pmo_eligible (outcome_of c p result reasons rationale stop) = actionable_result result"
  "pmo_result (outcome_of c p result reasons rationale stop) = result"
  "pmo_requested_stop (outcome_of c p result reasons rationale stop) = stop"
  by (simp_all add: outcome_of_def)

lemma actionable_simps [simp]: "actionable_result MR_PROTECT_POSITION" "actionable_result MR_EXIT_POSITION"
    "\<not> actionable_result MR_HOLD_POSITION" "\<not> actionable_result MR_NO_ACTION"
  by (simp_all add: actionable_result_def)

lemma not_actionable:
  "pm_outcome h c p MR_NO_ACTION rs rat stop = Inr o' \<Longrightarrow> \<not> actionable_result (pmo_result o')"
  "pm_hold h c p reason = Inr o' \<Longrightarrow> \<not> actionable_result (pmo_result o')"
  by (auto simp: pm_hold_def dest!: pm_outcome_fields)

lemma acted_on:
  "pm_outcome h c p MR_EXIT_POSITION rs rat stop = Inr o' \<Longrightarrow> pmo_result o' = MR_EXIT_POSITION \<and> pmo_requested_stop o' = stop"
  "pm_outcome h c p MR_PROTECT_POSITION rs rat stop = Inr o' \<Longrightarrow>
     pmo_result o' = MR_PROTECT_POSITION \<and> pmo_requested_stop o' = stop"
  by (auto dest!: pm_outcome_fields)

lemmas outcome_kinds = not_actionable acted_on

text \<open>When an exit is due: the thesis, or exactly the scenario the position came from, has ended.\<close>

definition exit_due :: "management_policy \<Rightarrow> thesis_state \<Rightarrow> execution_intent \<Rightarrow> bool" where
  "exit_due p t i \<longleftrightarrow>
     th_hypothesis_status t = HS_INVALIDATED \<and> pmp_exit_on_invalidated p \<or>
     th_hypothesis_status t = HS_EXPIRED \<and> pmp_exit_on_expired p \<or>
     th_hypothesis_status t \<notin> {HS_INVALIDATED, HS_EXPIRED} \<and> pmp_exit_on_scenario_invalidated p \<and>
       opt_some (\<lambda>s. scn_status s = SS_INVALIDATED) (origin_scenario t i)"

text \<open>When a stop may be moved, and where to.\<close>

definition protection_due ::
  "management_context \<Rightarrow> management_policy \<Rightarrow> position_state \<Rightarrow> f64 \<Rightarrow> bool" where
  "protection_due c p q stop \<longleftrightarrow> pmp_protect_on_weakening p \<and> pmp_break_even_enabled p \<and>
     \<not> flt (total_seconds (pmx_as_of c - pos_opened_at q)) (pmp_min_age_seconds p) \<and>
     bc_trade_allowed (pmx_broker c) = Some True \<and>
     (\<exists>point stops freeze current. bc_point_size (pmx_broker c) = Some point \<and>
        bc_stops_level_points (pmx_broker c) = Some stops \<and> bc_freeze_level_points (pmx_broker c) = Some freeze \<and>
        pos_current_price q = Some current \<and> \<not> already_protected q \<and>
        stop = protective_candidate q (fmul (pmp_max_change_points p) point) \<and> \<not> not_risk_reducing q stop \<and>
        broker_valid_stop q current (fmul (pymax stops freeze) point) stop)"

lemma evaluate_protection_acts:
  "evaluate_protection h c p q = Inr o' \<Longrightarrow> actionable_result (pmo_result o') \<Longrightarrow>
     pmo_result o' = MR_PROTECT_POSITION \<and> (\<exists>stop. pmo_requested_stop o' = Some stop \<and> protection_due c p q stop)"
  by (auto simp: evaluate_protection_def protect_at_def protection_due_def Let_def
      dest: outcome_kinds split: if_split_asm option.split_asm bool.split_asm)

lemma manage_open_acts:
  assumes "manage_open h c p q t i = Inr o'" "actionable_result (pmo_result o')"
  shows "pmo_result o' = MR_EXIT_POSITION \<and> pmo_requested_stop o' = None \<and> exit_due p t i \<or>
    pmo_result o' = MR_PROTECT_POSITION \<and> \<not> exit_due p t i \<and> th_hypothesis_status t = HS_WEAKENING \<and>
    (\<exists>stop. pmo_requested_stop o' = Some stop \<and> protection_due c p q stop)"
proof (cases "th_hypothesis_status t = HS_WEAKENING \<and> \<not> opt_some (\<lambda>s. scn_status s = SS_INVALIDATED) (origin_scenario t i)")
  case True
  then have "evaluate_protection h c p q = Inr o'" using assms(1) by (simp add: manage_open_def)
  with evaluate_protection_acts[OF this assms(2)] True show ?thesis by (simp add: exit_due_def)
next
  case False
  with assms show ?thesis
    by (auto simp: manage_open_def exit_due_def dest: outcome_kinds split: if_split_asm)
qed

lemma evaluate_position_acts:
  assumes "evaluate_position h c p = Inr o'" "actionable_result (pmo_result o')"
  obtains q i r l t where "pmx_position c = Some q" "state_safe c p" "provenance_exact c q i r l t"
    "pmx_evidence c \<noteq> None" "manage_open h c p q t i = Inr o'"
proof -
  obtain q where q: "pmx_position c = Some q"
    using assms by (cases "pmx_position c") (auto simp: evaluate_position_def dest: outcome_kinds)
  have safe: "pm_safety_reasons c p q = []" "pmx_evidence c \<noteq> None"
    using assms q by (auto simp: evaluate_position_def dest: outcome_kinds split: if_split_asm)
  then obtain i r l t where x: "provenance_exact c q i r l t" "state_safe c p"
    unfolding safety_reasons_Nil_iff by blast
  then have "manage_open h c p q t i = Inr o'"
    using assms(1) q safe by (simp add: evaluate_position_def provenance_exact_def)
  with that q x safe(2) show ?thesis by blast
qed

lemma exit_due_exits:
  "exit_due p t i \<Longrightarrow> \<exists>rs rat. manage_open h c p q t i = pm_outcome h c p MR_EXIT_POSITION rs rat None"
  by (auto simp: exit_due_def manage_open_def)

text \<open>The protective stop lies strictly on the safe side of the old one, and never beyond the entry.\<close>

lemma protective_stop:
  assumes "pos_fin (pos_open_price q)" "opt_all pos_fin (pos_stop_loss q)" "\<not> already_protected q"
    and "\<not> not_risk_reducing q (protective_candidate q m)" "is_f64 m"
  defines "stop \<equiv> protective_candidate q m"
  shows "pos_fin stop"
    and "pos_side q = PS_BUY \<Longrightarrow> fle stop (pos_open_price q) \<and>
      opt_all (\<lambda>old. flt old stop \<and> (m = NaN \<or> fle stop (fadd old m))) (pos_stop_loss q)"
    and "pos_side q = PS_SELL \<Longrightarrow> fle (pos_open_price q) stop \<and>
      opt_all (\<lambda>old. flt stop old \<and> (m = NaN \<or> fle (fsub old m) stop)) (pos_stop_loss q)"
proof -
  obtain e where e: "pos_open_price q = Fin e" "is_f64 (Fin e)" "0 < e"
    using assms(1) by (auto elim: pos_finE)
  consider "pos_stop_loss q = None"
    | s where "pos_stop_loss q = Some (Fin s)" "is_f64 (Fin s)" "0 < s"
    using assms(2) by (cases "pos_stop_loss q") (auto elim: pos_finE)
  then have "pos_fin stop \<and> (pos_side q = PS_BUY \<longrightarrow> fle stop (pos_open_price q) \<and>
      opt_all (\<lambda>old. flt old stop \<and> (m = NaN \<or> fle stop (fadd old m))) (pos_stop_loss q)) \<and>
      (pos_side q = PS_SELL \<longrightarrow> fle (pos_open_price q) stop \<and>
      opt_all (\<lambda>old. flt stop old \<and> (m = NaN \<or> fle (fsub old m) stop)) (pos_stop_loss q))"
  proof cases
    case 1
    then show ?thesis using e by (simp add: stop_def protective_candidate_def)
  next
    case (2 s)
    have sum: "m = NaN \<or> fadd (Fin s) m \<noteq> NaN" "m = NaN \<or> fsub (Fin s) m \<noteq> NaN"
      by (cases m; simp add: fsub_def)+
    have f64: "is_f64 (fadd (Fin s) m)" "is_f64 (fsub (Fin s) m)" using 2 assms(5) by simp_all
    show ?thesis
    proof (cases "pos_side q")
      case PS_BUY
      then show ?thesis using 2 e assms(3,4) sum(1) f64(1)
        by (cases "fadd (Fin s) m")
          (auto simp: stop_def protective_candidate_def pymin_def already_protected_def not_risk_reducing_def
            split: if_split_asm)
    next
      case PS_SELL
      then show ?thesis using 2 e assms(3,4) sum(2) f64(2)
        by (cases "fsub (Fin s) m")
          (auto simp: stop_def protective_candidate_def pymax_def already_protected_def not_risk_reducing_def
            split: if_split_asm)
    qed
  qed
  then show "pos_fin stop"
    and "pos_side q = PS_BUY \<Longrightarrow> fle stop (pos_open_price q) \<and>
      opt_all (\<lambda>old. flt old stop \<and> (m = NaN \<or> fle stop (fadd old m))) (pos_stop_loss q)"
    and "pos_side q = PS_SELL \<Longrightarrow> fle (pos_open_price q) stop \<and>
      opt_all (\<lambda>old. flt stop old \<and> (m = NaN \<or> fle (fsub old m) stop)) (pos_stop_loss q)"
    by simp_all
qed

subsection \<open>The evaluation is total\<close>

definition ready_to_manage :: "management_context \<Rightarrow> management_policy \<Rightarrow> bool" where
  "ready_to_manage c p \<longleftrightarrow> pmx_available_at c \<le> pmx_as_of c \<and> pmx_id c \<noteq> [] \<and> pmp_id p \<noteq> [] \<and>
     opt_all (\<lambda>q. pos_fin (pos_open_price q) \<and> opt_all pos_fin (pos_stop_loss q)) (pmx_position c)"

lemma validated_ready:
  assumes "mk_management_context hc c = Inr c" "mk_management_policy hp p = Inr p"
    and "opt_all (\<lambda>q. mk_position_state hq q = Inr q) (pmx_position c)"
  shows "ready_to_manage c p"
proof -
  have "pmx_available_at c \<le> pmx_as_of c"
    using assms(1) by (auto simp: mk_management_context_def res_bind_Inr_iff validate_Inr_iff context_state_rules_def)
  moreover have "pmx_id c = ''pmc-'' @ take 20 (hc (c\<lparr>pmx_id := []\<rparr>))"
    using assms(1) by (auto simp: mk_management_context_def res_bind_Inr_iff validate_Inr_iff content_id_def
        dest!: management_context_identity.bind_bound[unfolded management_context_identity.bound_def])
  moreover have "pmp_id p = ''pmp-'' @ take 20 (hp (p\<lparr>pmp_id := []\<rparr>))"
    using assms(2) by (auto simp: mk_management_policy_def res_bind_Inr_iff validate_Inr_iff content_id_def
        dest!: management_policy_identity.bind_bound[unfolded management_policy_identity.bound_def])
  moreover have "opt_all (\<lambda>q. pos_fin (pos_open_price q) \<and> opt_all pos_fin (pos_stop_loss q)) (pmx_position c)"
    using assms(3) by (cases "pmx_position c") (auto simp: mk_position_state_def res_bind_Inr_iff validate_Inr_iff)
  ultimately show ?thesis by (simp add: ready_to_manage_def)
qed

text \<open>An outcome is accepted when its reasons are distinct and its action is backed by a complete provenance.\<close>

lemma pm_outcome_ok:
  assumes "ready_to_manage c p" "reasons \<noteq> []" "distinct reasons" "rationale \<noteq> []" "length rationale \<le> 500"
    and "actionable_result result \<Longrightarrow> pmx_position c \<noteq> None \<and> pmx_intent c \<noteq> None \<and> pmx_result c \<noteq> None"
    and "result \<noteq> MR_PROTECT_POSITION \<Longrightarrow> stop = None" "opt_all pos_fin stop"
    and "result = MR_PROTECT_POSITION \<Longrightarrow> list_all fst (protection_rules (outcome_of c p result reasons rationale stop))"
  shows "\<exists>o'. pm_outcome h c p result reasons rationale stop = Inr o'"
proof -
  have "list_all fst (management_outcome_rules (outcome_of c p result reasons rationale stop))"
    using assms
    by (cases "pmx_position c"; cases "pmx_intent c"; cases "pmx_result c"; cases "result = MR_PROTECT_POSITION")
      (auto simp: management_outcome_rules_def outcome_of_def ready_to_manage_def Suc_le_eq)
  moreover have "pmo_id (outcome_of c p result reasons rationale stop) = []" by (simp add: outcome_of_def)
  ultimately show ?thesis
    by (simp add: pm_outcome_def mk_management_outcome_def validate_ok management_outcome_identity.bind_fresh)
qed

lemma pm_hold_ok: "ready_to_manage c p \<Longrightarrow> \<exists>o'. pm_hold h c p reason = Inr o'"
  unfolding pm_hold_def by (rule pm_outcome_ok) simp_all

lemma evaluate_protection_ok:
  assumes "ready_to_manage c p" "pmx_position c = Some q" "pmx_intent c \<noteq> None" "pmx_result c \<noteq> None"
  shows "\<exists>o'. evaluate_protection h c p q = Inr o'"
proof -
  have q: "pos_fin (pos_open_price q)" "opt_all pos_fin (pos_stop_loss q)"
    using assms(1,2) by (simp_all add: ready_to_manage_def)
  have protect: "\<exists>o'. pm_outcome h c p MR_PROTECT_POSITION [PR_BREAK_EVEN_PROTECTION]
      ''A monotonic broker-valid protective stop is requested without changing the thesis.''
      (Some (protective_candidate q (fmul a b))) = Inr o'"
    if "\<not> already_protected q" "\<not> not_risk_reducing q (protective_candidate q (fmul a b))" for a b
  proof -
    note stop = protective_stop[OF q that is_f64_fmul]
    show ?thesis
    proof (rule pm_outcome_ok[OF assms(1)])
      show "list_all fst (protection_rules (outcome_of c p MR_PROTECT_POSITION [PR_BREAK_EVEN_PROTECTION]
          ''A monotonic broker-valid protective stop is requested without changing the thesis.''
          (Some (protective_candidate q (fmul a b)))))"
        using assms(2) stop(2,3)
        by (cases "pos_stop_loss q"; cases "pos_side q")
          (auto simp: protection_rules_def outcome_of_def dest: flt_imp_fle fle_not_flt)
    qed (use assms stop(1) in simp_all)
  qed
  have none: "\<exists>o'. pm_outcome h c p MR_NO_ACTION [PR_CURRENT_PRICE_UNAVAILABLE]
      ''Current price is unavailable, so no protective change can be assessed.'' None = Inr o'"
    by (rule pm_outcome_ok[OF assms(1)]) simp_all
  show ?thesis
    using pm_hold_ok[OF assms(1)] protect none
    by (auto simp: evaluate_protection_def protect_at_def Let_def split: option.split bool.split)
qed

lemma manage_open_ok:
  assumes "ready_to_manage c p" "pmx_position c = Some q" "pmx_intent c \<noteq> None" "pmx_result c \<noteq> None"
  shows "\<exists>o'. manage_open h c p q t i = Inr o'"
proof -
  have exit: "\<exists>o'. pm_outcome h c p MR_EXIT_POSITION [reason] rationale None = Inr o'"
    if "rationale \<noteq> []" "length rationale \<le> 500" for reason rationale
    by (rule pm_outcome_ok[OF assms(1)]) (use assms that in simp_all)
  show ?thesis
    using pm_hold_ok[OF assms(1)] evaluate_protection_ok[OF assms] by (simp add: manage_open_def exit)
qed

lemma evaluate_position_ok:
  assumes "ready_to_manage c p"
  shows "\<exists>o'. evaluate_position h c p = Inr o'"
proof (cases "pmx_position c")
  case None
  have "\<exists>o'. pm_outcome h c p MR_NO_ACTION [PR_NO_OPEN_POSITION]
      ''No authoritative open position is available for management.'' None = Inr o'"
    by (rule pm_outcome_ok[OF assms]) simp_all
  with None show ?thesis by (simp add: evaluate_position_def)
next
  case (Some q)
  have blocked: "\<exists>o'. pm_outcome h c p MR_NO_ACTION rs rationale None = Inr o'"
    if "rs \<noteq> []" "distinct rs" "rationale \<noteq> []" "length rationale \<le> 500" for rs rationale
    by (rule pm_outcome_ok[OF assms]) (use that in simp_all)
  show ?thesis
  proof (cases "pm_safety_reasons c p q = []")
    case False
    then show ?thesis using Some by (simp add: evaluate_position_def blocked pm_safety_reasons_def)
  next
    case True
    then obtain i r l t where x: "provenance_exact c q i r l t" unfolding safety_reasons_Nil_iff by blast
    then have "\<exists>o'. manage_open h c p q t i = Inr o'"
      using assms Some by (intro manage_open_ok) (simp_all add: provenance_exact_def)
    with True Some x pm_hold_ok[OF assms] show ?thesis
      by (auto simp: evaluate_position_def blocked provenance_exact_def)
  qed
qed

subsection \<open>Properties\<close>

lemma exit_iff:
  assumes "evaluate_position h c p = Inr o'"
  shows "pmo_result o' = MR_EXIT_POSITION \<longleftrightarrow>
    (\<exists>q i r l t. pmx_position c = Some q \<and> state_safe c p \<and> provenance_exact c q i r l t \<and>
       pmx_evidence c \<noteq> None \<and> exit_due p t i)"
proof
  assume x: "pmo_result o' = MR_EXIT_POSITION"
  then have "actionable_result (pmo_result o')" by simp
  with assms obtain q i r l t where y: "pmx_position c = Some q" "state_safe c p" "provenance_exact c q i r l t"
      "pmx_evidence c \<noteq> None" "manage_open h c p q t i = Inr o'"
    by (rule evaluate_position_acts)
  from manage_open_acts[OF this(5)] x have "exit_due p t i" by simp
  with y show "\<exists>q i r l t. pmx_position c = Some q \<and> state_safe c p \<and> provenance_exact c q i r l t \<and>
       pmx_evidence c \<noteq> None \<and> exit_due p t i" by blast
next
  assume "\<exists>q i r l t. pmx_position c = Some q \<and> state_safe c p \<and> provenance_exact c q i r l t \<and>
       pmx_evidence c \<noteq> None \<and> exit_due p t i"
  then obtain q i r l t where y: "pmx_position c = Some q" "state_safe c p" "provenance_exact c q i r l t"
      "pmx_evidence c \<noteq> None" "exit_due p t i" by blast
  then have "pm_safety_reasons c p q = []" unfolding safety_reasons_Nil_iff by blast
  then have "evaluate_position h c p = manage_open h c p q t i"
    using y by (auto simp: evaluate_position_def provenance_exact_def)
  then obtain rs rat where "pm_outcome h c p MR_EXIT_POSITION rs rat None = Inr o'"
    using exit_due_exits[OF y(5), of h c q] assms by auto
  then show "pmo_result o' = MR_EXIT_POSITION" by (simp add: acted_on)
qed

text \<open>C38. The management of an open position never raises on validated inputs, and it asks to exit exactly
  when the runtime is safe, reconciled and fresh, the position is exactly linked to its intent, result, broker
  object and thesis, evidence is present, and the thesis or the originating scenario has ended under the policy.
  Only an exit or a protective stop is ever eligible for a broker action.\<close>

theorem evaluate_position_total:
  assumes "mk_management_context hc c = Inr c" "mk_management_policy hp p = Inr p"
    and "opt_all (\<lambda>q. mk_position_state hq q = Inr q) (pmx_position c)"
  shows "\<exists>o'. evaluate_position h c p = Inr o' \<and>
    (pmo_result o' = MR_EXIT_POSITION \<longleftrightarrow>
      (\<exists>q i r l t. pmx_position c = Some q \<and> state_safe c p \<and> provenance_exact c q i r l t \<and>
         pmx_evidence c \<noteq> None \<and> exit_due p t i)) \<and>
    (pmo_eligible o' \<longleftrightarrow> pmo_result o' = MR_EXIT_POSITION \<or> pmo_result o' = MR_PROTECT_POSITION)"
proof -
  obtain o' where o': "evaluate_position h c p = Inr o'"
    using evaluate_position_ok[OF validated_ready[OF assms]] by blast
  have "pmo_eligible o' = actionable_result (pmo_result o')"
    using o' by (auto simp: evaluate_position_def pm_hold_def manage_open_def evaluate_protection_def protect_at_def
        Let_def dest!: pm_outcome_fields split: if_split_asm option.split_asm prod.split_asm bool.split_asm)
  with o' exit_iff[OF o'] show ?thesis by (auto simp: actionable_result_def)
qed

text \<open>C39. A protective stop never loosens a position: when one is requested, the state is safe, the position is
  exactly linked and its thesis is weakening; the stop is a positive price, lies strictly on the safe side of the
  old stop, moves it by at most the configured distance, never passes the entry price, and keeps the broker's
  stop and freeze distance from the current price.\<close>

theorem protection_reduces_risk:
  assumes "mk_management_context hc c = Inr c" "mk_management_policy hp p = Inr p"
    and "opt_all (\<lambda>q. mk_position_state hq q = Inr q) (pmx_position c)"
    and "evaluate_position h c p = Inr o'" "pmo_result o' = MR_PROTECT_POSITION"
  shows "\<exists>q i r l t stop point current stops freeze.
    pmx_position c = Some q \<and> state_safe c p \<and> provenance_exact c q i r l t \<and>
    th_hypothesis_status t = HS_WEAKENING \<and> bc_trade_allowed (pmx_broker c) = Some True \<and>
    pmo_requested_stop o' = Some stop \<and> pos_fin stop \<and> pos_current_price q = Some current \<and>
    bc_point_size (pmx_broker c) = Some point \<and> bc_stops_level_points (pmx_broker c) = Some stops \<and>
    bc_freeze_level_points (pmx_broker c) = Some freeze \<and>
    (let d = fmul (pymax stops freeze) point; m = fmul (pmp_max_change_points p) point in
      case pos_side q of
        PS_BUY \<Rightarrow> fle stop (pos_open_price q) \<and> fle stop (fsub current d) \<and>
          opt_all (\<lambda>old. flt old stop \<and> (m = NaN \<or> fle stop (fadd old m))) (pos_stop_loss q)
      | PS_SELL \<Rightarrow> fle (pos_open_price q) stop \<and> fle (fadd current d) stop \<and>
          opt_all (\<lambda>old. flt stop old \<and> (m = NaN \<or> fle (fsub old m) stop)) (pos_stop_loss q))"
proof -
  have "actionable_result (pmo_result o')" using assms(5) by simp
  with assms(4) obtain q i r l t where y: "pmx_position c = Some q" "state_safe c p" "provenance_exact c q i r l t"
      "manage_open h c p q t i = Inr o'"
    by (rule evaluate_position_acts)
  from manage_open_acts[OF this(4)] assms(5) obtain stop where
    s: "th_hypothesis_status t = HS_WEAKENING" "pmo_requested_stop o' = Some stop" "protection_due c p q stop"
    by auto
  have q: "pos_fin (pos_open_price q)" "opt_all pos_fin (pos_stop_loss q)"
    using validated_ready[OF assms(1-3)] y(1) by (simp_all add: ready_to_manage_def)
  from s(3) obtain point stops freeze current where
    d: "bc_point_size (pmx_broker c) = Some point" "bc_stops_level_points (pmx_broker c) = Some stops"
       "bc_freeze_level_points (pmx_broker c) = Some freeze" "pos_current_price q = Some current"
       "\<not> already_protected q" "stop = protective_candidate q (fmul (pmp_max_change_points p) point)"
       "\<not> not_risk_reducing q stop" "broker_valid_stop q current (fmul (pymax stops freeze) point) stop"
       "bc_trade_allowed (pmx_broker c) = Some True"
    by (auto simp: protection_due_def)
  note st = protective_stop[OF q d(5) d(7)[unfolded d(6)] is_f64_fmul, folded d(6)]
  have "case pos_side q of
      PS_BUY \<Rightarrow> fle stop (pos_open_price q) \<and> fle stop (fsub current (fmul (pymax stops freeze) point)) \<and>
        opt_all (\<lambda>old. flt old stop \<and> (fmul (pmp_max_change_points p) point = NaN \<or>
          fle stop (fadd old (fmul (pmp_max_change_points p) point)))) (pos_stop_loss q)
    | PS_SELL \<Rightarrow> fle (pos_open_price q) stop \<and> fle (fadd current (fmul (pymax stops freeze) point)) stop \<and>
        opt_all (\<lambda>old. flt stop old \<and> (fmul (pmp_max_change_points p) point = NaN \<or>
          fle (fsub old (fmul (pmp_max_change_points p) point)) stop)) (pos_stop_loss q)"
    using st(2,3) d(8) by (cases "pos_side q") (auto simp: broker_valid_stop_def)
  with y s d(1-4,9) st(1) show ?thesis unfolding Let_def by blast
qed

subsection \<open>Witnesses\<close>

text \<open>A long position of the demo intent one minute after it opened, its stop one point below the entry.\<close>

definition minute_fresh :: component_freshness where
  "minute_fresh = \<lparr>cf_component = ''broker'', cf_status = FS_AVAILABLE, cf_observed_at = Some 60000000,
     cf_available_at = Some 60000000, cf_stale_after_ms = None, cf_reason = None\<rparr>"

definition demo_managed :: position_state where
  "demo_managed = demo_position\<lparr>pos_id := ''pos-00000000000000000000'', pos_current_price := Some (Fin 12),
     pos_setup_id := Some ''setup-1'', pos_thesis_id := Some ''thesis-00000000000000000000''\<rparr>"

definition demo_management_context :: "hypothesis_status \<Rightarrow> management_context" where
  "demo_management_context st = \<lparr>pmx_id = ''pmc-00000000000000000000'', pmx_runtime_state_id = ''state-1'',
     pmx_as_of = 60000000, pmx_available_at = 60000000, pmx_position = Some demo_managed,
     pmx_intent = Some (demo_intent\<lparr>xi_thesis_id := ''thesis-00000000000000000000''\<rparr>),
     pmx_result = Some demo_filled,
     pmx_link = Some \<lparr>bl_id = ''bil-1'', bl_intent_id = ''xi-1'', bl_object_kind = BK_POSITION,
       bl_object_id = ''pos-00000000000000000000'', bl_ticket = Some 7, bl_transport_id = None\<rparr>,
     pmx_thesis = Some (demo_thesis\<lparr>th_hypothesis_status := st\<rparr>),
     pmx_evidence = Some \<lparr>eb_id = ''eb-1'', eb_event_id = ''ev-1'', eb_runtime_state_id = ''state-1'',
       eb_as_of = 60000000, eb_agent_inputs = [], eb_evidence = [], eb_memories = []\<rparr>,
     pmx_account = demo_account_state\<lparr>ac_as_of := 60000000, ac_freshness := minute_fresh\<rparr>,
     pmx_position_freshness = minute_fresh,
     pmx_broker = demo_broker\<lparr>bc_as_of := 60000000, bc_freshness := minute_fresh\<rparr>,
     pmx_reconciliation = \<lparr>rp_id = ''rr-1'', rp_snapshot_id = ''brs-1'', rp_as_of = 5, rp_available_at = 5,
       rp_status = RESOLVED, rp_findings = [\<lparr>fd_id = ''rf-1'', fd_kind = RCK_MATCHED, fd_status = RESOLVED,
         fd_intent_id = Some ''xi-1'', fd_object_id = Some ''pos-00000000000000000000'', fd_ticket = Some 7,
         fd_reason_code = ''EXACT_MATCH''\<rparr>], rp_supersedes = None\<rparr>,
     pmx_readiness = \<lparr>rd_id = ''rd-1'', rd_runtime_state_id = ''state-1'', rd_report_id = ''rr-1'', rd_as_of = 5,
       rd_status = RSM_SAFE, rd_reasons = []\<rparr>,
     pmx_continuity = CS_COMPLETE, pmx_r_multiple = None, pmx_mfe_points = None, pmx_mae_points = None\<rparr>"

definition demo_management_policy :: management_policy where
  "demo_management_policy = default_demo_management_policy\<lparr>pmp_id := ''pmp-00000000000000000000''\<rparr>"

lemmas demo_management_defs = demo_management_context_def demo_managed_def demo_position_def demo_intent_def
  demo_filled_def blank_result_def demo_thesis_def demo_account_state_def demo_broker_def minute_fresh_def
  demo_management_policy_def default_demo_management_policy_def

lemma demo_management_valid:
  "mk_management_policy zero_hash demo_management_policy = Inr demo_management_policy"
  "opt_all (\<lambda>q. mk_position_state zero_hash q = Inr q) (pmx_position (demo_management_context st))"
  by (simp_all add: mk_management_policy_def mk_position_state_def validate_ok management_policy_rules_def
      bind_identity_def content_id_def zero_hash_def demo_management_defs Let_def)

lemma demo_context_valid:
  "mk_management_context zero_hash (demo_management_context st) = Inr (demo_management_context st)"
proof -
  have "list_all fst (context_state_rules (demo_management_context st))"
    by (simp add: context_state_rules_def demo_management_defs)
  moreover have "list_all fst (position_rules (demo_management_context st))"
    by (simp add: position_rules_def execution_provenance_rules_def intent_provenance_rules_def
        result_provenance_rules_def link_provenance_rules_def thesis_provenance_rules_def expected_side_def
        demo_management_defs)
  moreover have "management_context_identity.bound zero_hash (demo_management_context st)"
    by (simp add: management_context_identity.bound_def demo_management_context_def content_id_def zero_hash_def)
  ultimately show ?thesis
    by (simp add: mk_management_context_def validate_ok management_context_identity.rebind)
qed

lemma demo_management_states:
  "\<exists>r l. provenance_exact (demo_management_context st) demo_managed
     (demo_intent\<lparr>xi_thesis_id := ''thesis-00000000000000000000''\<rparr>) r l (demo_thesis\<lparr>th_hypothesis_status := st\<rparr>)"
  "state_safe (demo_management_context st) demo_management_policy"
  by (simp_all add: provenance_exact_def exact_provenance_def matched_finding_def state_safe_def pm_fresh_def
      total_seconds_def rnd_eval demo_management_defs)

lemma demo_protects:
  "evaluate_position h (demo_management_context HS_WEAKENING) demo_management_policy =
     pm_outcome h (demo_management_context HS_WEAKENING) demo_management_policy MR_PROTECT_POSITION
       [PR_BREAK_EVEN_PROTECTION] ''A monotonic broker-valid protective stop is requested without changing the thesis.''
       (Some (Fin 11))"
proof -
  have "pm_safety_reasons (demo_management_context HS_WEAKENING) demo_management_policy demo_managed = []"
    using demo_management_states[of HS_WEAKENING] unfolding safety_reasons_Nil_iff by blast
  moreover obtain e where "pmx_evidence (demo_management_context HS_WEAKENING) = Some e"
    by (simp add: demo_management_context_def)
  moreover define t where "t = demo_thesis\<lparr>th_hypothesis_status := HS_WEAKENING\<rparr>"
  moreover define i where "i = demo_intent\<lparr>xi_thesis_id := ''thesis-00000000000000000000''\<rparr>"
  moreover have "pmx_position (demo_management_context HS_WEAKENING) = Some demo_managed"
      "pmx_thesis (demo_management_context HS_WEAKENING) = Some t" "pmx_intent (demo_management_context HS_WEAKENING) = Some i"
    by (simp_all add: demo_management_context_def t_def i_def)
  moreover have "th_hypothesis_status t = HS_WEAKENING" "origin_scenario t i = None"
    by (simp_all add: t_def i_def origin_scenario_def demo_thesis_def demo_intent_def)
  ultimately have "evaluate_position h (demo_management_context HS_WEAKENING) demo_management_policy =
      evaluate_protection h (demo_management_context HS_WEAKENING) demo_management_policy demo_managed"
    by (simp only: evaluate_position_def manage_open_def option.case opt_simps) simp
  also have "\<dots> = protect_at h (demo_management_context HS_WEAKENING) demo_management_policy demo_managed
      (Fin 1, Fin 0, Fin 0) (Fin 12)"
    by (simp add: evaluate_protection_def)
      (simp add: demo_management_defs total_seconds_def rnd_eval)
  also have "\<dots> = pm_outcome h (demo_management_context HS_WEAKENING) demo_management_policy MR_PROTECT_POSITION
       [PR_BREAK_EVEN_PROTECTION] ''A monotonic broker-valid protective stop is requested without changing the thesis.''
       (Some (Fin 11))"
    by (simp add: protect_at_def already_protected_def protective_candidate_def not_risk_reducing_def
        broker_valid_stop_def demo_managed_def demo_position_def demo_management_policy_def
        default_demo_management_policy_def rnd_eval pymin_def pymax_def fsub_def)
  finally show ?thesis .
qed

theorem evaluate_position_total_witness:
  "\<exists>o'. evaluate_position zero_hash (demo_management_context HS_EXPIRED) demo_management_policy = Inr o' \<and>
     pmo_result o' = MR_EXIT_POSITION \<and> pmo_eligible o'"
proof -
  have "exit_due demo_management_policy (demo_thesis\<lparr>th_hypothesis_status := HS_EXPIRED\<rparr>) i" for i
    by (simp add: exit_due_def demo_management_policy_def default_demo_management_policy_def)
  moreover have "pmx_position (demo_management_context HS_EXPIRED) = Some demo_managed"
      "pmx_evidence (demo_management_context HS_EXPIRED) \<noteq> None"
    by (simp_all add: demo_management_context_def)
  ultimately show ?thesis
    using evaluate_position_total[OF demo_context_valid demo_management_valid, of zero_hash HS_EXPIRED]
      demo_management_states[of HS_EXPIRED]
    by blast
qed

theorem protection_reduces_risk_witness:
  "\<exists>o'. evaluate_position zero_hash (demo_management_context HS_WEAKENING) demo_management_policy = Inr o' \<and>
     (\<exists>stop. pmo_requested_stop o' = Some stop \<and> flt (Fin 10) stop \<and> fle stop (Fin 11))"
proof -
  obtain o' where o': "evaluate_position zero_hash (demo_management_context HS_WEAKENING) demo_management_policy = Inr o'"
    using evaluate_position_ok[OF validated_ready[OF demo_context_valid demo_management_valid]] by blast
  have "pmo_result o' = MR_PROTECT_POSITION"
    using o' unfolding demo_protects by (auto dest: acted_on)
  from protection_reduces_risk[OF demo_context_valid demo_management_valid o' this] o'
  show ?thesis
    by (auto simp: demo_management_context_def demo_managed_def demo_position_def Let_def)
qed

end
