(* ===== verification/PyDecimal.thy ===== *)
theory PyDecimal
  imports PyFloat "HOL-Library.Log_Nat"
begin

section \<open>Decimal arithmetic (Python's \<open>decimal\<close> module)\<close>

text \<open>
  The part of \<open>decimal\<close> the sources use: \<open>Decimal(str(x))\<close> of a finite float, division and
  multiplication in the default context (28 significant digits, round half even),
  \<open>to_integral_value\<close>, \<open>quantize\<close> and \<open>%\<close>. A decimal is its rational value; its exponent is not kept,
  the sources never observe it. Operations that signal \<open>InvalidOperation\<close> return it.
\<close>

text \<open>The decimal exponent of a positive number: \<open>10\<^sup>e \<le> q < 10\<^sup>e\<^sup>+\<^sup>1\<close>.\<close>

definition ilog10_ge1 :: "rat \<Rightarrow> int" where
  "ilog10_ge1 q = int (floorlog 10 (nat \<lfloor>q\<rfloor>)) - 1"

definition ilog10 :: "rat \<Rightarrow> int" where
  "ilog10 q = (if 1 \<le> q then ilog10_ge1 q
     else let e = ilog10_ge1 (1 / q) in if 10 powi e = 1 / q then - e else - e - 1)"

text \<open>Rounding to \<open>n\<close> significant digits, half to even.\<close>

definition digit_unit :: "nat \<Rightarrow> rat \<Rightarrow> rat" where
  "digit_unit n q = 10 powi (ilog10 \<bar>q\<bar> - int n + 1)"

definition sig_round :: "nat \<Rightarrow> rat \<Rightarrow> rat" where
  "sig_round n q = (if q = 0 then 0 else of_int (rhe (q / digit_unit n q)) * digit_unit n q)"

text \<open>
  \<open>str(x)\<close> of a positive float is its shortest decimal that reads back as \<open>x\<close>, the nearest to \<open>x\<close> among the
  shortest, with at most 17 significant digits.
\<close>

definition near_decimals :: "nat \<Rightarrow> rat \<Rightarrow> rat list" where
  "near_decimals n q = (let u = digit_unit n q in
     sort_key (\<lambda>c. \<bar>c - q\<bar>) (filter (\<lambda>c. rnd c = Fin q)
       [sig_round n q, of_int \<lfloor>q / u\<rfloor> * u, of_int \<lceil>q / u\<rceil> * u]))"

definition str_value :: "rat \<Rightarrow> rat" where
  "str_value q = hd (concat (map (\<lambda>n. near_decimals n q) [1..<18]) @ [q])"

definition decimal_prec :: nat where "decimal_prec = 28"

definition dec_div :: "rat \<Rightarrow> rat \<Rightarrow> rat" where
  "dec_div a b = sig_round decimal_prec (a / b)"

definition dec_mul :: "rat \<Rightarrow> rat \<Rightarrow> rat" where
  "dec_mul a b = sig_round decimal_prec (a * b)"

text \<open>\<open>quantize\<close> to \<open>n\<close> places: the coefficient must fit the precision.\<close>

definition dec_quantize :: "rat \<Rightarrow> nat \<Rightarrow> rat res" where
  "dec_quantize q n = (let c = rhe (q * 10 ^ n) in
     if \<bar>c\<bar> < 10 ^ decimal_prec then Inr (of_int c / 10 ^ n) else Inl InvalidOperation)"

text \<open>\<open>a % b != 0\<close> for positive \<open>b\<close>: the integer quotient must fit the precision.\<close>

definition dec_indivisible :: "rat \<Rightarrow> rat \<Rightarrow> bool res" where
  "dec_indivisible a b =
     (if \<lfloor>\<bar>a / b\<bar>\<rfloor> < 10 ^ decimal_prec then Inr (of_int \<lfloor>a / b\<rfloor> * b \<noteq> a) else Inl InvalidOperation)"

lemma near_decimals_read_back: "c \<in> set (near_decimals n q) \<Longrightarrow> rnd c = Fin q"
  unfolding near_decimals_def Let_def set_sort set_filter by blast

lemma str_value_reads_back:
  assumes "rnd q = Fin q"
  shows "rnd (str_value q) = Fin q"
proof (cases "concat (map (\<lambda>n. near_decimals n q) [1..<18])")
  case Nil
  then show ?thesis using assms unfolding str_value_def Nil by simp
next
  case (Cons c cs)
  then have "c \<in> set (concat (map (\<lambda>n. near_decimals n q) [1..<18]))" by simp
  then have "rnd c = Fin q" by (auto simp: near_decimals_read_back)
  then show ?thesis unfolding str_value_def Cons by simp
qed

lemma dec_quantize_Inr: "dec_quantize q n = Inr r \<Longrightarrow> \<exists>k. r = of_int k / 10 ^ n"
  by (auto simp: dec_quantize_def Let_def split: if_splits)

lemma dec_divisible: "dec_indivisible a b = Inr False \<Longrightarrow> \<exists>k. a = of_int k * b"
  by (auto simp: dec_indivisible_def split: if_splits) metis

text \<open>Evaluation on concrete values.\<close>

lemma ilog10_eval:
  "1 \<le> q \<Longrightarrow> ilog10 q = int (floorlog 10 (nat \<lfloor>q\<rfloor>)) - 1"
  by (simp add: ilog10_def ilog10_ge1_def)

lemma digit_unit_eval:
  "1 \<le> q \<Longrightarrow> floorlog 10 (nat \<lfloor>q\<rfloor>) = d \<Longrightarrow> digit_unit n q = 10 powi (int d - int n)"
  by (simp add: digit_unit_def ilog10_eval)

lemma str_value_first: "near_decimals 1 q = c # cs \<Longrightarrow> str_value q = c"
  unfolding str_value_def by (subst upt_conv_Cons) simp_all

lemma str_value_second: "near_decimals 1 q = [] \<Longrightarrow> near_decimals 2 q = c # cs \<Longrightarrow> str_value q = c"
  unfolding str_value_def by (subst upt_conv_Cons, simp, subst upt_conv_Cons) (simp_all add: numeral_2_eq_2)

lemma floorlog_10: "floorlog 10 1 = 1" "floorlog 10 (Suc 0) = 1" "floorlog 10 11 = 2"
  by (simp_all add: compute_floorlog)

lemma str_value_1: "str_value 1 = 1"
proof (rule str_value_first)
  have "digit_unit 1 1 = 1" by (simp add: digit_unit_eval floorlog_10)
  then show "near_decimals 1 1 = 1 # [1, 1]" using rhe_of_int[of 1] by (simp add: near_decimals_def sig_round_def)
qed

lemma str_value_11: "str_value 11 = 11"
proof (rule str_value_second)
  have "digit_unit 1 11 = 10" by (simp add: digit_unit_eval floorlog_10)
  moreover have f: "\<lfloor>11 / 10 :: rat\<rfloor> = 1" "\<lceil>11 / 10 :: rat\<rceil> = 2" by (simp_all add: floor_eq_iff ceiling_eq_iff)
  moreover have "rhe (11 / 10) = 1" using f by (simp add: rhe_def Let_def)
  ultimately show "near_decimals 1 11 = []"
    by (simp add: near_decimals_def sig_round_def rnd_numeral)
  have "digit_unit 2 11 = 1" by (simp add: digit_unit_eval floorlog_10)
  then show "near_decimals 2 11 = 11 # [11, 11]"
    using rhe_of_int[of 11] by (simp add: near_decimals_def sig_round_def rnd_numeral)
qed

lemma sig_round_exact:
  assumes "q = of_int k * digit_unit n q" "digit_unit n q \<noteq> 0"
  shows "sig_round n q = q"
proof -
  have "q / digit_unit n q = of_int k" using assms by (simp add: field_simps)
  then show ?thesis using assms(1) by (simp add: sig_round_def)
qed

lemma dec_eleven: "dec_div 11 1 = 11" "dec_mul 11 1 = 11"
proof -
  have "digit_unit 28 11 = 1 / 10 ^ 26"
    by (simp add: digit_unit_eval floorlog_10 power_int_def power_one_over)
  then have "sig_round 28 11 = 11" using sig_round_exact[of 11 "11 * 10 ^ 26" 28] by simp
  then show "dec_div 11 1 = 11" "dec_mul 11 1 = 11" by (simp_all add: dec_div_def dec_mul_def decimal_prec_def)
qed

lemma quantize_eleven: "dec_quantize 11 2 = Inr 11" "dec_indivisible 11 1 = Inr False"
  using rhe_of_int[of 1100] by (simp_all add: dec_quantize_def dec_indivisible_def decimal_prec_def Let_def)

end
