(* ===== verification/PositionActions.thy ===== *)
theory PositionActions
  imports PositionManagement PyDecimal
begin

section \<open>Actions on open positions (\<open>position_actions/contracts.py\<close>, \<open>evaluator.py\<close>)\<close>

text \<open>
  A management decision becomes an action only after it was checked again, at action time, against the
  current broker state: identity, linkage, freshness, volume and, for a stop, monotonicity, tick grid and
  broker distance. A passed safety outcome is turned into an intent bound to it.
\<close>

datatype action_type = PA_NO_ACTION | PA_MODIFY_STOP | PA_CLOSE

datatype safety_result = SR_NO_ACTION | SR_PASS | SR_REJECT | SR_EMERGENCY_BLOCK

datatype action_reason =
    AR_MANAGEMENT_DID_NOT_REQUEST_ACTION | AR_POLICY_MISMATCH | AR_MANAGEMENT_OUTCOME_STALE
  | AR_RUNTIME_NOT_SAFE | AR_RECONCILIATION_UNRESOLVED | AR_UNKNOWN_EXECUTION_STATE
  | AR_KILL_SWITCH_ACTIVE | AR_POSITION_MISSING | AR_POSITION_SNAPSHOT_CHANGED
  | AR_EXACT_LINKAGE_MISMATCH | AR_RECONCILIATION_POSITION_STALE | AR_TICKET_MISMATCH
  | AR_SYMBOL_MISMATCH | AR_DIRECTION_MISMATCH | AR_VOLUME_MISMATCH | AR_SETUP_LINKAGE_MISMATCH
  | AR_THESIS_LINKAGE_MISMATCH | AR_SCENARIO_LINKAGE_MISMATCH | AR_ACCOUNT_NOT_FRESH
  | AR_POSITION_NOT_FRESH | AR_BROKER_CONSTRAINTS_NOT_FRESH | AR_RECONCILIATION_NOT_FRESH
  | AR_MARKET_PRICE_NOT_FRESH | AR_BROKER_TRADING_DISABLED | AR_BROKER_CONSTRAINTS_UNAVAILABLE
  | AR_CURRENT_STOP_CHANGED | AR_MISSING_STOP_NOT_ALLOWED | AR_PROTECTION_NOT_RISK_REDUCING
  | AR_PROTECTION_EXCEEDS_ORIGINAL_RISK | AR_BROKER_STOP_DIRECTION_INVALID
  | AR_BROKER_STOP_DISTANCE_VIOLATION | AR_SAFE_NORMALIZATION_IMPOSSIBLE
  | AR_MODIFY_PROTECTIVE_STOP_SAFE | AR_CLOSE_POSITION_SAFE

subsection \<open>Policy and context\<close>

record action_policy =
  pap_id :: string
  pap_version :: string
  pap_max_outcome_age :: f64
  pap_max_component_age :: f64
  pap_volume_tolerance :: f64
  pap_allow_missing_stop :: bool
  pap_allow_normalization :: bool

definition action_policy_rules :: "action_policy \<Rightarrow> (bool \<times> py_error) list" where
  "action_policy_rules p =
     [nonempty ''policy_version'' (pap_version p),
      field_ok ''max_management_outcome_age_seconds'' (flt (Fin 0) (pap_max_outcome_age p)),
      field_ok ''max_component_age_seconds'' (flt (Fin 0) (pap_max_component_age p)),
      field_ok ''volume_tolerance_lots'' (nonneg_fin (pap_volume_tolerance p))]"

definition mk_action_policy :: "(action_policy \<Rightarrow> string) \<Rightarrow> action_policy \<Rightarrow> action_policy res" where
  "mk_action_policy h p = res_bind (validate (action_policy_rules p) p)
     (bind_identity ''pap-'' h (\<lambda>r. r\<lparr>pap_id := []\<rparr>) pap_id (\<lambda>i r. r\<lparr>pap_id := i\<rparr>)
        ''policy_id does not match position-action policy content'')"

definition default_action_policy :: action_policy where
  "default_action_policy = \<lparr>pap_id = [], pap_version = ''demo-v1'', pap_max_outcome_age = Fin 30,
     pap_max_component_age = Fin 30, pap_volume_tolerance = lit (1 / 10 ^ 8),
     pap_allow_missing_stop = True, pap_allow_normalization = True\<rparr>"

record action_context =
  pac_id :: string
  pac_policy_id :: string
  pac_management :: management_outcome
  pac_position :: "position_state option"
  pac_intent :: execution_intent
  pac_result :: execution_result
  pac_link :: broker_intent_link
  pac_reconciliation :: reconciliation_report
  pac_readiness :: resume_readiness
  pac_account :: account_state
  pac_position_freshness :: component_freshness
  pac_broker :: broker_constraints
  pac_market :: market_state
  pac_symbol_digits :: int
  pac_kill_switch :: bool
  pac_as_of :: dt
  pac_available_at :: dt

definition action_times :: "action_context \<Rightarrow> dt list" where
  "action_times c =
     [pmo_available_at (pac_management c), xe_available_at (pac_result c),
      rp_available_at (pac_reconciliation c), rd_as_of (pac_readiness c), ac_as_of (pac_account c),
      bc_as_of (pac_broker c), ms_as_of (pac_market c)]"

definition action_context_rules :: "action_context \<Rightarrow> (bool \<times> py_error) list" where
  "action_context_rules c =
     [nonempty ''policy_id'' (pac_policy_id c),
      field_ok ''symbol_digits'' (0 \<le> pac_symbol_digits c \<and> pac_symbol_digits c \<le> 12),
      rule_ok ''position-action context cannot be available after as_of''
        (pac_available_at c \<le> pac_as_of c),
      rule_ok ''readiness references a different reconciliation report''
        (rd_report_id (pac_readiness c) = rp_id (pac_reconciliation c)),
      rule_ok ''position-action context cannot contain future state''
        (list_all (\<lambda>t. t \<le> pac_as_of c) (action_times c)),
      rule_ok ''position-action context cannot contain future availability''
        (list_all (\<lambda>f. opt_all (\<lambda>t. t \<le> pac_as_of c) (cf_available_at f))
           [ac_freshness (pac_account c), pac_position_freshness c, bc_freshness (pac_broker c),
            ms_freshness (pac_market c)])]"

definition mk_action_context :: "(action_context \<Rightarrow> string) \<Rightarrow> action_context \<Rightarrow> action_context res" where
  "mk_action_context h c = res_bind (validate (action_context_rules c) c)
     (bind_identity ''pac-'' h (\<lambda>r. r\<lparr>pac_id := []\<rparr>) pac_id (\<lambda>i r. r\<lparr>pac_id := i\<rparr>)
        ''context_id does not match position-action context content'')"

subsection \<open>Safety outcome\<close>

record safety_outcome =
  pas_id :: string
  pas_policy_id :: string
  pas_context_id :: string
  pas_management_id :: string
  pas_position_id :: "string option"
  pas_result :: safety_result
  pas_action :: action_type
  pas_reasons :: "action_reason list"
  pas_eligible :: bool
  pas_stop :: "f64 option"
  pas_close_volume :: "f64 option"
  pas_as_of :: dt
  pas_available_at :: dt
  pas_rationale :: string

definition safety_action_rules :: "safety_outcome \<Rightarrow> (bool \<times> py_error) list" where
  "safety_action_rules s =
     (if pas_result s = SR_NO_ACTION
      then [rule_ok ''NO_ACTION safety result cannot request an action'' (pas_action s = PA_NO_ACTION)]
      else [rule_ok ''action safety result requires the requested action'' (pas_action s \<noteq> PA_NO_ACTION)])
     @ (if pas_action s = PA_MODIFY_STOP
        then [rule_ok ''passed protective modification requires a normalized stop''
                (\<not> (pas_result s = SR_PASS \<and> pas_stop s = None)),
              rule_ok ''protective modification cannot request close volume'' (pas_close_volume s = None)]
        else [rule_ok ''only protective modification may contain a normalized stop'' (pas_stop s = None)])
     @ (if pas_action s = PA_CLOSE
        then [rule_ok ''passed close requires an explicit close volume''
                (\<not> (pas_result s = SR_PASS \<and> pas_close_volume s = None))]
        else [rule_ok ''only close action may contain close volume'' (pas_close_volume s = None)])"

definition safety_outcome_rules :: "safety_outcome \<Rightarrow> (bool \<times> py_error) list" where
  "safety_outcome_rules s =
     [nonempty ''policy_id'' (pas_policy_id s), nonempty ''context_id'' (pas_context_id s),
      nonempty ''position_management_outcome_id'' (pas_management_id s),
      field_ok ''reason_codes'' (pas_reasons s \<noteq> []),
      field_ok ''normalized_protective_stop_loss'' (opt_all pos_fin (pas_stop s)),
      field_ok ''requested_close_volume_lots'' (opt_all pos_fin (pas_close_volume s)),
      field_ok ''rationale'' (1 \<le> length (pas_rationale s) \<and> length (pas_rationale s) \<le> 500),
      rule_ok ''position-action safety outcome cannot be available after as_of''
        (pas_available_at s \<le> pas_as_of s),
      rule_ok ''position-action reason codes must be unique'' (distinct (pas_reasons s)),
      rule_ok ''only PASS may be eligible for a position-action intent''
        (pas_eligible s = (pas_result s = SR_PASS))]
     @ safety_action_rules s"

definition mk_safety_outcome :: "(safety_outcome \<Rightarrow> string) \<Rightarrow> safety_outcome \<Rightarrow> safety_outcome res" where
  "mk_safety_outcome h s = res_bind (validate (safety_outcome_rules s) s)
     (bind_identity ''pas-'' h (\<lambda>r. r\<lparr>pas_id := []\<rparr>) pas_id (\<lambda>i r. r\<lparr>pas_id := i\<rparr>)
        ''safety_outcome_id does not match safety outcome content'')"

interpretation safety_outcome_identity: content_addressed "''pas-''" h "\<lambda>r. r\<lparr>pas_id := []\<rparr>" pas_id
    "\<lambda>i r. r\<lparr>pas_id := i\<rparr>" "''safety_outcome_id does not match safety outcome content''"
  for h :: "safety_outcome \<Rightarrow> string"
  by unfold_locales simp_all

subsection \<open>Intent\<close>

record action_intent =
  pai_id :: string
  pai_policy_id :: string
  pai_safety_id :: string
  pai_management_id :: string
  pai_position_id :: string
  pai_broker_ticket :: "int option"
  pai_intent_id :: string
  pai_result_id :: string
  pai_link_id :: string
  pai_report_id :: string
  pai_readiness_id :: string
  pai_setup_id :: string
  pai_thesis_id :: string
  pai_scenario_id :: "string option"
  pai_action :: action_type
  pai_symbol :: string
  pai_side :: position_side
  pai_volume :: f64
  pai_close_volume :: "f64 option"
  pai_old_stop :: "f64 option"
  pai_new_stop :: "f64 option"
  pai_reasons :: "action_reason list"
  pai_as_of :: dt
  pai_available_at :: dt

text \<open>\<open>math.isclose(a, b, abs_tol=1e-10, rel_tol=0.0)\<close>.\<close>

definition abs_close :: "f64 \<Rightarrow> f64 \<Rightarrow> bool" where
  "abs_close a b = isclose a b (Fin 0) (lit (1 / 10 ^ 10))"

definition modify_rules :: "action_intent \<Rightarrow> (bool \<times> py_error) list" where
  "modify_rules i =
     [rule_ok ''protective modification requires a new stop'' (pai_new_stop i \<noteq> None),
      rule_ok ''protective modification cannot request close volume'' (pai_close_volume i = None)]
     @ (case (pai_old_stop i, pai_new_stop i) of
          (Some old, Some new) \<Rightarrow>
            [rule_ok ''protective stop cannot increase risk''
               (\<not> ((pai_side i = PS_BUY \<and> flt new old \<or> pai_side i = PS_SELL \<and> flt old new)
                   \<and> \<not> abs_close new old))]
        | _ \<Rightarrow> [])"

definition close_rules :: "action_intent \<Rightarrow> (bool \<times> py_error) list" where
  "close_rules i =
     [rule_ok ''close action cannot request a new stop'' (pai_new_stop i = None)]
     @ (case pai_close_volume i of
          None \<Rightarrow> [rule_ok ''close action requires close volume'' False]
        | Some v \<Rightarrow>
            [rule_ok ''close volume cannot exceed current position volume''
               (\<not> (flt (pai_volume i) v \<and> \<not> abs_close v (pai_volume i))),
             rule_ok ''V1 position action supports full close only'' (abs_close v (pai_volume i))])"

definition action_intent_rules :: "action_intent \<Rightarrow> (bool \<times> py_error) list" where
  "action_intent_rules i =
     [nonempty ''policy_id'' (pai_policy_id i), nonempty ''safety_outcome_id'' (pai_safety_id i),
      nonempty ''position_management_outcome_id'' (pai_management_id i),
      nonempty ''position_id'' (pai_position_id i),
      field_ok ''broker_ticket'' (opt_all (\<lambda>t. 0 < t) (pai_broker_ticket i)),
      nonempty ''original_execution_intent_id'' (pai_intent_id i),
      nonempty ''original_execution_result_id'' (pai_result_id i),
      nonempty ''broker_intent_link_id'' (pai_link_id i),
      nonempty ''reconciliation_report_id'' (pai_report_id i),
      nonempty ''resume_readiness_id'' (pai_readiness_id i),
      nonempty ''setup_id'' (pai_setup_id i), nonempty ''thesis_id'' (pai_thesis_id i),
      nonempty ''symbol'' (pai_symbol i),
      field_ok ''current_volume_lots'' (pos_fin (pai_volume i)),
      field_ok ''requested_close_volume_lots'' (opt_all pos_fin (pai_close_volume i)),
      field_ok ''existing_stop_loss'' (opt_all pos_fin (pai_old_stop i)),
      field_ok ''requested_new_stop_loss'' (opt_all pos_fin (pai_new_stop i)),
      field_ok ''audit_reason_codes'' (pai_reasons i \<noteq> []),
      rule_ok ''position-action intent cannot be available after as_of''
        (pai_available_at i \<le> pai_as_of i),
      rule_ok ''NO_ACTION cannot become a position-action intent'' (pai_action i \<noteq> PA_NO_ACTION),
      rule_ok ''position-action audit reasons must be unique'' (distinct (pai_reasons i))]
     @ (if pai_action i = PA_MODIFY_STOP then modify_rules i else close_rules i)"

definition mk_action_intent :: "(action_intent \<Rightarrow> string) \<Rightarrow> action_intent \<Rightarrow> action_intent res" where
  "mk_action_intent h i = res_bind (validate (action_intent_rules i) i)
     (bind_identity ''pai-'' h (\<lambda>r. r\<lparr>pai_id := []\<rparr>) pai_id (\<lambda>i r. r\<lparr>pai_id := i\<rparr>)
        ''intent_id does not match position-action intent content'')"

interpretation action_intent_identity: content_addressed "''pai-''" h "\<lambda>r. r\<lparr>pai_id := []\<rparr>" pai_id
    "\<lambda>i r. r\<lparr>pai_id := i\<rparr>" "''intent_id does not match position-action intent content''"
  for h :: "action_intent \<Rightarrow> string"
  by unfold_locales simp_all

subsection \<open>Ages\<close>

definition age_valid :: "dt \<Rightarrow> dt \<Rightarrow> f64 \<Rightarrow> bool" where
  "age_valid t now max_age \<longleftrightarrow> fle (Fin 0) (total_seconds (now - t)) \<and> fle (total_seconds (now - t)) max_age"

definition freshness_valid :: "component_freshness \<Rightarrow> dt \<Rightarrow> f64 \<Rightarrow> bool" where
  "freshness_valid f now max_age \<longleftrightarrow> cf_status f = FS_AVAILABLE \<and>
     opt_some (\<lambda>t. age_valid t now max_age) (cf_available_at f)"

definition state_fresh :: "component_freshness \<Rightarrow> dt \<Rightarrow> dt \<Rightarrow> f64 \<Rightarrow> bool" where
  "state_fresh f state_as_of now max_age \<longleftrightarrow>
     freshness_valid f now max_age \<and> age_valid state_as_of now max_age"

definition same_optional_price :: "f64 option \<Rightarrow> f64 option \<Rightarrow> bool" where
  "same_optional_price a b = (case (a, b) of (Some x, Some y) \<Rightarrow> abs_close x y | _ \<Rightarrow> a = b)"

subsection \<open>Normalisation of the stop\<close>

text \<open>
  \<open>_risk_reducing_normalize\<close>: the stop is moved to the tick grid away from the losing side, quantized to the
  symbol's digits and converted back. The contracts admit finite positive prices only.
\<close>

definition normalized_decimal :: "rat \<Rightarrow> rat \<Rightarrow> nat \<Rightarrow> position_side \<Rightarrow> rat res" where
  "normalized_decimal value tick digits side =
     (let quotient = dec_div value tick;
          integral = (if side = PS_BUY then \<lceil>quotient\<rceil> else \<lfloor>quotient\<rfloor>)
      in dec_quantize (dec_mul (of_int integral) tick) digits)"

definition safe_direction :: "position_side \<Rightarrow> f64 \<Rightarrow> f64 \<Rightarrow> bool" where
  "safe_direction side result requested \<longleftrightarrow>
     (if side = PS_BUY then fle requested result else fle result requested)"

definition altered_value :: "bool \<Rightarrow> rat \<Rightarrow> rat \<Rightarrow> nat \<Rightarrow> bool res" where
  "altered_value enabled value normalized digits =
     (if enabled then Inr False
      else res_bind (dec_quantize value digits) (\<lambda>v. Inr (normalized \<noteq> v)))"

definition risk_reducing_normalize ::
  "f64 \<Rightarrow> f64 \<Rightarrow> nat \<Rightarrow> position_side \<Rightarrow> bool \<Rightarrow> f64 option res" where
  "risk_reducing_normalize requested tick_size digits side enabled = (case (requested, tick_size) of
     (Fin x, Fin t) \<Rightarrow>
       res_bind (normalized_decimal (str_value x) (str_value t) digits side) (\<lambda>n.
       res_bind (dec_indivisible n (str_value t)) (\<lambda>off_grid.
       if off_grid then Inr None
       else res_bind (altered_value enabled (str_value x) n digits) (\<lambda>altered.
       if altered then Inr None
       else Inr (if safe_direction side (rnd n) requested \<and> is_fin (rnd n) then Some (rnd n) else None))))
   | _ \<Rightarrow> Inl InvalidOperation)"

subsection \<open>Common safety reasons\<close>

definition runtime_emergencies :: "action_context \<Rightarrow> action_policy \<Rightarrow> action_reason list" where
  "runtime_emergencies c p =
     (if pac_policy_id c \<noteq> pap_id p then [AR_POLICY_MISMATCH] else [])
     @ (if pac_kill_switch c then [AR_KILL_SWITCH_ACTIVE] else [])
     @ (if rd_status (pac_readiness c) \<noteq> RSM_SAFE then [AR_RUNTIME_NOT_SAFE] else [])
     @ (if rp_status (pac_reconciliation c) \<noteq> RESOLVED then [AR_RECONCILIATION_UNRESOLVED] else [])
     @ (if xe_status (pac_result c) = XS_UNKNOWN then [AR_UNKNOWN_EXECUTION_STATE] else [])"

definition known_tickets :: "int option list \<Rightarrow> int list" where
  "known_tickets ts = map the (filter (\<lambda>t. t \<noteq> None) ts)"

definition tickets_conflict :: "int option list \<Rightarrow> bool" where
  "tickets_conflict ts \<longleftrightarrow> known_tickets ts \<noteq> [] \<and>
     (length (known_tickets ts) \<noteq> length ts \<or> card (set (known_tickets ts)) \<noteq> 1)"

definition identity_emergencies :: "action_context \<Rightarrow> position_state \<Rightarrow> action_reason list" where
  "identity_emergencies c q =
     (let m = pac_management c; i = pac_intent c; r = pac_result c; l = pac_link c in
     (if bl_object_kind l \<noteq> BK_POSITION then [AR_EXACT_LINKAGE_MISMATCH] else [])
     @ (if \<not> (bl_intent_id l = xi_id i \<and> xi_id i = xe_intent_id r \<and> bl_transport_id l = xe_transport_id r)
        then [AR_EXACT_LINKAGE_MISMATCH] else [])
     @ (if tickets_conflict [bl_ticket l, xe_broker_ticket r, pos_broker_ticket q]
        then [AR_TICKET_MISMATCH] else [])
     @ (if \<not> (pmo_side m = Some (pos_side q) \<and> xe_direction r = xi_direction i
              \<and> pos_side q = expected_side (xi_direction i))
        then [AR_DIRECTION_MISMATCH] else [])
     @ (if \<not> (pmo_setup_id m = pos_setup_id q \<and> pos_setup_id q = Some (xi_setup_id i)
              \<and> xi_setup_id i = xe_setup_id r)
        then [AR_SETUP_LINKAGE_MISMATCH] else [])
     @ (if \<not> (pmo_thesis_id m = pos_thesis_id q \<and> pos_thesis_id q = Some (xi_thesis_id i)
              \<and> xi_thesis_id i = xe_thesis_id r)
        then [AR_THESIS_LINKAGE_MISMATCH] else [])
     @ (if \<not> (pmo_scenario_id m = xi_scenario_id i \<and> xi_scenario_id i = xe_scenario_id r)
        then [AR_SCENARIO_LINKAGE_MISMATCH] else [])
     @ (if \<not> (pmo_intent_id m = Some (xi_id i) \<and> pmo_result_id m = Some (xe_id r))
        then [AR_EXACT_LINKAGE_MISMATCH] else [])
     @ (if \<not> (pmo_setup_id m = Some (xi_setup_id i) \<and> pmo_thesis_id m = Some (xi_thesis_id i)
              \<and> pmo_scenario_id m = xi_scenario_id i)
        then [AR_EXACT_LINKAGE_MISMATCH] else [])
     @ (if pos_symbol q \<noteq> xi_symbol i \<or> xe_symbol r \<noteq> xi_symbol i then [AR_SYMBOL_MISMATCH] else [])
     @ (if bc_symbol (pac_broker c) \<noteq> pos_symbol q \<or> ms_symbol (pac_market c) \<noteq> pos_symbol q
        then [AR_SYMBOL_MISMATCH] else []))"

definition age_rejections :: "action_context \<Rightarrow> action_policy \<Rightarrow> action_reason list" where
  "age_rejections c p = (let now = pac_as_of c; max_age = pap_max_component_age p in
     (if \<not> age_valid (pmo_available_at (pac_management c)) now (pap_max_outcome_age p)
      then [AR_MANAGEMENT_OUTCOME_STALE] else [])
     @ (if \<not> state_fresh (ac_freshness (pac_account c)) (ac_as_of (pac_account c)) now max_age
        then [AR_ACCOUNT_NOT_FRESH] else [])
     @ (if \<not> freshness_valid (pac_position_freshness c) now max_age then [AR_POSITION_NOT_FRESH] else [])
     @ (if \<not> state_fresh (bc_freshness (pac_broker c)) (bc_as_of (pac_broker c)) now max_age
        then [AR_BROKER_CONSTRAINTS_NOT_FRESH] else [])
     @ (if \<not> age_valid (rp_available_at (pac_reconciliation c)) now max_age
           \<or> \<not> age_valid (rd_as_of (pac_readiness c)) now max_age
        then [AR_RECONCILIATION_NOT_FRESH] else []))"

definition exact_match_finding :: "action_context \<Rightarrow> position_state \<Rightarrow> bool" where
  "exact_match_finding c q \<longleftrightarrow> list_ex (\<lambda>f. fd_kind f = RCK_MATCHED \<and> fd_status f = RESOLVED
     \<and> fd_intent_id f = Some (xi_id (pac_intent c)) \<and> fd_object_id f = Some (pos_id q)
     \<and> (fd_ticket f = None \<or> fd_ticket f = pos_broker_ticket q)) (rp_findings (pac_reconciliation c))"

definition volume_matches :: "action_context \<Rightarrow> action_policy \<Rightarrow> position_state \<Rightarrow> bool" where
  "volume_matches c p q \<longleftrightarrow> opt_some (\<lambda>v. isclose (pos_volume_lots q) v (Fin 0) (pap_volume_tolerance p))
     (xe_filled_volume (pac_result c))"

definition position_rejections ::
  "action_context \<Rightarrow> action_policy \<Rightarrow> action_type \<Rightarrow> position_state \<Rightarrow> action_reason list" where
  "position_rejections c p a q =
     (if pmo_position_id (pac_management c) \<noteq> Some (pos_id q) then [AR_POSITION_SNAPSHOT_CHANGED] else [])
     @ (if a = PA_MODIFY_STOP \<and> \<not> same_optional_price (pmo_stop_loss (pac_management c)) (pos_stop_loss q)
        then [AR_CURRENT_STOP_CHANGED] else [])
     @ (if bl_object_id (pac_link c) \<noteq> pos_id q then [AR_POSITION_SNAPSHOT_CHANGED] else [])
     @ (if \<not> volume_matches c p q then [AR_VOLUME_MISMATCH] else [])
     @ (if \<not> exact_match_finding c q then [AR_RECONCILIATION_POSITION_STALE] else [])
     @ (if bc_trade_allowed (pac_broker c) \<noteq> Some True then [AR_BROKER_TRADING_DISABLED] else [])
     @ (if a = PA_MODIFY_STOP \<and> \<not> state_fresh (ms_freshness (pac_market c)) (ms_as_of (pac_market c))
             (pac_as_of c) (pap_max_component_age p)
        then [AR_MARKET_PRICE_NOT_FRESH] else [])"

definition common_safety_reasons ::
  "action_context \<Rightarrow> action_policy \<Rightarrow> action_type \<Rightarrow> action_reason list \<times> action_reason list" where
  "common_safety_reasons c p a = (case pac_position c of
     None \<Rightarrow> (dedup (runtime_emergencies c p), dedup (age_rejections c p @ [AR_POSITION_MISSING]))
   | Some q \<Rightarrow> (dedup (runtime_emergencies c p @ identity_emergencies c q),
       dedup (age_rejections c p @ position_rejections c p a q)))"

subsection \<open>The protective stop\<close>

definition stop_direction_reasons ::
  "action_context \<Rightarrow> action_policy \<Rightarrow> position_state \<Rightarrow> f64 \<Rightarrow> action_reason list" where
  "stop_direction_reasons c p q requested = (case pos_stop_loss q of
     None \<Rightarrow>
       (if \<not> pap_allow_missing_stop p then [AR_MISSING_STOP_NOT_ALLOWED] else [])
       @ (let original = xi_stop_price (pac_intent c) in
          if \<not> (pos_side q = PS_BUY \<and> fle original requested \<or> pos_side q = PS_SELL \<and> fle requested original)
          then [AR_PROTECTION_EXCEEDS_ORIGINAL_RISK] else [])
   | Some old \<Rightarrow>
       (if \<not> (pos_side q = PS_BUY \<and> flt old requested \<or> pos_side q = PS_SELL \<and> flt requested old)
        then [AR_PROTECTION_NOT_RISK_REDUCING] else []))"

definition stop_distance_reasons ::
  "position_side \<Rightarrow> f64 \<Rightarrow> f64 \<Rightarrow> f64 \<Rightarrow> action_reason list" where
  "stop_distance_reasons side normalized current required =
     (if \<not> (side = PS_BUY \<and> flt normalized current \<or> side = PS_SELL \<and> flt current normalized)
      then [AR_BROKER_STOP_DIRECTION_INVALID] else [])
     @ (let actual = (if side = PS_BUY then fsub current normalized else fsub normalized current) in
        if flt (fadd actual (lit (1 / 10 ^ 12))) required then [AR_BROKER_STOP_DISTANCE_VIOLATION] else [])"

definition current_price :: "action_context \<Rightarrow> position_state \<Rightarrow> f64 option" where
  "current_price c q = (if pos_side q = PS_BUY then ms_bid (pac_market c) else ms_ask (pac_market c))"

definition validate_protective_stop ::
  "action_context \<Rightarrow> action_policy \<Rightarrow> position_state \<Rightarrow> (f64 option \<times> action_reason list) res" where
  "validate_protective_stop c p q = (case pmo_requested_stop (pac_management c) of
     None \<Rightarrow> Inr (None, [AR_SAFE_NORMALIZATION_IMPOSSIBLE])
   | Some requested \<Rightarrow>
       let reasons = (if \<not> same_optional_price (pmo_stop_loss (pac_management c)) (pos_stop_loss q)
                      then [AR_CURRENT_STOP_CHANGED] else [])
                     @ stop_direction_reasons c p q requested in
       (case (bc_point_size (pac_broker c), bc_tick_size (pac_broker c),
              bc_stops_level_points (pac_broker c), bc_freeze_level_points (pac_broker c)) of
          (Some point, Some tick, Some stops, Some freeze) \<Rightarrow>
            res_bind (risk_reducing_normalize requested tick (nat (pac_symbol_digits c)) (pos_side q)
                (pap_allow_normalization p)) (\<lambda>normalized.
            Inr (case normalized of
               None \<Rightarrow> (None, dedup (reasons @ [AR_SAFE_NORMALIZATION_IMPOSSIBLE]))
             | Some n \<Rightarrow>
                 (case current_price c q of
                    None \<Rightarrow> (None, dedup (reasons @ [AR_MARKET_PRICE_NOT_FRESH]))
                  | Some current \<Rightarrow> (Some n, dedup (reasons
                      @ stop_distance_reasons (pos_side q) n current (fmul (pymax stops freeze) point))))))
        | _ \<Rightarrow> Inr (None, dedup (reasons @ [AR_BROKER_CONSTRAINTS_UNAVAILABLE]))))"

subsection \<open>Evaluation and intent\<close>

definition safety_of ::
  "action_context \<Rightarrow> action_policy \<Rightarrow> safety_result \<Rightarrow> action_type \<Rightarrow> action_reason list \<Rightarrow> string
     \<Rightarrow> f64 option \<Rightarrow> f64 option \<Rightarrow> safety_outcome" where
  "safety_of c p result action reasons rationale stop volume =
     \<lparr>pas_id = [], pas_policy_id = pap_id p, pas_context_id = pac_id c,
      pas_management_id = pmo_id (pac_management c), pas_position_id = map_option pos_id (pac_position c),
      pas_result = result, pas_action = action, pas_reasons = dedup reasons,
      pas_eligible = (result = SR_PASS), pas_stop = stop, pas_close_volume = volume,
      pas_as_of = pac_as_of c, pas_available_at = pac_available_at c, pas_rationale = rationale\<rparr>"

definition evaluate_passed ::
  "(safety_outcome \<Rightarrow> string) \<Rightarrow> action_context \<Rightarrow> action_policy \<Rightarrow> action_type \<Rightarrow> position_state
     \<Rightarrow> safety_outcome res" where
  "evaluate_passed h c p action q =
     (if action = PA_CLOSE then
        mk_safety_outcome h (safety_of c p SR_PASS action [AR_CLOSE_POSITION_SAFE]
          ''The exact-linked authoritative position is safe for a full close intent.''
          None (Some (pos_volume_lots q)))
      else res_bind (validate_protective_stop c p q) (\<lambda>(normalized, reasons).
        if reasons \<noteq> [] then
          mk_safety_outcome h (safety_of c p SR_REJECT action reasons
            ''The protective-stop request failed action-time broker safety checks.'' None None)
        else if normalized = None then Inl AssertionError
        else mk_safety_outcome h (safety_of c p SR_PASS action [AR_MODIFY_PROTECTIVE_STOP_SAFE]
            ''The exact-linked protective stop is monotonic and broker-valid.'' normalized None)))"

definition evaluate_position_action_safety ::
  "(safety_outcome \<Rightarrow> string) \<Rightarrow> action_context \<Rightarrow> action_policy \<Rightarrow> safety_outcome res" where
  "evaluate_position_action_safety h c p =
     (if \<not> actionable_result (pmo_result (pac_management c)) then
        mk_safety_outcome h (safety_of c p SR_NO_ACTION PA_NO_ACTION [AR_MANAGEMENT_DID_NOT_REQUEST_ACTION]
          ''Position Management requested no transportable position action.'' None None)
      else let action = (if pmo_result (pac_management c) = MR_PROTECT_POSITION then PA_MODIFY_STOP else PA_CLOSE);
               emergency = fst (common_safety_reasons c p action);
               rejected = snd (common_safety_reasons c p action) in
        if emergency \<noteq> [] then
          mk_safety_outcome h (safety_of c p SR_EMERGENCY_BLOCK action (emergency @ rejected)
            ''Hard recovery or identity safety invariants block this position action.'' None None)
        else if rejected \<noteq> [] then
          mk_safety_outcome h (safety_of c p SR_REJECT action rejected
            ''Current authoritative state does not safely support this position action.'' None None)
        else (case pac_position c of
            None \<Rightarrow> Inl AssertionError
          | Some q \<Rightarrow> evaluate_passed h c p action q))"

definition binds_context :: "action_context \<Rightarrow> safety_outcome \<Rightarrow> position_state \<Rightarrow> bool" where
  "binds_context c s q \<longleftrightarrow> pas_context_id s = pac_id c \<and> pas_management_id s = pmo_id (pac_management c) \<and>
     pas_policy_id s = pac_policy_id c \<and> pas_position_id s = Some (pos_id q)"

definition action_intent_of :: "action_context \<Rightarrow> safety_outcome \<Rightarrow> position_state \<Rightarrow> action_intent" where
  "action_intent_of c s q =
     \<lparr>pai_id = [], pai_policy_id = pas_policy_id s, pai_safety_id = pas_id s,
      pai_management_id = pmo_id (pac_management c), pai_position_id = pos_id q,
      pai_broker_ticket = pos_broker_ticket q, pai_intent_id = xi_id (pac_intent c),
      pai_result_id = xe_id (pac_result c), pai_link_id = bl_id (pac_link c),
      pai_report_id = rp_id (pac_reconciliation c), pai_readiness_id = rd_id (pac_readiness c),
      pai_setup_id = xi_setup_id (pac_intent c), pai_thesis_id = xi_thesis_id (pac_intent c),
      pai_scenario_id = xi_scenario_id (pac_intent c), pai_action = pas_action s,
      pai_symbol = pos_symbol q, pai_side = pos_side q, pai_volume = pos_volume_lots q,
      pai_close_volume = pas_close_volume s, pai_old_stop = pos_stop_loss q,
      pai_new_stop = pas_stop s, pai_reasons = pas_reasons s, pai_as_of = pas_as_of s,
      pai_available_at = pas_available_at s\<rparr>"

definition build_position_action_intent ::
  "(action_intent \<Rightarrow> string) \<Rightarrow> action_context \<Rightarrow> safety_outcome \<Rightarrow> action_intent option res" where
  "build_position_action_intent h c s =
     (if pas_result s \<noteq> SR_PASS then Inr None
      else case pac_position c of
        Some q \<Rightarrow>
          if binds_context c s q
          then res_bind (mk_action_intent h (action_intent_of c s q)) (\<lambda>i. Inr (Some i))
          else Inl (ValueError ''safety outcome does not bind this exact position-action context'')
      | None \<Rightarrow> Inl (ValueError ''safety outcome does not bind this exact position-action context''))"

subsection \<open>What a pass stands for\<close>

text \<open>The specification of a position whose identity and state may be acted on.\<close>

definition identity_exact :: "action_context \<Rightarrow> position_state \<Rightarrow> bool" where
  "identity_exact c q \<longleftrightarrow> (let m = pac_management c; i = pac_intent c; r = pac_result c; l = pac_link c in
     bl_object_kind l = BK_POSITION \<and> bl_object_id l = pos_id q \<and> pmo_position_id m = Some (pos_id q) \<and>
     bl_intent_id l = xi_id i \<and> xe_intent_id r = xi_id i \<and> bl_transport_id l = xe_transport_id r \<and>
     pmo_intent_id m = Some (xi_id i) \<and> pmo_result_id m = Some (xe_id r) \<and>
     \<not> tickets_conflict [bl_ticket l, xe_broker_ticket r, pos_broker_ticket q] \<and>
     pmo_side m = Some (pos_side q) \<and> xe_direction r = xi_direction i \<and>
     pos_side q = expected_side (xi_direction i) \<and>
     pmo_setup_id m = Some (xi_setup_id i) \<and> pos_setup_id q = Some (xi_setup_id i) \<and> xe_setup_id r = xi_setup_id i \<and>
     pmo_thesis_id m = Some (xi_thesis_id i) \<and> pos_thesis_id q = Some (xi_thesis_id i) \<and>
     xe_thesis_id r = xi_thesis_id i \<and> pmo_scenario_id m = xi_scenario_id i \<and> xe_scenario_id r = xi_scenario_id i \<and>
     pos_symbol q = xi_symbol i \<and> xe_symbol r = xi_symbol i \<and>
     bc_symbol (pac_broker c) = pos_symbol q \<and> ms_symbol (pac_market c) = pos_symbol q)"

definition action_state_safe :: "action_context \<Rightarrow> action_policy \<Rightarrow> bool" where
  "action_state_safe c p \<longleftrightarrow> (let now = pac_as_of c; max_age = pap_max_component_age p in
     pac_policy_id c = pap_id p \<and> \<not> pac_kill_switch c \<and> rd_status (pac_readiness c) = RSM_SAFE \<and>
     rp_status (pac_reconciliation c) = RESOLVED \<and> xe_status (pac_result c) \<noteq> XS_UNKNOWN \<and>
     age_valid (pmo_available_at (pac_management c)) now (pap_max_outcome_age p) \<and>
     state_fresh (ac_freshness (pac_account c)) (ac_as_of (pac_account c)) now max_age \<and>
     freshness_valid (pac_position_freshness c) now max_age \<and>
     state_fresh (bc_freshness (pac_broker c)) (bc_as_of (pac_broker c)) now max_age \<and>
     age_valid (rp_available_at (pac_reconciliation c)) now max_age \<and>
     age_valid (rd_as_of (pac_readiness c)) now max_age \<and> bc_trade_allowed (pac_broker c) = Some True)"

definition stop_state_safe :: "action_context \<Rightarrow> action_policy \<Rightarrow> position_state \<Rightarrow> bool" where
  "stop_state_safe c p q \<longleftrightarrow> same_optional_price (pmo_stop_loss (pac_management c)) (pos_stop_loss q) \<and>
     state_fresh (ms_freshness (pac_market c)) (ms_as_of (pac_market c)) (pac_as_of c) (pap_max_component_age p)"

lemma identity_emergencies_Nil_iff:
  "identity_emergencies c q = [] \<and> bl_object_id (pac_link c) = pos_id q \<and>
     pmo_position_id (pac_management c) = Some (pos_id q) \<longleftrightarrow> identity_exact c q"
  unfolding identity_emergencies_def identity_exact_def Let_def by auto

lemma common_reasons_Nil_iff:
  "common_safety_reasons c p a = ([], []) \<longleftrightarrow>
     (\<exists>q. pac_position c = Some q \<and> identity_exact c q \<and> action_state_safe c p \<and> volume_matches c p q \<and>
        exact_match_finding c q \<and> (a = PA_MODIFY_STOP \<longrightarrow> stop_state_safe c p q))"
proof (cases "pac_position c")
  case (Some q)
  have "runtime_emergencies c p = [] \<and> age_rejections c p = [] \<and> bc_trade_allowed (pac_broker c) = Some True
      \<longleftrightarrow> action_state_safe c p"
    unfolding runtime_emergencies_def age_rejections_def action_state_safe_def Let_def by auto
  moreover have "position_rejections c p a q = [] \<longleftrightarrow> pmo_position_id (pac_management c) = Some (pos_id q) \<and>
      bl_object_id (pac_link c) = pos_id q \<and> volume_matches c p q \<and> exact_match_finding c q \<and>
      bc_trade_allowed (pac_broker c) = Some True \<and> (a = PA_MODIFY_STOP \<longrightarrow> stop_state_safe c p q)"
    unfolding position_rejections_def stop_state_safe_def by auto
  ultimately show ?thesis
    using identity_emergencies_Nil_iff[of c q] Some by (auto simp: common_safety_reasons_def)
qed (simp add: common_safety_reasons_def)

lemma safety_fields:
  assumes "mk_safety_outcome h (safety_of c p result action reasons rationale stop volume) = Inr s"
  shows "\<exists>i. s = (safety_of c p result action reasons rationale stop volume)\<lparr>pas_id := i\<rparr> \<and> i \<noteq> []"
  using assms by (auto simp: mk_safety_outcome_def res_bind_Inr_iff validate_Inr_iff content_id_def
      safety_outcome_identity.bind_ok_iff)

lemma safety_of_simps [simp]:
  "pas_result (safety_of c p result action reasons rationale stop volume) = result"
  "pas_action (safety_of c p result action reasons rationale stop volume) = action"
  "pas_stop (safety_of c p result action reasons rationale stop volume) = stop"
  "pas_close_volume (safety_of c p result action reasons rationale stop volume) = volume"
  by (simp_all add: safety_of_def)

lemma refused_fields:
  "mk_safety_outcome h (safety_of c p result action reasons rationale stop volume) = Inr s \<Longrightarrow> pas_result s = result"
  by (auto dest!: safety_fields)

text \<open>The stop a modification may carry, as the broker and the risk rules see it.\<close>

definition stop_improves :: "action_context \<Rightarrow> action_policy \<Rightarrow> position_state \<Rightarrow> f64 \<Rightarrow> bool" where
  "stop_improves c p q requested \<longleftrightarrow> (case pos_stop_loss q of
     Some old \<Rightarrow> (if pos_side q = PS_BUY then flt old requested else flt requested old)
   | None \<Rightarrow> pap_allow_missing_stop p \<and>
       (if pos_side q = PS_BUY then fle (xi_stop_price (pac_intent c)) requested
        else fle requested (xi_stop_price (pac_intent c))))"

definition broker_accepts_stop :: "action_context \<Rightarrow> position_state \<Rightarrow> f64 \<Rightarrow> bool" where
  "broker_accepts_stop c q stop \<longleftrightarrow> (\<exists>current point stops freeze. current_price c q = Some current \<and>
     bc_point_size (pac_broker c) = Some point \<and> bc_stops_level_points (pac_broker c) = Some stops \<and>
     bc_freeze_level_points (pac_broker c) = Some freeze \<and>
     (let required = fmul (pymax stops freeze) point in
      if pos_side q = PS_BUY
      then flt stop current \<and> \<not> flt (fadd (fsub current stop) (lit (1 / 10 ^ 12))) required
      else flt current stop \<and> \<not> flt (fadd (fsub stop current) (lit (1 / 10 ^ 12))) required))"

definition on_tick_grid :: "action_context \<Rightarrow> f64 \<Rightarrow> bool" where
  "on_tick_grid c stop \<longleftrightarrow> (\<exists>tick k n. bc_tick_size (pac_broker c) = Some (Fin tick) \<and>
     n = of_int k * str_value tick \<and> (\<exists>j. n = of_int j / 10 ^ nat (pac_symbol_digits c)) \<and> stop = rnd n)"

lemma normalize_Some:
  assumes "risk_reducing_normalize requested tick digits side enabled = Inr (Some r)"
  shows "safe_direction side r requested" "is_fin r" "is_f64 r"
    "\<exists>t k n. tick = Fin t \<and> n = of_int k * str_value t \<and> (\<exists>j. n = of_int j / 10 ^ digits) \<and> r = rnd n"
proof -
  obtain x t where xt: "requested = Fin x" "tick = Fin t"
    using assms by (cases requested; cases tick) (auto simp: risk_reducing_normalize_def)
  then obtain n where n: "normalized_decimal (str_value x) (str_value t) digits side = Inr n"
      "dec_indivisible n (str_value t) = Inr False" "safe_direction side (rnd n) requested" "is_fin (rnd n)" "r = rnd n"
    using assms by (auto simp: risk_reducing_normalize_def res_bind_Inr_iff split: if_split_asm)
  then show "safe_direction side r requested" "is_fin r" "is_f64 r" by simp_all
  have "\<exists>j. n = of_int j / 10 ^ digits"
    using n(1) dec_quantize_Inr unfolding normalized_decimal_def Let_def by blast
  with dec_divisible[OF n(2)] xt n(5)
  show "\<exists>t k n. tick = Fin t \<and> n = of_int k * str_value t \<and> (\<exists>j. n = of_int j / 10 ^ digits) \<and> r = rnd n"
    by blast
qed

lemma valid_stop:
  assumes "validate_protective_stop c p q = Inr (Some n, [])"
  shows "\<exists>requested. pmo_requested_stop (pac_management c) = Some requested \<and> stop_improves c p q requested \<and>
    safe_direction (pos_side q) n requested \<and> is_fin n \<and> is_f64 n \<and> broker_accepts_stop c q n \<and> on_tick_grid c n"
proof -
  obtain requested where r: "pmo_requested_stop (pac_management c) = Some requested"
    using assms by (cases "pmo_requested_stop (pac_management c)") (auto simp: validate_protective_stop_def)
  then obtain point tick stops freeze where b: "bc_point_size (pac_broker c) = Some point"
      "bc_tick_size (pac_broker c) = Some tick" "bc_stops_level_points (pac_broker c) = Some stops"
      "bc_freeze_level_points (pac_broker c) = Some freeze"
    using assms by (auto simp: validate_protective_stop_def Let_def split: option.split_asm)
  obtain current where cur: "current_price c q = Some current"
      "risk_reducing_normalize requested tick (nat (pac_symbol_digits c)) (pos_side q) (pap_allow_normalization p) = Inr (Some n)"
      "stop_direction_reasons c p q requested = []"
      "stop_distance_reasons (pos_side q) n current (fmul (pymax stops freeze) point) = []"
    using assms r b by (auto simp: validate_protective_stop_def Let_def res_bind_Inr_iff split: option.split_asm)
  have "stop_improves c p q requested"
    using cur(3) by (cases "pos_side q"; cases "pos_stop_loss q")
      (auto simp: stop_direction_reasons_def stop_improves_def Let_def split: if_split_asm)
  moreover have "broker_accepts_stop c q n"
    using cur(1,4) b by (cases "pos_side q")
      (auto simp: stop_distance_reasons_def broker_accepts_stop_def Let_def split: if_split_asm)
  moreover have "on_tick_grid c n"
    using normalize_Some(4)[OF cur(2)] b(2) unfolding on_tick_grid_def by blast
  ultimately show ?thesis using r normalize_Some(1-3)[OF cur(2)] by blast
qed

subsection \<open>The chain is total\<close>

text \<open>A contract instance that validates to itself, under some digest.\<close>

definition validated :: "(('r \<Rightarrow> string) \<Rightarrow> 'r \<Rightarrow> 'r res) \<Rightarrow> 'r \<Rightarrow> bool" where
  "validated mk r \<longleftrightarrow> (\<exists>h. mk h r = Inr r)"

definition action_inputs_valid :: "action_context \<Rightarrow> action_policy \<Rightarrow> bool" where
  "action_inputs_valid c p \<longleftrightarrow> validated mk_action_context c \<and> validated mk_action_policy p \<and>
     validated mk_management_outcome (pac_management c) \<and> opt_all (validated mk_position_state) (pac_position c) \<and>
     validated mk_execution_intent (pac_intent c) \<and> validated mk_execution_result (pac_result c) \<and>
     validated mk_broker_intent_link (pac_link c) \<and> validated mk_reconciliation_report (pac_reconciliation c) \<and>
     validated mk_resume_readiness (pac_readiness c) \<and> mk_market_state (pac_market c) = Inr (pac_market c)"

lemma bound_id_nonempty:
  assumes "res_bind (validate rules r) (bind_identity pre h blank gid sid msg) = Inr r" "pre \<noteq> []"
    and "\<And>i r. gid (sid i r) = i"
  shows "gid r \<noteq> []"
proof -
  have "bind_identity pre h blank gid sid msg r = Inr r"
    using assms(1) by (auto simp: res_bind_Inr_iff validate_Inr_iff)
  then have "r = sid (content_id pre h (blank r)) r"
    by (auto simp: bind_identity_def Let_def split: if_split_asm)
  then have "gid r = content_id pre h (blank r)" using assms(3) by metis
  then show ?thesis using assms(2) by (simp add: content_id_def)
qed

definition action_ready :: "action_context \<Rightarrow> action_policy \<Rightarrow> bool" where
  "action_ready c p \<longleftrightarrow> pac_available_at c \<le> pac_as_of c \<and> pac_id c \<noteq> [] \<and> pap_id p \<noteq> [] \<and>
     pmo_id (pac_management c) \<noteq> [] \<and> opt_all pos_fin (pmo_requested_stop (pac_management c)) \<and>
     opt_all (\<lambda>q. pos_id q \<noteq> [] \<and> pos_symbol q \<noteq> [] \<and> pos_fin (pos_volume_lots q) \<and>
       opt_all pos_fin (pos_stop_loss q) \<and> opt_all (\<lambda>t. 0 < t) (pos_broker_ticket q)) (pac_position c) \<and>
     xi_id (pac_intent c) \<noteq> [] \<and> xi_setup_id (pac_intent c) \<noteq> [] \<and> xi_thesis_id (pac_intent c) \<noteq> [] \<and>
     xe_id (pac_result c) \<noteq> [] \<and> bl_id (pac_link c) \<noteq> [] \<and> rp_id (pac_reconciliation c) \<noteq> [] \<and>
     rd_id (pac_readiness c) \<noteq> [] \<and> opt_all pos_fin (ms_ask (pac_market c)) \<and> opt_all pos_fin (ms_bid (pac_market c))"

lemma inputs_ready:
  assumes "action_inputs_valid c p"
  shows "action_ready c p"
proof -
  have v: "validated mk_action_context c"
      "validated mk_action_policy p"
      "validated mk_management_outcome (pac_management c)"
      "validated mk_execution_intent (pac_intent c)"
      "validated mk_execution_result (pac_result c)"
      "validated mk_broker_intent_link (pac_link c)"
      "validated mk_reconciliation_report (pac_reconciliation c)"
      "validated mk_resume_readiness (pac_readiness c)"
    using assms by (simp_all only: action_inputs_valid_def)
  have id1: "pac_id c \<noteq> []"
    using v(1) unfolding validated_def mk_action_context_def by (elim exE) (erule bound_id_nonempty[where gid = pac_id], simp_all)
  have id2: "pap_id p \<noteq> []"
    using v(2) unfolding validated_def mk_action_policy_def by (elim exE) (erule bound_id_nonempty[where gid = pap_id], simp_all)
  have id3: "pmo_id (pac_management c) \<noteq> []"
    using v(3) unfolding validated_def mk_management_outcome_def by (elim exE) (erule bound_id_nonempty[where gid = pmo_id], simp_all)
  have id4: "xi_id (pac_intent c) \<noteq> []"
    using v(4) unfolding validated_def mk_execution_intent_def by (elim exE) (erule bound_id_nonempty[where gid = xi_id], simp_all)
  have id5: "xe_id (pac_result c) \<noteq> []"
    using v(5) unfolding validated_def mk_execution_result_def by (elim exE) (erule bound_id_nonempty[where gid = xe_id], simp_all)
  have id6: "bl_id (pac_link c) \<noteq> []"
    using v(6) unfolding validated_def mk_broker_intent_link_def by (elim exE) (erule bound_id_nonempty[where gid = bl_id], simp_all)
  have id7: "rp_id (pac_reconciliation c) \<noteq> []"
    using v(7) unfolding validated_def mk_reconciliation_report_def by (elim exE) (erule bound_id_nonempty[where gid = rp_id], simp_all)
  have id8: "rd_id (pac_readiness c) \<noteq> []"
    using v(8) unfolding validated_def mk_resume_readiness_def by (elim exE) (erule bound_id_nonempty[where gid = rd_id], simp_all)
  note ids = id1 id2 id3 id4 id5 id6 id7 id8
  have position: "opt_all (\<lambda>q. pos_id q \<noteq> [] \<and> pos_symbol q \<noteq> [] \<and> pos_fin (pos_volume_lots q) \<and>
       opt_all pos_fin (pos_stop_loss q) \<and> opt_all (\<lambda>t. 0 < t) (pos_broker_ticket q)) (pac_position c)"
  proof (cases "pac_position c")
    case (Some q)
    then obtain h where h: "mk_position_state h q = Inr q"
      using assms by (auto simp: action_inputs_valid_def validated_def)
    then have "pos_id q \<noteq> []" unfolding mk_position_state_def by (rule bound_id_nonempty) simp_all
    then show ?thesis using h Some by (auto simp: mk_position_state_def res_bind_Inr_iff validate_Inr_iff)
  qed simp
  have "pac_available_at c \<le> pac_as_of c"
    using v(1) by (auto simp: validated_def mk_action_context_def action_context_rules_def res_bind_Inr_iff validate_Inr_iff)
  moreover have "opt_all pos_fin (pmo_requested_stop (pac_management c))"
    using v(3) by (auto simp: validated_def mk_management_outcome_def management_outcome_rules_def res_bind_Inr_iff
        validate_Inr_iff)
  moreover have "xi_setup_id (pac_intent c) \<noteq> []" "xi_thesis_id (pac_intent c) \<noteq> []"
    using v(4) by (auto simp: validated_def mk_execution_intent_def execution_intent_rules_def res_bind_Inr_iff
        validate_Inr_iff)
  moreover have "opt_all pos_fin (ms_ask (pac_market c))" "opt_all pos_fin (ms_bid (pac_market c))"
    using assms by (simp_all add: action_inputs_valid_def mk_market_state_def validate_Inr_iff)
  ultimately show ?thesis using ids position unfolding action_ready_def by blast
qed

lemma safety_ok:
  assumes "action_ready c p" "reasons \<noteq> []" "rationale \<noteq> []" "length rationale \<le> 500"
    and "result = SR_NO_ACTION \<longleftrightarrow> action = PA_NO_ACTION" "opt_all pos_fin stop" "opt_all pos_fin volume"
    and "stop \<noteq> None \<Longrightarrow> action = PA_MODIFY_STOP" "volume \<noteq> None \<Longrightarrow> action = PA_CLOSE"
    and "result = SR_PASS \<Longrightarrow> (action = PA_MODIFY_STOP \<longrightarrow> stop \<noteq> None) \<and> (action = PA_CLOSE \<longrightarrow> volume \<noteq> None)"
  shows "\<exists>s. mk_safety_outcome h (safety_of c p result action reasons rationale stop volume) = Inr s"
proof -
  have "list_all fst (safety_outcome_rules (safety_of c p result action reasons rationale stop volume))"
    using assms
    by (cases action; cases stop; cases volume) (auto simp: safety_outcome_rules_def safety_action_rules_def safety_of_def action_ready_def Suc_le_eq)
  moreover have "pas_id (safety_of c p result action reasons rationale stop volume) = []" by (simp add: safety_of_def)
  ultimately show ?thesis
    by (simp add: mk_safety_outcome_def validate_ok safety_outcome_identity.bind_fresh)
qed

text \<open>A passed stop is a positive price, strictly tighter than the position's stop.\<close>

lemma improved_stop:
  assumes "stop_improves c p q requested" "safe_direction (pos_side q) stop requested" "pos_stop_loss q = Some old"
  shows "if pos_side q = PS_BUY then flt old stop else flt stop old"
  using assms by (auto simp: stop_improves_def safe_direction_def intro: flt_fle_trans fle_flt_trans split: if_split_asm)

lemma stop_positive:
  assumes "action_ready c p" "pmo_requested_stop (pac_management c) = Some requested"
    and "safe_direction (pos_side q) stop requested" "is_fin stop" "is_f64 stop" "broker_accepts_stop c q stop"
  shows "pos_fin stop"
proof (cases "pos_side q")
  case PS_BUY
  then have "fle requested stop" "pos_fin requested"
    using assms by (simp_all add: safe_direction_def action_ready_def)
  then show ?thesis using assms(4,5) by (auto simp: pos_fin_def intro: flt_fle_trans)
next
  case PS_SELL
  then obtain current where "ms_ask (pac_market c) = Some current" "flt current stop"
    using assms(6) by (auto simp: broker_accepts_stop_def current_price_def Let_def)
  moreover have "pos_fin current" using assms(1) calculation by (simp add: action_ready_def)
  ultimately show ?thesis using assms(4,5) by (auto simp: pos_fin_def intro: flt_trans)
qed

lemma validate_stop_reasons:
  assumes "validate_protective_stop c p q = Inr (n, rs)"
  shows "rs \<noteq> [] \<or> (\<exists>v. n = Some v \<and> validate_protective_stop c p q = Inr (Some v, []))"
  using assms by (cases n; cases rs)
    (auto simp: validate_protective_stop_def Let_def res_bind_Inr_iff split: option.split_asm)

lemma evaluate_passed_cases:
  assumes "action_ready c p" "pac_position c = Some q" "action \<noteq> PA_NO_ACTION"
  shows "(\<exists>s. evaluate_passed h c p action q = Inr s) \<or>
    action = PA_MODIFY_STOP \<and> evaluate_passed h c p action q = Inl InvalidOperation"
proof (cases "action = PA_CLOSE")
  case True
  have "pos_fin (pos_volume_lots q)" using assms(1,2) by (simp add: action_ready_def)
  then have "\<exists>s. mk_safety_outcome h (safety_of c p SR_PASS PA_CLOSE [AR_CLOSE_POSITION_SAFE]
      ''The exact-linked authoritative position is safe for a full close intent.'' None (Some (pos_volume_lots q))) = Inr s"
    by (intro safety_ok[OF assms(1)]) simp_all
  with True show ?thesis by (simp add: evaluate_passed_def)
next
  case False
  then have action: "action = PA_MODIFY_STOP" using assms(3) by (cases action) auto
  show ?thesis
  proof (cases "validate_protective_stop c p q")
    case (Inl e)
    then have "e = InvalidOperation"
      by (auto simp: validate_protective_stop_def Let_def res_bind_Inl_iff risk_reducing_normalize_def
          normalized_decimal_def dec_quantize_def dec_indivisible_def altered_value_def
          split: option.split_asm f64.split_asm if_split_asm)
    with Inl action show ?thesis by (simp add: evaluate_passed_def)
  next
    case (Inr nr)
    obtain n rs where nr: "nr = (n, rs)" by fastforce
    have reject: "rs \<noteq> [] \<Longrightarrow> \<exists>s. mk_safety_outcome h (safety_of c p SR_REJECT PA_MODIFY_STOP rs
        ''The protective-stop request failed action-time broker safety checks.'' None None) = Inr s"
      by (intro safety_ok[OF assms(1)]) simp_all
    have pass: "\<exists>s. mk_safety_outcome h (safety_of c p SR_PASS PA_MODIFY_STOP [AR_MODIFY_PROTECTIVE_STOP_SAFE]
        ''The exact-linked protective stop is monotonic and broker-valid.'' (Some v) None) = Inr s"
      if "validate_protective_stop c p q = Inr (Some v, [])" for v
    proof -
      have "pos_fin v" using valid_stop[OF that] stop_positive[OF assms(1)] by blast
      then show ?thesis by (intro safety_ok[OF assms(1)]) simp_all
    qed
    from validate_stop_reasons[of c p q n rs] Inr nr consider "rs \<noteq> []"
      | v where "n = Some v" "rs = []" "validate_protective_stop c p q = Inr (Some v, [])"
      by auto
    then show ?thesis
    proof cases
      case 1
      then show ?thesis using reject Inr nr action by (simp add: evaluate_passed_def)
    next
      case (2 v)
      then show ?thesis using pass[OF 2(3)] action by (simp add: evaluate_passed_def)
    qed
  qed
qed

lemma evaluate_safety_cases:
  assumes "action_ready c p"
  shows "(\<exists>s. evaluate_position_action_safety h c p = Inr s) \<or>
    pmo_result (pac_management c) = MR_PROTECT_POSITION \<and>
    evaluate_position_action_safety h c p = Inl InvalidOperation"
proof (cases "actionable_result (pmo_result (pac_management c))")
  case False
  have "\<exists>s. mk_safety_outcome h (safety_of c p SR_NO_ACTION PA_NO_ACTION [AR_MANAGEMENT_DID_NOT_REQUEST_ACTION]
      ''Position Management requested no transportable position action.'' None None) = Inr s"
    by (rule safety_ok[OF assms]) simp_all
  with False show ?thesis by (simp add: evaluate_position_action_safety_def)
next
  case True
  define a where "a = (if pmo_result (pac_management c) = MR_PROTECT_POSITION then PA_MODIFY_STOP else PA_CLOSE)"
  have a: "a \<noteq> PA_NO_ACTION" "a = PA_MODIFY_STOP \<Longrightarrow> pmo_result (pac_management c) = MR_PROTECT_POSITION"
    by (auto simp: a_def split: if_split_asm)
  have refuse: "\<exists>s. mk_safety_outcome h (safety_of c p r a rs t None None) = Inr s"
    if "rs \<noteq> []" "r \<in> {SR_REJECT, SR_EMERGENCY_BLOCK}" "t \<noteq> []" "length t \<le> 500" for r rs t
    by (rule safety_ok[OF assms]) (use that a(1) in auto)
  show ?thesis
  proof (cases "pac_position c")
    case None
    then have "snd (common_safety_reasons c p a) \<noteq> []" by (simp add: common_safety_reasons_def)
    with True show ?thesis
      by (simp add: evaluate_position_action_safety_def Let_def a_def[symmetric] refuse)
  next
    case (Some q)
    with True a(2) evaluate_passed_cases[OF assms Some a(1), of h] show ?thesis
      by (auto simp: evaluate_position_action_safety_def Let_def a_def[symmetric] refuse)
  qed
qed

lemma passed_cases:
  assumes "evaluate_position_action_safety h c p = Inr s" "pas_result s = SR_PASS"
  obtains q action where "pac_position c = Some q" "common_safety_reasons c p action = ([], [])"
    "action = (if pmo_result (pac_management c) = MR_PROTECT_POSITION then PA_MODIFY_STOP else PA_CLOSE)"
    "actionable_result (pmo_result (pac_management c))" "evaluate_passed h c p action q = Inr s"
proof -
  define a where "a = (if pmo_result (pac_management c) = MR_PROTECT_POSITION then PA_MODIFY_STOP else PA_CLOSE)"
  have act: "actionable_result (pmo_result (pac_management c))"
    using assms by (auto simp: evaluate_position_action_safety_def dest: refused_fields split: if_split_asm)
  have "fst (common_safety_reasons c p a) = []" "snd (common_safety_reasons c p a) = []"
    using assms act by (auto simp: evaluate_position_action_safety_def Let_def a_def[symmetric] dest: refused_fields
        split: if_split_asm)
  then have none: "common_safety_reasons c p a = ([], [])" by (simp add: prod_eq_iff)
  then obtain q where q: "pac_position c = Some q" unfolding common_reasons_Nil_iff by blast
  then have "evaluate_passed h c p a q = Inr s"
    using assms(1) act none by (simp add: evaluate_position_action_safety_def Let_def a_def[symmetric])
  with that q none act show ?thesis unfolding a_def by blast
qed

text \<open>What a passed outcome asks for.\<close>

definition passed_stop :: "action_context \<Rightarrow> action_policy \<Rightarrow> position_state \<Rightarrow> f64 \<Rightarrow> bool" where
  "passed_stop c p q stop \<longleftrightarrow> stop_state_safe c p q \<and> is_fin stop \<and> is_f64 stop \<and> broker_accepts_stop c q stop \<and>
     on_tick_grid c stop \<and> (\<exists>requested. pmo_requested_stop (pac_management c) = Some requested \<and>
       stop_improves c p q requested \<and> safe_direction (pos_side q) stop requested)"

lemma evaluate_passed_pass:
  assumes "evaluate_passed h c p action q = Inr s" "pas_result s = SR_PASS"
  shows "\<exists>i reasons rationale stop volume.
    s = (safety_of c p SR_PASS action reasons rationale stop volume)\<lparr>pas_id := i\<rparr> \<and> i \<noteq> [] \<and> reasons \<noteq> [] \<and>
    (if action = PA_CLOSE then stop = None \<and> volume = Some (pos_volume_lots q)
     else volume = None \<and> (\<exists>n. stop = Some n \<and> validate_protective_stop c p q = Inr (Some n, [])))"
proof (cases "action = PA_CLOSE")
  case True
  then have "mk_safety_outcome h (safety_of c p SR_PASS action [AR_CLOSE_POSITION_SAFE]
          ''The exact-linked authoritative position is safe for a full close intent.''
          None (Some (pos_volume_lots q))) = Inr s"
    using assms(1) by (simp add: evaluate_passed_def)
  from safety_fields[OF this] True show ?thesis
    by (intro exI[of _ "pas_id s"] exI[of _ "[AR_CLOSE_POSITION_SAFE]"] exI) auto
next
  case False
  then obtain n rs where v: "validate_protective_stop c p q = Inr (n, rs)"
    using assms(1) by (auto simp: evaluate_passed_def res_bind_Inr_iff)
  have rs: "rs = []"
    using assms False v by (auto simp: evaluate_passed_def dest: refused_fields split: if_split_asm)
  with v False assms(1) obtain m where m: "n = Some m"
    by (cases n) (auto simp: evaluate_passed_def)
  have "mk_safety_outcome h (safety_of c p SR_PASS action [AR_MODIFY_PROTECTIVE_STOP_SAFE]
            ''The exact-linked protective stop is monotonic and broker-valid.'' (Some m) None) = Inr s"
    using assms(1) False v rs m by (simp add: evaluate_passed_def)
  from safety_fields[OF this] False v rs m show ?thesis
    by (intro exI[of _ "pas_id s"] exI[of _ "[AR_MODIFY_PROTECTIVE_STOP_SAFE]"] exI) auto
qed

lemma passed_state:
  assumes "evaluate_position_action_safety h c p = Inr s" "pas_result s = SR_PASS"
  shows "\<exists>q. pac_position c = Some q \<and> identity_exact c q \<and> action_state_safe c p \<and> volume_matches c p q \<and>
    exact_match_finding c q \<and> binds_context c s q \<and> pas_id s \<noteq> [] \<and> pas_reasons s \<noteq> [] \<and>
    distinct (pas_reasons s) \<and> pas_policy_id s = pap_id p \<and> pas_as_of s = pac_as_of c \<and>
    pas_available_at s = pac_available_at c \<and>
    (pmo_result (pac_management c) = MR_EXIT_POSITION \<and> pas_action s = PA_CLOSE \<and> pas_stop s = None \<and>
       pas_close_volume s = Some (pos_volume_lots q) \<or>
     pmo_result (pac_management c) = MR_PROTECT_POSITION \<and> pas_action s = PA_MODIFY_STOP \<and>
       pas_close_volume s = None \<and> (\<exists>stop. pas_stop s = Some stop \<and> passed_stop c p q stop))"
proof -
  obtain q action where x: "pac_position c = Some q" "common_safety_reasons c p action = ([], [])"
      "action = (if pmo_result (pac_management c) = MR_PROTECT_POSITION then PA_MODIFY_STOP else PA_CLOSE)"
      "actionable_result (pmo_result (pac_management c))" "evaluate_passed h c p action q = Inr s"
    by (rule passed_cases[OF assms])
  have safe: "identity_exact c q" "action_state_safe c p" "volume_matches c p q" "exact_match_finding c q"
      "action = PA_MODIFY_STOP \<longrightarrow> stop_state_safe c p q"
    using x(1,2) unfolding common_reasons_Nil_iff by auto
  obtain i reasons rationale stop volume where
    s: "s = (safety_of c p SR_PASS action reasons rationale stop volume)\<lparr>pas_id := i\<rparr>" "i \<noteq> []" "reasons \<noteq> []" and
    sv: "if action = PA_CLOSE then stop = None \<and> volume = Some (pos_volume_lots q)
       else volume = None \<and> (\<exists>n. stop = Some n \<and> validate_protective_stop c p q = Inr (Some n, []))"
    using evaluate_passed_pass[OF x(5) assms(2)] by blast
  have binds: "binds_context c s q"
    using s x(1) safe(2) by (simp add: binds_context_def safety_of_def action_state_safe_def Let_def)
  have meta: "pas_id s \<noteq> [] \<and> pas_reasons s \<noteq> [] \<and> distinct (pas_reasons s) \<and> pas_policy_id s = pap_id p \<and>
      pas_as_of s = pac_as_of c \<and> pas_available_at s = pac_available_at c"
    using s by (simp add: safety_of_def)
  have kind: "action = PA_CLOSE \<and> pmo_result (pac_management c) = MR_EXIT_POSITION \<or>
      action = PA_MODIFY_STOP \<and> pmo_result (pac_management c) = MR_PROTECT_POSITION"
    using x(3,4) by (cases "pmo_result (pac_management c)") auto
  show ?thesis
  proof (cases "action = PA_CLOSE")
    case True
    then show ?thesis using kind s(1) sv x(1) safe(1-4) binds meta by auto
  next
    case False
    then obtain n where n: "stop = Some n" "volume = None" "validate_protective_stop c p q = Inr (Some n, [])"
      using sv by auto
    have "action = PA_MODIFY_STOP" using kind False by blast
    then have "passed_stop c p q n"
      using valid_stop[OF n(3)] safe(5) unfolding passed_stop_def by blast
    then show ?thesis using False kind s(1) n(1,2) x(1) safe(1-4) binds meta by auto
  qed
qed

lemma build_intent_ok:
  assumes "action_ready c p" "evaluate_position_action_safety h c p = Inr s" "pas_result s = SR_PASS"
  shows "\<exists>q i. pac_position c = Some q \<and>
    build_position_action_intent hi c s = Inr (Some ((action_intent_of c s q)\<lparr>pai_id := i\<rparr>))"
proof -
  obtain q where q: "pac_position c = Some q" "identity_exact c q" "binds_context c s q"
    and meta: "pas_id s \<noteq> []" "pas_reasons s \<noteq> []" "distinct (pas_reasons s)" "pas_policy_id s = pap_id p"
      "pas_as_of s = pac_as_of c" "pas_available_at s = pac_available_at c"
    and act: "pas_action s = PA_CLOSE \<and> pas_stop s = None \<and> pas_close_volume s = Some (pos_volume_lots q) \<or>
     pas_action s = PA_MODIFY_STOP \<and> pas_close_volume s = None \<and>
     (\<exists>stop. pas_stop s = Some stop \<and> passed_stop c p q stop)"
    using passed_state[OF assms(2,3)] by auto
  have r: "pos_id q \<noteq> []" "pos_symbol q \<noteq> []" "pos_fin (pos_volume_lots q)" "opt_all pos_fin (pos_stop_loss q)"
      "opt_all (\<lambda>t. 0 < t) (pos_broker_ticket q)"
    using assms(1) q(1) by (simp_all add: action_ready_def)
  have "list_all fst (action_intent_rules (action_intent_of c s q))"
    using act
  proof (elim disjE conjE exE)
    assume a: "pas_action s = PA_CLOSE" "pas_stop s = None" "pas_close_volume s = Some (pos_volume_lots q)"
    have "abs_close (pos_volume_lots q) (pos_volume_lots q)"
      using r(3) unfolding abs_close_def by (intro isclose_refl) (auto simp: pos_fin_def)
    then have "list_all fst (close_rules (action_intent_of c s q))"
      using a by (simp add: close_rules_def action_intent_of_def)
    then show ?thesis
      using a r meta assms(1) by (simp add: action_intent_rules_def action_intent_of_def action_ready_def)
  next
    fix stop assume a: "pas_action s = PA_MODIFY_STOP" "pas_close_volume s = None" "pas_stop s = Some stop"
        "passed_stop c p q stop"
    then obtain requested where t: "pmo_requested_stop (pac_management c) = Some requested"
        "stop_improves c p q requested" "safe_direction (pos_side q) stop requested" "is_fin stop" "is_f64 stop"
        "broker_accepts_stop c q stop"
      unfolding passed_stop_def by blast
    have "pos_fin stop" by (rule stop_positive[OF assms(1) t(1,3-6)])
    moreover have "list_all fst (modify_rules (action_intent_of c s q))"
      using a(2,3) improved_stop[OF t(2,3)]
      by (cases "pos_stop_loss q"; cases "pos_side q")
        (auto simp: modify_rules_def action_intent_of_def dest: flt_imp_fle fle_not_flt)
    ultimately show ?thesis
      using a r meta assms(1) by (simp add: action_intent_rules_def action_intent_of_def action_ready_def)
  qed
  moreover have "pai_id (action_intent_of c s q) = []" by (simp add: action_intent_of_def)
  ultimately show ?thesis
    using q(1,3) assms(3)
    by (simp add: build_position_action_intent_def mk_action_intent_def validate_ok action_intent_identity.bind_fresh)
      blast
qed

subsection \<open>Properties\<close>

text \<open>C12. Safety of a passed action: an outcome passes only for the position, intent, result, broker link and
  thesis that belong together exactly, with the kill switch off, the runtime safe, reconciled and fresh, and the
  filled volume on the broker. A close asks for the whole volume; a stop change meets a fresh market price and the
  very stop the management saw, was requested by the management, strictly tightens the present stop (or is no looser than the original one when none is set), is rounded to the
  tick grid only away from the losing side, and keeps the broker's distance from the current price.\<close>

theorem position_action_pass_safe:
  assumes "evaluate_position_action_safety h c p = Inr s" "pas_result s = SR_PASS"
  shows "\<exists>q. pac_position c = Some q \<and> identity_exact c q \<and> action_state_safe c p \<and> volume_matches c p q \<and>
    exact_match_finding c q \<and>
    (pmo_result (pac_management c) = MR_EXIT_POSITION \<and> pas_action s = PA_CLOSE \<and> pas_stop s = None \<and>
       pas_close_volume s = Some (pos_volume_lots q) \<or>
     pmo_result (pac_management c) = MR_PROTECT_POSITION \<and> pas_action s = PA_MODIFY_STOP \<and>
       pas_close_volume s = None \<and>
       stop_state_safe c p q \<and>
       (\<exists>stop requested. pas_stop s = Some stop \<and> pmo_requested_stop (pac_management c) = Some requested \<and>
          is_fin stop \<and> is_f64 stop \<and> stop_improves c p q requested \<and> safe_direction (pos_side q) stop requested \<and>
          opt_all (\<lambda>old. if pos_side q = PS_BUY then flt old stop else flt stop old) (pos_stop_loss q) \<and>
          broker_accepts_stop c q stop \<and> on_tick_grid c stop))"
proof -
  obtain q where q: "pac_position c = Some q" "identity_exact c q" "action_state_safe c p" "volume_matches c p q"
      "exact_match_finding c q"
    and act: "pmo_result (pac_management c) = MR_EXIT_POSITION \<and> pas_action s = PA_CLOSE \<and> pas_stop s = None \<and>
       pas_close_volume s = Some (pos_volume_lots q) \<or>
     pmo_result (pac_management c) = MR_PROTECT_POSITION \<and> pas_action s = PA_MODIFY_STOP \<and>
       pas_close_volume s = None \<and> (\<exists>stop. pas_stop s = Some stop \<and> passed_stop c p q stop)"
    using passed_state[OF assms] by auto
  have "opt_all (\<lambda>old. if pos_side q = PS_BUY then flt old stop else flt stop old) (pos_stop_loss q)"
    if "stop_improves c p q requested" "safe_direction (pos_side q) stop requested" for stop requested
    using improved_stop[OF that] by (cases "pos_stop_loss q") simp_all
  with q act show ?thesis unfolding passed_stop_def by blast
qed

text \<open>C40. The action chain is total: on validated inputs the safety evaluation returns an outcome, except that a
  stop whose decimal normalisation leaves the 28 digits of the decimal context raises, and then the intent
  builder accepts the outcome: it gives nothing unless the outcome passed, and otherwise an intent that carries
  exactly the approved action, stop and volume of the present position.\<close>

theorem position_action_chain_total:
  assumes "action_inputs_valid c p"
  shows "(\<exists>s i. evaluate_position_action_safety h c p = Inr s \<and> build_position_action_intent hi c s = Inr i \<and>
      (i = None \<longleftrightarrow> pas_result s \<noteq> SR_PASS) \<and>
      opt_all (\<lambda>a. \<exists>q. pac_position c = Some q \<and> pai_position_id a = pos_id q \<and> pai_volume a = pos_volume_lots q \<and>
        pai_old_stop a = pos_stop_loss q \<and> pai_action a = pas_action s \<and> pai_new_stop a = pas_stop s \<and>
        pai_close_volume a = pas_close_volume s \<and> pai_safety_id a = pas_id s) i) \<or>
    evaluate_position_action_safety h c p = Inl InvalidOperation \<and>
      pmo_result (pac_management c) = MR_PROTECT_POSITION"
proof -
  have ready: "action_ready c p" by (rule inputs_ready[OF assms])
  from evaluate_safety_cases[OF ready, of h] show ?thesis
  proof (elim disjE exE conjE)
    fix s assume s: "evaluate_position_action_safety h c p = Inr s"
    show ?thesis
    proof (cases "pas_result s = SR_PASS")
      case True
      obtain q i where "pac_position c = Some q"
          "build_position_action_intent hi c s = Inr (Some ((action_intent_of c s q)\<lparr>pai_id := i\<rparr>))"
        using build_intent_ok[OF ready s True] by blast
      with s True show ?thesis by (simp add: action_intent_of_def)
    next
      case False
      then have "build_position_action_intent hi c s = Inr None" by (simp add: build_position_action_intent_def)
      with s False show ?thesis by simp
    qed
  qed simp
qed

subsection \<open>Witnesses\<close>

text \<open>The demo position one minute after it opened, asked to close, or to move its stop from 10 to 11.\<close>

definition demo_action_management :: "management_result \<Rightarrow> management_outcome" where
  "demo_action_management result = \<lparr>pmo_id = ''pmo-00000000000000000000'', pmo_policy_id = ''pmp-1'',
     pmo_context_id = ''pmc-1'', pmo_position_id = Some ''pos-00000000000000000000'',
     pmo_intent_id = Some ''xi-00000000000000000000'', pmo_result_id = Some ''xe-00000000000000000000'',
     pmo_setup_id = Some ''setup-1'', pmo_thesis_id = Some ''thesis-1'', pmo_scenario_id = None,
     pmo_lifecycle = None, pmo_side = Some PS_BUY, pmo_entry_price = Some (Fin 11),
     pmo_stop_loss = Some (Fin 10), pmo_result = result, pmo_reasons = [PR_THESIS_EXPIRED],
     pmo_eligible = True, pmo_requested_stop = (if result = MR_PROTECT_POSITION then Some (Fin 11) else None),
     pmo_as_of = 60000000, pmo_available_at = 60000000, pmo_rationale = ''demo''\<rparr>"

definition demo_action_position :: position_state where
  "demo_action_position = demo_managed\<lparr>pos_thesis_id := Some ''thesis-1''\<rparr>"

definition demo_action_context :: "management_result \<Rightarrow> action_context" where
  "demo_action_context result = \<lparr>pac_id = ''pac-00000000000000000000'', pac_policy_id = ''pap-00000000000000000000'',
     pac_management = demo_action_management result, pac_position = Some demo_action_position,
     pac_intent = demo_intent\<lparr>xi_id := ''xi-00000000000000000000''\<rparr>,
     pac_result = demo_filled\<lparr>xe_intent_id := ''xi-00000000000000000000'', xe_id := ''xe-00000000000000000000''\<rparr>,
     pac_link = \<lparr>bl_id = ''bil-00000000000000000000'', bl_intent_id = ''xi-00000000000000000000'',
       bl_object_kind = BK_POSITION, bl_object_id = ''pos-00000000000000000000'', bl_ticket = Some 7,
       bl_transport_id = None\<rparr>,
     pac_reconciliation = \<lparr>rp_id = ''rr-00000000000000000000'', rp_snapshot_id = ''brs-1'', rp_as_of = 60000000,
       rp_available_at = 60000000, rp_status = RESOLVED, rp_findings = [\<lparr>fd_id = ''rf-1'', fd_kind = RCK_MATCHED,
         fd_status = RESOLVED, fd_intent_id = Some ''xi-00000000000000000000'',
         fd_object_id = Some ''pos-00000000000000000000'', fd_ticket = Some 7,
         fd_reason_code = ''EXACT_MATCH''\<rparr>], rp_supersedes = None\<rparr>,
     pac_readiness = \<lparr>rd_id = ''ready-00000000000000000000'', rd_runtime_state_id = ''state-1'',
       rd_report_id = ''rr-00000000000000000000'', rd_as_of = 60000000, rd_status = RSM_SAFE, rd_reasons = []\<rparr>,
     pac_account = demo_account_state\<lparr>ac_as_of := 60000000, ac_freshness := minute_fresh\<rparr>,
     pac_position_freshness = minute_fresh,
     pac_broker = demo_broker\<lparr>bc_as_of := 60000000, bc_freshness := minute_fresh\<rparr>,
     pac_market = \<lparr>ms_source = ''broker'', ms_symbol = ''XAUUSD'', ms_as_of = 60000000,
       ms_freshness = minute_fresh, ms_bid = Some (Fin 12), ms_ask = Some (Fin 12), ms_last = None,
       ms_spread_points = None, ms_base_timeframe = None, ms_completed_timeframes = [],
       ms_feature_manifest_id = None, ms_market_data_version = None\<rparr>,
     pac_symbol_digits = 2, pac_kill_switch = False, pac_as_of = 60000000, pac_available_at = 60000000\<rparr>"

definition demo_action_policy :: action_policy where
  "demo_action_policy = default_action_policy\<lparr>pap_id := ''pap-00000000000000000000''\<rparr>"

lemmas demo_action_defs = demo_action_context_def demo_action_management_def demo_action_position_def
  demo_managed_def demo_position_def demo_intent_def demo_filled_def blank_result_def demo_account_state_def
  demo_broker_def minute_fresh_def demo_action_policy_def default_action_policy_def

lemma demo_action_common:
  "a = (if result = MR_PROTECT_POSITION then PA_MODIFY_STOP else PA_CLOSE) \<Longrightarrow>
   common_safety_reasons (demo_action_context result) demo_action_policy a = ([], [])"
proof -
  have "identity_exact (demo_action_context result) demo_action_position"
    by (simp add: identity_exact_def demo_action_defs expected_side_def tickets_conflict_def known_tickets_def)
  moreover have "action_state_safe (demo_action_context result) demo_action_policy"
    by (simp add: action_state_safe_def demo_action_defs age_valid_def state_fresh_def freshness_valid_def
        total_seconds_def rnd_eval)
  moreover have "volume_matches (demo_action_context result) demo_action_policy demo_action_position"
    by (simp add: volume_matches_def demo_action_defs isclose_refl)
  moreover have "exact_match_finding (demo_action_context result) demo_action_position"
    by (simp add: exact_match_finding_def demo_action_defs)
  moreover have "stop_state_safe (demo_action_context result) demo_action_policy demo_action_position"
    by (simp add: stop_state_safe_def demo_action_defs age_valid_def state_fresh_def freshness_valid_def
        total_seconds_def rnd_eval same_optional_price_def abs_close_def isclose_refl)
  moreover have "pac_position (demo_action_context result) = Some demo_action_position"
    by (simp add: demo_action_context_def)
  ultimately show ?thesis unfolding common_reasons_Nil_iff by blast
qed

lemma demo_action_valid: "action_inputs_valid (demo_action_context MR_EXIT_POSITION) demo_action_policy"
proof -
  have "rnd (1 / 10 ^ 8) = Fin (3022314549036573 / 2 ^ 78)"
    using rnd_cert[of "- 79" "1 / 10 ^ 8" 6044629098073146] by (simp add: power_int_def f64_max_def power_one_over)
  then have tolerance: "nonneg_fin (lit (1 / 10 ^ 8))"
    using is_f64_rnd[of "1 / 10 ^ 8"] by (simp add: nonneg_fin_def)
  note contracts = validate_ok bind_identity_def content_id_def zero_hash_def Let_def
  have "mk_action_context zero_hash (demo_action_context MR_EXIT_POSITION) = Inr (demo_action_context MR_EXIT_POSITION)"
    by (simp add: mk_action_context_def action_context_rules_def action_times_def contracts demo_action_defs)
  moreover have "mk_action_policy zero_hash demo_action_policy = Inr demo_action_policy"
    using tolerance by (simp add: mk_action_policy_def action_policy_rules_def contracts demo_action_policy_def
        default_action_policy_def)
  moreover have "mk_management_outcome zero_hash (demo_action_management MR_EXIT_POSITION)
      = Inr (demo_action_management MR_EXIT_POSITION)"
    by (simp add: mk_management_outcome_def management_outcome_rules_def contracts demo_action_management_def)
  moreover have "mk_position_state zero_hash demo_action_position = Inr demo_action_position"
    by (simp add: mk_position_state_def contracts demo_action_position_def demo_managed_def demo_position_def)
  moreover have "mk_execution_intent zero_hash (pac_intent (demo_action_context MR_EXIT_POSITION))
      = Inr (pac_intent (demo_action_context MR_EXIT_POSITION))"
    by (simp add: mk_execution_intent_def execution_intent_rules_def intent_stop_valid_def contracts
        demo_action_context_def demo_intent_def)
  moreover have "mk_execution_result zero_hash (pac_result (demo_action_context MR_EXIT_POSITION))
      = Inr (pac_result (demo_action_context MR_EXIT_POSITION))"
    by (simp add: mk_execution_result_def execution_result_rules_def known_volume_rules_def lots_close_def or_zero_def
        feq_def isclose_refl contracts demo_action_context_def demo_filled_def blank_result_def demo_intent_def)
  moreover have "mk_broker_intent_link zero_hash (pac_link (demo_action_context MR_EXIT_POSITION))
      = Inr (pac_link (demo_action_context MR_EXIT_POSITION))"
    by (simp add: mk_broker_intent_link_def contracts demo_action_context_def)
  moreover have "mk_reconciliation_report zero_hash (pac_reconciliation (demo_action_context MR_EXIT_POSITION))
      = Inr (pac_reconciliation (demo_action_context MR_EXIT_POSITION))"
    by (simp add: mk_reconciliation_report_def findings_status_def contracts demo_action_context_def)
  moreover have "mk_resume_readiness zero_hash (pac_readiness (demo_action_context MR_EXIT_POSITION))
      = Inr (pac_readiness (demo_action_context MR_EXIT_POSITION))"
    by (simp add: mk_resume_readiness_def contracts demo_action_context_def)
  moreover have "mk_market_state (pac_market (demo_action_context MR_EXIT_POSITION))
      = Inr (pac_market (demo_action_context MR_EXIT_POSITION))"
    by (simp add: mk_market_state_def validate_ok without_measurements_def demo_action_context_def minute_fresh_def)
  moreover have "pac_position (demo_action_context MR_EXIT_POSITION) = Some demo_action_position"
      "pac_management (demo_action_context MR_EXIT_POSITION) = demo_action_management MR_EXIT_POSITION"
    by (simp_all add: demo_action_context_def)
  ultimately show ?thesis unfolding action_inputs_valid_def validated_def by auto
qed

lemma demo_stop_valid:
  "validate_protective_stop (demo_action_context MR_PROTECT_POSITION) demo_action_policy demo_action_position
     = Inr (Some (Fin 11), [])"
proof -
  have "risk_reducing_normalize (Fin 11) (Fin 1) 2 PS_BUY True = Inr (Some (Fin 11))"
    by (simp add: risk_reducing_normalize_def normalized_decimal_def str_value_1 str_value_11 dec_eleven
        quantize_eleven altered_value_def safe_direction_def rnd_numeral Let_def)
  moreover have "same_optional_price (Some (Fin 10)) (Some (Fin 10))"
    by (simp add: same_optional_price_def abs_close_def isclose_refl)
  moreover have "\<not> flt (fadd (Fin 1) (lit (1 / 10 ^ 12))) (Fin 0)"
    unfolding rnd_pico by (intro fle_not_flt) (simp add: rnd_nonneg)
  ultimately show ?thesis
    by (simp add: validate_protective_stop_def demo_action_defs stop_direction_reasons_def stop_distance_reasons_def
        current_price_def Let_def rnd_eval fsub_def pymax_def)
qed

lemma demo_action_passes:
  assumes "result \<in> {MR_EXIT_POSITION, MR_PROTECT_POSITION}"
  shows "\<exists>s. evaluate_position_action_safety h (demo_action_context result) demo_action_policy = Inr s \<and>
    pas_result s = SR_PASS"
proof -
  let ?c = "demo_action_context result"
  define a where "a = (if result = MR_PROTECT_POSITION then PA_MODIFY_STOP else PA_CLOSE)"
  have c: "pmo_result (pac_management ?c) = result" "actionable_result result"
      "pac_position ?c = Some demo_action_position" "pac_available_at ?c \<le> pac_as_of ?c"
    using assms by (auto simp: demo_action_context_def demo_action_management_def)
  have reach: "evaluate_position_action_safety h ?c demo_action_policy
      = evaluate_passed h ?c demo_action_policy a demo_action_position"
    using c demo_action_common[OF a_def] by (simp add: evaluate_position_action_safety_def Let_def a_def[symmetric])
  have ready: "action_ready ?c demo_action_policy"
    using assms by (auto simp: action_ready_def demo_action_defs)
  have "\<exists>s. evaluate_passed h ?c demo_action_policy a demo_action_position = Inr s \<and> pas_result s = SR_PASS"
  proof (cases "result = MR_PROTECT_POSITION")
    case False
    then have "a = PA_CLOSE" by (simp add: a_def)
    moreover from this obtain s where s: "evaluate_passed h ?c demo_action_policy a demo_action_position = Inr s"
      using evaluate_passed_cases[OF ready c(3), of a h] by auto
    ultimately have "pas_result s = SR_PASS" by (auto simp: evaluate_passed_def dest: refused_fields)
    with s show ?thesis by blast
  next
    case True
    then have "a = PA_MODIFY_STOP" by (simp add: a_def)
    with True have eq: "evaluate_passed h ?c demo_action_policy a demo_action_position =
        mk_safety_outcome h (safety_of ?c demo_action_policy SR_PASS a [AR_MODIFY_PROTECTIVE_STOP_SAFE]
            ''The exact-linked protective stop is monotonic and broker-valid.'' (Some (Fin 11)) None)"
      by (simp add: evaluate_passed_def demo_stop_valid)
    moreover have "\<exists>s. mk_safety_outcome h (safety_of ?c demo_action_policy SR_PASS a [AR_MODIFY_PROTECTIVE_STOP_SAFE]
            ''The exact-linked protective stop is monotonic and broker-valid.'' (Some (Fin 11)) None) = Inr s"
      by (rule safety_ok[OF ready]) (simp_all add: \<open>a = PA_MODIFY_STOP\<close>)
    ultimately show ?thesis by (auto dest: refused_fields)
  qed
  then show ?thesis unfolding reach .
qed

theorem position_action_pass_safe_witness:
  "\<exists>s stop. evaluate_position_action_safety zero_hash (demo_action_context MR_PROTECT_POSITION) demo_action_policy = Inr s \<and>
     pas_stop s = Some stop \<and> flt (Fin 10) stop"
proof -
  obtain s where s: "evaluate_position_action_safety zero_hash (demo_action_context MR_PROTECT_POSITION) demo_action_policy
      = Inr s" "pas_result s = SR_PASS"
    using demo_action_passes[of MR_PROTECT_POSITION zero_hash] by blast
  have "pmo_result (pac_management (demo_action_context MR_PROTECT_POSITION)) = MR_PROTECT_POSITION"
      "pac_position (demo_action_context MR_PROTECT_POSITION) = Some demo_action_position"
      "pos_side demo_action_position = PS_BUY" "pos_stop_loss demo_action_position = Some (Fin 10)"
    by (simp_all add: demo_action_context_def demo_action_management_def demo_action_position_def demo_managed_def
        demo_position_def)
  with position_action_pass_safe[OF s] s(1) show ?thesis by auto
qed

theorem position_action_chain_total_witness:
  "\<exists>s a. evaluate_position_action_safety zero_hash (demo_action_context MR_EXIT_POSITION) demo_action_policy = Inr s \<and>
     build_position_action_intent zero_hash (demo_action_context MR_EXIT_POSITION) s = Inr (Some a) \<and>
     pai_volume a = Fin 1"
proof -
  obtain s where s: "evaluate_position_action_safety zero_hash (demo_action_context MR_EXIT_POSITION) demo_action_policy
      = Inr s" "pas_result s = SR_PASS"
    using demo_action_passes[of MR_EXIT_POSITION zero_hash] by blast
  have "pac_position (demo_action_context MR_EXIT_POSITION) = Some demo_action_position"
      "pos_volume_lots demo_action_position = Fin 1"
    by (simp_all add: demo_action_context_def demo_action_position_def demo_managed_def demo_position_def)
  with position_action_chain_total[OF demo_action_valid, of zero_hash zero_hash] s show ?thesis
    by (auto simp: opt_all_def split: option.split_asm)
qed
end
