(* ===== verification/PositionTransport.thy ===== *)
theory PositionTransport
  imports PositionActions
begin

section \<open>Transport outcomes of position actions (\<open>position_actions/transport.py\<close>, \<open>persistence.py\<close>)\<close>

text \<open>
  The outcome of an action at the broker, the transitions that record it, and the two ledgers that keep
  them: one in memory and one append-only in SQLite. The durable ledger is shown to refine the one in
  memory. What a client may rely on is the locale \<open>reservation_ledger\<close>, which the ledger of entries
  (\<open>submission_ledger\<close>) gives as well.
\<close>

subsection \<open>Contracts\<close>

record action_result =
  par_id :: string
  par_intent_id :: string
  par_action :: action_type
  par_position_id :: string
  par_ticket :: int
  par_symbol :: string
  par_side :: position_side
  par_status :: execution_result_status
  par_reason_code :: "execution_reason option"
  par_reason :: "string option"
  par_requested_volume :: "f64 option"
  par_executed_volume :: "f64 option"
  par_requested_stop :: "f64 option"
  par_fill_price :: "f64 option"
  par_transport_id :: "string option"
  par_retcode :: "string option"
  par_broker_status :: "string option"
  par_event_time :: dt
  par_observed_at :: dt
  par_available_at :: dt

definition action_result_fields :: "action_result \<Rightarrow> (bool \<times> py_error) list" where
  "action_result_fields r =
     [nonempty ''position_action_intent_id'' (par_intent_id r), nonempty ''position_id'' (par_position_id r),
      field_ok ''broker_ticket'' (0 < par_ticket r), nonempty ''symbol'' (par_symbol r),
      field_ok ''reason'' (opt_all (\<lambda>s. length s \<le> 500) (par_reason r)),
      field_ok ''requested_volume_lots'' (opt_all pos_fin (par_requested_volume r)),
      field_ok ''executed_volume_lots'' (opt_all nonneg_fin (par_executed_volume r)),
      field_ok ''requested_stop_loss'' (opt_all pos_fin (par_requested_stop r)),
      field_ok ''fill_price'' (opt_all pos_fin (par_fill_price r)),
      field_ok ''transport_execution_id'' (opt_all (\<lambda>s. s \<noteq> []) (par_transport_id r))]"

definition action_status_rules :: "action_result \<Rightarrow> (bool \<times> py_error) list" where
  "action_status_rules r =
     (if par_status r = XS_UNKNOWN
      then [rule_ok ''UNKNOWN position action cannot claim executed volume'' (par_executed_volume r = None)]
      else [rule_ok ''non-success position action requires a reason code''
              (\<not> (par_status r \<in> {XS_NO_ACTION, XS_REJECTED, XS_FAILED} \<and> par_reason_code r = None))])"

definition action_volume_rules :: "action_result \<Rightarrow> (bool \<times> py_error) list" where
  "action_volume_rules r =
     (if par_action r = PA_CLOSE
      then (case par_requested_volume r of
          None \<Rightarrow> [rule_ok ''close result requires requested volume'' False]
        | Some v \<Rightarrow>
            [rule_ok ''filled close must fill the requested volume''
               (\<not> (par_status r = XS_FILLED \<and> \<not> abs_close (or_zero (par_executed_volume r)) v)),
             rule_ok ''partial close requires strict partial volume''
               (\<not> (par_status r = XS_PARTIALLY_FILLED \<and>
                   \<not> (flt (Fin 0) (or_zero (par_executed_volume r)) \<and> flt (or_zero (par_executed_volume r)) v)))])
      else [rule_ok ''protective-stop result cannot claim traded volume''
              (par_requested_volume r = None \<and> par_executed_volume r = None)])"

definition action_result_rules :: "action_result \<Rightarrow> (bool \<times> py_error) list" where
  "action_result_rules r = action_result_fields r @
     [rule_ok ''position-action result timestamps must be causally ordered''
        (par_event_time r \<le> par_observed_at r \<and> par_observed_at r \<le> par_available_at r)]
     @ action_status_rules r @ action_volume_rules r"

definition mk_action_result :: "(action_result \<Rightarrow> string) \<Rightarrow> action_result \<Rightarrow> action_result res" where
  "mk_action_result h r = res_bind (validate (action_result_rules r) r)
     (bind_identity ''patr-'' h (\<lambda>r. r\<lparr>par_id := []\<rparr>) par_id (\<lambda>i r. r\<lparr>par_id := i\<rparr>)
        ''result_id does not match position-action result content'')"

interpretation action_result_identity: content_addressed "''patr-''" h "\<lambda>r. r\<lparr>par_id := []\<rparr>" par_id
    "\<lambda>i r. r\<lparr>par_id := i\<rparr>" "''result_id does not match position-action result content''"
  for h :: "action_result \<Rightarrow> string"
  by unfold_locales simp_all

datatype action_transition_type = PT_RESERVED | PT_RESULT_RECORDED

record action_transition =
  ptt_id :: string
  ptt_type :: action_transition_type
  ptt_intent_id :: string
  ptt_intent :: "action_intent option"
  ptt_result :: "action_result option"
  ptt_available_at :: dt

definition action_transition_rules :: "action_transition \<Rightarrow> (bool \<times> py_error) list" where
  "action_transition_rules t = nonempty ''intent_id'' (ptt_intent_id t) #
     (if ptt_type t = PT_RESERVED
      then [rule_ok ''reservation requires only an intent'' (ptt_intent t \<noteq> None \<and> ptt_result t = None)]
      else [rule_ok ''result transition requires only a result'' (ptt_result t \<noteq> None \<and> ptt_intent t = None)])"

definition mk_action_transition ::
  "(action_transition \<Rightarrow> string) \<Rightarrow> action_transition \<Rightarrow> action_transition res" where
  "mk_action_transition h t = res_bind (validate (action_transition_rules t) t)
     (bind_identity ''patt-'' h (\<lambda>r. r\<lparr>ptt_id := []\<rparr>) ptt_id (\<lambda>i r. r\<lparr>ptt_id := i\<rparr>)
        ''transition_id does not match transition content'')"

interpretation action_transition_identity: content_addressed "''patt-''" h "\<lambda>r. r\<lparr>ptt_id := []\<rparr>" ptt_id
    "\<lambda>i r. r\<lparr>ptt_id := i\<rparr>" "''transition_id does not match transition content''"
  for h :: "action_transition \<Rightarrow> string"
  by unfold_locales simp_all

subsection \<open>The ledger protocol and the ledger in memory\<close>

record 'l action_port =
  ap_get :: "string \<Rightarrow> 'l \<Rightarrow> action_result option"
  ap_reserve :: "action_intent \<Rightarrow> ('l, bool) eff"
  ap_record :: "action_result \<Rightarrow> ('l, unit) eff"
  ap_requires :: "string \<Rightarrow> 'l \<Rightarrow> bool"

record action_memory =
  am_reserved :: "string set"
  am_results :: "string \<rightharpoonup> action_result"

definition empty_action_memory :: action_memory where
  "empty_action_memory = \<lparr>am_reserved = {}, am_results = Map.empty\<rparr>"

definition action_memory_reserve :: "action_intent \<Rightarrow> (action_memory, bool) eff" where
  "action_memory_reserve i l =
     (if pai_id i \<in> am_reserved l then (Inr False, l)
      else (Inr True, l\<lparr>am_reserved := insert (pai_id i) (am_reserved l)\<rparr>))"

definition action_memory_record :: "action_result \<Rightarrow> (action_memory, unit) eff" where
  "action_memory_record r l =
     (if par_intent_id r \<notin> am_reserved l
      then (Inl (ValueError ''position-action intent must be reserved before recording''), l)
      else if am_results l (par_intent_id r) \<noteq> None \<and> am_results l (par_intent_id r) \<noteq> Some r
      then (Inl (ValueError ''position-action intent already has a different result''), l)
      else (Inr (), l\<lparr>am_results := (am_results l)(par_intent_id r \<mapsto> r)\<rparr>))"

definition unsettled :: "action_result option \<Rightarrow> bool" where
  "unsettled v \<longleftrightarrow> opt_all (\<lambda>r. par_status r = XS_UNKNOWN) v"

definition action_memory_requires :: "string \<Rightarrow> action_memory \<Rightarrow> bool" where
  "action_memory_requires i l \<longleftrightarrow> i \<in> am_reserved l \<and> unsettled (am_results l i)"

definition action_memory_port :: "action_memory action_port" where
  "action_memory_port = \<lparr>ap_get = (\<lambda>i l. am_results l i), ap_reserve = action_memory_reserve,
     ap_record = action_memory_record, ap_requires = action_memory_requires\<rparr>"

subsection \<open>The SQLite ledger\<close>

text \<open>
  The table is the list of its rows: its triggers abort every update and deletion, \<open>transition_id\<close> is
  unique, and a partial unique index allows one \<open>RESERVED\<close> row per intent.
\<close>

type_synonym action_db = "action_transition list"

definition append_action_row :: "action_transition \<Rightarrow> (action_db, unit) eff" where
  "append_action_row t d =
     (if list_ex (\<lambda>u. ptt_id u = ptt_id t \<or>
          ptt_type t = PT_RESERVED \<and> ptt_type u = PT_RESERVED \<and> ptt_intent_id u = ptt_intent_id t) d
      then (Inl IntegrityError, d)
      else (Inr (), d @ [t]))"

definition action_reserved :: "string \<Rightarrow> action_db \<Rightarrow> bool" where
  "action_reserved i d \<longleftrightarrow> list_ex (\<lambda>t. ptt_type t = PT_RESERVED \<and> ptt_intent_id t = i) d"

definition action_results :: "string \<Rightarrow> action_db \<Rightarrow> action_result list" where
  "action_results i d = List.map_filter (\<lambda>t. if ptt_intent_id t = i then ptt_result t else None) d"

definition action_db_get :: "string \<Rightarrow> action_db \<Rightarrow> action_result option" where
  "action_db_get i d = (if action_results i d = [] then None else Some (last (action_results i d)))"

definition action_reservation :: "action_intent \<Rightarrow> action_transition" where
  "action_reservation i = \<lparr>ptt_id = [], ptt_type = PT_RESERVED, ptt_intent_id = pai_id i, ptt_intent = Some i,
     ptt_result = None, ptt_available_at = pai_available_at i\<rparr>"

definition action_recording :: "action_result \<Rightarrow> action_transition" where
  "action_recording r = \<lparr>ptt_id = [], ptt_type = PT_RESULT_RECORDED, ptt_intent_id = par_intent_id r,
     ptt_intent = None, ptt_result = Some r, ptt_available_at = par_available_at r\<rparr>"

definition action_db_reserve ::
  "(action_transition \<Rightarrow> string) \<Rightarrow> action_intent \<Rightarrow> (action_db, bool) eff" where
  "action_db_reserve h i = eff_bind (eff_of (mk_action_transition h (action_reservation i))) (\<lambda>t.
     eff_catch (eff_bind (append_action_row t) (\<lambda>_. eff_return True))
       (\<lambda>e. if e = IntegrityError then Some (eff_return False) else None))"

definition action_db_record ::
  "(action_transition \<Rightarrow> string) \<Rightarrow> action_result \<Rightarrow> (action_db, unit) eff" where
  "action_db_record h r d =
     (if \<not> action_reserved (par_intent_id r) d
      then (Inl (ValueError ''position-action intent must be reserved before recording''), d)
      else case action_db_get (par_intent_id r) d of
        Some prior \<Rightarrow>
          (if prior = r then Inr ()
           else Inl (ValueError ''position-action intent already has a different result''), d)
      | None \<Rightarrow> eff_bind (eff_of (mk_action_transition h (action_recording r))) append_action_row d)"

definition action_db_requires :: "string \<Rightarrow> action_db \<Rightarrow> bool" where
  "action_db_requires i d \<longleftrightarrow> action_reserved i d \<and> unsettled (action_db_get i d)"

definition action_db_port :: "(action_transition \<Rightarrow> string) \<Rightarrow> action_db action_port" where
  "action_db_port h = \<lparr>ap_get = action_db_get, ap_reserve = action_db_reserve h,
     ap_record = action_db_record h, ap_requires = action_db_requires\<rparr>"

subsection \<open>Feedback\<close>

text \<open>\<open>_STATUS_MAP\<close>; a missing key is a \<open>KeyError\<close>.\<close>

fun action_status_map :: "execution_result_status \<Rightarrow> execution_status option" where
  "action_status_map XS_ACCEPTED = Some ES_ACCEPTED"
| "action_status_map XS_PARTIALLY_FILLED = Some ES_PARTIALLY_FILLED"
| "action_status_map XS_FILLED = Some ES_CLOSED"
| "action_status_map XS_REJECTED = Some ES_REJECTED"
| "action_status_map XS_FAILED = Some ES_FAILED"
| "action_status_map XS_UNKNOWN = Some ES_UNKNOWN"
| "action_status_map _ = None"

definition action_feedback_status :: "action_result \<Rightarrow> execution_status res" where
  "action_feedback_status r = (case action_status_map (par_status r) of
     None \<Rightarrow> Inl (KeyError ''status'')
   | Some s \<Rightarrow> Inr (if par_action r = PA_MODIFY_STOP \<and> par_status r = XS_FILLED then ES_ACCEPTED else s))"

definition action_feedback :: "action_result \<Rightarrow> string \<Rightarrow> execution_status \<Rightarrow> execution_feedback_state" where
  "action_feedback r source status =
     \<lparr>xf_id = [], xf_source = source, xf_instruction_id = par_intent_id r,
      xf_broker_ticket = Some (par_ticket r), xf_replay_execution_id = par_transport_id r,
      xf_status = status, xf_event_time = par_event_time r, xf_observed_at = par_observed_at r,
      xf_requested_volume_lots = par_requested_volume r, xf_filled_volume_lots = par_executed_volume r,
      xf_requested_price = par_requested_stop r, xf_fill_price = par_fill_price r,
      xf_spread_points = None, xf_slippage_points = None, xf_commission = None, xf_swap = None,
      xf_broker_code = par_retcode r,
      xf_broker_message = (if truthy (par_reason r) then par_reason r else par_broker_status r)\<rparr>"

definition position_action_result_to_runtime_event ::
  "(execution_feedback_state \<Rightarrow> string) \<Rightarrow> (runtime_event \<Rightarrow> string) \<Rightarrow> action_result \<Rightarrow> string
     \<Rightarrow> string \<Rightarrow> int \<Rightarrow> runtime_event option res" where
  "position_action_result_to_runtime_event hx he r source version n =
     (if par_status r = XS_NO_ACTION then Inr None
      else res_bind (action_feedback_status r) (\<lambda>status.
        res_bind (mk_execution_feedback hx (action_feedback r source status)) (\<lambda>f.
        res_bind (mk_runtime_event he
          \<lparr>ev_id = [], ev_type = EXECUTION_FEEDBACK, ev_event_time = par_event_time r,
           ev_observed_at = par_observed_at r, ev_available_at = par_available_at r, ev_source = source,
           ev_source_version = version, ev_source_sequence = n, ev_symbol = Some (par_symbol r),
           ev_payload = P_Feedback f, ev_ingested_at = None\<rparr>) (\<lambda>e. Inr (Some e)))))"

subsection \<open>What a client relies on\<close>

text \<open>
  The promise of a ledger of reservations and results: a reservation is granted once, results are kept for
  ever, and a refused operation changes nothing.
\<close>

locale reservation_ledger =
  fixes get :: "string \<Rightarrow> 'l \<Rightarrow> 'r option"
    and reserved :: "string \<Rightarrow> 'l \<Rightarrow> bool"
    and reserve :: "'i \<Rightarrow> ('l, bool) eff"
    and recording :: "'r \<Rightarrow> ('l, unit) eff"
    and ikey :: "'i \<Rightarrow> string"
    and rkey :: "'r \<Rightarrow> string"
    and inv :: "'l \<Rightarrow> bool"
  assumes reserve_keeps: "inv l \<Longrightarrow> reserve i l = (x, l') \<Longrightarrow> inv l'"
    and reserve_new: "inv l \<Longrightarrow> reserve i l = (Inr True, l') \<Longrightarrow>
      \<not> reserved (ikey i) l \<and> (\<forall>j. reserved j l' \<longleftrightarrow> j = ikey i \<or> reserved j l)"
    and reserve_no: "reserve i l = (x, l') \<Longrightarrow> x \<noteq> Inr True \<Longrightarrow> l' = l"
    and reserve_results: "reserve i l = (x, l') \<Longrightarrow> get j l' = get j l"
    and recording_keeps: "inv l \<Longrightarrow> recording r l = (y, l') \<Longrightarrow> inv l'"
    and recording_done: "recording r l = (Inr (), l') \<Longrightarrow> get (rkey r) l' = Some r"
    and recording_reserved: "recording r l = (y, l') \<Longrightarrow> reserved j l' = reserved j l"
    and recording_results: "recording r l = (y, l') \<Longrightarrow> get j l = Some r' \<Longrightarrow> get j l' = Some r'"
begin

text \<open>A settling effect keeps the invariant, the reservations and every recorded result.\<close>

definition settles :: "'l \<Rightarrow> 'l \<Rightarrow> bool" where
  "settles l l' \<longleftrightarrow> (inv l \<longrightarrow> inv l') \<and> (\<forall>j. reserved j l' = reserved j l) \<and>
     (\<forall>j r. get j l = Some r \<longrightarrow> get j l' = Some r)"

lemma settles_refl [simp]: "settles l l"
  by (simp add: settles_def)

lemma settles_trans: "settles l m \<Longrightarrow> settles m n \<Longrightarrow> settles l n"
  by (simp add: settles_def)

lemma recording_settles: "recording r l = (y, l') \<Longrightarrow> settles l l'"
  using recording_keeps recording_reserved recording_results unfolding settles_def by blast

text \<open>The books: what was handed to the broker was reserved, and nothing was handed over twice.\<close>

definition books_ok :: "'l \<Rightarrow> string list \<Rightarrow> bool" where
  "books_ok l ids \<longleftrightarrow> inv l \<and> distinct ids \<and> (\<forall>i \<in> set ids. reserved i l)"

lemma books_settle: "books_ok l ids \<Longrightarrow> settles l l' \<Longrightarrow> books_ok l' ids"
  by (simp add: books_ok_def settles_def)

lemma books_reserve: "books_ok l ids \<Longrightarrow> reserve i l = (x, l') \<Longrightarrow> books_ok l' ids"
  using reserve_keeps[of l i x l'] reserve_new[of l i l'] reserve_no[of i l x l']
  by (cases "x = Inr True") (auto simp: books_ok_def)

lemma books_submit:
  assumes "books_ok l ids" "reserve i l = (Inr True, l')" "settles l' m"
  shows "books_ok m (ids @ [ikey i])"
  using assms reserve_keeps[OF _ assms(2)] reserve_new[OF _ assms(2)] by (auto simp: books_ok_def settles_def)

end

text \<open>The contract of the entry ledgers is an instance.\<close>

sublocale submission_ledger \<subseteq> reservation_ledger "lp_get L" "lp_is_reserved L" "lp_reserve L" "lp_record L"
    xi_id xe_intent_id inv
  using reserve_inv reserve_fresh reserve_refused reserve_get record_inv record_ok record_reserved record_stable
  by unfold_locales blast+

interpretation action_memory: reservation_ledger "ap_get action_memory_port" "\<lambda>i l. i \<in> am_reserved l"
    "ap_reserve action_memory_port" "ap_record action_memory_port" pai_id par_intent_id "\<lambda>_. True"
  by unfold_locales
    (auto simp: action_memory_port_def action_memory_reserve_def action_memory_record_def split: if_splits)

subsection \<open>Facts about the rows\<close>

definition action_stamped :: "(action_transition \<Rightarrow> string) \<Rightarrow> action_transition \<Rightarrow> action_transition" where
  "action_stamped h t = t\<lparr>ptt_id := content_id ''patt-'' h (t\<lparr>ptt_id := []\<rparr>)\<rparr>"

lemma action_stamped_fields [simp]:
  "ptt_type (action_stamped h t) = ptt_type t" "ptt_intent_id (action_stamped h t) = ptt_intent_id t"
  "ptt_intent (action_stamped h t) = ptt_intent t" "ptt_result (action_stamped h t) = ptt_result t"
  by (simp_all add: action_stamped_def)

lemma action_payload_fields [simp]:
  "ptt_type (action_reservation i) = PT_RESERVED" "ptt_intent_id (action_reservation i) = pai_id i"
  "ptt_result (action_reservation i) = None" "ptt_intent (action_reservation i) = Some i"
  "ptt_type (action_recording r) = PT_RESULT_RECORDED" "ptt_intent_id (action_recording r) = par_intent_id r"
  "ptt_result (action_recording r) = Some r" "ptt_intent (action_recording r) = None"
  by (simp_all add: action_reservation_def action_recording_def)

lemma mk_action_row [simp]:
  "mk_action_transition h (action_reservation i) =
     (if pai_id i = [] then Inl (FieldError ''intent_id'') else Inr (action_stamped h (action_reservation i)))"
  "mk_action_transition h (action_recording r) =
     (if par_intent_id r = [] then Inl (FieldError ''intent_id'') else Inr (action_stamped h (action_recording r)))"
  by (simp_all add: mk_action_transition_def action_transition_rules_def validate.simps(2) nonempty_def
      action_stamped_def bind_identity_def action_reservation_def action_recording_def)

lemma append_action_cases:
  "append_action_row t d = (x, d') \<Longrightarrow> (x = Inl IntegrityError \<and> d' = d) \<or> (x = Inr () \<and> d' = d @ [t])"
  by (auto simp: append_action_row_def split: if_splits)

lemma action_reserved_append [simp]:
  "action_reserved i (d @ [t]) \<longleftrightarrow> action_reserved i d \<or> ptt_type t = PT_RESERVED \<and> ptt_intent_id t = i"
  by (auto simp: action_reserved_def)

lemma action_results_append [simp]:
  "action_results i (d @ [t]) = action_results i d @
     (if ptt_intent_id t = i then (case ptt_result t of None \<Rightarrow> [] | Some r \<Rightarrow> [r]) else [])"
  by (simp add: action_results_def map_filter_def split: option.split)

lemma action_db_reserve_cases:
  assumes "action_db_reserve h i d = (x, d')"
  obtains (fresh) "x = Inr True" "d' = d @ [action_stamped h (action_reservation i)]"
    "\<not> action_reserved (pai_id i) d"
  | (refused) "x \<noteq> Inr True" "d' = d"
  using assms
  by (cases "pai_id i = []")
    (auto simp: action_db_reserve_def eff_bind_def eff_of_def eff_catch_def eff_return_def append_action_row_def
      action_reserved_def list_ex_iff split: if_splits)

lemma action_db_record_cases:
  assumes "action_db_record h r d = (x, d')"
  obtains (new) "x = Inr ()" "action_db_get (par_intent_id r) d = None"
    "d' = d @ [action_stamped h (action_recording r)]"
  | (again) "x = Inr ()" "d' = d" "action_db_get (par_intent_id r) d = Some r"
  | (failed) e where "x = Inl e" "d' = d"
proof (cases "action_reserved (par_intent_id r) d \<and> action_db_get (par_intent_id r) d = None \<and> par_intent_id r \<noteq> []")
  case True
  obtain y e where a: "append_action_row (action_stamped h (action_recording r)) d = (y, e)" by fastforce
  then show ?thesis
    using assms True new failed append_action_cases[OF a] by (auto simp: action_db_record_def eff_bind_def eff_of_def)
next
  case False
  then show ?thesis
    using assms again failed
    by (auto simp: action_db_record_def eff_bind_def eff_of_def split: if_splits option.splits)
qed

interpretation action_sqlite: reservation_ledger "ap_get (action_db_port h)" action_reserved
    "ap_reserve (action_db_port h)" "ap_record (action_db_port h)" pai_id par_intent_id "\<lambda>_. True"
  for h :: "action_transition \<Rightarrow> string"
proof unfold_locales
  fix i r l l' and x :: "bool res" and y :: "unit res" and j r'
  show "ap_reserve (action_db_port h) i l = (Inr True, l') \<Longrightarrow>
      \<not> action_reserved (pai_id i) l \<and> (\<forall>j. action_reserved j l' \<longleftrightarrow> j = pai_id i \<or> action_reserved j l)"
    by (auto simp: action_db_port_def elim!: action_db_reserve_cases)
  show "ap_reserve (action_db_port h) i l = (x, l') \<Longrightarrow> x \<noteq> Inr True \<Longrightarrow> l' = l"
    by (auto simp: action_db_port_def elim!: action_db_reserve_cases)
  show "ap_reserve (action_db_port h) i l = (x, l') \<Longrightarrow> ap_get (action_db_port h) j l' = ap_get (action_db_port h) j l"
    by (auto simp: action_db_port_def action_db_get_def elim!: action_db_reserve_cases split: if_splits)
  show "ap_record (action_db_port h) r l = (Inr (), l') \<Longrightarrow>
      ap_get (action_db_port h) (par_intent_id r) l' = Some r"
    by (auto simp: action_db_port_def action_db_get_def elim!: action_db_record_cases split: if_splits)
  show "ap_record (action_db_port h) r l = (y, l') \<Longrightarrow> action_reserved j l' = action_reserved j l"
    by (auto simp: action_db_port_def elim!: action_db_record_cases)
  show "ap_record (action_db_port h) r l = (y, l') \<Longrightarrow> ap_get (action_db_port h) j l = Some r' \<Longrightarrow>
      ap_get (action_db_port h) j l' = Some r'"
    by (auto simp: action_db_port_def action_db_get_def elim!: action_db_record_cases split: if_splits)
qed simp_all

subsection \<open>The durable ledger refines the one in memory\<close>

text \<open>A client's calls and the answers it sees.\<close>

datatype action_op =
    Op_get string | Op_reserve action_intent | Op_record action_result | Op_requires string

datatype action_reply =
    Rp_result "action_result option" | Rp_fresh "bool res" | Rp_done "unit res" | Rp_flag bool

fun run_action_op :: "'l action_port \<Rightarrow> action_op \<Rightarrow> 'l \<Rightarrow> action_reply \<times> 'l" where
  "run_action_op L (Op_get i) l = (Rp_result (ap_get L i l), l)"
| "run_action_op L (Op_reserve i) l = map_prod Rp_fresh id (ap_reserve L i l)"
| "run_action_op L (Op_record r) l = map_prod Rp_done id (ap_record L r l)"
| "run_action_op L (Op_requires i) l = (Rp_flag (ap_requires L i l), l)"

fun run_action_ops :: "'l action_port \<Rightarrow> action_op list \<Rightarrow> 'l \<Rightarrow> action_reply list \<times> 'l" where
  "run_action_ops L [] l = ([], l)"
| "run_action_ops L (c # cs) l = (case run_action_op L c l of
     (a, l') \<Rightarrow> (case run_action_ops L cs l' of (as, m) \<Rightarrow> (a # as, m)))"

definition action_view :: "action_db \<Rightarrow> action_memory" where
  "action_view d = \<lparr>am_reserved = {i. action_reserved i d}, am_results = (\<lambda>i. action_db_get i d)\<rparr>"

lemma action_view_fields [simp]:
  "am_reserved (action_view d) = {i. action_reserved i d}" "am_results (action_view d) = (\<lambda>i. action_db_get i d)"
  by (simp_all add: action_view_def)

fun op_row :: "action_op \<Rightarrow> action_transition list" where
  "op_row (Op_reserve i) = [action_reservation i]"
| "op_row (Op_record r) = [action_recording r]"
| "op_row _ = []"

fun op_named :: "action_op \<Rightarrow> bool" where
  "op_named (Op_reserve i) = (pai_id i \<noteq> [])"
| "op_named (Op_record r) = (par_intent_id r \<noteq> [])"
| "op_named _ = True"

lemma op_row_facts: "t \<in> set (op_row c) \<Longrightarrow> ptt_id t = [] \<and>
    (ptt_type t = PT_RESERVED \<or> ptt_type t = PT_RESULT_RECORDED \<and> ptt_result t \<noteq> None)"
  by (cases c) (auto simp: action_reservation_def action_recording_def)

text \<open>The rows of a run come from its operations.\<close>

definition rows_from :: "(action_transition \<Rightarrow> string) \<Rightarrow> action_transition set \<Rightarrow> action_db \<Rightarrow> bool" where
  "rows_from h T d \<longleftrightarrow> (\<forall>u \<in> set d. \<exists>v \<in> T. u = action_stamped h v)"

definition digests_distinct :: "(action_transition \<Rightarrow> string) \<Rightarrow> action_transition set \<Rightarrow> bool" where
  "digests_distinct h T \<longleftrightarrow> inj_on (content_id ''patt-'' h) T \<and> (\<forall>t \<in> T. ptt_id t = [])"

lemma stamped_id: "ptt_id t = [] \<Longrightarrow> ptt_id (action_stamped h t) = content_id ''patt-'' h t"
  by (cases t) (simp add: action_stamped_def)

lemma row_fresh:
  assumes "digests_distinct h T" "rows_from h T d" "t \<in> T" "u \<in> set d" "ptt_id u = ptt_id (action_stamped h t)"
  shows "u = action_stamped h t"
proof -
  obtain v where v: "v \<in> T" "u = action_stamped h v" using assms(2,4) by (auto simp: rows_from_def)
  then have "content_id ''patt-'' h v = content_id ''patt-'' h t"
    using assms(1,3,5) by (simp add: digests_distinct_def stamped_id)
  then have "v = t" using assms(1,3) v(1) by (auto simp: digests_distinct_def dest: inj_onD)
  then show ?thesis using v(2) by simp
qed

lemma action_reserve_refines:
  assumes "digests_distinct h T" "rows_from h T d" "action_reservation i \<in> T" "pai_id i \<noteq> []"
    and "action_db_reserve h i d = (x, d')"
  shows "action_memory_reserve i (action_view d) = (x, action_view d') \<and> rows_from h T d'"
proof (cases "action_reserved (pai_id i) d")
  case True
  then have "list_ex (\<lambda>u. ptt_id u = ptt_id (action_stamped h (action_reservation i)) \<or>
      ptt_type u = PT_RESERVED \<and> ptt_intent_id u = pai_id i) d"
    by (auto simp: action_reserved_def list_ex_iff)
  then have "x = Inr False \<and> d' = d"
    using assms(4,5) by (auto simp: action_db_reserve_def eff_bind_def eff_of_def eff_catch_def eff_return_def
        append_action_row_def)
  then show ?thesis using True assms(2) by (simp add: action_memory_reserve_def action_view_def)
next
  case False
  then have "ptt_id u \<noteq> ptt_id (action_stamped h (action_reservation i))" if "u \<in> set d" for u
    using row_fresh[OF assms(1-3) that] that by (auto simp: action_reserved_def list_ex_iff)
  then have "append_action_row (action_stamped h (action_reservation i)) d =
      (Inr (), d @ [action_stamped h (action_reservation i)])"
    using False by (auto simp: append_action_row_def action_reserved_def list_ex_iff)
  then have d': "x = Inr True" "d' = d @ [action_stamped h (action_reservation i)]"
    using assms(4,5) by (simp_all add: action_db_reserve_def eff_bind_def eff_of_def eff_catch_def eff_return_def)
  have "action_view d' = (action_view d)\<lparr>am_reserved := insert (pai_id i) (am_reserved (action_view d))\<rparr>"
    by (auto simp: action_view_def d'(2) action_db_get_def)
  then show ?thesis
    using False d' assms(2,3) by (auto simp: action_memory_reserve_def rows_from_def)
qed

lemma action_record_refines:
  assumes "digests_distinct h T" "rows_from h T d" "action_recording r \<in> T" "par_intent_id r \<noteq> []"
    and "action_db_record h r d = (x, d')"
  shows "action_memory_record r (action_view d) = (x, action_view d') \<and> rows_from h T d'"
proof (cases "action_reserved (par_intent_id r) d \<and> action_db_get (par_intent_id r) d = None")
  case False
  have triv: "(\<lambda>i. action_db_get i d)(k \<mapsto> v) = (\<lambda>i. action_db_get i d)" if "action_db_get k d = Some v" for k v
    using that by auto
  show ?thesis
    using False assms(2,5)
    by (auto simp: action_db_record_def action_memory_record_def action_view_def triv split: if_splits option.splits)
next
  case True
  have "ptt_id u \<noteq> ptt_id (action_stamped h (action_recording r))" if "u \<in> set d" for u
  proof
    assume "ptt_id u = ptt_id (action_stamped h (action_recording r))"
    then have "u = action_stamped h (action_recording r)" using row_fresh[OF assms(1-3) that] by simp
    then have "r \<in> set (action_results (par_intent_id r) d)"
      using that by (force simp: action_results_def map_filter_def)
    then show False using True by (simp add: action_db_get_def split: if_splits)
  qed
  then have "append_action_row (action_stamped h (action_recording r)) d =
      (Inr (), d @ [action_stamped h (action_recording r)])"
    by (auto simp: append_action_row_def list_ex_iff)
  then have d': "x = Inr ()" "d' = d @ [action_stamped h (action_recording r)]"
    using True assms(4,5) by (simp_all add: action_db_record_def eff_bind_def eff_of_def)
  have "action_view d' = (action_view d)\<lparr>am_results := (am_results (action_view d))(par_intent_id r \<mapsto> r)\<rparr>"
    by (auto simp: action_view_def d'(2) action_db_get_def)
  then show ?thesis
    using True d' assms(2,3) by (auto simp: action_memory_record_def rows_from_def)
qed

lemma action_op_refines:
  assumes "digests_distinct h T" "rows_from h T d" "set (op_row c) \<subseteq> T" "op_named c"
    and "run_action_op (action_db_port h) c d = (a, d')"
  shows "run_action_op action_memory_port c (action_view d) = (a, action_view d') \<and> rows_from h T d'"
proof (cases c)
  case (Op_reserve i)
  then obtain x where "action_db_reserve h i d = (x, d')" "a = Rp_fresh x"
    using assms(5) by (auto simp: action_db_port_def map_prod_def split: prod.splits)
  then show ?thesis
    using action_reserve_refines[OF assms(1,2), of i x d'] assms(3,4) Op_reserve by (simp add: action_memory_port_def)
next
  case (Op_record r)
  then obtain x where "action_db_record h r d = (x, d')" "a = Rp_done x"
    using assms(5) by (auto simp: action_db_port_def map_prod_def split: prod.splits)
  then show ?thesis
    using action_record_refines[OF assms(1,2), of r x d'] assms(3,4) Op_record by (simp add: action_memory_port_def)
qed (use assms(2,5) in \<open>auto simp: action_db_port_def action_memory_port_def action_view_def
    action_memory_requires_def action_db_requires_def\<close>)

lemma action_ops_refine:
  assumes "digests_distinct h T" "rows_from h T d" "\<Union> (set ` op_row ` set cs) \<subseteq> T" "list_all op_named cs"
    and "run_action_ops (action_db_port h) cs d = (as, d')"
  shows "run_action_ops action_memory_port cs (action_view d) = (as, action_view d')"
  using assms(2-5)
proof (induction cs arbitrary: d as)
  case (Cons c cs)
  obtain a e where e: "run_action_op (action_db_port h) c d = (a, e)" by fastforce
  obtain bs where bs: "run_action_ops (action_db_port h) cs e = (bs, d')" "as = a # bs"
    using Cons.prems(4) e by (auto split: prod.splits)
  have "run_action_op action_memory_port c (action_view d) = (a, action_view e) \<and> rows_from h T e"
    using Cons.prems by (intro action_op_refines[OF assms(1) _ _ _ e]) auto
  then show ?case using Cons.IH[of e bs] Cons.prems(2,3) bs by auto
qed simp

text \<open>C14. The append-only SQLite ledger of position actions refines the ledger in memory: every sequence of
  lookups, reservations, recordings and reconciliation queries, from the empty ledger, gives the same
  answers and exceptions in both, and the table reads as the memory's state at the end. The digests of the
  rows written must not collide, and the identifiers must not be empty.\<close>

theorem durable_actions_refine_memory:
  assumes "inj_on (content_id ''patt-'' h) (set (concat (map op_row cs)))" "list_all op_named cs"
  shows "run_action_ops action_memory_port cs empty_action_memory =
    map_prod id action_view (run_action_ops (action_db_port h) cs [])"
proof -
  obtain as d where r: "run_action_ops (action_db_port h) cs [] = (as, d)" by fastforce
  have "digests_distinct h (set (concat (map op_row cs)))"
    using assms(1) by (auto simp: digests_distinct_def dest: op_row_facts)
  moreover have "\<Union> (set ` op_row ` set cs) \<subseteq> set (concat (map op_row cs))" by auto
  ultimately have "run_action_ops action_memory_port cs (action_view []) = (as, action_view d)"
    using r assms(2) by (intro action_ops_refine) (auto simp: rows_from_def)
  moreover have "action_view [] = empty_action_memory"
    by (simp add: action_view_def empty_action_memory_def action_reserved_def action_db_get_def action_results_def
        map_filter_def)
  ultimately show ?thesis using r by simp
qed

subsection \<open>Witnesses\<close>

text \<open>Closing a buy of one lot, filled by the broker.\<close>

definition demo_close :: action_intent where
  "demo_close = \<lparr>pai_id = ''pai-1'', pai_policy_id = ''pap-1'', pai_safety_id = ''pas-1'',
     pai_management_id = ''pmo-1'', pai_position_id = ''pos-1'', pai_broker_ticket = Some 7,
     pai_intent_id = ''xi-1'', pai_result_id = ''xe-1'', pai_link_id = ''bil-1'', pai_report_id = ''rr-1'',
     pai_readiness_id = ''ready-1'', pai_setup_id = ''setup-1'', pai_thesis_id = ''thesis-1'',
     pai_scenario_id = None, pai_action = PA_CLOSE, pai_symbol = ''XAUUSD'', pai_side = PS_BUY,
     pai_volume = Fin 1, pai_close_volume = Some (Fin 1), pai_old_stop = Some (Fin 10), pai_new_stop = None,
     pai_reasons = [AR_CLOSE_POSITION_SAFE], pai_as_of = 0, pai_available_at = 0\<rparr>"

definition demo_closed :: action_result where
  "demo_closed = \<lparr>par_id = ''patr-1'', par_intent_id = ''pai-1'', par_action = PA_CLOSE,
     par_position_id = ''pos-1'', par_ticket = 7, par_symbol = ''XAUUSD'', par_side = PS_BUY,
     par_status = XS_FILLED, par_reason_code = None, par_reason = None, par_requested_volume = Some (Fin 1),
     par_executed_volume = Some (Fin 1), par_requested_stop = None, par_fill_price = Some (Fin 12),
     par_transport_id = Some ''mt5-deal-9'', par_retcode = Some ''10009'', par_broker_status = None,
     par_event_time = 0, par_observed_at = 0, par_available_at = 0\<rparr>"

definition demo_action_row_hash :: "action_transition \<Rightarrow> string" where
  "demo_action_row_hash t = (if ptt_type t = PT_RESERVED then ''00000000000000000000'' else ''11111111111111111111'')"

theorem durable_actions_refine_memory_witness:
  "fst (run_action_ops (action_db_port demo_action_row_hash)
      [Op_reserve demo_close, Op_requires ''pai-1'', Op_record demo_closed, Op_reserve demo_close,
       Op_requires ''pai-1''] []) =
   [Rp_fresh (Inr True), Rp_flag True, Rp_done (Inr ()), Rp_fresh (Inr False), Rp_flag False]"
proof -
  let ?cs = "[Op_reserve demo_close, Op_requires ''pai-1'', Op_record demo_closed, Op_reserve demo_close,
       Op_requires ''pai-1'']"
  have "inj_on (content_id ''patt-'' demo_action_row_hash) (set (concat (map op_row ?cs)))"
    by (auto simp: inj_on_def content_id_def demo_action_row_hash_def)
  from durable_actions_refine_memory[OF this]
  have "fst (run_action_ops action_memory_port ?cs empty_action_memory) =
      fst (run_action_ops (action_db_port demo_action_row_hash) ?cs [])"
    by (simp add: demo_close_def demo_closed_def)
  moreover have "pai_id demo_close = ''pai-1''" "par_intent_id demo_closed = ''pai-1''"
      "par_status demo_closed = XS_FILLED"
    by (simp_all add: demo_close_def demo_closed_def)
  ultimately show ?thesis
    by (simp add: action_memory_port_def action_memory_reserve_def action_memory_record_def
        action_memory_requires_def empty_action_memory_def unsettled_def)
qed

end
