(* ===== verification/MT5Gateway.thy ===== *)
theory MT5Gateway
  imports PositionTransport PyValue
begin

section \<open>The broker gateway (\<open>mt5/contracts.py\<close>, \<open>mt5/preflight.py\<close>, \<open>mt5/symbols.py\<close>)\<close>

text \<open>
  The contracts that isolate the terminal package. The gateway is a parameter: every call of it is an
  arbitrary effectful function on a world of its own, and answers with mappings from names to dynamically
  typed values. Texts that only end in messages (\<open>str(error)\<close>, \<open>repr(value)\<close>) are rendered by parameters.
\<close>

subsection \<open>Mappings of values\<close>

type_synonym info = "(string \<times> py_value) list"

definition info_get :: "info \<Rightarrow> string \<Rightarrow> py_value" where
  "info_get m k = (case map_of m k of None \<Rightarrow> PvNone | Some v \<Rightarrow> v)"

definition info_get_or :: "info \<Rightarrow> string \<Rightarrow> py_value \<Rightarrow> py_value" where
  "info_get_or m k d = (case map_of m k of None \<Rightarrow> d | Some v \<Rightarrow> v)"

record texts =
  tx_error :: "py_error \<Rightarrow> string"
  tx_repr :: "py_value \<Rightarrow> string"
  tx_info :: "info \<Rightarrow> string"

text \<open>\<open>str(value)\<close> is the text itself, or the value's representation.\<close>

fun py_str :: "texts \<Rightarrow> py_value \<Rightarrow> string" where
  "py_str T (PvText s) = s"
| "py_str T v = tx_repr T v"

text \<open>\<open>_int_value\<close> and \<open>_float_value\<close> of \<open>mt5/position.py\<close> and \<open>mt5/entry.py\<close>.\<close>

definition int_value :: "texts \<Rightarrow> py_value \<Rightarrow> int \<Rightarrow> int res" where
  "int_value T v d =
     (if v = PvNone then Inr d
      else if convertible v then to_int v
      else Inl (ValueError (''invalid MT5 integer value: '' @ tx_repr T v)))"

definition float_value :: "texts \<Rightarrow> py_value \<Rightarrow> f64 option \<Rightarrow> f64 res" where
  "float_value T v d =
     (if v = PvNone then (case d of None \<Rightarrow> Inl (ValueError ''missing MT5 numeric value'') | Some x \<Rightarrow> Inr x)
      else if convertible v then to_float v
      else Inl (ValueError (''invalid MT5 numeric value: '' @ tx_repr T v)))"

definition positive_int :: "texts \<Rightarrow> py_value \<Rightarrow> int option res" where
  "positive_int T v = res_bind (int_value T v 0) (\<lambda>n. Inr (if 0 < n then Some n else None))"

definition transport_guard :: "bool \<Rightarrow> string \<Rightarrow> unit res" where
  "transport_guard b msg = (if b then Inr () else Inl (TransportError msg))"

lemma transport_guard_Inr [simp]: "transport_guard b msg = Inr u \<longleftrightarrow> b"
  by (simp add: transport_guard_def)

subsection \<open>Contracts\<close>

record mt5_constants =
  mc_account_demo :: int
  mc_account_contest :: int
  mc_account_real :: int
  mc_symbol_disabled :: int
  mc_position_buy :: int
  mc_position_sell :: int
  mc_order_buy :: int
  mc_order_sell :: int
  mc_buy_limit :: int
  mc_sell_limit :: int
  mc_buy_stop :: int
  mc_sell_stop :: int
  mc_buy_stop_limit :: int
  mc_sell_stop_limit :: int
  mc_action_deal :: int
  mc_action_sltp :: int
  mc_time_gtc :: int
  mc_filling_ioc :: int
  mc_retcode_requote :: int
  mc_retcode_placed :: int
  mc_retcode_done :: int
  mc_retcode_partial :: int

record symbol_mapping =
  sm_id :: string
  sm_internal :: string
  sm_broker :: string

definition mk_symbol_mapping :: "(symbol_mapping \<Rightarrow> string) \<Rightarrow> symbol_mapping \<Rightarrow> symbol_mapping res" where
  "mk_symbol_mapping h m = res_bind (validate
     [nonempty ''internal_symbol'' (sm_internal m), nonempty ''broker_symbol'' (sm_broker m)] m)
     (bind_identity ''msm-'' h (\<lambda>r. r\<lparr>sm_id := []\<rparr>) sm_id (\<lambda>i r. r\<lparr>sm_id := i\<rparr>)
        ''mapping_id does not match MT5 symbol mapping content'')"

definition to_broker :: "symbol_mapping \<Rightarrow> string \<Rightarrow> string res" where
  "to_broker m s = (if s \<noteq> sm_internal m then Inl (ValueError (''internal symbol '' @ s @ '' is not configured''))
     else Inr (sm_broker m))"

definition to_internal :: "symbol_mapping \<Rightarrow> string \<Rightarrow> string res" where
  "to_internal m s = (if s \<noteq> sm_broker m then Inl (ValueError (''broker symbol '' @ s @ '' is not configured''))
     else Inr (sm_internal m))"

record persisted_link =
  pl_id :: string
  pl_intent_id :: string
  pl_object_kind :: broker_object_kind
  pl_ticket :: int
  pl_transport_id :: string
  pl_setup_id :: "string option"
  pl_thesis_id :: "string option"

definition mk_persisted_link :: "(persisted_link \<Rightarrow> string) \<Rightarrow> persisted_link \<Rightarrow> persisted_link res" where
  "mk_persisted_link h l = res_bind (validate
     [nonempty ''intent_id'' (pl_intent_id l), field_ok ''broker_ticket'' (0 < pl_ticket l),
      nonempty ''transport_execution_id'' (pl_transport_id l)] l)
     (bind_identity ''mpl-'' h (\<lambda>r. r\<lparr>pl_id := []\<rparr>) pl_id (\<lambda>i r. r\<lparr>pl_id := i\<rparr>)
        ''linkage_id does not match persisted MT5 linkage content'')"

record transport_config =
  tc_deviation_points :: int
  tc_magic :: int
  tc_max_tick_age :: f64

definition mk_transport_config :: "transport_config \<Rightarrow> transport_config res" where
  "mk_transport_config c = validate
     [field_ok ''deviation_points'' (0 \<le> tc_deviation_points c), field_ok ''magic'' (0 \<le> tc_magic c),
      field_ok ''max_tick_age_seconds'' (flt (Fin 0) (tc_max_tick_age c))] c"

definition default_mt5_transport_config :: transport_config where
  "default_mt5_transport_config =
     \<lparr>tc_deviation_points = 20, tc_magic = 71008, tc_max_tick_age = Fin 5\<rparr>"

text \<open>The operations of the gateway protocol the adapters call.\<close>

record 'w gateway =
  gw_constants :: mt5_constants
  gw_connect :: "('w, unit) eff"
  gw_last_error :: "('w, py_value) eff"
  gw_terminal_info :: "('w, info option) eff"
  gw_account_info :: "('w, info option) eff"
  gw_symbol_select :: "string \<Rightarrow> bool \<Rightarrow> ('w, bool) eff"
  gw_symbol_info :: "string \<Rightarrow> ('w, info option) eff"
  gw_symbol_info_tick :: "string \<Rightarrow> ('w, info option) eff"
  gw_positions_get :: "string \<Rightarrow> ('w, info list) eff"
  gw_orders_get :: "string \<Rightarrow> ('w, info list) eff"
  gw_order_check :: "info \<Rightarrow> ('w, info option) eff"
  gw_order_send :: "info \<Rightarrow> ('w, info option) eff"

subsection \<open>Resolution of the broker symbol\<close>

datatype symbol_selection = SYM_SINGLE | SYM_ORDERED_ALLOWLIST

record gold_configuration =
  gsc_id :: string
  gsc_mode :: symbol_selection
  gsc_symbols :: "string list"

definition gold_configuration_rules :: "gold_configuration \<Rightarrow> (bool \<times> py_error) list" where
  "gold_configuration_rules c =
     (let normalized = map (strip is_space) (gsc_symbols c) in
     [field_ok ''broker_symbols'' (gsc_symbols c \<noteq> []),
      rule_ok ''broker symbols must be non-empty'' (list_all (\<lambda>s. s \<noteq> []) normalized),
      rule_ok ''broker symbols must already be stripped'' (normalized = gsc_symbols c),
      rule_ok ''broker symbols must be unique'' (distinct normalized),
      rule_ok ''single symbol mode requires exactly one broker symbol''
        (\<not> (gsc_mode c = SYM_SINGLE \<and> length normalized \<noteq> 1))])"

definition mk_gold_configuration ::
  "(gold_configuration \<Rightarrow> string) \<Rightarrow> gold_configuration \<Rightarrow> gold_configuration res" where
  "mk_gold_configuration h c = res_bind (validate (gold_configuration_rules c) c)
     (bind_identity ''gsc-'' h (\<lambda>r. r\<lparr>gsc_id := []\<rparr>) gsc_id (\<lambda>i r. r\<lparr>gsc_id := i\<rparr>)
        ''configuration_id does not match symbol configuration'')"

definition gold_single :: "(gold_configuration \<Rightarrow> string) \<Rightarrow> string \<Rightarrow> gold_configuration res" where
  "gold_single h s = mk_gold_configuration h \<lparr>gsc_id = [], gsc_mode = SYM_SINGLE, gsc_symbols = [s]\<rparr>"

definition gold_aliases :: "(gold_configuration \<Rightarrow> string) \<Rightarrow> string list \<Rightarrow> gold_configuration res" where
  "gold_aliases h ss =
     mk_gold_configuration h \<lparr>gsc_id = [], gsc_mode = SYM_ORDERED_ALLOWLIST, gsc_symbols = ss\<rparr>"

record resolved_instrument =
  rbi_id :: string
  rbi_configuration_id :: string
  rbi_symbol :: string
  rbi_checked :: "string list"
  rbi_point_size :: f64
  rbi_available_at :: dt

definition mk_resolved_instrument ::
  "(resolved_instrument \<Rightarrow> string) \<Rightarrow> resolved_instrument \<Rightarrow> resolved_instrument res" where
  "mk_resolved_instrument h r = res_bind (validate
     [nonempty ''configuration_id'' (rbi_configuration_id r), nonempty ''resolved_broker_symbol'' (rbi_symbol r),
      field_ok ''checked_broker_symbols'' (rbi_checked r \<noteq> []),
      field_ok ''point_size'' (flt (Fin 0) (rbi_point_size r))] r)
     (bind_identity ''rbi-'' h (\<lambda>r. r\<lparr>rbi_id := [], rbi_available_at := 0\<rparr>) rbi_id (\<lambda>i r. r\<lparr>rbi_id := i\<rparr>)
        ''resolution_id does not match resolved broker instrument'')"

text \<open>The point size of a symbol's facts: a positive number, or the symbol is skipped.\<close>

fun point_of :: "py_value \<Rightarrow> f64 option res" where
  "point_of (PvInt n) = res_bind (float_of_int n) (\<lambda>x. Inr (if fle x (Fin 0) then None else Some x))"
| "point_of (PvFloat x) = Inr (if fle x (Fin 0) then None else Some x)"
| "point_of _ = Inr None"

definition symbol_point :: "string \<Rightarrow> info option \<Rightarrow> f64 option res" where
  "symbol_point s v = (case v of
     None \<Rightarrow> Inr None
   | Some m \<Rightarrow> if info_get m ''name'' = PvText s then point_of (info_get m ''point'') else Inr None)"

fun comma_sep :: "string list \<Rightarrow> string" where
  "comma_sep [] = []"
| "comma_sep [s] = s"
| "comma_sep (s # ss) = s @ '', '' @ comma_sep ss"

fun resolve_symbols ::
  "(resolved_instrument \<Rightarrow> string) \<Rightarrow> (string \<Rightarrow> ('w, info option) eff) \<Rightarrow> gold_configuration \<Rightarrow> dt
     \<Rightarrow> string list \<Rightarrow> string list \<Rightarrow> ('w, resolved_instrument) eff" where
  "resolve_symbols h q c t seen [] =
     eff_of (Inl (ValueError
       (''none of the explicitly configured Gold broker symbols is available: ''
       @ comma_sep (gsc_symbols c))))"
| "resolve_symbols h q c t seen (s # ss) =
     eff_bind (q s) (\<lambda>v. eff_bind (eff_of (symbol_point s v)) (\<lambda>p. case p of
       None \<Rightarrow> resolve_symbols h q c t (seen @ [s]) ss
     | Some x \<Rightarrow> eff_of (mk_resolved_instrument h \<lparr>rbi_id = [], rbi_configuration_id = gsc_id c, rbi_symbol = s,
         rbi_checked = seen @ [s], rbi_point_size = x, rbi_available_at = t\<rparr>)))"

definition resolve_gold_instrument ::
  "(resolved_instrument \<Rightarrow> string) \<Rightarrow> (string \<Rightarrow> ('w, info option) eff) \<Rightarrow> gold_configuration \<Rightarrow> dt
     \<Rightarrow> ('w, resolved_instrument) eff" where
  "resolve_gold_instrument h q c t = resolve_symbols h q c t [] (gsc_symbols c)"

end
