(* ===== verification/Journal.thy ===== *)
theory Journal
  imports Kernel MT5Gateway
begin

section \<open>The runtime journal (\<open>runtime/journal.py\<close>)\<close>

text \<open>
  The typed append-only journal: the semantic objects it stores, their identifiers and times as
  \<open>JournalRecord.from_semantic\<close> reads them off by attribute name, and the SQLite journal as the list of its
  rows. A record keeps its validated object; its JSON text and its decoding are pydantic's. The records of
  the shadow runtime, of the specialist interaction and of the broker-time normalisation are left out.
\<close>

subsection \<open>Semantic objects\<close>

datatype journal_outcome_status = JO_APPLIED | JO_DUPLICATE | JO_NO_OP | JO_REJECTED

record journal_outcome =
  jo_id :: string
  jo_status :: journal_outcome_status
  jo_reason_code :: string
  jo_message :: string

definition mk_journal_outcome :: "(journal_outcome \<Rightarrow> string) \<Rightarrow> journal_outcome \<Rightarrow> journal_outcome res" where
  "mk_journal_outcome h r = res_bind (validate
     [nonempty ''reason_code'' (jo_reason_code r),
      field_ok ''message'' (1 \<le> length (jo_message r) \<and> length (jo_message r) \<le> 500)] r)
     (bind_identity ''jo-'' h (\<lambda>r. r\<lparr>jo_id := []\<rparr>) jo_id (\<lambda>i r. r\<lparr>jo_id := i\<rparr>)
        ''outcome_id does not match outcome content'')"

datatype semantic =
    J_Event runtime_event | J_State shared_state | J_Snapshot feature_snapshot | J_Tool tool_result
  | J_Input agent_input | J_Evidence agent_evidence | J_Memory agent_memory | J_Bundle evidence_bundle
  | J_Thesis thesis_state | J_Scenario scenario_state | J_Master master_proposal
  | J_Discipline discipline_outcome | J_Risk risk_outcome | J_Intent execution_intent
  | J_Result execution_result | J_Management management_outcome | J_Safety safety_outcome
  | J_Action action_intent | J_Action_Result action_result | J_Report reconciliation_report
  | J_Readiness resume_readiness | J_Checkpoint recovery_checkpoint | J_Outcome journal_outcome
  | J_Instrument resolved_instrument

datatype journal_type =
    RUNTIME_EVENT | RUNTIME_STATE | FEATURE_SNAPSHOT | TOOL_RESULT | AGENT_INPUT | AGENT_EVIDENCE | AGENT_MEMORY
  | EVIDENCE_BUNDLE | THESIS_STATE | SCENARIO_STATE | MASTER_PROPOSAL | DISCIPLINE_OUTCOME | RISK_OUTCOME
  | EXECUTION_INTENT | EXECUTION_RESULT | POSITION_MANAGEMENT_OUTCOME | POSITION_ACTION_SAFETY_OUTCOME
  | POSITION_ACTION_INTENT | POSITION_ACTION_TRANSPORT_RESULT | RECONCILIATION_REPORT | RESUME_READINESS
  | RECOVERY_CHECKPOINT | OUTCOME | INSTRUMENT_RESOLUTION

fun journal_type_of :: "semantic \<Rightarrow> journal_type" where
  "journal_type_of (J_Event _) = RUNTIME_EVENT"
| "journal_type_of (J_State _) = RUNTIME_STATE"
| "journal_type_of (J_Snapshot _) = FEATURE_SNAPSHOT"
| "journal_type_of (J_Tool _) = TOOL_RESULT"
| "journal_type_of (J_Input _) = AGENT_INPUT"
| "journal_type_of (J_Evidence _) = AGENT_EVIDENCE"
| "journal_type_of (J_Memory _) = AGENT_MEMORY"
| "journal_type_of (J_Bundle _) = EVIDENCE_BUNDLE"
| "journal_type_of (J_Thesis _) = THESIS_STATE"
| "journal_type_of (J_Scenario _) = SCENARIO_STATE"
| "journal_type_of (J_Master _) = MASTER_PROPOSAL"
| "journal_type_of (J_Discipline _) = DISCIPLINE_OUTCOME"
| "journal_type_of (J_Risk _) = RISK_OUTCOME"
| "journal_type_of (J_Intent _) = EXECUTION_INTENT"
| "journal_type_of (J_Result _) = EXECUTION_RESULT"
| "journal_type_of (J_Management _) = POSITION_MANAGEMENT_OUTCOME"
| "journal_type_of (J_Safety _) = POSITION_ACTION_SAFETY_OUTCOME"
| "journal_type_of (J_Action _) = POSITION_ACTION_INTENT"
| "journal_type_of (J_Action_Result _) = POSITION_ACTION_TRANSPORT_RESULT"
| "journal_type_of (J_Report _) = RECONCILIATION_REPORT"
| "journal_type_of (J_Readiness _) = RESUME_READINESS"
| "journal_type_of (J_Checkpoint _) = RECOVERY_CHECKPOINT"
| "journal_type_of (J_Outcome _) = OUTCOME"
| "journal_type_of (J_Instrument _) = INSTRUMENT_RESOLUTION"

subsection \<open>Identifiers\<close>

text \<open>
  The attributes of an object among the names of \<open>_semantic_id\<close>; the first name in the order of that list
  with a non-empty value gives the semantic identifier. An object may carry identifiers of other objects
  under earlier names than its own.
\<close>

fun id_attributes :: "semantic \<Rightarrow> (string \<times> string) list" where
  "id_attributes (J_Event e) = [(''event_id'', ev_id e)]"
| "id_attributes (J_State s) = [(''state_id'', st_id s)]"
| "id_attributes (J_Snapshot s) = [(''snapshot_id'', fs_id s)]"
| "id_attributes (J_Tool r) = [(''result_id'', tr_id r)]"
| "id_attributes (J_Input a) = [(''input_id'', ai_id a)]"
| "id_attributes (J_Evidence e) = [(''evidence_id'', ae_id e)]"
| "id_attributes (J_Memory m) = [(''memory_id'', am_id m)]"
| "id_attributes (J_Bundle b) = [(''bundle_id'', eb_id b), (''event_id'', eb_event_id b)]"
| "id_attributes (J_Thesis t) = [(''state_id'', th_state_id t)]"
| "id_attributes (J_Scenario s) = [(''state_id'', scn_state_id s)]"
| "id_attributes (J_Master m) =
     [(''proposal_id'', mp_id m), (''bundle_id'', mp_bundle_id m), (''event_id'', mp_event_id m)]"
| "id_attributes (J_Discipline d) = [(''outcome_id'', do_id d)]"
| "id_attributes (J_Risk r) = [(''outcome_id'', ro_id r)]"
| "id_attributes (J_Intent i) = [(''intent_id'', xi_id i)]"
| "id_attributes (J_Result r) = [(''result_id'', xe_id r)]"
| "id_attributes (J_Management m) = [(''outcome_id'', pmo_id m)]"
| "id_attributes (J_Safety s) = [(''safety_outcome_id'', pas_id s), (''context_id'', pas_context_id s)]"
| "id_attributes (J_Action i) = [(''intent_id'', pai_id i), (''safety_outcome_id'', pai_safety_id i)]"
| "id_attributes (J_Action_Result r) = [(''result_id'', par_id r)]"
| "id_attributes (J_Report r) = [(''report_id'', rp_id r), (''snapshot_id'', rp_snapshot_id r)]"
| "id_attributes (J_Readiness r) = [(''readiness_id'', rd_id r)]"
| "id_attributes (J_Checkpoint c) = [(''checkpoint_id'', ck_id c)]
     @ (case ck_readiness_id c of None \<Rightarrow> [] | Some i \<Rightarrow> [(''readiness_id'', i)])"
| "id_attributes (J_Outcome r) = [(''outcome_id'', jo_id r)]"
| "id_attributes (J_Instrument r) = [(''resolution_id'', rbi_id r)]"

definition id_priority :: "string list" where
  "id_priority = [''scan_id'', ''cycle_id'', ''plan_id'', ''context_id'', ''record_id'', ''event_id'', ''state_id'',
     ''snapshot_id'', ''result_id'', ''input_id'', ''evidence_id'', ''memory_id'', ''bundle_id'', ''proposal_id'',
     ''safety_outcome_id'', ''intent_id'', ''outcome_id'', ''report_id'', ''readiness_id'', ''checkpoint_id'',
     ''resolution_id'', ''trace_id'', ''availability_id'', ''assessment_id'', ''round_id'', ''turn_id'', ''impact_id'']"

definition id_attribute :: "semantic \<Rightarrow> string \<Rightarrow> string" where
  "id_attribute v name = (case map_of (id_attributes v) name of None \<Rightarrow> [] | Some i \<Rightarrow> i)"

definition semantic_id :: "semantic \<Rightarrow> string res" where
  "semantic_id v = (case find (\<lambda>name. id_attribute v name \<noteq> []) id_priority of
     Some name \<Rightarrow> Inr (id_attribute v name)
   | None \<Rightarrow> Inl (ValueError ''journal semantic object has no deterministic ID''))"

subsection \<open>Records\<close>

text \<open>The time attributes of an object and its source; an absent attribute is \<open>None\<close>.\<close>

record semantic_times =
  tm_event_time :: "dt option"
  tm_observed_at :: "dt option"
  tm_available_at :: "dt option"
  tm_as_of :: "dt option"
  tm_updated_at :: "dt option"
  tm_source :: "string option"

abbreviation no_times :: semantic_times where
  "no_times \<equiv> \<lparr>tm_event_time = None, tm_observed_at = None, tm_available_at = None, tm_as_of = None,
     tm_updated_at = None, tm_source = None\<rparr>"

abbreviation dated :: "dt \<Rightarrow> dt \<Rightarrow> semantic_times" where
  "dated t a \<equiv> no_times\<lparr>tm_as_of := Some t, tm_available_at := Some a\<rparr>"

fun times_of :: "semantic \<Rightarrow> semantic_times" where
  "times_of (J_Event e) = no_times\<lparr>tm_event_time := Some (ev_event_time e), tm_observed_at := Some (ev_observed_at e),
     tm_available_at := Some (ev_available_at e), tm_source := Some (ev_source e)\<rparr>"
| "times_of (J_State s) = no_times\<lparr>tm_as_of := Some (st_as_of s)\<rparr>"
| "times_of (J_Snapshot s) = (dated (fs_as_of s) (fs_available_at s))\<lparr>tm_source := Some (fs_source s)\<rparr>"
| "times_of (J_Tool r) = dated (tr_as_of r) (tr_available_at r)"
| "times_of (J_Input a) = no_times\<lparr>tm_as_of := Some (ai_as_of a)\<rparr>"
| "times_of (J_Evidence e) = dated (ae_as_of e) (ae_available_at e)"
| "times_of (J_Memory m) = no_times\<lparr>tm_updated_at := Some (am_updated_at m)\<rparr>"
| "times_of (J_Bundle b) = no_times\<lparr>tm_as_of := Some (eb_as_of b)\<rparr>"
| "times_of (J_Thesis t) = no_times\<lparr>tm_updated_at := Some (th_updated_at t)\<rparr>"
| "times_of (J_Scenario s) = no_times\<lparr>tm_updated_at := Some (scn_updated_at s)\<rparr>"
| "times_of (J_Master m) = no_times\<lparr>tm_as_of := Some (mp_as_of m)\<rparr>"
| "times_of (J_Discipline d) = dated (do_as_of d) (do_available_at d)"
| "times_of (J_Risk r) = dated (ro_as_of r) (ro_available_at r)"
| "times_of (J_Intent i) = dated (xi_as_of i) (xi_available_at i)"
| "times_of (J_Result r) = no_times\<lparr>tm_event_time := Some (xe_event_time r),
     tm_observed_at := Some (xe_observed_at r), tm_available_at := Some (xe_available_at r)\<rparr>"
| "times_of (J_Management m) = dated (pmo_as_of m) (pmo_available_at m)"
| "times_of (J_Safety s) = dated (pas_as_of s) (pas_available_at s)"
| "times_of (J_Action i) = dated (pai_as_of i) (pai_available_at i)"
| "times_of (J_Action_Result r) = no_times\<lparr>tm_event_time := Some (par_event_time r),
     tm_observed_at := Some (par_observed_at r), tm_available_at := Some (par_available_at r)\<rparr>"
| "times_of (J_Report r) = dated (rp_as_of r) (rp_available_at r)"
| "times_of (J_Readiness r) = no_times\<lparr>tm_as_of := Some (rd_as_of r)\<rparr>"
| "times_of (J_Checkpoint c) = no_times\<lparr>tm_available_at := Some (ck_available_at c)\<rparr>"
| "times_of (J_Outcome r) = no_times"
| "times_of (J_Instrument r) = no_times\<lparr>tm_available_at := Some (rbi_available_at r)\<rparr>"

fun or_else :: "'a option \<Rightarrow> 'a option \<Rightarrow> 'a option" where
  "or_else (Some x) _ = Some x"
| "or_else None y = y"

definition causal_time :: "dt option \<Rightarrow> semantic \<Rightarrow> dt option" where
  "causal_time explicit v = or_else (or_else explicit (tm_available_at (times_of v)))
     (or_else (tm_as_of (times_of v)) (tm_updated_at (times_of v)))"

record journal_record =
  jr_id :: string
  jr_type :: journal_type
  jr_semantic_id :: string
  jr_event_id :: "string option"
  jr_parent_id :: "string option"
  jr_previous_id :: "string option"
  jr_event_time :: "dt option"
  jr_observed_at :: "dt option"
  jr_available_at :: dt
  jr_source :: "string option"
  jr_payload :: semantic

definition mk_journal_record :: "(journal_record \<Rightarrow> string) \<Rightarrow> journal_record \<Rightarrow> journal_record res" where
  "mk_journal_record h r = res_bind (validate
     [nonempty ''semantic_id'' (jr_semantic_id r),
      rule_ok ''journal semantic ID does not match payload'' (semantic_id (jr_payload r) = Inr (jr_semantic_id r))] r)
     (bind_identity ''jr-'' h (\<lambda>r. r\<lparr>jr_id := []\<rparr>) jr_id (\<lambda>i r. r\<lparr>jr_id := i\<rparr>)
        ''record_id does not match journal record content'')"

text \<open>The arguments \<open>event_id\<close>, \<open>parent_id\<close>, \<open>previous_id\<close> and the explicit \<open>available_at\<close>.\<close>

record links =
  lk_event :: "string option"
  lk_parent :: "string option"
  lk_previous :: "string option"
  lk_available_at :: "dt option"

definition from_semantic :: "(journal_record \<Rightarrow> string) \<Rightarrow> links \<Rightarrow> semantic \<Rightarrow> journal_record res" where
  "from_semantic h l v = (case causal_time (lk_available_at l) v of
     None \<Rightarrow> Inl (ValueError ''journal record requires a causal availability timestamp'')
   | Some t \<Rightarrow> res_bind (semantic_id v) (\<lambda>i. mk_journal_record h
       \<lparr>jr_id = [], jr_type = journal_type_of v, jr_semantic_id = i, jr_event_id = lk_event l,
        jr_parent_id = lk_parent l, jr_previous_id = lk_previous l, jr_event_time = tm_event_time (times_of v),
        jr_observed_at = tm_observed_at (times_of v), jr_available_at = t, jr_source = tm_source (times_of v),
        jr_payload = v\<rparr>))"

subsection \<open>The SQLite journal\<close>

text \<open>
  The rows in the order of their sequence numbers, which count from 1 and are never reused; the triggers
  refuse updates and deletions, so \<open>append\<close> is the only change.
\<close>

type_synonym journal = "journal_record list"

definition journal_append :: "journal_record \<Rightarrow> journal \<Rightarrow> nat \<times> journal" where
  "journal_append r j = (Suc (length j), j @ [r])"

definition journal_entries :: "journal \<Rightarrow> (nat \<times> journal_record) list" where
  "journal_entries j = zip [1..<Suc (length j)] j"

definition query_records ::
  "journal_type list \<Rightarrow> string option \<Rightarrow> bool \<Rightarrow> int option \<Rightarrow> journal \<Rightarrow> (nat \<times> journal_record) list res" where
  "query_records types eid newest limit j =
     (if opt_some (\<lambda>n. n \<le> 0) limit then Inl (ValueError ''journal query limit must be positive'')
      else let rows = filter (\<lambda>(n, r). (types = [] \<or> jr_type r \<in> set types)
             \<and> opt_all (\<lambda>e. jr_event_id r = Some e) eid) (journal_entries j);
           ordered = (if newest then rev rows else rows)
        in Inr (case limit of None \<Rightarrow> ordered | Some n \<Rightarrow> take (nat n) ordered))"

definition contains_semantic_id :: "string \<Rightarrow> journal \<Rightarrow> bool" where
  "contains_semantic_id i j \<longleftrightarrow> list_ex (\<lambda>r. jr_semantic_id r = i) j"

fun event_of :: "journal_record \<Rightarrow> runtime_event list" where
  "event_of r = (case jr_payload r of J_Event e \<Rightarrow> [e] | _ \<Rightarrow> [])"

fun outcome_of_record :: "journal_record \<Rightarrow> (string \<times> journal_outcome_status) list" where
  "outcome_of_record r = (case jr_payload r of
     J_Outcome v \<Rightarrow> (case jr_event_id r of None \<Rightarrow> [] | Some i \<Rightarrow> [(i, jo_status v)])
   | _ \<Rightarrow> [])"

definition outcomes_for :: "journal \<Rightarrow> string \<Rightarrow> journal_outcome_status list" where
  "outcomes_for j i = map snd (filter (\<lambda>(e, _). e = i) (concat (map outcome_of_record j)))"

definition replayed :: "journal \<Rightarrow> string \<Rightarrow> bool" where
  "replayed j i \<longleftrightarrow> outcomes_for j i = [] \<or> JO_APPLIED \<in> set (outcomes_for j i)"

definition journal_events :: "journal \<Rightarrow> runtime_event list" where
  "journal_events j = sort_key ordering_key (map snd (filter (\<lambda>(i, e). replayed j i)
     (dict_by ev_id (concat (map event_of j)))))"

fun snapshot_row :: "journal_record \<Rightarrow> (string \<times> feature_snapshot) list \<Rightarrow> (string \<times> feature_snapshot) list res" where
  "snapshot_row r d = (case jr_payload r of
     J_Snapshot s \<Rightarrow> (case jr_event_id r of
       None \<Rightarrow> Inl (ValueError ''feature snapshot journal record has no event linkage'')
     | Some i \<Rightarrow> if opt_some (\<lambda>x. fs_id x \<noteq> fs_id s) (map_of d i)
         then Inl (ValueError ''event has conflicting journaled feature snapshots'')
         else Inr (AList.update i s d))
   | _ \<Rightarrow> Inr d)"

fun snapshot_rows :: "journal \<Rightarrow> (string \<times> feature_snapshot) list \<Rightarrow> (string \<times> feature_snapshot) list res" where
  "snapshot_rows [] d = Inr d"
| "snapshot_rows (r # j) d = res_bind (snapshot_row r d) (snapshot_rows j)"

definition feature_snapshots :: "journal \<Rightarrow> (string \<times> feature_snapshot) list res" where
  "feature_snapshots j = snapshot_rows j []"

end
