(* ===== verification/Replay.thy ===== *)
theory Replay
  imports Journal
begin

section \<open>The event-stream runner (\<open>runtime/replay.py\<close>)\<close>

text \<open>
  \<open>RuntimeStreamRunner\<close> feeds one event source and one clock through the kernel and the scenario transition,
  records a semantic trace step per event and journals every object on the way. \<open>run_event_stream\<close> replays
  a source; a journal is such a source (\<open>JournalEventSource\<close>).
\<close>

subsection \<open>Trace steps\<close>

record trace_step =
  ss_id :: string
  ss_event_id :: string
  ss_available_at :: dt
  ss_runtime_state_id :: string
  ss_tool_result_ids :: "string list"
  ss_agent_input_ids :: "string list"
  ss_agent_evidence_ids :: "string list"
  ss_agent_memory_ids :: "string list"
  ss_bundle_id :: string
  ss_thesis_state_id :: "string option"
  ss_scenario_state_ids :: "string list"
  ss_entry_eligibility :: "entry_eligibility option"
  ss_bundle :: evidence_bundle

definition mk_trace_step :: "(trace_step \<Rightarrow> string) \<Rightarrow> trace_step \<Rightarrow> trace_step res" where
  "mk_trace_step h s = res_bind (validate
     [nonempty ''event_id'' (ss_event_id s), nonempty ''runtime_state_id'' (ss_runtime_state_id s),
      nonempty ''bundle_id'' (ss_bundle_id s),
      rule_ok ''trace bundle ID does not match bundle'' (eb_id (ss_bundle s) = ss_bundle_id s),
      rule_ok ''trace runtime state ID does not match bundle''
        (eb_runtime_state_id (ss_bundle s) = ss_runtime_state_id s)] s)
     (bind_identity ''step-'' h (\<lambda>r. r\<lparr>ss_id := []\<rparr>) ss_id (\<lambda>i r. r\<lparr>ss_id := i\<rparr>)
        ''step_id does not match trace content'')"

definition bundle_tool_results :: "evidence_bundle \<Rightarrow> tool_result list" where
  "bundle_tool_results b = sorted_values (dict_by tr_id (concat (map ai_tool_results (eb_agent_inputs b))))"

definition step_of :: "runtime_event \<Rightarrow> shared_state \<Rightarrow> evidence_bundle \<Rightarrow> thesis_state option \<Rightarrow> trace_step" where
  "step_of e s b th = \<lparr>ss_id = [], ss_event_id = ev_id e, ss_available_at = ev_available_at e,
     ss_runtime_state_id = st_id s, ss_tool_result_ids = map tr_id (bundle_tool_results b),
     ss_agent_input_ids = map ai_id (eb_agent_inputs b), ss_agent_evidence_ids = map ae_id (eb_evidence b),
     ss_agent_memory_ids = map am_id (eb_memories b), ss_bundle_id = eb_id b,
     ss_thesis_state_id = map_option th_state_id th,
     ss_scenario_state_ids = (case th of None \<Rightarrow> [] | Some t \<Rightarrow> map scn_state_id (th_scenarios t)),
     ss_entry_eligibility = map_option th_entry_eligibility th, ss_bundle = b\<rparr>"

subsection \<open>The runner\<close>

text \<open>
  A clock is the explicitly advanced replay clock, or one that is read (\<open>now\<close>). The setup holds what the
  constructor fixes: the kernel's parts, the reading of a host clock, the scenario transition, the retained
  record types, the digests and \<open>str(error) or type(error).__name__\<close>.
\<close>

datatype 'c runtime_clock = Replay_Clock replay_clock | Host_Clock 'c

type_synonym scenario_transition =
  "runtime_event \<Rightarrow> evidence_bundle \<Rightarrow> thesis_state option \<Rightarrow> thesis_state option res"

record 'c runner_setup =
  rs_digests :: kernel_digests
  rs_kernel :: kernel_setup
  rs_now :: "'c \<Rightarrow> dt \<times> 'c"
  rs_transition :: "scenario_transition option"
  rs_retained :: "journal_type list option"
  rs_step :: "trace_step \<Rightarrow> string"
  rs_record :: "journal_record \<Rightarrow> string"
  rs_outcome :: "journal_outcome \<Rightarrow> string"
  rs_text :: "py_error \<Rightarrow> string"

record 'c runner =
  rr_kernel :: kernel
  rr_clock :: "'c runtime_clock"
  rr_journal :: "journal option"
  rr_thesis :: "thesis_state option"
  rr_steps :: "trace_step list"
  rr_last :: "(string \<times> string option \<times> trace_step) option"

definition fresh_runner :: "kernel \<Rightarrow> 'c runtime_clock \<Rightarrow> journal option \<Rightarrow> 'c runner" where
  "fresh_runner k c j = \<lparr>rr_kernel = k, rr_clock = c, rr_journal = j, rr_thesis = None, rr_steps = [],
     rr_last = None\<rparr>"

definition restore_thesis :: "thesis_state \<Rightarrow> ('c runner, unit) eff" where
  "restore_thesis t r =
     (if rr_steps r \<noteq> [] \<or> rr_last r \<noteq> None
      then (Inl (RuntimeError ''thesis restoration is only valid before event processing''), r)
      else (Inr (), r\<lparr>rr_thesis := Some t\<rparr>))"

definition on_kernel :: "(kernel, 'a) eff \<Rightarrow> ('c runner, 'a) eff" where
  "on_kernel m r = (case m (rr_kernel r) of (x, k) \<Rightarrow> (x, r\<lparr>rr_kernel := k\<rparr>))"

definition restore_runtime :: "shared_state \<Rightarrow> agent_memory list \<Rightarrow> ('c runner, unit) eff" where
  "restore_runtime s ms r =
     (if rr_steps r \<noteq> [] \<or> rr_last r \<noteq> None
      then (Inl (RuntimeError ''runtime restoration is only valid before event processing''), r)
      else on_kernel (kernel_restore s ms) r)"

definition advance_clock :: "'c runner_setup \<Rightarrow> runtime_event \<Rightarrow> ('c runner, unit) eff" where
  "advance_clock S e r = (case rr_clock r of
     Replay_Clock c \<Rightarrow> (case advance_to c (utc (ev_available_at e)) of
       Inl err \<Rightarrow> (Inl err, r) | Inr c' \<Rightarrow> (Inr (), r\<lparr>rr_clock := Replay_Clock c'\<rparr>))
   | Host_Clock c \<Rightarrow> (case rs_now S c of (t, c') \<Rightarrow>
       (if t < ev_available_at e then Inl (ValueError ''event is not yet available on the injected clock'')
        else Inr (), r\<lparr>rr_clock := Host_Clock c'\<rparr>)))"

subsection \<open>Journalling\<close>

definition retains :: "'c runner_setup \<Rightarrow> journal_type \<Rightarrow> bool" where
  "retains S t \<longleftrightarrow> opt_all (\<lambda>ts. t \<in> set ts) (rs_retained S)"

definition append_record :: "'c runner_setup \<Rightarrow> links \<Rightarrow> semantic \<Rightarrow> ('c runner, unit) eff" where
  "append_record S l v = eff_bind (eff_of (from_semantic (rs_record S) l v)) (\<lambda>rec r.
     (Inr (), case rr_journal r of
        Some j \<Rightarrow> if retains S (jr_type rec) then r\<lparr>rr_journal := Some (snd (journal_append rec j))\<rparr> else r
      | None \<Rightarrow> r))"

definition when_journaled :: "('c runner, unit) eff \<Rightarrow> ('c runner, unit) eff" where
  "when_journaled m r = (if rr_journal r = None then (Inr (), r) else m r)"

fun append_all :: "'c runner_setup \<Rightarrow> (links \<times> semantic) list \<Rightarrow> ('c runner, unit) eff" where
  "append_all S [] = eff_return ()"
| "append_all S ((l, v) # rows) = eff_bind (append_record S l v) (\<lambda>_. append_all S rows)"

definition links_to :: "runtime_event \<Rightarrow> string option \<Rightarrow> string option \<Rightarrow> links" where
  "links_to e parent previous = \<lparr>lk_event = Some (ev_id e), lk_parent = parent, lk_previous = previous,
     lk_available_at = None\<rparr>"

definition append_outcome ::
  "'c runner_setup \<Rightarrow> runtime_event \<Rightarrow> journal_outcome_status \<Rightarrow> string \<Rightarrow> string \<Rightarrow> ('c runner, unit) eff" where
  "append_outcome S e st code msg r =
     (if rr_journal r = None \<or> \<not> retains S OUTCOME then (Inr (), r)
      else eff_bind (eff_of (mk_journal_outcome (rs_outcome S)
             \<lparr>jo_id = [], jo_status = st, jo_reason_code = code, jo_message = msg\<rparr>)) (\<lambda>out.
           append_record S ((links_to e (Some (ev_id e)) None)\<lparr>lk_available_at := Some (ev_available_at e)\<rparr>)
             (J_Outcome out)) r)"

text \<open>\<open>_reason_code\<close>: the first phrase found in the lower-cased message decides.\<close>

fun contains :: "string \<Rightarrow> string \<Rightarrow> bool" where
  "contains pat [] \<longleftrightarrow> pat = []"
| "contains pat (c # cs) \<longleftrightarrow> take (length pat) (c # cs) = pat \<or> contains pat cs"

definition reason_code :: "string \<Rightarrow> string" where
  "reason_code text = (let m = map lower_char text in
     if contains ''different feature snapshot'' m then ''FEATURE_SNAPSHOT_MISMATCH''
     else if contains ''source sequence collision'' m then ''SOURCE_SEQUENCE_COLLISION''
     else if contains ''event order'' m \<or> contains ''stale source sequence'' m then ''OUT_OF_ORDER_EVENT''
     else if contains ''provenance'' m \<or> contains ''fact value'' m then ''PROVENANCE_MISMATCH''
     else if contains ''thesis'' m \<or> contains ''hypothesis'' m then ''SCENARIO_LINKAGE_MISMATCH''
     else if contains ''clock'' m \<or> contains ''not yet available'' m then ''INVALID_REPLAY_ORDERING''
     else ''VALIDATION_ERROR'')"

text \<open>The records of one accepted event, in the order of \<open>_journal_semantics\<close>.\<close>

definition agent_rows ::
  "runtime_event \<Rightarrow> shared_state \<Rightarrow> (string \<times> agent_memory) list \<Rightarrow> agent_input \<times> agent_evidence \<times> agent_memory
     \<Rightarrow> (links \<times> semantic) list" where
  "agent_rows e s previous = (\<lambda>(i, v, m).
     [(links_to e (Some (st_id s)) None, J_Input i), (links_to e (Some (ai_id i)) None, J_Evidence v),
      (links_to e (Some (ae_id v)) (map_option am_id (map_of previous (am_agent_name m))), J_Memory m)])"

definition thesis_rows ::
  "runtime_event \<Rightarrow> evidence_bundle \<Rightarrow> thesis_state option \<Rightarrow> thesis_state option \<Rightarrow> (links \<times> semantic) list" where
  "thesis_rows e b previous th = (case th of
     None \<Rightarrow> []
   | Some t \<Rightarrow> (links_to e (Some (eb_id b)) (map_option th_state_id previous), J_Thesis t)
       # map (\<lambda>s. (links_to e (Some (th_state_id t)) (map_option scn_state_id
           (case previous of None \<Rightarrow> None | Some p \<Rightarrow>
              map_of (dict_by scn_scenario_id (th_scenarios p)) (scn_scenario_id s))), J_Scenario s)) (th_scenarios t))"

definition semantic_rows ::
  "runtime_event \<Rightarrow> feature_snapshot option \<Rightarrow> evidence_bundle \<Rightarrow> shared_state \<Rightarrow> thesis_state option \<Rightarrow> string
     \<Rightarrow> (string \<times> agent_memory) list \<Rightarrow> thesis_state option \<Rightarrow> (links \<times> semantic) list" where
  "semantic_rows e f b s th previous_state previous_memories previous_thesis =
     [(links_to e (Some (ev_id e)) (Some previous_state), J_State s)]
     @ map (\<lambda>r. (links_to e (Some (case f of None \<Rightarrow> st_id s | Some x \<Rightarrow> fs_id x)) None, J_Tool r))
         (bundle_tool_results b)
     @ concat (map (agent_rows e s previous_memories) (zip (eb_agent_inputs b) (zip (eb_evidence b) (eb_memories b))))
     @ [(links_to e (Some (ev_id e)) None, J_Bundle b)]
     @ thesis_rows e b previous_thesis th"

subsection \<open>Processing an event\<close>

definition intake_rows :: "runtime_event \<Rightarrow> feature_snapshot option \<Rightarrow> (links \<times> semantic) list" where
  "intake_rows e f = (links_to e None None, J_Event e)
     # (case f of None \<Rightarrow> [] | Some x \<Rightarrow> [(links_to e (Some (ev_id e)) None, J_Snapshot x)])"

definition next_thesis ::
  "'c runner_setup \<Rightarrow> runtime_event \<Rightarrow> evidence_bundle \<Rightarrow> thesis_state option \<Rightarrow> thesis_state option res" where
  "next_thesis S e b th = (case rs_transition S of None \<Rightarrow> Inr th | Some f \<Rightarrow> f e b th)"

definition previous_memories :: "trace_step list \<Rightarrow> (string \<times> agent_memory) list" where
  "previous_memories steps =
     (if steps = [] then [] else dict_by am_agent_name (eb_memories (ss_bundle (List.last steps))))"

definition runner_commit ::
  "'c runner_setup \<Rightarrow> runtime_event \<Rightarrow> feature_snapshot option \<Rightarrow> ('c runner, trace_step) eff" where
  "runner_commit S e f r =
     (let state = st_id (kn_state (rr_kernel r)); thesis = rr_thesis r; memories = previous_memories (rr_steps r) in
     eff_bind (when_journaled (append_all S (intake_rows e f))) (\<lambda>_.
     eff_bind (on_kernel (kernel_process (rs_digests S) (rs_kernel S) e f)) (\<lambda>b.
     eff_bind (eff_of (next_thesis S e b thesis)) (\<lambda>th q.
       eff_bind (eff_of (mk_trace_step (rs_step S) (step_of e (kn_state (rr_kernel q)) b th))) (\<lambda>st.
       eff_bind (when_journaled (eff_bind
           (append_all S (semantic_rows e f b (kn_state (rr_kernel q)) th state memories thesis)) (\<lambda>_.
           append_outcome S e JO_APPLIED ''APPLIED'' ''event produced one deterministic semantic trace step''))) (\<lambda>_ w.
       (Inr st, w\<lparr>rr_thesis := th, rr_steps := rr_steps w @ [st],
          rr_last := Some (ev_id e, map_option fs_id f, st)\<rparr>))) q))) r)"

definition runner_duplicate ::
  "'c runner_setup \<Rightarrow> runtime_event \<Rightarrow> feature_snapshot option \<Rightarrow> string option \<Rightarrow> trace_step
     \<Rightarrow> ('c runner, trace_step) eff" where
  "runner_duplicate S e f sid st =
     (if sid \<noteq> map_option fs_id f
      then eff_of (Inl (ValueError ''duplicate event has a different feature snapshot''))
      else eff_bind (on_kernel (kernel_process (rs_digests S) (rs_kernel S) e f)) (\<lambda>b.
        if eb_id b \<noteq> ss_bundle_id st
        then eff_of (Inl (ValueError ''duplicate event changed semantic bundle identity''))
        else eff_bind (append_outcome S e JO_DUPLICATE ''DUPLICATE_EVENT''
          ''exact event and feature snapshot were already processed'') (\<lambda>_. eff_return st)))"

definition runner_body ::
  "'c runner_setup \<Rightarrow> runtime_event \<Rightarrow> feature_snapshot option \<Rightarrow> ('c runner, trace_step) eff" where
  "runner_body S e f = eff_bind (advance_clock S e) (\<lambda>_ r. case rr_last r of
     Some (i, sid, st) \<Rightarrow> if i = ev_id e then runner_duplicate S e f sid st r else runner_commit S e f r
   | None \<Rightarrow> runner_commit S e f r)"

definition rejected :: "'c runner_setup \<Rightarrow> runtime_event \<Rightarrow> py_error \<Rightarrow> ('c runner, 'a) eff" where
  "rejected S e err = eff_bind (append_outcome S e JO_REJECTED (reason_code (rs_text S err)) (rs_text S err))
     (\<lambda>_. eff_of (Inl err))"

definition runner_process ::
  "'c runner_setup \<Rightarrow> runtime_event \<Rightarrow> feature_snapshot option \<Rightarrow> ('c runner, trace_step) eff" where
  "runner_process S e f = eff_catch (runner_body S e f) (\<lambda>err. Some (rejected S e err))"

definition reduce_only :: "'c runner_setup \<Rightarrow> runtime_event \<Rightarrow> ('c runner, shared_state) eff" where
  "reduce_only S e = eff_bind (advance_clock S e) (\<lambda>_. on_kernel (kernel_reduce_event (rs_digests S) e))"

definition runner_broker_refresh :: "'c runner_setup \<Rightarrow> runtime_event \<Rightarrow> ('c runner, shared_state) eff" where
  "runner_broker_refresh S e =
     eff_bind (advance_clock S e) (\<lambda>_.
     eff_bind (append_record S (links_to e None None) (J_Event e)) (\<lambda>_ r.
       eff_bind (eff_catch (on_kernel (kernel_reduce_broker_refresh (rs_digests S) e))
         (\<lambda>err. Some (rejected S e err))) (\<lambda>s.
       eff_bind (append_record S (links_to e (Some (ev_id e)) (Some (st_id (kn_state (rr_kernel r))))) (J_State s)) (\<lambda>_.
       eff_bind (append_outcome S e JO_APPLIED ''BROKER_REFRESH_APPLIED''
         ''broker snapshot fact advanced state without semantic evaluation'') (\<lambda>_. eff_return s))) r))"

subsection \<open>Streams\<close>

fun stream ::
  "'c runner_setup \<Rightarrow> (string \<times> feature_snapshot) list \<Rightarrow> runtime_event list \<Rightarrow> ('c runner, unit) eff" where
  "stream S m [] = eff_return ()"
| "stream S m (e # es) = eff_bind (runner_process S e (map_of m (ev_id e))) (\<lambda>_. stream S m es)"

definition run_event_stream ::
  "'c runner_setup \<Rightarrow> (string \<times> feature_snapshot) list \<Rightarrow> runtime_event list \<Rightarrow> kernel \<Rightarrow> 'c runtime_clock
     \<Rightarrow> journal option \<Rightarrow> trace_step list res \<times> 'c runner" where
  "run_event_stream S m es k c j = (case stream S m es (fresh_runner k c j) of
     (Inl err, r) \<Rightarrow> (Inl err, r) | (Inr _, r) \<Rightarrow> (Inr (rr_steps r), r))"

subsection \<open>What processing writes to the journal\<close>

text \<open>The effect of appending rows to a complete journal: some of the rows, in order, and nothing else.\<close>

definition gist :: "journal_record \<Rightarrow> string option \<times> semantic" where
  "gist n = (jr_event_id n, jr_payload n)"

definition row_gist :: "links \<times> semantic \<Rightarrow> string option \<times> semantic" where
  "row_gist p = (lk_event (fst p), snd p)"

lemma from_semantic_gist: "from_semantic h l v = Inr rec \<Longrightarrow> gist rec = (lk_event l, v)"
  by (auto simp: from_semantic_def mk_journal_record_def res_simps bind_identity_def gist_def Let_def
      split: option.splits if_splits)

lemma append_record_cases:
  assumes "rs_retained S = None" "rr_journal r = Some j"
  obtains (failed) err where "append_record S l v r = (Inl err, r)"
  | (appended) rec where "gist rec = (lk_event l, v)"
      "append_record S l v r = (Inr (), r\<lparr>rr_journal := Some (j @ [rec])\<rparr>)"
proof (cases "from_semantic (rs_record S) l v")
  case (Inl err)
  then show thesis using failed by (simp add: append_record_def eff_simps)
next
  case (Inr rec)
  then show thesis using appended[of rec] assms
    by (simp add: append_record_def eff_simps from_semantic_gist retains_def journal_append_def)
qed

lemma append_all_cases:
  assumes "rs_retained S = None" "rr_journal r = Some j"
  shows "\<exists>N. set (map gist N) \<subseteq> set (map row_gist rows) \<and>
    snd (append_all S rows r) = r\<lparr>rr_journal := Some (j @ N)\<rparr> \<and>
    (is_ok (fst (append_all S rows r)) \<longrightarrow> set (map gist N) = set (map row_gist rows))"
  using assms(2)
proof (induction rows arbitrary: r j)
  case Nil
  then show ?case by (intro exI[of _ "[]"]) (simp add: eff_simps)
next
  case (Cons row rows)
  obtain l v where row: "row = (l, v)" by (rule prod.exhaust)
  show ?case
    using assms(1) Cons.prems
  proof (cases rule: append_record_cases[where l = l and v = v])
    case (failed err)
    then show ?thesis using Cons.prems by (intro exI[of _ "[]"]) (simp add: row eff_simps)
  next
    case (appended rec)
    obtain N where N: "set (map gist N) \<subseteq> set (map row_gist rows)"
      "snd (append_all S rows (r\<lparr>rr_journal := Some (j @ [rec])\<rparr>)) = r\<lparr>rr_journal := Some ((j @ [rec]) @ N)\<rparr>"
      "is_ok (fst (append_all S rows (r\<lparr>rr_journal := Some (j @ [rec])\<rparr>)))
         \<longrightarrow> set (map gist N) = set (map row_gist rows)"
      using Cons.IH[of "r\<lparr>rr_journal := Some (j @ [rec])\<rparr>" "j @ [rec]"] by auto
    then show ?thesis using appended
      by (intro exI[of _ "rec # N"]) (auto simp: row eff_simps row_gist_def)
  qed
qed

text \<open>The outcome row of an event.\<close>

lemma append_outcome_cases:
  assumes "rs_retained S = None" "rr_journal r = Some j"
  obtains (failed) err where "append_outcome S e st code msg r = (Inl err, r)"
  | (appended) rec out where "gist rec = (Some (ev_id e), J_Outcome out)" "jo_status out = st"
      "append_outcome S e st code msg r = (Inr (), r\<lparr>rr_journal := Some (j @ [rec])\<rparr>)"
proof (cases "mk_journal_outcome (rs_outcome S)
    \<lparr>jo_id = [], jo_status = st, jo_reason_code = code, jo_message = msg\<rparr>")
  case (Inl err)
  then show thesis using failed[of err] assms
    by (simp add: append_outcome_def eff_simps retains_def)
next
  case (Inr out)
  then have st: "jo_status out = st"
    by (auto simp: mk_journal_outcome_def res_simps bind_identity_def Let_def split: if_splits)
  show thesis
    using append_record_cases[OF assms, of "(links_to e (Some (ev_id e)) None)\<lparr>lk_available_at := Some (ev_available_at e)\<rparr>"
        "J_Outcome out"] failed appended[OF _ st] Inr assms
    by (auto simp: append_outcome_def eff_simps retains_def links_to_def)
qed

text \<open>A message within the contract's length is always recorded.\<close>

lemma append_outcome_total:
  assumes "rs_retained S = None" "rr_journal r = Some j" "code \<noteq> []" "1 \<le> length msg" "length msg \<le> 500"
    and "rs_outcome S = h"
  shows "is_ok (fst (append_outcome S e st code msg r))"
proof -
  let ?o = "\<lparr>jo_id = [], jo_status = st, jo_reason_code = code, jo_message = msg\<rparr>"
  have o: "mk_journal_outcome h ?o = Inr (?o\<lparr>jo_id := content_id ''jo-'' h ?o\<rparr>)"
    using assms by (simp add: mk_journal_outcome_def validate_ok nonempty_def bind_identity_def)
  have i: "semantic_id (J_Outcome (?o\<lparr>jo_id := content_id ''jo-'' h ?o\<rparr>)) = Inr (content_id ''jo-'' h ?o)"
    by (simp add: semantic_id_def id_priority_def id_attribute_def content_id_def)
  show ?thesis using assms o i
    by (simp add: append_outcome_def eff_simps retains_def append_record_def from_semantic_def causal_time_def
        links_to_def mk_journal_record_def validate_ok nonempty_def bind_identity_def content_id_def)
qed

lemma reason_code_nonempty: "reason_code m \<noteq> []"
  by (simp add: reason_code_def Let_def)

text \<open>The rows that carry neither an event, nor an outcome, nor a snapshot.\<close>

fun plain :: "semantic \<Rightarrow> bool" where
  "plain (J_Event _) \<longleftrightarrow> False"
| "plain (J_Outcome _) \<longleftrightarrow> False"
| "plain (J_Snapshot _) \<longleftrightarrow> False"
| "plain _ \<longleftrightarrow> True"

definition rows_of :: "runtime_event \<Rightarrow> feature_snapshot option \<Rightarrow> journal_record list \<Rightarrow> bool" where
  "rows_of e f N \<longleftrightarrow> (\<forall>n \<in> set N. plain (jr_payload n) \<or> gist n \<in> set (map row_gist (intake_rows e f)))"

lemma semantic_rows_plain: "p \<in> set (semantic_rows e f b s th ps pm pt) \<Longrightarrow> plain (snd p)"
  by (auto simp: semantic_rows_def agent_rows_def thesis_rows_def split: option.splits)

lemma rows_of_intake: "set (map gist N) \<subseteq> set (map row_gist (intake_rows e f)) \<Longrightarrow> rows_of e f N"
  by (auto simp: rows_of_def)

lemma rows_of_semantic:
  assumes "set (map gist N) \<subseteq> set (map row_gist (semantic_rows e f b s th ps pm pt))"
  shows "rows_of e f N"
proof -
  have "plain (jr_payload n)" if "n \<in> set N" for n
  proof -
    from assms that obtain p where "p \<in> set (semantic_rows e f b s th ps pm pt)" "gist n = row_gist p" by auto
    then show ?thesis using semantic_rows_plain by (auto simp: gist_def row_gist_def)
  qed
  then show ?thesis by (simp add: rows_of_def)
qed

lemma rows_of_append [simp]: "rows_of e f (N @ N') \<longleftrightarrow> rows_of e f N \<and> rows_of e f N'"
  by (auto simp: rows_of_def)

lemma rows_of_Nil [simp]: "rows_of e f []"
  by (simp add: rows_of_def)

text \<open>Journalling after a run: what is appended, and whether all of it was.\<close>

lemma journaled_append:
  assumes "rs_retained S = None" "rr_journal r = Some j"
  obtains x N where "when_journaled (append_all S rows) r = (x, r\<lparr>rr_journal := Some (j @ N)\<rparr>)"
    "set (map gist N) \<subseteq> set (map row_gist rows)" "is_ok x \<Longrightarrow> set (map gist N) = set (map row_gist rows)"
proof -
  obtain N where N: "set (map gist N) \<subseteq> set (map row_gist rows)"
    "snd (append_all S rows r) = r\<lparr>rr_journal := Some (j @ N)\<rparr>"
    "is_ok (fst (append_all S rows r)) \<longrightarrow> set (map gist N) = set (map row_gist rows)"
    using append_all_cases[OF assms] by blast
  then show thesis using that[of "fst (append_all S rows r)" N] assms(2)
    by (simp add: when_journaled_def prod_eq_iff)
qed

lemma runner_commit_cases:
  fixes S :: "'c runner_setup"
  assumes "rs_retained S = None" "rr_journal r = Some j"
  obtains (failed) err k N where "rows_of e f N"
      "runner_commit S e f r = (Inl err, r\<lparr>rr_kernel := k, rr_journal := Some (j @ N)\<rparr>)"
  | (ok) b th k st N rec out where "kernel_process (rs_digests S) (rs_kernel S) e f (rr_kernel r) = (Inr b, k)"
      "next_thesis S e b (rr_thesis r) = Inr th" "mk_trace_step (rs_step S) (step_of e (kn_state k) b th) = Inr st"
      "rows_of e f N" "set (map row_gist (intake_rows e f)) \<subseteq> set (map gist N)"
      "gist rec = (Some (ev_id e), J_Outcome out)" "jo_status out = JO_APPLIED"
      "runner_commit S e f r = (Inr st, r\<lparr>rr_kernel := k, rr_journal := Some (j @ N @ [rec]), rr_thesis := th,
         rr_steps := rr_steps r @ [st], rr_last := Some (ev_id e, map_option fs_id f, st)\<rparr>)"
proof -
  let ?P = "kernel_process (rs_digests S) (rs_kernel S) e f"
  obtain x N where N: "when_journaled (append_all S (intake_rows e f)) r = (x, r\<lparr>rr_journal := Some (j @ N)\<rparr>)"
    "set (map gist N) \<subseteq> set (map row_gist (intake_rows e f))"
    "is_ok x \<Longrightarrow> set (map gist N) = set (map row_gist (intake_rows e f))"
    using journaled_append[OF assms] by blast
  show thesis
  proof (cases x)
    case (Inl err)
    then show thesis using failed[of N err "rr_kernel r"] rows_of_intake[OF N(2)] N(1)
      by (simp add: runner_commit_def Let_def eff_simps)
  next
    case x: (Inr u)
    obtain y k where y: "?P (rr_kernel r) = (y, k)" by (rule prod.exhaust)
    let ?r1 = "r\<lparr>rr_journal := Some (j @ N), rr_kernel := k\<rparr>"
    show thesis
    proof (cases y)
      case (Inl err)
      then show thesis using failed[of N err k] rows_of_intake[OF N(2)] N(1) x y
        by (simp add: runner_commit_def Let_def eff_simps on_kernel_def)
    next
      case y': (Inr b)
      show thesis
      proof (cases "next_thesis S e b (rr_thesis r)")
        case (Inl err)
        then show thesis using failed[of N err k] rows_of_intake[OF N(2)] N(1) x y y'
          by (simp add: runner_commit_def Let_def eff_simps on_kernel_def)
      next
        case th: (Inr th)
        show thesis
        proof (cases "mk_trace_step (rs_step S) (step_of e (kn_state k) b th)")
          case (Inl err)
          then show thesis using failed[of N err k] rows_of_intake[OF N(2)] N(1) x y y' th
            by (simp add: runner_commit_def Let_def eff_simps on_kernel_def)
        next
          case st: (Inr st)
          let ?rows = "semantic_rows e f b (kn_state k) th (st_id (kn_state (rr_kernel r)))
            (previous_memories (rr_steps r)) (rr_thesis r)"
          obtain M where M: "set (map gist M) \<subseteq> set (map row_gist ?rows)"
            "snd (append_all S ?rows ?r1) = ?r1\<lparr>rr_journal := Some ((j @ N) @ M)\<rparr>"
            using append_all_cases[OF assms(1), of ?r1 "j @ N" ?rows] by auto
          have R: "rows_of e f (N @ M)" using rows_of_intake[OF N(2)] rows_of_semantic[OF M(1)] by simp
          show thesis
          proof (cases "fst (append_all S ?rows ?r1)")
            case (Inl err)
            with M(2) have "append_all S ?rows ?r1 = (Inl err, ?r1\<lparr>rr_journal := Some ((j @ N) @ M)\<rparr>)"
              by (simp add: prod_eq_iff)
            then show thesis using failed[OF R, of err k] N(1) x y y' th st
              by (simp add: runner_commit_def Let_def eff_simps on_kernel_def when_journaled_def)
          next
            case (Inr v)
            let ?r2 = "?r1\<lparr>rr_journal := Some ((j @ N) @ M)\<rparr>"
            have a: "append_all S ?rows ?r1 = (Inr v, ?r2)" using Inr M(2) by (simp add: prod_eq_iff)
            have "rr_journal ?r2 = Some ((j @ N) @ M)" by simp
            from assms(1) this show thesis
            proof (cases rule: append_outcome_cases[where e = e and st = JO_APPLIED and code = "''APPLIED''"
                  and msg = "''event produced one deterministic semantic trace step''"])
              case (failed err)
              then show thesis using that(1)[OF R, of err k] a N(1) x y y' th st
                by (simp add: runner_commit_def Let_def eff_simps on_kernel_def when_journaled_def)
            next
              case (appended rec out)
              have I: "set (map row_gist (intake_rows e f)) \<subseteq> set (map gist (N @ M))"
                using N(3) x by (auto simp: is_ok_iff)
              show thesis using that(2)[OF y[unfolded y'] th st R I appended(1,2)] a appended(3) N(1) x y y' th st
                by (simp add: runner_commit_def Let_def eff_simps on_kernel_def when_journaled_def)
            qed
          qed
        qed
      qed
    qed
  qed
qed

subsection \<open>The three ends of processing an event\<close>

text \<open>
  The texts of exceptions fit the outcome contract; the kernel's cache and the runner's agree on the last
  event.
\<close>

definition recordable :: "'c runner_setup \<Rightarrow> bool" where
  "recordable S \<longleftrightarrow> rs_retained S = None \<and> (\<forall>err. 1 \<le> length (rs_text S err) \<and> length (rs_text S err) \<le> 500)"

definition aligned :: "'c runner \<Rightarrow> bool" where
  "aligned r \<longleftrightarrow> kn_last (rr_kernel r) = map_option (\<lambda>(i, sid, st). (i, sid, ss_bundle st)) (rr_last r) \<and>
     opt_all (\<lambda>(i, sid, st). eb_id (ss_bundle st) = ss_bundle_id st) (rr_last r)"

definition outcome_row :: "runtime_event \<Rightarrow> journal_outcome_status \<Rightarrow> journal_record \<Rightarrow> bool" where
  "outcome_row e st rec \<longleftrightarrow> (\<exists>out. gist rec = (Some (ev_id e), J_Outcome out) \<and> jo_status out = st)"

lemma rejected_run:
  assumes "recordable S" "rr_journal r = Some j"
  obtains rec where "outcome_row e JO_REJECTED rec"
    "rejected S e err r = (Inl err, r\<lparr>rr_journal := Some (j @ [rec])\<rparr>)"
proof -
  have c: "rs_retained S = None" "1 \<le> length (rs_text S err)" "length (rs_text S err) \<le> 500"
    using assms(1) by (simp_all add: recordable_def)
  have t: "is_ok (fst (append_outcome S e JO_REJECTED (reason_code (rs_text S err)) (rs_text S err) r))"
    using append_outcome_total[OF c(1) assms(2) reason_code_nonempty c(2,3) refl] .
  show thesis using c(1) assms(2)
  proof (cases rule: append_outcome_cases[where e = e and st = JO_REJECTED and code = "reason_code (rs_text S err)"
        and msg = "rs_text S err"])
    case (failed err')
    with t show thesis by simp
  next
    case (appended rec out)
    then show thesis using that[of rec] by (auto simp: rejected_def eff_simps outcome_row_def)
  qed
qed

lemma advance_clock_cases:
  obtains c where "snd (advance_clock S e r) = r\<lparr>rr_clock := c\<rparr>"
proof (cases "rr_clock r")
  case (Replay_Clock c)
  then show thesis
    using that[of "Replay_Clock c"] that[of "Replay_Clock c'" for c']
    by (cases "advance_to c (utc (ev_available_at e))") (auto simp: advance_clock_def)
next
  case (Host_Clock c)
  then show thesis using that[of "Host_Clock (snd (rs_now S c))"]
    by (auto simp: advance_clock_def split: prod.splits)
qed

lemma runner_process_cases:
  fixes S :: "'c runner_setup"
  assumes "recordable S" "rr_journal r = Some j" "aligned r"
  obtains (rejected) err k c N rec where "rows_of e f N" "outcome_row e JO_REJECTED rec"
      "runner_process S e f r = (Inl err, r\<lparr>rr_kernel := k, rr_clock := c, rr_journal := Some (j @ N @ [rec])\<rparr>)"
  | (duplicate) sid st c rec where "rr_last r = Some (ev_id e, sid, st)" "outcome_row e JO_DUPLICATE rec"
      "runner_process S e f r = (Inr st, r\<lparr>rr_clock := c, rr_journal := Some (j @ [rec])\<rparr>)"
  | (accepted) b th k st c N rec where "opt_all (\<lambda>(i, _). i \<noteq> ev_id e) (rr_last r)"
      "kernel_process (rs_digests S) (rs_kernel S) e f (rr_kernel r) = (Inr b, k)"
      "next_thesis S e b (rr_thesis r) = Inr th" "mk_trace_step (rs_step S) (step_of e (kn_state k) b th) = Inr st"
      "rows_of e f N" "set (map row_gist (intake_rows e f)) \<subseteq> set (map gist N)" "outcome_row e JO_APPLIED rec"
      "runner_process S e f r = (Inr st, r\<lparr>rr_kernel := k, rr_clock := c, rr_journal := Some (j @ N @ [rec]),
         rr_thesis := th, rr_steps := rr_steps r @ [st], rr_last := Some (ev_id e, map_option fs_id f, st)\<rparr>)"
proof -
  have ret: "rs_retained S = None" using assms(1) by (simp add: recordable_def)
  obtain c where c: "snd (advance_clock S e r) = r\<lparr>rr_clock := c\<rparr>" by (rule advance_clock_cases)
  let ?r1 = "r\<lparr>rr_clock := c\<rparr>"
  have catch: thesis
    if body: "runner_body S e f r = (Inl err, r\<lparr>rr_kernel := k, rr_clock := c, rr_journal := Some (j @ N)\<rparr>)"
      and N: "rows_of e f N" for err k N
  proof -
    let ?q = "r\<lparr>rr_kernel := k, rr_clock := c, rr_journal := Some (j @ N)\<rparr>"
    have "rr_journal ?q = Some (j @ N)" by simp
    then obtain rec where rec: "outcome_row e JO_REJECTED rec"
      "(rejected S e err :: ('c runner, trace_step) eff) ?q = (Inl err, ?q\<lparr>rr_journal := Some ((j @ N) @ [rec])\<rparr>)"
      using rejected_run[OF assms(1), where r = ?q and e = e and err = err] by blast
    then have "runner_process S e f r = (Inl err, r\<lparr>rr_kernel := k, rr_clock := c, rr_journal := Some (j @ N @ [rec])\<rparr>)"
      using body by (simp add: runner_process_def eff_catch_def)
    then show thesis by (rule rejected[OF N rec(1)])
  qed
  have body_failed: "runner_body S e f r = (Inl err, ?r1)" if "fst (advance_clock S e r) = Inl err" for err
    using that c by (simp add: runner_body_def eff_bind_def split_beta)
  show thesis
  proof (cases "fst (advance_clock S e r)")
    case (Inl err)
    then show thesis using catch[where err = err and k = "rr_kernel r" and N = "[]"] body_failed assms(2) by simp
  next
    case (Inr u)
    then have adv: "advance_clock S e r = (Inr u, ?r1)" using c by (simp add: prod_eq_iff)
    show thesis
    proof (cases "opt_all (\<lambda>(i, _). i \<noteq> ev_id e) (rr_last r)")
      case False
      then obtain sid st where l: "rr_last r = Some (ev_id e, sid, st)"
        by (cases "rr_last r") auto
      have k: "kernel_process (rs_digests S) (rs_kernel S) e f (rr_kernel r) = (Inr (ss_bundle st), rr_kernel r)"
        if "sid = map_option fs_id f"
        using assms(3) l that by (simp add: aligned_def kernel_process_def)
      show thesis
      proof (cases "sid = map_option fs_id f")
        case n: False
        then have "runner_body S e f r = (Inl (ValueError ''duplicate event has a different feature snapshot''), ?r1)"
          using l adv by (simp add: runner_body_def eff_simps runner_duplicate_def)
        then show thesis using catch[where k = "rr_kernel r" and N = "[]"] assms(2) by simp
      next
        case True
        have b: "eb_id (ss_bundle st) = ss_bundle_id st" using assms(3) l by (simp add: aligned_def)
        have j1: "rr_journal ?r1 = Some j" using assms(2) by simp
        have t: "is_ok (fst (append_outcome S e JO_DUPLICATE ''DUPLICATE_EVENT''
            ''exact event and feature snapshot were already processed'' ?r1))"
          by (rule append_outcome_total[OF ret j1 _ _ _ refl]) simp_all
        from ret j1 show thesis
        proof (cases rule: append_outcome_cases[where e = e and st = JO_DUPLICATE and code = "''DUPLICATE_EVENT''"
              and msg = "''exact event and feature snapshot were already processed''"])
          case (failed err)
          with t show thesis by simp
        next
          case (appended rec out)
          have "runner_body S e f r = (Inr st, ?r1\<lparr>rr_journal := Some (j @ [rec])\<rparr>)"
            using l adv True k b appended(3)
            by (simp add: runner_body_def eff_simps runner_duplicate_def on_kernel_def)
          then show thesis using duplicate[OF l, of rec c] appended(1,2)
            by (auto simp: runner_process_def eff_catch_def outcome_row_def)
        qed
      qed
    next
      case fresh: True
      then have body: "runner_body S e f r = runner_commit S e f ?r1"
        using adv by (auto simp: runner_body_def eff_simps split: option.splits)
      have j1: "rr_journal ?r1 = Some j" using assms(2) by simp
      from ret j1 show thesis
      proof (cases rule: runner_commit_cases[where e = e and f = f])
        case (failed err k N)
        then show thesis using catch[where err = err and k = k and N = N] body by simp
      next
        case (ok b th k st N rec out)
        have "outcome_row e JO_APPLIED rec" using ok(6,7) by (auto simp: outcome_row_def)
        from accepted[OF fresh _ _ ok(3,4,5) this, of c] show thesis
          using ok body by (simp add: runner_process_def eff_catch_def)
      qed
    qed
  qed
qed

subsection \<open>Reading a journal back\<close>

text \<open>
  What the journal of a session says, when the events \<open>acc\<close> were accepted among the offered ones \<open>Off\<close>: every
  event row is of an offered event and every accepted event has one, an event has an APPLIED outcome exactly when it was
  accepted, every event with a row has an outcome, and the snapshots read back are those offered with the
  accepted events.
\<close>

definition journaled_events :: "journal \<Rightarrow> runtime_event list" where
  "journaled_events j = concat (map event_of j)"

definition agrees :: "(string \<times> feature_snapshot) list \<Rightarrow> (string \<times> feature_snapshot) list \<Rightarrow> bool" where
  "agrees m d \<longleftrightarrow> (\<forall>i x. map_of d i = Some x \<longrightarrow> map_of m i = Some x)"

definition journal_inv ::
  "(string \<times> feature_snapshot) list \<Rightarrow> runtime_event set \<Rightarrow> runtime_event list \<Rightarrow> journal \<Rightarrow> bool" where
  "journal_inv m Off acc j \<longleftrightarrow>
     set (journaled_events j) \<subseteq> Off \<and> set acc \<subseteq> set (journaled_events j) \<and>
     (\<forall>i. JO_APPLIED \<in> set (outcomes_for j i) \<longleftrightarrow> i \<in> ev_id ` set acc) \<and>
     (\<forall>e \<in> set (journaled_events j). outcomes_for j (ev_id e) \<noteq> []) \<and>
     (\<exists>d. snapshot_rows j [] = Inr d \<and> agrees m d \<and> (\<forall>e \<in> set acc. map_of d (ev_id e) = map_of m (ev_id e)))"

declare event_of.simps [simp del] outcome_of_record.simps [simp del] snapshot_row.simps [simp del]

lemma journaled_append_eq [simp]: "journaled_events (j @ N) = journaled_events j @ journaled_events N"
  by (simp add: journaled_events_def)

lemma outcomes_append [simp]: "outcomes_for (j @ N) i = outcomes_for j i @ outcomes_for N i"
  by (simp add: outcomes_for_def)

lemma snapshot_rows_append: "snapshot_rows (j @ N) d = res_bind (snapshot_rows j d) (snapshot_rows N)"
  by (induction j arbitrary: d) (auto simp: res_bind_assoc intro: res_bind_cong)

lemma intake_gist: "set (map row_gist (intake_rows e f)) =
    insert (Some (ev_id e), J_Event e) ((\<lambda>x. (Some (ev_id e), J_Snapshot x)) ` set_option f)"
  by (cases f) (simp_all add: intake_rows_def row_gist_def links_to_def)

lemma rows_of_event: "rows_of e f N \<Longrightarrow> set (journaled_events N) \<subseteq> {e}"
proof
  fix x assume "rows_of e f N" "x \<in> set (journaled_events N)"
  then obtain n where n: "n \<in> set N" "x \<in> set (event_of n)" by (auto simp: journaled_events_def)
  then have "jr_payload n = J_Event x" by (auto simp: event_of.simps split: semantic.splits)
  moreover have "plain (jr_payload n) \<or> gist n \<in> set (map row_gist (intake_rows e f))"
    using \<open>rows_of e f N\<close> n(1) by (simp add: rows_of_def)
  ultimately show "x \<in> {e}" unfolding intake_gist by (auto simp: gist_def)
qed

lemma rows_of_outcomes: "rows_of e f N \<Longrightarrow> outcomes_for N i = []"
  unfolding rows_of_def intake_gist outcomes_for_def
  by (induction N) (fastforce simp: gist_def outcome_of_record.simps split: semantic.splits)+

lemma event_row_in: "(i, J_Event e) \<in> set (map gist N) \<Longrightarrow> e \<in> set (journaled_events N)"
  by (force simp: gist_def journaled_events_def event_of.simps)

lemma outcome_row_facts:
  assumes "outcome_row e st rec"
  shows "journaled_events [rec] = []" "outcomes_for [rec] i = (if i = ev_id e then [st] else [])"
    "snapshot_rows [rec] d = Inr d"
  using assms by (auto simp: outcome_row_def gist_def journaled_events_def outcomes_for_def event_of.simps
      outcome_of_record.simps snapshot_row.simps)

lemma snapshot_rows_agree:
  assumes "rows_of e (map_of m (ev_id e)) N" "agrees m d"
  shows "\<exists>d'. snapshot_rows N d = Inr d' \<and> agrees m d' \<and>
    (\<forall>i. map_of d i = map_of m i \<longrightarrow> map_of d' i = map_of m i) \<and>
    (\<forall>x. (Some (ev_id e), J_Snapshot x) \<in> set (map gist N) \<longrightarrow> map_of d' (ev_id e) = map_of m (ev_id e))"
  using assms
proof (induction N arbitrary: d)
  case (Cons n N)
  have N: "rows_of e (map_of m (ev_id e)) N" using Cons.prems(1) by (simp add: rows_of_def)
  show ?case
  proof (cases "\<exists>x. jr_payload n = J_Snapshot x")
    case False
    then have "snapshot_row n d = Inr d" "\<And>x. gist n \<noteq> (Some (ev_id e), J_Snapshot x)"
      by (auto simp: gist_def snapshot_row.simps split: semantic.splits)
    moreover from this(2) have "(Some (ev_id e), J_Snapshot x) \<noteq> gist n" for x by metis
    ultimately show ?thesis using Cons.IH[OF N Cons.prems(2)] by auto
  next
    case True
    then obtain x where x: "jr_payload n = J_Snapshot x" ..
    have g: "gist n = (Some (ev_id e), J_Snapshot x)" "map_of m (ev_id e) = Some x"
      using Cons.prems(1) x unfolding rows_of_def intake_gist by (auto simp: gist_def)
    let ?d = "AList.update (ev_id e) x d"
    have row: "snapshot_row n d = Inr ?d"
      using g Cons.prems(2) x
      by (auto simp: snapshot_row.simps gist_def agrees_def opt_some_def split: option.splits)
    have w: "agrees m ?d" using Cons.prems(2) g(2) by (auto simp: agrees_def update_conv')
    from Cons.IH[OF N w] row show ?thesis using g
      by (auto simp: update_conv')
  qed
qed auto

lemma journal_inv_step:
  assumes "journal_inv m Off acc j" "rows_of e (map_of m (ev_id e)) N" "outcome_row e st rec"
  shows "st \<noteq> JO_APPLIED \<Longrightarrow> journal_inv m (insert e Off) acc (j @ N @ [rec])"
    and "st = JO_APPLIED \<Longrightarrow> set (map row_gist (intake_rows e (map_of m (ev_id e)))) \<subseteq> set (map gist N) \<Longrightarrow>
      journal_inv m (insert e Off) (acc @ [e]) (j @ N @ [rec])"
proof -
  obtain d where d: "snapshot_rows j [] = Inr d" "agrees m d" "\<forall>e \<in> set acc. map_of d (ev_id e) = map_of m (ev_id e)"
    using assms(1) by (auto simp: journal_inv_def)
  obtain d' where d': "snapshot_rows N d = Inr d'" "agrees m d'"
    "\<And>i. map_of d i = map_of m i \<Longrightarrow> map_of d' i = map_of m i"
    "\<And>x. (Some (ev_id e), J_Snapshot x) \<in> set (map gist N) \<Longrightarrow> map_of d' (ev_id e) = map_of m (ev_id e)"
    using snapshot_rows_agree[OF assms(2) d(2)] by blast
  have s: "snapshot_rows (j @ N @ [rec]) [] = Inr d'"
    using d(1) d'(1) outcome_row_facts(3)[OF assms(3)] by (simp add: snapshot_rows_append)
  note facts = s rows_of_event[OF assms(2)] rows_of_outcomes[OF assms(2)] outcome_row_facts(1,2)[OF assms(3)]
  { assume "st \<noteq> JO_APPLIED"
    then show "journal_inv m (insert e Off) acc (j @ N @ [rec])"
      using assms(1) d(3) d' facts unfolding journal_inv_def by (auto split: if_splits) }
  assume st: "st = JO_APPLIED" and I: "set (map row_gist (intake_rows e (map_of m (ev_id e)))) \<subseteq> set (map gist N)"
  have e: "e \<in> set (journaled_events N)" using I event_row_in unfolding intake_gist by blast
  have "map_of d' (ev_id e) = map_of m (ev_id e)"
  proof (cases "map_of m (ev_id e)")
    case None
    then show ?thesis using d'(2) by (cases "map_of d' (ev_id e)") (auto simp: agrees_def)
  next
    case (Some x)
    then show ?thesis using I d'(4) unfolding intake_gist by auto
  qed
  then show "journal_inv m (insert e Off) (acc @ [e]) (j @ N @ [rec])"
    using assms(1) d(3) d' facts e st unfolding journal_inv_def by (auto split: if_splits)
qed

subsection \<open>The order of accepted events\<close>

definition order_inv :: "runtime_event list \<Rightarrow> shared_state \<Rightarrow> bool" where
  "order_inv acc s \<longleftrightarrow> sorted (map ordering_key acc) \<and> distinct (map ev_id acc) \<and>
     (\<forall>c \<in> set (st_source_cursors s). \<exists>e \<in> set acc. cur_event_id c = Some (ev_id e)) \<and>
     (acc \<noteq> [] \<longrightarrow> opt_some (\<lambda>c. cursor_key c = ordering_key (List.last acc)) (st_last_event s))"

lemma key_less_iff: "key_less a b \<longleftrightarrow> a < b"
  by (cases a; cases b) (auto simp: less_prod_def')

lemma order_inv_step:
  assumes "order_inv acc s" "reduce_now D e s = Inr s'" "ev_id e \<notin> ev_id ` set acc"
  shows "order_inv (acc @ [e]) s'" "ensure_utc (utc (ev_available_at e)) = Inr (ev_available_at e)"
    "acc \<noteq> [] \<Longrightarrow> ev_available_at (List.last acc) \<le> ev_available_at e"
proof -
  have "order_inv (acc @ [e]) s' \<and> ensure_utc (utc (ev_available_at e)) = Inr (ev_available_at e) \<and>
    (acc \<noteq> [] \<longrightarrow> ordering_key (List.last acc) \<le> ordering_key e)"
    using assms(2)[unfolded reduce_now_def]
  proof (cases rule: reduce_state_cases)
    case duplicate
    then obtain c where "c \<in> set (st_source_cursors s)" "cur_event_id c = Some (ev_id e)"
      by (auto simp: validate_order_False_iff opt_some_iff find_source_cursor_def dest: lookup_by_Some)
    then obtain x where "x \<in> set acc" "ev_id x = ev_id e" using assms(1) by (force simp: order_inv_def)
    then show ?thesis using assms(3) by (metis imageI)
  next
    case (accepted t u c)
    have le: "acc \<noteq> [] \<longrightarrow> ordering_key (List.last acc) \<le> ordering_key e"
      using assms(1) validate_order_True(2)[OF accepted(1)]
      by (auto simp: order_inv_def opt_some_iff key_less_iff not_less)
    have srt: "sorted (map ordering_key (acc @ [e]))"
    proof (cases "acc = []")
      case False
      then have "\<forall>x \<in> set acc. ordering_key x \<le> ordering_key (List.last acc)"
        using assms(1) by (auto simp: order_inv_def sorted_iff_nth_mono in_set_conv_nth last_conv_nth)
      then show ?thesis using assms(1) le False by (fastforce simp: order_inv_def sorted_append)
    qed simp
    have "\<forall>c \<in> set (st_source_cursors s'). \<exists>x \<in> set (acc @ [e]). cur_event_id c = Some (ev_id x)"
    proof
      fix c assume "c \<in> set (st_source_cursors s')"
      then consider "cur_event_id c = Some (ev_id e)" | "c \<in> set (st_source_cursors s)"
        unfolding accepted using set_upsert[of cur_source "st_source_cursors s"] by fastforce
      then show "\<exists>x \<in> set (acc @ [e]). cur_event_id c = Some (ev_id x)"
        using assms(1) by cases (auto simp: order_inv_def)
    qed
    moreover have "distinct (map ev_id (acc @ [e]))" using assms(1,3) by (simp add: order_inv_def)
    ultimately show ?thesis
      using srt le accepted(2) by (auto simp: order_inv_def accepted cursor_key_def ordering_key_def
          ensure_utc_def Let_def split: if_splits)
  qed
  then show "order_inv (acc @ [e]) s'" "ensure_utc (utc (ev_available_at e)) = Inr (ev_available_at e)"
    "acc \<noteq> [] \<Longrightarrow> ev_available_at (List.last acc) \<le> ev_available_at e"
    by (auto simp: ordering_key_def less_eq_prod_def)
qed

subsection \<open>Replaying the accepted events\<close>

lemma stream_append: "stream S m (xs @ ys) r = eff_bind (stream S m xs) (\<lambda>_. stream S m ys) r"
  by (induction xs arbitrary: r) (auto simp: eff_simps eff_bind_def split: prod.splits sum.splits)

lemma stream_cong: "(\<And>e. e \<in> set es \<Longrightarrow> map_of m (ev_id e) = map_of m' (ev_id e)) \<Longrightarrow> stream S m es r = stream S m' es r"
  by (induction es arbitrary: r) (auto simp: eff_bind_def split: prod.splits sum.splits)

text \<open>The replay of the accepted events on a fresh runner, without a journal and on a replay clock.\<close>

definition replay_of :: "'c runner \<Rightarrow> dt \<Rightarrow> 'c runner" where
  "replay_of r t = r\<lparr>rr_clock := Replay_Clock \<lparr>rc_current = t\<rparr>, rr_journal := None\<rparr>"

definition replay_inv ::
  "'c runner_setup \<Rightarrow> (string \<times> feature_snapshot) list \<Rightarrow> shared_state \<Rightarrow> dt \<Rightarrow> runtime_event list \<Rightarrow> 'c runner \<Rightarrow> bool" where
  "replay_inv S m s t acc r \<longleftrightarrow>
     stream S m acc (fresh_runner (fresh_kernel s) (Replay_Clock \<lparr>rc_current = t\<rparr>) None)
       = (Inr (), replay_of r (if acc = [] then t else ev_available_at (List.last acc)))"

lemma commit_unjournaled:
  assumes "rr_journal r = None" "kernel_process (rs_digests S) (rs_kernel S) e f (rr_kernel r) = (Inr b, k)"
    "next_thesis S e b (rr_thesis r) = Inr th" "mk_trace_step (rs_step S) (step_of e (kn_state k) b th) = Inr st"
  shows "runner_commit S e f r = (Inr st, r\<lparr>rr_kernel := k, rr_thesis := th, rr_steps := rr_steps r @ [st],
    rr_last := Some (ev_id e, map_option fs_id f, st)\<rparr>)"
  using assms by (simp add: runner_commit_def Let_def eff_simps on_kernel_def when_journaled_def)

lemma replay_step:
  assumes "replay_inv S m s t acc r" "t \<le> ev_available_at e" "f = map_of m (ev_id e)"
    "acc \<noteq> [] \<Longrightarrow> ev_available_at (List.last acc) \<le> ev_available_at e"
    "ensure_utc (utc (ev_available_at e)) = Inr (ev_available_at e)"
    "opt_all (\<lambda>(i, _). i \<noteq> ev_id e) (rr_last r)"
    "kernel_process (rs_digests S) (rs_kernel S) e f (rr_kernel r) = (Inr b, k)"
    "next_thesis S e b (rr_thesis r) = Inr th" "mk_trace_step (rs_step S) (step_of e (kn_state k) b th) = Inr st"
  shows "replay_inv S m s t (acc @ [e]) (r\<lparr>rr_kernel := k, rr_clock := c, rr_journal := j, rr_thesis := th,
    rr_steps := rr_steps r @ [st], rr_last := Some (ev_id e, map_option fs_id f, st)\<rparr>)"
proof -
  let ?q = "replay_of r (ev_available_at e)"
  have "advance_clock S e (replay_of r (if acc = [] then t else ev_available_at (List.last acc))) = (Inr (), ?q)"
    using assms(2,4,5) by (auto simp: advance_clock_def replay_of_def advance_to_def)
  moreover have "runner_commit S e f ?q = (Inr st, ?q\<lparr>rr_kernel := k, rr_thesis := th, rr_steps := rr_steps ?q @ [st],
    rr_last := Some (ev_id e, map_option fs_id f, st)\<rparr>)"
    by (rule commit_unjournaled) (use assms(7-9) in \<open>simp_all add: replay_of_def\<close>)
  ultimately have "runner_process S e f (replay_of r (if acc = [] then t else ev_available_at (List.last acc)))
    = (Inr st, ?q\<lparr>rr_kernel := k, rr_thesis := th, rr_steps := rr_steps ?q @ [st],
    rr_last := Some (ev_id e, map_option fs_id f, st)\<rparr>)"
    using assms(6) by (cases "rr_last r")
      (auto simp: runner_process_def eff_catch_def runner_body_def eff_simps replay_of_def)
  then show ?thesis using assms(1,3)
    by (auto simp: replay_inv_def stream_append eff_bind_def eff_simps replay_of_def)
qed

subsection \<open>Sessions\<close>

text \<open>
  A session offers events one after the other and goes on after a rejection. It is orderly when an accepted
  event is offered again only as an immediate redelivery, and no event is rejected after the kernel has
  committed it.
\<close>

definition offer :: "'c runner_setup \<Rightarrow> (string \<times> feature_snapshot) list \<Rightarrow> runtime_event \<Rightarrow> 'c runner
     \<Rightarrow> trace_step res \<times> 'c runner" where
  "offer S m e r = runner_process S e (map_of m (ev_id e)) r"

fun session :: "'c runner_setup \<Rightarrow> (string \<times> feature_snapshot) list \<Rightarrow> runtime_event list \<Rightarrow> 'c runner \<Rightarrow> 'c runner" where
  "session S m [] r = r"
| "session S m (e # es) r = session S m es (snd (offer S m e r))"

fun orderly :: "'c runner_setup \<Rightarrow> (string \<times> feature_snapshot) list \<Rightarrow> runtime_event list \<Rightarrow> 'c runner \<Rightarrow> bool" where
  "orderly S m [] r \<longleftrightarrow> True"
| "orderly S m (e # es) r \<longleftrightarrow>
     (ev_id e \<in> ss_event_id ` set (rr_steps r) \<longrightarrow> opt_some (\<lambda>(i, _). i = ev_id e) (rr_last r)) \<and>
     (is_ok (fst (offer S m e r)) \<or> rr_kernel (snd (offer S m e r)) = rr_kernel r) \<and>
     orderly S m es (snd (offer S m e r))"

definition session_inv ::
  "'c runner_setup \<Rightarrow> (string \<times> feature_snapshot) list \<Rightarrow> shared_state \<Rightarrow> dt \<Rightarrow> runtime_event set \<Rightarrow> runtime_event list
     \<Rightarrow> 'c runner \<Rightarrow> bool" where
  "session_inv S m s t Off acc r \<longleftrightarrow> aligned r \<and> opt_some (journal_inv m Off acc) (rr_journal r) \<and>
     order_inv acc (kn_state (rr_kernel r)) \<and> replay_inv S m s t acc r \<and>
     map ss_event_id (rr_steps r) = map ev_id acc"

lemma mk_trace_step_fields:
  "mk_trace_step h (step_of e s b th) = Inr st \<Longrightarrow>
     ss_event_id st = ev_id e \<and> ss_bundle st = b \<and> ss_bundle_id st = eb_id b"
  by (auto simp: mk_trace_step_def res_simps bind_identity_def Let_def step_of_def split: if_splits)

lemma session_inv_start:
  assumes "st_source_cursors s = []"
  shows "session_inv S m s t {} [] (fresh_runner (fresh_kernel s) c (Some []))"
  using assms by (simp add: session_inv_def aligned_def fresh_runner_def fresh_kernel_def journal_inv_def
      journaled_events_def outcomes_for_def agrees_def order_inv_def replay_inv_def replay_of_def eff_simps)

lemma session_inv_kept:
  assumes "session_inv S m s t Off acc r" "rr_kernel q = rr_kernel r" "rr_thesis q = rr_thesis r"
    "rr_steps q = rr_steps r" "rr_last q = rr_last r" "rr_journal q = Some j" "journal_inv m Off' acc j"
  shows "session_inv S m s t Off' acc q"
proof -
  have "replay_of q x = replay_of r x" for x using assms(2-5) by (simp add: replay_of_def)
  then show ?thesis using assms by (simp add: session_inv_def aligned_def replay_inv_def)
qed

lemma session_step:
  assumes "recordable S" "session_inv S m s t Off acc r" "t \<le> ev_available_at e"
    "ev_id e \<in> ss_event_id ` set (rr_steps r) \<longrightarrow> opt_some (\<lambda>(i, _). i = ev_id e) (rr_last r)"
    "is_ok (fst (offer S m e r)) \<or> rr_kernel (snd (offer S m e r)) = rr_kernel r"
  shows "\<exists>acc'. session_inv S m s t (insert e Off) acc' (snd (offer S m e r))"
proof -
  obtain j where j: "rr_journal r = Some j" "journal_inv m Off acc j" and al: "aligned r"
    using assms(2) by (auto simp: session_inv_def opt_some_iff)
  from assms(1) j(1) al show ?thesis
  proof (cases rule: runner_process_cases[where e = e and f = "map_of m (ev_id e)"])
    case (rejected err k c N rec)
    then have "k = rr_kernel r" using assms(5) by (simp add: offer_def)
    with rejected show ?thesis
      using session_inv_kept[OF assms(2), of "snd (offer S m e r)"] journal_inv_step(1)[OF j(2) rejected(1,2)]
      by (fastforce simp: offer_def)
  next
    case (duplicate sid st c rec)
    have "journal_inv m (insert e Off) acc (j @ [] @ [rec])"
      using journal_inv_step(1)[OF j(2) rows_of_Nil duplicate(2)] by simp
    with duplicate show ?thesis
      using session_inv_kept[OF assms(2), of "snd (offer S m e r)"] by (fastforce simp: offer_def)
  next
    case (accepted b th k st c N rec)
    note inv = assms(2)[unfolded session_inv_def]
    have new: "ev_id e \<notin> ev_id ` set acc"
    proof -
      have "ev_id ` set acc = ss_event_id ` set (rr_steps r)" using inv by (metis list.set_map)
      then show ?thesis using assms(4) accepted(1) by (cases "rr_last r") auto
    qed
    have "\<not> cached (KProcess e (map_of m (ev_id e))) (rr_kernel r)"
      using al accepted(1) by (cases "rr_last r") (auto simp: aligned_def)
    then have commit: "kernel_commit (rs_digests S) (rs_kernel S) e (map_of m (ev_id e)) (rr_kernel r) = (Inr b, k)"
      using accepted(2) by (simp add: kernel_process_uncached)
    obtain s' where red: "reduce_now (rs_digests S) e (kn_state (rr_kernel r)) = Inr s'" "kn_state k = s'"
      "kn_last k = Some (ev_id e, map_option fs_id (map_of m (ev_id e)), b)"
      using commit by (cases rule: kernel_commit_cases[of "rs_digests S" "rs_kernel S" e "map_of m (ev_id e)" "rr_kernel r"]) auto
    have ord: "order_inv acc (kn_state (rr_kernel r))" using inv by simp
    note step = order_inv_step[OF ord red(1) new]
    have rep: "replay_inv S m s t (acc @ [e]) (snd (offer S m e r))"
      unfolding offer_def accepted(8) snd_conv
      by (rule replay_step[OF _ assms(3) refl step(3,2) accepted(1-4)]) (use inv in simp_all)
    have "journal_inv m (insert e Off) (acc @ [e]) (j @ N @ [rec])"
      using journal_inv_step(2)[OF j(2) accepted(5,7) refl accepted(6)] .
    then have "session_inv S m s t (insert e Off) (acc @ [e]) (snd (offer S m e r))"
      using rep step(1) red(2,3) inv mk_trace_step_fields[OF accepted(4)]
      by (simp add: session_inv_def offer_def accepted(8) aligned_def)
    then show ?thesis ..
  qed
qed

lemma session_run:
  assumes "recordable S" "session_inv S m s t Off acc r" "\<forall>e \<in> set es. t \<le> ev_available_at e" "orderly S m es r"
  shows "\<exists>acc'. session_inv S m s t (set es \<union> Off) acc' (session S m es r)"
  using assms(2-)
proof (induction es arbitrary: Off acc r)
  case (Cons e es)
  have "t \<le> ev_available_at e" and o: "orderly S m (e # es) r" using Cons.prems(2,3) by simp_all
  from session_step[OF assms(1) Cons.prems(1) this(1)] o
  obtain acc' where "session_inv S m s t (insert e Off) acc' (snd (offer S m e r))"
    unfolding orderly.simps by metis
  from Cons.IH[OF this] Cons.prems(2,3) show ?case by auto
qed auto

subsection \<open>A journal read back is its session\<close>

lemma journal_events_accepted:
  assumes "journal_inv m Off acc j" "order_inv acc s" "inj_on ev_id Off"
  shows "journal_events j = acc"
proof -
  let ?E = "journaled_events j" and ?D = "dict_by ev_id (journaled_events j)"
  have inj: "inj_on ev_id (set ?E)" using assms(1,3) by (auto simp: journal_inv_def intro: inj_on_subset)
  have keys: "fst p = ev_id (snd p)" if "p \<in> set ?D" for p using dict_by_keys[OF that] .
  have val: "(i, e) \<in> set ?D \<longleftrightarrow> e \<in> set ?E \<and> i = ev_id e" for i e
  proof -
    have "(i, e) \<in> set ?D \<longleftrightarrow> lookup_by ev_id (rev ?E) i = Some e"
      using distinct_dict_by[of ev_id ?E] by (metis map_of_dict_by map_of_eq_Some_iff)
    also have "\<dots> \<longleftrightarrow> e \<in> set ?E \<and> i = ev_id e"
    proof
      assume "lookup_by ev_id (rev ?E) i = Some e"
      then show "e \<in> set ?E \<and> i = ev_id e" by (auto dest: lookup_by_Some)
    next
      assume e: "e \<in> set ?E \<and> i = ev_id e"
      then obtain x where "lookup_by ev_id (rev ?E) i = Some x"
        by (cases "lookup_by ev_id (rev ?E) i") (auto simp: lookup_by_None_iff)
      moreover from this have "x \<in> set ?E \<and> ev_id x = i" by (auto dest: lookup_by_Some)
      ultimately show "lookup_by ev_id (rev ?E) i = Some e" using e inj by (auto dest: inj_onD)
    qed
    finally show ?thesis .
  qed
  let ?A = "map snd (filter (\<lambda>(i, e). replayed j i) ?D)"
  have "replayed j (ev_id e) \<longleftrightarrow> e \<in> set acc" if e: "e \<in> set ?E" for e
  proof -
    have "x = e" if "x \<in> set acc" "ev_id x = ev_id e" for x
      using that e assms(1) inj_onD[OF inj that(2)] by (auto simp: journal_inv_def)
    then show ?thesis using e assms(1) by (auto simp: journal_inv_def replayed_def)
  qed
  then have mem: "set ?A = set acc"
    using assms(1) by (force simp: journal_inv_def val image_iff)
  have ids: "map ev_id ?A = map fst (filter (\<lambda>(i, e). replayed j i) ?D)"
    by (auto simp: keys)
  have "distinct (map fst (filter (\<lambda>(i, e). replayed j i) ?D))"
    by (rule distinct_map_filter[OF distinct_dict_by])
  then have "distinct (map ev_id ?A)" unfolding ids .
  moreover have "mset (map ev_id (journal_events j)) = mset (map ev_id ?A)"
    by (simp add: journal_events_def journaled_events_def multiset.map_comp)
  ultimately have "distinct (map ev_id (journal_events j))" by (metis mset_eq_imp_distinct_iff)
  moreover have sets: "set (journal_events j) = set acc"
    using mem by (simp add: journal_events_def journaled_events_def)
  moreover have "sorted (map ordering_key (journal_events j))" by (simp add: journal_events_def)
  moreover have "distinct (map ordering_key xs)" if "distinct (map ev_id xs)" for xs
    using that by (auto simp: distinct_map inj_on_def ordering_key_def)
  ultimately have "map ordering_key (journal_events j) = map ordering_key acc"
    using assms(2) by (intro sorted_distinct_set_unique) (auto simp: order_inv_def)
  moreover have "inj_on ordering_key (set acc)"
    using assms(2) by (auto simp: order_inv_def distinct_map inj_on_def ordering_key_def)
  ultimately show ?thesis using sets by (auto intro: map_inj_on)
qed

text \<open>C8. Replaying a journal reproduces the session that wrote it. Take any session on a fresh runner that keeps a
  complete journal (no retention bound, error texts of one to 500 characters), from a state without source cursors:
  events accepted, rejected, retried and redelivered in any mixture, on any clock, with any tools,
  specialists and scenario transition, provided the event identifiers tell the events apart, no accepted event is offered again
  except as an immediate redelivery, and no event is rejected after the kernel has committed it. Then the
  journal's feature snapshots can be read back without a conflict, and streaming the journal's events through a
  fresh kernel on a replay clock accepts every one of them and ends with exactly the session's trace steps, the
  session's thesis and the session's kernel: state, memories and cached bundle.\<close>

theorem journal_replay_reproduces_session:
  assumes "recordable S" "st_source_cursors s = []" "inj_on ev_id (set es)"
    "\<forall>e \<in> set es. t \<le> ev_available_at e"
    "orderly S m es (fresh_runner (fresh_kernel s) c (Some []))"
    "r = session S m es (fresh_runner (fresh_kernel s) c (Some []))"
  shows "\<exists>j d q. rr_journal r = Some j \<and> feature_snapshots j = Inr d \<and>
     run_event_stream S d (journal_events j) (fresh_kernel s) (Replay_Clock \<lparr>rc_current = t\<rparr>) None
       = (Inr (rr_steps r), q) \<and>
     rr_kernel q = rr_kernel r \<and> rr_thesis q = rr_thesis r \<and>
     map ss_event_id (rr_steps r) = map ev_id (journal_events j)"
proof -
  obtain acc where inv: "session_inv S m s t (set es) acc r"
    using session_run[OF assms(1) session_inv_start[OF assms(2)] assms(4,5)] assms(6) by auto
  then obtain j where j: "rr_journal r = Some j" "journal_inv m (set es) acc j"
    by (auto simp: session_inv_def opt_some_iff)
  then obtain d where d: "feature_snapshots j = Inr d" "\<forall>e \<in> set acc. map_of d (ev_id e) = map_of m (ev_id e)"
    by (auto simp: journal_inv_def feature_snapshots_def)
  have ev: "journal_events j = acc"
    using inv journal_events_accepted[OF j(2) _ assms(3)] by (auto simp: session_inv_def)
  let ?q = "replay_of r (if acc = [] then t else ev_available_at (List.last acc))"
  have "run_event_stream S d acc (fresh_kernel s) (Replay_Clock \<lparr>rc_current = t\<rparr>) None = (Inr (rr_steps r), ?q)"
    using inv stream_cong[of acc d m S] d(2)
    by (simp add: session_inv_def replay_inv_def run_event_stream_def replay_of_def)
  then show ?thesis using inv j(1) d(1) ev by (auto simp: session_inv_def replay_of_def)
qed

subsection \<open>When an event is accepted\<close>

lemma semantic_id_nonempty: "semantic_id v = Inr i \<Longrightarrow> i \<noteq> []"
  by (auto simp: semantic_id_def find_Some_iff split: option.splits)

definition row_ok :: "links \<times> semantic \<Rightarrow> bool" where
  "row_ok p \<longleftrightarrow> causal_time (lk_available_at (fst p)) (snd p) \<noteq> None \<and> is_ok (semantic_id (snd p))"

lemma from_semantic_ok: "row_ok (l, v) \<Longrightarrow> is_ok (from_semantic h l v)"
proof -
  assume "row_ok (l, v)"
  then obtain t i where "causal_time (lk_available_at l) v = Some t" "semantic_id v = Inr i" "i \<noteq> []"
    by (auto simp: row_ok_def is_ok_iff dest: semantic_id_nonempty)
  then show ?thesis
    by (simp add: from_semantic_def is_ok_iff mk_journal_record_def validate_ok nonempty_def bind_identity_def)
qed

lemma append_all_ok: "list_all row_ok rows \<Longrightarrow> is_ok (fst (append_all S rows r))"
proof (induction rows arbitrary: r)
  case (Cons row rows)
  obtain l v where row: "row = (l, v)" by (rule prod.exhaust)
  with Cons.prems from_semantic_ok[of l v "rs_record S"] obtain rec where "from_semantic (rs_record S) l v = Inr rec"
    by (auto simp: is_ok_iff)
  with Cons show ?case by (simp add: row append_record_def eff_bind_def eff_of_def)
qed (simp add: eff_simps)

lemma commit_accepted:
  assumes "rs_retained S = None" "rr_journal r = Some j"
    "kernel_process (rs_digests S) (rs_kernel S) e f (rr_kernel r) = (Inr b, k)"
    "next_thesis S e b (rr_thesis r) = Inr th" "mk_trace_step (rs_step S) (step_of e (kn_state k) b th) = Inr st"
    "list_all row_ok (intake_rows e f)"
    "list_all row_ok (semantic_rows e f b (kn_state k) th (st_id (kn_state (rr_kernel r)))
       (previous_memories (rr_steps r)) (rr_thesis r))"
  shows "\<exists>J. runner_commit S e f r = (Inr st, r\<lparr>rr_kernel := k, rr_journal := Some J, rr_thesis := th,
     rr_steps := rr_steps r @ [st], rr_last := Some (ev_id e, map_option fs_id f, st)\<rparr>)"
proof -
  obtain N u where N: "append_all S (intake_rows e f) r = (Inr u, r\<lparr>rr_journal := Some (j @ N)\<rparr>)"
    using append_all_cases[OF assms(1,2), of "intake_rows e f"] append_all_ok[OF assms(6), of S r]
    by (auto simp: is_ok_iff prod_eq_iff)
  let ?r1 = "r\<lparr>rr_journal := Some (j @ N), rr_kernel := k\<rparr>"
  have j1: "rr_journal ?r1 = Some (j @ N)" by simp
  let ?rows = "semantic_rows e f b (kn_state k) th (st_id (kn_state (rr_kernel r)))
    (previous_memories (rr_steps r)) (rr_thesis r)"
  obtain M v where M: "append_all S ?rows ?r1 = (Inr v, ?r1\<lparr>rr_journal := Some ((j @ N) @ M)\<rparr>)"
    using append_all_cases[OF assms(1) j1, of ?rows] append_all_ok[OF assms(7), of S ?r1]
    by (auto simp: is_ok_iff prod_eq_iff)
  let ?r2 = "?r1\<lparr>rr_journal := Some ((j @ N) @ M)\<rparr>" and ?msg = "''event produced one deterministic semantic trace step''"
  have j2: "rr_journal ?r2 = Some ((j @ N) @ M)" by simp
  have "is_ok (fst (append_outcome S e JO_APPLIED ''APPLIED'' ?msg ?r2))"
    by (rule append_outcome_total[OF assms(1) j2 _ _ _ refl]) simp_all
  then obtain rec where "append_outcome S e JO_APPLIED ''APPLIED'' ?msg ?r2
      = (Inr (), ?r2\<lparr>rr_journal := Some (((j @ N) @ M) @ [rec])\<rparr>)"
    using append_outcome_cases[OF assms(1) j2, of e JO_APPLIED "''APPLIED''" ?msg] by fastforce
  then show ?thesis using N M assms(2-5)
    by (auto simp: runner_commit_def Let_def eff_simps on_kernel_def when_journaled_def)
qed

subsection \<open>Where a session and its journal part\<close>

text \<open>
  A scenario transition that raises rejects its event after the kernel has moved: the kernel keeps the new state,
  memories and cached bundle, the journal says REJECTED, and a replay leaves the event out.
\<close>

lemma late_rejection_keeps_kernel:
  fixes S :: "'c runner_setup"
  assumes "recordable S" "rr_journal r = Some j" "advance_clock S e r = (Inr (), r\<lparr>rr_clock := c\<rparr>)"
    "opt_all (\<lambda>(i, _). i \<noteq> ev_id e) (rr_last r)" "list_all row_ok (intake_rows e f)"
    "kernel_process (rs_digests S) (rs_kernel S) e f (rr_kernel r) = (Inr b, k)"
    "next_thesis S e b (rr_thesis r) = Inl err"
  shows "\<exists>N rec. outcome_row e JO_REJECTED rec \<and> runner_process S e f r =
     (Inl err, r\<lparr>rr_kernel := k, rr_clock := c, rr_journal := Some (j @ N @ [rec])\<rparr>)"
proof -
  have ret: "rs_retained S = None" using assms(1) by (simp add: recordable_def)
  let ?r1 = "r\<lparr>rr_clock := c\<rparr>"
  have j1: "rr_journal ?r1 = Some j" using assms(2) by simp
  obtain N u where N: "append_all S (intake_rows e f) ?r1 = (Inr u, ?r1\<lparr>rr_journal := Some (j @ N)\<rparr>)"
    using append_all_cases[OF ret j1, of "intake_rows e f"] append_all_ok[OF assms(5), of S ?r1]
    by (auto simp: is_ok_iff prod_eq_iff)
  let ?q = "?r1\<lparr>rr_kernel := k, rr_journal := Some (j @ N)\<rparr>"
  have "runner_commit S e f ?r1 = (Inl err, ?q)"
    using N assms(2,6,7) by (simp add: runner_commit_def Let_def eff_simps on_kernel_def when_journaled_def)
  then have body: "runner_body S e f r = (Inl err, ?q)"
    using assms(3,4) by (cases "rr_last r") (auto simp: runner_body_def eff_simps)
  have "rr_journal ?q = Some (j @ N)" by simp
  then obtain rec where "outcome_row e JO_REJECTED rec"
    "(rejected S e err :: ('c runner, trace_step) eff) ?q = (Inl err, ?q\<lparr>rr_journal := Some ((j @ N) @ [rec])\<rparr>)"
    using rejected_run[OF assms(1), where r = ?q and e = e and err = err] by blast
  then show ?thesis using body
    by (intro exI[of _ N] exI[of _ rec]) (simp add: runner_process_def eff_catch_def)
qed

text \<open>An event the kernel refuses leaves the kernel as it was, whatever was written to the journal.\<close>

lemma early_rejection_is_clean:
  fixes S :: "'c runner_setup"
  assumes "recordable S" "rr_journal r = Some j" "opt_all (\<lambda>(i, _). i \<noteq> ev_id e) (rr_last r)"
    "kernel_process (rs_digests S) (rs_kernel S) e f (rr_kernel r) = (Inl err, rr_kernel r)"
  shows "rr_kernel (snd (runner_process S e f r)) = rr_kernel r \<and> rr_steps (snd (runner_process S e f r)) = rr_steps r"
proof -
  have ret: "rs_retained S = None" using assms(1) by (simp add: recordable_def)
  obtain c where c: "snd (advance_clock S e r) = r\<lparr>rr_clock := c\<rparr>" by (rule advance_clock_cases)
  let ?r1 = "r\<lparr>rr_clock := c\<rparr>"
  have j1: "rr_journal ?r1 = Some j" using assms(2) by simp
  obtain x N where N: "append_all S (intake_rows e f) ?r1 = (x, ?r1\<lparr>rr_journal := Some (j @ N)\<rparr>)"
    using append_all_cases[OF ret j1, of "intake_rows e f"] by (auto simp: prod_eq_iff)
  have "\<exists>err' M. runner_body S e f r = (Inl err', ?r1\<lparr>rr_journal := Some (j @ M)\<rparr>)"
  proof (cases "fst (advance_clock S e r)")
    case (Inl err')
    then have "advance_clock S e r = (Inl err', ?r1)" using c by (simp add: prod_eq_iff)
    then show ?thesis using assms(2)
      by (intro exI[of _ err'] exI[of _ "[]"]) (simp add: runner_body_def eff_simps)
  next
    case (Inr u)
    then have "advance_clock S e r = (Inr u, ?r1)" using c by (simp add: prod_eq_iff)
    moreover have "\<exists>err'. runner_commit S e f ?r1 = (Inl err', ?r1\<lparr>rr_journal := Some (j @ N)\<rparr>)"
      using N assms(2,4) by (cases x) (simp_all add: runner_commit_def Let_def eff_simps on_kernel_def when_journaled_def)
    ultimately show ?thesis using assms(3) by (cases "rr_last r") (auto simp: runner_body_def eff_simps)
  qed
  then obtain err' M where b: "runner_body S e f r = (Inl err', ?r1\<lparr>rr_journal := Some (j @ M)\<rparr>)" by blast
  have j2: "rr_journal (?r1\<lparr>rr_journal := Some (j @ M)\<rparr>) = Some (j @ M)" by simp
  obtain rec where "(rejected S e err' :: ('c runner, trace_step) eff) (?r1\<lparr>rr_journal := Some (j @ M)\<rparr>)
      = (Inl err', ?r1\<lparr>rr_journal := Some (j @ M), rr_journal := Some ((j @ M) @ [rec])\<rparr>)"
    using rejected_run[OF assms(1) j2, where e = e and err = err'] by blast
  then show ?thesis using b by (simp add: runner_process_def eff_catch_def)
qed

text \<open>
  An accepted event that arrives again after an event of another source leaves the shared state alone, but it is
  not recognised: the specialists observe once more and the kernel commits a second bundle for it.
\<close>

lemma late_redelivery_is_evaluated_again:
  assumes "opt_some (\<lambda>c. cur_source_sequence c = ev_source_sequence e \<and> cur_event_id c = Some (ev_id e))
      (find_source_cursor (kn_state k) (ev_source e))"
    "payload_matches (ev_type e) (ev_payload e)" "ensure_utc (utc (ev_available_at e)) = Inr (ev_available_at e)"
    "opt_all (\<lambda>(i, _). i \<noteq> ev_id e) (kn_last k)" "kernel_bundle D K (kn_memories k) e f (kn_state k) = Inr b"
  shows "kernel_process D K e f k = (Inr b, k\<lparr>kn_memories := dict_by am_agent_name (eb_memories b),
     kn_last := Some (ev_id e, map_option fs_id f, b)\<rparr>)"
proof -
  have "\<not> cached (KProcess e f) k" using assms(4) by (cases "kn_last k") auto
  moreover have "reduce_now D e (kn_state k) = Inr (kn_state k)"
    using assms(1-3) validate_order_False_iff[of "kn_state k" e] by (simp add: reduce_now_def reduce_state_def)
  ultimately show ?thesis using assms(5) by (simp add: kernel_process_uncached kernel_commit_def)
qed

text \<open>The journal files several objects under an identifier that is not their own.\<close>

lemma foreign_semantic_ids:
  "eb_event_id b \<noteq> [] \<Longrightarrow> semantic_id (J_Bundle b) = Inr (eb_event_id b)"
  "mp_event_id m \<noteq> [] \<Longrightarrow> semantic_id (J_Master m) = Inr (mp_event_id m)"
  "pas_context_id s \<noteq> [] \<Longrightarrow> semantic_id (J_Safety s) = Inr (pas_context_id s)"
  "pai_safety_id i \<noteq> [] \<Longrightarrow> semantic_id (J_Action i) = Inr (pai_safety_id i)"
  "rp_snapshot_id r \<noteq> [] \<Longrightarrow> semantic_id (J_Report r) = Inr (rp_snapshot_id r)"
  "ck_readiness_id c = Some (x # xs) \<Longrightarrow> semantic_id (J_Checkpoint c) = Inr (x # xs)"
  by (simp_all add: semantic_id_def id_priority_def id_attribute_def)

subsection \<open>Witness\<close>

text \<open>A session with an accepted event, its redelivery, and an event that collides with it.\<close>

definition demo_specialist :: "string \<Rightarrow> specialist" where
  "demo_specialist n = \<lparr>sp_name = n, sp_observe = (\<lambda>a. Inr
     ((demo_evidence ''ae-1'' 1 HS_DEVELOPING HR_NEW None (Fin (1 / 2)))\<lparr>ae_agent_name := n,
        ae_runtime_state_id := ai_runtime_state_id a\<rparr>, demo_memory\<lparr>am_agent_name := n\<rparr>))\<rparr>"

definition demo_runner_setup :: "unit runner_setup" where
  "demo_runner_setup = \<lparr>rs_digests = \<lparr>kd_state = demo_hash, kd_result = zero_hash, kd_input = zero_hash,
       kd_bundle = zero_hash, kd_failed = (\<lambda>_. ''failed'')\<rparr>,
     rs_kernel = \<lparr>ks_catalog = [], ks_access = map (\<lambda>n. (n, [])) agent_order,
       ks_agents = map demo_specialist agent_order\<rparr>,
     rs_now = (\<lambda>u. (0, u)), rs_transition = None, rs_retained = None, rs_step = zero_hash,
     rs_record = zero_hash, rs_outcome = zero_hash, rs_text = (\<lambda>_. ''rejected'')\<rparr>"

abbreviation demo_first :: runtime_event where "demo_first \<equiv> Reducer.demo_report 1 ES_SUBMITTED"
definition demo_collision :: runtime_event where "demo_collision = (Reducer.demo_report 1 ES_ACCEPTED)\<lparr>ev_id := ''ev-2''\<rparr>"

definition demo_bundle :: evidence_bundle where
  "demo_bundle = \<lparr>eb_id = ''eb-00000000000000000000'', eb_event_id = ''ev-1'', eb_runtime_state_id = st_id demo_submitted,
     eb_as_of = 1, eb_agent_inputs = map (\<lambda>n. (input_of demo_submitted None [] None)
       \<lparr>ai_id := ''ai-00000000000000000000''\<rparr>) agent_order,
     eb_evidence = map (\<lambda>n. (demo_evidence ''ae-1'' 1 HS_DEVELOPING HR_NEW None (Fin (1 / 2)))\<lparr>ae_agent_name := n,
        ae_runtime_state_id := st_id demo_submitted\<rparr>) agent_order,
     eb_memories = map (\<lambda>n. demo_memory\<lparr>am_agent_name := n\<rparr>) agent_order\<rparr>"

definition demo_kernel_after :: kernel where
  "demo_kernel_after = \<lparr>kn_state = demo_submitted, kn_memories = dict_by am_agent_name (eb_memories demo_bundle),
     kn_last = Some (''ev-1'', None, demo_bundle)\<rparr>"

definition demo_step :: trace_step where
  "demo_step = (step_of demo_first demo_submitted demo_bundle None)\<lparr>ss_id := ''step-00000000000000000000''\<rparr>"

lemmas demo_runner_simps = demo_runner_setup_def demo_event_def fresh_runner_def fresh_kernel_def

lemma demo_kernel_step:
  "kernel_process (rs_digests demo_runner_setup) (rs_kernel demo_runner_setup) demo_first None (fresh_kernel demo_state)
     = (Inr demo_bundle, demo_kernel_after)"
proof -
  have r: "reduce_now (rs_digests demo_runner_setup) demo_first demo_state = Inr demo_submitted"
    using demo_submitted_step by (simp add: reduce_now_def demo_runner_setup_def demo_event_def)
  have i: "st_id demo_submitted \<noteq> []" "st_as_of demo_submitted = 1"
    by (simp_all add: demo_submitted_def demo_state_def initial_raw_def)
  then have b: "kernel_bundle (rs_digests demo_runner_setup) (rs_kernel demo_runner_setup) [] demo_first None demo_submitted
      = Inr demo_bundle"
    by (simp add: kernel_bundle_def demo_runner_simps mk_tool_input_def agent_order_def observe_agent_def
        evaluate_catalog_def mk_agent_input_def validate.simps bind_identity_def content_id_def zero_hash_def
        demo_specialist_def mk_bundle_def bundle_rules_def demo_bundle_def input_of_def demo_evidence_def demo_memory_def
        nonempty_def)
  show ?thesis using r b
    by (simp add: kernel_process_def fresh_kernel_def kernel_commit_def demo_kernel_after_def demo_event_def)
qed

lemma demo_recordable: "recordable demo_runner_setup"
  by (simp add: recordable_def demo_runner_setup_def)

lemma demo_trace_step:
  "mk_trace_step zero_hash (step_of demo_first demo_submitted demo_bundle None) = Inr demo_step"
  by (simp add: mk_trace_step_def step_of_def demo_step_def validate.simps nonempty_def bind_identity_def
      content_id_def zero_hash_def demo_bundle_def demo_event_def demo_submitted_def demo_state_def)

lemma demo_rows:
  "list_all row_ok (intake_rows demo_first None)"
  "list_all row_ok (semantic_rows demo_first None demo_bundle demo_submitted None i [] None)"
  by (simp_all add: intake_rows_def row_ok_def causal_time_def semantic_id_def id_priority_def id_attribute_def
      is_ok_iff links_to_def demo_event_def semantic_rows_def agent_rows_def thesis_rows_def bundle_tool_results_def demo_bundle_def
      agent_order_def input_of_def dict_by_def sorted_values_def demo_evidence_def demo_memory_def
      demo_submitted_def demo_state_def initial_raw_def)

abbreviation demo_start :: "unit runner" where
  "demo_start \<equiv> fresh_runner (fresh_kernel demo_state) (Replay_Clock \<lparr>rc_current = 0\<rparr>) (Some [])"

lemma demo_offer:
  "\<exists>J. offer demo_runner_setup [] demo_first demo_start = (Inr demo_step, \<lparr>rr_kernel = demo_kernel_after,
     rr_clock = Replay_Clock \<lparr>rc_current = 1\<rparr>, rr_journal = Some J, rr_thesis = None, rr_steps = [demo_step],
     rr_last = Some (''ev-1'', None, demo_step)\<rparr>)"
proof -
  let ?S = demo_runner_setup and ?r = "demo_start\<lparr>rr_clock := Replay_Clock \<lparr>rc_current = 1\<rparr>\<rparr>"
  have k: "kernel_process (rs_digests ?S) (rs_kernel ?S) demo_first None (rr_kernel ?r) = (Inr demo_bundle, demo_kernel_after)"
    using demo_kernel_step by (simp add: fresh_runner_def)
  have p: "rs_retained ?S = None" "rr_journal ?r = Some []" "next_thesis ?S demo_first demo_bundle (rr_thesis ?r) = Inr None"
    "mk_trace_step (rs_step ?S) (step_of demo_first (kn_state demo_kernel_after) demo_bundle None) = Inr demo_step"
    using demo_trace_step
    by (simp_all add: demo_runner_setup_def fresh_runner_def next_thesis_def demo_kernel_after_def)
  have rows: "list_all row_ok (semantic_rows demo_first None demo_bundle (kn_state demo_kernel_after) None
      (st_id (kn_state (rr_kernel ?r))) (previous_memories (rr_steps ?r)) (rr_thesis ?r))"
    using demo_rows(2) by (simp add: demo_kernel_after_def fresh_runner_def previous_memories_def)
  from commit_accepted[OF p(1,2) k p(3,4) demo_rows(1) rows]
  obtain J where "runner_commit ?S demo_first None ?r = (Inr demo_step, ?r\<lparr>rr_kernel := demo_kernel_after,
      rr_journal := Some J, rr_thesis := None, rr_steps := rr_steps ?r @ [demo_step],
      rr_last := Some (ev_id demo_first, None, demo_step)\<rparr>)" unfolding option.map ..
  moreover have "advance_clock ?S demo_first demo_start = (Inr (), ?r)"
    by (simp add: advance_clock_def fresh_runner_def advance_to_def ensure_utc_def dt_min_def dt_max_def demo_event_def)
  ultimately show ?thesis
    by (intro exI[of _ J]) (simp add: offer_def runner_process_def runner_body_def eff_catch_def eff_simps fresh_runner_def demo_event_def)
qed

lemma demo_session: "orderly demo_runner_setup [] [demo_first, demo_collision] demo_start"
  "rr_steps (session demo_runner_setup [] [demo_first, demo_collision] demo_start) = [demo_step]"
proof -
  obtain J where o: "offer demo_runner_setup [] demo_first demo_start = (Inr demo_step, \<lparr>rr_kernel = demo_kernel_after,
     rr_clock = Replay_Clock \<lparr>rc_current = 1\<rparr>, rr_journal = Some J, rr_thesis = None, rr_steps = [demo_step],
     rr_last = Some (''ev-1'', None, demo_step)\<rparr>)" (is "_ = (_, ?q)")
    using demo_offer by blast
  have i: "ev_id demo_collision = ''ev-2''" by (simp add: demo_collision_def)
  have "reduce_now (rs_digests demo_runner_setup) demo_collision demo_submitted
      = Inl (ValueError ''source sequence collision'')"
    by (simp add: reduce_now_def demo_runner_setup_def demo_collision_def demo_submitted_def reduce_eval)
  then have k: "kernel_process (rs_digests demo_runner_setup) (rs_kernel demo_runner_setup) demo_collision None (rr_kernel ?q)
      = (Inl (ValueError ''source sequence collision''), rr_kernel ?q)"
    by (simp add: kernel_process_def demo_kernel_after_def i kernel_commit_def)
  have "rr_journal ?q = Some J" "opt_all (\<lambda>(e, _). e \<noteq> ev_id demo_collision) (rr_last ?q)" by (simp_all add: i)
  from early_rejection_is_clean[OF demo_recordable this k]
  have c: "rr_kernel (snd (offer demo_runner_setup [] demo_collision ?q)) = demo_kernel_after"
    "rr_steps (snd (offer demo_runner_setup [] demo_collision ?q)) = [demo_step]"
    by (simp_all add: offer_def)
  have "ss_event_id demo_step = ''ev-1''" by (simp add: demo_step_def step_of_def demo_event_def)
  then show "orderly demo_runner_setup [] [demo_first, demo_collision] demo_start"
    "rr_steps (session demo_runner_setup [] [demo_first, demo_collision] demo_start) = [demo_step]"
    using o c by (simp_all add: i) (simp_all add: fresh_runner_def)
qed

theorem journal_replay_reproduces_session_witness:
  "\<exists>j d q. rr_journal (session demo_runner_setup [] [demo_first, demo_collision] demo_start) = Some j \<and>
     feature_snapshots j = Inr d \<and> run_event_stream demo_runner_setup d (journal_events j) (fresh_kernel demo_state)
       (Replay_Clock \<lparr>rc_current = 0\<rparr>) None = (Inr [demo_step], q)"
proof -
  let ?es = "[demo_first, demo_collision]"
  have i: "inj_on ev_id (set ?es)" by (simp add: demo_collision_def demo_event_def)
  have c: "st_source_cursors demo_state = []" by (simp add: demo_state_def initial_raw_def)
  have t: "\<forall>e \<in> set ?es. 0 \<le> ev_available_at e" by (simp add: demo_collision_def demo_event_def)
  show ?thesis
    using journal_replay_reproduces_session[OF demo_recordable c i t demo_session(1) refl] demo_session(2) by auto
qed

end
