(* ===== verification/Decision.thy ===== *)
theory Decision
  imports Replay
begin

section \<open>Runtime contracts and the decision processor (\<open>orchestration/contracts.py\<close>, \<open>orchestration/processor.py\<close>)\<close>

text \<open>
  The operator controls, the status, plan, cycle and summary contracts of the runtime, and
  \<open>DeterministicDecisionProcessor\<close>: Master, Discipline, Risk and the execution intent for a new entry, then position
  management, action safety and action intents for the open positions, in fixed order. The three context providers
  are callables of the runtime adapter: functions with effects on an arbitrary world.
\<close>

subsection \<open>Operator controls\<close>

datatype runtime_mode = RM_DISABLED | RM_REPLAY | RM_SHADOW | RM_DEMO

datatype startup_phase =
    CREATED | OPENING_STORES | RESTORING | CONNECTING | SNAPSHOTTING | RECONCILING | VALIDATING
  | PH_SAFE | BLOCKED | STOPPING | STOPPED

record operator_controls =
  oc_pause :: bool
  oc_disabled :: bool
  oc_kill :: bool
  oc_shutdown :: bool
  oc_reasons :: "string list"

definition no_controls :: operator_controls where
  "no_controls = \<lparr>oc_pause = False, oc_disabled = False, oc_kill = False, oc_shutdown = False, oc_reasons = []\<rparr>"

definition tighten :: "string \<Rightarrow> operator_controls \<Rightarrow> operator_controls" where
  "tighten reason c = c\<lparr>oc_reasons := dedup (oc_reasons c @ [reason])\<rparr>"

definition pause :: "string \<Rightarrow> operator_controls \<Rightarrow> operator_controls" where
  "pause reason c = (tighten reason c)\<lparr>oc_pause := True\<rparr>"

definition disable_execution :: "string \<Rightarrow> operator_controls \<Rightarrow> operator_controls" where
  "disable_execution reason c = (tighten reason c)\<lparr>oc_disabled := True\<rparr>"

definition activate_kill_switch :: "string \<Rightarrow> operator_controls \<Rightarrow> operator_controls" where
  "activate_kill_switch reason c = (tighten reason c)\<lparr>oc_pause := True, oc_disabled := True, oc_kill := True\<rparr>"

definition request_shutdown :: "string \<Rightarrow> operator_controls \<Rightarrow> operator_controls" where
  "request_shutdown reason c = (tighten reason c)\<lparr>oc_pause := True, oc_shutdown := True\<rparr>"

definition clear_kill_switch :: "operator_controls \<Rightarrow> operator_controls res" where
  "clear_kill_switch c = Inl (ValueError ''kill switch cannot be cleared through runtime orchestration'')"

subsection \<open>Status, plan, cycle and summary\<close>

record runtime_status =
  rts_id :: string
  rts_mode :: runtime_mode
  rts_phase :: startup_phase
  rts_as_of :: dt
  rts_accepting :: bool
  rts_safe :: bool
  rts_resume :: "resume_status option"
  rts_event_id :: "string option"
  rts_thesis_id :: "string option"
  rts_scenario_ids :: "string list"
  rts_master_id :: "string option"
  rts_discipline_id :: "string option"
  rts_risk_id :: "string option"
  rts_result_id :: "string option"
  rts_open_positions :: int
  rts_freshness :: "component_freshness list"
  rts_error :: "string option"

definition mk_runtime_status :: "(runtime_status \<Rightarrow> string) \<Rightarrow> runtime_status \<Rightarrow> runtime_status res" where
  "mk_runtime_status h r = res_bind (validate
     [field_ok ''open_position_count'' (0 \<le> rts_open_positions r),
      field_ok ''last_error'' (opt_all (\<lambda>m. length m \<le> 500) (rts_error r)),
      rule_ok ''new trades require SAFE startup phase'' (\<not> (rts_safe r \<and> rts_phase r \<noteq> PH_SAFE))] r)
     (bind_identity ''rts-'' h (\<lambda>r. r\<lparr>rts_id := []\<rparr>) rts_id (\<lambda>i r. r\<lparr>rts_id := i\<rparr>)
        ''status_id does not match runtime status content'')"

record decision_plan =
  pl_master :: "master_proposal option"
  pl_discipline :: "discipline_outcome option"
  pl_risk :: "risk_outcome option"
  pl_intent :: "execution_intent option"
  pl_management :: "management_outcome list"
  pl_safety :: "safety_outcome list"
  pl_actions :: "action_intent list"

definition empty_plan :: decision_plan where
  "empty_plan = \<lparr>pl_master = None, pl_discipline = None, pl_risk = None, pl_intent = None, pl_management = [],
     pl_safety = [], pl_actions = []\<rparr>"

primrec signal_text :: "signal \<Rightarrow> string" where
  "signal_text SIG_BUY = ''BUY''"
| "signal_text SIG_SELL = ''SELL''"
| "signal_text SIG_HOLD = ''HOLD''"

primrec discipline_text :: "discipline_result \<Rightarrow> string" where
  "discipline_text DR_PASS = ''PASS''"
| "discipline_text DR_REJECT = ''REJECT''"
| "discipline_text DR_PAUSE = ''PAUSE''"
| "discipline_text DR_NO_ACTION = ''NO_ACTION''"

primrec risk_text :: "risk_result \<Rightarrow> string" where
  "risk_text RR_PASS = ''PASS''"
| "risk_text RR_REJECT = ''REJECT''"
| "risk_text RR_NO_ACTION = ''NO_ACTION''"
| "risk_text RR_EMERGENCY_STOP = ''EMERGENCY_STOP''"

primrec management_text :: "management_result \<Rightarrow> string" where
  "management_text MR_NO_ACTION = ''NO_ACTION''"
| "management_text MR_HOLD_POSITION = ''HOLD_POSITION''"
| "management_text MR_PROTECT_POSITION = ''PROTECT_POSITION''"
| "management_text MR_EXIT_POSITION = ''EXIT_POSITION''"

record decision_cycle =
  cy_id :: string
  cy_event_id :: string
  cy_event_type :: event_type
  cy_available_at :: dt
  cy_master :: "string option"
  cy_discipline :: "string option"
  cy_risk :: "string option"
  cy_intent_ids :: "string list"
  cy_result_ids :: "string list"
  cy_management :: "string list"
  cy_action_ids :: "string list"
  cy_action_result_ids :: "string list"

definition mk_decision_cycle :: "(decision_cycle \<Rightarrow> string) \<Rightarrow> decision_cycle \<Rightarrow> decision_cycle res" where
  "mk_decision_cycle h r = res_bind (validate [nonempty ''event_id'' (cy_event_id r)] r)
     (bind_identity ''cycle-'' h (\<lambda>r. r\<lparr>cy_id := []\<rparr>) cy_id (\<lambda>i r. r\<lparr>cy_id := i\<rparr>)
        ''cycle_id does not match decision cycle content'')"

record outcome_count =
  oq_name :: string
  oq_count :: int

definition mk_outcome_count :: "outcome_count \<Rightarrow> outcome_count res" where
  "mk_outcome_count c = validate [nonempty ''name'' (oq_name c), field_ok ''count'' (0 < oq_count c)] c"

record run_summary =
  rrs_id :: string
  rrs_cycle_ids :: "string list"
  rrs_master :: "outcome_count list"
  rrs_discipline :: "outcome_count list"
  rrs_risk :: "outcome_count list"
  rrs_intents :: int
  rrs_results :: int
  rrs_management :: "outcome_count list"
  rrs_actions :: int
  rrs_action_results :: int

text \<open>\<open>sorted(Counter(values).items())\<close>, each pair as an \<open>OutcomeCount\<close>.\<close>

definition outcome_counts :: "string list \<Rightarrow> outcome_count list res" where
  "outcome_counts vs = res_map (\<lambda>n. mk_outcome_count \<lparr>oq_name = n, oq_count = int (count_list vs n)\<rparr>)
     (sort (remdups vs))"

definition truthy_texts :: "string option list \<Rightarrow> string list" where
  "truthy_texts vs = concat (map (\<lambda>v. case v of Some (c # cs) \<Rightarrow> [c # cs] | _ \<Rightarrow> []) vs)"

definition summary_of_cycles :: "(run_summary \<Rightarrow> string) \<Rightarrow> decision_cycle list \<Rightarrow> run_summary res" where
  "summary_of_cycles h cs =
     res_bind (outcome_counts (truthy_texts (map cy_master cs))) (\<lambda>ms.
     res_bind (outcome_counts (truthy_texts (map cy_discipline cs))) (\<lambda>ds.
     res_bind (outcome_counts (truthy_texts (map cy_risk cs))) (\<lambda>rs.
     res_bind (outcome_counts (concat (map cy_management cs))) (\<lambda>ps.
     bind_identity ''rrs-'' h (\<lambda>r. r\<lparr>rrs_id := []\<rparr>) rrs_id (\<lambda>i r. r\<lparr>rrs_id := i\<rparr>)
       ''summary_id does not match run summary content''
       \<lparr>rrs_id = [], rrs_cycle_ids = map cy_id cs, rrs_master = ms, rrs_discipline = ds, rrs_risk = rs,
        rrs_intents = int (length (concat (map cy_intent_ids cs))),
        rrs_results = int (length (concat (map cy_result_ids cs))), rrs_management = ps,
        rrs_actions = int (length (concat (map cy_action_ids cs))),
        rrs_action_results = int (length (concat (map cy_action_result_ids cs)))\<rparr>))))"

subsection \<open>The decision processor\<close>

record entry_inputs =
  en_context :: discipline_context
  en_state :: discipline_state
  en_risk :: risk_context

record decision_digests =
  dd_master :: "master_proposal \<Rightarrow> string"
  dd_discipline :: "discipline_outcome \<Rightarrow> string"
  dd_context :: "risk_context \<Rightarrow> string"
  dd_risk :: "risk_outcome \<Rightarrow> string"
  dd_intent :: "execution_intent \<Rightarrow> string"
  dd_management :: "management_outcome \<Rightarrow> string"
  dd_safety :: "safety_outcome \<Rightarrow> string"
  dd_action :: "action_intent \<Rightarrow> string"
  dd_log10 :: "f64 \<Rightarrow> f64"

record 'w processor =
  dp_digests :: decision_digests
  dp_fusion :: fusion_policy
  dp_discipline :: discipline_policy
  dp_risk :: risk_policy
  dp_execution :: execution_policy
  dp_management :: management_policy
  dp_action :: action_policy
  dp_entry_context :: "runtime_event \<Rightarrow> shared_state \<Rightarrow> trace_step \<Rightarrow> ('w, entry_inputs) eff"
  dp_positions :: "runtime_event \<Rightarrow> shared_state \<Rightarrow> trace_step \<Rightarrow> ('w, management_context list) eff"
  dp_action_context :: "management_outcome \<Rightarrow> shared_state \<Rightarrow> resume_readiness option \<Rightarrow> ('w, action_context) eff"

text \<open>The operator's kill switch is written into the risk context, which is validated again.\<close>

definition killed_context :: "decision_digests \<Rightarrow> operator_controls \<Rightarrow> risk_context \<Rightarrow> risk_context res" where
  "killed_context D oc c = (if oc_kill oc \<and> \<not> rx_kill_switch c
     then mk_risk_context (dd_context D) (c\<lparr>rx_id := [], rx_kill_switch := True\<rparr>) else Inr c)"

definition entry_decision ::
  "'w processor \<Rightarrow> operator_controls \<Rightarrow> master_proposal \<Rightarrow> entry_inputs
     \<Rightarrow> (discipline_outcome \<times> risk_outcome \<times> execution_intent option) res" where
  "entry_decision P oc m x = (let D = dp_digests P in
     res_bind (evaluate_discipline (dd_discipline D) m (en_context x) (en_state x) (dp_discipline P)) (\<lambda>d.
     res_bind (killed_context D oc (en_risk x)) (\<lambda>c.
     res_bind (evaluate_risk (dd_risk D) (dd_log10 D) m d c (dp_risk P)) (\<lambda>r.
     res_bind (build_execution_intent (dd_intent D) m d r c (dp_execution P)) (\<lambda>i. Inr (d, r, i))))))"

fun action_decisions ::
  "'w processor \<Rightarrow> shared_state \<Rightarrow> resume_readiness option \<Rightarrow> management_outcome list
     \<Rightarrow> ('w, (safety_outcome \<times> action_intent option) list) eff" where
  "action_decisions P s rd [] = eff_return []"
| "action_decisions P s rd (o1 # os) =
     eff_bind (dp_action_context P o1 s rd) (\<lambda>c.
     eff_bind (eff_of (evaluate_position_action_safety (dd_safety (dp_digests P)) c (dp_action P))) (\<lambda>v.
     eff_bind (eff_of (build_position_action_intent (dd_action (dp_digests P)) c v)) (\<lambda>i.
     eff_bind (action_decisions P s rd os) (\<lambda>rest. eff_return ((v, i) # rest)))))"

fun planned_actions :: "'a option list \<Rightarrow> 'a list" where
  "planned_actions [] = []"
| "planned_actions (None # xs) = planned_actions xs"
| "planned_actions (Some x # xs) = x # planned_actions xs"

definition evaluate_decision ::
  "'w processor \<Rightarrow> runtime_event \<Rightarrow> shared_state \<Rightarrow> trace_step \<Rightarrow> resume_readiness option \<Rightarrow> operator_controls
     \<Rightarrow> ('w, decision_plan) eff" where
  "evaluate_decision P e s t rd oc = (let D = dp_digests P in
     eff_bind (eff_of (fuse_evidence (dd_master D) (ss_bundle t) (dp_fusion P))) (\<lambda>m.
     eff_bind (dp_entry_context P e s t) (\<lambda>x.
     eff_bind (eff_of (entry_decision P oc m x)) (\<lambda>(d, r, i).
     eff_bind (dp_positions P e s t) (\<lambda>cs.
     eff_bind (eff_of (res_map (\<lambda>c. evaluate_position (dd_management D) c (dp_management P)) cs)) (\<lambda>os.
     eff_bind (action_decisions P s rd os) (\<lambda>acts.
     eff_return \<lparr>pl_master = Some m, pl_discipline = Some d, pl_risk = Some r, pl_intent = i, pl_management = os,
       pl_safety = map fst acts, pl_actions = planned_actions (map snd acts)\<rparr>)))))))"

subsection \<open>What stands behind a planned entry\<close>

lemma killed_context_passed:
  assumes "killed_context D oc c = Inr c'" "\<not> rx_kill_switch c'"
  shows "c' = c \<and> \<not> oc_kill oc"
proof (cases "oc_kill oc \<and> \<not> rx_kill_switch c")
  case True
  then have "rx_kill_switch c'"
    using assms(1) by (auto simp: killed_context_def mk_risk_context_def bind_identity_def res_simps split: if_splits)
  then show ?thesis using assms(2) by simp
next
  case False
  then show ?thesis using assms by (auto simp: killed_context_def)
qed

lemma built_intent:
  assumes "build_execution_intent h m d r c p = Inr (Some i)"
  obtains e where "ro_result r = RR_PASS" "ro_eligible r" "list_all fst (upstream_links m d r c)"
    "list_all fst (approval_rules m d r c)" "mk_execution_intent h (intent_of r c p e) = Inr i"
  using assms by (auto simp: build_execution_intent_def res_simps split: if_splits)

lemma built_fields:
  assumes "mk_execution_intent h j = Inr i"
  shows "i\<lparr>xi_id := []\<rparr> = j\<lparr>xi_id := []\<rparr>"
  using assms by (auto simp: mk_execution_intent_def res_simps execution_intent_identity.bind_ok_iff)

lemma risk_pass_clear:
  assumes "evaluate_risk h log10 m d c p = Inr r" "ro_eligible r"
  shows "do_result d = DR_PASS \<and> \<not> emergency c p"
proof -
  obtain w where w: "risk_verdict_of log10 m d c p = Inr w" "risk_outcome_of h m d c p w = Inr r"
    using evaluate_risk_cases[OF assms(1)] .
  have "rv_result w = RR_PASS" using assms(2) outcome_of_fields(4)[OF w(2)] by simp
  then show ?thesis
    using w(1) by (auto simp: risk_verdict_of_def refusal_def emergency_iff split: if_splits)
qed

lemma entry_decision_approved:
  assumes "entry_decision P oc m x = Inr (d, r, Some i)"
  shows "mp_actionable m \<and> do_result d = DR_PASS \<and> do_eligible_for_risk d \<and> ro_result r = RR_PASS \<and>
    \<not> oc_kill oc \<and> \<not> emergency (en_risk x) (dp_risk P) \<and>
    evaluate_risk (dd_risk (dp_digests P)) (dd_log10 (dp_digests P)) m d (en_risk x) (dp_risk P) = Inr r \<and>
    xi_direction i = mp_decision m \<and> Some (xi_volume i) = ro_volume r \<and>
    Some (xi_entry_price i) = rx_entry_price (en_risk x) \<and>
    Some (xi_stop_price i) = rx_stop_loss_price (en_risk x) \<and> xi_symbol i = rx_symbol (en_risk x) \<and>
    xi_master_proposal_id i = mp_id m \<and> xi_discipline_outcome_id i = do_id d \<and>
    xi_risk_outcome_id i = ro_id r \<and> xi_mode i = ep_mode (dp_execution P)"
proof -
  let ?D = "dp_digests P"
  obtain c where d: "evaluate_discipline (dd_discipline ?D) m (en_context x) (en_state x) (dp_discipline P) = Inr d"
    and c: "killed_context ?D oc (en_risk x) = Inr c"
    and r: "evaluate_risk (dd_risk ?D) (dd_log10 ?D) m d c (dp_risk P) = Inr r"
    and i: "build_execution_intent (dd_intent ?D) m d r c (dp_execution P) = Inr (Some i)"
    using assms by (auto simp: entry_decision_def Let_def res_simps)
  obtain e where b: "ro_result r = RR_PASS" "ro_eligible r" "list_all fst (upstream_links m d r c)"
    "list_all fst (approval_rules m d r c)" "mk_execution_intent (dd_intent ?D) (intent_of r c (dp_execution P) e) = Inr i"
    using built_intent[OF i] .
  have safe: "do_result d = DR_PASS" "\<not> emergency c (dp_risk P)"
    using risk_pass_clear[OF r b(2)] by simp_all
  then have "\<not> rx_kill_switch c" by (simp add: emergency_def)
  then have cx: "c = en_risk x" "\<not> oc_kill oc" using killed_context_passed[OF c] by simp_all
  obtain k where k: "i = (intent_of r c (dp_execution P) e)\<lparr>xi_id := k\<rparr>"
    using built_fields[OF b(5)] by (cases i) (auto simp: intent_of_def)
  show ?thesis
    using safe b(1-4) cx r by (auto simp: k intent_of_def upstream_links_def approval_rules_def)
qed

lemma then_Inr_iff: "eff_bind m k w = (Inr y, w') \<longleftrightarrow> (\<exists>x v. m w = (Inr x, v) \<and> k x v = (Inr y, w'))"
  by (auto simp: eff_bind_def split: prod.splits sum.splits)

subsection \<open>Properties\<close>

text \<open>C9. Safety of a decision cycle: when the processor plans an entry, the Master proposal fused from the
  evidence of this very step is actionable, Discipline and Risk passed it, neither the operator's kill
  switch nor an emergency of the account was in force, and the intent carries the proposal's direction,
  the volume Risk approved, the prices of the risk context and the identities of the three decisions.\<close>

theorem planned_entry_approved:
  assumes "evaluate_decision P e s t rd oc w = (Inr pl, w')" "pl_intent pl = Some i"
  shows "\<exists>m d r x w1. fuse_evidence (dd_master (dp_digests P)) (ss_bundle t) (dp_fusion P) = Inr m \<and>
    dp_entry_context P e s t w = (Inr x, w1) \<and>
    pl_master pl = Some m \<and> pl_discipline pl = Some d \<and> pl_risk pl = Some r \<and>
    mp_actionable m \<and> do_result d = DR_PASS \<and> do_eligible_for_risk d \<and> ro_result r = RR_PASS \<and>
    \<not> oc_kill oc \<and> \<not> emergency (en_risk x) (dp_risk P) \<and>
    evaluate_risk (dd_risk (dp_digests P)) (dd_log10 (dp_digests P)) m d (en_risk x) (dp_risk P) = Inr r \<and>
    xi_direction i = mp_decision m \<and> Some (xi_volume i) = ro_volume r \<and>
    Some (xi_entry_price i) = rx_entry_price (en_risk x) \<and>
    Some (xi_stop_price i) = rx_stop_loss_price (en_risk x) \<and> xi_symbol i = rx_symbol (en_risk x) \<and>
    xi_master_proposal_id i = mp_id m \<and> xi_discipline_outcome_id i = do_id d \<and>
    xi_risk_outcome_id i = ro_id r \<and> xi_mode i = ep_mode (dp_execution P)"
proof -
  obtain m x w1 d r where "fuse_evidence (dd_master (dp_digests P)) (ss_bundle t) (dp_fusion P) = Inr m"
    "dp_entry_context P e s t w = (Inr x, w1)" "entry_decision P oc m x = Inr (d, r, Some i)"
    "pl_master pl = Some m" "pl_discipline pl = Some d" "pl_risk pl = Some r"
    using assms by (auto simp: evaluate_decision_def Let_def then_Inr_iff eff_of_def eff_return_def)
  then show ?thesis using entry_decision_approved by blast
qed

text \<open>A buy at 11 with the stop at 10, passed by every stage: the demo proposal of the fusion, a session
  without trades, and the demo account of the risk boundary ten microseconds later.\<close>

definition demo_inputs :: entry_inputs where
  "demo_inputs = \<lparr>en_context = demo_context 10,
     en_state = demo_dstate\<lparr>ds_last_entry_at := None, ds_last_stop_loss_at := None\<rparr>,
     en_risk = (demo_risk_context False)\<lparr>rx_as_of := 10\<rparr>\<rparr>"

definition demo_digests :: decision_digests where
  "demo_digests = \<lparr>dd_master = zero_hash, dd_discipline = zero_hash, dd_context = zero_hash, dd_risk = zero_hash,
     dd_intent = zero_hash, dd_management = zero_hash, dd_safety = zero_hash, dd_action = zero_hash,
     dd_log10 = \<lambda>_. Fin 0\<rparr>"

definition demo_processor :: "unit processor" where
  "demo_processor = \<lparr>dp_digests = demo_digests, dp_fusion = demo_policy (Fin (1 / 2)),
     dp_discipline = demo_dpolicy, dp_risk = demo_risk_policy,
     dp_execution = default_execution_policy\<lparr>ep_id := ''ep-1''\<rparr>,
     dp_management = default_demo_management_policy, dp_action = default_action_policy,
     dp_entry_context = \<lambda>_ _ _. eff_return demo_inputs, dp_positions = \<lambda>_ _ _. eff_return [],
     dp_action_context = \<lambda>_ _ _. eff_of (Inl AssertionError)\<rparr>"

lemma demo_master_10: "demo_proposal = demo_master 10"
  by (simp add: demo_master_def demo_proposal_def proposal_of_def Fusion.demo_bundle_def)


text \<open>The three stages of the demo decision.\<close>

definition demo_passed :: verdict where
  "demo_passed = verdict_of DR_PASS PASSED ''The proposal passed all configured behavioral discipline rules.''"

lemma demo_entry_discipline:
  obtains d where "evaluate_discipline zero_hash (demo_master 10) (en_context demo_inputs) (en_state demo_inputs)
      demo_dpolicy = Inr d" "discipline_outcome_of zero_hash (demo_master 10) (en_context demo_inputs)
      (en_state demo_inputs) demo_dpolicy demo_passed = Inr d"
proof -
  let ?s = "en_state demo_inputs" and ?c = "en_context demo_inputs"
  have ok: "discipline_inputs_ok (demo_master 10) ?c ?s demo_dpolicy"
    by (simp add: discipline_inputs_ok_def discipline_state_rules_def discipline_policy_rules_def demo_inputs_def
        demo_context_def demo_dstate_def demo_dpolicy_def default_demo_discipline_policy_def)
  have g: "list_all fst (input_guards (demo_master 10) ?c ?s demo_dpolicy)"
    by (simp add: input_guards_def demo_inputs_def demo_context_def demo_dstate_def demo_dpolicy_def
        default_demo_discipline_policy_def)
  have v: "first_verdict (discipline_stages (demo_master 10) ?c ?s demo_dpolicy) = Inr demo_passed"
    by (simp add: discipline_stages_def hold_stage_def scope_stage_def pause_stage_def loss_streak_stage_def
        identity_stage_def proposal_stage_def setup_stage_def thesis_stage_def position_stage_def cap_stage_def
        cooldown_stage_def cooldown_end_def demo_inputs_def demo_context_def
        demo_dstate_def demo_dpolicy_def default_demo_discipline_policy_def demo_passed_def)
  obtain d where d: "discipline_outcome_of zero_hash (demo_master 10) ?c ?s demo_dpolicy demo_passed = Inr d"
    using outcome_total[OF ok g, of demo_passed zero_hash] by (auto simp: is_ok_iff demo_passed_def verdict_of_def)
  show thesis
    using that[OF _ d] d by (simp add: evaluate_discipline_def validate_ok[OF g] v)
qed

lemma demo_entry_risk:
  assumes "do_master_proposal_id d = mp_id (demo_master 10)" "do_evidence_bundle_id d = mp_bundle_id (demo_master 10)"
    "do_as_of d = 10" "do_master_decision d = SIG_BUY" "do_result d = DR_PASS" "do_available_at d \<le> 10" "do_id d \<noteq> []"
  obtains r where "evaluate_risk zero_hash (\<lambda>_. Fin 0) (demo_master 10) d (en_risk demo_inputs) demo_risk_policy = Inr r"
    "risk_outcome_of zero_hash (demo_master 10) d (en_risk demo_inputs) demo_risk_policy demo_pass = Inr r"
proof -
  have t: "fle (rnd (1 / 100000)) (Fin 60)" by (rule rnd_le) (simp_all add: is_f64_eval)
  have a: "availability_reasons (demo_master 10) (en_risk demo_inputs) demo_risk_policy = []"
      "emergency_reasons (en_risk demo_inputs) demo_risk_policy = []"
    using t by (simp_all add: availability_reasons_def emergency_reasons_def context_states_def is_fresh_def
        total_seconds_def account_required_def broker_required_def demo_inputs_def demo_risk_defs)
  have k: "assert_known (en_risk demo_inputs) = Inr demo_values"
    using demo_known by (simp add: assert_known_def account_required_def broker_required_def demo_inputs_def)
  have z: "sized_verdict (\<lambda>_. Fin 0) (demo_master 10) demo_values demo_risk_policy (Fin 1) = Inr demo_pass"
    using demo_limits(4) by (simp add: sized_verdict_def demo_volume Let_def demo_pass_def feq_def)
      (simp add: demo_values_def demo_risk_policy_def rnd_eval fsub_def)
  have l: "cap_reasons (en_risk demo_inputs) demo_values demo_risk_policy = []"
      "stop_reasons (demo_master 10) demo_values demo_risk_policy (Fin 1) = []"
    using demo_limits(2,3) by (simp_all add: cap_reasons_def stop_reasons_def stop_valid_def demo_inputs_def)
  have v: "risk_verdict_of (\<lambda>_. Fin 0) (demo_master 10) d (en_risk demo_inputs) demo_risk_policy = Inr demo_pass"
    using assms(5) by (simp add: risk_verdict_of_def a k limit_verdict_def demo_points demo_limits(1) l z)
      (simp add: demo_inputs_def demo_risk_context_def)
  have "is_ok (risk_outcome_of zero_hash (demo_master 10) d (en_risk demo_inputs) demo_risk_policy demo_pass)"
    using assms by (simp add: risk_outcome_of_def mk_risk_outcome_def is_ok_iff res_simps
        risk_outcome_identity.bind_ok_iff risk_outcome_rules_def sized_values_def demo_pass_def demo_inputs_def
        demo_risk_defs is_f64_eval)
  then obtain r where r: "risk_outcome_of zero_hash (demo_master 10) d (en_risk demo_inputs) demo_risk_policy demo_pass = Inr r"
    by (auto simp: is_ok_iff)
  have g: "list_all fst (risk_guards (demo_master 10) d (en_risk demo_inputs))"
    using assms by (simp add: risk_guards_def demo_inputs_def demo_risk_context_def)
  show thesis using that[OF _ r] r by (simp add: evaluate_risk_def validate_ok[OF g] v)
qed


lemma demo_actionable: "mp_actionable (demo_master 10)"
  by (simp add: demo_master_def demo_proposal_def proposal_of_def fusion_decision_def hold_reasons_def
      demo_metrics_def demo_policy_def)

theorem planned_entry_approved_witness:
  "\<exists>pl i. evaluate_decision demo_processor Replay.demo_first demo_state
       (Replay.demo_step\<lparr>ss_bundle := Fusion.demo_bundle AS_READY (Fin 1)\<rparr>) None no_controls () = (Inr pl, ()) \<and>
     pl_intent pl = Some i \<and> xi_direction i = SIG_BUY"
proof -
  let ?x = demo_inputs and ?m = "demo_master 10"
  obtain d where d: "evaluate_discipline zero_hash ?m (en_context ?x) (en_state ?x) demo_dpolicy = Inr d"
      "discipline_outcome_of zero_hash ?m (en_context ?x) (en_state ?x) demo_dpolicy demo_passed = Inr d"
    using demo_entry_discipline .
  have f: "do_master_proposal_id d = mp_id ?m" "do_evidence_bundle_id d = mp_bundle_id ?m" "do_as_of d = 10"
      "do_master_decision d = SIG_BUY" "do_result d = DR_PASS" "do_eligible_for_risk d" "do_available_at d \<le> 10"
      "do_id d \<noteq> []" "do_setup_id d = Some ''setup-1''" "do_thesis_id d = Some ''thesis-1''"
    using d(2) by (auto simp: discipline_outcome_of_def mk_discipline_outcome_def res_simps
        discipline_outcome_identity.bind_ok_iff demo_passed_def verdict_of_def demo_inputs_def demo_context_def demo_dstate_def content_id_def)
  obtain r where r: "evaluate_risk zero_hash (\<lambda>_. Fin 0) ?m d (en_risk ?x) demo_risk_policy = Inr r"
      "risk_outcome_of zero_hash ?m d (en_risk ?x) demo_risk_policy demo_pass = Inr r"
    using demo_entry_risk[OF f(1-5,7,8)] .
  have g: "do_scenario_id d = ro_scenario_id r" "ro_id r \<noteq> []" "ro_master_proposal_id r = mp_id ?m"
      "ro_evidence_bundle_id r = mp_bundle_id ?m" "ro_discipline_outcome_id r = do_id d" "ro_context_id r = ''rc-1''"
      "ro_master_decision r = SIG_BUY" "ro_symbol r = ''XAUUSD''" "ro_setup_id r = Some ''setup-1''"
      "ro_thesis_id r = Some ''thesis-1''" "ro_available_at r \<le> 10" "ro_as_of r = 10" "ro_result r = RR_PASS"
      "ro_eligible r" "ro_volume r = Some (Fin 1)" "0 \<le> ro_available_at r"
    using r(2) f by (auto simp: risk_outcome_of_def mk_risk_outcome_def res_simps risk_outcome_identity.bind_ok_iff
        demo_pass_def demo_inputs_def demo_risk_context_def content_id_def)
  let ?p = "default_execution_policy\<lparr>ep_id := ''ep-1''\<rparr>"
  have x: "en_risk ?x = (demo_risk_context False)\<lparr>rx_as_of := 10\<rparr>" by (simp add: demo_inputs_def)
  have u: "list_all fst (upstream_links ?m d r (en_risk ?x))" "list_all fst (approval_rules ?m d r (en_risk ?x))"
    using f g by (simp_all add: upstream_links_def approval_rules_def x demo_risk_defs demo_actionable)
  have e: "add_seconds (ro_available_at r) (ep_intent_ttl_seconds default_execution_policy) = Inr (ro_available_at r + 15000000)"
    using g by (simp add: add_seconds_def dt_min_def dt_max_def default_execution_policy_def)
  have "is_ok (mk_execution_intent zero_hash (intent_of r (en_risk ?x) ?p (ro_available_at r + 15000000)))"
    using f g by (simp add: mk_execution_intent_def is_ok_iff res_simps execution_intent_identity.bind_ok_iff
        execution_intent_rules_def intent_of_def intent_stop_valid_def x demo_risk_defs is_f64_eval default_execution_policy_def)
  then have "\<exists>i. build_execution_intent zero_hash ?m d r (en_risk ?x) ?p = Inr (Some i)"
    using g by (auto simp: build_execution_intent_def validate_ok u e is_ok_iff)
  then obtain i where i: "build_execution_intent zero_hash ?m d r (en_risk ?x)
      (default_execution_policy\<lparr>ep_id := ''ep-1''\<rparr>) = Inr (Some i)" ..
  let ?pl = "\<lparr>pl_master = Some ?m, pl_discipline = Some d, pl_risk = Some r, pl_intent = Some i, pl_management = [],
    pl_safety = [], pl_actions = []\<rparr>"
  have "entry_decision demo_processor no_controls ?m ?x = Inr (d, r, Some i)"
    using d(1) r(1) i by (simp add: entry_decision_def demo_processor_def demo_digests_def killed_context_def no_controls_def)
  then have e: "evaluate_decision demo_processor Replay.demo_first demo_state
       (Replay.demo_step\<lparr>ss_bundle := Fusion.demo_bundle AS_READY (Fin 1)\<rparr>) None no_controls () = (Inr ?pl, ())"
    using demo_fuse by (simp add: evaluate_decision_def Let_def demo_processor_def demo_digests_def eff_bind_def eff_of_def
        eff_return_def demo_master_10)
  show ?thesis using planned_entry_approved[OF e] e by auto
qed

end
