(* ===== verification/Orchestrator.thy ===== *)
theory Orchestrator
  imports Decision Readiness PositionTransport
begin

section \<open>The runtime service (\<open>orchestration/service.py\<close>)\<close>

text \<open>
  \<open>RuntimeOrchestrator\<close>: startup and recovery, the broker refresh with reconciliation and readiness, one
  event from intake to transport and feedback, the operator controls and shutdown. The runner and both
  durable ledgers are the modelled ones. The interfaces the class receives (processor, snapshot provider,
  gateway, clock, feature provider, backfill and the two transport adapters) are operations on an arbitrary
  world. The runner and the service write to one journal, as both places that build the service arrange.
  Flushing a store is I/O and has no effect here.
\<close>

subsection \<open>State\<close>

text \<open>
  What the service consulted when it called a transport adapter. The log of these calls is a ghost of the
  model: no operation reads it.
\<close>

datatype order_request = Entry execution_intent | Action action_intent

record submission_record =
  sb_request :: order_request
  sb_phase :: startup_phase
  sb_readiness :: "resume_readiness option"
  sb_controls :: operator_controls
  sb_plan :: decision_plan
  sb_actions :: action_db

record ('c, 'w) orchestrator =
  og_runner :: "'c runner"
  og_executions :: execution_db
  og_actions :: action_db
  og_world :: 'w
  og_continuity :: continuity_status
  og_controls :: operator_controls
  og_phase :: startup_phase
  og_readiness :: "resume_readiness option"
  og_reconciliation :: "reconciliation_report option"
  og_cycles :: "decision_cycle list"
  og_sequence :: int
  og_event_id :: "string option"
  og_error :: "string option"
  og_snapshot_at :: "dt option"
  og_plan :: decision_plan
  og_result_id :: "string option"
  og_log :: "submission_record list"

record service_digests =
  sd_event :: "runtime_event \<Rightarrow> string"
  sd_feedback :: "execution_feedback_state \<Rightarrow> string"
  sd_transition :: "execution_transition \<Rightarrow> string"
  sd_finding :: "reconciliation_finding \<Rightarrow> string"
  sd_report :: "reconciliation_report \<Rightarrow> string"
  sd_readiness :: "resume_readiness \<Rightarrow> string"
  sd_checkpoint :: "recovery_checkpoint \<Rightarrow> string"
  sd_cycle :: "decision_cycle \<Rightarrow> string"
  sd_status :: "runtime_status \<Rightarrow> string"
  sd_summary :: "run_summary \<Rightarrow> string"

text \<open>Configuration and collaborators; \<open>sv_text\<close> is \<open>str(error) or type(error).__name__\<close>.\<close>

record ('c, 'w) service =
  sv_mode :: runtime_mode
  sv_interval_ms :: int
  sv_runner :: "'c runner_setup"
  sv_digests :: service_digests
  sv_text :: "py_error \<Rightarrow> string"
  sv_clock :: "('w, dt) eff"
  sv_evaluate :: "runtime_event \<Rightarrow> shared_state \<Rightarrow> trace_step \<Rightarrow> resume_readiness option \<Rightarrow> operator_controls
    \<Rightarrow> ('w, decision_plan) eff"
  sv_gateway :: "(('w, unit) eff \<times> ('w, unit) eff) option"
  sv_capture :: "('w, broker_snapshot) eff option"
  sv_entry :: "(execution_intent \<Rightarrow> (execution_db \<times> 'w, execution_result) eff) option"
  sv_position :: "(action_intent \<Rightarrow> (action_db \<times> 'w, action_result) eff) option"
  sv_features :: "(runtime_event \<Rightarrow> shared_state \<Rightarrow> ('w, feature_snapshot option) eff) option"
  sv_backfill :: "('w, continuity_status) eff option"

definition fresh_orchestrator ::
  "'c runner \<Rightarrow> execution_db \<Rightarrow> action_db \<Rightarrow> 'w \<Rightarrow> continuity_status \<Rightarrow> ('c, 'w) orchestrator" where
  "fresh_orchestrator r d a w c =
     \<lparr>og_runner = r, og_executions = d, og_actions = a, og_world = w, og_continuity = c,
      og_controls = no_controls, og_phase = CREATED, og_readiness = None, og_reconciliation = None,
      og_cycles = [], og_sequence = 1000000, og_event_id = None, og_error = None, og_snapshot_at = None,
      og_plan = empty_plan, og_result_id = None, og_log = []\<rparr>"

subsection \<open>Calls into the parts of the state\<close>

definition eff_get :: "('s \<Rightarrow> 'a) \<Rightarrow> ('s, 'a) eff" where
  "eff_get f s = (Inr (f s), s)"

definition eff_put :: "('s \<Rightarrow> 's) \<Rightarrow> ('s, unit) eff" where
  "eff_put f s = (Inr (), f s)"

definition with_runner :: "('c runner, 'a) eff \<Rightarrow> (('c, 'w) orchestrator, 'a) eff" where
  "with_runner m s = (case m (og_runner s) of (x, r) \<Rightarrow> (x, s\<lparr>og_runner := r\<rparr>))"

definition with_world :: "('w, 'a) eff \<Rightarrow> (('c, 'w) orchestrator, 'a) eff" where
  "with_world m s = (case m (og_world s) of (x, w) \<Rightarrow> (x, s\<lparr>og_world := w\<rparr>))"

definition with_executions :: "(execution_db, 'a) eff \<Rightarrow> (('c, 'w) orchestrator, 'a) eff" where
  "with_executions m s = (case m (og_executions s) of (x, d) \<Rightarrow> (x, s\<lparr>og_executions := d\<rparr>))"

definition submission_of :: "('c, 'w) orchestrator \<Rightarrow> order_request \<Rightarrow> submission_record" where
  "submission_of s q = \<lparr>sb_request = q, sb_phase = og_phase s, sb_readiness = og_readiness s,
     sb_controls = og_controls s, sb_plan = og_plan s, sb_actions = og_actions s\<rparr>"

definition submit_entry ::
  "(execution_intent \<Rightarrow> (execution_db \<times> 'w, execution_result) eff) \<Rightarrow> execution_intent
     \<Rightarrow> (('c, 'w) orchestrator, execution_result) eff" where
  "submit_entry a i s = (case a i (og_executions s, og_world s) of (x, d, w) \<Rightarrow>
     (x, s\<lparr>og_executions := d, og_world := w, og_log := og_log s @ [submission_of s (Entry i)]\<rparr>))"

definition submit_action ::
  "(action_intent \<Rightarrow> (action_db \<times> 'w, action_result) eff) \<Rightarrow> action_intent
     \<Rightarrow> (('c, 'w) orchestrator, action_result) eff" where
  "submit_action a i s = (case a i (og_actions s, og_world s) of (x, d, w) \<Rightarrow>
     (x, s\<lparr>og_actions := d, og_world := w, og_log := og_log s @ [submission_of s (Action i)]\<rparr>))"

definition runtime_state :: "('c, 'w) orchestrator \<Rightarrow> shared_state" where
  "runtime_state s = kn_state (rr_kernel (og_runner s))"

definition block :: "string \<Rightarrow> (('c, 'w) orchestrator, unit) eff" where
  "block reason = eff_put (\<lambda>s. s\<lparr>og_error := Some reason, og_phase := BLOCKED\<rparr>)"

definition set_phase :: "startup_phase \<Rightarrow> (('c, 'w) orchestrator, unit) eff" where
  "set_phase p = eff_put (\<lambda>s. s\<lparr>og_phase := p\<rparr>)"

definition append_semantic ::
  "('c, 'w) service \<Rightarrow> semantic \<Rightarrow> string option \<Rightarrow> (('c, 'w) orchestrator, unit) eff" where
  "append_semantic D v eid =
     eff_bind (eff_of (from_semantic (rs_record (sv_runner D))
        \<lparr>lk_event = eid, lk_parent = None, lk_previous = None, lk_available_at = None\<rparr> v)) (\<lambda>row.
     eff_put (\<lambda>s. s\<lparr>og_runner := (og_runner s)\<lparr>rr_journal :=
        map_option (\<lambda>j. snd (journal_append row j)) (rr_journal (og_runner s))\<rparr>\<rparr>))"

subsection \<open>The broker refresh\<close>

definition position_action_anomaly :: "action_db \<Rightarrow> bool" where
  "position_action_anomaly d \<longleftrightarrow> list_ex (\<lambda>t. action_db_requires (ptt_intent_id t) d) d"

definition recoverable :: "resume_block_reason set" where
  "recoverable = {BLK_MARKET_NOT_FRESH, BLK_THESIS_EXPIRED}"

definition shadow_recovery_event_is_safe :: "('c, 'w) service \<Rightarrow> ('c, 'w) orchestrator \<Rightarrow> bool" where
  "shadow_recovery_event_is_safe D s = (case og_readiness s of None \<Rightarrow> False | Some r \<Rightarrow>
     (if sv_mode D \<noteq> RM_SHADOW then False
      else if rd_reasons r = [] \<or> \<not> set (rd_reasons r) \<subseteq> recoverable then False
      else if BLK_THESIS_EXPIRED \<notin> set (rd_reasons r) then True
      else let st = runtime_state s in
        opt_some (\<lambda>p. rp_status p = RESOLVED) (og_reconciliation s) \<and>
        pb_positions (st_positions st) = [] \<and> ob_orders (st_orders st) = [] \<and>
        opt_some (\<lambda>x. feq x (Fin 0)) (ex_gross_lots (st_exposure st)) \<and>
        opt_some (\<lambda>x. feq x (Fin 0)) (ex_net_lots (st_exposure st))))"

definition ready_safe :: "('c, 'w) orchestrator \<Rightarrow> bool" where
  "ready_safe s \<longleftrightarrow> opt_some (\<lambda>r. rd_status r = RSM_SAFE) (og_readiness s)"

fun install_events :: "('c, 'w) service \<Rightarrow> runtime_event list \<Rightarrow> (('c, 'w) orchestrator, unit) eff" where
  "install_events D [] = eff_return ()"
| "install_events D (e # es) =
     eff_bind (eff_put (\<lambda>s. s\<lparr>og_sequence := og_sequence s + 1\<rparr>)) (\<lambda>_.
     eff_bind (with_runner (runner_broker_refresh (sv_runner D) e)) (\<lambda>_.
     eff_bind (eff_put (\<lambda>s. s\<lparr>og_event_id := Some (ev_id e)\<rparr>)) (\<lambda>_. install_events D es)))"

definition capture_snapshot :: "('c, 'w) service \<Rightarrow> (('c, 'w) orchestrator, broker_snapshot) eff" where
  "capture_snapshot D = (case sv_capture D of
     None \<Rightarrow> eff_of (Inl (RuntimeError ''broker snapshot provider is unavailable''))
   | Some capture \<Rightarrow> with_world capture)"

definition reconcile_snapshot ::
  "('c, 'w) service \<Rightarrow> broker_snapshot \<Rightarrow> (('c, 'w) orchestrator, reconciliation_report) eff" where
  "reconcile_snapshot D snap = (let H = sv_digests D in
     eff_bind (eff_get (\<lambda>s. case og_reconciliation s of
        Some p \<Rightarrow> Some p | None \<Rightarrow> db_latest_reconciliation (og_executions s))) (\<lambda>prior.
     eff_bind (with_executions (reconcile_execution_state (sd_transition H) (sd_finding H) (sd_report H) snap
        (sn_available_at snap) prior)) (\<lambda>report.
     eff_bind (eff_put (\<lambda>s. s\<lparr>og_reconciliation := Some report\<rparr>)) (\<lambda>_.
     eff_bind (append_semantic D (J_Report report) None) (\<lambda>_. eff_return report)))))"

definition recovery_theses :: "('c, 'w) orchestrator \<Rightarrow> recovery_thesis list" where
  "recovery_theses s = (case rr_thesis (og_runner s) of None \<Rightarrow> []
     | Some t \<Rightarrow> [\<lparr>rt_continuity_status = th_continuity_status t, rt_expires_at = th_expires_at t\<rparr>])"

definition evaluate_readiness ::
  "('c, 'w) service \<Rightarrow> broker_snapshot \<Rightarrow> reconciliation_report \<Rightarrow> (('c, 'w) orchestrator, unit) eff" where
  "evaluate_readiness D snap report s =
     eff_bind (eff_of (evaluate_resume_readiness (sd_readiness (sv_digests D)) (runtime_state s) report
        (recovery_theses s) (sn_available_at snap) (og_continuity s))) (\<lambda>r.
     eff_bind (eff_put (\<lambda>s. s\<lparr>og_readiness := Some r\<rparr>)) (\<lambda>_. append_semantic D (J_Readiness r) None)) s"

definition validate_recovery :: "('c, 'w) service \<Rightarrow> (('c, 'w) orchestrator, unit) eff" where
  "validate_recovery D s =
     (if position_action_anomaly (og_actions s) \<or> (\<not> ready_safe s \<and> \<not> shadow_recovery_event_is_safe D s)
      then block ''startup recovery/readiness is unsafe'' s else (Inr (), s))"

definition refresh_broker :: "('c, 'w) service \<Rightarrow> (('c, 'w) orchestrator, unit) eff" where
  "refresh_broker D =
     eff_bind (capture_snapshot D) (\<lambda>snap.
     eff_bind (eff_put (\<lambda>s. s\<lparr>og_snapshot_at := Some (sn_available_at snap)\<rparr>)) (\<lambda>_.
     eff_bind (eff_get og_sequence) (\<lambda>start.
     eff_bind (eff_of (broker_snapshot_runtime_events (sd_event (sv_digests D)) snap start)) (\<lambda>events.
     eff_bind (install_events D events) (\<lambda>_.
     eff_bind (set_phase RECONCILING) (\<lambda>_.
     eff_bind (reconcile_snapshot D snap) (\<lambda>report.
     eff_bind (set_phase VALIDATING) (\<lambda>_.
     eff_bind (evaluate_readiness D snap report) (\<lambda>_.
     validate_recovery D)))))))))"

text \<open>\<open>except Exception as error: self._block(str(error) or type(error).__name__)\<close>.\<close>

definition or_block ::
  "('c, 'w) service \<Rightarrow> (('c, 'w) orchestrator, 'a) eff \<Rightarrow> 'a \<Rightarrow> (('c, 'w) orchestrator, 'a) eff" where
  "or_block D m failed = eff_catch m (\<lambda>e. Some (eff_bind (block (sv_text D e)) (\<lambda>_. eff_return failed)))"

definition lift_unless_blocked :: "(('c, 'w) orchestrator, unit) eff" where
  "lift_unless_blocked s = (Inr (), if og_phase s \<noteq> BLOCKED then s\<lparr>og_phase := PH_SAFE\<rparr> else s)"

definition revalidate_before_mutation :: "('c, 'w) service \<Rightarrow> (('c, 'w) orchestrator, bool) eff" where
  "revalidate_before_mutation D =
     eff_bind (or_block D (eff_bind (refresh_broker D) (\<lambda>_. eff_return True)) False) (\<lambda>refreshed.
     if \<not> refreshed then eff_return False else
     eff_bind (eff_get og_phase) (\<lambda>p.
     if p = BLOCKED then eff_return False else
     eff_bind (set_phase PH_SAFE) (\<lambda>_. eff_get ready_safe)))"

definition refresh_after_transport :: "('c, 'w) service \<Rightarrow> (('c, 'w) orchestrator, unit) eff" where
  "refresh_after_transport D = (if sv_capture D = None then eff_return () else
     eff_bind (or_block D (eff_bind (refresh_broker D) (\<lambda>_. eff_return True)) False) (\<lambda>refreshed.
     if refreshed then lift_unless_blocked else eff_return ()))"

definition refresh_snapshot_if_due :: "('c, 'w) service \<Rightarrow> (('c, 'w) orchestrator, bool) eff" where
  "refresh_snapshot_if_due D = (if sv_mode D \<notin> {RM_SHADOW, RM_DEMO} then eff_return False else
     eff_bind (with_world (sv_clock D)) (\<lambda>now.
     eff_bind (eff_get og_snapshot_at) (\<lambda>last_at.
     if opt_some (\<lambda>t. flt (fmul (total_seconds (now - t)) (Fin 1000)) (Fin (of_int (sv_interval_ms D)))) last_at
     then eff_return False else
     eff_bind (or_block D (eff_bind (refresh_broker D) (\<lambda>_. eff_return True)) False) (\<lambda>refreshed.
     if \<not> refreshed then eff_return False else
     eff_bind lift_unless_blocked (\<lambda>_. eff_return True)))))"

subsection \<open>Operator controls\<close>

definition set_operator_controls :: "operator_controls \<Rightarrow> (('c, 'w) orchestrator, unit) eff" where
  "set_operator_controls c s =
     (if oc_kill (og_controls s) \<and> \<not> oc_kill c
      then (Inl (ValueError ''kill switch cannot be cleared by replacing controls''), s)
      else (Inr (), s\<lparr>og_controls := c\<rparr>))"

definition resume_new_entries :: "(('c, 'w) orchestrator, unit) eff" where
  "resume_new_entries s =
     (if og_phase s \<noteq> PH_SAFE \<or> \<not> ready_safe s \<or> oc_disabled (og_controls s) \<or> oc_kill (og_controls s)
      then (Inl (RuntimeError ''entries cannot resume while runtime safety is unresolved''), s)
      else (Inr (), s\<lparr>og_controls := (og_controls s)\<lparr>oc_pause := False\<rparr>\<rparr>))"

definition mutation_blocked :: "operator_controls \<Rightarrow> bool" where
  "mutation_blocked c \<longleftrightarrow> oc_disabled c \<or> oc_kill c \<or> oc_shutdown c"

definition can_mutate_entry :: "('c, 'w) service \<Rightarrow> ('c, 'w) orchestrator \<Rightarrow> bool" where
  "can_mutate_entry D s \<longleftrightarrow>
     sv_mode D = RM_DEMO \<and> \<not> oc_pause (og_controls s) \<and> \<not> mutation_blocked (og_controls s)"

definition can_mutate_position :: "('c, 'w) service \<Rightarrow> ('c, 'w) orchestrator \<Rightarrow> bool" where
  "can_mutate_position D s \<longleftrightarrow> sv_mode D = RM_DEMO \<and> \<not> mutation_blocked (og_controls s)"

subsection \<open>Status\<close>

definition status_record :: "('c, 'w) service \<Rightarrow> ('c, 'w) orchestrator \<Rightarrow> runtime_status" where
  "status_record D s = (let st = runtime_state s; th = rr_thesis (og_runner s); pl = og_plan s in
     \<lparr>rts_id = [], rts_mode = sv_mode D, rts_phase = og_phase s, rts_as_of = st_as_of st,
      rts_accepting = (og_phase s = PH_SAFE),
      rts_safe = (og_phase s = PH_SAFE \<and> sv_mode D = RM_DEMO \<and> ready_safe s \<and> \<not> oc_pause (og_controls s)
        \<and> \<not> mutation_blocked (og_controls s)),
      rts_resume = map_option rd_status (og_readiness s), rts_event_id = og_event_id s,
      rts_thesis_id = map_option th_state_id th,
      rts_scenario_ids = (case th of None \<Rightarrow> [] | Some t \<Rightarrow> map scn_state_id (th_scenarios t)),
      rts_master_id = map_option mp_id (pl_master pl), rts_discipline_id = map_option do_id (pl_discipline pl),
      rts_risk_id = map_option ro_id (pl_risk pl), rts_result_id = og_result_id s,
      rts_open_positions = int (length (pb_positions (st_positions st))),
      rts_freshness = sort_key cf_component (st_component_freshness st), rts_error = og_error s\<rparr>)"

definition status_of :: "('c, 'w) service \<Rightarrow> (('c, 'w) orchestrator, runtime_status) eff" where
  "status_of D s = (mk_runtime_status (sd_status (sv_digests D)) (status_record D s), s)"

subsection \<open>Startup and recovery\<close>

text \<open>The last thesis, the last state and the last memory of every specialist among the journal's rows.\<close>

record recovered =
  rc_thesis :: "thesis_state option"
  rc_state :: "shared_state option"
  rc_memories :: "(string \<times> agent_memory) list"

fun recover_row :: "journal_record \<Rightarrow> recovered \<Rightarrow> recovered" where
  "recover_row r x = (case jr_payload r of
     J_Thesis t \<Rightarrow> x\<lparr>rc_thesis := Some t\<rparr>
   | J_State st \<Rightarrow> x\<lparr>rc_state := Some st\<rparr>
   | J_Memory m \<Rightarrow> x\<lparr>rc_memories := AList.update (am_agent_name m) m (rc_memories x)\<rparr>
   | _ \<Rightarrow> x)"

definition recovered_from :: "(nat \<times> journal_record) list \<Rightarrow> recovered" where
  "recovered_from rows = fold (recover_row \<circ> snd) rows
     \<lparr>rc_thesis = None, rc_state = None, rc_memories = []\<rparr>"

definition next_sequence :: "shared_state \<Rightarrow> int \<Rightarrow> int" where
  "next_sequence st n = (if st_source_cursors st = [] then n
     else Max (cur_source_sequence ` set (st_source_cursors st)) + 1)"

definition restore_runner_state :: "recovered \<Rightarrow> (('c, 'w) orchestrator, unit) eff" where
  "restore_runner_state x = (case rc_state x of None \<Rightarrow> eff_return () | Some st \<Rightarrow>
     eff_bind (with_runner (restore_runtime st (sorted_values (rc_memories x)))) (\<lambda>_.
     eff_put (\<lambda>s. s\<lparr>og_sequence := next_sequence st (og_sequence s)\<rparr>)))"

definition restore_from_journal :: "(('c, 'w) orchestrator, unit) eff" where
  "restore_from_journal =
     eff_bind (eff_get (\<lambda>s. case rr_journal (og_runner s) of None \<Rightarrow> [] | Some j \<Rightarrow> j)) (\<lambda>j.
     eff_bind (eff_of (query_records [THESIS_STATE, RUNTIME_STATE, AGENT_MEMORY] None False None j)) (\<lambda>rows.
     let x = recovered_from rows in
     eff_bind (restore_runner_state x) (\<lambda>_.
     case rc_thesis x of None \<Rightarrow> eff_return () | Some t \<Rightarrow> with_runner (restore_thesis t))))"

definition run_backfill :: "('c, 'w) service \<Rightarrow> (('c, 'w) orchestrator, unit) eff" where
  "run_backfill D = (case sv_backfill D of None \<Rightarrow> eff_return () | Some backfill \<Rightarrow>
     eff_bind (with_world backfill) (\<lambda>c. eff_put (\<lambda>s. s\<lparr>og_continuity := c\<rparr>)))"

definition connect_and_refresh :: "('c, 'w) service \<Rightarrow> (('c, 'w) orchestrator, unit) eff" where
  "connect_and_refresh D = (case (sv_gateway D, sv_capture D) of
     (Some (connect, _), Some _) \<Rightarrow>
       eff_bind (set_phase CONNECTING) (\<lambda>_.
       eff_bind (with_world connect) (\<lambda>_.
       eff_bind (set_phase SNAPSHOTTING) (\<lambda>_.
       eff_bind (refresh_broker D) (\<lambda>_. lift_unless_blocked))))
   | _ \<Rightarrow> eff_of (Inl (RuntimeError ''broker gateway and snapshot provider are required'')))"

definition recover :: "('c, 'w) service \<Rightarrow> (('c, 'w) orchestrator, runtime_status option) eff" where
  "recover D =
     eff_bind (set_phase RESTORING) (\<lambda>_.
     eff_bind restore_from_journal (\<lambda>_.
     eff_bind (run_backfill D) (\<lambda>_.
     if sv_mode D \<in> {RM_DISABLED, RM_REPLAY}
     then eff_bind (set_phase PH_SAFE) (\<lambda>_. eff_bind (status_of D) (\<lambda>r. eff_return (Some r)))
     else eff_bind (connect_and_refresh D) (\<lambda>_. eff_return None))))"

definition startup :: "('c, 'w) service \<Rightarrow> (('c, 'w) orchestrator, runtime_status) eff" where
  "startup D s =
     (if og_phase s \<noteq> CREATED then status_of D s else
      eff_bind (set_phase OPENING_STORES) (\<lambda>_.
      eff_bind (or_block D (recover D) None) (\<lambda>v. case v of
        Some r \<Rightarrow> eff_return r
      | None \<Rightarrow> status_of D)) s)"

subsection \<open>One event\<close>

fun append_plan :: "('c, 'w) service \<Rightarrow> string \<Rightarrow> semantic list \<Rightarrow> (('c, 'w) orchestrator, unit) eff" where
  "append_plan D i [] = eff_return ()"
| "append_plan D i (v # vs) = eff_bind (append_semantic D v (Some i)) (\<lambda>_. append_plan D i vs)"

definition optional_row :: "('a \<Rightarrow> semantic) \<Rightarrow> 'a option \<Rightarrow> semantic list" where
  "optional_row f v = (case v of None \<Rightarrow> [] | Some x \<Rightarrow> [f x])"

definition plan_values :: "decision_plan \<Rightarrow> semantic list" where
  "plan_values pl = optional_row J_Master (pl_master pl) @ optional_row J_Discipline (pl_discipline pl)
     @ optional_row J_Risk (pl_risk pl) @ optional_row J_Intent (pl_intent pl)
     @ map J_Management (pl_management pl) @ map J_Safety (pl_safety pl) @ map J_Action (pl_actions pl)"

definition feature_for ::
  "('c, 'w) service \<Rightarrow> runtime_event \<Rightarrow> feature_snapshot option \<Rightarrow> (('c, 'w) orchestrator, feature_snapshot option) eff" where
  "feature_for D e f s = (case (f, sv_features D) of
     (None, Some provide) \<Rightarrow> with_world (provide e (runtime_state s)) s
   | _ \<Rightarrow> (Inr f, s))"

definition plan_for :: "('c, 'w) service \<Rightarrow> runtime_event \<Rightarrow> trace_step \<Rightarrow> (('c, 'w) orchestrator, decision_plan) eff" where
  "plan_for D e t s =
     eff_catch (with_world (sv_evaluate D e (runtime_state s) t (og_readiness s) (og_controls s)))
       (\<lambda>err. Some (eff_bind (eff_put (\<lambda>s. s\<lparr>og_error := Some (sv_text D err)\<rparr>)) (\<lambda>_. eff_return empty_plan))) s"

definition apply_feedback ::
  "('c, 'w) service \<Rightarrow> (int \<Rightarrow> runtime_event option res) \<Rightarrow> (('c, 'w) orchestrator, unit) eff" where
  "apply_feedback D to_event =
     eff_bind (eff_get og_sequence) (\<lambda>n.
     eff_bind (eff_of (to_event n)) (\<lambda>v.
     eff_bind (eff_put (\<lambda>s. s\<lparr>og_sequence := og_sequence s + 1\<rparr>)) (\<lambda>_. case v of
       None \<Rightarrow> eff_return ()
     | Some e \<Rightarrow> eff_bind (with_runner (runner_process (sv_runner D) e None)) (\<lambda>_.
         eff_put (\<lambda>s. s\<lparr>og_event_id := Some (ev_id e)\<rparr>)))))"

definition execution_feedback :: "('c, 'w) service \<Rightarrow> execution_result \<Rightarrow> (('c, 'w) orchestrator, unit) eff" where
  "execution_feedback D r = apply_feedback D (execution_result_to_runtime_event (sd_feedback (sv_digests D))
     (sd_event (sv_digests D)) r ''execution-transport'' ''1.0'')"

definition position_feedback :: "('c, 'w) service \<Rightarrow> action_result \<Rightarrow> (('c, 'w) orchestrator, unit) eff" where
  "position_feedback D r = apply_feedback D (position_action_result_to_runtime_event (sd_feedback (sv_digests D))
     (sd_event (sv_digests D)) r ''position-action-transport'' ''1.0'')"

text \<open>\<open>try: x = m except Exception: self._block(...)\<close>, with no value on failure.\<close>

definition attempt :: "('c, 'w) service \<Rightarrow> (('c, 'w) orchestrator, 'a) eff \<Rightarrow> (('c, 'w) orchestrator, 'a option) eff" where
  "attempt D m = or_block D (eff_bind m (\<lambda>x. eff_return (Some x))) None"

definition entry_step ::
  "('c, 'w) service \<Rightarrow> runtime_event \<Rightarrow> execution_intent option \<Rightarrow> (('c, 'w) orchestrator, string list) eff" where
  "entry_step D e v s = (case v of None \<Rightarrow> (Inr [], s) | Some i \<Rightarrow>
     if \<not> can_mutate_entry D s then (Inr [], s)
     else case sv_entry D of
       None \<Rightarrow> eff_bind (block ''entry adapter is unavailable'') (\<lambda>_. eff_return []) s
     | Some adapter \<Rightarrow>
         eff_bind (revalidate_before_mutation D) (\<lambda>ok.
         if \<not> ok then eff_return [] else
         eff_bind (attempt D (submit_entry adapter i)) (\<lambda>w. case w of None \<Rightarrow> eff_return [] | Some r \<Rightarrow>
         eff_bind (eff_put (\<lambda>s. s\<lparr>og_result_id := Some (xe_id r)\<rparr>)) (\<lambda>_.
         eff_bind (append_semantic D (J_Result r) (Some (ev_id e))) (\<lambda>_.
         eff_bind (execution_feedback D r) (\<lambda>_.
         eff_bind (refresh_after_transport D) (\<lambda>_. eff_return [xe_id r])))))) s)"

fun action_steps ::
  "('c, 'w) service \<Rightarrow> (action_intent \<Rightarrow> (action_db \<times> 'w, action_result) eff) \<Rightarrow> runtime_event
     \<Rightarrow> action_intent list \<Rightarrow> (('c, 'w) orchestrator, string list) eff" where
  "action_steps D adapter e [] = eff_return []"
| "action_steps D adapter e (i # is) =
     eff_bind (revalidate_before_mutation D) (\<lambda>ok.
     if \<not> ok then eff_return [] else
     eff_bind (attempt D (submit_action adapter i)) (\<lambda>w. case w of None \<Rightarrow> eff_return [] | Some r \<Rightarrow>
     eff_bind (append_semantic D (J_Action_Result r) (Some (ev_id e))) (\<lambda>_.
     eff_bind (position_feedback D r) (\<lambda>_.
     eff_bind (refresh_after_transport D) (\<lambda>_.
     eff_bind (action_steps D adapter e is) (\<lambda>ids. eff_return (par_id r # ids)))))))"

definition position_step ::
  "('c, 'w) service \<Rightarrow> runtime_event \<Rightarrow> action_intent list \<Rightarrow> (('c, 'w) orchestrator, string list) eff" where
  "position_step D e is s =
     (if is = [] \<or> \<not> can_mutate_position D s then (Inr [], s)
      else case sv_position D of
        None \<Rightarrow> eff_bind (block ''position-action adapter is unavailable'') (\<lambda>_. eff_return []) s
      | Some adapter \<Rightarrow> action_steps D adapter e is s)"

definition cycle_of :: "runtime_event \<Rightarrow> decision_plan \<Rightarrow> string list \<Rightarrow> string list \<Rightarrow> decision_cycle" where
  "cycle_of e pl results actions =
     \<lparr>cy_id = [], cy_event_id = ev_id e, cy_event_type = ev_type e, cy_available_at = ev_available_at e,
      cy_master = map_option (\<lambda>m. signal_text (mp_decision m)) (pl_master pl),
      cy_discipline = map_option (\<lambda>d. discipline_text (do_result d)) (pl_discipline pl),
      cy_risk = map_option (\<lambda>r. risk_text (ro_result r)) (pl_risk pl),
      cy_intent_ids = (case pl_intent pl of None \<Rightarrow> [] | Some i \<Rightarrow> [xi_id i]), cy_result_ids = results,
      cy_management = map (\<lambda>o1. management_text (pmo_result o1)) (pl_management pl),
      cy_action_ids = map pai_id (pl_actions pl), cy_action_result_ids = actions\<rparr>"

definition accept_event :: "runtime_event \<Rightarrow> (('c, 'w) orchestrator, unit) eff" where
  "accept_event e = eff_put (\<lambda>s. s\<lparr>og_sequence := max (og_sequence s) (ev_source_sequence e + 1),
     og_event_id := Some (ev_id e)\<rparr>)"

definition decide_event ::
  "('c, 'w) service \<Rightarrow> runtime_event \<Rightarrow> trace_step \<Rightarrow> (('c, 'w) orchestrator, decision_plan) eff" where
  "decide_event D e t =
     eff_bind (plan_for D e t) (\<lambda>pl.
     eff_bind (eff_put (\<lambda>s. s\<lparr>og_plan := pl\<rparr>)) (\<lambda>_.
     eff_bind (append_plan D (ev_id e) (plan_values pl)) (\<lambda>_. eff_return pl)))"

definition process_event ::
  "('c, 'w) service \<Rightarrow> runtime_event \<Rightarrow> feature_snapshot option \<Rightarrow> (('c, 'w) orchestrator, decision_cycle) eff" where
  "process_event D e f s =
     (if og_phase s \<noteq> PH_SAFE
      then (Inl (RuntimeError ''startup recovery must be SAFE before event decisions''), s) else
      eff_bind (feature_for D e f) (\<lambda>feature.
      eff_bind (with_runner (runner_process (sv_runner D) e feature)) (\<lambda>t.
      eff_bind (accept_event e) (\<lambda>_.
      eff_bind (decide_event D e t) (\<lambda>pl.
      eff_bind (entry_step D e (pl_intent pl)) (\<lambda>results.
      eff_bind (position_step D e (pl_actions pl)) (\<lambda>actions.
      eff_bind (eff_of (mk_decision_cycle (sd_cycle (sv_digests D)) (cycle_of e pl results actions))) (\<lambda>c.
      eff_bind (eff_put (\<lambda>s. s\<lparr>og_cycles := og_cycles s @ [c]\<rparr>)) (\<lambda>_. eff_return c)))))))) s)"

fun drive :: "('c, 'w) service \<Rightarrow> runtime_event list \<Rightarrow> (('c, 'w) orchestrator, unit) eff" where
  "drive D [] = eff_return ()"
| "drive D (e # es) = (\<lambda>s. if oc_shutdown (og_controls s) then (Inr (), s) else
     eff_bind (refresh_snapshot_if_due D) (\<lambda>_.
     eff_bind (process_event D e None) (\<lambda>_. drive D es)) s)"

definition run_source :: "('c, 'w) service \<Rightarrow> runtime_event list \<Rightarrow> (('c, 'w) orchestrator, run_summary) eff" where
  "run_source D es =
     eff_bind (drive D es) (\<lambda>_.
     eff_bind (eff_get og_cycles) (\<lambda>cs. eff_of (summary_of_cycles (sd_summary (sv_digests D)) cs)))"

subsection \<open>Shutdown\<close>

definition shutdown :: "('c, 'w) service \<Rightarrow> (('c, 'w) orchestrator, runtime_status) eff" where
  "shutdown D =
     eff_bind (set_phase STOPPING) (\<lambda>_.
     eff_bind (with_world (sv_clock D)) (\<lambda>now.
     eff_bind (eff_get (\<lambda>s. create_recovery_checkpoint (sd_checkpoint (sv_digests D)) (runtime_state s)
        (og_reconciliation s) (og_readiness s)
        (case rr_thesis (og_runner s) of None \<Rightarrow> [] | Some t \<Rightarrow> [th_state_id t]) now)) (\<lambda>made.
     eff_bind (eff_of made) (\<lambda>c.
     eff_bind (with_executions (db_append_checkpoint c)) (\<lambda>_.
     eff_bind (eff_get og_event_id) (\<lambda>i.
     eff_bind (append_semantic D (J_Checkpoint c) i) (\<lambda>_.
     eff_bind (case sv_gateway D of None \<Rightarrow> eff_return () | Some (_, close) \<Rightarrow> with_world close) (\<lambda>_.
     eff_bind (set_phase STOPPED) (\<lambda>_. status_of D)))))))))"

subsection \<open>What leaves the submissions alone\<close>

text \<open>Everything but a call of a transport adapter keeps the log, and below \<open>process_event\<close> also the controls and the plan.\<close>

definition steady :: "('c, 'w) orchestrator \<Rightarrow> ('c, 'w) orchestrator \<Rightarrow> bool" where
  "steady s t \<longleftrightarrow> og_log t = og_log s \<and> og_controls t = og_controls s \<and> og_plan t = og_plan s"

named_theorems steady_rules \<open>steps that keep the log, the controls and the plan\<close>

lemma steadyI [steady_rules]:
  "og_log t = og_log s \<Longrightarrow> og_controls t = og_controls s \<Longrightarrow> og_plan t = og_plan s \<Longrightarrow> steady s t"
  by (simp add: steady_def)

lemma steady_order: "reflp steady" "transp steady"
  by (auto simp: steady_def reflp_def transp_def)

lemma steady_pure [steady_rules]: "effect_of steady (eff_return x)" "effect_of steady (eff_of m)"
  by (simp_all add: effect_of_pure steady_order)

lemma steady_bind [steady_rules]:
  "effect_of steady m \<Longrightarrow> (\<And>x. effect_of steady (k x)) \<Longrightarrow> effect_of steady (eff_bind m k)"
  by (rule effect_of_bind) (simp_all add: steady_order)

lemma steady_get [steady_rules]: "effect_of steady (eff_get f)"
  by (simp add: effect_of_def eff_get_def steady_def)

lemma steady_put [steady_rules]: "(\<And>s. steady s (f s)) \<Longrightarrow> effect_of steady (eff_put f)"
  by (simp add: effect_of_def eff_put_def)

lemma steady_with [steady_rules]:
  "effect_of steady (with_runner m)" "effect_of steady (with_world n)" "effect_of steady (with_executions q)"
  by (auto simp: effect_of_def with_runner_def with_world_def with_executions_def steady_def split: prod.splits)

lemma steady_block [steady_rules]: "effect_of steady (block r)" "effect_of steady (set_phase p)"
  by (simp_all add: block_def set_phase_def effect_of_def eff_put_def steady_def)

lemma steady_append [steady_rules]: "effect_of steady (append_semantic D v i)"
  unfolding append_semantic_def by (auto intro!: steady_rules)

lemma steady_at:
  "effect_of steady m \<Longrightarrow> (\<And>x. effect_of steady (k x)) \<Longrightarrow> steady s (snd (eff_bind m k s))"
  using steady_bind[of m k] by (simp add: effect_of_def)

lemma steady_or_block [steady_rules]: "effect_of steady m \<Longrightarrow> effect_of steady (or_block D m x)"
  unfolding or_block_def by (rule effect_of_catch) (auto simp: steady_order intro!: steady_rules)

lemma steady_install [steady_rules]: "effect_of steady (install_events D es)"
  by (induction es) (auto intro!: steady_rules)

lemma steady_validate [steady_rules]: "effect_of steady (validate_recovery D)" "effect_of steady lift_unless_blocked"
  by (auto simp: effect_of_def validate_recovery_def block_def eff_put_def lift_unless_blocked_def steady_def)

lemma steady_readiness [steady_rules]: "effect_of steady (evaluate_readiness D snap p)"
  unfolding effect_of_def evaluate_readiness_def by (auto intro!: steady_at steady_rules)

lemma steady_refresh [steady_rules]: "effect_of steady (refresh_broker D)"
  unfolding refresh_broker_def capture_snapshot_def reconcile_snapshot_def Let_def
  by (auto split: option.splits intro!: steady_rules)

lemma steady_revalidate [steady_rules]:
  "effect_of steady (revalidate_before_mutation D)" "effect_of steady (refresh_after_transport D)"
  "effect_of steady (refresh_snapshot_if_due D)"
  unfolding revalidate_before_mutation_def refresh_after_transport_def refresh_snapshot_if_due_def
  by (auto intro!: steady_rules)

lemma steady_feedback [steady_rules]: "effect_of steady (execution_feedback D r)" "effect_of steady (position_feedback D q)"
  unfolding execution_feedback_def position_feedback_def apply_feedback_def
  by (auto split: option.splits intro!: steady_rules)

text \<open>What a successful revalidation establishes.\<close>

lemma revalidated:
  assumes "revalidate_before_mutation D s = (Inr True, t)"
  shows "og_phase t = PH_SAFE \<and> ready_safe t \<and> \<not> position_action_anomaly (og_actions t)"
proof -
  obtain u where u: "refresh_broker D s = (Inr (), u)" "og_phase u \<noteq> BLOCKED" "t = u\<lparr>og_phase := PH_SAFE\<rparr>" "ready_safe t"
    using assms by (auto simp: revalidate_before_mutation_def then_Inr_iff or_block_def eff_catch_def eff_return_def
        eff_bind_def block_def eff_put_def eff_get_def set_phase_def split: prod.splits sum.splits if_splits)
  obtain v where "validate_recovery D v = (Inr (), u)"
    using u(1) by (auto simp: refresh_broker_def then_Inr_iff)
  then have "\<not> position_action_anomaly (og_actions u)"
    using u(2) by (auto simp: validate_recovery_def block_def eff_put_def split: if_splits)
  then show ?thesis using u(3,4) by simp
qed

subsection \<open>Authorised submissions\<close>

text \<open>
  What must hold when a transport adapter is called: a demo runtime in phase SAFE, a readiness of SAFE, no
  position action awaiting reconciliation, controls that allow the mutation, and a request of the plan.
\<close>

fun planned :: "decision_plan \<Rightarrow> operator_controls \<Rightarrow> order_request \<Rightarrow> bool" where
  "planned pl c (Entry i) \<longleftrightarrow> pl_intent pl = Some i \<and> \<not> oc_pause c"
| "planned pl c (Action i) \<longleftrightarrow> i \<in> set (pl_actions pl)"

definition authorised :: "('c, 'w) service \<Rightarrow> submission_record \<Rightarrow> bool" where
  "authorised D b \<longleftrightarrow> sv_mode D = RM_DEMO \<and> sb_phase b = PH_SAFE \<and>
     opt_some (\<lambda>r. rd_status r = RSM_SAFE) (sb_readiness b) \<and> \<not> position_action_anomaly (sb_actions b) \<and>
     \<not> mutation_blocked (sb_controls b) \<and> planned (sb_plan b) (sb_controls b) (sb_request b)"

definition mutates :: "('c, 'w) service \<Rightarrow> ('c, 'w) orchestrator \<Rightarrow> ('c, 'w) orchestrator \<Rightarrow> bool" where
  "mutates D s t \<longleftrightarrow> og_controls t = og_controls s \<and> og_plan t = og_plan s \<and>
     (\<exists>bs. og_log t = og_log s @ bs \<and>
       list_all (\<lambda>b. authorised D b \<and> sb_plan b = og_plan s \<and> sb_controls b = og_controls s) bs)"

definition allowed ::
  "('c, 'w) service \<Rightarrow> decision_plan \<Rightarrow> operator_controls \<Rightarrow> (('c, 'w) orchestrator, 'a) eff \<Rightarrow> bool" where
  "allowed D pl c m \<longleftrightarrow> (\<forall>s. og_plan s = pl \<longrightarrow> og_controls s = c \<longrightarrow> mutates D s (snd (m s)))"

lemma mutates_steady: "steady s t \<Longrightarrow> mutates D s t"
  by (auto simp: mutates_def steady_def)

lemma mutates_trans:
  assumes "mutates D s t" "mutates D t u"
  shows "mutates D s u"
proof -
  obtain as bs where l: "og_log t = og_log s @ as" "og_log u = og_log t @ bs"
    "list_all (\<lambda>b. authorised D b \<and> sb_plan b = og_plan s \<and> sb_controls b = og_controls s) (as @ bs)"
    using assms unfolding mutates_def by fastforce
  have "og_controls u = og_controls s" "og_plan u = og_plan s" using assms by (simp_all add: mutates_def)
  then show ?thesis using l unfolding mutates_def by (intro conjI exI[of _ "as @ bs"]) simp_all
qed

lemma allowed_steady: "effect_of steady m \<Longrightarrow> allowed D pl c m"
  by (auto simp: allowed_def effect_of_def intro: mutates_steady)

lemma allowed_bind:
  fixes D :: "('c, 'w) service"
  assumes "allowed D pl c m" "\<And>x. allowed D pl c (k x)"
  shows "allowed D pl c (eff_bind m k)"
  unfolding allowed_def
proof (intro allI impI)
  fix s :: "('c, 'w) orchestrator" assume s: "og_plan s = pl" "og_controls s = c"
  obtain y t where m: "m s = (y, t)" by fastforce
  then have t: "mutates D s t" using assms(1) s by (metis allowed_def snd_conv)
  then have "og_plan t = pl" "og_controls t = c" using s by (simp_all add: mutates_def)
  then have "mutates D t (snd (k x t))" for x using assms(2) by (simp add: allowed_def)
  then show "mutates D s (snd (eff_bind m k s))"
    using m t by (auto simp: eff_bind_def split: sum.splits intro: mutates_trans)
qed

lemma allowed_submission:
  fixes D :: "('c, 'w) service"
  assumes "sv_mode D = RM_DEMO" "\<not> mutation_blocked c" "planned pl c q"
    and sub: "\<And>t. og_log (snd (m t)) = og_log t @ [submission_of t q] \<and> og_controls (snd (m t)) = og_controls t
      \<and> og_plan (snd (m t)) = og_plan t"
    and rest: "\<And>r. allowed D pl c (rest r)"
  shows "allowed D pl c (eff_bind (revalidate_before_mutation D) (\<lambda>ok.
    if \<not> ok then eff_return y else eff_bind (attempt D m) rest))"
  unfolding allowed_def
proof (intro allI impI)
  fix s :: "('c, 'w) orchestrator" assume s: "og_plan s = pl" "og_controls s = c"
  obtain x t where t: "revalidate_before_mutation D s = (x, t)" by fastforce
  then have st: "steady s t" using effect_ofD[OF steady_revalidate(1)] by blast
  show "mutates D s (snd (eff_bind (revalidate_before_mutation D) (\<lambda>ok.
    if \<not> ok then eff_return y else eff_bind (attempt D m) rest) s))"
  proof (cases "x = Inr True")
    case False
    then have "snd (eff_bind (revalidate_before_mutation D) (\<lambda>ok.
      if \<not> ok then eff_return y else eff_bind (attempt D m) rest) s) = t"
      using t by (auto simp: eff_bind_def eff_return_def split: sum.splits)
    then show ?thesis using st by (simp add: mutates_steady)
  next
    case True
    have r: "og_phase t = PH_SAFE" "ready_safe t" "\<not> position_action_anomaly (og_actions t)"
      "og_plan t = pl" "og_controls t = c"
      using revalidated[of D s t] t True st s by (auto simp: steady_def)
    have "mutates D t (snd (m t))"
      using sub[of t] r assms(1-3)
      by (auto simp: mutates_def authorised_def submission_of_def ready_safe_def)
    then have a: "mutates D t (snd (attempt D m t))"
      by (auto simp: attempt_def or_block_def eff_catch_def eff_bind_def eff_return_def block_def eff_put_def
          mutates_def split: prod.splits sum.splits)
    have "mutates D t (snd (eff_bind (attempt D m) rest t))"
    proof -
      obtain z u where u: "attempt D m t = (z, u)" by fastforce
      then have tu: "mutates D t u" using a by simp
      then have "mutates D u (snd (rest v u))" for v
        using rest[of v] r by (simp add: allowed_def mutates_def)
      then show ?thesis using u tu by (auto simp: eff_bind_def split: sum.splits intro: mutates_trans)
    qed
    then have "mutates D s (snd (eff_bind (attempt D m) rest t))"
      using mutates_steady[OF st] mutates_trans by blast
    then show ?thesis using t True by (simp add: eff_bind_def)
  qed
qed

lemma submits_once:
  "og_log (snd (submit_entry a i t)) = og_log t @ [submission_of t (Entry i)] \<and>
     og_controls (snd (submit_entry a i t)) = og_controls t \<and> og_plan (snd (submit_entry a i t)) = og_plan t"
  "og_log (snd (submit_action b j t)) = og_log t @ [submission_of t (Action j)] \<and>
     og_controls (snd (submit_action b j t)) = og_controls t \<and> og_plan (snd (submit_action b j t)) = og_plan t"
  by (simp_all add: submit_entry_def submit_action_def split: prod.splits)

lemma allowed_actions:
  assumes "sv_mode D = RM_DEMO" "\<not> mutation_blocked c" "set is \<subseteq> set (pl_actions pl)"
  shows "allowed D pl c (action_steps D a e is)"
  using assms(3)
proof (induction "is")
  case Nil
  then show ?case by (auto intro: allowed_steady steady_rules)
next
  case (Cons i "is")
  show ?case
    unfolding action_steps.simps
  proof (rule allowed_submission[OF assms(1,2) _ submits_once(2)])
    show "planned pl c (Action i)" using Cons.prems by simp
    show "allowed D pl c (case r of None \<Rightarrow> eff_return [] | Some r \<Rightarrow>
       eff_bind (append_semantic D (J_Action_Result r) (Some (ev_id e))) (\<lambda>_.
       eff_bind (position_feedback D r) (\<lambda>_.
       eff_bind (refresh_after_transport D) (\<lambda>_.
       eff_bind (action_steps D a e is) (\<lambda>ids. eff_return (par_id r # ids))))))" for r
      using Cons by (cases r) (auto intro!: allowed_bind intro: allowed_steady steady_rules)
  qed
qed

lemma entry_mutates: "mutates D s (snd (entry_step D e (pl_intent (og_plan s)) s))"
proof -
  have nop: "mutates D s s" by (simp add: mutates_def)
  consider i a where "pl_intent (og_plan s) = Some i" "can_mutate_entry D s" "sv_entry D = Some a"
    | "snd (entry_step D e (pl_intent (og_plan s)) s) = s"
    | "snd (entry_step D e (pl_intent (og_plan s)) s) = snd (eff_bind (block ''entry adapter is unavailable'')
        (\<lambda>_. eff_return ([] :: string list)) s)"
    by (cases "pl_intent (og_plan s)"; cases "can_mutate_entry D s"; cases "sv_entry D")
      (simp_all add: entry_step_def)
  then show ?thesis
  proof cases
    case 1
    let ?rest = "\<lambda>w. case w of None \<Rightarrow> eff_return [] | Some r \<Rightarrow>
         eff_bind (eff_put (\<lambda>s. s\<lparr>og_result_id := Some (xe_id r)\<rparr>)) (\<lambda>_.
         eff_bind (append_semantic D (J_Result r) (Some (ev_id e))) (\<lambda>_.
         eff_bind (execution_feedback D r) (\<lambda>_.
         eff_bind (refresh_after_transport D) (\<lambda>_. eff_return [xe_id r]))))"
    have "allowed D (og_plan s) (og_controls s) (eff_bind (revalidate_before_mutation D) (\<lambda>ok.
      if \<not> ok then eff_return [] else eff_bind (attempt D (submit_entry a i)) ?rest))"
    proof (rule allowed_submission[OF _ _ _ submits_once(1)])
      show "allowed D (og_plan s) (og_controls s) (?rest r)" for r
        by (cases r) (auto intro!: allowed_steady steady_rules)
    qed (use 1 in \<open>auto simp: can_mutate_entry_def\<close>)
    then show ?thesis using 1 by (simp add: allowed_def entry_step_def)
  qed (auto simp: nop eff_bind_def block_def eff_put_def eff_return_def mutates_def)
qed

lemma position_mutates: "mutates D s (snd (position_step D e (pl_actions (og_plan s)) s))"
proof -
  have "allowed D (og_plan s) (og_controls s) (action_steps D a e (pl_actions (og_plan s)))"
    if "can_mutate_position D s" for a
    using that by (intro allowed_actions) (auto simp: can_mutate_position_def)
  then show ?thesis
    by (auto simp: position_step_def allowed_def eff_bind_def block_def eff_put_def eff_return_def
        mutates_def split: option.splits)
qed

subsection \<open>Whole operations\<close>

text \<open>
  What an operation may do to the log, for a property \<open>Q\<close> of plans: the plan keeps \<open>Q\<close>, the controls stay,
  and every new submission is authorised under them and carries a plan with \<open>Q\<close>.
\<close>

definition conduct ::
  "('c, 'w) service \<Rightarrow> (decision_plan \<Rightarrow> bool) \<Rightarrow> ('c, 'w) orchestrator \<Rightarrow> ('c, 'w) orchestrator \<Rightarrow> bool" where
  "conduct D Q s t \<longleftrightarrow> (Q (og_plan s) \<longrightarrow> Q (og_plan t) \<and> og_controls t = og_controls s \<and>
     (\<exists>bs. og_log t = og_log s @ bs \<and>
       list_all (\<lambda>b. authorised D b \<and> Q (sb_plan b) \<and> sb_controls b = og_controls s) bs))"

text \<open>The plans of the processor and the plan that replaces a failed evaluation have \<open>Q\<close>.\<close>

definition plans_have :: "('c, 'w) service \<Rightarrow> (decision_plan \<Rightarrow> bool) \<Rightarrow> bool" where
  "plans_have D Q \<longleftrightarrow> Q empty_plan \<and>
     (\<forall>e st t rd oc w pl w'. sv_evaluate D e st t rd oc w = (Inr pl, w') \<longrightarrow> Q pl)"

lemma conduct_trans: "transp (conduct D Q)"
proof (rule transpI)
  fix s t u assume a: "conduct D Q s t" "conduct D Q t u"
  show "conduct D Q s u"
    unfolding conduct_def
  proof
    assume q: "Q (og_plan s)"
    have st: "Q (og_plan t)" "og_controls t = og_controls s" using a(1) q by (simp_all add: conduct_def)
    obtain as where as: "og_log t = og_log s @ as"
      "list_all (\<lambda>b. authorised D b \<and> Q (sb_plan b) \<and> sb_controls b = og_controls s) as"
      using a(1) q unfolding conduct_def by blast
    obtain bs where bs: "og_log u = og_log t @ bs"
      "list_all (\<lambda>b. authorised D b \<and> Q (sb_plan b) \<and> sb_controls b = og_controls s) bs"
      using a(2) st unfolding conduct_def by fastforce
    have "Q (og_plan u)" "og_controls u = og_controls s" using a(2) st by (simp_all add: conduct_def)
    then show "Q (og_plan u) \<and> og_controls u = og_controls s \<and> (\<exists>bs. og_log u = og_log s @ bs \<and>
        list_all (\<lambda>b. authorised D b \<and> Q (sb_plan b) \<and> sb_controls b = og_controls s) bs)"
      using as bs by (intro conjI exI[of _ "as @ bs"]) simp_all
  qed
qed

lemma conduct_refl: "reflp (conduct D Q)"
  by (auto simp: conduct_def reflp_def)

lemma steady_conduct: "steady s t \<Longrightarrow> conduct D Q s t"
  by (auto simp: conduct_def steady_def)

lemma conduct_steady: "effect_of steady m \<Longrightarrow> effect_of (conduct D Q) m"
  by (erule effect_of_mono) (rule steady_conduct)

lemma conduct_mutates: "mutates D s t \<Longrightarrow> conduct D Q s t"
  unfolding conduct_def mutates_def by (auto simp: list_all_iff)

lemma conduct_bind:
  "effect_of (conduct D Q) m \<Longrightarrow> (\<And>x. effect_of (conduct D Q) (k x)) \<Longrightarrow> effect_of (conduct D Q) (eff_bind m k)"
  by (rule effect_of_bind) (simp_all add: conduct_refl conduct_trans)

lemma planned_decision:
  assumes "plans_have D Q" "plan_for D e t s = (x, u)"
  shows "steady s u" "x = Inr pl \<Longrightarrow> Q pl"
proof -
  obtain y w where y: "sv_evaluate D e (runtime_state s) t (og_readiness s) (og_controls s) (og_world s) = (y, w)"
    by fastforce
  then have q: "Q empty_plan" "y = Inr pl \<Longrightarrow> Q pl" using assms(1) unfolding plans_have_def by blast+
  show "steady s u" "x = Inr pl \<Longrightarrow> Q pl"
    using assms(2) y q
    by (cases y; auto simp: plan_for_def eff_catch_def with_world_def eff_bind_def eff_put_def eff_return_def
        steady_def)+
qed

lemma steady_append_plan [steady_rules]: "effect_of steady (append_plan D i vs)"
  by (induction vs) (auto intro!: steady_rules)

lemma decided:
  assumes "plans_have D Q" "decide_event D e t s = (x, u)"
  shows "conduct D Q s u" "x = Inr pl \<Longrightarrow> og_plan u = pl"
proof -
  obtain y v where v: "plan_for D e t s = (y, v)" by fastforce
  note p = planned_decision[OF assms(1) v]
  have "conduct D Q s u \<and> (x = Inr pl \<longrightarrow> og_plan u = pl)"
  proof (cases y)
    case (Inl err)
    then show ?thesis
      using assms(2) v p(1) by (auto simp: decide_event_def eff_bind_def steady_def conduct_def)
  next
    case (Inr q)
    obtain z w where w: "append_plan D (ev_id e) (plan_values q) (v\<lparr>og_plan := q\<rparr>) = (z, w)" by fastforce
    then have "steady (v\<lparr>og_plan := q\<rparr>) w" using effect_ofD[OF steady_append_plan] by blast
    then have "og_log w = og_log s" "og_controls w = og_controls s" "og_plan w = q"
      using p(1) by (simp_all add: steady_def)
    moreover have "u = w \<and> (x = Inr pl \<longrightarrow> pl = q)"
      using assms(2) v Inr w
      by (auto simp: decide_event_def eff_bind_def eff_put_def eff_return_def split: sum.splits)
    ultimately show ?thesis using p(2) Inr by (auto simp: conduct_def)
  qed
  then show "conduct D Q s u" "x = Inr pl \<Longrightarrow> og_plan u = pl" by simp_all
qed

lemma conduct_tail:
  fixes D :: "('c, 'w) service"
  assumes "plans_have D Q" "\<And>xs ys pl. effect_of steady (k pl xs ys)"
  shows "effect_of (conduct D Q) (eff_bind (decide_event D e t) (\<lambda>pl.
    eff_bind (entry_step D e (pl_intent pl)) (\<lambda>xs.
    eff_bind (position_step D e (pl_actions pl)) (\<lambda>ys. k pl xs ys))))"
  unfolding effect_of_def
proof
  fix s :: "('c, 'w) orchestrator"
  let ?rest = "\<lambda>pl. eff_bind (entry_step D e (pl_intent pl)) (\<lambda>xs.
    eff_bind (position_step D e (pl_actions pl)) (\<lambda>ys. k pl xs ys))"
  obtain x u where u: "decide_event D e t s = (x, u)" by fastforce
  note d = decided[OF assms(1) u]
  have "conduct D Q u (snd (?rest pl u))" if "og_plan u = pl" for pl
  proof -
    obtain y v where v: "entry_step D e (pl_intent pl) u = (y, v)" by fastforce
    then have uv: "mutates D u v" using entry_mutates[of D u e] that by simp
    then have pv: "og_plan v = pl" using that by (simp add: mutates_def)
    obtain z w where w: "position_step D e (pl_actions pl) v = (z, w)" by fastforce
    then have vw: "mutates D v w" using position_mutates[of D v e] pv by simp
    have "mutates D w (snd (k pl xs ys w))" for xs ys
      using assms(2)[of pl xs ys] by (auto simp: effect_of_def intro: mutates_steady)
    then have "mutates D v (snd (eff_bind (position_step D e (pl_actions pl)) (\<lambda>ys. k pl xs ys) v))" for xs
      using w vw by (auto simp: eff_bind_def split: sum.splits intro: mutates_trans)
    then show ?thesis
      using v uv by (auto simp: eff_bind_def split: sum.splits intro!: conduct_mutates intro: mutates_trans)
  qed
  then show "conduct D Q s (snd (eff_bind (decide_event D e t) ?rest s))"
    using u d transpD[OF conduct_trans] by (auto simp: eff_bind_def split: sum.splits)
qed

lemma conduct_process:
  assumes "plans_have D Q"
  shows "effect_of (conduct D Q) (process_event D e f)"
proof -
  let ?m = "eff_bind (feature_for D e f) (\<lambda>feature.
      eff_bind (with_runner (runner_process (sv_runner D) e feature)) (\<lambda>t.
      eff_bind (accept_event e) (\<lambda>_.
      eff_bind (decide_event D e t) (\<lambda>pl.
      eff_bind (entry_step D e (pl_intent pl)) (\<lambda>results.
      eff_bind (position_step D e (pl_actions pl)) (\<lambda>actions.
      eff_bind (eff_of (mk_decision_cycle (sd_cycle (sv_digests D)) (cycle_of e pl results actions))) (\<lambda>c.
      eff_bind (eff_put (\<lambda>s. s\<lparr>og_cycles := og_cycles s @ [c]\<rparr>)) (\<lambda>_. eff_return c))))))))"
  have "effect_of steady (feature_for D e f)"
    by (auto simp: effect_of_def feature_for_def with_world_def steady_def split: option.splits prod.splits)
  moreover have "effect_of steady (accept_event e)" unfolding accept_event_def by (auto intro!: steady_rules)
  ultimately have "effect_of (conduct D Q) ?m"
    by (intro conduct_bind[where m = "feature_for D e f"] conduct_bind[where m = "accept_event e"]
        conduct_bind[where m = "with_runner _"] conduct_tail assms conduct_steady)
      (auto intro!: steady_rules)
  then show ?thesis
    using reflpD[OF conduct_refl[of D Q]] by (simp add: process_event_def effect_of_def)
qed

lemma conduct_drive:
  assumes "plans_have D Q"
  shows "effect_of (conduct D Q) (drive D es)"
proof (induction es)
  case (Cons e es)
  have "effect_of (conduct D Q) (eff_bind (refresh_snapshot_if_due D) (\<lambda>_.
     eff_bind (process_event D e None) (\<lambda>_. drive D es)))"
    by (intro conduct_bind conduct_process[OF assms] Cons conduct_steady[OF steady_revalidate(3)])
  then show ?case using reflpD[OF conduct_refl[of D Q]] by (simp add: effect_of_def)
qed (simp add: conduct_steady steady_rules)

subsection \<open>A session of the service\<close>

text \<open>Every public operation; what it returns or raises is the caller's, its effect on the service stays.\<close>

datatype service_op =
    Op_Startup | Op_Event runtime_event "feature_snapshot option" | Op_Refresh | Op_Controls operator_controls
  | Op_Resume | Op_Run "runtime_event list" | Op_Shutdown

primrec run_op :: "('c, 'w) service \<Rightarrow> service_op \<Rightarrow> ('c, 'w) orchestrator \<Rightarrow> ('c, 'w) orchestrator" where
  "run_op D Op_Startup s = snd (startup D s)"
| "run_op D (Op_Event e f) s = snd (process_event D e f s)"
| "run_op D Op_Refresh s = snd (refresh_snapshot_if_due D s)"
| "run_op D (Op_Controls c) s = snd (set_operator_controls c s)"
| "run_op D Op_Resume s = snd (resume_new_entries s)"
| "run_op D (Op_Run es) s = snd (run_source D es s)"
| "run_op D Op_Shutdown s = snd (shutdown D s)"

definition run_ops :: "('c, 'w) service \<Rightarrow> service_op list \<Rightarrow> ('c, 'w) orchestrator \<Rightarrow> ('c, 'w) orchestrator" where
  "run_ops D ops s = fold (run_op D) ops s"

lemma steady_status [steady_rules]: "effect_of steady (status_of D)"
  by (auto simp: effect_of_def status_of_def steady_def)

lemma steady_recover [steady_rules]: "effect_of steady (recover D)"
  unfolding recover_def restore_from_journal_def restore_runner_state_def run_backfill_def connect_and_refresh_def Let_def
  by (auto split: option.splits prod.splits intro!: steady_rules)

lemma steady_startup: "effect_of steady (startup D)"
proof -
  have "effect_of steady (eff_bind (set_phase OPENING_STORES) (\<lambda>_.
      eff_bind (or_block D (recover D) None) (\<lambda>v. case v of Some r \<Rightarrow> eff_return r | None \<Rightarrow> status_of D)))"
    by (auto split: option.splits intro!: steady_rules)
  then show ?thesis using steady_status[of D] by (simp add: effect_of_def startup_def)
qed

lemma steady_shutdown: "effect_of steady (shutdown D)"
  unfolding shutdown_def by (auto split: option.splits intro!: steady_rules)

lemma conduct_run: "plans_have D Q \<Longrightarrow> effect_of (conduct D Q) (run_source D es)"
  unfolding run_source_def
  by (intro conduct_bind[where m = "drive D es"] conduct_drive conduct_steady) (auto intro!: steady_rules)

lemma run_op_cases:
  assumes "plans_have D Q"
  shows "conduct D Q s (run_op D p s) \<or>
    og_log (run_op D p s) = og_log s \<and> og_plan (run_op D p s) = og_plan s \<and>
    (oc_kill (og_controls s) \<longrightarrow> oc_kill (og_controls (run_op D p s)))"
proof (cases p)
  case Op_Startup
  then show ?thesis using conduct_steady[OF steady_startup, of D Q] by (simp add: effect_of_def)
next
  case (Op_Event e f)
  then show ?thesis using conduct_process[OF assms] by (simp add: effect_of_def)
next
  case Op_Refresh
  then show ?thesis using conduct_steady[OF steady_revalidate(3), of D Q] by (simp add: effect_of_def)
next
  case (Op_Run es)
  then show ?thesis using conduct_run[OF assms] by (simp add: effect_of_def)
next
  case Op_Shutdown
  then show ?thesis using conduct_steady[OF steady_shutdown, of D Q] by (simp add: effect_of_def)
qed (auto simp: set_operator_controls_def resume_new_entries_def)

lemma run_ops_induct:
  assumes "P s" "\<And>s p. P s \<Longrightarrow> P (run_op D p s)"
  shows "P (run_ops D ops s)"
  unfolding run_ops_def using assms(1) by (induction ops arbitrary: s) (auto intro: assms(2))

text \<open>Any number of operations keeps \<open>Q\<close> of the plan and every submission authorised.\<close>

lemma session_submissions:
  assumes "plans_have D Q"
  shows "list_all (\<lambda>b. authorised D b \<and> Q (sb_plan b)) (og_log (run_ops D ops (fresh_orchestrator r d a w c)))"
proof -
  let ?P = "\<lambda>s. Q (og_plan s) \<and> list_all (\<lambda>b. authorised D b \<and> Q (sb_plan b)) (og_log s)"
  have "?P (run_op D p s)" if "?P s" for p s
    using run_op_cases[OF assms, of s p] that by (auto simp: conduct_def list_all_iff)
  moreover have "?P (fresh_orchestrator r d a w c)"
    using assms by (simp add: plans_have_def fresh_orchestrator_def)
  ultimately show ?thesis using run_ops_induct[of ?P "fresh_orchestrator r d a w c" D ops] by simp
qed

subsection \<open>Properties\<close>

text \<open>C1. No order without authority: in every session of the service, whatever the processor, the gateway, the
  adapters and the snapshots do and whichever operations raise, a transport adapter is called only in DEMO
  mode and phase SAFE, after a broker refresh whose readiness is SAFE, with no position action awaiting
  reconciliation and no kill switch, execution stop or shutdown in force, and with a request of the current
  plan (for an entry: its intent, and entries not paused).\<close>

theorem submissions_authorised:
  "list_all (authorised D) (og_log (run_ops D ops (fresh_orchestrator r d a w c)))"
  using session_submissions[of D "\<lambda>_. True" ops r d a w c] by (simp add: plans_have_def)

text \<open>C18. The kill switch is absorbing: once it is active no operation of the service clears it and no transport
  adapter is called again.\<close>

theorem kill_switch_absorbing:
  fixes D :: "('c, 'w) service" and s :: "('c, 'w) orchestrator"
  assumes "oc_kill (og_controls s)"
  shows "oc_kill (og_controls (run_ops D ops s)) \<and> og_log (run_ops D ops s) = og_log s"
proof (rule run_ops_induct)
  fix t :: "('c, 'w) orchestrator" and p assume t: "oc_kill (og_controls t) \<and> og_log t = og_log s"
  have "plans_have D (\<lambda>_. True)" by (simp add: plans_have_def)
  from run_op_cases[OF this, of t p] t
  show "oc_kill (og_controls (run_op D p t)) \<and> og_log (run_op D p t) = og_log s"
    by (auto simp: conduct_def authorised_def mutation_blocked_def list_all_iff) (metis last_in_set)
qed (use assms in simp)

definition demo_service :: "(unit, unit) service" where
  "demo_service = \<lparr>sv_mode = RM_DEMO, sv_interval_ms = 5000, sv_runner = demo_runner_setup,
     sv_digests = \<lparr>sd_event = zero_hash, sd_feedback = zero_hash, sd_transition = zero_hash, sd_finding = zero_hash,
       sd_report = zero_hash, sd_readiness = zero_hash, sd_checkpoint = zero_hash, sd_cycle = zero_hash,
       sd_status = zero_hash, sd_summary = zero_hash\<rparr>,
     sv_text = \<lambda>_. ''error'', sv_clock = eff_return 0, sv_evaluate = evaluate_decision demo_processor,
     sv_gateway = Some (eff_return (), eff_return ()), sv_capture = None,
     sv_entry = Some (\<lambda>_. eff_of (Inl AssertionError)), sv_position = None, sv_features = None,
     sv_backfill = None\<rparr>"

theorem kill_switch_absorbing_witness:
  "og_log (run_ops demo_service [Op_Startup, Op_Event Replay.demo_first None, Op_Controls no_controls, Op_Resume]
     ((fresh_orchestrator (fresh_runner demo_kernel_after (Host_Clock ()) None) empty_execution_db [] () CS_COMPLETE)
       \<lparr>og_controls := activate_kill_switch ''operator'' no_controls\<rparr>)) = []"
  by (subst conjunct2[OF kill_switch_absorbing])
    (simp_all add: activate_kill_switch_def tighten_def no_controls_def fresh_orchestrator_def)

text \<open>
  The service over the modelled processor. An entry that reaches the transport adapter went through the
  whole chain in the plan the service holds.
\<close>

definition entry_approved :: "'w processor \<Rightarrow> decision_plan \<Rightarrow> execution_intent \<Rightarrow> bool" where
  "entry_approved P pl i \<longleftrightarrow> (\<exists>m d r (x :: entry_inputs). pl_master pl = Some m \<and> pl_discipline pl = Some d \<and>
     pl_risk pl = Some r \<and> mp_actionable m \<and> do_result d = DR_PASS \<and> ro_result r = RR_PASS \<and>
     \<not> emergency (en_risk x) (dp_risk P) \<and>
     evaluate_risk (dd_risk (dp_digests P)) (dd_log10 (dp_digests P)) m d (en_risk x) (dp_risk P) = Inr r \<and>
     xi_direction i = mp_decision m \<and> Some (xi_volume i) = ro_volume r \<and>
     Some (xi_entry_price i) = rx_entry_price (en_risk x) \<and>
     Some (xi_stop_price i) = rx_stop_loss_price (en_risk x))"

lemma evaluated_plans_approved:
  "plans_have (D\<lparr>sv_evaluate := evaluate_decision P\<rparr>) (\<lambda>pl. opt_all (entry_approved P pl) (pl_intent pl))"
proof -
  have "opt_all (entry_approved P pl) (pl_intent pl)" if ev: "evaluate_decision P e st t rd oc w = (Inr pl, w')"
    for e st t rd oc w pl w'
  proof (cases "pl_intent pl")
    case (Some i)
    obtain m x d r where p: "entry_decision P oc m x = Inr (d, r, Some i)"
      "pl_master pl = Some m" "pl_discipline pl = Some d" "pl_risk pl = Some r"
      using ev Some
      by (auto simp: evaluate_decision_def Let_def then_Inr_iff eff_of_def eff_return_def)
    have "entry_approved P pl i"
      unfolding entry_approved_def
      by (rule exI[of _ m], rule exI[of _ d], rule exI[of _ r], rule exI[of _ x])
        (use p entry_decision_approved[OF p(1)] in simp)
    then show ?thesis using Some by (simp add: opt_all_def)
  qed (simp add: opt_all_def)
  then show ?thesis by (auto simp: plans_have_def empty_plan_def opt_all_def)
qed


end
