(* ===== verification/Splits.thy ===== *)
theory Splits
  imports PyValue RuntimeState
begin

section \<open>Dataset splits (\<open>datasets/splits.py\<close>, \<open>quant/development/folds.py\<close>)\<close>

text \<open>
  The chronological split and the walk-forward folds with purge and embargo, and the development folds that
  stop before the final out-of-sample rows. The loop over the folds is a partial function: a loop that never
  ends has no value.
\<close>

subsection \<open>Contracts\<close>

record index_range =
  ir_start :: int
  ir_stop :: int

definition range_size :: "index_range \<Rightarrow> int" where
  "range_size r = max 0 (ir_stop r - ir_start r)"

definition mk_index_range :: "int \<Rightarrow> int \<Rightarrow> index_range res" where
  "mk_index_range a b = validate [field_ok ''start'' (0 \<le> a), field_ok ''stop'' (0 \<le> b)]
     \<lparr>ir_start = a, ir_stop = b\<rparr>"

record split_fold =
  sf_fold :: int
  sf_train :: index_range
  sf_validation :: index_range
  sf_oos :: index_range
  sf_purged_train :: int
  sf_purged_validation :: int
  sf_embargoed_validation :: int
  sf_embargoed_oos :: int

datatype window_mode = Expanding | Rolling

text \<open>The values of the policy dictionary, and the keys the development folds add to it.\<close>

datatype split_policy =
    Fractions f64 f64 f64
  | Windows window_mode int int int int
  | Development split_policy int

record split_manifest =
  sm_kind :: string
  sm_row_count :: int
  sm_horizon :: int
  sm_purge :: int
  sm_embargo :: int
  sm_policy :: split_policy
  sm_folds :: "split_fold list"

definition fold_of :: "int \<Rightarrow> int \<times> int \<Rightarrow> int \<times> int \<Rightarrow> int \<times> int \<Rightarrow> int \<times> int \<times> int \<times> int \<Rightarrow> split_fold res" where
  "fold_of n t v s counts = (case counts of (pt, pv, ev, eo) \<Rightarrow>
     res_bind (mk_index_range (fst t) (snd t)) (\<lambda>train.
     res_bind (mk_index_range (fst v) (snd v)) (\<lambda>validation.
     res_bind (mk_index_range (fst s) (snd s)) (\<lambda>oos. Inr
       \<lparr>sf_fold = n, sf_train = train, sf_validation = validation, sf_oos = oos, sf_purged_train = pt,
        sf_purged_validation = pv, sf_embargoed_validation = ev, sf_embargoed_oos = eo\<rparr>))))"

definition empty_split :: "split_fold \<Rightarrow> bool" where
  "empty_split f \<longleftrightarrow> min (range_size (sf_train f)) (min (range_size (sf_validation f)) (range_size (sf_oos f))) \<le> 0"

subsection \<open>The chronological split\<close>

text \<open>\<open>int(row_count * fraction)\<close>.\<close>

definition boundary :: "int \<Rightarrow> f64 \<Rightarrow> int res" where
  "boundary rows x = res_bind (float_of_int rows) (\<lambda>k. py_trunc (fmul k x))"

definition chronological_fold :: "int \<Rightarrow> int \<Rightarrow> int \<Rightarrow> int \<Rightarrow> int \<Rightarrow> split_fold res" where
  "chronological_fold rows tb vb purge embargo = fold_of 0
     (0, max 0 (tb - purge))
     (min rows (tb + embargo), max (tb + embargo) (vb - purge))
     (min rows (vb + embargo), rows)
     (min purge tb, min purge (vb - tb), min embargo (vb - tb), min embargo (rows - vb))"

definition chronological_split :: "int \<Rightarrow> f64 \<Rightarrow> f64 \<Rightarrow> int \<Rightarrow> int \<Rightarrow> int \<Rightarrow> split_manifest res" where
  "chronological_split rows tf vf horizon purge embargo =
     res_bind (validate
       [(3 \<le> rows, ValueError ''At least three rows are required''),
        (flt (Fin 0) tf \<and> flt tf (Fin 1) \<and> flt (Fin 0) vf \<and> flt vf (Fin 1),
           ValueError ''Split fractions must be between zero and one''),
        (\<not> fle (Fin 1) (fadd tf vf), ValueError ''Train plus validation fraction must be below one'')] ()) (\<lambda>_.
     res_bind (boundary rows tf) (\<lambda>tb.
     res_bind (boundary rows (fadd tf vf)) (\<lambda>vb.
     let p = max purge horizon in
     res_bind (chronological_fold rows tb vb p embargo) (\<lambda>f.
     if empty_split f then Inl (ValueError ''Purge/embargo leaves an empty split'')
     else Inr \<lparr>sm_kind = ''chronological'', sm_row_count = rows, sm_horizon = horizon, sm_purge = p,
       sm_embargo = embargo, sm_policy = Fractions tf vf (fsub (fsub (Fin 1) tf) vf), sm_folds = [f]\<rparr>))))"

subsection \<open>Walk-forward folds\<close>

record walk_policy =
  wp_mode :: window_mode
  wp_train :: int
  wp_validation :: int
  wp_oos :: int
  wp_step :: int
  wp_horizon :: int
  wp_purge :: int
  wp_embargo :: int

definition effective_purge :: "walk_policy \<Rightarrow> int" where
  "effective_purge w = max (wp_purge w) (wp_horizon w)"

definition walk_fold :: "walk_policy \<Rightarrow> int \<Rightarrow> int \<Rightarrow> split_fold res" where
  "walk_fold w train_stop n =
     (let p = effective_purge w; g = wp_embargo w;
          train_start = (if wp_mode w = Expanding then 0 else train_stop - wp_train w);
          validation_stop = train_stop + wp_validation w in
      fold_of n
        (train_start, max train_start (train_stop - p))
        (train_stop + g, max (train_stop + g) (validation_stop - p))
        (validation_stop + g, validation_stop + wp_oos w)
        (p, p, g, g))"

partial_function (option) walk_loop ::
  "walk_policy \<Rightarrow> int \<Rightarrow> int \<Rightarrow> int \<Rightarrow> split_fold list \<Rightarrow> split_fold list res option" where
  "walk_loop w rows train_stop n folds =
     (if train_stop + wp_validation w + wp_oos w \<le> rows
      then (case walk_fold w train_stop n of
          Inl e \<Rightarrow> Some (Inl e)
        | Inr f \<Rightarrow> walk_loop w rows (train_stop + wp_step w) (n + 1) (folds @ [f]))
      else Some (Inr folds))"

primrec mode_text :: "window_mode \<Rightarrow> string" where
  "mode_text Expanding = ''expanding''"
| "mode_text Rolling = ''rolling''"

definition walk_manifest :: "walk_policy \<Rightarrow> int \<Rightarrow> split_fold list \<Rightarrow> split_manifest res" where
  "walk_manifest w rows folds =
     (if folds = [] \<or> list_ex empty_split folds
      then Inl (ValueError ''No non-empty walk-forward fold fits the policy'')
      else Inr \<lparr>sm_kind = ''walk_forward_'' @ mode_text (wp_mode w), sm_row_count = rows,
        sm_horizon = wp_horizon w, sm_purge = effective_purge w, sm_embargo = wp_embargo w,
        sm_policy = Windows (wp_mode w) (wp_train w) (wp_validation w) (wp_oos w) (wp_step w), sm_folds = folds\<rparr>)"

definition walk_forward_splits :: "walk_policy \<Rightarrow> int \<Rightarrow> split_manifest res option" where
  "walk_forward_splits w rows =
     (if list_ex (\<lambda>v. v \<le> 0) [wp_train w, wp_validation w, wp_oos w, wp_step w, wp_horizon w]
      then Some (Inl (ValueError ''Window lengths, step, and horizon must be positive''))
      else map_option (\<lambda>r. res_bind r (walk_manifest w rows)) (walk_loop w rows (wp_train w) 0 []))"

text \<open>The development folds stop before the final out-of-sample rows; \<open>max_folds\<close> of \<open>None\<close> or 0 keeps all.\<close>

definition limited :: "int option \<Rightarrow> 'a list \<Rightarrow> 'a list" where
  "limited k xs = (case k of None \<Rightarrow> xs | Some n \<Rightarrow> if n = 0 then xs
     else if 0 < n then take (nat n) xs else take (nat (int (length xs) + n)) xs)"

definition development_split_manifest ::
  "walk_policy \<Rightarrow> int option \<Rightarrow> int \<Rightarrow> int \<Rightarrow> split_manifest res option" where
  "development_split_manifest w max_folds rows final_start =
     (if final_start \<le> 0 \<or> rows < final_start
      then Some (Inl (ValueError ''Immutable final OOS boundary is outside the dataset''))
      else map_option (\<lambda>r. res_bind r (\<lambda>m. Inr (m\<lparr>sm_row_count := rows, sm_folds := limited max_folds (sm_folds m),
        sm_policy := Development (sm_policy m) final_start\<rparr>))) (walk_forward_splits w final_start))"

subsection \<open>The loop ends\<close>

text \<open>
  With a positive step the loop ends: with an error of a fold, or with the folds so far followed by the folds
  of all further windows that fit.
\<close>

definition fits :: "walk_policy \<Rightarrow> int \<Rightarrow> int \<Rightarrow> bool" where
  "fits w rows start \<longleftrightarrow> start + wp_validation w + wp_oos w \<le> rows"

definition folds_from :: "walk_policy \<Rightarrow> int \<Rightarrow> int \<Rightarrow> int \<Rightarrow> split_fold list \<Rightarrow> bool" where
  "folds_from w rows start n fs \<longleftrightarrow>
     (\<forall>i < length fs. fits w rows (start + int i * wp_step w) \<and>
        walk_fold w (start + int i * wp_step w) (n + int i) = Inr (fs ! i)) \<and>
     \<not> fits w rows (start + int (length fs) * wp_step w)"

lemma folds_from_Nil: "\<not> fits w rows start \<Longrightarrow> folds_from w rows start n []"
  by (simp add: folds_from_def)

lemma folds_from_Cons:
  assumes "fits w rows start" "walk_fold w start n = Inr f" "folds_from w rows (start + wp_step w) (n + 1) fs"
  shows "folds_from w rows start n (f # fs)"
  unfolding folds_from_def
proof (intro conjI allI impI)
  fix i assume "i < length (f # fs)"
  then show "fits w rows (start + int i * wp_step w)"
    and "walk_fold w (start + int i * wp_step w) (n + int i) = Inr ((f # fs) ! i)"
    using assms by (cases i; force simp: folds_from_def algebra_simps)+
next
  show "\<not> fits w rows (start + int (length (f # fs)) * wp_step w)"
    using assms(3) by (simp add: folds_from_def algebra_simps)
qed

lemma walk_loop_ends:
  assumes "0 < wp_step w"
  shows "\<exists>r. walk_loop w rows start n acc = Some r \<and>
    (\<forall>fs. r = Inr fs \<longrightarrow> (\<exists>gs. fs = acc @ gs \<and> folds_from w rows start n gs))"
proof (induction "nat (rows - (start + wp_validation w + wp_oos w) + wp_step w)" arbitrary: start n acc
    rule: less_induct)
  case less
  show ?case
  proof (cases "fits w rows start")
    case False
    then show ?thesis by (subst walk_loop.simps) (simp add: fits_def folds_from_Nil)
  next
    case True
    show ?thesis
    proof (cases "walk_fold w start n")
      case (Inl e)
      then show ?thesis using True by (subst walk_loop.simps) (simp add: fits_def)
    next
      case (Inr f)
      have "nat (rows - (start + wp_step w + wp_validation w + wp_oos w) + wp_step w)
          < nat (rows - (start + wp_validation w + wp_oos w) + wp_step w)"
        using True assms by (simp add: fits_def)
      from less[OF this, of "n + 1" "acc @ [f]"] obtain r where
        r: "walk_loop w rows (start + wp_step w) (n + 1) (acc @ [f]) = Some r"
          "\<And>fs. r = Inr fs \<Longrightarrow> \<exists>gs. fs = (acc @ [f]) @ gs \<and> folds_from w rows (start + wp_step w) (n + 1) gs"
        by blast
      have "walk_loop w rows start n acc = Some r"
        using True Inr r(1) by (subst walk_loop.simps) (simp add: fits_def)
      moreover have "\<exists>gs. fs = acc @ gs \<and> folds_from w rows start n gs" if "r = Inr fs" for fs
        using r(2)[OF that] folds_from_Cons[OF True Inr] by fastforce
      ultimately show ?thesis by blast
    qed
  qed
qed

text \<open>What the range contract leaves of the requested bounds.\<close>

lemma mk_index_range_Inr_iff: "mk_index_range a b = Inr r \<longleftrightarrow> 0 \<le> a \<and> 0 \<le> b \<and> r = \<lparr>ir_start = a, ir_stop = b\<rparr>"
  by (auto simp: mk_index_range_def validate_Inr_iff)

lemma fold_of_Inr:
  assumes "fold_of n t v s k = Inr f"
  shows "sf_fold f = n" "sf_train f = \<lparr>ir_start = fst t, ir_stop = snd t\<rparr>" "0 \<le> fst t"
    "sf_validation f = \<lparr>ir_start = fst v, ir_stop = snd v\<rparr>" "0 \<le> fst v"
    "sf_oos f = \<lparr>ir_start = fst s, ir_stop = snd s\<rparr>" "0 \<le> fst s"
  using assms by (auto simp: fold_of_def res_bind_Inr_iff mk_index_range_Inr_iff split: prod.splits)

subsection \<open>Properties\<close>

text \<open>C22. The splitters always come to an end: for every policy and every number of rows the walk-forward splitter
  and the development splitter return a manifest or raise, because the guard on the step refuses the windows
  on which the loop would not advance.\<close>

theorem walk_forward_returns:
  "(\<exists>r. walk_forward_splits w rows = Some r) \<and> (\<exists>r. development_split_manifest w k rows final_start = Some r)"
proof -
  have "\<exists>r. walk_forward_splits w rows = Some r" for rows
    using walk_loop_ends[of w rows "wp_train w" 0 "[]"]
    by (auto simp: walk_forward_splits_def)
  then show ?thesis by (auto simp: development_split_manifest_def)
qed

text \<open>The windows of one fold: each part is not empty, and no label of the training or validation rows reaches the
  part that follows.\<close>

definition leak_free :: "int \<Rightarrow> int \<Rightarrow> split_fold \<Rightarrow> bool" where
  "leak_free horizon rows f \<longleftrightarrow>
     0 \<le> ir_start (sf_train f) \<and> ir_start (sf_train f) < ir_stop (sf_train f) \<and>
     ir_stop (sf_train f) + horizon \<le> ir_start (sf_validation f) \<and>
     ir_start (sf_validation f) < ir_stop (sf_validation f) \<and>
     ir_stop (sf_validation f) + horizon \<le> ir_start (sf_oos f) \<and>
     ir_start (sf_oos f) < ir_stop (sf_oos f) \<and> ir_stop (sf_oos f) \<le> rows"

lemma walk_fold_leak_free:
  assumes "walk_fold w start n = Inr f" "\<not> empty_split f" "0 \<le> wp_embargo w" "fits w rows start"
  shows "leak_free (wp_horizon w) rows f"
proof -
  let ?p = "effective_purge w" and ?a = "if wp_mode w = Expanding then 0 else start - wp_train w"
  note f = fold_of_Inr[OF assms(1)[unfolded walk_fold_def Let_def]]
  have "?a < max ?a (start - ?p)"
    "start + wp_embargo w < max (start + wp_embargo w) (start + wp_validation w - ?p)"
    "start + wp_validation w + wp_embargo w < start + wp_validation w + wp_oos w"
    using assms(2) f by (auto simp: empty_split_def range_size_def)
  moreover have "wp_horizon w \<le> ?p" by (simp add: effective_purge_def)
  ultimately show ?thesis
    using f assms(3,4) by (auto simp: leak_free_def fits_def max_def split: if_splits)
qed

text \<open>C21. Walk-forward folds in full: when the splitter returns a manifest, its folds are numbered from 0, the
  windows start at multiples of the step and every window that fits is there; with the embargo that the
  configuration allows (0 or more), no fold is empty, no label of its training or validation rows reaches the
  rows it is tested on, and no test row lies beyond the dataset.\<close>

theorem walk_forward_leak_free:
  assumes "walk_forward_splits w rows = Some (Inr m)" "0 \<le> wp_embargo w"
  shows "folds_from w rows (wp_train w) 0 (sm_folds m) \<and> sm_folds m \<noteq> [] \<and>
    list_all (leak_free (wp_horizon w) rows) (sm_folds m)"
proof -
  have step: "0 < wp_step w"
    using assms(1) by (auto simp: walk_forward_splits_def split: if_splits)
  obtain r where r: "walk_loop w rows (wp_train w) 0 [] = Some r"
    "\<And>fs. r = Inr fs \<Longrightarrow> folds_from w rows (wp_train w) 0 fs"
    using walk_loop_ends[OF step, of rows "wp_train w" 0 "[]"] by auto
  then obtain fs where fs: "r = Inr fs" "walk_manifest w rows fs = Inr m"
    using assms(1) by (auto simp: walk_forward_splits_def res_bind_Inr_iff split: if_splits)
  have m: "sm_folds m = fs" "fs \<noteq> []" "\<not> list_ex empty_split fs"
    using fs(2) by (auto simp: walk_manifest_def split: if_splits)
  note ff = r(2)[OF fs(1)]
  have "leak_free (wp_horizon w) rows f" if fin: "f \<in> set fs" for f
  proof -
    obtain i where i: "i < length fs" "f = fs ! i" using fin by (metis in_set_conv_nth)
    then have "walk_fold w (wp_train w + int i * wp_step w) (0 + int i) = Inr f"
      "fits w rows (wp_train w + int i * wp_step w)"
      using ff by (auto simp: folds_from_def)
    then show ?thesis using walk_fold_leak_free m(3) fin assms(2) by (auto simp: list_ex_iff)
  qed
  then show ?thesis using ff m by (simp add: list_all_iff)
qed

definition demo_walk :: walk_policy where
  "demo_walk = \<lparr>wp_mode = Rolling, wp_train = 6, wp_validation = 3, wp_oos = 3, wp_step = 3, wp_horizon = 1,
     wp_purge = 0, wp_embargo = 1\<rparr>"

theorem walk_forward_leak_free_witness:
  "\<exists>m. walk_forward_splits demo_walk 16 = Some (Inr m) \<and> length (sm_folds m) = 2 \<and>
     list_all (leak_free 1 16) (sm_folds m)"
proof -
  let ?fold = "\<lambda>k. \<lparr>sf_fold = k, sf_train = \<lparr>ir_start = 3 * k, ir_stop = 3 * k + 5\<rparr>,
     sf_validation = \<lparr>ir_start = 3 * k + 7, ir_stop = 3 * k + 8\<rparr>,
     sf_oos = \<lparr>ir_start = 3 * k + 10, ir_stop = 3 * k + 12\<rparr>, sf_purged_train = 1, sf_purged_validation = 1,
     sf_embargoed_validation = 1, sf_embargoed_oos = 1\<rparr>"
  have "walk_loop demo_walk 16 6 0 [] = Some (Inr [?fold 0, ?fold 1])"
    by (simp add: walk_loop.simps demo_walk_def walk_fold_def effective_purge_def fold_of_def
        mk_index_range_Inr_iff mk_index_range_def validate.simps Let_def)
  then have "\<exists>m. walk_forward_splits demo_walk 16 = Some (Inr m) \<and> sm_folds m = [?fold 0, ?fold 1]"
    by (simp add: walk_forward_splits_def walk_manifest_def demo_walk_def empty_split_def range_size_def)
  then obtain m where m: "walk_forward_splits demo_walk 16 = Some (Inr m)" "sm_folds m = [?fold 0, ?fold 1]" by blast
  show ?thesis
    using walk_forward_leak_free[OF m(1)] m by (simp add: demo_walk_def)
qed

text \<open>Truncating a product with the same count is monotone in the fraction.\<close>

lemma boundary_mono:
  assumes "boundary rows (Fin p) = Inr i" "boundary rows (Fin q) = Inr j" "0 \<le> rows" "0 < p" "p \<le> q"
  shows "i \<le> j"
proof -
  obtain x where x: "float_of_int rows = Inr (Fin x)" "rnd (of_int rows) = Fin x"
    using assms(1) by (auto simp: boundary_def res_bind_Inr_iff float_of_int_def split: f64.splits)
  have "0 \<le> x" using rnd_nonneg[of "of_int rows"] assms(3) x(2) by simp
  then have "fle (Fin 0) (rnd (x * p))" "fle (rnd (x * p)) (rnd (x * q))"
    using assms(4,5) by (auto intro!: rnd_nonneg rnd_mono mult_left_mono)
  then show ?thesis
    using assms(1,2) x(1)
    by (cases "rnd (x * p)"; cases "rnd (x * q)") (auto simp: boundary_def intro: floor_mono split: if_splits)
qed

text \<open>C28. The chronological split does not leak either: with an embargo of 0 or more, when it returns a manifest, the
  three parts are not empty, follow each other in time inside the dataset, and no label of the training or
  validation rows reaches the next part, whatever the rounding of the two fractions does.\<close>

theorem chronological_leak_free:
  assumes "chronological_split rows tf vf horizon purge embargo = Inr m" "0 \<le> embargo" "is_f64 tf"
  shows "\<exists>f. sm_folds m = [f] \<and> leak_free horizon rows f \<and> ir_stop (sf_oos f) = rows"
proof -
  define e where "e = max purge horizon"
  obtain tb vb f where f: "3 \<le> rows" "flt (Fin 0) tf" "flt (Fin 0) vf" "boundary rows tf = Inr tb"
    "boundary rows (fadd tf vf) = Inr vb" "chronological_fold rows tb vb e embargo = Inr f" "\<not> empty_split f"
    "sm_folds m = [f]" and frac: "flt tf (Fin 1)" "flt vf (Fin 1)" "\<not> fle (Fin 1) (fadd tf vf)"
    using assms(1) unfolding e_def by (auto simp: chronological_split_def Let_def res_simps split: if_splits)
  obtain p where p: "tf = Fin p" "0 < p" using f(2) frac(1) by (cases tf) auto
  obtain v where v: "vf = Fin v" "0 < v" using f(3) frac(2) by (cases vf) auto
  have "fle (rnd p) (rnd (p + v))" using v(2) by (intro rnd_mono) simp
  then obtain q where q: "fadd tf vf = Fin q" "p \<le> q"
    using frac(3) rnd_of_is_f64 assms(3) p(1) v(1) by (cases "rnd (p + v)") auto
  have le: "tb \<le> vb" using boundary_mono[of rows p tb q vb] f(1,4,5) p q by simp
  note g = fold_of_Inr[OF f(6)[unfolded chronological_fold_def]]
  have size: "0 < range_size (sf_train f)" "0 < range_size (sf_validation f)" "0 < range_size (sf_oos f)"
    using f(7) unfolding empty_split_def by linarith+
  have ne: "0 < tb - e" "tb + embargo < vb - e" "vb + embargo < rows"
  proof -
    show "0 < tb - e" using size(1) g(2) by (simp add: range_size_def max_def split: if_splits)
    show o: "vb + embargo < rows" using size(3) g(6) by (simp add: range_size_def max_def min_def split: if_splits)
    show "tb + embargo < vb - e"
      using size(2) g(4) o le by (simp add: range_size_def max_def min_def split: if_splits)
  qed
  have "sf_train f = \<lparr>ir_start = 0, ir_stop = tb - e\<rparr>" "sf_oos f = \<lparr>ir_start = vb + embargo, ir_stop = rows\<rparr>"
    "sf_validation f = \<lparr>ir_start = tb + embargo, ir_stop = vb - e\<rparr>"
    using g(2,4,6) ne le by simp_all
  moreover have "horizon \<le> e" by (simp add: e_def)
  ultimately have "leak_free horizon rows f" "ir_stop (sf_oos f) = rows"
    using ne le assms(2) f(1) g(5) by (simp_all add: leak_free_def)
  then show ?thesis using f(8) by blast
qed

theorem chronological_leak_free_witness:
  "\<exists>m f. chronological_split 16 (Fin (1 / 2)) (Fin (1 / 4)) 1 0 0 = Inr m \<and> sm_folds m = [f] \<and> leak_free 1 16 f"
proof -
  have "boundary 16 (Fin (1 / 2)) = Inr 8" "boundary 16 (Fin (3 / 4)) = Inr 12" "rnd (1 / 2 + 1 / 4) = Fin (3 / 4)"
    using rnd_quarter[of "num.One"] by (simp_all add: boundary_def float_of_int_def rnd_eval)
  then have "\<exists>m. chronological_split 16 (Fin (1 / 2)) (Fin (1 / 4)) 1 0 0 = Inr m"
    by (simp add: chronological_split_def validate.simps chronological_fold_def fold_of_def mk_index_range_def
        empty_split_def range_size_def Let_def)
  then obtain m where m: "chronological_split 16 (Fin (1 / 2)) (Fin (1 / 4)) 1 0 0 = Inr m" ..
  show ?thesis using chronological_leak_free[OF m] m by (auto simp: is_f64_eval)
qed

end
