(* ===== verification/TerminalLog.thy ===== *)
theory TerminalLog
  imports MT5Gateway ExecutionLedger
begin

section \<open>What the terminal was asked and what it answered\<close>

text \<open>
  To speak about the calls of the terminal, a gateway is instrumented: its world carries the list of the answers it
  gave and of the requests sent to it, in order, and nothing else about it changes. From the list, \<open>orders_sent\<close>
  derives every request sent together with the last answers since the request before it.
\<close>

subsection \<open>Events\<close>

datatype terminal_event =
    SawKill bool
  | SawTerminal "info option"
  | SawAccount "info option"
  | SawSymbol string "info option"
  | SawTick string "info option"
  | SawPositions string "info list"
  | SawClock dt
  | SawCheck info "info option"
  | SentOrder info

text \<open>The last answers since the last request sent.\<close>

record terminal_view =
  tv_kill :: "bool option"
  tv_terminal :: "info option"
  tv_account :: "info option"
  tv_symbol :: "(string \<times> info) option"
  tv_tick :: "(string \<times> info) option"
  tv_positions :: "(string \<times> info list) option"
  tv_clock :: "dt option"
  tv_check :: "(info \<times> info) option"

definition blank_view :: terminal_view where
  "blank_view = \<lparr>tv_kill = None, tv_terminal = None, tv_account = None, tv_symbol = None, tv_tick = None,
     tv_positions = None, tv_clock = None, tv_check = None\<rparr>"

fun see :: "terminal_event \<Rightarrow> terminal_view \<Rightarrow> terminal_view" where
  "see (SawKill b) v = v\<lparr>tv_kill := Some b\<rparr>"
| "see (SawTerminal t) v = v\<lparr>tv_terminal := t\<rparr>"
| "see (SawAccount a) v = v\<lparr>tv_account := a\<rparr>"
| "see (SawSymbol n y) v = v\<lparr>tv_symbol := map_option (Pair n) y\<rparr>"
| "see (SawTick n k) v = v\<lparr>tv_tick := map_option (Pair n) k\<rparr>"
| "see (SawPositions n ps) v = v\<lparr>tv_positions := Some (n, ps)\<rparr>"
| "see (SawClock t) v = v\<lparr>tv_clock := Some t\<rparr>"
| "see (SawCheck r m) v = v\<lparr>tv_check := map_option (Pair r) m\<rparr>"
| "see (SentOrder r) v = blank_view"

definition view_of :: "terminal_event list \<Rightarrow> terminal_view" where
  "view_of es = fold see es blank_view"

fun sent_from :: "terminal_view \<Rightarrow> terminal_event list \<Rightarrow> (terminal_view \<times> info) list" where
  "sent_from v [] = []"
| "sent_from v (e # es) = (case e of SentOrder r \<Rightarrow> [(v, r)] | _ \<Rightarrow> []) @ sent_from (see e v) es"

definition orders_sent :: "terminal_event list \<Rightarrow> (terminal_view \<times> info) list" where
  "orders_sent es = sent_from blank_view es"

lemma view_of_snoc [simp]: "view_of (es @ [e]) = see e (view_of es)" "view_of [] = blank_view"
  by (simp_all add: view_of_def)

lemma sent_from_append: "sent_from v (es @ fs) = sent_from v es @ sent_from (fold see es v) fs"
  by (induction es arbitrary: v) simp_all

lemma orders_sent_snoc [simp]:
  "orders_sent [] = []"
  "orders_sent (es @ [e]) = orders_sent es @ (case e of SentOrder r \<Rightarrow> [(view_of es, r)] | _ \<Rightarrow> [])"
  by (simp_all add: orders_sent_def sent_from_append view_of_def cong: terminal_event.case_cong)

subsection \<open>The instrumented gateway\<close>

definition logged :: "('w, 'a) eff \<Rightarrow> ('w \<times> terminal_event list, 'a) eff" where
  "logged m v = (case m (fst v) of (x, w) \<Rightarrow> (x, (w, snd v)))"

definition noted :: "('a \<Rightarrow> terminal_event) \<Rightarrow> ('w, 'a) eff \<Rightarrow> ('w \<times> terminal_event list, 'a) eff" where
  "noted F m v = (case m (fst v) of
     (Inl e, w) \<Rightarrow> (Inl e, (w, snd v)) | (Inr x, w) \<Rightarrow> (Inr x, (w, snd v @ [F x])))"

definition sending :: "info \<Rightarrow> ('w, 'a) eff \<Rightarrow> ('w \<times> terminal_event list, 'a) eff" where
  "sending r m v = logged m (fst v, snd v @ [SentOrder r])"

definition logged_gateway :: "'w gateway \<Rightarrow> ('w \<times> terminal_event list) gateway" where
  "logged_gateway G = \<lparr>gw_constants = gw_constants G, gw_connect = logged (gw_connect G),
     gw_last_error = logged (gw_last_error G), gw_terminal_info = noted SawTerminal (gw_terminal_info G),
     gw_account_info = noted SawAccount (gw_account_info G),
     gw_symbol_select = (\<lambda>n b. logged (gw_symbol_select G n b)),
     gw_symbol_info = (\<lambda>n. noted (SawSymbol n) (gw_symbol_info G n)),
     gw_symbol_info_tick = (\<lambda>n. noted (SawTick n) (gw_symbol_info_tick G n)),
     gw_positions_get = (\<lambda>n. noted (SawPositions n) (gw_positions_get G n)),
     gw_orders_get = (\<lambda>n. logged (gw_orders_get G n)),
     gw_order_check = (\<lambda>r. noted (SawCheck r) (gw_order_check G r)),
     gw_order_send = (\<lambda>r. sending r (gw_order_send G r))\<rparr>"

lemma logged_gateway_fields [simp]:
  "gw_constants (logged_gateway G) = gw_constants G" "gw_connect (logged_gateway G) = logged (gw_connect G)"
  "gw_last_error (logged_gateway G) = logged (gw_last_error G)"
  "gw_terminal_info (logged_gateway G) = noted SawTerminal (gw_terminal_info G)"
  "gw_account_info (logged_gateway G) = noted SawAccount (gw_account_info G)"
  "gw_symbol_select (logged_gateway G) n b = logged (gw_symbol_select G n b)"
  "gw_symbol_info (logged_gateway G) n = noted (SawSymbol n) (gw_symbol_info G n)"
  "gw_symbol_info_tick (logged_gateway G) n = noted (SawTick n) (gw_symbol_info_tick G n)"
  "gw_positions_get (logged_gateway G) n = noted (SawPositions n) (gw_positions_get G n)"
  "gw_order_check (logged_gateway G) r = noted (SawCheck r) (gw_order_check G r)"
  "gw_order_send (logged_gateway G) r = sending r (gw_order_send G r)"
  by (simp_all add: logged_gateway_def)

text \<open>The identifier a request carries.\<close>

definition request_id :: "info \<Rightarrow> string" where
  "request_id m = (case info_get m ''comment'' of PvText s \<Rightarrow> s | _ \<Rightarrow> [])"

subsection \<open>What a step adds to the log\<close>

lemma logged_Inr: "logged m v = (Inr x, v') \<longleftrightarrow> m (fst v) = (Inr x, fst v') \<and> snd v' = snd v"
  by (cases v') (auto simp: logged_def split: prod.split)

lemma noted_Inr: "noted F m v = (Inr x, v') \<longleftrightarrow> m (fst v) = (Inr x, fst v') \<and> snd v' = snd v @ [F x]"
  by (cases v') (auto simp: noted_def split: prod.split sum.split)

lemma eff_bind_Inr_iff: "eff_bind m k s = (Inr y, s') \<longleftrightarrow> (\<exists>x t. m s = (Inr x, t) \<and> k x t = (Inr y, s'))"
  by (auto simp: eff_bind_def split: prod.splits sum.splits)

lemma eff_of_Inr_iff: "eff_of m s = (Inr y, s') \<longleftrightarrow> m = Inr y \<and> s' = s"
  by (auto simp: eff_of_def)

definition unsent :: "'w \<times> terminal_event list \<Rightarrow> 'w \<times> terminal_event list \<Rightarrow> bool" where
  "unsent v v' \<longleftrightarrow> orders_sent (snd v') = orders_sent (snd v)"

text \<open>At most one request is sent, and \<open>E\<close> holds of it and of the answers before it.\<close>

definition sends ::
  "(terminal_view \<Rightarrow> info \<Rightarrow> bool) \<Rightarrow> 'w \<times> terminal_event list \<Rightarrow> 'w \<times> terminal_event list \<Rightarrow> bool" where
  "sends E v v' \<longleftrightarrow> orders_sent (snd v') = orders_sent (snd v) \<or>
     (\<exists>V r. E V r \<and> orders_sent (snd v') = orders_sent (snd v) @ [(V, r)])"

lemma unsent_rel [simp]: "reflp unsent" "transp unsent" "reflp (sends E)"
  by (auto simp: reflp_def transp_def unsent_def sends_def)

named_theorems unsent_rules \<open>methods that send nothing\<close>

lemma unsent_pure [unsent_rules]: "effect_of unsent (eff_return x)" "effect_of unsent (eff_of m)"
  by (simp_all add: effect_of_pure)

lemma unsent_logged [unsent_rules]: "effect_of unsent (logged m)"
  by (auto simp: effect_of_def unsent_def logged_def split: prod.split)

lemma unsent_noted:
  "(\<And>x r. F x \<noteq> SentOrder r) \<Longrightarrow> effect_of unsent (noted F m)"
  by (auto simp: effect_of_def unsent_def noted_def split: prod.split sum.split terminal_event.split)

lemma unsent_reads [unsent_rules]:
  "effect_of unsent (noted SawKill k)" "effect_of unsent (noted SawTerminal t)" "effect_of unsent (noted SawAccount t)"
  "effect_of unsent (noted (SawSymbol n) t)" "effect_of unsent (noted (SawTick n) t)"
  "effect_of unsent (noted (SawPositions n) p)" "effect_of unsent (noted SawClock c)"
  "effect_of unsent (noted (SawCheck r) t)"
  by (rule unsent_noted, simp)+

lemma unsent_bind [unsent_rules]:
  "effect_of unsent m \<Longrightarrow> (\<And>x. effect_of unsent (k x)) \<Longrightarrow> effect_of unsent (eff_bind m k)"
  by (rule effect_of_bind) simp_all

lemma unsent_catch [unsent_rules]:
  "effect_of unsent m \<Longrightarrow> (\<And>e k. h e = Some k \<Longrightarrow> effect_of unsent k) \<Longrightarrow> effect_of unsent (eff_catch m h)"
  by (rule effect_of_catch) simp_all

lemma unsent_if [unsent_rules]:
  "effect_of unsent m \<Longrightarrow> effect_of unsent n \<Longrightarrow> effect_of unsent (if b then m else n)"
  by simp

lemma list_all2_set2: "list_all2 R xs ys \<Longrightarrow> y \<in> set ys \<Longrightarrow> \<exists>x \<in> set xs. R x y"
  by (induction rule: list_all2_induct) auto

text \<open>The answer is in the log when the request goes out.\<close>

lemma orders_sent_sending: "orders_sent (snd (snd (sending r m v))) = orders_sent (snd v) @ [(view_of (snd v), r)]"
  by (simp add: sending_def logged_def split: prod.split)

end
