(* ===== verification/MT5Position.thy ===== *)
theory MT5Position
  imports TerminalLog
begin

section \<open>Position actions at the broker (\<open>mt5/position.py\<close>)\<close>

text \<open>
  The adapter that hands a safe position action to the terminal at most once. Before every request, and
  again immediately before it is sent, it reads the account, the position and the market anew. The log of
  the state records the requests an adapter hands to \<open>order_send\<close>; the instrumented gateway of \<open>TerminalLog\<close> records what
  the terminal itself was asked and answered.
\<close>

record 'w position_adapter =
  pxa_mode :: execution_mode
  pxa_gateway :: "'w gateway"
  pxa_mapping :: symbol_mapping
  pxa_clock :: "('w, dt) eff"
  pxa_kill_switch :: "('w, bool) eff"
  pxa_config :: transport_config
  pxa_texts :: texts

subsection \<open>Values\<close>

definition required_positive :: "texts \<Rightarrow> info \<Rightarrow> string \<Rightarrow> f64 res" where
  "required_positive T m k = res_bind (float_value T (info_get m k) (Some (Fin 0))) (\<lambda>x.
     if \<not> is_fin x \<or> fle x (Fin 0) then Inl (TransportError (''MT5 '' @ k @ '' must be finite and positive''))
     else Inr x)"

definition optional_price :: "texts \<Rightarrow> py_value \<Rightarrow> f64 option res" where
  "optional_price T v = res_bind (float_value T v (Some (Fin 0))) (\<lambda>x.
     Inr (if is_fin x \<and> flt (Fin 0) x then Some x else None))"

definition optional_close :: "f64 option \<Rightarrow> f64 option \<Rightarrow> bool" where
  "optional_close a b = (case (a, b) of (Some x, Some y) \<Rightarrow> abs_close x y | _ \<Rightarrow> a = None \<and> b = None)"

text \<open>\<open>math.isclose(x, round(x), abs_tol=tol, rel_tol=0.0)\<close>.\<close>

definition whole_number :: "f64 \<Rightarrow> f64 \<Rightarrow> bool res" where
  "whole_number x tol = res_bind (py_round_int x) (\<lambda>k. Inr (isclose x (rnd (of_int k)) (Fin 0) tol))"

definition volume_guard :: "texts \<Rightarrow> f64 \<Rightarrow> info \<Rightarrow> unit res" where
  "volume_guard T v symbol =
     res_bind (required_positive T symbol ''volume_min'') (\<lambda>lo.
     res_bind (required_positive T symbol ''volume_max'') (\<lambda>hi.
     res_bind (required_positive T symbol ''volume_step'') (\<lambda>step.
     res_bind (transport_guard (\<not> (flt v (fsub lo (lit (1 / 10 ^ 12))) \<or> flt (fadd hi (lit (1 / 10 ^ 12))) v))
       ''close volume violates broker min/max constraints'') (\<lambda>_.
     res_bind (fdiv (fsub v lo) step) (\<lambda>steps.
     res_bind (whole_number steps (lit (1 / 10 ^ 8))) (\<lambda>on_grid.
     transport_guard on_grid ''close volume is not on the broker volume grid''))))))"

subsection \<open>The checked request\<close>

text \<open>Connection, account and expert trading, in source order.\<close>

definition session_guard ::
  "texts \<Rightarrow> mt5_constants \<Rightarrow> info option \<Rightarrow> info option \<Rightarrow> unit res" where
  "session_guard T c terminal account = (case terminal of
     None \<Rightarrow> Inl (TransportError ''MT5 terminal is not connected'')
   | Some t \<Rightarrow>
       res_bind (transport_guard (is_one (info_get t ''connected'')) ''MT5 terminal is not connected'') (\<lambda>_.
       res_bind (transport_guard (is_one (info_get t ''trade_allowed'')) ''terminal trading is disabled'') (\<lambda>_.
       case account of
         None \<Rightarrow> Inl (TransportError ''broker account is not a verified demo account'')
       | Some a \<Rightarrow>
           res_bind (int_value T (info_get a ''trade_mode'') (- 1)) (\<lambda>m.
           res_bind (transport_guard (m = mc_account_demo c) ''broker account is not a verified demo account'') (\<lambda>_.
           transport_guard (is_one (info_get a ''trade_allowed'') \<and> is_one (info_get a ''trade_expert''))
             ''account expert trading is disabled'')))))"

text \<open>The positions with the exact ticket; every position of the answer is inspected.\<close>

definition ticket_matches :: "texts \<Rightarrow> int \<Rightarrow> info list \<Rightarrow> info list res" where
  "ticket_matches T k ps =
     res_bind (res_map (\<lambda>p. res_bind (int_value T (info_get p ''ticket'') (- 1)) (\<lambda>n. Inr (n = k, p))) ps)
       (\<lambda>qs. Inr (map snd (filter fst qs)))"

definition exact_position :: "texts \<Rightarrow> int \<Rightarrow> info list \<Rightarrow> info res" where
  "exact_position T k ps = res_bind (ticket_matches T k ps) (\<lambda>ms. case ms of
     [p] \<Rightarrow> Inr p
   | _ \<Rightarrow> Inl (TransportError ''exact broker-ticket position match is unavailable''))"

definition symbol_facts ::
  "texts \<Rightarrow> mt5_constants \<Rightarrow> string \<Rightarrow> info option \<Rightarrow> info option \<Rightarrow> (info \<times> info) res" where
  "symbol_facts T c name symbol tick = (case (symbol, tick) of
     (Some y, Some k) \<Rightarrow>
       res_bind (transport_guard (py_str T (info_get_or y ''name'' (PvText [])) = name)
         ''broker returned a different symbol'') (\<lambda>_.
       res_bind (int_value T (info_get y ''trade_mode'') (mc_symbol_disabled c)) (\<lambda>m.
       res_bind (transport_guard (m \<noteq> mc_symbol_disabled c) ''symbol trading is disabled'') (\<lambda>_.
       res_bind (transport_guard (info_get k ''time_msc'' \<noteq> PvNone) ''MT5 tick lacks time_msc'') (\<lambda>_.
       Inr (y, k)))))
   | _ \<Rightarrow> Inl (TransportError ''MT5 symbol or tick facts are unavailable''))"

definition tick_guard :: "texts \<Rightarrow> transport_config \<Rightarrow> info \<Rightarrow> dt \<Rightarrow> unit res" where
  "tick_guard T cfg tick now =
     res_bind (float_value T (info_get tick ''time_msc'') None) (\<lambda>raw.
     res_bind (fdiv raw (Fin 1000)) (\<lambda>sec.
     res_bind (from_timestamp sec) (\<lambda>t.
     transport_guard (\<not> (flt (total_seconds (now - t)) (Fin 0)
         \<or> flt (tc_max_tick_age cfg) (total_seconds (now - t))))
       ''MT5 tick is stale or ahead at submission time'')))"

definition position_guard :: "texts \<Rightarrow> mt5_constants \<Rightarrow> action_intent \<Rightarrow> info \<Rightarrow> string \<Rightarrow> unit res" where
  "position_guard T c i position name =
     res_bind (transport_guard (py_str T (info_get_or position ''symbol'' (PvText [])) = name)
       ''exact ticket resolved to a different broker symbol'') (\<lambda>_.
     res_bind (int_value T (info_get position ''type'') (- 1)) (\<lambda>ty.
     res_bind (transport_guard
       (ty = (if pai_side i = PS_BUY then mc_position_buy c else mc_position_sell c))
       ''broker position direction changed'') (\<lambda>_.
     res_bind (float_value T (info_get position ''volume'') (Some (Fin 0))) (\<lambda>v.
     res_bind (transport_guard (abs_close v (pai_volume i)) ''broker position volume changed'') (\<lambda>_.
     res_bind (optional_price T (info_get position ''sl'')) (\<lambda>sl.
     transport_guard (optional_close sl (pai_old_stop i)) ''broker protective stop changed''))))))"

definition base_request :: "mt5_constants \<Rightarrow> transport_config \<Rightarrow> action_intent \<Rightarrow> int \<Rightarrow> string \<Rightarrow> info" where
  "base_request c cfg i ticket name =
     [(''symbol'', PvText name), (''position'', PvInt ticket), (''magic'', PvInt (tc_magic cfg)),
      (''comment'', PvText (pai_id i))]"

definition stop_monotone :: "position_side \<Rightarrow> f64 option \<Rightarrow> f64 \<Rightarrow> bool" where
  "stop_monotone side current stop \<longleftrightarrow>
     side = PS_BUY \<and> opt_all (\<lambda>s. fle s stop) current \<or> side = PS_SELL \<and> opt_all (\<lambda>s. fle stop s) current"

definition protective_side :: "position_side \<Rightarrow> f64 \<Rightarrow> f64 \<Rightarrow> bool" where
  "protective_side side stop price \<longleftrightarrow> side = PS_BUY \<and> flt stop price \<or> side = PS_SELL \<and> flt price stop"

definition stop_request ::
  "texts \<Rightarrow> mt5_constants \<Rightarrow> action_intent \<Rightarrow> info \<Rightarrow> info \<Rightarrow> info \<Rightarrow> f64 \<Rightarrow> info res" where
  "stop_request T c i position symbol tick stop =
     res_bind (optional_price T (info_get position ''sl'')) (\<lambda>current.
     res_bind (transport_guard (stop_monotone (pai_side i) current stop) ''protective stop is not monotonic'') (\<lambda>_.
     res_bind (required_positive T symbol ''point'') (\<lambda>point.
     res_bind (required_positive T symbol ''trade_tick_size'') (\<lambda>tick_size.
     res_bind (required_positive T tick (if pai_side i = PS_BUY then ''bid'' else ''ask'')) (\<lambda>price.
     res_bind (transport_guard (protective_side (pai_side i) stop price)
       ''protective stop is on the invalid market side'') (\<lambda>_.
     res_bind (fdiv stop tick_size) (\<lambda>grid.
     res_bind (whole_number grid (lit (1 / 10 ^ 7))) (\<lambda>on_grid.
     res_bind (transport_guard on_grid ''protective stop is off the broker tick grid'') (\<lambda>_.
     res_bind (int_value T (info_get symbol ''trade_stops_level'') 0) (\<lambda>stops.
     res_bind (int_value T (info_get symbol ''trade_freeze_level'') 0) (\<lambda>freeze.
     res_bind (float_of_int (max stops freeze)) (\<lambda>level.
     res_bind (transport_guard (\<not> flt (fadd (fabs (fsub price stop)) (lit (1 / 10 ^ 12))) (fmul level point))
       ''protective stop violates broker stop/freeze distance'') (\<lambda>_.
     res_bind (optional_price T (info_get position ''tp'')) (\<lambda>tp.
     Inr [(''action'', PvInt (mc_action_sltp c)), (''sl'', PvFloat stop),
          (''tp'', PvFloat (case tp of None \<Rightarrow> Fin 0 | Some x \<Rightarrow> x))]))))))))))))))"

definition close_request ::
  "texts \<Rightarrow> mt5_constants \<Rightarrow> transport_config \<Rightarrow> action_intent \<Rightarrow> info \<Rightarrow> info \<Rightarrow> info res" where
  "close_request T c cfg i symbol tick = (case pai_close_volume i of
     None \<Rightarrow> Inl (TransportError ''position action is not an exact full close'')
   | Some v \<Rightarrow>
       res_bind (transport_guard (abs_close v (pai_volume i)) ''position action is not an exact full close'') (\<lambda>_.
       res_bind (volume_guard T v symbol) (\<lambda>_.
       let buying = pai_side i = PS_SELL in
       res_bind (required_positive T tick (if buying then ''ask'' else ''bid'')) (\<lambda>price.
       Inr [(''action'', PvInt (mc_action_deal c)), (''volume'', PvFloat v),
            (''type'', PvInt (if buying then mc_order_buy c else mc_order_sell c)), (''price'', PvFloat price),
            (''deviation'', PvInt (tc_deviation_points cfg)), (''type_time'', PvInt (mc_time_gtc c)),
            (''type_filling'', PvInt (mc_filling_ioc c))]))))"

definition position_request ::
  "texts \<Rightarrow> mt5_constants \<Rightarrow> transport_config \<Rightarrow> action_intent \<Rightarrow> int \<Rightarrow> info \<Rightarrow> info \<Rightarrow> info \<Rightarrow> string
     \<Rightarrow> info res" where
  "position_request T c cfg i ticket position symbol tick name =
     res_bind
       (if pai_action i = PA_MODIFY_STOP
        then (case pai_new_stop i of
            None \<Rightarrow> Inl (TransportError ''protective action lacks requested stop'')
          | Some stop \<Rightarrow> stop_request T c i position symbol tick stop)
        else close_request T c cfg i symbol tick)
       (\<lambda>fields. Inr (base_request c cfg i ticket name @ fields))"

definition order_checked :: "texts \<Rightarrow> info option \<Rightarrow> unit res" where
  "order_checked T check = (case check of
     None \<Rightarrow> Inl (TransportError ''MT5 order_check rejected position action: None'')
   | Some m \<Rightarrow> res_bind (int_value T (info_get m ''retcode'') (- 1)) (\<lambda>k.
       transport_guard (k = 0) (''MT5 order_check rejected position action: '' @ tx_info T m)))"

definition position_facts ::
  "'w position_adapter \<Rightarrow> action_intent \<Rightarrow> ('w, info) eff" where
  "position_facts A i =
     (let G = pxa_gateway A; T = pxa_texts A; c = gw_constants G in
     eff_bind (gw_connect G) (\<lambda>_.
     eff_bind (gw_terminal_info G) (\<lambda>terminal.
     eff_bind (gw_account_info G) (\<lambda>account.
     eff_bind (eff_of (to_broker (pxa_mapping A) (pai_symbol i))) (\<lambda>name.
     eff_bind (eff_of (session_guard T c terminal account)) (\<lambda>_.
     eff_bind (eff_of (case pai_broker_ticket i of
         None \<Rightarrow> Inl (TransportError ''position action lacks exact broker ticket'') | Some k \<Rightarrow> Inr k)) (\<lambda>ticket.
     eff_bind (gw_symbol_select G name True) (\<lambda>selected.
     eff_bind (eff_of (transport_guard selected ''configured MT5 symbol could not be selected'')) (\<lambda>_.
     eff_bind (gw_positions_get G name) (\<lambda>ps.
     eff_bind (eff_of (exact_position T ticket ps)) (\<lambda>position.
     eff_bind (gw_symbol_info G name) (\<lambda>symbol.
     eff_bind (gw_symbol_info_tick G name) (\<lambda>tick.
     eff_bind (eff_of (symbol_facts T c name symbol tick)) (\<lambda>(y, k).
     eff_bind (pxa_clock A) (\<lambda>now.
     eff_bind (eff_of (tick_guard T (pxa_config A) k now)) (\<lambda>_.
     eff_bind (eff_of (position_guard T c i position name)) (\<lambda>_.
     eff_bind (eff_of (position_request T c (pxa_config A) i ticket position y k name)) (\<lambda>request.
     eff_bind (gw_order_check G request) (\<lambda>check.
     eff_bind (eff_of (order_checked T check)) (\<lambda>_.
     eff_return request))))))))))))))))))))"

definition position_checked_request :: "'w position_adapter \<Rightarrow> action_intent \<Rightarrow> ('w, info) eff" where
  "position_checked_request A i =
     eff_bind (pxa_kill_switch A) (\<lambda>active.
     if active then eff_of (Inl (TransportError ''execution kill switch is active''))
     else eff_catch (position_facts A i) (\<lambda>e. case e of
       TransportError _ \<Rightarrow> None
     | _ \<Rightarrow> Some (eff_of (Inl (TransportError
         (''MT5 position-action preflight failed: '' @ tx_error (pxa_texts A) e))))))"

subsection \<open>The adapter\<close>

record ('l, 'w) action_state =
  pxs_ledger :: 'l
  pxs_world :: 'w
  pxs_log :: "(action_intent \<times> info) list"

definition act_ledger :: "('l, 'a) eff \<Rightarrow> (('l, 'w) action_state, 'a) eff" where
  "act_ledger m s = (case m (pxs_ledger s) of (x, l) \<Rightarrow> (x, s\<lparr>pxs_ledger := l\<rparr>))"

definition act_world :: "('w, 'a) eff \<Rightarrow> (('l, 'w) action_state, 'a) eff" where
  "act_world m s = (case m (pxs_world s) of (x, w) \<Rightarrow> (x, s\<lparr>pxs_world := w\<rparr>))"

definition send_order ::
  "'w position_adapter \<Rightarrow> action_intent \<Rightarrow> info \<Rightarrow> (('l, 'w) action_state, info option) eff" where
  "send_order A i request s =
     act_world (gw_order_send (pxa_gateway A) request) (s\<lparr>pxs_log := pxs_log s @ [(i, request)]\<rparr>)"

definition blank_action_result :: "action_intent \<Rightarrow> int \<Rightarrow> dt \<Rightarrow> action_result" where
  "blank_action_result i ticket t =
     \<lparr>par_id = [], par_intent_id = pai_id i, par_action = pai_action i, par_position_id = pai_position_id i,
      par_ticket = ticket, par_symbol = pai_symbol i, par_side = pai_side i, par_status = XS_UNKNOWN,
      par_reason_code = None, par_reason = None, par_requested_volume = pai_close_volume i,
      par_executed_volume = None, par_requested_stop = pai_new_stop i, par_fill_price = None,
      par_transport_id = None, par_retcode = None, par_broker_status = None, par_event_time = t,
      par_observed_at = t, par_available_at = t\<rparr>"

text \<open>\<open>_result\<close>: the clock is read before the ticket is required.\<close>

definition action_outcome ::
  "(action_result \<Rightarrow> string) \<Rightarrow> 'w position_adapter \<Rightarrow> action_intent \<Rightarrow> (action_result \<Rightarrow> action_result)
     \<Rightarrow> ('w, action_result) eff" where
  "action_outcome h A i fill = eff_bind (pxa_clock A) (\<lambda>t. eff_of (case pai_broker_ticket i of
     None \<Rightarrow> Inl (ValueError ''transport result requires exact broker ticket'')
   | Some k \<Rightarrow> mk_action_result h (fill (blank_action_result i k t))))"

definition stating :: "execution_result_status \<Rightarrow> execution_reason \<Rightarrow> string \<Rightarrow> action_result \<Rightarrow> action_result" where
  "stating st code reason r = r\<lparr>par_status := st, par_reason_code := Some code, par_reason := Some reason\<rparr>"

abbreviation unknown_action :: "string \<Rightarrow> action_result \<Rightarrow> action_result" where
  "unknown_action \<equiv> stating XS_UNKNOWN UNKNOWN_SUBMISSION"

abbreviation failed_action :: "string \<Rightarrow> action_result \<Rightarrow> action_result" where
  "failed_action \<equiv> stating XS_FAILED TRANSPORT_FAILED"

abbreviation skipped_action :: "execution_reason \<Rightarrow> action_result \<Rightarrow> action_result" where
  "skipped_action code \<equiv> stating XS_NO_ACTION code (reason_value code)"

definition response_status :: "mt5_constants \<Rightarrow> int \<Rightarrow> execution_result_status" where
  "response_status c k =
     (if k = mc_retcode_partial c then XS_PARTIALLY_FILLED
      else if k = mc_retcode_done c then XS_FILLED
      else if k = mc_retcode_placed c then XS_ACCEPTED else XS_REJECTED)"

definition response_volumes :: "texts \<Rightarrow> action_intent \<Rightarrow> info \<Rightarrow> (f64 option \<times> f64 option) res" where
  "response_volumes T i m =
     (if pai_action i = PA_CLOSE
      then res_bind (float_value T (info_get m ''volume'') (Some (Fin 0))) (\<lambda>v.
           res_bind (optional_price T (info_get m ''price'')) (\<lambda>p. Inr (Some v, p)))
      else Inr (None, None))"

definition response_transport_id :: "int option \<Rightarrow> int option \<Rightarrow> string option" where
  "response_transport_id deal order = (case (deal, order) of
     (Some d, _) \<Rightarrow> Some (''mt5-deal-'' @ int_text d)
   | (None, Some k) \<Rightarrow> Some (''mt5-order-'' @ int_text k)
   | (None, None) \<Rightarrow> None)"

definition broker_action_result ::
  "(action_result \<Rightarrow> string) \<Rightarrow> 'w position_adapter \<Rightarrow> action_intent \<Rightarrow> info \<Rightarrow> ('w, action_result) eff" where
  "broker_action_result h A i m =
     (let T = pxa_texts A; c = gw_constants (pxa_gateway A) in
     eff_bind (eff_of (int_value T (info_get m ''retcode'') (- 1))) (\<lambda>retcode.
     let st = response_status c retcode; rejected = st = XS_REJECTED in
     eff_bind (eff_of (response_volumes T i m)) (\<lambda>(executed, price).
     eff_bind (eff_of (positive_int T (info_get m ''deal''))) (\<lambda>deal.
     eff_bind (eff_of (positive_int T (info_get m ''order''))) (\<lambda>order.
     action_outcome h A i (\<lambda>r. r\<lparr>par_status := st,
       par_reason_code := (if rejected then Some BROKER_REJECTED else None),
       par_reason := (if rejected then Some (py_str T (info_get m ''comment'')) else None),
       par_executed_volume := executed, par_fill_price := price,
       par_transport_id := response_transport_id deal order, par_retcode := Some (int_text retcode),
       par_broker_status := Some (py_str T (info_get_or m ''comment'' (PvText [])))\<rparr>))))))"

definition record_action ::
  "'l action_port \<Rightarrow> ('w, action_result) eff \<Rightarrow> (('l, 'w) action_state, action_result) eff" where
  "record_action L m = eff_bind (act_world m) (\<lambda>r.
     eff_bind (act_ledger (ap_record L r)) (\<lambda>_. eff_return r))"

datatype send_outcome = Acknowledged "info option" | SendUnknown string | SendFailed string

text \<open>The last read and the call, and what their exceptions mean: only a transport failure is a failure.\<close>

definition checked_send ::
  "'w position_adapter \<Rightarrow> action_intent \<Rightarrow> (('l, 'w) action_state, send_outcome) eff" where
  "checked_send A i = eff_catch
     (eff_bind (act_world (position_checked_request A i)) (\<lambda>request.
      eff_bind (send_order A i request) (\<lambda>m. eff_return (Acknowledged m))))
     (\<lambda>e. Some (eff_return (case e of
        UnknownSubmission msg \<Rightarrow> SendUnknown msg
      | TransportError msg \<Rightarrow> SendFailed msg
      | _ \<Rightarrow> SendUnknown (''MT5 order_send outcome is unknown: '' @ tx_error (pxa_texts A) e))))"

definition action_result_of ::
  "(action_result \<Rightarrow> string) \<Rightarrow> 'w position_adapter \<Rightarrow> action_intent \<Rightarrow> send_outcome \<Rightarrow> ('w, action_result) eff" where
  "action_result_of h A i v = (case v of
     SendUnknown msg \<Rightarrow> action_outcome h A i (unknown_action msg)
   | SendFailed msg \<Rightarrow> action_outcome h A i (failed_action msg)
   | Acknowledged None \<Rightarrow> action_outcome h A i
       (unknown_action ''MT5 order_send returned no acknowledgement; reconciliation required'')
   | Acknowledged (Some m) \<Rightarrow> eff_catch (broker_action_result h A i m) (\<lambda>e. Some (action_outcome h A i
       (unknown_action (''MT5 acknowledgement could not be interpreted: '' @ tx_error (pxa_texts A) e)))))"

definition reserved_action ::
  "(action_result \<Rightarrow> string) \<Rightarrow> 'l action_port \<Rightarrow> 'w position_adapter \<Rightarrow> action_intent
     \<Rightarrow> (('l, 'w) action_state, action_result) eff" where
  "reserved_action h L A i =
     (if pxa_mode A = EM_DISABLED
      then record_action L (action_outcome h A i (skipped_action EXECUTION_DISABLED))
      else eff_bind
        (eff_catch (eff_bind (act_world (position_checked_request A i)) (\<lambda>_. eff_return None))
          (\<lambda>e. case e of TransportError msg \<Rightarrow> Some (eff_return (Some msg)) | _ \<Rightarrow> None))
        (\<lambda>failure. case failure of
           Some msg \<Rightarrow> record_action L (action_outcome h A i (failed_action msg))
         | None \<Rightarrow>
             if pxa_mode A = EM_DRY_RUN
             then record_action L (action_outcome h A i (skipped_action DRY_RUN))
             else eff_bind (checked_send A i) (\<lambda>v. record_action L (action_result_of h A i v))))"

definition position_execute ::
  "(action_result \<Rightarrow> string) \<Rightarrow> 'l action_port \<Rightarrow> 'w position_adapter \<Rightarrow> action_intent
     \<Rightarrow> (('l, 'w) action_state, action_result) eff" where
  "position_execute h L A i s = (case ap_get L (pai_id i) (pxs_ledger s) of
     Some prior \<Rightarrow> (Inr prior, s)
   | None \<Rightarrow> eff_bind (act_ledger (ap_reserve L i)) (\<lambda>fresh.
       if \<not> fresh
       then record_action L (action_outcome h A i (unknown_action ''reserved position action requires reconciliation''))
       else reserved_action h L A i) s)"

text \<open>A life of the system: actions in any order, by any adapters.\<close>

fun run_actions ::
  "(action_result \<Rightarrow> string) \<Rightarrow> 'l action_port \<Rightarrow> ('w position_adapter \<times> action_intent) list
     \<Rightarrow> ('l, 'w) action_state \<Rightarrow> ('l, 'w) action_state" where
  "run_actions h L [] s = s"
| "run_actions h L ((A, i) # cs) s = run_actions h L cs (snd (position_execute h L A i s))"

subsection \<open>What a sent request guarantees\<close>

text \<open>
  The facts behind a request: the last answers of the terminal, the clock and the kill switch before it went out
  show an inactive kill switch, a connected terminal that allows trading, a demo account with expert trading, a
  symbol that is not disabled, a tick that is fresh at the clock, a broker that checked this very request, and
  exactly one listed position with the intent's ticket, of its direction and volume; and the request either moves
  the stop monotonically on the protective side of the market or closes the whole position.
\<close>

definition stop_move_exact :: "texts \<Rightarrow> action_intent \<Rightarrow> info \<Rightarrow> info \<Rightarrow> info \<Rightarrow> bool" where
  "stop_move_exact T i position tick request \<longleftrightarrow> (\<exists>stop current price.
     pai_new_stop i = Some stop \<and> info_get request ''sl'' = PvFloat stop \<and>
     optional_price T (info_get position ''sl'') = Inr current \<and> optional_close current (pai_old_stop i) \<and>
     stop_monotone (pai_side i) current stop \<and>
     required_positive T tick (if pai_side i = PS_BUY then ''bid'' else ''ask'') = Inr price \<and>
     protective_side (pai_side i) stop price)"

definition full_close_exact :: "mt5_constants \<Rightarrow> action_intent \<Rightarrow> info \<Rightarrow> bool" where
  "full_close_exact c i request \<longleftrightarrow> (\<exists>v. pai_close_volume i = Some v \<and> abs_close v (pai_volume i) \<and>
     info_get request ''volume'' = PvFloat v \<and>
     info_get request ''type'' = PvInt (if pai_side i = PS_SELL then mc_order_buy c else mc_order_sell c))"

definition trading_session :: "texts \<Rightarrow> mt5_constants \<Rightarrow> terminal_view \<Rightarrow> bool" where
  "trading_session T c V \<longleftrightarrow> tv_kill V = Some False \<and> (\<exists>terminal account.
     tv_terminal V = Some terminal \<and> is_one (info_get terminal ''connected'') \<and>
     is_one (info_get terminal ''trade_allowed'') \<and> tv_account V = Some account \<and>
     int_value T (info_get account ''trade_mode'') (- 1) = Inr (mc_account_demo c) \<and>
     is_one (info_get account ''trade_allowed'') \<and> is_one (info_get account ''trade_expert''))"

definition live_market :: "texts \<Rightarrow> mt5_constants \<Rightarrow> transport_config \<Rightarrow> string \<Rightarrow> info \<Rightarrow> terminal_view \<Rightarrow> bool" where
  "live_market T c cfg name tick V \<longleftrightarrow> (\<exists>symbol mode raw sec t now.
     tv_symbol V = Some (name, symbol) \<and>
     int_value T (info_get symbol ''trade_mode'') (mc_symbol_disabled c) = Inr mode \<and> mode \<noteq> mc_symbol_disabled c \<and>
     tv_tick V = Some (name, tick) \<and> float_value T (info_get tick ''time_msc'') None = Inr raw \<and>
     fdiv raw (Fin 1000) = Inr sec \<and> from_timestamp sec = Inr t \<and> tv_clock V = Some now \<and>
     \<not> flt (total_seconds (now - t)) (Fin 0) \<and> \<not> flt (tc_max_tick_age cfg) (total_seconds (now - t)))"

definition broker_checked :: "texts \<Rightarrow> info \<Rightarrow> terminal_view \<Rightarrow> bool" where
  "broker_checked T request V \<longleftrightarrow>
     (\<exists>m. tv_check V = Some (request, m) \<and> int_value T (info_get m ''retcode'') (- 1) = Inr 0)"

definition present_position ::
  "texts \<Rightarrow> mt5_constants \<Rightarrow> action_intent \<Rightarrow> string \<Rightarrow> int \<Rightarrow> info \<Rightarrow> terminal_view \<Rightarrow> bool" where
  "present_position T c i name ticket position V \<longleftrightarrow> (\<exists>ps v.
     tv_positions V = Some (name, ps) \<and>
     filter (\<lambda>p. int_value T (info_get p ''ticket'') (- 1) = Inr ticket) ps = [position] \<and>
     py_str T (info_get_or position ''symbol'' (PvText [])) = name \<and>
     int_value T (info_get position ''type'') (- 1) =
       Inr (if pai_side i = PS_BUY then mc_position_buy c else mc_position_sell c) \<and>
     float_value T (info_get position ''volume'') (Some (Fin 0)) = Inr v \<and> abs_close v (pai_volume i))"

definition exact_action :: "'w position_adapter \<Rightarrow> action_intent \<Rightarrow> terminal_view \<Rightarrow> info \<Rightarrow> bool" where
  "exact_action A i V request \<longleftrightarrow> (let T = pxa_texts A; c = gw_constants (pxa_gateway A) in
     pxa_mode A = EM_DEMO_ENABLED \<and> trading_session T c V \<and> broker_checked T request V \<and>
     (\<exists>name position tick ticket.
       to_broker (pxa_mapping A) (pai_symbol i) = Inr name \<and> info_get request ''symbol'' = PvText name \<and>
       info_get request ''comment'' = PvText (pai_id i) \<and>
       pai_broker_ticket i = Some ticket \<and> info_get request ''position'' = PvInt ticket \<and>
       present_position T c i name ticket position V \<and> live_market T c (pxa_config A) name tick V \<and>
       (if pai_action i = PA_MODIFY_STOP then stop_move_exact T i position tick request
        else full_close_exact c i request)))"

text \<open>An adapter whose reads are recorded.\<close>

definition logged_position :: "'w position_adapter \<Rightarrow> ('w \<times> terminal_event list) position_adapter" where
  "logged_position A = \<lparr>pxa_mode = pxa_mode A, pxa_gateway = logged_gateway (pxa_gateway A),
     pxa_mapping = pxa_mapping A, pxa_clock = noted SawClock (pxa_clock A),
     pxa_kill_switch = noted SawKill (pxa_kill_switch A), pxa_config = pxa_config A, pxa_texts = pxa_texts A\<rparr>"

lemma logged_position_fields [simp]:
  "pxa_mode (logged_position A) = pxa_mode A" "pxa_gateway (logged_position A) = logged_gateway (pxa_gateway A)"
  "pxa_mapping (logged_position A) = pxa_mapping A" "pxa_clock (logged_position A) = noted SawClock (pxa_clock A)"
  "pxa_kill_switch (logged_position A) = noted SawKill (pxa_kill_switch A)"
  "pxa_config (logged_position A) = pxa_config A" "pxa_texts (logged_position A) = pxa_texts A"
  by (simp_all add: logged_position_def)

lemma exact_action_id: "exact_action A i V request \<Longrightarrow> request_id request = pai_id i"
  by (auto simp: exact_action_def Let_def request_id_def)

lemma exact_position_sole:
  assumes "exact_position T k ps = Inr p"
  shows "filter (\<lambda>p. int_value T (info_get p ''ticket'') (- 1) = Inr k) ps = [p]"
proof -
  have "ticket_matches T k ps = Inr ms \<Longrightarrow>
      ms = filter (\<lambda>p. int_value T (info_get p ''ticket'') (- 1) = Inr k) ps" for ms
    by (induction ps arbitrary: ms) (auto simp: ticket_matches_def res_bind_Inr_iff split: if_splits)
  then obtain ms where "ms = filter (\<lambda>p. int_value T (info_get p ''ticket'') (- 1) = Inr k) ps" "(case ms of [p] \<Rightarrow> Inr p
      | _ \<Rightarrow> Inl (TransportError ''exact broker-ticket position match is unavailable'')) = Inr p"
    using assms by (auto simp: exact_position_def res_bind_Inr_iff)
  moreover from this(2) have "ms = [p]" by (auto split: list.splits)
  ultimately show ?thesis by simp
qed

lemma position_request_exact:
  assumes "position_request T c cfg i ticket position symbol tick name = Inr request"
    and "position_guard T c i position name = Inr ()"
  shows "info_get request ''position'' = PvInt ticket \<and> info_get request ''symbol'' = PvText name \<and>
      info_get request ''comment'' = PvText (pai_id i)"
    and "if pai_action i = PA_MODIFY_STOP then stop_move_exact T i position tick request else full_close_exact c i request"
proof -
  show "info_get request ''position'' = PvInt ticket \<and> info_get request ''symbol'' = PvText name \<and>
      info_get request ''comment'' = PvText (pai_id i)"
    using assms(1) by (auto simp: position_request_def res_bind_Inr_iff base_request_def info_get_def)
  have old: "\<exists>current. optional_price T (info_get position ''sl'') = Inr current \<and> optional_close current (pai_old_stop i)"
    using assms(2) by (auto simp: position_guard_def res_bind_Inr_iff)
  show "if pai_action i = PA_MODIFY_STOP then stop_move_exact T i position tick request else full_close_exact c i request"
  proof (cases "pai_action i = PA_MODIFY_STOP")
    case True
    then obtain stop fields where f: "pai_new_stop i = Some stop" "stop_request T c i position symbol tick stop = Inr fields"
        "request = base_request c cfg i ticket name @ fields"
      using assms(1) by (auto simp: position_request_def res_bind_Inr_iff split: option.splits)
    from f(2) have "stop_move_exact T i position tick request"
      unfolding stop_move_exact_def using f(1,3) old
      by (auto simp: stop_request_def res_bind_Inr_iff base_request_def info_get_def)
    then show ?thesis using True by simp
  next
    case False
    then obtain fields where f: "close_request T c cfg i symbol tick = Inr fields"
        "request = base_request c cfg i ticket name @ fields"
      using assms(1) by (auto simp: position_request_def res_bind_Inr_iff)
    from f(1) have "full_close_exact c i request"
      unfolding full_close_exact_def using f(2)
      by (auto simp: close_request_def res_bind_Inr_iff base_request_def info_get_def Let_def split: option.splits)
    then show ?thesis using False by simp
  qed
qed

lemma position_facts_log:
  assumes "position_facts (logged_position A) i v = (Inr request, v')"
    "T = pxa_texts A" "c = gw_constants (pxa_gateway A)"
  obtains name terminal account ticket ps position symbol tick y k now check where
    "session_guard T c terminal account = Inr ()" "pai_broker_ticket i = Some ticket"
    "to_broker (pxa_mapping A) (pai_symbol i) = Inr name"
    "exact_position T ticket ps = Inr position" "symbol_facts T c name symbol tick = Inr (y, k)"
    "tick_guard T (pxa_config A) k now = Inr ()" "position_guard T c i position name = Inr ()"
    "position_request T c (pxa_config A) i ticket position y k name = Inr request" "order_checked T check = Inr ()"
    "snd v' = snd v @ [SawTerminal terminal, SawAccount account, SawPositions name ps, SawSymbol name symbol,
       SawTick name tick, SawClock now, SawCheck request check]"
  using assms
  by (auto simp: position_facts_def Let_def eff_bind_Inr_iff eff_of_Inr_iff eff_return_def noted_Inr logged_Inr
      split: option.splits)

lemma position_facts_exact:
  assumes "position_facts (logged_position A) i v = (Inr request, v')" "pxa_mode A = EM_DEMO_ENABLED"
    "tv_kill (view_of (snd v)) = Some False"
  shows "exact_action A i (view_of (snd v')) request"
proof -
  let ?T = "pxa_texts A" and ?c = "gw_constants (pxa_gateway A)"
  obtain name terminal account ticket ps position symbol tick y k now check where
    s: "session_guard ?T ?c terminal account = Inr ()" and t: "pai_broker_ticket i = Some ticket"
      "to_broker (pxa_mapping A) (pai_symbol i) = Inr name"
    and p: "exact_position ?T ticket ps = Inr position" and y: "symbol_facts ?T ?c name symbol tick = Inr (y, k)"
    and f: "tick_guard ?T (pxa_config A) k now = Inr ()" and g: "position_guard ?T ?c i position name = Inr ()"
    and r: "position_request ?T ?c (pxa_config A) i ticket position y k name = Inr request"
    and h: "order_checked ?T check = Inr ()"
    and l: "snd v' = snd v @ [SawTerminal terminal, SawAccount account, SawPositions name ps, SawSymbol name symbol,
       SawTick name tick, SawClock now, SawCheck request check]"
    by (rule position_facts_log[OF assms(1) refl refl])
  define V where "V = view_of (snd v')"
  have V: "tv_kill V = Some False" "tv_terminal V = terminal" "tv_account V = account" "tv_positions V = Some (name, ps)"
      "tv_symbol V = map_option (Pair name) symbol" "tv_tick V = map_option (Pair name) tick" "tv_clock V = Some now"
      "tv_check V = map_option (Pair request) check"
    using assms(3) by (simp_all add: V_def l view_of_def)
  have "trading_session ?T ?c V"
    using s V by (auto simp: trading_session_def session_guard_def res_bind_Inr_iff split: option.splits)
  moreover have "broker_checked ?T request V"
    using h V by (auto simp: broker_checked_def order_checked_def res_bind_Inr_iff split: option.splits)
  moreover have "present_position ?T ?c i name ticket position V"
    using g V exact_position_sole[OF p] by (auto simp: present_position_def position_guard_def res_bind_Inr_iff)
  moreover have "live_market ?T ?c (pxa_config A) name k V"
    using y f V by (auto simp: live_market_def symbol_facts_def tick_guard_def res_bind_Inr_iff split: option.splits)
  ultimately show ?thesis
    using t assms(2) position_request_exact[OF r g] unfolding exact_action_def Let_def V_def[symmetric] by blast
qed

lemma checked_request_exact:
  assumes "position_checked_request (logged_position A) i v = (Inr request, v')" "pxa_mode A = EM_DEMO_ENABLED"
  shows "exact_action A i (view_of (snd v')) request"
proof -
  obtain t where k: "noted SawKill (pxa_kill_switch A) v = (Inr False, t)"
    using assms(1) by (auto simp: position_checked_request_def eff_bind_Inr_iff eff_of_def split: if_splits)
  then have seen: "tv_kill (view_of (snd t)) = Some False" by (simp add: noted_Inr)
  obtain x t' where f: "position_facts (logged_position A) i t = (x, t')" by (rule prod.exhaust)
  show ?thesis
  proof (cases x)
    case (Inl e)
    then show ?thesis
      using assms(1) k f
      by (cases e) (simp_all add: position_checked_request_def eff_bind_def eff_catch_def eff_of_def)
  next
    case (Inr r)
    then have "r = request" "t' = v'"
      using assms(1) k f by (simp_all add: position_checked_request_def eff_bind_def eff_catch_def)
    then show ?thesis using position_facts_exact[of A i t r t'] f Inr assms(2) seen by simp
  qed
qed

lemma unsent_position_request [unsent_rules]: "effect_of unsent (position_checked_request (logged_position A) i)"
  unfolding position_checked_request_def position_facts_def Let_def
  by (auto intro!: unsent_rules split: py_error.splits prod.split)

lemma unsent_outcome [unsent_rules]: "effect_of unsent (action_outcome h (logged_position A) i fill)"
  unfolding action_outcome_def by (auto intro!: unsent_rules)

lemma unsent_result [unsent_rules]: "effect_of unsent (action_result_of h (logged_position A) i v)"
  unfolding action_result_of_def broker_action_result_def Let_def
  by (auto intro!: unsent_rules split: send_outcome.split option.split prod.split)

subsection \<open>At most once\<close>

locale action_ledger = reservation_ledger "ap_get L" reserved "ap_reserve L" "ap_record L" pai_id par_intent_id inv
  for L :: "'l action_port" and reserved :: "string \<Rightarrow> 'l \<Rightarrow> bool" and inv :: "'l \<Rightarrow> bool"
begin

definition calm ::
  "('l, 'w \<times> terminal_event list) action_state \<Rightarrow> ('l, 'w \<times> terminal_event list) action_state \<Rightarrow> bool" where
  "calm s s' \<longleftrightarrow> pxs_log s' = pxs_log s \<and> settles (pxs_ledger s) (pxs_ledger s') \<and>
     unsent (pxs_world s) (pxs_world s')"

text \<open>One request goes out, and the adapter and the terminal agree on it.\<close>

definition acts ::
  "'w position_adapter \<Rightarrow> action_intent \<Rightarrow> ('l, 'w \<times> terminal_event list) action_state
     \<Rightarrow> ('l, 'w \<times> terminal_event list) action_state \<Rightarrow> bool" where
  "acts A i s s' \<longleftrightarrow> settles (pxs_ledger s) (pxs_ledger s') \<and>
     (pxs_log s' = pxs_log s \<and> unsent (pxs_world s) (pxs_world s') \<or>
      (\<exists>V request. exact_action A i V request \<and> pxs_log s' = pxs_log s @ [(i, request)] \<and>
        orders_sent (snd (pxs_world s')) = orders_sent (snd (pxs_world s)) @ [(V, request)]))"

lemma calm_rel [simp]: "reflp calm" "transp calm"
  by (auto simp: reflp_def transp_def calm_def unsent_def intro: settles_trans)

lemma acts_refl [simp]: "reflp (acts A i)"
  by (simp add: reflp_def acts_def unsent_def)

lemma calm_acts: "effect_of calm m \<Longrightarrow> effect_of (acts A i) m"
  by (rule effect_of_mono[of calm]) (auto simp: calm_def acts_def)

lemma calm_world:
  fixes m :: "('w \<times> terminal_event list, 'a) eff"
  assumes "effect_of unsent m"
  shows "effect_of calm (act_world m)"
  unfolding effect_of_def
proof
  fix s :: "('l, 'w \<times> terminal_event list) action_state"
  show "calm s (snd (act_world m s))"
    using effect_ofD[OF assms, of "pxs_world s"] by (cases "m (pxs_world s)") (simp add: act_world_def calm_def)
qed

lemma calm_record: "effect_of unsent m \<Longrightarrow> effect_of calm (record_action L m)"
proof -
  assume m: "effect_of unsent m"
  have "effect_of calm (act_ledger (ap_record L r))" for r
    by (auto simp: effect_of_def act_ledger_def calm_def unsent_def split: prod.split intro: recording_settles)
  then show ?thesis
    unfolding record_action_def by (intro effect_of_bind calm_world m effect_of_pure) simp_all
qed

lemma calm_then_acts:
  assumes "effect_of calm m" "\<And>x. effect_of (acts A i) (k x)"
  shows "effect_of (acts A i) (eff_bind m k)"
  by (rule effect_of_mono[OF effect_of_seq[OF assms acts_refl]])
    (auto simp: calm_def acts_def unsent_def intro: settles_trans)

lemma acts_then_calm:
  assumes "effect_of (acts A i) m" "\<And>x. effect_of calm (k x)"
  shows "effect_of (acts A i) (eff_bind m k)"
  by (rule effect_of_mono[OF effect_of_seq[OF assms]])
    (auto simp: calm_def acts_def unsent_def intro: settles_trans, blast+)

lemma send_acts:
  fixes A :: "'w position_adapter"
  assumes "pxa_mode A = EM_DEMO_ENABLED"
  shows "effect_of (acts A i) (checked_send (logged_position A) i)"
  unfolding effect_of_def
proof
  let ?A = "logged_position A"
  fix s :: "('l, 'w \<times> terminal_event list) action_state"
  obtain x v where r: "position_checked_request ?A i (pxs_world s) = (x, v)" by (rule prod.exhaust)
  have u: "unsent (pxs_world s) v" using effect_ofD[OF unsent_position_request r] .
  show "acts A i s (snd (checked_send ?A i s))"
  proof (cases x)
    case (Inl e)
    then show ?thesis
      using r u by (simp add: checked_send_def eff_catch_def eff_bind_def act_world_def eff_return_def acts_def)
  next
    case (Inr request)
    have e: "exact_action A i (view_of (snd v)) request"
      using checked_request_exact[of A i "pxs_world s" request v] assms r Inr by simp
    obtain y v' where g: "sending request (gw_order_send (pxa_gateway A) request) v = (y, v')" by (rule prod.exhaust)
    then have "orders_sent (snd v') = orders_sent (snd (pxs_world s)) @ [(view_of (snd v), request)]"
      using orders_sent_sending[of request "gw_order_send (pxa_gateway A) request" v] u by (simp add: unsent_def)
    moreover have "pxs_log (snd (checked_send ?A i s)) = pxs_log s @ [(i, request)] \<and>
        pxs_ledger (snd (checked_send ?A i s)) = pxs_ledger s \<and> pxs_world (snd (checked_send ?A i s)) = v'"
      using r Inr g by (cases y)
        (simp_all add: checked_send_def eff_catch_def eff_bind_def act_world_def eff_return_def send_order_def)
    ultimately show ?thesis using e by (auto simp: acts_def)
  qed
qed

lemma reserved_acts:
  fixes A :: "'w position_adapter"
  shows "effect_of (acts A i) (reserved_action h L (logged_position A) i)"
proof (cases "pxa_mode A")
  case EM_DISABLED
  then show ?thesis by (simp add: reserved_action_def calm_acts calm_record unsent_rules)
next
  case EM_DRY_RUN
  then show ?thesis
    unfolding reserved_action_def
    by (auto intro!: calm_acts calm_record effect_of_bind effect_of_catch calm_world effect_of_pure
        unsent_position_request unsent_outcome split: py_error.splits option.splits)
next
  case EM_DEMO_ENABLED
  let ?A = "logged_position A"
  let ?check = "eff_catch (eff_bind (act_world (position_checked_request ?A i)) (\<lambda>_. eff_return None))
    (\<lambda>e. case e of TransportError msg \<Rightarrow> Some (eff_return (Some msg)) | _ \<Rightarrow> None)"
  have "effect_of calm ?check"
    by (auto intro!: effect_of_bind effect_of_catch calm_world effect_of_pure unsent_position_request
        split: py_error.splits)
  moreover have "effect_of (acts A i) (eff_bind (checked_send ?A i) (\<lambda>v. record_action L (action_result_of h ?A i v)))"
    using EM_DEMO_ENABLED by (intro acts_then_calm send_acts calm_record unsent_result)
  ultimately have "effect_of (acts A i) (eff_bind ?check
        (\<lambda>failure. case failure of
           Some msg \<Rightarrow> record_action L (action_outcome h ?A i (failed_action msg))
         | None \<Rightarrow> eff_bind (checked_send ?A i) (\<lambda>v. record_action L (action_result_of h ?A i v))))"
    by (intro calm_then_acts) (auto intro: calm_acts calm_record unsent_outcome split: option.split)
  then show ?thesis using EM_DEMO_ENABLED by (simp add: reserved_action_def)
qed

definition action_log_ok :: "('l, 'w) action_state \<Rightarrow> bool" where
  "action_log_ok s \<longleftrightarrow> books_ok (pxs_ledger s) (map (\<lambda>(i, _). pai_id i) (pxs_log s))"

lemma execute_books:
  assumes "position_execute h L (logged_position A) i s = (x, s')" "action_log_ok s"
  shows "action_log_ok s'"
    and "pxs_log s' = pxs_log s \<and> unsent (pxs_world s) (pxs_world s') \<or>
      (\<exists>V request. exact_action A i V request \<and> pxs_log s' = pxs_log s @ [(i, request)] \<and>
        orders_sent (snd (pxs_world s')) = orders_sent (snd (pxs_world s)) @ [(V, request)])"
proof -
  let ?A = "logged_position A"
  obtain y l where l: "ap_reserve L i (pxs_ledger s) = (y, l)" by fastforce
  have b: "books_ok l (map (\<lambda>(i, _). pai_id i) (pxs_log s))"
    using books_reserve[OF _ l] assms(2) by (simp add: action_log_ok_def)
  consider (same) "s' = s" | (other) "y \<noteq> Inr True" "calm (s\<lparr>pxs_ledger := l\<rparr>) s'"
    | (fresh) "y = Inr True" "acts A i (s\<lparr>pxs_ledger := l\<rparr>) s'"
  proof (cases "ap_get L (pai_id i) (pxs_ledger s)")
    case (Some r)
    then show thesis using same assms(1) by (simp add: position_execute_def)
  next
    case None
    show thesis
    proof (cases y)
      case (Inl e)
      then show thesis
        using other assms(1) None l
        by (auto simp: position_execute_def eff_bind_def act_ledger_def calm_def unsent_def)
    next
      case (Inr v)
      show thesis
      proof (cases v)
        case True
        then have "reserved_action h L ?A i (s\<lparr>pxs_ledger := l\<rparr>) = (x, s')"
          using assms(1) None l Inr by (simp add: position_execute_def eff_bind_def act_ledger_def)
        then show thesis using fresh Inr True effect_ofD[OF reserved_acts] by blast
      next
        case False
        then have "record_action L (action_outcome h ?A i
            (unknown_action ''reserved position action requires reconciliation'')) (s\<lparr>pxs_ledger := l\<rparr>) = (x, s')"
          using assms(1) None l Inr by (simp add: position_execute_def eff_bind_def act_ledger_def)
        then show thesis using other Inr False effect_ofD[OF calm_record[OF unsent_outcome]] by blast
      qed
    qed
  qed
  note cases = this
  show "action_log_ok s'"
  proof (cases rule: cases)
    case same
    then show ?thesis using assms(2) by simp
  next
    case other
    then show ?thesis using books_settle[OF b] by (simp add: action_log_ok_def calm_def)
  next
    case fresh
    then have st: "settles l (pxs_ledger s')" by (simp add: acts_def)
    from fresh(2) show ?thesis
      unfolding acts_def
    proof (elim conjE disjE exE)
      fix V request assume "pxs_log s' = pxs_log (s\<lparr>pxs_ledger := l\<rparr>) @ [(i, request)]"
      then show ?thesis
        using books_submit[OF _ l[unfolded fresh(1)] st] assms(2) by (simp add: action_log_ok_def)
    qed (use books_settle[OF b st] in \<open>simp add: action_log_ok_def\<close>)
  qed
  show "pxs_log s' = pxs_log s \<and> unsent (pxs_world s) (pxs_world s') \<or>
      (\<exists>V request. exact_action A i V request \<and> pxs_log s' = pxs_log s @ [(i, request)] \<and>
        orders_sent (snd (pxs_world s')) = orders_sent (snd (pxs_world s)) @ [(V, request)])"
    by (cases rule: cases) (auto simp: calm_def acts_def unsent_def)
qed

text \<open>The log of the adapter is the log of the terminal, and every request is backed by what was seen before it.\<close>

definition backed ::
  "('w position_adapter \<times> action_intent) list \<Rightarrow> ('l, 'w \<times> terminal_event list) action_state \<Rightarrow> bool" where
  "backed cs s \<longleftrightarrow> list_all2 (\<lambda>(i, q) (V, r). r = q \<and> (\<exists>(A, j) \<in> set cs. j = i \<and> exact_action A i V r))
     (pxs_log s) (orders_sent (snd (pxs_world s)))"

lemma run_actions_backed:
  assumes "action_log_ok s" "backed ds s" "set cs \<subseteq> set ds"
  shows "action_log_ok (run_actions h L (map (\<lambda>(A, i). (logged_position A, i)) cs) s) \<and>
    backed ds (run_actions h L (map (\<lambda>(A, i). (logged_position A, i)) cs) s)"
  using assms
proof (induction cs arbitrary: s)
  case (Cons c cs)
  obtain A j where c: "c = (A, j)" by fastforce
  obtain x s' where e: "position_execute h L (logged_position A) j s = (x, s')" by fastforce
  note b = execute_books[OF e Cons.prems(1)]
  have "backed ds s'"
    using b(2) Cons.prems(2,3) c
    by (fastforce simp: backed_def unsent_def intro!: list_all2_appendI)
  then show ?case using Cons.IH[OF b(1)] Cons.prems(3) c e by simp
qed simp

end

interpretation memory_actions: action_ledger action_memory_port "\<lambda>i l. i \<in> am_reserved l" "\<lambda>_. True"
  by (rule action_ledger.intro, rule action_memory.reservation_ledger_axioms)

interpretation durable_actions: action_ledger "action_db_port h" action_reserved "\<lambda>_. True"
  for h :: "action_transition \<Rightarrow> string"
  by (rule action_ledger.intro, rule action_sqlite.reservation_ledger_axioms)

text \<open>C5. At the terminal itself: whatever position actions are executed, in any order, by any adapters sharing the
  durable ledger, and however the gateway, the clock and the kill switch behave or fail: \<open>order_send\<close> is called
  at most once for an intent, and only after it was reserved. Every request sent belongs to an enabled adapter, and
  the last answers since the request before it show: the kill switch off, a connected terminal, a demo account
  with expert trading, a tradable symbol, a fresh tick, the broker's own check of this very request, and exactly
  one position of the intent's ticket, with the intent's direction and volume. The request names that ticket and
  either moves the stop monotonically on the protective side of that tick or closes the whole position on the
  opposite side.\<close>

theorem position_requests_exact_once:
  "let s = run_actions h (action_db_port hp) (map (\<lambda>(A, i). (logged_position A, i)) cs)
       \<lparr>pxs_ledger = d, pxs_world = (w, []), pxs_log = []\<rparr>;
       sent = orders_sent (snd (pxs_world s)) in
     distinct (map (\<lambda>(_, r). request_id r) sent) \<and>
     list_all (\<lambda>(V, r). action_reserved (request_id r) (pxs_ledger s) \<and>
       list_ex (\<lambda>(A, i). request_id r = pai_id i \<and> exact_action A i V r) cs) sent"
proof -
  let ?init = "\<lparr>pxs_ledger = d, pxs_world = (w, []), pxs_log = []\<rparr>"
  let ?s = "run_actions h (action_db_port hp) (map (\<lambda>(A, i). (logged_position A, i)) cs) ?init"
  have "durable_actions.action_log_ok ?init"
    by (simp add: durable_actions.action_log_ok_def action_sqlite.books_ok_def)
  moreover have "durable_actions.backed cs ?init" by (simp add: durable_actions.backed_def)
  ultimately have run: "durable_actions.action_log_ok ?s" "durable_actions.backed cs ?s"
    using durable_actions.run_actions_backed[of ?init cs cs h hp] by auto
  have l2: "list_all2 (\<lambda>(i, q) (V, r). r = q \<and> (\<exists>(A, j) \<in> set cs. j = i \<and> exact_action A i V r))
      (pxs_log ?s) (orders_sent (snd (pxs_world ?s)))"
    using run(2) by (simp add: durable_actions.backed_def)
  then have ids: "map (\<lambda>(_, r). request_id r) (orders_sent (snd (pxs_world ?s))) = map (\<lambda>(i, _). pai_id i) (pxs_log ?s)"
    by (induction rule: list_all2_induct) (auto dest: exact_action_id)
  have "distinct (map (\<lambda>(i, _). pai_id i) (pxs_log ?s))"
    and res: "\<forall>(i, _) \<in> set (pxs_log ?s). action_reserved (pai_id i) (pxs_ledger ?s)"
    using run(1) by (auto simp: durable_actions.action_log_ok_def action_sqlite.books_ok_def list_all_iff)
  moreover have "action_reserved (request_id r) (pxs_ledger ?s) \<and>
      list_ex (\<lambda>(A, i). request_id r = pai_id i \<and> exact_action A i V r) cs"
    if vr: "(V, r) \<in> set (orders_sent (snd (pxs_world ?s)))" for V r
  proof -
    obtain i q where "(i, q) \<in> set (pxs_log ?s)" "\<exists>(A, j) \<in> set cs. j = i \<and> exact_action A i V r"
      using list_all2_set2[OF l2 vr] by auto
    then show ?thesis using res by (fastforce simp: list_ex_iff dest: exact_action_id)
  qed
  ultimately show ?thesis using ids by (auto simp: Let_def list_all_iff)
qed

end
