(* ===== verification/MT5Entry.thy ===== *)
theory MT5Entry
  imports MT5Position ExecutionLedger "HOL-Library.Sublist"
begin

section \<open>Entries at the broker (\<open>mt5/preflight.py\<close>, \<open>mt5/entry.py\<close>)\<close>

text \<open>
  The observation provider, the preflight validator and the transport that the demo execution adapter of
  \<open>ExecutionAdapter\<close> is built with for the terminal.
\<close>

record 'w entry_preflight =
  epf_gateway :: "'w gateway"
  epf_mapping :: symbol_mapping
  epf_config :: transport_config
  epf_clock :: "('w, dt) eff"
  epf_kill_switch :: "('w, bool) eff"
  epf_texts :: texts

subsection \<open>Values\<close>

text \<open>The preflight's own \<open>_int_value\<close> and \<open>_float_value\<close> raise transport failures.\<close>

definition as_transport_failure :: "string \<Rightarrow> 'a res \<Rightarrow> 'a res" where
  "as_transport_failure msg m = (case m of
     Inl (ValueError _) \<Rightarrow> Inl (TransportError msg) | _ \<Rightarrow> m)"

definition facts_int :: "texts \<Rightarrow> py_value \<Rightarrow> int \<Rightarrow> int res" where
  "facts_int T v d =
     (if v = PvNone then Inr d
      else if convertible v then as_transport_failure (''MT5 integer value is invalid: '' @ tx_repr T v) (to_int v)
      else Inl (TransportError (''MT5 integer value is invalid: '' @ tx_repr T v)))"

definition facts_float :: "texts \<Rightarrow> py_value \<Rightarrow> f64 res" where
  "facts_float T v =
     (if convertible v
      then as_transport_failure (''MT5 numeric value is invalid: '' @ tx_repr T v) (to_float v)
      else Inl (TransportError (''MT5 numeric value is invalid: '' @ tx_repr T v)))"

definition positive_float :: "texts \<Rightarrow> info \<Rightarrow> string \<Rightarrow> f64 res" where
  "positive_float T m k = (case map_of m k of
     None \<Rightarrow> Inl (TransportError (''MT5 '' @ k @ '' is unavailable''))
   | Some v \<Rightarrow> res_bind (facts_float T v) (\<lambda>x.
       if \<not> is_fin x \<or> fle x (Fin 0) then Inl (TransportError (''MT5 '' @ k @ '' must be finite and positive''))
       else Inr x))"

definition account_mode_of :: "texts \<Rightarrow> mt5_constants \<Rightarrow> info \<Rightarrow> execution_account_mode res" where
  "account_mode_of T c account = res_bind (facts_int T (info_get account ''trade_mode'') (- 1)) (\<lambda>m.
     Inr (if m = mc_account_demo c then XA_DEMO else if m = mc_account_real c then XA_LIVE else XA_UNKNOWN))"

definition tick_time :: "texts \<Rightarrow> info \<Rightarrow> dt res" where
  "tick_time T tick =
     (if info_get tick ''time_msc'' = PvNone then Inl (TransportError ''MT5 tick lacks time_msc'')
      else res_bind (facts_float T (info_get tick ''time_msc'')) (\<lambda>raw.
           res_bind (fdiv raw (Fin 1000)) from_timestamp))"

definition entry_volume_guard :: "texts \<Rightarrow> f64 \<Rightarrow> info \<Rightarrow> unit res" where
  "entry_volume_guard T v symbol =
     res_bind (positive_float T symbol ''volume_min'') (\<lambda>lo.
     res_bind (positive_float T symbol ''volume_max'') (\<lambda>hi.
     res_bind (positive_float T symbol ''volume_step'') (\<lambda>step.
     res_bind (transport_guard (\<not> (flt v (fsub lo (lit (1 / 10 ^ 12))) \<or> flt (fadd hi (lit (1 / 10 ^ 12))) v))
       ''approved volume violates broker min/max constraints'') (\<lambda>_.
     res_bind (fdiv (fsub v lo) step) (\<lambda>steps.
     res_bind (whole_number steps (lit (1 / 10 ^ 8))) (\<lambda>on_grid.
     transport_guard on_grid ''approved volume is not on the broker volume grid''))))))"

definition entry_stop_side :: "execution_intent \<Rightarrow> f64 \<Rightarrow> bool" where
  "entry_stop_side i price \<longleftrightarrow> xi_direction i = SIG_BUY \<and> flt (xi_stop_price i) price \<or>
     xi_direction i = SIG_SELL \<and> flt price (xi_stop_price i)"

definition entry_stop_guard ::
  "texts \<Rightarrow> execution_intent \<Rightarrow> f64 \<Rightarrow> f64 \<Rightarrow> f64 \<Rightarrow> info \<Rightarrow> unit res" where
  "entry_stop_guard T i price point tick_size symbol =
     res_bind (transport_guard (entry_stop_side i price) ''stop loss would not reduce directional risk'') (\<lambda>_.
     res_bind (fdiv (xi_stop_price i) tick_size) (\<lambda>grid.
     res_bind (whole_number grid (lit (1 / 10 ^ 7))) (\<lambda>on_grid.
     res_bind (transport_guard on_grid ''stop loss is not aligned to broker tick size'') (\<lambda>_.
     res_bind (facts_int T (info_get symbol ''trade_stops_level'') 0) (\<lambda>stops.
     res_bind (float_of_int stops) (\<lambda>level.
     transport_guard (\<not> flt (fadd (fabs (fsub price (xi_stop_price i))) (lit (1 / 10 ^ 12))) (fmul level point))
       ''stop loss violates broker stops level''))))))"

definition tick_freshness_guard :: "texts \<Rightarrow> transport_config \<Rightarrow> info \<Rightarrow> dt \<Rightarrow> unit res" where
  "tick_freshness_guard T cfg tick now =
     res_bind (tick_time T tick) (\<lambda>t.
     res_bind (transport_guard (\<not> flt (total_seconds (now - t)) (Fin 0))
       ''MT5 tick is later than the local UTC clock'') (\<lambda>_.
     transport_guard (\<not> flt (tc_max_tick_age cfg) (total_seconds (now - t)))
       ''MT5 tick is stale at submission time''))"

subsection \<open>Facts\<close>

record submission_facts =
  sf_terminal :: info
  sf_account :: info
  sf_symbol :: info
  sf_tick :: info
  sf_broker_symbol :: string

definition reraised :: "('w, 'a) eff \<Rightarrow> (py_error \<Rightarrow> py_error) \<Rightarrow> ('w, 'a) eff" where
  "reraised m f = eff_catch m (\<lambda>e. Some (eff_of (Inl (f e))))"

definition gathered_facts :: "'w entry_preflight \<Rightarrow> execution_intent \<Rightarrow> ('w, submission_facts) eff" where
  "gathered_facts P i =
     (let G = epf_gateway P in
     eff_bind (gw_connect G) (\<lambda>_.
     eff_bind (gw_terminal_info G) (\<lambda>terminal.
     eff_bind (gw_account_info G) (\<lambda>account.
     eff_bind (eff_of (to_broker (epf_mapping P) (xi_symbol i))) (\<lambda>name.
     eff_bind (eff_of (transport_guard (name = xi_broker_symbol i)
       ''intent broker symbol differs from explicit mapping'')) (\<lambda>_.
     eff_bind (eff_of (transport_guard (opt_some (\<lambda>t. is_one (info_get t ''connected'')) terminal)
       ''MT5 terminal is not connected'')) (\<lambda>_.
     eff_bind (eff_of (transport_guard (account \<noteq> None) ''MT5 account information is unavailable'')) (\<lambda>_.
     eff_bind (gw_symbol_select G name True) (\<lambda>selected.
     eff_bind (eff_of (transport_guard selected ''configured MT5 symbol could not be selected'')) (\<lambda>_.
     eff_bind (gw_symbol_info G name) (\<lambda>symbol.
     eff_bind (gw_symbol_info_tick G name) (\<lambda>tick.
     eff_bind (eff_of (transport_guard (symbol \<noteq> None \<and> tick \<noteq> None)
       ''MT5 symbol or tick facts are unavailable'')) (\<lambda>_.
     eff_return \<lparr>sf_terminal = the terminal, sf_account = the account, sf_symbol = the symbol,
       sf_tick = the tick, sf_broker_symbol = name\<rparr>)))))))))))))"

definition entry_facts :: "'w entry_preflight \<Rightarrow> execution_intent \<Rightarrow> ('w, submission_facts) eff" where
  "entry_facts P i = reraised (gathered_facts P i) (\<lambda>e. case e of
     TransportError _ \<Rightarrow> e | _ \<Rightarrow> TransportError (''MT5 preflight failed: '' @ tx_error (epf_texts P) e))"

subsection \<open>Observation\<close>

definition entry_price :: "execution_intent \<Rightarrow> f64 \<Rightarrow> f64 \<Rightarrow> f64" where
  "entry_price i bid ask = (if xi_direction i = SIG_BUY then ask else bid)"

definition observation_of ::
  "(execution_observation \<Rightarrow> string) \<Rightarrow> 'w entry_preflight \<Rightarrow> execution_intent \<Rightarrow> submission_facts \<Rightarrow> dt \<Rightarrow> dt
     \<Rightarrow> execution_observation res" where
  "observation_of h P i f t now =
     (let T = epf_texts P in
     res_bind (transport_guard (t \<le> now) ''MT5 tick is later than the local UTC clock'') (\<lambda>_.
     res_bind (positive_float T (sf_tick f) ''bid'') (\<lambda>bid.
     res_bind (positive_float T (sf_tick f) ''ask'') (\<lambda>ask.
     res_bind (transport_guard (\<not> flt ask bid) ''MT5 ask is below bid'') (\<lambda>_.
     res_bind (positive_float T (sf_symbol f) ''point'') (\<lambda>point.
     res_bind (account_mode_of T (gw_constants (epf_gateway P)) (sf_account f)) (\<lambda>mode.
     res_bind (fdiv (fsub ask bid) point) (\<lambda>spread.
     mk_execution_observation h \<lparr>xb_id = [], xb_observed_at = t, xb_available_at = now,
       xb_account_mode = mode, xb_broker_symbol = sf_broker_symbol f, xb_market_price = entry_price i bid ask,
       xb_spread_points = spread, xb_slippage_points = Fin 0\<rparr>))))))))"

definition observe ::
  "(execution_observation \<Rightarrow> string) \<Rightarrow> 'w entry_preflight \<Rightarrow> execution_intent \<Rightarrow> ('w, execution_observation) eff" where
  "observe h P i =
     eff_bind (entry_facts P i) (\<lambda>f.
     eff_bind (eff_of (tick_time (epf_texts P) (sf_tick f))) (\<lambda>t.
     eff_bind (epf_clock P) (\<lambda>now. eff_of (observation_of h P i f t now))))"

subsection \<open>The checked request\<close>

definition entry_session_guard :: "texts \<Rightarrow> mt5_constants \<Rightarrow> submission_facts \<Rightarrow> unit res" where
  "entry_session_guard T c f =
     res_bind (account_mode_of T c (sf_account f)) (\<lambda>mode.
     res_bind (transport_guard (mode = XA_DEMO) ''broker account is not a verified demo account'') (\<lambda>_.
     res_bind (transport_guard (is_one (info_get (sf_terminal f) ''trade_allowed''))
       ''terminal trading is disabled'') (\<lambda>_.
     res_bind (transport_guard (is_one (info_get (sf_account f) ''trade_allowed'')
         \<and> is_one (info_get (sf_account f) ''trade_expert'')) ''account expert trading is disabled'') (\<lambda>_.
     res_bind (facts_int T (info_get (sf_symbol f) ''trade_mode'') (mc_symbol_disabled c)) (\<lambda>m.
     transport_guard (m \<noteq> mc_symbol_disabled c) ''symbol trading is disabled'')))))"

definition entry_fields ::
  "mt5_constants \<Rightarrow> transport_config \<Rightarrow> execution_intent \<Rightarrow> string \<Rightarrow> f64 \<Rightarrow> info" where
  "entry_fields c cfg i name price =
     [(''action'', PvInt (mc_action_deal c)), (''symbol'', PvText name), (''volume'', PvFloat (xi_volume i)),
      (''type'', PvInt (if xi_direction i = SIG_BUY then mc_order_buy c else mc_order_sell c)),
      (''price'', PvFloat price), (''sl'', PvFloat (xi_stop_price i)),
      (''deviation'', PvInt (tc_deviation_points cfg)), (''magic'', PvInt (tc_magic cfg)),
      (''comment'', PvText (xi_id i)), (''type_time'', PvInt (mc_time_gtc c)),
      (''type_filling'', PvInt (mc_filling_ioc c))]"

definition entry_request ::
  "texts \<Rightarrow> mt5_constants \<Rightarrow> transport_config \<Rightarrow> execution_intent \<Rightarrow> submission_facts \<Rightarrow> info res" where
  "entry_request T c cfg i f =
     res_bind (transport_guard (py_str T (info_get_or (sf_symbol f) ''name'' (PvText [])) = sf_broker_symbol f)
       ''broker returned a different symbol'') (\<lambda>_.
     res_bind (positive_float T (sf_symbol f) ''point'') (\<lambda>point.
     res_bind (positive_float T (sf_symbol f) ''trade_tick_size'') (\<lambda>tick_size.
     res_bind (transport_guard (isclose point (xi_point_size i) (Fin 0) (lit (1 / 10 ^ 12)))
       ''configured point size differs from broker point size'') (\<lambda>_.
     res_bind (entry_volume_guard T (xi_volume i) (sf_symbol f)) (\<lambda>_.
     res_bind (positive_float T (sf_tick f) ''bid'') (\<lambda>bid.
     res_bind (positive_float T (sf_tick f) ''ask'') (\<lambda>ask.
     res_bind (entry_stop_guard T i (entry_price i bid ask) point tick_size (sf_symbol f)) (\<lambda>_.
     Inr (entry_fields c cfg i (sf_broker_symbol f) (entry_price i bid ask))))))))))"

definition checked_request :: "'w entry_preflight \<Rightarrow> execution_intent \<Rightarrow> ('w, info) eff" where
  "checked_request P i =
     (let T = epf_texts P; c = gw_constants (epf_gateway P) in
     eff_bind (epf_kill_switch P) (\<lambda>active.
     if active then eff_of (Inl (TransportError ''execution kill switch is active''))
     else eff_bind (entry_facts P i) (\<lambda>f.
     eff_bind (eff_of (entry_session_guard T c f)) (\<lambda>_.
     eff_bind (epf_clock P) (\<lambda>now.
     eff_bind (eff_of (tick_freshness_guard T (epf_config P) (sf_tick f) now)) (\<lambda>_.
     eff_of (entry_request T c (epf_config P) i f)))))))"

text \<open>\<open>order_check\<close>, and what an absent answer becomes.\<close>

definition order_check_answer :: "'w entry_preflight \<Rightarrow> string \<Rightarrow> info \<Rightarrow> ('w, info) eff" where
  "order_check_answer P msg request =
     eff_bind (reraised (gw_order_check (epf_gateway P) request)
       (\<lambda>e. TransportError (msg @ tx_error (epf_texts P) e))) (\<lambda>check.
     case check of
       Some m \<Rightarrow> eff_return m
     | None \<Rightarrow> eff_bind (gw_last_error (epf_gateway P)) (\<lambda>v. eff_of (Inl (TransportError
         (''MT5 order_check returned no result: '' @ tx_repr (epf_texts P) v)))))"

definition validate_entry ::
  "'w entry_preflight \<Rightarrow> execution_intent \<Rightarrow> execution_observation \<Rightarrow> ('w, unit) eff" where
  "validate_entry P i b =
     (let T = epf_texts P in
     eff_bind (checked_request P i) (\<lambda>request.
     eff_bind (order_check_answer P ''MT5 order_check failed: '' request) (\<lambda>m.
     eff_of (res_bind (facts_int T (info_get m ''retcode'') (- 1)) (\<lambda>k.
       transport_guard (k = 0) (''MT5 order_check rejected request: retcode='' @ tx_repr T (info_get m ''retcode'')
         @ '' comment='' @ tx_repr T (info_get m ''comment'')))))))"

subsection \<open>The transport\<close>

definition no_price :: "py_value \<Rightarrow> bool" where
  "no_price v \<longleftrightarrow> v \<in> {PvNone, PvBool False, PvInt 0, PvFloat (Fin 0)}"

definition fill_rules ::
  "execution_intent \<Rightarrow> execution_result_status \<Rightarrow> f64 \<Rightarrow> f64 option \<Rightarrow> (bool \<times> py_error) list" where
  "fill_rules i st v price =
     [rule_ok ''filled MT5 acknowledgement lacks exact volume or price''
        (\<not> (st = XS_FILLED \<and> (\<not> abs_close v (xi_volume i) \<or> price = None))),
      rule_ok ''partial MT5 acknowledgement lacks strict fill facts''
        (\<not> (st = XS_PARTIALLY_FILLED \<and> \<not> (flt (Fin 0) v \<and> flt v (xi_volume i) \<and> price \<noteq> None)))]"

definition report_of ::
  "(broker_report \<Rightarrow> string) \<Rightarrow> 'w entry_preflight \<Rightarrow> execution_intent \<Rightarrow> info \<Rightarrow> ('w, broker_report) eff" where
  "report_of h P i m =
     (let T = epf_texts P; c = gw_constants (epf_gateway P) in
     eff_bind (eff_of (int_value T (info_get m ''retcode'') (- 1))) (\<lambda>retcode.
     eff_bind (eff_of (float_value T (info_get m ''volume'') (Some (Fin 0)))) (\<lambda>v.
     eff_bind (eff_of (if no_price (info_get m ''price'') then Inr None
       else res_bind (float_value T (info_get m ''price'') None) (\<lambda>x. Inr (Some x)))) (\<lambda>price.
     eff_bind (eff_of (validate (fill_rules i (response_status c retcode) v price) ())) (\<lambda>_.
     eff_bind (eff_of (positive_int T (info_get m ''deal''))) (\<lambda>deal.
     eff_bind (eff_of (positive_int T (info_get m ''order''))) (\<lambda>order.
     eff_bind (epf_clock P) (\<lambda>now.
     eff_of (mk_broker_report h \<lparr>br_id = [], br_status = response_status c retcode, br_event_time = now,
       br_observed_at = now, br_available_at = now,
       br_broker_ticket = (case deal of None \<Rightarrow> order | Some d \<Rightarrow> Some d),
       br_transport_id = response_transport_id deal order, br_filled_volume = v, br_fill_price = price,
       br_retcode = Some (int_text retcode),
       br_broker_status = Some (py_str T (info_get_or m ''retcode'' (PvText []))),
       br_message = (if info_get m ''comment'' = PvNone then None
         else Some (py_str T (info_get m ''comment'')))\<rparr>)))))))))"

definition mt5_submit ::
  "(broker_report \<Rightarrow> string) \<Rightarrow> 'w entry_preflight \<Rightarrow> execution_intent \<Rightarrow> execution_observation
     \<Rightarrow> ('w, broker_report) eff" where
  "mt5_submit h P i b =
     (let T = epf_texts P in
     eff_bind (checked_request P i) (\<lambda>request.
     eff_bind (order_check_answer P ''MT5 order_check failed before submission: '' request) (\<lambda>check.
     eff_bind (eff_of (res_bind (int_value T (info_get check ''retcode'') (- 1)) (\<lambda>k.
       transport_guard (k = 0) (''MT5 order_check rejected immediately before send: '' @ tx_info T check)))) (\<lambda>_.
     eff_bind (reraised (gw_order_send (epf_gateway P) request)
       (\<lambda>e. UnknownSubmission (''MT5 order_send outcome is unknown: '' @ tx_error T e))) (\<lambda>response.
     case response of
       None \<Rightarrow> eff_of (Inl (UnknownSubmission
         ''MT5 order_send returned no acknowledgement; reconciliation required''))
     | Some m \<Rightarrow> reraised (report_of h P i m)
         (\<lambda>e. UnknownSubmission (''MT5 acknowledgement could not be interpreted: '' @ tx_error T e)))))))"

text \<open>\<open>MT5ExecutionAdapter\<close> composes them with the demo adapter.\<close>

definition mt5_adapter ::
  "(execution_observation \<Rightarrow> string) \<Rightarrow> (broker_report \<Rightarrow> string) \<Rightarrow> execution_policy \<Rightarrow> 'w entry_preflight
     \<Rightarrow> 'w adapter" where
  "mt5_adapter ho hr p P = \<lparr>xa_policy = p, xa_provider = observe ho P, xa_validator = Some (validate_entry P),
     xa_transport = mt5_submit hr P\<rparr>"

subsection \<open>What the log of the terminal shows\<close>

text \<open>
  What a request that was sent guarantees. The last answers before it show the kill switch off, a connected
  terminal that allows trading, a demo account with expert trading, the mapped symbol, tradable and with a fresh
  tick, and the broker's own check of this very request. The request carries the intent's volume, which lies on
  the broker's bounds, its stop and identifier, and the price of that tick, with the stop on the losing side of it.
\<close>

definition entry_session :: "texts \<Rightarrow> mt5_constants \<Rightarrow> terminal_view \<Rightarrow> bool" where
  "entry_session T c V \<longleftrightarrow> tv_kill V = Some False \<and> (\<exists>terminal account.
     tv_terminal V = Some terminal \<and> is_one (info_get terminal ''connected'') \<and>
     is_one (info_get terminal ''trade_allowed'') \<and> tv_account V = Some account \<and>
     facts_int T (info_get account ''trade_mode'') (- 1) = Inr (mc_account_demo c) \<and>
     is_one (info_get account ''trade_allowed'') \<and> is_one (info_get account ''trade_expert''))"

definition entry_market :: "'w entry_preflight \<Rightarrow> execution_intent \<Rightarrow> f64 \<Rightarrow> terminal_view \<Rightarrow> bool" where
  "entry_market P i price V \<longleftrightarrow> (let T = epf_texts P; c = gw_constants (epf_gateway P); name = xi_broker_symbol i in
     \<exists>symbol tick mode bid ask t now lo hi.
       to_broker (epf_mapping P) (xi_symbol i) = Inr name \<and> tv_symbol V = Some (name, symbol) \<and>
       py_str T (info_get_or symbol ''name'' (PvText [])) = name \<and>
       facts_int T (info_get symbol ''trade_mode'') (mc_symbol_disabled c) = Inr mode \<and> mode \<noteq> mc_symbol_disabled c \<and>
       positive_float T symbol ''volume_min'' = Inr lo \<and> \<not> flt (xi_volume i) (fsub lo (lit (1 / 10 ^ 12))) \<and>
       positive_float T symbol ''volume_max'' = Inr hi \<and> \<not> flt (fadd hi (lit (1 / 10 ^ 12))) (xi_volume i) \<and>
       tv_tick V = Some (name, tick) \<and> positive_float T tick ''bid'' = Inr bid \<and> positive_float T tick ''ask'' = Inr ask \<and>
       price = (if xi_direction i = SIG_BUY then ask else bid) \<and>
       tick_time T tick = Inr t \<and> tv_clock V = Some now \<and> \<not> flt (total_seconds (now - t)) (Fin 0) \<and>
       \<not> flt (tc_max_tick_age (epf_config P)) (total_seconds (now - t)))"

definition entry_checked :: "texts \<Rightarrow> info \<Rightarrow> terminal_view \<Rightarrow> bool" where
  "entry_checked T request V \<longleftrightarrow>
     (\<exists>m. tv_check V = Some (request, m) \<and> int_value T (info_get m ''retcode'') (- 1) = Inr 0)"

definition exact_entry :: "'w entry_preflight \<Rightarrow> execution_intent \<Rightarrow> terminal_view \<Rightarrow> info \<Rightarrow> bool" where
  "exact_entry P i V request \<longleftrightarrow> (let T = epf_texts P; c = gw_constants (epf_gateway P) in
     entry_session T c V \<and> entry_checked T request V \<and>
     (\<exists>price. entry_market P i price V \<and> entry_stop_side i price \<and>
        request = entry_fields c (epf_config P) i (xi_broker_symbol i) price))"

lemma exact_entry_id: "exact_entry P i V request \<Longrightarrow> request_id request = xi_id i"
  by (auto simp: exact_entry_def Let_def request_id_def entry_fields_def info_get_def)

definition logged_preflight :: "'w entry_preflight \<Rightarrow> ('w \<times> terminal_event list) entry_preflight" where
  "logged_preflight P = \<lparr>epf_gateway = logged_gateway (epf_gateway P), epf_mapping = epf_mapping P,
     epf_config = epf_config P, epf_clock = noted SawClock (epf_clock P),
     epf_kill_switch = noted SawKill (epf_kill_switch P), epf_texts = epf_texts P\<rparr>"

lemma logged_preflight_fields [simp]:
  "epf_gateway (logged_preflight P) = logged_gateway (epf_gateway P)"
  "epf_mapping (logged_preflight P) = epf_mapping P" "epf_config (logged_preflight P) = epf_config P"
  "epf_clock (logged_preflight P) = noted SawClock (epf_clock P)"
  "epf_kill_switch (logged_preflight P) = noted SawKill (epf_kill_switch P)"
  "epf_texts (logged_preflight P) = epf_texts P"
  by (simp_all add: logged_preflight_def)

lemma reraised_Inr_iff: "reraised m f s = (Inr x, s') \<longleftrightarrow> m s = (Inr x, s')"
  by (auto simp: reraised_def eff_catch_def eff_of_def split: prod.splits sum.splits)

lemma unsent_reraised [unsent_rules]: "effect_of unsent m \<Longrightarrow> effect_of unsent (reraised m f)"
  unfolding reraised_def by (auto intro!: unsent_rules)

lemma unsent_clock [unsent_rules]:
  "effect_of unsent (epf_clock (logged_preflight P))" "effect_of unsent (epf_kill_switch (logged_preflight P))"
  by (simp_all add: unsent_rules)

lemma unsent_facts [unsent_rules]: "effect_of unsent (entry_facts (logged_preflight P) i)"
  unfolding entry_facts_def gathered_facts_def Let_def by (simp, intro unsent_rules)

lemma unsent_observe [unsent_rules]: "effect_of unsent (observe h (logged_preflight P) i)"
  unfolding observe_def by (intro unsent_rules)

lemma unsent_request [unsent_rules]: "effect_of unsent (checked_request (logged_preflight P) i)"
  unfolding checked_request_def Let_def by (intro unsent_rules)

lemma unsent_order_check [unsent_rules]: "effect_of unsent (order_check_answer (logged_preflight P) msg r)"
  unfolding order_check_answer_def by (auto intro!: unsent_rules split: option.split)

lemma unsent_validate [unsent_rules]: "effect_of unsent (validate_entry (logged_preflight P) i b)"
  unfolding validate_entry_def Let_def by (intro unsent_rules)

lemma unsent_report [unsent_rules]: "effect_of unsent (report_of h (logged_preflight P) i m)"
  unfolding report_of_def Let_def by (intro unsent_rules)

subsection \<open>At most once, at the terminal\<close>

lemma facts_log:
  assumes "entry_facts (logged_preflight P) i v = (Inr f, v')"
  shows "to_broker (epf_mapping P) (xi_symbol i) = Inr (xi_broker_symbol i) \<and> sf_broker_symbol f = xi_broker_symbol i \<and>
    is_one (info_get (sf_terminal f) ''connected'') \<and>
    snd v' = snd v @ [SawTerminal (Some (sf_terminal f)), SawAccount (Some (sf_account f)),
      SawSymbol (xi_broker_symbol i) (Some (sf_symbol f)), SawTick (xi_broker_symbol i) (Some (sf_tick f))]"
  using assms
  by (auto simp: entry_facts_def reraised_Inr_iff gathered_facts_def Let_def eff_bind_Inr_iff eff_of_Inr_iff
      eff_return_def noted_Inr logged_Inr opt_some_iff)

lemma checked_request_log:
  assumes "checked_request (logged_preflight P) i v = (Inr request, v')"
  shows "\<exists>f now. entry_session_guard (epf_texts P) (gw_constants (epf_gateway P)) f = Inr () \<and>
    tick_freshness_guard (epf_texts P) (epf_config P) (sf_tick f) now = Inr () \<and>
    entry_request (epf_texts P) (gw_constants (epf_gateway P)) (epf_config P) i f = Inr request \<and>
    to_broker (epf_mapping P) (xi_symbol i) = Inr (xi_broker_symbol i) \<and> sf_broker_symbol f = xi_broker_symbol i \<and>
    is_one (info_get (sf_terminal f) ''connected'') \<and>
    snd v' = snd v @ [SawKill False, SawTerminal (Some (sf_terminal f)), SawAccount (Some (sf_account f)),
      SawSymbol (xi_broker_symbol i) (Some (sf_symbol f)), SawTick (xi_broker_symbol i) (Some (sf_tick f)), SawClock now]"
  using assms
  by (auto simp: checked_request_def Let_def eff_bind_Inr_iff eff_of_Inr_iff noted_Inr split: if_splits
      dest!: facts_log)

lemma checked_request_entry:
  assumes "checked_request (logged_preflight P) i v = (Inr request, v')"
  defines "V \<equiv> view_of (snd v')"
  shows "entry_session (epf_texts P) (gw_constants (epf_gateway P)) V"
    "\<exists>price. entry_market P i price V \<and> entry_stop_side i price \<and>
       request = entry_fields (gw_constants (epf_gateway P)) (epf_config P) i (xi_broker_symbol i) price"
proof -
  let ?T = "epf_texts P" and ?c = "gw_constants (epf_gateway P)"
  obtain f now where g: "entry_session_guard ?T ?c f = Inr ()" "tick_freshness_guard ?T (epf_config P) (sf_tick f) now = Inr ()"
      "is_one (info_get (sf_terminal f) ''connected'')"
    and r: "entry_request ?T ?c (epf_config P) i f = Inr request"
    and n: "to_broker (epf_mapping P) (xi_symbol i) = Inr (xi_broker_symbol i)" "sf_broker_symbol f = xi_broker_symbol i"
    and l: "snd v' = snd v @ [SawKill False, SawTerminal (Some (sf_terminal f)), SawAccount (Some (sf_account f)),
      SawSymbol (xi_broker_symbol i) (Some (sf_symbol f)), SawTick (xi_broker_symbol i) (Some (sf_tick f)), SawClock now]"
    using checked_request_log[OF assms(1)] by blast
  have V: "tv_kill V = Some False" "tv_terminal V = Some (sf_terminal f)" "tv_account V = Some (sf_account f)"
      "tv_symbol V = Some (xi_broker_symbol i, sf_symbol f)" "tv_tick V = Some (xi_broker_symbol i, sf_tick f)"
      "tv_clock V = Some now"
    by (simp_all add: V_def l view_of_def)
  show "entry_session ?T ?c V"
    using g(1,3) V by (auto simp: entry_session_def entry_session_guard_def account_mode_of_def res_bind_Inr_iff
        split: if_splits)
  obtain bid ask where b: "positive_float ?T (sf_tick f) ''bid'' = Inr bid" "positive_float ?T (sf_tick f) ''ask'' = Inr ask"
      "entry_volume_guard ?T (xi_volume i) (sf_symbol f) = Inr ()" "entry_stop_side i (entry_price i bid ask)"
      "py_str ?T (info_get_or (sf_symbol f) ''name'' (PvText [])) = xi_broker_symbol i"
      "request = entry_fields ?c (epf_config P) i (xi_broker_symbol i) (entry_price i bid ask)"
    using r n(2) by (auto simp: entry_request_def entry_stop_guard_def res_bind_Inr_iff)
  have "entry_market P i (entry_price i bid ask) V"
    using g(1,2) b(1-3,5) n(1) V
    by (auto simp: entry_market_def Let_def entry_session_guard_def tick_freshness_guard_def entry_volume_guard_def
        entry_price_def res_bind_Inr_iff)
  then show "\<exists>price. entry_market P i price V \<and> entry_stop_side i price \<and>
       request = entry_fields ?c (epf_config P) i (xi_broker_symbol i) price" using b(4,6) by blast
qed

lemma sends_then: "effect_of (sends E) m \<Longrightarrow> (\<And>x. effect_of unsent (k x)) \<Longrightarrow> effect_of (sends E) (eff_bind m k)"
  by (rule effect_of_mono[OF effect_of_seq[of "sends E" m unsent k]])
    (auto simp: unsent_def sends_def, blast+)

lemma order_check_log:
  assumes "order_check_answer (logged_preflight P) msg request v = (Inr m, v')"
  shows "snd v' = snd v @ [SawCheck request (Some m)]"
proof -
  obtain x t where x: "noted (SawCheck request) (gw_order_check (epf_gateway P) request) v = (Inr x, t)"
    and k: "(case x of Some m \<Rightarrow> eff_return m
      | None \<Rightarrow> eff_bind (gw_last_error (epf_gateway (logged_preflight P))) (\<lambda>v. eff_of (Inl (TransportError
          (''MT5 order_check returned no result: '' @ tx_repr (epf_texts (logged_preflight P)) v))))) t = (Inr m, v')"
    using assms unfolding order_check_answer_def eff_bind_Inr_iff by (auto simp only: reraised_Inr_iff
        logged_preflight_fields logged_gateway_fields)
  show ?thesis
  proof (cases x)
    case None
    then show ?thesis using k by (simp add: eff_bind_Inr_iff eff_of_Inr_iff)
  next
    case (Some a)
    then show ?thesis using k x by (simp add: eff_return_def noted_Inr)
  qed
qed

lemma check_views:
  "entry_session T c (W\<lparr>tv_check := x\<rparr>) = entry_session T c W"
  "entry_market P i price (W\<lparr>tv_check := x\<rparr>) = entry_market P i price W"
  by (simp_all add: entry_session_def entry_market_def)

lemma submit_sends:
  assumes "mt5_submit h (logged_preflight P) i b v = (x, v')"
  shows "sends (exact_entry P i) v v'"
proof -
  let ?P = "logged_preflight P" and ?T = "epf_texts P" and ?c = "gw_constants (epf_gateway P)"
  obtain y v1 where c: "checked_request ?P i v = (y, v1)" by (rule prod.exhaust)
  have u1: "unsent v v1" using effect_ofD[OF unsent_request c] .
  show ?thesis
  proof (cases y)
    case (Inl e)
    then show ?thesis using assms c u1 by (auto simp: mt5_submit_def Let_def eff_bind_def sends_def unsent_def)
  next
    case (Inr request)
    let ?msg = "''MT5 order_check failed before submission: ''"
    obtain z v2 where o: "order_check_answer ?P ?msg request v1 = (z, v2)" by (rule prod.exhaust)
    have u2: "unsent v v2" using u1 effect_ofD[OF unsent_order_check o] by (simp add: unsent_def)
    show ?thesis
    proof (cases "\<exists>m. z = Inr m \<and> int_value ?T (info_get m ''retcode'') (- 1) = Inr 0")
      case False
      have "v' = v2"
      proof (cases z)
        case (Inl e)
        then show ?thesis using assms c o Inr by (simp add: mt5_submit_def Let_def eff_bind_def)
      next
        case z: (Inr m)
        have n: "int_value ?T (info_get m ''retcode'') (- 1) \<noteq> Inr 0" using False z by simp
        obtain e where "res_bind (int_value ?T (info_get m ''retcode'') (- 1)) (\<lambda>k. transport_guard (k = 0)
            (''MT5 order_check rejected immediately before send: '' @ tx_info ?T m)) = Inl e"
        proof (cases "int_value ?T (info_get m ''retcode'') (- 1)")
          case (Inr k)
          then have "k \<noteq> 0" using n by simp
          then show ?thesis using Inr that by (simp add: transport_guard_def)
        qed (use that in simp)
        then show ?thesis using assms c o Inr z by (simp add: mt5_submit_def Let_def eff_bind_def eff_of_def)
      qed
      then show ?thesis using u2 by (simp add: sends_def unsent_def)
    next
      case True
      then obtain m where m: "z = Inr m" "int_value ?T (info_get m ''retcode'') (- 1) = Inr 0" by blast
      have view: "snd v2 = snd v1 @ [SawCheck request (Some m)]"
        using order_check_log o m(1) by blast
      have E: "exact_entry P i (view_of (snd v2)) request"
        using checked_request_entry[of P i v request v1] c Inr m(2)
        by (simp add: exact_entry_def Let_def view check_views entry_checked_def)
      define rest where "rest = eff_bind (reraised (gw_order_send (logged_gateway (epf_gateway P)) request)
         (\<lambda>e. UnknownSubmission (''MT5 order_send outcome is unknown: '' @ tx_error ?T e))) (\<lambda>response.
       case response of
         None \<Rightarrow> eff_of (Inl (UnknownSubmission
           ''MT5 order_send returned no acknowledgement; reconciliation required''))
       | Some m \<Rightarrow> reraised (report_of h ?P i m)
           (\<lambda>e. UnknownSubmission (''MT5 acknowledgement could not be interpreted: '' @ tx_error (epf_texts ?P) e)))"
      have "rest v2 = (x, v')"
        using assms c o Inr m by (simp add: mt5_submit_def Let_def eff_bind_run eff_run rest_def transport_guard_def cong: option.case_cong)
      obtain w v3 where s: "reraised (gw_order_send (logged_gateway (epf_gateway P)) request)
         (\<lambda>e. UnknownSubmission (''MT5 order_send outcome is unknown: '' @ tx_error ?T e)) v2 = (w, v3)"
        by (rule prod.exhaust)
      then have "v3 = snd (sending request (gw_order_send (epf_gateway P) request) v2)"
        by (auto simp: reraised_def eff_catch_def eff_of_def split: prod.splits sum.splits)
      then have o3: "orders_sent (snd v3) = orders_sent (snd v2) @ [(view_of (snd v2), request)]"
        by (simp add: orders_sent_sending)
      have tail: "effect_of unsent (case response of
         None \<Rightarrow> eff_of (Inl e) | Some m \<Rightarrow> reraised (report_of h ?P i m) f)" for response e f
        by (auto intro!: unsent_rules split: option.split)
      have "unsent v3 v'"
        using \<open>rest v2 = (x, v')\<close> s effect_ofD[OF tail]
        by (cases w) (auto simp: rest_def eff_bind_def unsent_def)
      then show ?thesis using o3 u2 E by (auto simp: sends_def unsent_def)
    qed
  qed
qed

lemma mt5_adapter_fields [simp]:
  "xa_policy (mt5_adapter ho hr p P) = p" "xa_provider (mt5_adapter ho hr p P) = observe ho P"
  "xa_validator (mt5_adapter ho hr p P) = Some (validate_entry P)"
  "xa_transport (mt5_adapter ho hr p P) = mt5_submit hr P"
  by (simp_all add: mt5_adapter_def)

text \<open>Along an execution the requests sent embed into the submissions of the adapter, in order.\<close>

definition embeds :: "('a \<Rightarrow> 'b \<Rightarrow> bool) \<Rightarrow> 'a list \<Rightarrow> 'b list \<Rightarrow> bool" where
  "embeds E rs ks \<longleftrightarrow> (\<exists>ms. subseq ms ks \<and> list_all2 E rs ms)"

lemma embeds_Nil [simp]: "embeds E [] ks"
  by (auto simp: embeds_def)

lemma embeds_single: "E r k \<Longrightarrow> embeds E [r] [k]"
  by (auto simp: embeds_def)

lemma embeds_append: "embeds E rs ks \<Longrightarrow> embeds E rs' ks' \<Longrightarrow> embeds E (rs @ rs') (ks @ ks')"
  unfolding embeds_def by (blast intro: list_emb_append_mono list_all2_appendI)

definition covers ::
  "(terminal_view \<times> info \<Rightarrow> submission \<Rightarrow> bool) \<Rightarrow> ('l, 'w \<times> terminal_event list) adapter_state
     \<Rightarrow> ('l, 'w \<times> terminal_event list) adapter_state \<Rightarrow> bool" where
  "covers E s s' \<longleftrightarrow> (\<exists>ks rs. ad_log s' = ad_log s @ ks \<and>
     orders_sent (snd (ad_world s')) = orders_sent (snd (ad_world s)) @ rs \<and> embeds E rs ks)"

lemma covers_rel [simp]: "reflp (covers E)" "transp (covers E)"
proof -
  show "reflp (covers E)" by (simp add: reflp_def covers_def)
  show "transp (covers E)"
    unfolding transp_def covers_def by (metis append.assoc embeds_append)
qed

lemma covers_ledger: "effect_of (covers E) (on_ledger m)"
  by (auto simp: effect_of_def covers_def on_ledger_def split: prod.split)

lemma covers_world:
  fixes m :: "('w \<times> terminal_event list, 'a) eff"
  assumes "effect_of unsent m"
  shows "effect_of (covers E) (on_world m)"
  unfolding effect_of_def
proof
  fix s :: "('l, 'w \<times> terminal_event list) adapter_state"
  show "covers E s (snd (on_world m s))"
    using effect_ofD[OF assms, of "ad_world s"]
    by (cases "m (ad_world s)") (simp add: on_world_def covers_def unsent_def)
qed

lemma covers_record: "effect_of (covers E) (record_and_return L m)"
  unfolding record_and_return_def by (intro effect_of_bind effect_of_pure covers_ledger covers_rel)

lemma covers_submit:
  fixes P :: "'w entry_preflight"
  assumes "\<And>b V request. exact_entry P i V request \<Longrightarrow> E (V, request) (p, i, b)"
  shows "effect_of (covers E) (submit (mt5_adapter ho hr p (logged_preflight P)) i b)"
  unfolding effect_of_def
proof
  fix s :: "('l, 'w \<times> terminal_event list) adapter_state"
  obtain x v where v: "mt5_submit hr (logged_preflight P) i b (ad_world s) = (x, v)" by (rule prod.exhaust)
  let ?s = "snd (submit (mt5_adapter ho hr p (logged_preflight P)) i b s)"
  have log: "ad_log ?s = ad_log s @ [(p, i, b)]" "ad_world ?s = v"
    using v by (simp_all add: submit_def on_world_def)
  show "covers E s ?s"
  proof (cases "orders_sent (snd v) = orders_sent (snd (ad_world s))")
    case True
    then show ?thesis unfolding covers_def using log
      by (intro exI[of _ "[(p, i, b)]"] exI[of _ "[]"]) simp
  next
    case False
    then obtain V r where "exact_entry P i V r" "orders_sent (snd v) = orders_sent (snd (ad_world s)) @ [(V, r)]"
      using submit_sends[OF v] by (auto simp: sends_def)
    then show ?thesis unfolding covers_def using log assms[of V r b]
      by (intro exI[of _ "[(p, i, b)]"] exI[of _ "[(V, r)]"]) (simp add: embeds_single)
  qed
qed

lemma covers_execute:
  fixes P :: "'w entry_preflight"
  assumes "\<And>b V request. exact_entry P i V request \<Longrightarrow> E (V, request) (p, i, b)"
  shows "effect_of (covers E) (adapter_execute h L (mt5_adapter ho hr p (logged_preflight P)) i)"
proof -
  let ?a = "mt5_adapter ho hr p (logged_preflight P)"
  note steps = effect_of_bind effect_of_catch effect_of_pure covers_rel covers_ledger covers_world covers_record
  have sub: "effect_of (covers E) (submit_and_record h L ?a i b)" for b
    unfolding submit_and_record_def
    by (auto intro!: steps covers_submit[where E = E and P = P] assms split: py_error.splits)
  have val: "effect_of (covers E) (validated_execution h L ?a i b)" for b
    unfolding validated_execution_def
    by (auto intro!: steps sub unsent_validate simp: on_transport_failure_def
        split: option.splits py_error.splits)
  have obs: "effect_of (covers E) (observed_execution h L ?a i b)" for b
    unfolding observed_execution_def by (auto intro!: steps val split: sum.splits option.splits)
  have res: "effect_of (covers E) (reserved_execution h L ?a i)"
    unfolding reserved_execution_def
    by (auto intro!: steps obs unsent_observe simp: on_transport_failure_def
        split: sum.splits py_error.splits)
  have "effect_of (covers E) (eff_bind (on_ledger (lp_reserve L i)) (\<lambda>fresh.
          if \<not> fresh then record_and_return L (unknown_result h i ''reserved intent requires reconciliation'' None)
          else reserved_execution h L ?a i))"
    by (auto intro!: steps res)
  then show ?thesis
    using reflpD[OF covers_rel(1)[of E]]
    by (auto simp: adapter_execute_def effect_of_def split: option.split)
qed

definition sends_entry ::
  "(execution_policy \<times> 'w entry_preflight \<times> execution_intent) list \<Rightarrow> terminal_view \<times> info \<Rightarrow> submission \<Rightarrow> bool" where
  "sends_entry cs r k \<longleftrightarrow>
     (case k of (p, i, _) \<Rightarrow> list_ex (\<lambda>(q, P, j). q = p \<and> j = i \<and> exact_entry P i (fst r) (snd r)) cs)"

definition terminal_runs ::
  "(execution_observation \<Rightarrow> string) \<Rightarrow> (broker_report \<Rightarrow> string)
     \<Rightarrow> (execution_policy \<times> 'w entry_preflight \<times> execution_intent) list
     \<Rightarrow> (('w \<times> terminal_event list) adapter \<times> execution_intent) list" where
  "terminal_runs ho hr = map (\<lambda>(p, P, i). (mt5_adapter ho hr p (logged_preflight P), i))"

lemma covers_runs:
  assumes "set cs \<subseteq> set ds"
  shows "covers (sends_entry ds) s (run_all h L (terminal_runs ho hr cs) s)"
  using assms
proof (induction cs arbitrary: s)
  case Nil
  then show ?case using reflpD[OF covers_rel(1)] by (simp add: terminal_runs_def)
next
  case (Cons c cs)
  obtain p P i where c: "c = (p, P, i)" by (cases c) auto
  have "effect_of (covers (sends_entry ds)) (adapter_execute h L (mt5_adapter ho hr p (logged_preflight P)) i)"
    using Cons.prems c by (intro covers_execute) (auto simp: sends_entry_def list_ex_iff)
  then have "covers (sends_entry ds) s (snd (adapter_execute h L (mt5_adapter ho hr p (logged_preflight P)) i s))"
    by (simp add: effect_of_def)
  from transpD[OF covers_rel(2) this] show ?case
    using Cons.IH Cons.prems c by (simp add: terminal_runs_def)
qed

lemma subseq_distinct: "subseq xs ys \<Longrightarrow> distinct ys \<Longrightarrow> distinct xs"
  by (induction rule: list_emb.induct) (auto dest: list_emb_set)

lemma list_all2_set1: "list_all2 R xs ys \<Longrightarrow> x \<in> set xs \<Longrightarrow> \<exists>y \<in> set ys. R x y"
  by (induction rule: list_all2_induct) auto


end
