(* ===== verification/MT5Time.thy ===== *)
theory MT5Time
  imports RuntimeState PyValue
begin

section \<open>Broker time and UTC (\<open>mt5/time_normalization.py\<close>)\<close>

text \<open>
  The terminal stamps its ticks with the broker's local clock, whose offset from UTC is a whole number
  of hours. The offset is inferred once per session from a fresh tick, in binary64 arithmetic, and frozen
  in the session's normaliser. \<open>MT5TimeNormalizationError\<close> is a runtime error, the only one this module
  raises. The theorems show that the float arithmetic decides exactly what the exact microseconds decide.
\<close>

definition time_guard :: "bool \<Rightarrow> string \<Rightarrow> unit res" where
  "time_guard b msg = (if b then Inr () else Inl (RuntimeError msg))"

lemma time_guard_Inr [simp]: "time_guard b msg = Inr u \<longleftrightarrow> b"
  by (simp add: time_guard_def)

definition strict_utc :: "py_datetime \<Rightarrow> string \<Rightarrow> dt res" where
  "strict_utc v field = (case v of
     Naive _ \<Rightarrow> Inl (RuntimeError (field @ '' must be timezone-aware UTC''))
   | Aware t offset \<Rightarrow>
       if offset \<noteq> 0 then Inl (RuntimeError (field @ '' must already be UTC'')) else Inr t)"

subsection \<open>Contracts\<close>

abbreviation normalization_version :: string where
  "normalization_version \<equiv> ''MT5_BROKER_TIME_TO_UTC_V1''"

record broker_time_policy =
  btp_version :: string
  btp_min_hours :: int
  btp_max_hours :: int
  btp_residual_tolerance :: int
  btp_future_tolerance :: int

definition mk_broker_time_policy :: "broker_time_policy \<Rightarrow> broker_time_policy res" where
  "mk_broker_time_policy p = validate
     [field_ok ''normalization_version'' (btp_version p = normalization_version),
      field_ok ''inference_residual_tolerance_seconds''
        (0 \<le> btp_residual_tolerance p \<and> btp_residual_tolerance p \<le> 120),
      field_ok ''future_tolerance_seconds'' (0 \<le> btp_future_tolerance p \<and> btp_future_tolerance p \<le> 10),
      rule_ok ''minimum offset must be below maximum offset'' (btp_min_hours p < btp_max_hours p)] p"

definition default_broker_time_policy :: broker_time_policy where
  "default_broker_time_policy = \<lparr>btp_version = normalization_version, btp_min_hours = - 12,
     btp_max_hours = 14, btp_residual_tolerance = 15, btp_future_tolerance = 1\<rparr>"

record broker_environment =
  ben_id :: string
  ben_server :: "string option"
  ben_login_digest :: "string option"
  ben_trade_mode :: "int option"
  ben_company :: "string option"
  ben_build :: "int option"

definition mk_broker_environment ::
  "(broker_environment \<Rightarrow> string) \<Rightarrow> broker_environment \<Rightarrow> broker_environment res" where
  "mk_broker_environment h = bind_identity ''mt5env-'' h (\<lambda>r. r\<lparr>ben_id := []\<rparr>) ben_id (\<lambda>i r. r\<lparr>ben_id := i\<rparr>)
     ''environment_id does not match MT5 environment content''"

record offset_resolution =
  bor_id :: string
  bor_version :: string
  bor_instrument :: string
  bor_symbol :: string
  bor_instrument_resolution :: string
  bor_environment :: broker_environment
  bor_offset :: int
  bor_raw_time :: int
  bor_raw_msc :: "int option"
  bor_raw_at :: dt
  bor_normalized_at :: dt
  bor_observed_at :: dt
  bor_resolved_at :: dt

definition offset_resolution_rules :: "offset_resolution \<Rightarrow> (bool \<times> py_error) list" where
  "offset_resolution_rules r =
     [field_ok ''normalization_version'' (bor_version r = normalization_version),
      field_ok ''canonical_instrument'' (bor_instrument r = ''XAUUSD''),
      nonempty ''resolved_broker_symbol'' (bor_symbol r),
      nonempty ''instrument_resolution_id'' (bor_instrument_resolution r),
      rule_ok ''broker time offset must be a whole number of hours'' (bor_offset r mod 3600 = 0),
      (is_ok (add_seconds (bor_observed_at r) 1), OverflowError),
      rule_ok ''normalized broker tick cannot be in the future''
        (bor_normalized_at r \<le> bor_observed_at r + 1000000)]"

definition mk_offset_resolution :: "(offset_resolution \<Rightarrow> string) \<Rightarrow> offset_resolution \<Rightarrow> offset_resolution res" where
  "mk_offset_resolution h r = res_bind (validate (offset_resolution_rules r) r)
     (bind_identity ''mt5time-'' h (\<lambda>r. r\<lparr>bor_id := []\<rparr>) bor_id (\<lambda>i r. r\<lparr>bor_id := i\<rparr>)
        ''resolution_id does not match broker time resolution content'')"

datatype time_source = SRC_TICK | SRC_M1 | SRC_M5 | SRC_M15 | SRC_H1 | SRC_H4

record timestamp_trace =
  btt_id :: string
  btt_version :: string
  btt_resolution_id :: string
  btt_instrument :: string
  btt_symbol :: string
  btt_source :: time_source
  btt_raw_seconds :: int
  btt_normalized_at :: dt
  btt_offset :: int

definition mk_timestamp_trace :: "(timestamp_trace \<Rightarrow> string) \<Rightarrow> timestamp_trace \<Rightarrow> timestamp_trace res" where
  "mk_timestamp_trace h t = res_bind (validate
     [field_ok ''normalization_version'' (btt_version t = normalization_version),
      nonempty ''resolution_id'' (btt_resolution_id t),
      field_ok ''canonical_instrument'' (btt_instrument t = ''XAUUSD''),
      nonempty ''resolved_broker_symbol'' (btt_symbol t),
      rule_ok ''normalization trace offset must be whole-hour'' (btt_offset t mod 3600 = 0)] t)
     (bind_identity ''mt5ts-'' h (\<lambda>r. r\<lparr>btt_id := []\<rparr>) btt_id (\<lambda>i r. r\<lparr>btt_id := i\<rparr>)
        ''trace_id does not match normalized timestamp content'')"

interpretation resolution_identity: content_addressed "''mt5time-''" h "\<lambda>r. r\<lparr>bor_id := []\<rparr>" bor_id
    "\<lambda>i r. r\<lparr>bor_id := i\<rparr>" "''resolution_id does not match broker time resolution content''"
  for h :: "offset_resolution \<Rightarrow> string"
  by unfold_locales simp_all

interpretation trace_identity: content_addressed "''mt5ts-''" h "\<lambda>r. r\<lparr>btt_id := []\<rparr>" btt_id
    "\<lambda>i r. r\<lparr>btt_id := i\<rparr>" "''trace_id does not match normalized timestamp content''"
  for h :: "timestamp_trace \<Rightarrow> string"
  by unfold_locales simp_all

subsection \<open>Inference of the offset\<close>

text \<open>\<open>datetime.fromtimestamp(n, tz=UTC)\<close> of an integer is exact.\<close>

definition from_epoch :: "int \<Rightarrow> dt res" where
  "from_epoch n =
     (let t = n * 1000000 in
      if dt_min \<le> t \<and> t \<le> dt_max then Inr t
      else if - (2 ^ 63) \<le> n \<and> n < 2 ^ 63 then Inl (ValueError ''year is out of range'') else Inl OverflowError)"

definition raw_tick_datetime :: "int \<Rightarrow> int option \<Rightarrow> dt res" where
  "raw_tick_datetime seconds msc =
     res_bind (time_guard (0 < seconds) ''broker tick time must be positive'') (\<lambda>_.
     case msc of
       None \<Rightarrow> from_epoch seconds
     | Some ms \<Rightarrow>
         res_bind (time_guard (0 < ms) ''broker tick time_msc must be positive'') (\<lambda>_.
         res_bind (int_div ms 1000) from_timestamp))"

definition nearest_whole_hour :: "f64 \<Rightarrow> (int \<times> f64) res" where
  "nearest_whole_hour delta =
     res_bind (fdiv delta (Fin 3600)) (\<lambda>hours.
     res_bind (py_floor hours) (\<lambda>lower_hours.
     let upper_hours = lower_hours + 1;
         lower_seconds = lower_hours * 3600;
         upper_seconds = upper_hours * 3600 in
     res_bind (float_of_int lower_seconds) (\<lambda>lower.
     let lower_distance = fabs (fsub delta lower) in
     res_bind (float_of_int upper_seconds) (\<lambda>upper.
     let upper_distance = fabs (fsub upper delta) in
     res_bind (time_guard (\<not> feq lower_distance upper_distance)
       ''broker offset is ambiguous between whole-hour values'') (\<lambda>_.
     Inr (if flt lower_distance upper_distance then (lower_seconds, lower_distance)
          else (upper_seconds, upper_distance)))))))"

definition candidate_offset :: "dt \<Rightarrow> dt \<Rightarrow> broker_time_policy \<Rightarrow> int res" where
  "candidate_offset raw_at observed_at p =
     res_bind (nearest_whole_hour (total_seconds (raw_at - observed_at))) (\<lambda>(candidate, residual).
     res_bind (time_guard (\<not> (candidate < btp_min_hours p * 3600 \<or> btp_max_hours p * 3600 < candidate))
       ''broker offset is outside the plausible UTC range'') (\<lambda>_.
     res_bind (time_guard (\<not> flt (Fin (of_int (btp_residual_tolerance p))) residual)
       ''broker offset residual exceeds whole-hour inference tolerance'') (\<lambda>_.
     Inr candidate)))"

text \<open>\<open>normalized > observed_at + timedelta(seconds=tolerance)\<close> is an error.\<close>

definition not_in_future :: "dt \<Rightarrow> dt \<Rightarrow> broker_time_policy \<Rightarrow> unit res" where
  "not_in_future normalized observed_at p =
     res_bind (add_seconds observed_at (btp_future_tolerance p)) (\<lambda>limit.
     time_guard (normalized \<le> limit) ''normalized broker tick is in the future'')"

definition infer_broker_time_offset ::
  "(offset_resolution \<Rightarrow> string) \<Rightarrow> int \<Rightarrow> int option \<Rightarrow> py_datetime \<Rightarrow> string \<Rightarrow> string \<Rightarrow> string
     \<Rightarrow> broker_environment \<Rightarrow> broker_time_policy option \<Rightarrow> offset_resolution res" where
  "infer_broker_time_offset h raw_time raw_msc observed instrument symbol instrument_resolution env policy =
     (let p = (case policy of None \<Rightarrow> default_broker_time_policy | Some p \<Rightarrow> p) in
     res_bind (strict_utc observed ''observed_at'') (\<lambda>observed_at.
     res_bind (raw_tick_datetime raw_time raw_msc) (\<lambda>raw_at.
     res_bind (candidate_offset raw_at observed_at p) (\<lambda>offset.
     res_bind (add_seconds raw_at (- offset)) (\<lambda>normalized.
     res_bind (not_in_future normalized observed_at p) (\<lambda>_.
     mk_offset_resolution h \<lparr>bor_id = [], bor_version = normalization_version, bor_instrument = instrument,
       bor_symbol = symbol, bor_instrument_resolution = instrument_resolution, bor_environment = env,
       bor_offset = offset, bor_raw_time = raw_time, bor_raw_msc = raw_msc, bor_raw_at = raw_at,
       bor_normalized_at = normalized, bor_observed_at = observed_at, bor_resolved_at = observed_at\<rparr>))))))"

subsection \<open>The normaliser of a session\<close>

record time_normalizer =
  tn_resolution :: offset_resolution
  tn_policy :: broker_time_policy

definition mk_time_normalizer :: "offset_resolution \<Rightarrow> broker_time_policy option \<Rightarrow> time_normalizer" where
  "mk_time_normalizer r policy = \<lparr>tn_resolution = r,
     tn_policy = (case policy of None \<Rightarrow> default_broker_time_policy | Some p \<Rightarrow> p)\<rparr>"

definition from_persisted ::
  "offset_resolution \<Rightarrow> string \<Rightarrow> string \<Rightarrow> string \<Rightarrow> broker_environment \<Rightarrow> broker_time_policy option
     \<Rightarrow> time_normalizer res" where
  "from_persisted r instrument symbol instrument_resolution env policy =
     (let p = (case policy of None \<Rightarrow> default_broker_time_policy | Some p \<Rightarrow> p) in
     res_bind (time_guard (bor_version r = btp_version p)
       ''persisted normalization version is incompatible'') (\<lambda>_.
     res_bind (time_guard (bor_instrument r = instrument)
       ''persisted canonical instrument is incompatible'') (\<lambda>_.
     res_bind (time_guard (bor_symbol r = symbol)
       ''persisted broker symbol is incompatible'') (\<lambda>_.
     res_bind (time_guard (bor_instrument_resolution r = instrument_resolution)
       ''persisted instrument resolution is incompatible'') (\<lambda>_.
     res_bind (time_guard (ben_id (bor_environment r) = ben_id env)
       ''persisted broker environment is incompatible'') (\<lambda>_.
     Inr (mk_time_normalizer r (Some p))))))))"

definition normalize_epoch_seconds :: "time_normalizer \<Rightarrow> int \<Rightarrow> dt res" where
  "normalize_epoch_seconds N n =
     res_bind (time_guard (0 < n) ''broker timestamp must be positive'') (\<lambda>_.
     res_bind (from_epoch n) (\<lambda>raw_at.
     add_seconds raw_at (- bor_offset (tn_resolution N))))"

definition trace_of :: "(timestamp_trace \<Rightarrow> string) \<Rightarrow> time_normalizer \<Rightarrow> time_source \<Rightarrow> int \<Rightarrow> dt
     \<Rightarrow> timestamp_trace res" where
  "trace_of h N kind raw_seconds normalized =
     (let r = tn_resolution N in
      mk_timestamp_trace h \<lparr>btt_id = [], btt_version = normalization_version, btt_resolution_id = bor_id r,
        btt_instrument = bor_instrument r, btt_symbol = bor_symbol r, btt_source = kind,
        btt_raw_seconds = raw_seconds, btt_normalized_at = normalized, btt_offset = bor_offset r\<rparr>)"

definition epoch_trace ::
  "(timestamp_trace \<Rightarrow> string) \<Rightarrow> time_normalizer \<Rightarrow> int \<Rightarrow> time_source \<Rightarrow> timestamp_trace res" where
  "epoch_trace h N raw_seconds kind =
     res_bind (normalize_epoch_seconds N raw_seconds) (trace_of h N kind raw_seconds)"

text \<open>A candidate that cannot be inferred (a quiet market's old tick) is ignored, another whole hour is not.\<close>

definition session_candidate :: "dt \<Rightarrow> dt \<Rightarrow> broker_time_policy \<Rightarrow> int option res" where
  "session_candidate raw_at observed_at p = (case candidate_offset raw_at observed_at p of
     Inr c \<Rightarrow> Inr (Some c)
   | Inl (RuntimeError _) \<Rightarrow> Inr None
   | Inl e \<Rightarrow> Inl e)"

definition normalize_tick ::
  "(timestamp_trace \<Rightarrow> string) \<Rightarrow> time_normalizer \<Rightarrow> int \<Rightarrow> int option \<Rightarrow> py_datetime \<Rightarrow> timestamp_trace res" where
  "normalize_tick h N raw_time raw_msc observed =
     res_bind (strict_utc observed ''observed_at'') (\<lambda>observed_at.
     res_bind (raw_tick_datetime raw_time raw_msc) (\<lambda>raw_at.
     res_bind (session_candidate raw_at observed_at (tn_policy N)) (\<lambda>candidate.
     res_bind (time_guard (opt_all (\<lambda>c. c = bor_offset (tn_resolution N)) candidate)
       ''broker time offset changed during the MT5 session'') (\<lambda>_.
     res_bind (add_seconds raw_at (- bor_offset (tn_resolution N))) (\<lambda>normalized.
     res_bind (not_in_future normalized observed_at (tn_policy N)) (\<lambda>_.
     trace_of h N SRC_TICK (case raw_msc of Some ms \<Rightarrow> ms div 1000 | None \<Rightarrow> raw_time) normalized))))))"

subsection \<open>The float decision is the exact one\<close>

abbreviation micros :: int where "micros \<equiv> 1000000"

lemma is_f64_int: "\<bar>k\<bar> < 2 ^ 53 \<Longrightarrow> is_f64 (Fin (of_int k))"
  using rnd_of_int[of k] is_f64_rnd[of "of_int k"] by simp

lemma fle_fabs_iff: "0 \<le> b \<Longrightarrow> fle (fabs x) (Fin b) \<longleftrightarrow> fle (Fin (- b)) x \<and> fle x (Fin b)"
  by (cases x) auto

lemma flt_fabs: "flt (Fin b) x \<or> flt x (Fin (- b)) \<Longrightarrow> 0 \<le> b \<Longrightarrow> flt (Fin b) (fabs x)"
  by (cases x) auto

lemma fabs_rnd_swap: "fabs (rnd (b - a)) = fabs (rnd (a - b))"
  using rnd_minus[of "a - b"] by simp

lemma fabs_rnd_le:
  assumes "\<bar>q\<bar> \<le> of_int T" "0 \<le> T" "T < 2 ^ 53"
  shows "fle (fabs (rnd q)) (Fin (of_int T))"
  using assms rnd_le[OF _ is_f64_int[of T], of q] rnd_ge[OF _ is_f64_int[of "- T"], of q]
  by (simp add: fle_fabs_iff abs_le_iff)

text \<open>A microsecond more than the tolerance is not lost in rounding.\<close>

lemma seconds_above:
  assumes "total_seconds d = Fin x" "(c + T) * micros < d" "\<bar>c\<bar> \<le> 2 ^ 24" "0 \<le> T" "T \<le> 120"
  shows "flt (Fin (of_int T)) (rnd (x - of_int c))"
proof -
  have tick: "rnd (of_int n + 1 / 2 ^ 20) = Fin (of_int n + 1 / 2 ^ 20)" if n: "\<bar>n\<bar> \<le> 2 ^ 25" for n :: int
  proof -
    have "of_int n + 1 / 2 ^ 20 = (of_int (n * 2 ^ 20 + 1) / 2 ^ 20 :: rat)" by (simp add: add_divide_distrib)
    moreover have "\<bar>n * 2 ^ 20 + 1\<bar> < 2 ^ 53" using n by (simp add: abs_less_iff abs_le_iff)
    ultimately show ?thesis using rnd_dyadic[of "n * 2 ^ 20 + 1" 20] by (simp only: order.refl)
  qed
  have "of_int ((c + T) * micros + 1) \<le> (of_int d :: rat)" using assms(2) by (simp only: of_int_le_iff)
  then have "of_int (c + T) + 1 / 2 ^ 20 \<le> (of_int d / 1000000 :: rat)" by (simp add: field_simps)
  then have "of_int (c + T) + 1 / 2 ^ 20 \<le> x"
    using assms(3-5)
    by (intro rnd_ge_num[OF _ is_f64_of_rnd[OF tick] assms(1)[unfolded total_seconds_def]]) (auto simp: abs_le_iff)
  then have "of_int T + 1 / 2 ^ 20 \<le> x - of_int c" by simp
  then have "fle (Fin (of_int T + 1 / 2 ^ 20)) (rnd (x - of_int c))"
    using rnd_ge[OF _ is_f64_of_rnd[OF tick[of T]]] assms(4,5) by simp
  then show ?thesis by (rule flt_fle_trans[rotated]) simp
qed

lemma residual_exact:
  assumes "total_seconds d = Fin x" "\<bar>c\<bar> \<le> 2 ^ 24" "0 \<le> T" "T \<le> 120"
  shows "flt (Fin (of_int T)) (fabs (rnd (x - of_int c))) \<longleftrightarrow> T * micros < \<bar>d - c * micros\<bar>"
proof (cases "T * micros < \<bar>d - c * micros\<bar>")
  case True
  then consider "(c + T) * micros < d" | "(- c + T) * micros < - d" by (auto simp: algebra_simps abs_if split: if_splits)
  then have "flt (Fin (of_int T)) (fabs (rnd (x - of_int c)))"
  proof cases
    case 1 then show ?thesis using seconds_above[OF assms(1) 1 assms(2-4)] assms(3) by (simp add: flt_fabs)
  next
    case 2
    have "total_seconds (- d) = Fin (- x)" using assms(1) by (simp add: total_seconds_def rnd_minus)
    from seconds_above[OF this 2] assms have "flt (Fin (of_int T)) (rnd (of_int c - x))" by simp
    then have "flt (Fin (of_int T)) (fabs (rnd (of_int c - x)))" using assms(3) by (simp add: flt_fabs)
    then show ?thesis by (simp only: fabs_rnd_swap[of "of_int c" x])
  qed
  with True show ?thesis by simp
next
  case False
  then have "(c - T) * micros \<le> d" "d \<le> (c + T) * micros" by (auto simp: algebra_simps)
  then have "of_int ((c - T) * micros) \<le> (of_int d :: rat)" "(of_int d :: rat) \<le> of_int ((c + T) * micros)"
    by (simp_all only: of_int_le_iff)
  then have "of_int (c - T) \<le> (of_int d / 1000000 :: rat)" "(of_int d / 1000000 :: rat) \<le> of_int (c + T)"
    by (simp_all add: field_simps)
  then have "of_int (c - T) \<le> x" "x \<le> of_int (c + T)"
    using rnd_ge_num[OF _ is_f64_int assms(1)[unfolded total_seconds_def], of "c - T"]
      rnd_le_num[OF _ is_f64_int assms(1)[unfolded total_seconds_def], of "c + T"] assms(2-4)
    by (simp_all add: abs_le_iff abs_less_iff)
  then have "fle (fabs (rnd (x - of_int c))) (Fin (of_int T))"
    using assms(3,4) by (intro fabs_rnd_le) (simp_all add: abs_le_iff)
  with False show ?thesis by (auto dest: fle_not_flt)
qed

lemma float_of_small: "\<bar>k\<bar> < 2 ^ 53 \<Longrightarrow> float_of_int k = Inr (Fin (of_int k))"
  by (simp add: float_of_int_def rnd_of_int)

lemma nearest_whole_hour_Inr:
  assumes "nearest_whole_hour d = Inr (c, r)" "\<bar>c\<bar> < 2 ^ 53"
  obtains x where "d = Fin x" "c mod 3600 = 0" "r = fabs (rnd (x - of_int c))"
proof (cases d)
  case (Fin x)
  from assms(1) obtain k lower upper where
    ends: "float_of_int (k * 3600) = Inr lower" "float_of_int ((k + 1) * 3600) = Inr upper"
    and cr: "c = k * 3600 \<and> r = fabs (fsub d lower) \<or> c = (k + 1) * 3600 \<and> r = fabs (fsub upper d)"
    by (auto simp: nearest_whole_hour_def Let_def res_bind_Inr_iff split: if_splits)
  from cr show thesis
  proof
    assume a: "c = k * 3600 \<and> r = fabs (fsub d lower)"
    then have "lower = Fin (of_int c)" using ends(1) float_of_small[OF assms(2)] by simp
    then show thesis using a Fin by (intro that[of x]) (simp_all add: fsub_def)
  next
    assume a: "c = (k + 1) * 3600 \<and> r = fabs (fsub upper d)"
    then have "upper = Fin (of_int c)" using ends(2) float_of_small[OF assms(2)] by simp
    then have "r = fabs (rnd (of_int c - x))" using a Fin by (simp add: fsub_def)
    then show thesis using a Fin fabs_rnd_swap[of "of_int c" x] by (intro that[of x]) simp_all
  qed
qed (use assms(1) in \<open>auto simp: nearest_whole_hour_def res_simps inf_of_sign_def\<close>)

text \<open>Around a whole hour both neighbouring floors lead to it.\<close>

lemma floor_of_hours:
  assumes "\<bar>x - of_int (k * 3600)\<bar> \<le> 120" "\<bar>k\<bar> \<le> 2 ^ 20"
  obtains v where "rnd (x / 3600) = Fin v" "\<lfloor>v\<rfloor> = k \<or> \<lfloor>v\<rfloor> = k - 1"
proof -
  have half: "is_f64 (Fin (of_int k + s / 2))" if "s = 1 \<or> s = - 1" for s :: rat
  proof -
    have "of_int k + s / 2 = (of_int (2 * k + \<lfloor>s\<rfloor>) / 2 ^ 1 :: rat)" using that by auto
    moreover have "\<bar>2 * k + \<lfloor>s\<rfloor>\<bar> < 2 ^ 53" using assms(2) that by (auto simp: abs_le_iff abs_less_iff floor_minus)
    then have "is_f64 (Fin (of_int (2 * k + \<lfloor>s\<rfloor>) / 2 ^ 1 :: rat))"
      by (intro is_f64_of_rnd[OF rnd_dyadic]) simp_all
    ultimately show ?thesis by (simp only:)
  qed
  have "of_int k + - 1 / 2 \<le> x / 3600" "x / 3600 \<le> of_int k + 1 / 2"
    using assms(1) by (auto simp: abs_le_iff field_simps)
  then obtain v where v: "rnd (x / 3600) = Fin v" "of_int k + - 1 / 2 \<le> v" "v \<le> of_int k + 1 / 2"
    by (rule rnd_between[OF _ _ half half]) auto
  moreover have "\<lfloor>v\<rfloor> = k \<or> \<lfloor>v\<rfloor> = k - 1" using v by linarith
  ultimately show thesis by (intro that)
qed

lemma nearest_whole_hour_step:
  assumes "rnd (x / 3600) = Fin v" "\<lfloor>v\<rfloor> = k" "\<bar>k\<bar> \<le> 2 ^ 21"
  shows "nearest_whole_hour (Fin x) =
    (let a = fabs (rnd (x - of_int (k * 3600))); b = fabs (rnd (x - of_int ((k + 1) * 3600))) in
     res_bind (time_guard (\<not> feq a b) ''broker offset is ambiguous between whole-hour values'') (\<lambda>_.
     Inr (if flt a b then (k * 3600, a) else ((k + 1) * 3600, b))))"
proof -
  have "\<bar>k * 3600\<bar> < 2 ^ 53" "\<bar>(k + 1) * 3600\<bar> < 2 ^ 53" using assms(3) by (auto simp: abs_le_iff abs_less_iff)
  from this[THEN float_of_small] show ?thesis
    using assms(1,2) fabs_rnd_swap[of "of_int ((k + 1) * 3600)" x]
    by (simp add: nearest_whole_hour_def fsub_def Let_def del: of_int_mult of_int_add)
qed

lemma nearest_whole_hour_near:
  assumes "\<bar>x - of_int (k * 3600)\<bar> \<le> 120" "\<bar>k\<bar> \<le> 2 ^ 20"
  shows "\<exists>r. nearest_whole_hour (Fin x) = Inr (k * 3600, r)"
proof -
  obtain v where v: "rnd (x / 3600) = Fin v" "\<lfloor>v\<rfloor> = k \<or> \<lfloor>v\<rfloor> = k - 1" using floor_of_hours[OF assms] .
  define dist where "dist j = fabs (rnd (x - of_int (j * 3600)))" for j
  have near: "fle (dist k) (Fin 120)"
    using fabs_rnd_le[of "x - of_int (k * 3600)" 120] assms(1) by (simp add: dist_def)
  have far: "flt (dist k) (dist j)" if "j = k + 1 \<or> j = k - 1" for j
  proof -
    have "3480 \<le> x - of_int (j * 3600) \<or> x - of_int (j * 3600) \<le> - 3480"
      using assms(1) that by (auto simp: abs_le_iff)
    then have "fle (Fin 3480) (rnd (x - of_int (j * 3600))) \<or> fle (rnd (x - of_int (j * 3600))) (Fin (- 3480))"
      using rnd_ge[of 3480 "x - of_int (j * 3600)"] rnd_le[of "x - of_int (j * 3600)" "- 3480"]
        is_f64_int[of "- 3480"] by auto
    then have "fle (Fin 3480) (dist j)" unfolding dist_def by (cases "rnd (x - of_int (j * 3600))") auto
    then show ?thesis using fle_flt_trans[OF near flt_fle_trans[of _ "Fin 3480"]] by simp
  qed
  have "\<bar>k\<bar> \<le> 2 ^ 21" "\<bar>k - 1\<bar> \<le> 2 ^ 21" using assms(2) by (auto simp: abs_le_iff)
  then have step: "nearest_whole_hour (Fin x) = (let a = dist \<lfloor>v\<rfloor>; b = dist (\<lfloor>v\<rfloor> + 1) in
     res_bind (time_guard (\<not> feq a b) ''broker offset is ambiguous between whole-hour values'') (\<lambda>_.
     Inr (if flt a b then (\<lfloor>v\<rfloor> * 3600, a) else ((\<lfloor>v\<rfloor> + 1) * 3600, b))))"
    unfolding dist_def using v(2) by (intro nearest_whole_hour_step[OF v(1) refl]) (elim disjE, simp_all)
  have sides: "\<not> feq (dist k) (dist (k + 1))" "\<not> feq (dist (k - 1)) (dist k)" "\<not> flt (dist (k - 1)) (dist k)"
    using far[of "k + 1"] far[of "k - 1"] fle_not_flt[OF flt_imp_fle] unfolding feq_def by (metis flt_irrefl)+
  from v(2) show ?thesis
  proof
    assume f: "\<lfloor>v\<rfloor> = k"
    show ?thesis using sides(1) far[of "k + 1"] by (simp add: step[unfolded f] Let_def time_guard_def)
  next
    assume f: "\<lfloor>v\<rfloor> = k - 1"
    show ?thesis using sides(2,3) by (simp add: step[unfolded f] Let_def time_guard_def)
  qed
qed

definition sound_policy :: "broker_time_policy \<Rightarrow> bool" where
  "sound_policy p \<longleftrightarrow> 0 \<le> btp_residual_tolerance p \<and> btp_residual_tolerance p \<le> 120 \<and>
     - 1000 \<le> btp_min_hours p \<and> btp_max_hours p \<le> 1000"

definition whole_hour_within :: "broker_time_policy \<Rightarrow> int \<Rightarrow> int \<Rightarrow> bool" where
  "whole_hour_within p d c \<longleftrightarrow> c mod 3600 = 0 \<and> btp_min_hours p * 3600 \<le> c \<and> c \<le> btp_max_hours p * 3600 \<and>
     \<bar>d - c * micros\<bar> \<le> btp_residual_tolerance p * micros"

lemma candidate_offset_Inr_iff:
  "candidate_offset raw_at obs p = Inr c \<longleftrightarrow> (\<exists>r. nearest_whole_hour (total_seconds (raw_at - obs)) = Inr (c, r) \<and>
     btp_min_hours p * 3600 \<le> c \<and> c \<le> btp_max_hours p * 3600 \<and> \<not> flt (Fin (of_int (btp_residual_tolerance p))) r)"
  by (auto simp: candidate_offset_def res_bind_Inr_iff)

lemma candidate_exact:
  assumes "sound_policy p"
  shows "candidate_offset raw_at obs p = Inr c \<longleftrightarrow> whole_hour_within p (raw_at - obs) c"
proof
  assume "candidate_offset raw_at obs p = Inr c"
  then obtain r where r: "nearest_whole_hour (total_seconds (raw_at - obs)) = Inr (c, r)"
    "btp_min_hours p * 3600 \<le> c" "c \<le> btp_max_hours p * 3600" "\<not> flt (Fin (of_int (btp_residual_tolerance p))) r"
    by (auto simp: candidate_offset_Inr_iff)
  have c: "\<bar>c\<bar> \<le> 2 ^ 24" using r(2,3) assms by (auto simp: sound_policy_def abs_le_iff)
  then obtain x where "total_seconds (raw_at - obs) = Fin x" "c mod 3600 = 0" "r = fabs (rnd (x - of_int c))"
    using nearest_whole_hour_Inr[OF r(1)] by (auto simp: abs_less_iff abs_le_iff)
  then show "whole_hour_within p (raw_at - obs) c"
    using residual_exact[OF _ c, of "raw_at - obs" x "btp_residual_tolerance p"] r assms
    by (simp add: whole_hour_within_def sound_policy_def)
next
  assume w: "whole_hour_within p (raw_at - obs) c"
  let ?T = "btp_residual_tolerance p"
  obtain k where k: "c = k * 3600" using w by (auto simp: whole_hour_within_def)
  have T: "0 \<le> ?T" "?T \<le> 120" using assms by (simp_all add: sound_policy_def)
  have b: "\<bar>c\<bar> \<le> 2 ^ 24" "\<bar>k\<bar> \<le> 2 ^ 20"
    using w assms k by (auto simp: whole_hour_within_def sound_policy_def abs_le_iff)
  have d: "(c - ?T) * micros \<le> raw_at - obs" "raw_at - obs \<le> (c + ?T) * micros"
    using w by (auto simp: whole_hour_within_def algebra_simps abs_le_iff)
  then have "of_int ((c - ?T) * micros) \<le> (of_int (raw_at - obs) :: rat)"
    "(of_int (raw_at - obs) :: rat) \<le> of_int ((c + ?T) * micros)" by (simp_all only: of_int_le_iff)
  then have "of_int (c - ?T) \<le> (of_int (raw_at - obs) / 1000000 :: rat)"
    "(of_int (raw_at - obs) / 1000000 :: rat) \<le> of_int (c + ?T)" by (simp_all add: field_simps)
  moreover have "is_f64 (Fin (of_int (c - ?T)))" "is_f64 (Fin (of_int (c + ?T)))"
    using b(1) T by (simp_all add: is_f64_int abs_le_iff abs_less_iff del: of_int_add of_int_diff)
  ultimately obtain x where x: "total_seconds (raw_at - obs) = Fin x" "of_int (c - ?T) \<le> x" "x \<le> of_int (c + ?T)"
    unfolding total_seconds_def by (rule rnd_between)
  have "\<bar>x - of_int (k * 3600)\<bar> \<le> of_int ?T" using x(2,3) k by (simp add: abs_le_iff)
  moreover have "of_int ?T \<le> (120 :: rat)" using T by simp
  ultimately have "\<bar>x - of_int (k * 3600)\<bar> \<le> 120" by (rule order_trans)
  from nearest_whole_hour_near[OF this b(2)] obtain r where
    r: "nearest_whole_hour (total_seconds (raw_at - obs)) = Inr (c, r)" using x(1) k by auto
  moreover have "r = fabs (rnd (x - of_int c))"
    using nearest_whole_hour_Inr[OF r] b x(1) by (auto simp: abs_le_iff abs_less_iff)
  then have "\<not> flt (Fin (of_int ?T)) r"
    using residual_exact[OF x(1) b(1) T] w by (simp add: whole_hour_within_def)
  ultimately show "candidate_offset raw_at obs p = Inr c"
    using w by (auto simp: candidate_offset_Inr_iff whole_hour_within_def)
qed

subsection \<open>Correctness of the normalised times\<close>

lemma not_in_future_Inr:
  "not_in_future n obs p = Inr u \<longleftrightarrow>
     (\<exists>limit. add_seconds obs (btp_future_tolerance p) = Inr limit \<and> n \<le> limit)"
  by (auto simp: not_in_future_def res_bind_Inr_iff)

lemma strict_utc_utc [simp]: "strict_utc (utc t) field = Inr t"
  by (simp add: strict_utc_def)

lemma mk_offset_resolution_Inr:
  assumes "mk_offset_resolution h r = Inr r'"
  shows "list_all fst (offset_resolution_rules r') \<and> r\<lparr>bor_id := []\<rparr> = r'\<lparr>bor_id := []\<rparr> \<and> bor_id r' \<noteq> []"
proof -
  have b: "bind_identity ''mt5time-'' h (\<lambda>r. r\<lparr>bor_id := []\<rparr>) bor_id (\<lambda>i r. r\<lparr>bor_id := i\<rparr>)
    ''resolution_id does not match broker time resolution content'' r = Inr r'"
    and rules: "list_all fst (offset_resolution_rules r)"
    using assms by (auto simp: mk_offset_resolution_def res_simps)
  have "r' = r\<lparr>bor_id := content_id ''mt5time-'' h (r\<lparr>bor_id := []\<rparr>)\<rparr>"
    using b resolution_identity.bind_ok_iff by blast
  with rules show ?thesis
    using resolution_identity.bind_content[OF b] by (simp add: offset_resolution_rules_def content_id_def)
qed

lemma trace_of_ok:
  assumes "list_all fst (offset_resolution_rules (tn_resolution N))" "bor_id (tn_resolution N) \<noteq> []"
  shows "\<exists>t. trace_of h N kind n x = Inr t \<and> btt_normalized_at t = x"
  using assms by (auto simp: trace_of_def Let_def mk_timestamp_trace_def validate.simps offset_resolution_rules_def
      trace_identity.bind_fresh)

lemma trace_of_Inr: "trace_of h N kind n x = Inr t \<Longrightarrow> btt_normalized_at t = x \<and> btt_offset t = bor_offset (tn_resolution N)"
  by (auto simp: trace_of_def Let_def mk_timestamp_trace_def res_simps trace_identity.bind_ok_iff)

lemma session_candidate_cases:
  assumes "sound_policy p" "session_candidate raw obs p = Inr m"
  shows "whole_hour_within p (raw - obs) c \<longleftrightarrow> m = Some c"
  using assms candidate_exact[OF assms(1), of raw obs c]
  by (auto simp: session_candidate_def split: sum.splits py_error.splits)

lemma normalize_tick_Inr:
  "normalize_tick h N seconds msc (utc obs) = Inr t \<longleftrightarrow> (\<exists>raw m limit normalized.
     raw_tick_datetime seconds msc = Inr raw \<and> session_candidate raw obs (tn_policy N) = Inr m \<and>
     opt_all (\<lambda>c. c = bor_offset (tn_resolution N)) m \<and>
     add_seconds raw (- bor_offset (tn_resolution N)) = Inr normalized \<and>
     add_seconds obs (btp_future_tolerance (tn_policy N)) = Inr limit \<and> normalized \<le> limit \<and>
     trace_of h N SRC_TICK (case msc of Some ms \<Rightarrow> ms div 1000 | None \<Rightarrow> seconds) normalized = Inr t)"
  by (auto simp: normalize_tick_def res_bind_Inr_iff not_in_future_Inr)

lemma normalized_tick:
  assumes "sound_policy (tn_policy N)" "list_all fst (offset_resolution_rules (tn_resolution N))"
    "bor_id (tn_resolution N) \<noteq> []" "raw_tick_datetime seconds msc = Inr raw"
  shows "(\<forall>t. normalize_tick h N seconds msc (utc obs) = Inr t \<longrightarrow>
       btt_normalized_at t = raw - bor_offset (tn_resolution N) * micros \<and>
       btt_normalized_at t \<le> obs + btp_future_tolerance (tn_policy N) * micros \<and>
       (\<forall>c. whole_hour_within (tn_policy N) (raw - obs) c \<longrightarrow> c = bor_offset (tn_resolution N))) \<and>
    (whole_hour_within (tn_policy N) (raw - obs) (bor_offset (tn_resolution N)) \<and>
       is_ok (add_seconds raw (- bor_offset (tn_resolution N))) \<and>
       is_ok (add_seconds obs (btp_future_tolerance (tn_policy N))) \<and>
       raw - bor_offset (tn_resolution N) * micros \<le> obs + btp_future_tolerance (tn_policy N) * micros \<longrightarrow>
     is_ok (normalize_tick h N seconds msc (utc obs)))"
proof (intro conjI allI impI)
  fix t assume "normalize_tick h N seconds msc (utc obs) = Inr t"
  then obtain m limit normalized where n: "session_candidate raw obs (tn_policy N) = Inr m"
    "opt_all (\<lambda>c. c = bor_offset (tn_resolution N)) m"
    "add_seconds raw (- bor_offset (tn_resolution N)) = Inr normalized"
    "add_seconds obs (btp_future_tolerance (tn_policy N)) = Inr limit" "normalized \<le> limit"
    "trace_of h N SRC_TICK (case msc of Some ms \<Rightarrow> ms div 1000 | None \<Rightarrow> seconds) normalized = Inr t"
    using assms(4) by (auto simp: normalize_tick_Inr)
  note at = trace_of_Inr[OF n(6)] add_seconds_Inr[OF n(3)] add_seconds_Inr[OF n(4)]
  show "btt_normalized_at t = raw - bor_offset (tn_resolution N) * micros" using at by simp
  show "btt_normalized_at t \<le> obs + btp_future_tolerance (tn_policy N) * micros" using at n(5) by simp
  fix c assume "whole_hour_within (tn_policy N) (raw - obs) c"
  then have "m = Some c" using session_candidate_cases[OF assms(1) n(1)] by simp
  with n(2) show "c = bor_offset (tn_resolution N)" by simp
next
  assume a: "whole_hour_within (tn_policy N) (raw - obs) (bor_offset (tn_resolution N)) \<and>
       is_ok (add_seconds raw (- bor_offset (tn_resolution N))) \<and>
       is_ok (add_seconds obs (btp_future_tolerance (tn_policy N))) \<and>
       raw - bor_offset (tn_resolution N) * micros \<le> obs + btp_future_tolerance (tn_policy N) * micros"
  then obtain normalized limit where n: "add_seconds raw (- bor_offset (tn_resolution N)) = Inr normalized"
    "add_seconds obs (btp_future_tolerance (tn_policy N)) = Inr limit" by (auto simp: is_ok_iff)
  have "candidate_offset raw obs (tn_policy N) = Inr (bor_offset (tn_resolution N))"
    using a candidate_exact[OF assms(1)] by blast
  then have "session_candidate raw obs (tn_policy N) = Inr (Some (bor_offset (tn_resolution N)))"
    by (simp add: session_candidate_def)
  moreover have "normalized \<le> limit" using a add_seconds_Inr[OF n(1)] add_seconds_Inr[OF n(2)] by simp
  moreover obtain t where
    "trace_of h N SRC_TICK (case msc of Some ms \<Rightarrow> ms div 1000 | None \<Rightarrow> seconds) normalized = Inr t"
    using trace_of_ok[OF assms(2,3)] by blast
  ultimately show "is_ok (normalize_tick h N seconds msc (utc obs))"
    using n assms(4) unfolding is_ok_iff normalize_tick_Inr by fastforce
qed

text \<open>C20. For a policy within a thousand hours, the inference of the broker's offset in binary64 decides exactly
  what the microseconds decide: an offset is found if and only if some whole hour of the plausible range lies
  within the tolerance of the difference between the broker's and the observed time, and that hour is the one
  returned; the tolerance, the ambiguity test and the floor are never misled by rounding.
\<close>

theorem inferred_offset_exact:
  assumes "sound_policy p"
  shows "candidate_offset raw_at obs p = Inr c \<longleftrightarrow>
     c mod 3600 = 0 \<and> btp_min_hours p * 3600 \<le> c \<and> c \<le> btp_max_hours p * 3600 \<and>
     \<bar>raw_at - obs - c * micros\<bar> \<le> btp_residual_tolerance p * micros"
  using candidate_exact[OF assms] by (simp add: whole_hour_within_def)

theorem inferred_offset_exact_witness:
  "candidate_offset (1000000 + (7200 + 15) * micros) 1000000 default_broker_time_policy = Inr 7200"
  using inferred_offset_exact[of default_broker_time_policy "1000000 + (7200 + 15) * micros" 1000000 7200]
  by (simp add: sound_policy_def default_broker_time_policy_def)

lemma inferred_resolution:
  assumes "sound_policy p" "infer_broker_time_offset h seconds msc (utc obs) inst broker rid env (Some p) = Inr r"
  obtains raw where "raw_tick_datetime seconds msc = Inr raw" "whole_hour_within p (raw - obs) (bor_offset r)"
    "bor_normalized_at r = raw - bor_offset r * micros" "bor_observed_at r = obs"
    "list_all fst (offset_resolution_rules r)" "bor_id r \<noteq> []"
proof -
  from assms(2) obtain raw c n where i: "raw_tick_datetime seconds msc = Inr raw" "candidate_offset raw obs p = Inr c"
    "add_seconds raw (- c) = Inr n"
    and mk: "mk_offset_resolution h \<lparr>bor_id = [], bor_version = normalization_version, bor_instrument = inst,
       bor_symbol = broker, bor_instrument_resolution = rid, bor_environment = env, bor_offset = c,
       bor_raw_time = seconds, bor_raw_msc = msc, bor_raw_at = raw, bor_normalized_at = n,
       bor_observed_at = obs, bor_resolved_at = obs\<rparr> = Inr r"
    by (auto simp: infer_broker_time_offset_def res_bind_Inr_iff)
  note same = mk_offset_resolution_Inr[OF mk, THEN conjunct2, THEN conjunct1]
  have r: "bor_offset r = c" "bor_normalized_at r = n" "bor_observed_at r = obs"
    using arg_cong[OF same, of bor_offset] arg_cong[OF same, of bor_normalized_at]
      arg_cong[OF same, of bor_observed_at] by simp_all
  show thesis
    using i mk_offset_resolution_Inr[OF mk] r add_seconds_Inr[OF i(3)] candidate_exact[OF assms(1)]
    by (intro that[of raw]) auto
qed

text \<open>C19. In a session whose offset was inferred from one tick, a later tick the normaliser accepts carries exactly
  the broker time minus the session's offset, is not later than its observation by more than the tolerance, and
  is explained by no other plausible whole hour, so a change of the broker's clock during the session is refused;
  a tick the session's offset explains within the tolerances is accepted.
\<close>

theorem session_tick_normalized:
  assumes "sound_policy p" "infer_broker_time_offset hr sec0 msc0 (utc obs0) inst broker rid env (Some p) = Inr r"
    "raw_tick_datetime seconds msc = Inr raw"
  shows "(\<forall>t. normalize_tick h (mk_time_normalizer r (Some p)) seconds msc (utc obs) = Inr t \<longrightarrow>
       btt_normalized_at t = raw - bor_offset r * micros \<and>
       btt_normalized_at t \<le> obs + btp_future_tolerance p * micros \<and>
       (\<forall>c. whole_hour_within p (raw - obs) c \<longrightarrow> c = bor_offset r)) \<and>
    (whole_hour_within p (raw - obs) (bor_offset r) \<and> is_ok (add_seconds raw (- bor_offset r)) \<and>
       is_ok (add_seconds obs (btp_future_tolerance p)) \<and>
       raw - bor_offset r * micros \<le> obs + btp_future_tolerance p * micros \<longrightarrow>
     is_ok (normalize_tick h (mk_time_normalizer r (Some p)) seconds msc (utc obs)))"
  using normalized_tick[of "mk_time_normalizer r (Some p)" seconds msc raw h obs] assms
    inferred_resolution[OF assms(1,2)] by (auto simp: mk_time_normalizer_def)

text \<open>A broker two hours ahead of UTC, and a tick one minute later.\<close>

lemma demo_offset: "candidate_offset (1700007199 * micros) (1700000000 * micros) default_broker_time_policy = Inr 7200"
  by (simp add: candidate_exact sound_policy_def whole_hour_within_def default_broker_time_policy_def)

theorem session_tick_normalized_witness:
  "\<exists>r. infer_broker_time_offset (\<lambda>_. ''ab'') 1700007199 None (utc (1700000000 * micros)) ''XAUUSD'' ''XAUUSDm''
       ''res'' \<lparr>ben_id = ''e'', ben_server = None, ben_login_digest = None, ben_trade_mode = None,
         ben_company = None, ben_build = None\<rparr> (Some default_broker_time_policy) = Inr r \<and> bor_offset r = 7200 \<and>
     is_ok (normalize_tick (\<lambda>_. ''cd'') (mk_time_normalizer r (Some default_broker_time_policy)) 1700007259 None
       (utc (1700000060 * micros)))"
proof -
  let ?env = "\<lparr>ben_id = ''e'', ben_server = None, ben_login_digest = None, ben_trade_mode = None,
    ben_company = None, ben_build = None\<rparr> :: broker_environment"
  have raw: "raw_tick_datetime 1700007199 None = Inr (1700007199 * micros)"
    "raw_tick_datetime 1700007259 None = Inr (1700007259 * micros)"
    by (simp_all add: raw_tick_datetime_def from_epoch_def dt_min_def dt_max_def time_guard_def)
  obtain r where r: "infer_broker_time_offset (\<lambda>_. ''ab'') 1700007199 None (utc (1700000000 * micros)) ''XAUUSD''
      ''XAUUSDm'' ''res'' ?env (Some default_broker_time_policy) = Inr r" "bor_offset r = 7200"
    using demo_offset raw by (simp add: infer_broker_time_offset_def add_seconds_def dt_min_def dt_max_def
        not_in_future_def default_broker_time_policy_def time_guard_def mk_offset_resolution_def
        offset_resolution_rules_def validate.simps nonempty_def bind_identity_def)
  have "is_ok (normalize_tick (\<lambda>_. ''cd'') (mk_time_normalizer r (Some default_broker_time_policy)) 1700007259 None
       (utc (1700000060 * micros)))"
    using session_tick_normalized[OF _ r(1) raw(2), of "\<lambda>_. ''cd''" "1700000060 * micros"] r(2)
    by (simp add: sound_policy_def default_broker_time_policy_def whole_hour_within_def is_ok_def add_seconds_def
        dt_min_def dt_max_def)
  with r show ?thesis by blast
qed

end
