(* ===== verification/MT5Snapshot.thy ===== *)
theory MT5Snapshot
  imports MT5Position ExecutionLedger MT5Time
begin

section \<open>Broker snapshots (\<open>mt5/snapshot.py\<close>)\<close>

text \<open>
  The read-only acquisition of one canonical snapshot from the terminal. The gateway, the clock and
  \<open>time.sleep\<close> are arbitrary effectful functions on one world. \<open>MT5SnapshotError\<close> is a runtime error, like the
  error of the time normaliser: the one place that tells them apart wraps the normaliser's call alone.
\<close>

record snapshot_digests =
  sd_trace :: "timestamp_trace \<Rightarrow> string"
  sd_position :: "position_state \<Rightarrow> string"
  sd_order :: "order_state \<Rightarrow> string"
  sd_link :: "broker_intent_link \<Rightarrow> string"
  sd_snapshot :: "broker_snapshot \<Rightarrow> string"

record 'w snapshot_provider =
  spv_gateway :: "'w gateway"
  spv_mapping :: symbol_mapping
  spv_clock :: "('w, py_datetime) eff"
  spv_sleep :: "f64 \<Rightarrow> ('w, unit) eff"
  spv_source :: string
  spv_version :: string
  spv_stale_ms :: int
  spv_select :: bool
  spv_time :: "time_normalizer option"
  spv_texts :: texts
  spv_digests :: snapshot_digests

definition mk_snapshot_provider :: "'w snapshot_provider \<Rightarrow> 'w snapshot_provider res" where
  "mk_snapshot_provider P = validate [rule_ok ''stale_after_ms must be positive'' (0 < spv_stale_ms P)] P"

subsection \<open>Values of the broker's records\<close>

abbreviation snapshot_error :: "string \<Rightarrow> 'a res" where
  "snapshot_error msg \<equiv> Inl (RuntimeError msg)"

fun optional_float :: "texts \<Rightarrow> py_value \<Rightarrow> f64 option res" where
  "optional_float T PvNone = Inr None"
| "optional_float T (PvInt n) = res_bind (float_of_int n) (\<lambda>x. Inr (Some x))"
| "optional_float T (PvFloat x) = Inr (Some x)"
| "optional_float T v = snapshot_error (''INVALID_NUMERIC_VALUE: '' @ tx_repr T v)"

fun optional_int :: "texts \<Rightarrow> py_value \<Rightarrow> int option res" where
  "optional_int T PvNone = Inr None"
| "optional_int T (PvInt n) = Inr (Some n)"
| "optional_int T v = snapshot_error (''INVALID_INTEGER_VALUE: '' @ tx_repr T v)"

fun optional_str :: "texts \<Rightarrow> py_value \<Rightarrow> string option res" where
  "optional_str T PvNone = Inr None"
| "optional_str T (PvText s) = Inr (Some s)"
| "optional_str T v = snapshot_error (''INVALID_STRING_VALUE: '' @ tx_repr T v)"

definition required_value :: "string \<Rightarrow> 'a option \<Rightarrow> 'a res" where
  "required_value field v = (case v of None \<Rightarrow> snapshot_error (''MISSING_FIELD: '' @ field) | Some x \<Rightarrow> Inr x)"

definition required_int :: "texts \<Rightarrow> info \<Rightarrow> string \<Rightarrow> int res" where
  "required_int T m field = res_bind (optional_int T (info_get m field)) (required_value field)"

definition required_float :: "texts \<Rightarrow> info \<Rightarrow> string \<Rightarrow> f64 res" where
  "required_float T m field = res_bind (optional_float T (info_get m field)) (required_value field)"

text \<open>The broker writes a missing protective price as zero.\<close>

definition protective_price :: "texts \<Rightarrow> py_value \<Rightarrow> f64 option res" where
  "protective_price T v = res_bind (optional_float T v) (\<lambda>x. Inr (if x = Some (Fin 0) then None else x))"

fun optional_broker_last :: "py_value \<Rightarrow> f64 option res" where
  "optional_broker_last (PvInt n) = res_bind (float_of_int n) (\<lambda>x. Inr (if flt (Fin 0) x then Some x else None))"
| "optional_broker_last (PvFloat x) = Inr (if is_fin x \<and> flt (Fin 0) x then Some x else None)"
| "optional_broker_last v = Inr None"

definition require_symbol :: "info \<Rightarrow> string \<Rightarrow> unit res" where
  "require_symbol m s = time_guard (info_get m ''symbol'' = PvText s)
     ''SYMBOL_MISMATCH: broker object uses an unexpected symbol''"

text \<open>\<open>str(n)\<close> of an integer is limited to 4300 digits.\<close>

definition py_int_str :: "int \<Rightarrow> string res" where
  "py_int_str n = (if digit_count (int_text n) \<le> 4300 then Inr (int_text n)
     else Inl (ValueError ''Exceeds the limit (4300 digits) for integer string conversion''))"

definition record_time :: "texts \<Rightarrow> info \<Rightarrow> dt \<Rightarrow> dt res" where
  "record_time T m fallback =
     res_bind (optional_int T (info_get m ''time_msc'')) (\<lambda>ms.
     if opt_some (\<lambda>k. k \<noteq> 0) ms then res_bind (int_div (the ms) 1000) from_timestamp
     else res_bind (optional_int T (info_get m ''time'')) (\<lambda>seconds.
       if opt_some (\<lambda>k. k \<noteq> 0) seconds then from_epoch (the seconds) else Inr fallback))"

text \<open>The dictionary of order types keeps the last of two constants with one value.\<close>

definition order_type_pairs :: "mt5_constants \<Rightarrow> (int \<times> order_type) list" where
  "order_type_pairs c =
     [(mc_buy_limit c, BUY_LIMIT), (mc_sell_limit c, SELL_LIMIT), (mc_buy_stop c, BUY_STOP),
      (mc_sell_stop c, SELL_STOP), (mc_buy_stop_limit c, BUY_STOP_LIMIT), (mc_sell_stop_limit c, SELL_STOP_LIMIT)]"

definition order_type_of :: "mt5_constants \<Rightarrow> int \<Rightarrow> order_type res" where
  "order_type_of c v = (case map_of (rev (order_type_pairs c)) v of
     None \<Rightarrow> snapshot_error (''UNSUPPORTED_ORDER_TYPE: '' @ int_text v) | Some t \<Rightarrow> Inr t)"

definition side_of :: "mt5_constants \<Rightarrow> int \<Rightarrow> position_side res" where
  "side_of c v = (if v = mc_position_buy c then Inr PS_BUY else if v = mc_position_sell c then Inr PS_SELL
     else snapshot_error (''UNSUPPORTED_POSITION_TYPE: '' @ int_text v))"

subsection \<open>Persisted links\<close>

type_synonym provenance = "((broker_object_kind \<times> int) \<times> persisted_link) list"

fun provenance_by_ticket :: "provenance \<Rightarrow> persisted_link list \<Rightarrow> provenance res" where
  "provenance_by_ticket seen [] = Inr seen"
| "provenance_by_ticket seen (l # ls) =
     (if map_of seen (pl_object_kind l, pl_ticket l) \<noteq> None
      then snapshot_error ''DUPLICATE_LINKAGE: broker ticket has multiple intent links''
      else provenance_by_ticket (((pl_object_kind l, pl_ticket l), l) # seen) ls)"

definition object_by_ticket :: "position_state list \<Rightarrow> order_state list \<Rightarrow> broker_object_kind \<Rightarrow> int \<Rightarrow> string option" where
  "object_by_ticket positions orders kind ticket = (case kind of
     BK_POSITION \<Rightarrow> map_of (rev (map (\<lambda>p. (pos_broker_ticket p, pos_id p)) positions)) (Some ticket)
   | BK_ORDER \<Rightarrow> map_of (rev (map (\<lambda>p. (ord_broker_ticket p, ord_id p)) orders)) (Some ticket))"

definition canonical_link ::
  "(broker_intent_link \<Rightarrow> string) \<Rightarrow> position_state list \<Rightarrow> order_state list \<Rightarrow> persisted_link
     \<Rightarrow> broker_intent_link res" where
  "canonical_link h positions orders l =
     (case object_by_ticket positions orders (pl_object_kind l) (pl_ticket l) of
        None \<Rightarrow> snapshot_error (''MISSING_EXACT_LINK: exact broker ticket '' @ int_text (pl_ticket l) @ '' is absent'')
      | Some i \<Rightarrow> mk_broker_intent_link h \<lparr>bl_id = [], bl_intent_id = pl_intent_id l,
          bl_object_kind = pl_object_kind l, bl_object_id = i, bl_ticket = Some (pl_ticket l),
          bl_transport_id = Some (pl_transport_id l)\<rparr>)"

definition canonical_links ::
  "(broker_intent_link \<Rightarrow> string) \<Rightarrow> persisted_link list \<Rightarrow> position_state list \<Rightarrow> order_state list
     \<Rightarrow> broker_intent_link list res" where
  "canonical_links h links positions orders = res_map (canonical_link h positions orders) (sort_key pl_id links)"

subsection \<open>Canonical states\<close>

definition snapshot_freshness :: "'w snapshot_provider \<Rightarrow> string \<Rightarrow> freshness_status \<Rightarrow> dt \<Rightarrow> component_freshness res" where
  "snapshot_freshness P component status at' = mk_freshness
     \<lparr>cf_component = component, cf_status = status, cf_observed_at = Some at', cf_available_at = Some at',
      cf_stale_after_ms = Some (spv_stale_ms P), cf_reason = None\<rparr>"

definition account_of :: "'w snapshot_provider \<Rightarrow> info \<Rightarrow> dt \<Rightarrow> account_state res" where
  "account_of P m at' =
     (let T = spv_texts P in
     res_bind (required_int T m ''login'') (\<lambda>login.
     res_bind (py_int_str login) (\<lambda>account_id.
     res_bind (snapshot_freshness P ''account'' FS_AVAILABLE at') (\<lambda>f.
     res_bind (optional_str T (info_get m ''currency'')) (\<lambda>currency.
     res_bind (optional_float T (info_get m ''balance'')) (\<lambda>balance.
     res_bind (optional_float T (info_get m ''equity'')) (\<lambda>equity.
     res_bind (optional_float T (info_get m ''margin_free'')) (\<lambda>free.
     res_bind (optional_float T (info_get m ''margin'')) (\<lambda>used.
     res_bind (optional_float T (info_get m ''margin_level'')) (\<lambda>level.
     res_bind (optional_float T (info_get m ''profit'')) (\<lambda>profit.
     mk_account_state \<lparr>ac_source = spv_source P, ac_account_id = account_id, ac_as_of = at', ac_freshness = f,
       ac_currency = currency, ac_balance = balance, ac_equity = equity, ac_free_margin = free,
       ac_used_margin = used, ac_margin_level = level, ac_floating_pnl = profit, ac_daily_realized_pnl = None,
       ac_daily_unrealized_pnl = None, ac_daily_drawdown = None, ac_total_drawdown = None\<rparr>)))))))))))"

definition spread_of :: "f64 option \<Rightarrow> f64 option \<Rightarrow> f64 option \<Rightarrow> f64 option res" where
  "spread_of point bid ask = (case (point, bid, ask) of
     (Some p, Some b, Some a) \<Rightarrow> res_bind (fdiv (fsub a b) p) (\<lambda>q. res_bind (py_round q 10) (\<lambda>s. Inr (Some s)))
   | _ \<Rightarrow> Inr None)"

definition market_status :: "'w snapshot_provider \<Rightarrow> dt \<Rightarrow> dt \<Rightarrow> freshness_status" where
  "market_status P tick_at observed =
     (let age_ms = fmul (total_seconds (observed - tick_at)) (Fin 1000);
          minimum = (case spv_time P of None \<Rightarrow> 0 | Some N \<Rightarrow> - btp_future_tolerance (tn_policy N) * 1000) in
      if fle (Fin (of_int minimum)) age_ms \<and> fle age_ms (Fin (of_int (spv_stale_ms P))) then FS_AVAILABLE else FS_STALE)"

definition market_of :: "'w snapshot_provider \<Rightarrow> info \<Rightarrow> info \<Rightarrow> dt \<Rightarrow> dt \<Rightarrow> market_state res" where
  "market_of P tick symbol tick_at observed =
     (let T = spv_texts P in
     res_bind (optional_float T (info_get symbol ''point'')) (\<lambda>point.
     res_bind (optional_float T (info_get tick ''bid'')) (\<lambda>bid.
     res_bind (optional_float T (info_get tick ''ask'')) (\<lambda>ask.
     res_bind (spread_of point bid ask) (\<lambda>spread.
     res_bind (snapshot_freshness P ''market'' (market_status P tick_at observed) observed) (\<lambda>f.
     res_bind (optional_broker_last (info_get tick ''last'')) (\<lambda>last_price.
     mk_market_state \<lparr>ms_source = spv_source P, ms_symbol = sm_internal (spv_mapping P), ms_as_of = tick_at,
       ms_freshness = f, ms_bid = bid, ms_ask = ask, ms_last = last_price, ms_spread_points = spread,
       ms_base_timeframe = Some ''TICK'', ms_completed_timeframes = [], ms_feature_manifest_id = None,
       ms_market_data_version = Some (spv_version P)\<rparr>)))))))"

definition position_of ::
  "'w snapshot_provider \<Rightarrow> string \<Rightarrow> provenance \<Rightarrow> info \<Rightarrow> position_state res" where
  "position_of P broker known m =
     (let T = spv_texts P in
     res_bind (require_symbol m broker) (\<lambda>_.
     res_bind (required_int T m ''ticket'') (\<lambda>ticket.
     res_bind (required_int T m ''type'') (\<lambda>kind.
     res_bind (side_of (gw_constants (spv_gateway P)) kind) (\<lambda>side.
     res_bind (required_float T m ''volume'') (\<lambda>volume.
     res_bind (required_int T m ''time'') (\<lambda>seconds.
     res_bind (from_epoch seconds) (\<lambda>opened.
     res_bind (required_float T m ''price_open'') (\<lambda>open_price.
     res_bind (optional_float T (info_get m ''price_current'')) (\<lambda>current.
     res_bind (protective_price T (info_get m ''sl'')) (\<lambda>sl.
     res_bind (protective_price T (info_get m ''tp'')) (\<lambda>tp.
     res_bind (optional_float T (info_get m ''profit'')) (\<lambda>profit.
     res_bind (optional_float T (info_get m ''commission'')) (\<lambda>commission.
     res_bind (optional_float T (info_get m ''swap'')) (\<lambda>swap.
     let link = map_of known (BK_POSITION, ticket) in
     mk_position_state (sd_position (spv_digests P)) \<lparr>pos_id = [], pos_source = spv_source P,
       pos_broker_ticket = Some ticket, pos_replay_position_id = None, pos_symbol = sm_internal (spv_mapping P),
       pos_side = side, pos_volume_lots = volume, pos_opened_at = opened, pos_open_price = open_price,
       pos_current_price = current, pos_stop_loss = sl, pos_take_profit = tp, pos_floating_pnl = profit,
       pos_commission = commission, pos_swap = swap, pos_setup_id = Option.bind link pl_setup_id,
       pos_thesis_id = Option.bind link pl_thesis_id\<rparr>)))))))))))))))"

definition order_of :: "'w snapshot_provider \<Rightarrow> string \<Rightarrow> provenance \<Rightarrow> info \<Rightarrow> order_state res" where
  "order_of P broker known m =
     (let T = spv_texts P in
     res_bind (require_symbol m broker) (\<lambda>_.
     res_bind (required_int T m ''ticket'') (\<lambda>ticket.
     res_bind (res_bind (required_int T m ''type'') (order_type_of (gw_constants (spv_gateway P)))) (\<lambda>kind.
     res_bind (optional_int T (info_get m ''time_expiration'')) (\<lambda>expiration.
     res_bind (required_float T m ''volume_current'') (\<lambda>volume.
     res_bind (res_bind (required_int T m ''time_setup'') from_epoch) (\<lambda>created.
     res_bind (required_float T m ''price_open'') (\<lambda>price.
     res_bind (protective_price T (info_get m ''sl'')) (\<lambda>sl.
     res_bind (protective_price T (info_get m ''tp'')) (\<lambda>tp.
     res_bind (if opt_some (\<lambda>k. k \<noteq> 0) expiration
       then res_bind (from_epoch (the expiration)) (\<lambda>e. Inr (Some e)) else Inr None) (\<lambda>expires.
     let link = map_of known (BK_ORDER, ticket) in
     mk_order_state (sd_order (spv_digests P)) \<lparr>ord_id = [], ord_source = spv_source P,
       ord_broker_ticket = Some ticket, ord_replay_order_id = None, ord_symbol = sm_internal (spv_mapping P),
       ord_order_type = kind, ord_volume_lots = volume, ord_created_at = created, ord_price = price,
       ord_stop_loss = sl, ord_take_profit = tp, ord_expires_at = expires,
       ord_setup_id = Option.bind link pl_setup_id, ord_thesis_id = Option.bind link pl_thesis_id\<rparr>)))))))))))"

definition constraints_of :: "'w snapshot_provider \<Rightarrow> info \<Rightarrow> info \<Rightarrow> info \<Rightarrow> dt \<Rightarrow> broker_constraints res" where
  "constraints_of P symbol terminal account at' =
     (let T = spv_texts P; number = (\<lambda>k. optional_float T (info_get symbol k)) in
     res_bind (optional_int T (info_get symbol ''trade_mode'')) (\<lambda>mode.
     let allowed = (info_get terminal ''trade_allowed'' = PvBool True \<and>
           info_get account ''trade_allowed'' = PvBool True \<and> info_get account ''trade_expert'' = PvBool True \<and>
           opt_some (\<lambda>k. k \<noteq> mc_symbol_disabled (gw_constants (spv_gateway P))) mode) in
     res_bind (snapshot_freshness P ''broker_constraints'' FS_AVAILABLE at') (\<lambda>f.
     res_bind (optional_int T (info_get symbol ''digits'')) (\<lambda>digits.
     res_bind (number ''volume_min'') (\<lambda>vmin.
     res_bind (number ''volume_max'') (\<lambda>vmax.
     res_bind (number ''volume_step'') (\<lambda>vstep.
     res_bind (number ''point'') (\<lambda>point.
     res_bind (number ''trade_tick_size'') (\<lambda>tick_size.
     res_bind (number ''trade_tick_value_loss'') (\<lambda>tick_value.
     res_bind (number ''trade_stops_level'') (\<lambda>stops.
     res_bind (number ''trade_freeze_level'') (\<lambda>freeze.
     mk_broker_constraints \<lparr>bc_source = spv_source P, bc_symbol = sm_internal (spv_mapping P), bc_as_of = at',
       bc_freshness = f, bc_trade_allowed = Some allowed, bc_digits = digits, bc_volume_min = vmin,
       bc_volume_max = vmax, bc_volume_step = vstep, bc_point_size = point, bc_tick_size = tick_size,
       bc_tick_value_loss = tick_value, bc_stops_level_points = stops, bc_freeze_level_points = freeze\<rparr>))))))))))))"

definition signed_by_side :: "position_state \<Rightarrow> f64 \<Rightarrow> f64" where
  "signed_by_side p x = (if pos_side p = PS_BUY then x else fneg x)"

definition notionals_of :: "f64 option \<Rightarrow> position_state list \<Rightarrow> f64 list option" where
  "notionals_of contract_size positions = (case contract_size of
     None \<Rightarrow> None
   | Some c \<Rightarrow> if list_all (\<lambda>p. pos_current_price p \<noteq> None) positions
       then Some (map (\<lambda>p. fmul (fmul (pos_volume_lots p) c) (the (pos_current_price p))) positions) else None)"

definition rounded_sum :: "f64 list option \<Rightarrow> f64 option res" where
  "rounded_sum v = (case v of None \<Rightarrow> Inr None | Some xs \<Rightarrow> res_bind (py_round (fsum xs) 10) (\<lambda>x. Inr (Some x)))"

definition exposure_of :: "'w snapshot_provider \<Rightarrow> position_state list \<Rightarrow> info \<Rightarrow> dt \<Rightarrow> exposure_state res" where
  "exposure_of P positions symbol at' =
     res_bind (rounded_sum (Some (map pos_volume_lots positions))) (\<lambda>gross.
     res_bind (rounded_sum (Some (map (\<lambda>p. signed_by_side p (pos_volume_lots p)) positions))) (\<lambda>net.
     res_bind (optional_float (spv_texts P) (info_get symbol ''trade_contract_size'')) (\<lambda>contract_size.
     let notionals = notionals_of contract_size positions in
     res_bind (rounded_sum notionals) (\<lambda>gross_notional.
     res_bind (rounded_sum (map_option (map2 signed_by_side positions) notionals)) (\<lambda>net_notional.
     res_bind (snapshot_freshness P ''exposure'' FS_AVAILABLE at') (\<lambda>f.
     mk_exposure_state \<lparr>ex_as_of = at', ex_freshness = f, ex_gross_lots = gross, ex_net_lots = net,
       ex_gross_notional = gross_notional, ex_net_notional = net_notional\<rparr>))))))"

subsection \<open>Acquisition\<close>

definition clock_utc :: "'w snapshot_provider \<Rightarrow> ('w, dt) eff" where
  "clock_utc P = eff_bind (spv_clock P) (\<lambda>v. eff_of (ensure_utc v))"

definition required_info :: "('w, info option) eff \<Rightarrow> string \<Rightarrow> ('w, info) eff" where
  "required_info m code = eff_bind m (\<lambda>v. eff_of (case v of
     None \<Rightarrow> snapshot_error (code @ '': required MT5 response is unavailable'') | Some i \<Rightarrow> Inr i))"

text \<open>Only the normaliser's error is renamed; its other exceptions pass.\<close>

definition normalization_failure :: "'a res \<Rightarrow> 'a res" where
  "normalization_failure m = (case m of
     Inl (RuntimeError msg) \<Rightarrow> snapshot_error (''CLOCK_NORMALIZATION_FAILED: '' @ msg) | _ \<Rightarrow> m)"

definition normalized_tick_time ::
  "'w snapshot_provider \<Rightarrow> time_normalizer \<Rightarrow> info \<Rightarrow> dt \<Rightarrow> dt res" where
  "normalized_tick_time P N tick observed =
     res_bind (optional_int (spv_texts P) (info_get tick ''time'')) (\<lambda>seconds.
     res_bind (case seconds of None \<Rightarrow> snapshot_error ''TICK_TIME_UNAVAILABLE: broker tick has no time''
       | Some n \<Rightarrow> Inr n) (\<lambda>raw_seconds.
     res_bind (optional_int (spv_texts P) (info_get tick ''time_msc'')) (\<lambda>msc.
     res_bind (normalization_failure (normalize_tick (sd_trace (spv_digests P)) N raw_seconds msc (utc observed)))
       (\<lambda>t. Inr (btt_normalized_at t)))))"

text \<open>
  The tick's time and the observation time. With a normaliser the observation is read again after the tick
  arrived, and a tick slightly ahead of it is waited for.
\<close>

definition tick_arrival :: "'w snapshot_provider \<Rightarrow> info \<Rightarrow> dt \<Rightarrow> ('w, dt \<times> dt) eff" where
  "tick_arrival P tick first = (case spv_time P of
     None \<Rightarrow>
       eff_bind (eff_of (record_time (spv_texts P) tick first)) (\<lambda>t.
       eff_bind (eff_of (time_guard (t \<le> first) ''CLOCK_SKEW: broker tick is later than observation time'')) (\<lambda>_.
       eff_return (t, first)))
   | Some N \<Rightarrow>
       eff_bind (clock_utc P) (\<lambda>observed.
       eff_bind (eff_of (normalized_tick_time P N tick observed)) (\<lambda>t.
       eff_bind (if observed < t
         then eff_bind (spv_sleep P (total_seconds (t - observed))) (\<lambda>_. clock_utc P)
         else eff_return observed) (\<lambda>causal.
       eff_bind (eff_of (time_guard (t \<le> causal)
         ''CLOCK_SKEW: normalized broker tick remains later than observation time'')) (\<lambda>_.
       eff_return (t, causal))))))"

record market_facts =
  mf_terminal :: info
  mf_account :: info
  mf_symbol :: info
  mf_tick :: info
  mf_broker_symbol :: string
  mf_tick_at :: dt
  mf_observed :: dt

definition connected_gateway :: "'w snapshot_provider \<Rightarrow> ('w, unit) eff" where
  "connected_gateway P = eff_catch (gw_connect (spv_gateway P))
     (\<lambda>e. Some (eff_of (snapshot_error (''CONNECTION_FAILED: '' @ tx_error (spv_texts P) e))))"

definition selected_symbol :: "'w snapshot_provider \<Rightarrow> string \<Rightarrow> ('w, unit) eff" where
  "selected_symbol P broker =
     (if spv_select P
      then eff_bind (gw_symbol_select (spv_gateway P) broker True) (\<lambda>ok. eff_of (time_guard ok
        (''SYMBOL_UNAVAILABLE: configured broker symbol '' @ broker @ '' cannot be selected'')))
      else eff_return ())"

definition gather_market :: "'w snapshot_provider \<Rightarrow> ('w, market_facts) eff" where
  "gather_market P =
     (let G = spv_gateway P in
     eff_bind (connected_gateway P) (\<lambda>_.
     eff_bind (clock_utc P) (\<lambda>first.
     eff_bind (required_info (gw_terminal_info G) ''TERMINAL_UNAVAILABLE'') (\<lambda>terminal.
     eff_bind (eff_of (time_guard (info_get terminal ''connected'' = PvBool True)
       ''DISCONNECTED: MT5 terminal is not connected'')) (\<lambda>_.
     eff_bind (required_info (gw_account_info G) ''ACCOUNT_UNAVAILABLE'') (\<lambda>account.
     eff_bind (eff_of (to_broker (spv_mapping P) (sm_internal (spv_mapping P)))) (\<lambda>broker.
     eff_bind (selected_symbol P broker) (\<lambda>_.
     eff_bind (required_info (gw_symbol_info G broker) ''SYMBOL_INFO_UNAVAILABLE'') (\<lambda>symbol.
     eff_bind (eff_of (time_guard (info_get symbol ''name'' = PvText broker)
       ''SYMBOL_MISMATCH: broker returned an unexpected symbol'')) (\<lambda>_.
     eff_bind (required_info (gw_symbol_info_tick G broker) ''TICK_UNAVAILABLE'') (\<lambda>tick.
     eff_bind (tick_arrival P tick first) (\<lambda>(t, observed).
     eff_return \<lparr>mf_terminal = terminal, mf_account = account, mf_symbol = symbol, mf_tick = tick,
       mf_broker_symbol = broker, mf_tick_at = t, mf_observed = observed\<rparr>))))))))))))"

text \<open>The pure rest, once the positions and the orders are known.\<close>

definition snapshot_of ::
  "'w snapshot_provider \<Rightarrow> persisted_link list \<Rightarrow> market_facts \<Rightarrow> account_state \<Rightarrow> market_state
     \<Rightarrow> position_state list \<Rightarrow> order_state list \<Rightarrow> broker_snapshot res" where
  "snapshot_of P links f account market position_values order_values =
     (let at' = mf_observed f in
     res_bind (snapshot_freshness P ''positions'' FS_AVAILABLE at') (\<lambda>fp.
     res_bind (mk_position_book \<lparr>pb_source = spv_source P, pb_as_of = at', pb_freshness = fp,
       pb_positions = sort_key pos_id position_values\<rparr>) (\<lambda>positions.
     res_bind (snapshot_freshness P ''orders'' FS_AVAILABLE at') (\<lambda>fo.
     res_bind (mk_order_book \<lparr>ob_source = spv_source P, ob_as_of = at', ob_freshness = fo,
       ob_orders = sort_key ord_id order_values\<rparr>) (\<lambda>orders.
     res_bind (constraints_of P (mf_symbol f) (mf_terminal f) (mf_account f) at') (\<lambda>constraints.
     res_bind (exposure_of P position_values (mf_symbol f) at') (\<lambda>exposure.
     res_bind (canonical_links (sd_link (spv_digests P)) links position_values order_values) (\<lambda>intent_links.
     mk_broker_snapshot (sd_snapshot (spv_digests P)) \<lparr>sn_id = [], sn_source = spv_source P,
       sn_source_version = spv_version P, sn_as_of = at', sn_observed_at = at', sn_available_at = at',
       sn_account = account, sn_market = market, sn_positions = positions, sn_orders = orders,
       sn_exposure = exposure, sn_broker = constraints, sn_links = intent_links\<rparr>))))))))"

definition capture :: "'w snapshot_provider \<Rightarrow> persisted_link list \<Rightarrow> ('w, broker_snapshot) eff" where
  "capture P links =
     (let G = spv_gateway P in
     eff_bind (gather_market P) (\<lambda>f.
     eff_bind (eff_of (account_of P (mf_account f) (mf_observed f))) (\<lambda>account.
     eff_bind (eff_of (market_of P (mf_tick f) (mf_symbol f) (mf_tick_at f) (mf_observed f))) (\<lambda>market.
     eff_bind (eff_of (provenance_by_ticket [] links)) (\<lambda>known.
     eff_bind (gw_positions_get G (mf_broker_symbol f)) (\<lambda>raw_positions.
     eff_bind (eff_of (res_map (position_of P (mf_broker_symbol f) known) raw_positions)) (\<lambda>position_values.
     eff_bind (gw_orders_get G (mf_broker_symbol f)) (\<lambda>raw_orders.
     eff_bind (eff_of (res_map (order_of P (mf_broker_symbol f) known) raw_orders)) (\<lambda>order_values.
     eff_of (snapshot_of P links f account market position_values order_values))))))))))"

subsection \<open>What a snapshot shows\<close>

text \<open>
  The specification: a position of the snapshot mirrors one record of the broker, and an attribution to a
  setup or a thesis comes from a persisted link of exactly its ticket.
\<close>

definition attributed :: "persisted_link list \<Rightarrow> broker_object_kind \<Rightarrow> int \<Rightarrow> string option \<Rightarrow> string option \<Rightarrow> bool" where
  "attributed links kind ticket setup thesis \<longleftrightarrow>
     (case find (\<lambda>l. pl_object_kind l = kind \<and> pl_ticket l = ticket) links of
        None \<Rightarrow> setup = None \<and> thesis = None
      | Some l \<Rightarrow> setup = pl_setup_id l \<and> thesis = pl_thesis_id l)"

definition mirrors_position :: "'w snapshot_provider \<Rightarrow> string \<Rightarrow> persisted_link list \<Rightarrow> info \<Rightarrow> position_state \<Rightarrow> bool" where
  "mirrors_position P broker links m v \<longleftrightarrow>
     (\<exists>n k t. info_get m ''symbol'' = PvText broker \<and> info_get m ''ticket'' = PvInt n \<and>
        info_get m ''type'' = PvInt k \<and> info_get m ''time'' = PvInt t \<and> from_epoch t = Inr (pos_opened_at v) \<and>
        pos_broker_ticket v = Some n \<and> side_of (gw_constants (spv_gateway P)) k = Inr (pos_side v) \<and>
        required_float (spv_texts P) m ''volume'' = Inr (pos_volume_lots v) \<and>
        required_float (spv_texts P) m ''price_open'' = Inr (pos_open_price v) \<and>
        protective_price (spv_texts P) (info_get m ''sl'') = Inr (pos_stop_loss v) \<and>
        protective_price (spv_texts P) (info_get m ''tp'') = Inr (pos_take_profit v) \<and>
        optional_float (spv_texts P) (info_get m ''price_current'') = Inr (pos_current_price v) \<and>
        optional_float (spv_texts P) (info_get m ''profit'') = Inr (pos_floating_pnl v) \<and>
        attributed links BK_POSITION n (pos_setup_id v) (pos_thesis_id v)) \<and>
     pos_symbol v = sm_internal (spv_mapping P)"

definition mirrors_order :: "'w snapshot_provider \<Rightarrow> string \<Rightarrow> persisted_link list \<Rightarrow> info \<Rightarrow> order_state \<Rightarrow> bool" where
  "mirrors_order P broker links m v \<longleftrightarrow>
     (\<exists>n k t. info_get m ''symbol'' = PvText broker \<and> info_get m ''ticket'' = PvInt n \<and>
        info_get m ''type'' = PvInt k \<and> info_get m ''time_setup'' = PvInt t \<and> from_epoch t = Inr (ord_created_at v) \<and>
        ord_broker_ticket v = Some n \<and> order_type_of (gw_constants (spv_gateway P)) k = Inr (ord_order_type v) \<and>
        required_float (spv_texts P) m ''volume_current'' = Inr (ord_volume_lots v) \<and>
        required_float (spv_texts P) m ''price_open'' = Inr (ord_price v) \<and>
        protective_price (spv_texts P) (info_get m ''sl'') = Inr (ord_stop_loss v) \<and>
        protective_price (spv_texts P) (info_get m ''tp'') = Inr (ord_take_profit v) \<and>
        attributed links BK_ORDER n (ord_setup_id v) (ord_thesis_id v)) \<and>
     ord_symbol v = sm_internal (spv_mapping P)"

definition shows_object :: "broker_snapshot \<Rightarrow> broker_object_kind \<Rightarrow> int \<Rightarrow> string \<Rightarrow> bool" where
  "shows_object s kind ticket i \<longleftrightarrow> (case kind of
     BK_POSITION \<Rightarrow> \<exists>p \<in> set (pb_positions (sn_positions s)). pos_broker_ticket p = Some ticket \<and> pos_id p = i
   | BK_ORDER \<Rightarrow> \<exists>p \<in> set (ob_orders (sn_orders s)). ord_broker_ticket p = Some ticket \<and> ord_id p = i)"

definition exact_link :: "broker_snapshot \<Rightarrow> persisted_link \<Rightarrow> broker_intent_link \<Rightarrow> bool" where
  "exact_link s l b \<longleftrightarrow> bl_intent_id b = pl_intent_id l \<and> bl_object_kind b = pl_object_kind l \<and> bl_ticket b = Some (pl_ticket l) \<and>
     bl_transport_id b = Some (pl_transport_id l) \<and> shows_object s (pl_object_kind l) (pl_ticket l) (bl_object_id b)"

lemma required_int_Inr: "required_int T m k = Inr n \<longleftrightarrow> info_get m k = PvInt n"
  by (cases "info_get m k") (auto simp: required_int_def required_value_def)

lemma provenance_entries:
  "provenance_by_ticket seen ls = Inr known \<Longrightarrow>
   known = rev (map (\<lambda>l. ((pl_object_kind l, pl_ticket l), l)) ls) @ seen"
  by (induction ls arbitrary: seen) (auto split: if_splits)

lemma provenance_distinct:
  "provenance_by_ticket seen ls = Inr known \<Longrightarrow>
   distinct (map (\<lambda>l. (pl_object_kind l, pl_ticket l)) ls) \<and>
   (\<forall>l \<in> set ls. (pl_object_kind l, pl_ticket l) \<notin> fst ` set seen)"
proof (induction ls arbitrary: seen)
  case (Cons l ls)
  from Cons.prems have new: "(pl_object_kind l, pl_ticket l) \<notin> fst ` set seen"
    by (auto split: if_splits simp: map_of_eq_None_iff)
  from Cons.prems have "provenance_by_ticket (((pl_object_kind l, pl_ticket l), l) # seen) ls = Inr known"
    by (simp split: if_splits)
  from Cons.IH[OF this] new show ?case by force
qed simp

lemma find_by_key:
  "find (\<lambda>l. pl_object_kind l = kind \<and> pl_ticket l = n) ls =
     map_of (map (\<lambda>l. ((pl_object_kind l, pl_ticket l), l)) ls) (kind, n)"
  by (induction ls) auto

lemma provenance_attributed:
  assumes "provenance_by_ticket [] links = Inr known"
  shows "attributed links kind n (Option.bind (map_of known (kind, n)) pl_setup_id)
    (Option.bind (map_of known (kind, n)) pl_thesis_id)"
proof -
  let ?es = "map (\<lambda>l. ((pl_object_kind l, pl_ticket l), l)) links"
  have "distinct (map fst ?es)" using provenance_distinct[OF assms] by (simp add: comp_def)
  then have "map_of (rev ?es) = map_of ?es" by (simp add: map_of_inject_set rev_map[symmetric])
  moreover have "known = rev ?es" using provenance_entries[OF assms] by simp
  ultimately show ?thesis
    by (simp add: attributed_def find_by_key split: option.split)
qed

lemma mk_position_Inr:
  "mk_position_state h p = Inr p' \<Longrightarrow> \<exists>i. p' = p\<lparr>pos_id := i\<rparr>"
  by (auto simp: mk_position_state_def res_bind_Inr_iff validate_Inr_iff position_identity.bind_ok_iff)

lemma mk_order_Inr:
  "mk_order_state h p = Inr p' \<Longrightarrow> \<exists>i. p' = p\<lparr>ord_id := i\<rparr>"
  by (auto simp: mk_order_state_def res_bind_Inr_iff validate_Inr_iff order_identity.bind_ok_iff)

lemma position_of_mirrors:
  assumes "position_of P broker known m = Inr v" "provenance_by_ticket [] links = Inr known"
  shows "mirrors_position P broker links m v"
  using assms(1) provenance_attributed[OF assms(2)]
  by (auto simp: position_of_def Let_def res_bind_Inr_iff required_int_Inr require_symbol_def mirrors_position_def
      dest!: mk_position_Inr)

lemma order_of_mirrors:
  assumes "order_of P broker known m = Inr v" "provenance_by_ticket [] links = Inr known"
  shows "mirrors_order P broker links m v"
  using assms(1) provenance_attributed[OF assms(2)]
  by (auto simp: order_of_def Let_def res_bind_Inr_iff required_int_Inr require_symbol_def mirrors_order_def
      dest!: mk_order_Inr)

lemma object_by_ticket_Some:
  "object_by_ticket ps os BK_POSITION n = Some i \<Longrightarrow> \<exists>p \<in> set ps. pos_broker_ticket p = Some n \<and> pos_id p = i"
  "object_by_ticket ps os BK_ORDER n = Some i \<Longrightarrow> \<exists>p \<in> set os. ord_broker_ticket p = Some n \<and> ord_id p = i"
  by (force simp: object_by_ticket_def dest!: map_of_SomeD)+

lemma canonical_link_exact:
  assumes "canonical_link h ps os l = Inr b" "set (pb_positions (sn_positions s)) = set ps"
    "set (ob_orders (sn_orders s)) = set os"
  shows "exact_link s l b"
proof -
  obtain i where i: "object_by_ticket ps os (pl_object_kind l) (pl_ticket l) = Some i"
    using assms(1) by (auto simp: canonical_link_def split: option.splits)
  have "bl_intent_id b = pl_intent_id l \<and> bl_object_kind b = pl_object_kind l \<and> bl_ticket b = Some (pl_ticket l) \<and>
      bl_transport_id b = Some (pl_transport_id l) \<and> bl_object_id b = i"
    using assms(1) i
    by (auto simp: canonical_link_def mk_broker_intent_link_def res_bind_Inr_iff validate_Inr_iff bind_identity_def
        Let_def split: if_splits)
  then show ?thesis using object_by_ticket_Some[of ps os "pl_ticket l" i] i assms(2,3)
    by (cases "pl_object_kind l") (auto simp: exact_link_def shows_object_def)
qed

lemma mk_snapshot_Inr:
  assumes "mk_broker_snapshot h s = Inr s'"
  shows "list_all fst (broker_snapshot_rules s') \<and> (\<exists>i. s' = s\<lparr>sn_id := i\<rparr>)"
proof -
  obtain i where "s' = s\<lparr>sn_id := i\<rparr>" "list_all fst (broker_snapshot_rules s)"
    using assms by (auto simp: mk_broker_snapshot_def res_simps bind_identity_def Let_def split: if_splits)
  then show ?thesis by (auto simp: broker_snapshot_rules_def snapshot_times_def)
qed

lemma snapshot_of_Inr:
  assumes "snapshot_of P links f account market ps os = Inr s"
  shows "list_all fst (broker_snapshot_rules s)" "sn_market s = market" "sn_as_of s = mf_observed f"
    "sn_observed_at s = mf_observed f" "mset (pb_positions (sn_positions s)) = mset ps"
    "mset (ob_orders (sn_orders s)) = mset os" "list_all2 (exact_link s) (sort_key pl_id links) (sn_links s)"
proof -
  from assms obtain fp fo constraints exposure ls where
    ls: "canonical_links (sd_link (spv_digests P)) links ps os = Inr ls" and
    mk: "mk_broker_snapshot (sd_snapshot (spv_digests P)) \<lparr>sn_id = [], sn_source = spv_source P,
       sn_source_version = spv_version P, sn_as_of = mf_observed f, sn_observed_at = mf_observed f,
       sn_available_at = mf_observed f, sn_account = account, sn_market = market,
       sn_positions = \<lparr>pb_source = spv_source P, pb_as_of = mf_observed f, pb_freshness = fp,
         pb_positions = sort_key pos_id ps\<rparr>,
       sn_orders = \<lparr>ob_source = spv_source P, ob_as_of = mf_observed f, ob_freshness = fo,
         ob_orders = sort_key ord_id os\<rparr>,
       sn_exposure = exposure, sn_broker = constraints, sn_links = ls\<rparr> = Inr s"
    by (auto simp: snapshot_of_def Let_def res_bind_Inr_iff mk_position_book_def mk_order_book_def validate_Inr_iff)
  obtain i where s: "s = \<lparr>sn_id = i, sn_source = spv_source P,
       sn_source_version = spv_version P, sn_as_of = mf_observed f, sn_observed_at = mf_observed f,
       sn_available_at = mf_observed f, sn_account = account, sn_market = market,
       sn_positions = \<lparr>pb_source = spv_source P, pb_as_of = mf_observed f, pb_freshness = fp,
         pb_positions = sort_key pos_id ps\<rparr>,
       sn_orders = \<lparr>ob_source = spv_source P, ob_as_of = mf_observed f, ob_freshness = fo,
         ob_orders = sort_key ord_id os\<rparr>,
       sn_exposure = exposure, sn_broker = constraints, sn_links = ls\<rparr>"
    using mk_snapshot_Inr[OF mk] by auto
  show "list_all fst (broker_snapshot_rules s)" using mk_snapshot_Inr[OF mk] by simp
  show "sn_market s = market" "sn_as_of s = mf_observed f" "sn_observed_at s = mf_observed f"
    "mset (pb_positions (sn_positions s)) = mset ps" "mset (ob_orders (sn_orders s)) = mset os"
    by (simp_all add: s)
  have "set (pb_positions (sn_positions s)) = set ps" "set (ob_orders (sn_orders s)) = set os"
    by (simp_all add: s)
  with ls show "list_all2 (exact_link s) (sort_key pl_id links) (sn_links s)"
    by (auto simp: canonical_links_def res_map_Inr_iff s elim!: list_all2_mono canonical_link_exact)
qed

text \<open>C17. A snapshot that is returned shows exactly the broker's answer of this very capture: after the market was
  read, the terminal listed positions and then orders of the configured symbol, and the positions and orders of
  the snapshot are, one for one, those records, each with the record's ticket, side or order type, volume, prices
  and (as the broker's own clock gave it) opening time, and with the setup and thesis of the persisted link of its
  kind and ticket, or none. Every persisted link keeps its kind, ticket and intent and points at the object with
  that ticket. The snapshot satisfies its contract, is dated by the observation, and none of its six components is
  dated later. A terminal that answers otherwise gets an error.
\<close>

theorem captured_snapshot_exact:
  assumes "capture P links w = (Inr s, w')"
  shows "\<exists>f w1 w2 raw_positions raw_orders ps os.
     gather_market P w = (Inr f, w1) \<and>
     to_broker (spv_mapping P) (sm_internal (spv_mapping P)) = Inr (mf_broker_symbol f) \<and>
     gw_positions_get (spv_gateway P) (mf_broker_symbol f) w1 = (Inr raw_positions, w2) \<and>
     gw_orders_get (spv_gateway P) (mf_broker_symbol f) w2 = (Inr raw_orders, w') \<and>
     mset (pb_positions (sn_positions s)) = mset ps \<and>
     list_all2 (mirrors_position P (mf_broker_symbol f) links) raw_positions ps \<and>
     mset (ob_orders (sn_orders s)) = mset os \<and>
     list_all2 (mirrors_order P (mf_broker_symbol f) links) raw_orders os \<and>
     distinct (map (\<lambda>l. (pl_object_kind l, pl_ticket l)) links) \<and>
     list_all2 (exact_link s) (sort_key pl_id links) (sn_links s) \<and>
     list_all fst (broker_snapshot_rules s) \<and> sn_as_of s = mf_observed f \<and> sn_observed_at s = mf_observed f \<and>
     list_all (\<lambda>t. t \<le> mf_observed f) (snapshot_times s) \<and> ms_as_of (sn_market s) \<le> sn_observed_at s"
proof -
  from assms obtain f w1 account market known raw_positions w2 ps raw_orders os where
    f: "gather_market P w = (Inr f, w1)" and
    known: "provenance_by_ticket [] links = Inr known" and
    ps: "gw_positions_get (spv_gateway P) (mf_broker_symbol f) w1 = (Inr raw_positions, w2)"
      "res_map (position_of P (mf_broker_symbol f) known) raw_positions = Inr ps" and
    os: "gw_orders_get (spv_gateway P) (mf_broker_symbol f) w2 = (Inr raw_orders, w')"
      "res_map (order_of P (mf_broker_symbol f) known) raw_orders = Inr os" and
    s: "snapshot_of P links f account market ps os = Inr s"
    by (auto simp: capture_def Let_def eff_bind_Inr_iff eff_of_Inr_iff)
  have name: "to_broker (spv_mapping P) (sm_internal (spv_mapping P)) = Inr (mf_broker_symbol f)"
    using f by (auto simp: gather_market_def Let_def eff_bind_Inr_iff eff_of_Inr_iff eff_return_def split: prod.splits)
  have "list_all2 (mirrors_position P (mf_broker_symbol f) links) raw_positions ps"
    using ps(2) position_of_mirrors[OF _ known] by (auto simp: res_map_Inr_iff elim!: list_all2_mono)
  moreover have "list_all2 (mirrors_order P (mf_broker_symbol f) links) raw_orders os"
    using os(2) order_of_mirrors[OF _ known] by (auto simp: res_map_Inr_iff elim!: list_all2_mono)
  moreover have "list_all (\<lambda>t. t \<le> mf_observed f) (snapshot_times s) \<and> ms_as_of (sn_market s) \<le> sn_observed_at s"
    using snapshot_of_Inr(1,3,4)[OF s] by (auto simp: broker_snapshot_rules_def snapshot_times_def)
  ultimately show ?thesis
    using f name ps(1) os(1) snapshot_of_Inr[OF s] provenance_distinct[OF known] by blast
qed

text \<open>A terminal with one linked position.\<close>

definition demo_terminal :: "unit gateway" where
  "demo_terminal =
     \<lparr>gw_constants = \<lparr>mc_account_demo = 0, mc_account_contest = 1, mc_account_real = 2, mc_symbol_disabled = 0,
        mc_position_buy = 0, mc_position_sell = 1, mc_order_buy = 0, mc_order_sell = 1, mc_buy_limit = 2,
        mc_sell_limit = 3, mc_buy_stop = 4, mc_sell_stop = 5, mc_buy_stop_limit = 6, mc_sell_stop_limit = 7,
        mc_action_deal = 1, mc_action_sltp = 6, mc_time_gtc = 0, mc_filling_ioc = 1, mc_retcode_requote = 10004,
        mc_retcode_placed = 10008, mc_retcode_done = 10009, mc_retcode_partial = 10010\<rparr>,
      gw_connect = eff_return (), gw_last_error = eff_return PvNone,
      gw_terminal_info = eff_return (Some [(''connected'', PvBool True)]),
      gw_account_info = eff_return (Some [(''login'', PvInt 7)]),
      gw_symbol_select = (\<lambda>_ _. eff_return True),
      gw_symbol_info = (\<lambda>s. eff_return (Some [(''name'', PvText s)])),
      gw_symbol_info_tick = (\<lambda>_. eff_return (Some [(''time'', PvInt 1000)])),
      gw_positions_get = (\<lambda>s. eff_return [[(''symbol'', PvText s), (''ticket'', PvInt 5), (''type'', PvInt 1),
        (''volume'', PvInt 1), (''time'', PvInt 900), (''price_open'', PvInt 2000)]]),
      gw_orders_get = (\<lambda>_. eff_return []),
      gw_order_check = (\<lambda>_. eff_return None), gw_order_send = (\<lambda>_. eff_return None)\<rparr>"

definition demo_snapshot_provider :: "unit snapshot_provider" where
  "demo_snapshot_provider =
     \<lparr>spv_gateway = demo_terminal, spv_mapping = \<lparr>sm_id = ''m'', sm_internal = ''XAUUSD'', sm_broker = ''GOLD''\<rparr>,
      spv_clock = eff_return (utc (1001 * micros)), spv_sleep = (\<lambda>_. eff_return ()), spv_source = ''mt5'',
      spv_version = ''v1'', spv_stale_ms = 5000, spv_select = True, spv_time = None,
      spv_texts = \<lparr>tx_error = (\<lambda>_. []), tx_repr = (\<lambda>_. []), tx_info = (\<lambda>_. [])\<rparr>,
      spv_digests = \<lparr>sd_trace = (\<lambda>_. ''t''), sd_position = (\<lambda>_. ''p''), sd_order = (\<lambda>_. ''o''),
        sd_link = (\<lambda>_. ''l''), sd_snapshot = (\<lambda>_. ''s'')\<rparr>\<rparr>"

definition demo_persisted_link :: persisted_link where
  "demo_persisted_link = \<lparr>pl_id = ''mpl-1'', pl_intent_id = ''xi-1'', pl_object_kind = BK_POSITION, pl_ticket = 5,
     pl_transport_id = ''mt5-deal-9'', pl_setup_id = Some ''setup'', pl_thesis_id = None\<rparr>"

lemmas demo_provider_defs = demo_snapshot_provider_def demo_terminal_def demo_persisted_link_def

lemma demo_facts: "gather_market demo_snapshot_provider () =
   (Inr \<lparr>mf_terminal = [(''connected'', PvBool True)], mf_account = [(''login'', PvInt 7)],
      mf_symbol = [(''name'', PvText ''GOLD'')], mf_tick = [(''time'', PvInt 1000)], mf_broker_symbol = ''GOLD'',
      mf_tick_at = 1000 * micros, mf_observed = 1001 * micros\<rparr>, ())"
  by (simp add: gather_market_def demo_provider_defs Let_def connected_gateway_def clock_utc_def required_info_def
      eff_bind_def eff_return_def eff_of_def eff_catch_def info_get_def time_guard_def to_broker_def
      selected_symbol_def tick_arrival_def record_time_def ensure_utc_def dt_min_def dt_max_def from_epoch_def)

lemma demo_provider_fields:
  "spv_gateway demo_snapshot_provider = demo_terminal" "spv_source demo_snapshot_provider = ''mt5''"
  "spv_version demo_snapshot_provider = ''v1''" "sm_internal (spv_mapping demo_snapshot_provider) = ''XAUUSD''"
  "spv_stale_ms demo_snapshot_provider = 5000" "spv_time demo_snapshot_provider = None"
  by (simp_all add: demo_snapshot_provider_def)

lemmas demo_value_defs = Let_def required_int_def required_value_def info_get_def time_guard_def validate.simps
  nonempty_def is_ok_def demo_provider_fields

lemma demo_fresh: "snapshot_freshness demo_snapshot_provider (c # cs) FS_AVAILABLE t = Inr
   \<lparr>cf_component = c # cs, cf_status = FS_AVAILABLE, cf_observed_at = Some t, cf_available_at = Some t,
    cf_stale_after_ms = Some 5000, cf_reason = None\<rparr>"
  by (simp add: snapshot_freshness_def mk_freshness_def validate.simps nonempty_def demo_snapshot_provider_def)

lemma demo_account: "\<exists>a. account_of demo_snapshot_provider [(''login'', PvInt 7)] t = Inr a \<and> ac_as_of a = t"
proof -
  have "py_int_str 7 = Inr ''7''"
    by (simp add: py_int_str_def int_text_def nat_text.simps digit_char_def digit_count_def digit_of_def char_of_def bit_0)
  then show ?thesis
    by (simp add: account_of_def mk_account_state_def without_measurements_def account_values_def demo_fresh
        demo_value_defs)
qed

lemma demo_market:
  "\<exists>m. market_of demo_snapshot_provider [(''time'', PvInt 1000)] [(''name'', PvText ''GOLD'')] (1000 * micros)
     (1001 * micros) = Inr m \<and> ms_as_of m = 1000 * micros"
proof -
  have "market_status demo_snapshot_provider (1000 * micros) (1001 * micros) = FS_AVAILABLE"
    by (simp add: market_status_def total_seconds_def rnd_eval demo_provider_fields)
  then show ?thesis
    by (simp add: market_of_def spread_of_def demo_fresh mk_market_state_def without_measurements_def
        market_values_def demo_value_defs)
qed

lemma demo_position:
  "\<exists>p. position_of demo_snapshot_provider ''GOLD'' [((BK_POSITION, 5), demo_persisted_link)]
     [(''symbol'', PvText ''GOLD''), (''ticket'', PvInt 5), (''type'', PvInt 1), (''volume'', PvInt 1),
      (''time'', PvInt 900), (''price_open'', PvInt 2000)] = Inr p \<and> pos_broker_ticket p = Some 5 \<and>
     pos_id p = ''pos-p'' \<and> pos_side p = PS_SELL \<and> pos_volume_lots p = Fin 1 \<and> pos_current_price p = None"
  by (simp add: position_of_def require_symbol_def side_of_def required_float_def float_of_int_def rnd_eval
      from_epoch_def dt_min_def dt_max_def protective_price_def mk_position_state_def bind_identity_def
      content_id_def demo_value_defs) (simp add: demo_provider_defs)

lemma demo_rounding: "py_round (Fin 1) 10 = Inr (Fin 1)" "py_round (Fin (- 1)) 10 = Inr (Fin (- 1))"
  using rhe_of_int[of "10 ^ 10"] rhe_of_int[of "- (10 ^ 10)"] by (simp_all add: rnd_eval rnd_minus)

lemma demo_snapshot_of:
  assumes "ac_as_of account = 1001 * micros" "ms_as_of market = 1000 * micros" "mf_terminal f = [(''connected'', PvBool True)]"
    "mf_account f = [(''login'', PvInt 7)]" "mf_symbol f = [(''name'', PvText ''GOLD'')]" "mf_observed f = 1001 * micros"
    "pos_broker_ticket p = Some 5" "pos_id p = ''pos-p''" "pos_side p = PS_SELL" "pos_volume_lots p = Fin 1"
  shows "is_ok (snapshot_of demo_snapshot_provider [demo_persisted_link] f account market [p] [])"
proof -
  have c: "\<exists>c. constraints_of demo_snapshot_provider [(''name'', PvText ''GOLD'')] [(''connected'', PvBool True)]
      [(''login'', PvInt 7)] (1001 * micros) = Inr c \<and> bc_as_of c = 1001 * micros"
    by (simp add: constraints_of_def mk_broker_constraints_def demo_fresh demo_value_defs)
  have e: "\<exists>e. exposure_of demo_snapshot_provider [p] [(''name'', PvText ''GOLD'')] (1001 * micros) = Inr e \<and>
      ex_as_of e = 1001 * micros"
    using assms(9,10) by (simp add: exposure_of_def rounded_sum_def signed_by_side_def notionals_of_def demo_rounding
        mk_exposure_state_def without_measurements_def exposure_values_def demo_fresh demo_value_defs is_f64_minus
        del: py_round.simps)
  have l: "\<exists>b. canonical_links (sd_link (spv_digests demo_snapshot_provider)) [demo_persisted_link] [p] [] = Inr [b] \<and>
      bl_object_id b = ''pos-p''"
    using assms(7,8) by (simp add: canonical_links_def canonical_link_def object_by_ticket_def demo_persisted_link_def
        mk_broker_intent_link_def bind_identity_def content_id_def demo_value_defs)
  show ?thesis
    using c e l assms by (auto simp: snapshot_of_def mk_position_book_def mk_order_book_def mk_broker_snapshot_def
        broker_snapshot_rules_def snapshot_times_def bind_identity_def demo_fresh demo_value_defs)
qed

lemma demo_capture: "\<exists>s. capture demo_snapshot_provider [demo_persisted_link] () = (Inr s, ())"
proof -
  obtain account where a: "account_of demo_snapshot_provider [(''login'', PvInt 7)] (1001 * micros) = Inr account"
    "ac_as_of account = 1001 * micros" using demo_account by blast
  obtain market where m: "market_of demo_snapshot_provider [(''time'', PvInt 1000)] [(''name'', PvText ''GOLD'')]
      (1000 * micros) (1001 * micros) = Inr market" "ms_as_of market = 1000 * micros"
    using demo_market by blast
  obtain p where p: "position_of demo_snapshot_provider ''GOLD'' [((BK_POSITION, 5), demo_persisted_link)]
     [(''symbol'', PvText ''GOLD''), (''ticket'', PvInt 5), (''type'', PvInt 1), (''volume'', PvInt 1),
      (''time'', PvInt 900), (''price_open'', PvInt 2000)] = Inr p" "pos_broker_ticket p = Some 5"
     "pos_id p = ''pos-p''" "pos_side p = PS_SELL" "pos_volume_lots p = Fin 1" "pos_current_price p = None"
    using demo_position by blast
  have k: "provenance_by_ticket [] [demo_persisted_link] = Inr [((BK_POSITION, 5), demo_persisted_link)]"
    by (simp add: demo_persisted_link_def)
  show ?thesis
    using demo_snapshot_of[OF a(2) m(2) _ _ _ _ p(2-5)] a(1) m(1) p(1) k
    by (auto simp: capture_def Let_def eff_bind_def eff_of_def demo_facts is_ok_iff demo_provider_fields)
      (simp_all add: demo_terminal_def eff_return_def eff_bind_def eff_of_def)
qed

theorem captured_snapshot_exact_witness:
  "\<exists>s ps. capture demo_snapshot_provider [demo_persisted_link] () = (Inr s, ()) \<and>
     mset (pb_positions (sn_positions s)) = mset ps \<and> length ps = 1 \<and> length (sn_links s) = 1"
proof -
  obtain s where s: "capture demo_snapshot_provider [demo_persisted_link] () = (Inr s, ())" using demo_capture by blast
  from captured_snapshot_exact[OF s] obtain f :: market_facts and w1 w2 raws ps where
    "gw_positions_get (spv_gateway demo_snapshot_provider) (mf_broker_symbol f) w1 = (Inr raws, w2)"
    "mset (pb_positions (sn_positions s)) = mset ps"
    "list_all2 (mirrors_position demo_snapshot_provider (mf_broker_symbol f) [demo_persisted_link]) raws ps"
    "list_all2 (exact_link s) (sort_key pl_id [demo_persisted_link]) (sn_links s)" by blast
  then show ?thesis using s
    by (intro exI[of _ s] exI[of _ ps]) (auto simp: demo_provider_defs eff_return_def dest!: list_all2_lengthD)
qed

end
