(* ===== verification/Specialists.thy ===== *)
theory Specialists
  imports Kernel PyValue
begin

section \<open>The deterministic specialists (\<open>agents/_deterministic.py\<close>, \<open>chart.py\<close>, \<open>quantitative.py\<close>, \<open>historical.py\<close>, \<open>regime.py\<close>, \<open>news.py\<close>)\<close>

text \<open>
  One template turns the usable facts of a specialist's tools into evidence and memory; the five specialists
  differ in the categories they may read and in how they read the facts. A dictionary of facts is the list of
  its observations, where the last one of a name counts.
\<close>

subsection \<open>Observations and readings\<close>

record observed_fact =
  of_result :: tool_result
  of_name :: string
  of_value :: fact_scalar

record reading =
  rg_hypothesis :: string
  rg_direction :: "directional_bias option"
  rg_confidence :: f64
  rg_supports :: "string set"
  rg_contradicts :: "string set"
  rg_status :: agent_status
  rg_abstention :: "abstention_reason option"
  rg_rationale :: "string option"

definition fact_of :: "observed_fact list \<Rightarrow> string \<Rightarrow> fact_scalar option" where
  "fact_of obs name = map_of (rev (map (\<lambda>f. (of_name f, of_value f)) obs)) name"

definition fact_names :: "observed_fact list \<Rightarrow> string set" where
  "fact_names obs = of_name ` set obs"

text \<open>\<open>float(value)\<close> of an integer too large for a float raises.\<close>

fun numeric :: "fact_scalar option \<Rightarrow> f64 option res" where
  "numeric (Some (FInt n)) = res_bind (float_of_int n) (\<lambda>x. Inr (Some x))"
| "numeric (Some (FFloat x)) = Inr (Some x)"
| "numeric v = Inr None"

definition numeric_fact :: "observed_fact list \<Rightarrow> string \<Rightarrow> f64 option res" where
  "numeric_fact obs name = numeric (fact_of obs name)"

definition is_true :: "observed_fact list \<Rightarrow> string \<Rightarrow> bool" where
  "is_true obs name \<longleftrightarrow> fact_of obs name = Some (FBool True)"

text \<open>
  \<open>str(value).lower()\<close>, as far as it is compared: the text of a number or a truth value is none of the compared
  words. The text of an integer is limited to 4300 digits.
\<close>

fun lowered :: "fact_scalar \<Rightarrow> string option res" where
  "lowered (FStr s) = Inr (Some (map lower_char s))"
| "lowered (FInt n) = (if digit_count (int_text n) \<le> 4300 then Inr None
     else Inl (ValueError ''Exceeds the limit (4300 digits) for integer string conversion''))"
| "lowered v = Inr None"

definition lowered_fact :: "observed_fact list \<Rightarrow> string \<Rightarrow> string option res" where
  "lowered_fact obs name = (case fact_of obs name of None \<Rightarrow> Inr None | Some v \<Rightarrow> lowered v)"

subsection \<open>Signed scores\<close>

text \<open>The dictionary \<open>signed\<close>: every key is written at most once, in the order of the list.\<close>

type_synonym signed_scores = "(string \<times> f64) list"

definition signed_entry :: "string \<Rightarrow> f64 option \<Rightarrow> f64 \<Rightarrow> signed_scores" where
  "signed_entry name value weight = (case value of
     None \<Rightarrow> []
   | Some v \<Rightarrow> if feq v (Fin 0) then [] else [(name, if flt (Fin 0) v then weight else fneg weight)])"

definition true_entry :: "observed_fact list \<Rightarrow> string \<times> f64 \<Rightarrow> signed_scores" where
  "true_entry obs e = (if is_true obs (fst e) then [e] else [])"

definition positive_names :: "signed_scores \<Rightarrow> string set" where
  "positive_names d = fst ` set (filter (\<lambda>e. flt (Fin 0) (snd e)) d)"

definition negative_names :: "signed_scores \<Rightarrow> string set" where
  "negative_names d = fst ` set (filter (\<lambda>e. flt (snd e) (Fin 0)) d)"

definition score_of :: "signed_scores \<Rightarrow> f64" where
  "score_of d = fsum (map snd d)"

definition score_at :: "signed_scores \<Rightarrow> string \<Rightarrow> f64" where
  "score_at d name = (case map_of d name of None \<Rightarrow> Fin 0 | Some v \<Rightarrow> v)"

subsection \<open>Chart\<close>

definition chart_weights :: "(string \<times> f64) list" where
  "chart_weights =
     [(''h4_structure_bias'', lit (35 / 100)), (''h1_structure_bias'', lit (30 / 100)),
      (''m15_structure_bias'', lit (20 / 100)), (''m5_structure_bias'', lit (15 / 100)),
      (''structure_bias'', lit (20 / 100))]"

definition chart_events :: "(string \<times> f64) list" where
  "chart_events =
     [(''structure_bos_up'', lit (30 / 100)), (''structure_bos_down'', lit (- (30 / 100))),
      (''structure_choch_up'', lit (20 / 100)), (''structure_choch_down'', lit (- (20 / 100))),
      (''breakout_above'', lit (20 / 100)), (''breakout_below'', lit (- (20 / 100)))]"

definition chart_signed :: "observed_fact list \<Rightarrow> signed_scores res" where
  "chart_signed obs =
     res_bind (res_map (\<lambda>(name, w). res_bind (numeric_fact obs name) (\<lambda>v. Inr (signed_entry name v w)))
       chart_weights) (\<lambda>biases.
     Inr (concat biases @ concat (map (true_entry obs) chart_events)))"

definition chart_conflict :: "signed_scores \<Rightarrow> bool" where
  "chart_conflict d \<longleftrightarrow>
     (let htf = fsum [score_at d ''h4_structure_bias'', score_at d ''h1_structure_bias''];
          ltf = fsum [score_at d ''m15_structure_bias'', score_at d ''m5_structure_bias''] in
      flt (fmul htf ltf) (Fin 0))"

definition chart_reading :: "observed_fact list \<Rightarrow> tool_result list \<Rightarrow> reading res" where
  "chart_reading obs usable = res_bind (chart_signed obs) (\<lambda>d.
     let score = score_of d; bullish = flt (Fin 0) score in
     Inr (if chart_conflict d \<or> flt (fabs score) (lit (2 / 10)) then
       \<lparr>rg_hypothesis = ''structure_unclear'', rg_direction = Some NEUTRAL, rg_confidence = lit (4 / 10),
        rg_supports = positive_names d, rg_contradicts = negative_names d, rg_status = AS_DEGRADED,
        rg_abstention = None,
        rg_rationale = Some ''Higher- and lower-timeframe structure is mixed or weak.''\<rparr>
     else
       \<lparr>rg_hypothesis = (if bullish then ''bullish_continuation'' else ''bearish_continuation''),
        rg_direction = Some (if bullish then BULLISH else BEARISH),
        rg_confidence = pymin (lit (85 / 100)) (fadd (lit (45 / 100)) (fmul (fabs score) (lit (45 / 100)))),
        rg_supports = (if bullish then positive_names d else negative_names d),
        rg_contradicts = (if bullish then negative_names d else positive_names d), rg_status = AS_READY,
        rg_abstention = None,
        rg_rationale = Some ''Hierarchically weighted structure supports the directional thesis.''\<rparr>))"

subsection \<open>Quantitative\<close>

text \<open>Two opposing measurements, of which the larger names the entry.\<close>

definition opposing_entry :: "string \<Rightarrow> string \<Rightarrow> f64 option \<Rightarrow> f64 option \<Rightarrow> f64 \<Rightarrow> f64 \<Rightarrow> signed_scores" where
  "opposing_entry up_name down_name up down distance weight = (case (up, down) of
     (Some u, Some d) \<Rightarrow>
       if fle distance (fabs (fsub u d))
       then [(if flt d u then up_name else down_name, if flt d u then weight else fneg weight)] else []
   | _ \<Rightarrow> [])"

definition sided_entry :: "string \<Rightarrow> f64 option \<Rightarrow> f64 \<Rightarrow> f64 \<Rightarrow> f64 \<Rightarrow> signed_scores" where
  "sided_entry name v centre distance weight = (case v of
     None \<Rightarrow> []
   | Some x \<Rightarrow> if fle distance (fabs (if centre = Fin 0 then x else fsub x centre))
       then [(name, if flt centre x then weight else fneg weight)] else [])"

definition quant_signed :: "f64 option \<Rightarrow> f64 option \<Rightarrow> f64 option \<Rightarrow> f64 option \<Rightarrow> f64 option \<Rightarrow> f64 option
    \<Rightarrow> f64 option \<Rightarrow> signed_scores" where
  "quant_signed ema plus_di minus_di macd rsi up down =
     sided_entry ''trend_close_to_ema_20'' ema (Fin 0) (lit (1 / 1000)) (lit (4 / 10)) @
     opposing_entry ''trend_plus_di_14'' ''trend_minus_di_14'' plus_di minus_di (Fin 2) (lit (35 / 100)) @
     sided_entry ''momentum_macd_hist_12_26_9'' macd (Fin 0) (lit (5 / 100)) (lit (2 / 10)) @
     sided_entry ''momentum_rsi_14'' rsi (Fin 50) (Fin 5) (lit (15 / 100)) @
     opposing_entry ''class_probability_up'' ''class_probability_down'' up down (lit (1 / 10)) (lit (15 / 100))"

definition overextended :: "f64 option \<Rightarrow> f64 option \<Rightarrow> bool" where
  "overextended rsi zscore \<longleftrightarrow> opt_some (\<lambda>r. fle (Fin 70) r \<or> fle r (Fin 30)) rsi \<or>
     opt_some (\<lambda>z. fle (Fin 2) (fabs z)) zscore"

definition quant_conclusion :: "observed_fact list \<Rightarrow> f64 option \<Rightarrow> f64 option \<Rightarrow> signed_scores \<Rightarrow> reading" where
  "quant_conclusion obs rsi zscore d =
     (let score = score_of d; bullish = flt (Fin 0) score; extended = overextended rsi zscore;
          extension = {''momentum_rsi_14'', ''statistics_zscore_20''} \<inter> fact_names obs in
     if flt (fabs score) (lit (3 / 10)) then
       \<lparr>rg_hypothesis = ''quantitatively_mixed'', rg_direction = Some NEUTRAL, rg_confidence = lit (35 / 100),
        rg_supports = positive_names d, rg_contradicts = negative_names d, rg_status = AS_DEGRADED,
        rg_abstention = None, rg_rationale = Some ''Directional quantitative evidence is weak or mixed.''\<rparr>
     else
       \<lparr>rg_hypothesis = (if bullish \<and> extended then ''bullish_but_overextended''
          else if extended then ''bearish_but_overextended''
          else if bullish then ''bullish_quantitative_tendency'' else ''bearish_quantitative_tendency''),
        rg_direction = Some (if bullish then BULLISH else BEARISH),
        rg_confidence = pymin (lit (8 / 10)) (fadd (lit (4 / 10)) (fmul (fabs score) (lit (35 / 100)))),
        rg_supports = (if bullish then positive_names d else negative_names d),
        rg_contradicts = (if bullish then negative_names d else positive_names d) \<union> extension,
        rg_status = AS_READY, rg_abstention = None,
        rg_rationale = Some (if extended
          then ''Direction is supported, but statistical extension raises chase risk.''
          else ''Independent quantitative categories support a directional tendency.'')\<rparr>)"

definition quant_reading :: "observed_fact list \<Rightarrow> tool_result list \<Rightarrow> reading res" where
  "quant_reading obs usable =
     res_bind (numeric_fact obs ''trend_close_to_ema_20'') (\<lambda>ema.
     res_bind (numeric_fact obs ''trend_plus_di_14'') (\<lambda>plus_di.
     res_bind (numeric_fact obs ''trend_minus_di_14'') (\<lambda>minus_di.
     res_bind (numeric_fact obs ''momentum_macd_hist_12_26_9'') (\<lambda>macd.
     res_bind (numeric_fact obs ''momentum_rsi_14'') (\<lambda>rsi.
     res_bind (numeric_fact obs ''class_probability_up'') (\<lambda>up.
     res_bind (numeric_fact obs ''class_probability_down'') (\<lambda>down.
     res_bind (numeric_fact obs ''statistics_zscore_20'') (\<lambda>zscore.
     Inr (quant_conclusion obs rsi zscore (quant_signed ema plus_di minus_di macd rsi up down))))))))))"

subsection \<open>Historical similarity\<close>

fun sample_size :: "tool_result list \<Rightarrow> int" where
  "sample_size [] = 0"
| "sample_size [r] = (case tq_sample_size (tr_quality r) of None \<Rightarrow> 0 | Some n \<Rightarrow> n)"
| "sample_size (r # rs) = max (case tq_sample_size (tr_quality r) of None \<Rightarrow> 0 | Some n \<Rightarrow> n) (sample_size rs)"

definition direction_conflict :: "f64 option \<Rightarrow> f64 option \<Rightarrow> bool" where
  "direction_conflict up_rate mean_return = (case (up_rate, mean_return) of
     (Some u, Some m) \<Rightarrow> flt (fmul (fsub u (lit (1 / 2))) m) (Fin 0) | _ \<Rightarrow> False)"

definition historical_conclusion :: "observed_fact list \<Rightarrow> f64 \<Rightarrow> f64 option \<Rightarrow> bool \<Rightarrow> reading" where
  "historical_conclusion obs similarity up_rate conflict =
     (let core = {''similarity_score'', ''regime_match'', ''session_match''} \<inter> fact_names obs;
          outcomes = {''forward_up_rate'', ''forward_return_mean'', ''mfe_mean_atr'', ''mae_mean_atr''} \<inter> fact_names obs
      in
      if flt similarity (lit (6 / 10)) \<or> up_rate = None \<or> conflict then
        \<lparr>rg_hypothesis = ''historically_mixed'', rg_direction = None, rg_confidence = lit (35 / 100),
         rg_supports = core, rg_contradicts = (if conflict then outcomes else {}), rg_status = AS_DEGRADED,
         rg_abstention = None,
         rg_rationale = Some ''Comparable cases are weak, incomplete, or internally conflicting.''\<rparr>
      else
        let (hypothesis, direction) =
          (if opt_some (fle (lit (6 / 10))) up_rate then (''historical_continuation_bias'', Some BULLISH)
           else if opt_some (\<lambda>u. fle u (lit (4 / 10))) up_rate then (''historical_reversal_bias'', Some BEARISH)
           else (''historically_mixed'', None)) in
        \<lparr>rg_hypothesis = hypothesis, rg_direction = direction,
         rg_confidence = pymin (lit (75 / 100)) (fmul similarity (lit (7 / 10))),
         rg_supports = core \<union> outcomes, rg_contradicts = {},
         rg_status = (if hypothesis = ''historically_mixed'' then AS_DEGRADED else AS_READY),
         rg_abstention = None,
         rg_rationale = Some ''Similarity, sample adequacy, and outcome distribution were assessed together.''\<rparr>)"

definition historical_reading :: "observed_fact list \<Rightarrow> tool_result list \<Rightarrow> reading res" where
  "historical_reading obs usable =
     (if sample_size usable < 30 then
       Inr \<lparr>rg_hypothesis = ''insufficient_comparable_cases'', rg_direction = None, rg_confidence = Fin 0,
         rg_supports = {}, rg_contradicts = {}, rg_status = AS_ABSTAINED, rg_abstention = Some INSUFFICIENT_DATA,
         rg_rationale = None\<rparr>
     else
     res_bind (numeric_fact obs ''similarity_score'') (\<lambda>score.
     res_bind (numeric_fact obs ''forward_up_rate'') (\<lambda>up_rate.
     res_bind (numeric_fact obs ''forward_return_mean'') (\<lambda>mean_return.
     Inr (historical_conclusion obs (case score of None \<Rightarrow> Fin 0 | Some x \<Rightarrow> x) up_rate
       (direction_conflict up_rate mean_return))))))"

subsection \<open>Regime\<close>

definition regime_reading :: "observed_fact list \<Rightarrow> tool_result list \<Rightarrow> reading res" where
  "regime_reading obs usable =
     res_bind (numeric_fact obs ''trend_adx_14'') (\<lambda>adx.
     res_bind (numeric_fact obs ''statistics_efficiency_ratio_20'') (\<lambda>efficiency.
     res_bind (numeric_fact obs ''volatility_expansion'') (\<lambda>expansion.
     let (hypothesis, confidence, status) =
       (if is_true obs ''breakout_above'' \<or> is_true obs ''breakout_below''
        then (''BREAKOUT'', lit (7 / 10), AS_READY)
        else if opt_some (\<lambda>x. fle (lit (5 / 4)) x) expansion then (''VOLATILITY_EXPANSION'', lit (7 / 10), AS_READY)
        else if opt_some (\<lambda>a. fle (Fin 25) a) adx \<and> opt_some (\<lambda>x. fle (lit (35 / 100)) x) efficiency
        then (''TRENDING'', lit (72 / 100), AS_READY)
        else if opt_some (\<lambda>a. flt a (Fin 20)) adx \<and> opt_some (\<lambda>x. flt x (lit (3 / 10))) efficiency
        then (''RANGING'', lit (68 / 100), AS_READY)
        else (''TRANSITION'', lit (4 / 10), AS_DEGRADED)) in
     Inr \<lparr>rg_hypothesis = hypothesis, rg_direction = None, rg_confidence = confidence,
       rg_supports = fact_names obs, rg_contradicts = {}, rg_status = status, rg_abstention = None,
       rg_rationale = Some ''Regime context combines trend efficiency, volatility, and breakout facts.''\<rparr>)))"

subsection \<open>News\<close>

definition news_hypothesis :: "observed_fact list \<Rightarrow> (string \<times> f64) res" where
  "news_hypothesis obs =
     res_bind (lowered_fact obs ''event_risk_level'') (\<lambda>risk.
     if risk = Some ''high'' \<or> risk = Some ''critical'' then Inr (''HIGH_EVENT_RISK'', lit (75 / 100))
     else res_bind (lowered_fact obs ''usd_pressure_context'') (\<lambda>usd.
       if usd = Some ''supportive'' then Inr (''USD_SUPPORTIVE'', lit (6 / 10))
       else if usd = Some ''pressure'' then Inr (''USD_PRESSURE'', lit (6 / 10))
       else if obs \<noteq> [] then Inr (''NORMAL_EVENT_RISK'', lit (6 / 10))
       else Inr (''MACRO_MIXED'', lit (35 / 100))))"

definition news_reading :: "observed_fact list \<Rightarrow> tool_result list \<Rightarrow> reading res" where
  "news_reading obs usable =
     (if list_ex (\<lambda>r. tr_status r = TS_STALE) usable then
       Inr \<lparr>rg_hypothesis = ''CONTEXT_STALE'', rg_direction = None, rg_confidence = lit (1 / 4),
         rg_supports = fact_names obs, rg_contradicts = {}, rg_status = AS_DEGRADED, rg_abstention = None,
         rg_rationale = Some ''Slow context exists but is stale at the causal decision time.''\<rparr>
     else res_bind (news_hypothesis obs) (\<lambda>(hypothesis, confidence).
       Inr \<lparr>rg_hypothesis = hypothesis, rg_direction = None, rg_confidence = confidence,
         rg_supports = fact_names obs, rg_contradicts = {},
         rg_status = (if hypothesis = ''MACRO_MIXED'' then AS_DEGRADED else AS_READY), rg_abstention = None,
         rg_rationale = Some ''Only causally supplied slow-context facts were interpreted.''\<rparr>))"

subsection \<open>The template\<close>

record specialist_class =
  sk_name :: string
  sk_version :: string
  sk_categories :: "tool_category set"
  sk_unavailable :: string
  sk_interpret :: "observed_fact list \<Rightarrow> tool_result list \<Rightarrow> reading res"

definition chart_agent :: specialist_class where
  "chart_agent = \<lparr>sk_name = ''chart'', sk_version = ''1.0.0'',
     sk_categories = {TC_STRUCTURE, TC_BREAKOUT, TC_VOLATILITY, TC_SESSION_CONTEXT},
     sk_unavailable = ''structure_unclear'', sk_interpret = chart_reading\<rparr>"

definition quant_agent :: specialist_class where
  "quant_agent = \<lparr>sk_name = ''quant'', sk_version = ''1.0.0'',
     sk_categories = {TC_TREND, TC_MOMENTUM, TC_VOLATILITY, TC_STATISTICS, TC_VOLUME, TC_PREDICTIVE_MODEL},
     sk_unavailable = ''quantitatively_mixed'', sk_interpret = quant_reading\<rparr>"

definition historical_agent :: specialist_class where
  "historical_agent = \<lparr>sk_name = ''historical'', sk_version = ''1.0.0'',
     sk_categories = {TC_SIMILARITY, TC_SESSION_CONTEXT},
     sk_unavailable = ''insufficient_comparable_cases'', sk_interpret = historical_reading\<rparr>"

definition regime_agent :: specialist_class where
  "regime_agent = \<lparr>sk_name = ''regime'', sk_version = ''1.0.0'',
     sk_categories = {TC_TREND, TC_VOLATILITY, TC_BREAKOUT, TC_STATISTICS, TC_SESSION_CONTEXT},
     sk_unavailable = ''UNKNOWN'', sk_interpret = regime_reading\<rparr>"

definition news_agent :: specialist_class where
  "news_agent = \<lparr>sk_name = ''news'', sk_version = ''1.0.0'', sk_categories = {TC_SLOW_CONTEXT},
     sk_unavailable = ''NO_VALID_CONTEXT'', sk_interpret = news_reading\<rparr>"

record specialist_digests =
  sg_hypothesis :: "string \<times> string \<times> string \<times> directional_bias option \<Rightarrow> string"
  sg_evidence :: "agent_evidence \<Rightarrow> string"
  sg_memory :: "agent_memory \<Rightarrow> string"

primrec category_value :: "tool_category \<Rightarrow> string" where
  "category_value TC_STRUCTURE = ''structure''"
| "category_value TC_TREND = ''trend''"
| "category_value TC_MOMENTUM = ''momentum''"
| "category_value TC_VOLATILITY = ''volatility''"
| "category_value TC_STATISTICS = ''statistics''"
| "category_value TC_VOLUME = ''volume''"
| "category_value TC_BREAKOUT = ''breakout''"
| "category_value TC_SESSION_CONTEXT = ''session_context''"
| "category_value TC_SIMILARITY = ''similarity''"
| "category_value TC_SLOW_CONTEXT = ''slow_context''"
| "category_value TC_PREDICTIVE_MODEL = ''predictive_model''"

fun comma_list :: "string list \<Rightarrow> string" where
  "comma_list [] = []"
| "comma_list [s] = s"
| "comma_list (s # ss) = s @ '', '' @ comma_list ss"

definition validate_access :: "specialist_class \<Rightarrow> agent_input \<Rightarrow> unit res" where
  "validate_access A i =
     (let disallowed = filter (\<lambda>c. c \<notin> sk_categories A) (map tr_category (ai_tool_results i)) in
      if disallowed \<noteq> [] then Inl (ValueError (sk_name A @ '' received disallowed tool category: ''
        @ comma_list (sort (remdups (map category_value disallowed)))))
      else Inr ())"

definition unavailable_reason :: "tool_result list \<Rightarrow> abstention_reason" where
  "unavailable_reason rs =
     (if list_ex (\<lambda>r. tr_status r = TS_ERROR) rs then TOOL_FAILURE
      else if list_ex (\<lambda>r. tr_status r = TS_STALE) rs then STALE_EVIDENCE else INSUFFICIENT_DATA)"

definition quality_value :: "tool_result \<Rightarrow> f64" where
  "quality_value r =
     (if tr_status r = TS_AVAILABLE \<and> tq_valid (tr_quality r) then Fin 1
      else if tr_status r = TS_STALE \<and> tq_valid (tr_quality r) then lit (65 / 100) else lit (35 / 100))"

definition evidence_quality_of :: "tool_result list \<Rightarrow> f64 res" where
  "evidence_quality_of rs =
     (if rs = [] then Inr (Fin 0) else fdiv (fsum (map quality_value rs)) (Fin (of_nat (length rs))))"

definition hypothesis_identity ::
  "specialist_digests \<Rightarrow> specialist_class \<Rightarrow> string \<Rightarrow> directional_bias option \<Rightarrow> string" where
  "hypothesis_identity D A hypothesis direction =
     ''hyp-'' @ take 20 (sg_hypothesis D (sk_name A, sk_version A, hypothesis, direction))"

definition continued_relationship :: "agent_memory \<Rightarrow> f64 \<Rightarrow> hypothesis_relationship" where
  "continued_relationship p confidence =
     (let delta = fsub confidence (am_current_confidence p) in
      if fle (lit (1 / 10)) delta then HR_STRENGTHENED
      else if fle delta (lit (- (1 / 10))) \<or>
        (am_hypothesis_status p = HS_CONFIRMED \<and> flt confidence (lit (7 / 10))) then HR_WEAKENED
      else HR_UNCHANGED)"

definition relationship_of ::
  "agent_memory option \<Rightarrow> string \<Rightarrow> f64 \<Rightarrow> hypothesis_relationship \<times> string option \<times> hypothesis_status" where
  "relationship_of previous i confidence = (case previous of
     None \<Rightarrow> (HR_NEW, None, HS_DEVELOPING)
   | Some p \<Rightarrow>
       if i \<noteq> am_hypothesis_id p then (HR_REVERSED, Some (am_hypothesis_id p), HS_DEVELOPING)
       else (let r = continued_relationship p confidence in
         (r, Some (am_hypothesis_id p),
          if r = HR_WEAKENED then HS_WEAKENING
          else if fle (lit (7 / 10)) confidence then HS_CONFIRMED else HS_ACTIVE)))"

definition fact_reference :: "observed_fact \<Rightarrow> evidence_polarity \<Rightarrow> f64 \<Rightarrow> evidence_reference res" where
  "fact_reference f polarity strength = mk_evidence_reference
     \<lparr>er_tool_name = tr_tool_name (of_result f), er_tool_result_id = tr_id (of_result f),
      er_fact_name = of_name f, er_fact_value = of_value f, er_polarity = polarity, er_strength = strength,
      er_freshness = tr_freshness (of_result f), er_quality_valid = tq_valid (tr_quality (of_result f)),
      er_explanation = None\<rparr>"

definition deterministic_reasoning :: reasoning_record where
  "deterministic_reasoning =
     \<lparr>rr_mode = DETERMINISTIC, rr_component_version = ''deterministic-v1'', rr_fallback_reason = None\<rparr>"

definition no_invalidation :: hypothesis_invalidation where
  "no_invalidation =
     \<lparr>hi_invalidated = False, hi_reason = None, hi_tool_result_id = None, hi_fact_name = None\<rparr>"

text \<open>\<open>max(...)\<close> of no values raises.\<close>

fun latest :: "dt list \<Rightarrow> dt res" where
  "latest [] = Inl (ValueError ''max() iterable argument is empty'')"
| "latest (t # ts) = Inr (fold max ts t)"

definition observation_record ::
  "specialist_digests \<Rightarrow> specialist_class \<Rightarrow> agent_input \<Rightarrow> reading \<Rightarrow> agent_status \<Rightarrow> f64 \<Rightarrow> f64
     \<Rightarrow> observed_fact list \<Rightarrow> evidence_reference list \<Rightarrow> evidence_reference list \<Rightarrow> dt \<Rightarrow> agent_evidence" where
  "observation_record D A i g status confidence quality obs supporting contradicting available =
     (let hid = hypothesis_identity D A (rg_hypothesis g) (rg_direction g);
          (rel, prev, life) = relationship_of (ai_previous_memory i) hid confidence in
       \<lparr>ae_id = [], ae_agent_name = sk_name A, ae_agent_version = sk_version A,
        ae_runtime_state_id = ai_runtime_state_id i, ae_feature_snapshot_id = ai_feature_snapshot_id i,
        ae_as_of = ai_as_of i, ae_available_at = available, ae_hypothesis_id = hid,
        ae_hypothesis = rg_hypothesis g, ae_hypothesis_status = life, ae_relationship = rel,
        ae_previous_hypothesis_id = prev, ae_direction = rg_direction g, ae_confidence = confidence,
        ae_uncertainty = fsub (Fin 1) confidence, ae_evidence_quality = quality, ae_evidence_for = supporting,
        ae_evidence_against = contradicting, ae_invalidation = no_invalidation,
        ae_freshness = (if list_ex (\<lambda>f. tr_freshness (of_result f) = FS_STALE) obs then FS_STALE else FS_AVAILABLE),
        ae_status = status, ae_tool_inputs = map reference_from_result (ai_tool_results i), ae_tool_requests = [],
        ae_abstention_reason = None, ae_setup_id = ai_setup_id i, ae_thesis_id = ai_thesis_id i,
        ae_rationale = rg_rationale g, ae_reasoning = deterministic_reasoning\<rparr>)"

definition observed_evidence ::
  "specialist_digests \<Rightarrow> specialist_class \<Rightarrow> agent_input \<Rightarrow> reading \<Rightarrow> agent_status \<Rightarrow> f64 \<Rightarrow> f64
     \<Rightarrow> observed_fact list \<Rightarrow> agent_evidence res" where
  "observed_evidence D A i g status confidence quality obs =
     res_bind (res_map (\<lambda>f. fact_reference f SUPPORTS (lit (7 / 10)))
       (filter (\<lambda>f. of_name f \<in> rg_supports g) obs)) (\<lambda>supporting.
     res_bind (res_map (\<lambda>f. fact_reference f CONTRADICTS (lit (6 / 10)))
       (filter (\<lambda>f. of_name f \<in> rg_contradicts g) obs)) (\<lambda>contradicting.
     res_bind (latest (map (\<lambda>f. tr_available_at (of_result f)) obs)) (\<lambda>available.
     mk_agent_evidence (sg_evidence D)
       (observation_record D A i g status confidence quality obs supporting contradicting available))))"

definition abstention_record ::
  "specialist_digests \<Rightarrow> specialist_class \<Rightarrow> agent_input \<Rightarrow> string \<Rightarrow> abstention_reason \<Rightarrow> agent_evidence" where
  "abstention_record D A i hypothesis reason =
     (let previous = ai_previous_memory i in
       \<lparr>ae_id = [], ae_agent_name = sk_name A, ae_agent_version = sk_version A,
        ae_runtime_state_id = ai_runtime_state_id i, ae_feature_snapshot_id = ai_feature_snapshot_id i,
        ae_as_of = ai_as_of i,
        ae_available_at = (case map tr_available_at (ai_tool_results i) of [] \<Rightarrow> ai_as_of i | t # ts \<Rightarrow> fold max ts t),
        ae_hypothesis_id = (case previous of None \<Rightarrow> hypothesis_identity D A hypothesis None
          | Some p \<Rightarrow> am_hypothesis_id p),
        ae_hypothesis = (case previous of None \<Rightarrow> hypothesis | Some p \<Rightarrow> am_current_hypothesis p),
        ae_hypothesis_status = HS_ABSTAINED,
        ae_relationship = (if previous = None then HR_NEW else HR_WEAKENED),
        ae_previous_hypothesis_id = map_option am_hypothesis_id previous, ae_direction = None,
        ae_confidence = Fin 0, ae_uncertainty = Fin 1, ae_evidence_quality = Fin 0, ae_evidence_for = [],
        ae_evidence_against = [], ae_invalidation = no_invalidation,
        ae_freshness = (if reason = STALE_EVIDENCE then FS_STALE else FS_UNAVAILABLE),
        ae_status = AS_ABSTAINED, ae_tool_inputs = map reference_from_result (ai_tool_results i),
        ae_tool_requests = [], ae_abstention_reason = Some reason, ae_setup_id = ai_setup_id i,
        ae_thesis_id = ai_thesis_id i, ae_rationale = None, ae_reasoning = deterministic_reasoning\<rparr>)"

definition abstain ::
  "specialist_digests \<Rightarrow> specialist_class \<Rightarrow> agent_input \<Rightarrow> string \<Rightarrow> abstention_reason
     \<Rightarrow> (agent_evidence \<times> agent_memory) res" where
  "abstain D A i hypothesis reason =
     res_bind (mk_agent_evidence (sg_evidence D) (abstention_record D A i hypothesis reason)) (\<lambda>e.
     res_bind (validate_agent_output i e) (\<lambda>_.
     case ai_previous_memory i of
       Some p \<Rightarrow> Inr (e, p)
     | None \<Rightarrow> res_bind (transition_memory (sg_memory D) None e) (\<lambda>m. Inr (e, m))))"

definition closing_invalidation :: "observed_fact \<Rightarrow> hypothesis_invalidation" where
  "closing_invalidation f =
     (let invalidated = (of_name f = ''hypothesis_invalidated'') in
       \<lparr>hi_invalidated = invalidated, hi_reason = (if invalidated then Some ''validated invalidation fact'' else None),
        hi_tool_result_id = (if invalidated then Some (tr_id (of_result f)) else None),
        hi_fact_name = (if invalidated then Some (of_name f) else None)\<rparr>)"

definition closing_record ::
  "specialist_class \<Rightarrow> agent_input \<Rightarrow> agent_memory \<Rightarrow> observed_fact \<Rightarrow> f64 \<Rightarrow> evidence_reference
     \<Rightarrow> hypothesis_invalidation \<Rightarrow> agent_evidence" where
  "closing_record A i p f quality against invalidation =
     (let invalidated = (of_name f = ''hypothesis_invalidated'') in
       \<lparr>ae_id = [], ae_agent_name = sk_name A, ae_agent_version = sk_version A,
        ae_runtime_state_id = ai_runtime_state_id i, ae_feature_snapshot_id = ai_feature_snapshot_id i,
        ae_as_of = ai_as_of i, ae_available_at = tr_available_at (of_result f),
        ae_hypothesis_id = am_hypothesis_id p, ae_hypothesis = am_current_hypothesis p,
        ae_hypothesis_status = (if invalidated then HS_INVALIDATED else HS_EXPIRED),
        ae_relationship = (if invalidated then HR_INVALIDATED else HR_EXPIRED),
        ae_previous_hypothesis_id = Some (am_hypothesis_id p), ae_direction = None, ae_confidence = Fin 0,
        ae_uncertainty = Fin 1, ae_evidence_quality = quality, ae_evidence_for = [], ae_evidence_against = [against],
        ae_invalidation = invalidation, ae_freshness = tr_freshness (of_result f),
        ae_status = (if list_ex (\<lambda>r. tr_status r \<noteq> TS_AVAILABLE) (ai_tool_results i)
          then AS_DEGRADED else AS_READY),
        ae_tool_inputs = map reference_from_result (ai_tool_results i), ae_tool_requests = [],
        ae_abstention_reason = None, ae_setup_id = ai_setup_id i, ae_thesis_id = ai_thesis_id i,
        ae_rationale = Some ''A validated terminal fact closed the existing hypothesis.'',
        ae_reasoning = deterministic_reasoning\<rparr>)"

definition terminate ::
  "specialist_digests \<Rightarrow> specialist_class \<Rightarrow> agent_input \<Rightarrow> agent_memory \<Rightarrow> observed_fact
     \<Rightarrow> (agent_evidence \<times> agent_memory) res" where
  "terminate D A i p f =
     res_bind (evidence_quality_of (ai_tool_results i)) (\<lambda>quality.
     res_bind (fact_reference f CONTRADICTS (Fin 1)) (\<lambda>against.
     res_bind (mk_hypothesis_invalidation (closing_invalidation f)) (\<lambda>invalidation.
     res_bind (mk_agent_evidence (sg_evidence D) (closing_record A i p f quality against invalidation)) (\<lambda>e.
     res_bind (validate_agent_output i e) (\<lambda>_.
     res_bind (transition_memory (sg_memory D) (Some p) e) (\<lambda>m. Inr (e, m)))))))"

definition usable_results :: "agent_input \<Rightarrow> tool_result list" where
  "usable_results i = filter (\<lambda>r. (tr_status r = TS_AVAILABLE \<or> tr_status r = TS_STALE) \<and> tq_valid (tr_quality r))
     (ai_tool_results i)"

definition observations_of :: "tool_result list \<Rightarrow> observed_fact list" where
  "observations_of rs = concat (map (\<lambda>r. map (\<lambda>f. \<lparr>of_result = r, of_name = tf_name f, of_value = tf_value f\<rparr>)
     (tr_facts r)) rs)"

definition terminal_fact :: "observed_fact list \<Rightarrow> observed_fact option" where
  "terminal_fact obs = find (\<lambda>f. of_name f \<in> {''hypothesis_invalidated'', ''hypothesis_expired''} \<and>
     of_value f = FBool True) obs"

definition conclude ::
  "specialist_digests \<Rightarrow> specialist_class \<Rightarrow> agent_input \<Rightarrow> observed_fact list \<Rightarrow> reading
     \<Rightarrow> (agent_evidence \<times> agent_memory) res" where
  "conclude D A i obs g =
     (let degraded = (rg_status g = AS_DEGRADED \<or> list_ex (\<lambda>r. tr_status r \<noteq> TS_AVAILABLE) (ai_tool_results i));
          status = (if degraded then AS_DEGRADED else AS_READY) in
     res_bind (evidence_quality_of (ai_tool_results i)) (\<lambda>quality.
     let bounded = pymin (fmul (rg_confidence g) quality) quality;
         confidence = (if degraded then pymin bounded (lit (1 / 2)) else bounded) in
     res_bind (observed_evidence D A i g status confidence quality obs) (\<lambda>e.
     res_bind (validate_agent_output i e) (\<lambda>_.
     res_bind (transition_memory (sg_memory D) (ai_previous_memory i) e) (\<lambda>m. Inr (e, m))))))"

definition specialist_observe ::
  "specialist_digests \<Rightarrow> specialist_class \<Rightarrow> agent_input \<Rightarrow> (agent_evidence \<times> agent_memory) res" where
  "specialist_observe D A i =
     res_bind (validate_access A i) (\<lambda>_.
     let usable = usable_results i; obs = observations_of usable in
     if usable = [] then abstain D A i (sk_unavailable A) (unavailable_reason (ai_tool_results i))
     else case (terminal_fact obs, ai_previous_memory i) of
       (Some f, Some p) \<Rightarrow> terminate D A i p f
     | _ \<Rightarrow>
         res_bind (sk_interpret A obs usable) (\<lambda>g.
         if rg_status g = AS_ABSTAINED
         then abstain D A i (rg_hypothesis g)
           (case rg_abstention g of None \<Rightarrow> NO_MEANINGFUL_HYPOTHESIS | Some r \<Rightarrow> r)
         else conclude D A i obs g))"

text \<open>The five specialists a kernel is built with by default.\<close>

definition default_agents :: "specialist_digests \<Rightarrow> specialist list" where
  "default_agents D = map (\<lambda>A. \<lparr>sp_name = sk_name A, sp_observe = specialist_observe D A\<rparr>)
     [chart_agent, quant_agent, historical_agent, regime_agent, news_agent]"

subsection \<open>Signs of scores\<close>

lemma fneg_Fin_iff [simp]: "fneg a = Fin x \<longleftrightarrow> a = Fin (- x)"
  by (cases a) auto

lemma fsub_fneg: "fsub (fneg a) (fneg b) = fneg (fsub a b)"
  by (simp add: fsub_def fadd_fneg[symmetric])

lemma neumaier_fneg: "neumaier (fneg s) (fneg c) (map fneg xs) = fneg (neumaier s c xs)"
  by (induction xs arbitrary: s c) (simp_all add: Let_def fadd_fneg fsub_fneg)

lemma fsum_fneg: "xs \<noteq> [] \<Longrightarrow> fsum (map fneg xs) = fneg (fsum xs)"
  using neumaier_fneg[of _ "Fin 0"] by (cases xs) auto

definition small_float :: "f64 \<Rightarrow> bool" where
  "small_float a \<longleftrightarrow> (\<exists>x. a = Fin x \<and> is_f64 a \<and> - 16 \<le> x \<and> x \<le> 16)"

lemma small_fneg [simp]: "small_float (fneg a) = small_float a"
  by (cases a) (auto simp: small_float_def is_f64_minus dest: is_f64_minus)

lemma fsum_nonneg:
  assumes "list_all small_float xs" "\<forall>a \<in> set xs. \<not> flt a (Fin 0)"
  shows "\<not> flt (fsum xs) (Fin 0)"
proof -
  have "list_all (\<lambda>a. \<exists>x. a = Fin x \<and> is_f64 a \<and> 0 \<le> x \<and> x \<le> 16) xs"
    using assms by (fastforce simp: list_all_iff small_float_def)
  then show ?thesis using fsum_range by fastforce
qed

lemma fsum_nonpos:
  assumes "list_all small_float xs" "\<forall>a \<in> set xs. \<not> flt (Fin 0) a"
  shows "\<not> flt (Fin 0) (fsum xs)"
proof (cases "xs = []")
  case False
  have "\<not> flt (fsum (map fneg xs)) (Fin 0)"
    using assms flt_fneg(1)[of _ "Fin 0"] by (intro fsum_nonneg) (auto simp: list_all_iff)
  then show ?thesis using False flt_fneg(1)[of "fsum xs" "Fin 0"] by (simp add: fsum_fneg)
qed simp

lemma score_signs:
  assumes "list_all (small_float \<circ> snd) d"
  shows "flt (Fin 0) (score_of d) \<Longrightarrow> positive_names d \<noteq> {}"
    "flt (score_of d) (Fin 0) \<Longrightarrow> negative_names d \<noteq> {}"
proof -
  have s: "list_all small_float (map snd d)" using assms by (simp add: list_all_iff)
  show "positive_names d \<noteq> {}" if "flt (Fin 0) (score_of d)"
    using fsum_nonpos[OF s] that by (force simp: score_of_def positive_names_def filter_empty_conv)
  show "negative_names d \<noteq> {}" if "flt (score_of d) (Fin 0)"
    using fsum_nonneg[OF s] that by (force simp: score_of_def negative_names_def filter_empty_conv)
qed

lemma small_lit: "- 16 \<le> q \<Longrightarrow> q \<le> 16 \<Longrightarrow> small_float (lit q)"
proof -
  assume q: "- 16 \<le> q" "q \<le> (16 :: rat)"
  have "is_f64 (Fin (- 16))" "is_f64 (Fin 16)" by (auto intro: is_f64_minus)
  then obtain v where "lit q = Fin v" "- 16 \<le> v" "v \<le> 16" using rnd_between[OF q] by blast
  then show ?thesis using is_f64_rnd[of q] by (simp add: small_float_def)
qed

subsection \<open>A direction rests on facts\<close>

lemma fact_of_names: "fact_of obs name \<noteq> None \<Longrightarrow> name \<in> fact_names obs"
  by (auto simp: fact_of_def fact_names_def map_of_eq_None_iff)

lemma numeric_fact_present: "numeric_fact obs name = Inr (Some x) \<Longrightarrow> name \<in> fact_names obs"
  by (rule fact_of_names) (cases "fact_of obs name", simp_all add: numeric_fact_def)

definition drawn_from :: "observed_fact list \<Rightarrow> signed_scores \<Rightarrow> bool" where
  "drawn_from obs d \<longleftrightarrow> list_all (small_float \<circ> snd) d \<and> fst ` set d \<subseteq> fact_names obs"

lemma drawn_append [simp]: "drawn_from obs (d @ e) \<longleftrightarrow> drawn_from obs d \<and> drawn_from obs e"
  by (auto simp: drawn_from_def)

lemma drawn_names:
  assumes "drawn_from obs d"
  shows "positive_names d \<subseteq> fact_names obs" "negative_names d \<subseteq> fact_names obs"
    "flt (Fin 0) (score_of d) \<Longrightarrow> positive_names d \<noteq> {}"
    "flt (score_of d) (Fin 0) \<Longrightarrow> negative_names d \<noteq> {}"
  using assms score_signs[of d] by (auto simp: drawn_from_def positive_names_def negative_names_def)

lemma drawn_sided:
  "v \<noteq> None \<longrightarrow> name \<in> fact_names obs \<Longrightarrow> small_float w \<Longrightarrow> drawn_from obs (sided_entry name v c far w)"
  by (auto simp: sided_entry_def drawn_from_def split: option.splits)

lemma drawn_opposing:
  "u \<noteq> None \<longrightarrow> n \<in> fact_names obs \<Longrightarrow> v \<noteq> None \<longrightarrow> m \<in> fact_names obs \<Longrightarrow> small_float w \<Longrightarrow>
   drawn_from obs (opposing_entry n m u v far w)"
  by (auto simp: opposing_entry_def drawn_from_def split: option.splits)

lemma drawn_signed_entry:
  "v \<noteq> None \<longrightarrow> name \<in> fact_names obs \<Longrightarrow> small_float w \<Longrightarrow> drawn_from obs (signed_entry name v w)"
  by (auto simp: signed_entry_def drawn_from_def split: option.splits)

lemma drawn_concat: "(\<And>d. d \<in> set ds \<Longrightarrow> drawn_from obs d) \<Longrightarrow> drawn_from obs (concat ds)"
  by (induction ds) (auto simp: drawn_from_def)

lemma drawn_true: "small_float (snd e) \<Longrightarrow> drawn_from obs (true_entry obs e)"
  by (auto simp: true_entry_def drawn_from_def is_true_def intro: fact_of_names)

lemma chart_signed_cases:
  assumes "chart_signed obs = Inr d"
  obtains biases where "d = concat biases @ concat (map (true_entry obs) chart_events)" "length biases = 5"
    "\<And>e. e \<in> set biases \<Longrightarrow>
       \<exists>name w v. (name, w) \<in> set chart_weights \<and> numeric_fact obs name = Inr v \<and> e = signed_entry name v w"
proof -
  obtain biases where b: "res_map (\<lambda>(name, w). res_bind (numeric_fact obs name) (\<lambda>v. Inr (signed_entry name v w)))
       chart_weights = Inr biases" "d = concat biases @ concat (map (true_entry obs) chart_events)"
    using assms by (auto simp: chart_signed_def res_bind_Inr_iff)
  show thesis
  proof (rule that[OF b(2)])
    show "length biases = 5" using res_map_length[OF b(1)] by (simp add: chart_weights_def)
    fix e assume "e \<in> set biases"
    from res_map_mem[OF b(1) this] show "\<exists>name w v. (name, w) \<in> set chart_weights \<and>
        numeric_fact obs name = Inr v \<and> e = signed_entry name v w"
      by (auto simp: res_bind_Inr_iff) blast
  qed
qed

lemma chart_drawn:
  assumes "chart_signed obs = Inr d"
  shows "drawn_from obs d"
proof -
  obtain biases where b: "d = concat biases @ concat (map (true_entry obs) chart_events)"
    "\<And>e. e \<in> set biases \<Longrightarrow>
       \<exists>name w v. (name, w) \<in> set chart_weights \<and> numeric_fact obs name = Inr v \<and> e = signed_entry name v w"
    by (rule chart_signed_cases[OF assms]) blast
  have w: "small_float (snd e)" if "e \<in> set chart_weights \<union> set chart_events" for e
    using that by (auto simp: chart_weights_def chart_events_def intro!: small_lit)
  have "drawn_from obs e" if e: "e \<in> set biases" for e
    using b(2)[OF e] w numeric_fact_present[of obs] by (force intro!: drawn_signed_entry)
  moreover have "drawn_from obs e" if e: "e \<in> set (map (true_entry obs) chart_events)" for e
    using e w by (force intro!: drawn_true)
  ultimately show ?thesis unfolding b(1) drawn_append by (intro conjI drawn_concat)
qed

definition directional :: "directional_bias option \<Rightarrow> bool" where
  "directional d \<longleftrightarrow> d = Some BULLISH \<or> d = Some BEARISH"

text \<open>A directional reading is supported by at least one fact it observed.\<close>

definition reading_supported :: "observed_fact list \<Rightarrow> reading \<Rightarrow> bool" where
  "reading_supported obs g \<longleftrightarrow> (directional (rg_direction g) \<longrightarrow> rg_supports g \<inter> fact_names obs \<noteq> {})"

lemma rnd_bounded:
  assumes "\<bar>q\<bar> \<le> of_int B" "0 \<le> B" "B < 2 ^ 53"
  obtains v where "rnd q = Fin v" "\<bar>v\<bar> \<le> of_int B"
proof -
  have "is_f64 (Fin (of_int B))" using rnd_of_int[of B] assms(2,3) is_f64_rnd[of "of_int B"] by simp
  then obtain v where "rnd q = Fin v" "- of_int B \<le> v" "v \<le> of_int B"
    using rnd_between[of "- of_int B" q "of_int B"] is_f64_minus assms(1) by (auto simp: abs_le_iff)
  then show thesis by (intro that) auto
qed

lemma neumaier_step_bounded:
  assumes "\<bar>s\<bar> \<le> of_int a" "\<bar>c\<bar> \<le> of_int b" "\<bar>x\<bar> \<le> 16" "0 \<le> a" "0 \<le> b" "a + 16 \<le> 2 ^ 30" "b + 2 ^ 32 \<le> 2 ^ 52"
  obtains t e where "fadd (Fin s) (Fin x) = Fin t" "\<bar>t\<bar> \<le> of_int (a + 16)"
    "(if fle (fabs (Fin x)) (fabs (Fin s)) then fadd (Fin c) (fadd (fsub (Fin s) (Fin t)) (Fin x))
      else fadd (Fin c) (fadd (fsub (Fin x) (Fin t)) (Fin s))) = Fin e" "\<bar>e\<bar> \<le> of_int (b + 2 ^ 32)"
proof -
  obtain t where t: "rnd (s + x) = Fin t" "\<bar>t\<bar> \<le> of_int (a + 16)"
    using assms by (elim rnd_bounded[of "s + x" "a + 16", rotated -1]) (auto simp: abs_le_iff)
  have err: "\<exists>e. fadd (Fin c) (fadd (fsub (Fin y) (Fin t)) (Fin z)) = Fin e \<and> \<bar>e\<bar> \<le> of_int (b + 2 ^ 32)"
    if y: "\<bar>y\<bar> \<le> of_int (a + 16)" "\<bar>z\<bar> \<le> of_int (a + 16)" for y z
  proof -
    obtain d where d: "rnd (y - t) = Fin d" "\<bar>d\<bar> \<le> of_int (2 * (a + 16))"
      using y t(2) assms by (elim rnd_bounded[of "y - t" "2 * (a + 16)", rotated -1]) (auto simp: abs_le_iff)
    obtain f where f: "rnd (d + z) = Fin f" "\<bar>f\<bar> \<le> of_int (3 * (a + 16))"
      using y d(2) assms by (elim rnd_bounded[of "d + z" "3 * (a + 16)", rotated -1]) (auto simp: abs_le_iff)
    have "\<bar>f\<bar> \<le> of_int (2 ^ 32)"
    proof -
      have "3 * (a + 16) \<le> (2 ^ 32 :: int)" using assms(6) by simp
      then have "of_int (3 * (a + 16)) \<le> (of_int (2 ^ 32) :: rat)" by (simp only: of_int_le_iff)
      with f(2) show ?thesis by (rule order_trans)
    qed
    then obtain e where "rnd (c + f) = Fin e" "\<bar>e\<bar> \<le> of_int (b + 2 ^ 32)"
      using assms by (elim rnd_bounded[of "c + f" "b + 2 ^ 32", rotated -1]) (auto simp: abs_le_iff)
    then show ?thesis using d(1) f(1) by (simp add: fsub_def)
  qed
  have "\<bar>s\<bar> \<le> of_int (a + 16)" "\<bar>x\<bar> \<le> of_int (a + 16)" using assms by (auto simp: abs_le_iff)
  with err[of s x] err[of x s] t show thesis
    by (cases "fle (fabs (Fin x)) (fabs (Fin s))") (auto intro: that)
qed

lemma neumaier_finite:
  assumes "list_all small_float xs" "\<bar>s\<bar> \<le> of_int a" "\<bar>c\<bar> \<le> of_int b" "0 \<le> a" "0 \<le> b"
    "a + 16 * int (length xs) \<le> 2 ^ 30" "b + int (length xs) * 2 ^ 32 \<le> 2 ^ 52"
  shows "\<exists>v. neumaier (Fin s) (Fin c) xs = Fin v"
  using assms
proof (induction xs arbitrary: s c a b)
  case Nil
  have "\<bar>s + c\<bar> \<le> of_int (a + b)" "a + b < 2 ^ 53" using Nil by (auto simp: abs_le_iff)
  then obtain v where "rnd (s + c) = Fin v" using rnd_bounded[of "s + c" "a + b"] Nil.prems(4,5) by auto
  then show ?case by simp
next
  case (Cons y xs)
  then obtain x where x: "y = Fin x" "\<bar>x\<bar> \<le> 16" by (auto simp: small_float_def abs_le_iff)
  obtain t e where t: "fadd (Fin s) (Fin x) = Fin t" "\<bar>t\<bar> \<le> of_int (a + 16)"
    and e: "(if fle (fabs (Fin x)) (fabs (Fin s)) then fadd (Fin c) (fadd (fsub (Fin s) (Fin t)) (Fin x))
      else fadd (Fin c) (fadd (fsub (Fin x) (Fin t)) (Fin s))) = Fin e" "\<bar>e\<bar> \<le> of_int (b + 2 ^ 32)"
    by (rule neumaier_step_bounded[OF Cons.prems(2,3) x(2) Cons.prems(4,5)]) (use Cons.prems in auto)
  have "neumaier (Fin s) (Fin c) (y # xs) = neumaier (Fin t) (Fin e) xs"
    using t(1) e(1) x(1) by (simp only: neumaier.simps Let_def)
  then show ?case using Cons.IH[OF _ t(2) e(2)] Cons.prems by (simp add: algebra_simps)
qed

lemma fsum_finite: "list_all small_float xs \<Longrightarrow> length xs \<le> 2 ^ 18 \<Longrightarrow> \<exists>v. fsum xs = Fin v"
proof (cases xs)
  case (Cons y ys)
  assume a: "list_all small_float xs" "length xs \<le> 2 ^ 18"
  obtain x where x: "y = Fin x" "\<bar>x\<bar> \<le> of_int 16" using a Cons by (auto simp: small_float_def abs_le_iff)
  have n: "int (length ys) \<le> 2 ^ 18" using a(2) Cons by simp
  show ?thesis using neumaier_finite[OF _ x(2), of ys 0 0] a(1) Cons x(1) n by simp
qed simp

lemma drawn_finite:
  assumes "drawn_from obs d" "length d \<le> 2 ^ 18"
  obtains v where "score_of d = Fin v"
  using fsum_finite[of "map snd d"] assms by (auto simp: score_of_def drawn_from_def list_all_iff)

lemma entry_lengths:
  "length (sided_entry n v c far w) \<le> 1" "length (opposing_entry n m u v far w) \<le> 1"
  "length (signed_entry n v w) \<le> 1" "length (true_entry obs e) \<le> 1"
  by (auto simp: sided_entry_def opposing_entry_def signed_entry_def true_entry_def split: option.splits)

lemma concat_length: "list_all (\<lambda>x. length x \<le> 1) xs \<Longrightarrow> length (concat xs) \<le> length xs"
  by (induction xs) auto

lemma chart_length:
  assumes "chart_signed obs = Inr d"
  shows "length d \<le> 11"
proof -
  obtain biases where b: "d = concat biases @ concat (map (true_entry obs) chart_events)" "length biases = 5"
    "\<And>e. e \<in> set biases \<Longrightarrow>
       \<exists>name w v. (name, w) \<in> set chart_weights \<and> numeric_fact obs name = Inr v \<and> e = signed_entry name v w"
    by (rule chart_signed_cases[OF assms]) blast
  have "list_all (\<lambda>x. length x \<le> 1) biases"
    using b(3) by (fastforce simp: list_all_iff entry_lengths(3)[simplified])
  then have "length (concat biases) \<le> 5" using concat_length b(2) by metis
  moreover have "length (concat (map (true_entry obs) chart_events)) \<le> 6"
    using concat_length[of "map (true_entry obs) chart_events"] by (simp add: list_all_iff entry_lengths(4)[simplified] chart_events_def)
  ultimately show ?thesis using b(1) by simp
qed

lemma chart_supported:
  assumes "chart_reading obs usable = Inr g"
  shows "reading_supported obs g"
proof -
  obtain d where d: "chart_signed obs = Inr d" using assms by (auto simp: chart_reading_def res_bind_Inr_iff)
  note drawn = chart_drawn[OF d]
  obtain v where v: "score_of d = Fin v" using drawn_finite[OF drawn] chart_length[OF d] by auto
  have side: "v < 0" if "\<not> flt (fabs (Fin v)) (lit (2 / 10))" "\<not> 0 < v"
    using that rnd_ge[of "1 / 8" "2 / 10"] by (cases "lit (2 / 10)") auto
  show ?thesis
    using assms d v side drawn_names[OF drawn]
    by (auto simp: chart_reading_def Let_def reading_supported_def directional_def split: if_splits)
qed

lemma quant_drawn:
  assumes "numeric_fact obs ''trend_close_to_ema_20'' = Inr ema" "numeric_fact obs ''trend_plus_di_14'' = Inr p"
    "numeric_fact obs ''trend_minus_di_14'' = Inr m" "numeric_fact obs ''momentum_macd_hist_12_26_9'' = Inr macd"
    "numeric_fact obs ''momentum_rsi_14'' = Inr rsi" "numeric_fact obs ''class_probability_up'' = Inr up"
    "numeric_fact obs ''class_probability_down'' = Inr down"
  shows "drawn_from obs (quant_signed ema p m macd rsi up down)"
    "length (quant_signed ema p m macd rsi up down) \<le> 5"
proof -
  have there: "v \<noteq> None \<longrightarrow> name \<in> fact_names obs" if "numeric_fact obs name = Inr v" for name v
    using that numeric_fact_present by auto
  show "drawn_from obs (quant_signed ema p m macd rsi up down)"
    unfolding quant_signed_def drawn_append using assms[THEN there]
    by (intro conjI drawn_sided drawn_opposing small_lit) simp_all
  let ?parts = "[sided_entry ''trend_close_to_ema_20'' ema (Fin 0) (lit (1 / 1000)) (lit (4 / 10)),
     opposing_entry ''trend_plus_di_14'' ''trend_minus_di_14'' p m (Fin 2) (lit (35 / 100)),
     sided_entry ''momentum_macd_hist_12_26_9'' macd (Fin 0) (lit (5 / 100)) (lit (2 / 10)),
     sided_entry ''momentum_rsi_14'' rsi (Fin 50) (Fin 5) (lit (15 / 100)),
     opposing_entry ''class_probability_up'' ''class_probability_down'' up down (lit (1 / 10)) (lit (15 / 100))]"
  have "length (concat ?parts) \<le> length ?parts"
    by (rule concat_length) (simp only: list.pred_inject entry_lengths simp_thms)
  then show "length (quant_signed ema p m macd rsi up down) \<le> 5" by (simp add: quant_signed_def)
qed

lemma quant_supported:
  assumes "quant_reading obs usable = Inr g"
  shows "reading_supported obs g"
proof -
  from assms obtain ema p m macd rsi up down z where
    n: "numeric_fact obs ''trend_close_to_ema_20'' = Inr ema" "numeric_fact obs ''trend_plus_di_14'' = Inr p"
      "numeric_fact obs ''trend_minus_di_14'' = Inr m" "numeric_fact obs ''momentum_macd_hist_12_26_9'' = Inr macd"
      "numeric_fact obs ''momentum_rsi_14'' = Inr rsi" "numeric_fact obs ''class_probability_up'' = Inr up"
      "numeric_fact obs ''class_probability_down'' = Inr down"
    and g: "g = quant_conclusion obs rsi z (quant_signed ema p m macd rsi up down)"
    by (auto simp: quant_reading_def res_bind_Inr_iff)
  note d = quant_drawn[OF n]
  obtain v where v: "score_of (quant_signed ema p m macd rsi up down) = Fin v"
    using drawn_finite[OF d(1)] d(2) by auto
  have side: "v < 0" if "\<not> flt (fabs (Fin v)) (lit (3 / 10))" "\<not> 0 < v"
    using that rnd_ge[of "1 / 8" "3 / 10"] by (cases "lit (3 / 10)") auto
  show ?thesis
    using v side drawn_names[OF d(1)]
    by (auto simp: g quant_conclusion_def Let_def reading_supported_def directional_def split: if_splits)
qed

lemma historical_conclusion_supports:
  assumes "directional (rg_direction (historical_conclusion obs similarity up conflict))"
  shows "up \<noteq> None"
    "{''forward_up_rate''} \<inter> fact_names obs \<subseteq> rg_supports (historical_conclusion obs similarity up conflict)"
proof -
  have plain: "\<not> (flt similarity (lit (6 / 10)) \<or> up = None \<or> conflict)"
    using assms by (cases "flt similarity (lit (6 / 10)) \<or> up = None \<or> conflict")
      (simp_all only: historical_conclusion_def Let_def if_True simp_thms reading.simps directional_def option.distinct)
  then show "up \<noteq> None" by simp
  have "rg_supports (historical_conclusion obs similarity up conflict) =
      ({''similarity_score'', ''regime_match'', ''session_match''} \<inter> fact_names obs) \<union>
      ({''forward_up_rate'', ''forward_return_mean'', ''mfe_mean_atr'', ''mae_mean_atr''} \<inter> fact_names obs)"
    unfolding historical_conclusion_def Let_def if_not_P[OF plain] by (simp only: split_beta reading.simps)
  then show "{''forward_up_rate''} \<inter> fact_names obs \<subseteq> rg_supports (historical_conclusion obs similarity up conflict)"
    by (intro subsetI, simp only: Un_iff Int_iff insert_iff empty_iff simp_thms) (elim conjE, hypsubst, rule disjI2)
qed

lemma historical_supported:
  assumes "historical_reading obs usable = Inr g"
  shows "reading_supported obs g"
proof (cases "sample_size usable < 30")
  case False
  from assms False obtain similarity up conflict where up: "numeric_fact obs ''forward_up_rate'' = Inr up"
    and g: "g = historical_conclusion obs similarity up conflict"
    by (auto simp: historical_reading_def res_bind_Inr_iff)
  show ?thesis
  proof (cases "directional (rg_direction g)")
    case True
    note h = historical_conclusion_supports[of obs similarity up conflict, folded g, OF True]
    then have "''forward_up_rate'' \<in> fact_names obs" using up numeric_fact_present by auto
    with h(2) show ?thesis unfolding reading_supported_def by blast
  qed (simp add: reading_supported_def)
next
  case True
  then have "rg_direction g = None" using assms by (auto simp: historical_reading_def)
  then show ?thesis by (simp add: reading_supported_def directional_def)
qed

lemma regime_neutral: "regime_reading obs usable = Inr g \<Longrightarrow> rg_direction g = None"
  by (clarsimp simp: regime_reading_def res_bind_Inr_iff Let_def split_beta)

lemma news_neutral: "news_reading obs usable = Inr g \<Longrightarrow> rg_direction g = None"
  by (cases "list_ex (\<lambda>r. tr_status r = TS_STALE) usable") (clarsimp simp: news_reading_def res_bind_Inr_iff)+

definition built_in :: "specialist_class set" where
  "built_in = {chart_agent, quant_agent, historical_agent, regime_agent, news_agent}"

lemma built_in_supported:
  assumes "A \<in> built_in" "sk_interpret A obs usable = Inr g"
  shows "reading_supported obs g"
    "A \<in> {regime_agent, news_agent} \<Longrightarrow> rg_direction g = None"
  using assms chart_supported quant_supported historical_supported regime_neutral news_neutral
  by (auto simp: built_in_def chart_agent_def quant_agent_def historical_agent_def regime_agent_def news_agent_def
      reading_supported_def directional_def)

subsection \<open>What a specialist hands to the kernel\<close>

lemma mk_evidence_Inr:
  assumes "mk_agent_evidence h e = Inr e'"
  shows "evidence_ok e' \<and> (\<exists>i. e' = e\<lparr>ae_id := i\<rparr>)"
  using assms mk_agent_evidence_ok[OF assms]
  by (auto simp: mk_agent_evidence_def res_bind_Inr_iff validate_Inr_iff evidence_identity.bind_ok_iff)

lemma mk_reference_Inr: "mk_evidence_reference r = Inr r' \<longleftrightarrow> r' = r \<and> is_ok (mk_evidence_reference r)"
  by (auto simp: mk_evidence_reference_def validate_Inr_iff is_ok_iff)

definition emitted_by :: "specialist_class \<Rightarrow> agent_input \<Rightarrow> agent_evidence \<Rightarrow> bool" where
  "emitted_by A i e \<longleftrightarrow> evidence_ok e \<and> validate_agent_output i e = Inr () \<and> ae_agent_name e = sk_name A \<and>
     ae_runtime_state_id e = ai_runtime_state_id i \<and> ae_as_of e = ai_as_of i \<and>
     ae_tool_inputs e = map reference_from_result (ai_tool_results i)"

definition cites_usable :: "agent_input \<Rightarrow> agent_evidence \<Rightarrow> bool" where
  "cites_usable i e \<longleftrightarrow> (\<forall>c \<in> set (ae_evidence_for e @ ae_evidence_against e).
     \<exists>r \<in> set (usable_results i). er_tool_result_id c = tr_id r \<and> er_tool_name c = tr_tool_name r \<and>
       (\<exists>f \<in> set (tr_facts r). tf_name f = er_fact_name c \<and> tf_value f = er_fact_value c))"

lemma observation_mem:
  "f \<in> set (observations_of rs) \<longleftrightarrow>
     of_result f \<in> set rs \<and> (\<exists>t \<in> set (tr_facts (of_result f)). tf_name t = of_name f \<and> tf_value t = of_value f)"
  by (cases f) (auto simp: observations_of_def)

lemma abstain_Inr:
  assumes "abstain D A i hypothesis reason = Inr (e, m)"
  shows "emitted_by A i e" "ae_status e = AS_ABSTAINED" "ae_direction e = None" "ae_evidence_for e = []"
    "ae_evidence_against e = []"
    "case ai_previous_memory i of Some p \<Rightarrow> m = p | None \<Rightarrow> transition_memory (sg_memory D) None e = Inr m"
proof -
  from assms have mk: "mk_agent_evidence (sg_evidence D) (abstention_record D A i hypothesis reason) = Inr e"
    and v: "validate_agent_output i e = Inr ()"
    and m: "case ai_previous_memory i of Some p \<Rightarrow> m = p | None \<Rightarrow> transition_memory (sg_memory D) None e = Inr m"
    by (auto simp: abstain_def res_bind_Inr_iff split: option.splits)
  obtain k where e: "e = (abstention_record D A i hypothesis reason)\<lparr>ae_id := k\<rparr>" "evidence_ok e"
    using mk_evidence_Inr[OF mk] by blast
  show "emitted_by A i e" "ae_status e = AS_ABSTAINED" "ae_direction e = None" "ae_evidence_for e = []"
    "ae_evidence_against e = []"
    using e v by (simp_all add: emitted_by_def abstention_record_def Let_def)
  show "case ai_previous_memory i of Some p \<Rightarrow> m = p | None \<Rightarrow> transition_memory (sg_memory D) None e = Inr m"
    by (rule m)
qed

lemma terminate_Inr:
  assumes "terminate D A i p f = Inr (e, m)"
  shows "emitted_by A i e" "ae_direction e = None" "transition_memory (sg_memory D) (Some p) e = Inr m"
    "ae_evidence_for e = []" "\<exists>c. ae_evidence_against e = [c] \<and> fact_reference f CONTRADICTS (Fin 1) = Inr c"
proof -
  from assms obtain q c inv where mk: "mk_agent_evidence (sg_evidence D) (closing_record A i p f q c inv) = Inr e"
    and c: "fact_reference f CONTRADICTS (Fin 1) = Inr c"
    and v: "validate_agent_output i e = Inr ()" and m: "transition_memory (sg_memory D) (Some p) e = Inr m"
    by (auto simp: terminate_def res_bind_Inr_iff)
  obtain k where e: "e = (closing_record A i p f q c inv)\<lparr>ae_id := k\<rparr>" "evidence_ok e"
    using mk_evidence_Inr[OF mk] by blast
  show "emitted_by A i e" "ae_direction e = None" "ae_evidence_for e = []"
    "\<exists>c. ae_evidence_against e = [c] \<and> fact_reference f CONTRADICTS (Fin 1) = Inr c"
    using e v c by (simp_all add: emitted_by_def closing_record_def Let_def)
  show "transition_memory (sg_memory D) (Some p) e = Inr m" by (rule m)
qed

lemma conclude_Inr:
  assumes "conclude D A i obs g = Inr (e, m)"
  shows "emitted_by A i e" "ae_direction e = rg_direction g"
    "transition_memory (sg_memory D) (ai_previous_memory i) e = Inr m"
    "res_map (\<lambda>f. fact_reference f SUPPORTS (lit (7 / 10))) (filter (\<lambda>f. of_name f \<in> rg_supports g) obs)
       = Inr (ae_evidence_for e)"
    "res_map (\<lambda>f. fact_reference f CONTRADICTS (lit (6 / 10))) (filter (\<lambda>f. of_name f \<in> rg_contradicts g) obs)
       = Inr (ae_evidence_against e)"
    "ae_hypothesis_id e = hypothesis_identity D A (rg_hypothesis g) (rg_direction g)"
    "ae_status e \<in> {AS_READY, AS_DEGRADED}"
proof -
  define status where "status = (if rg_status g = AS_DEGRADED \<or>
    list_ex (\<lambda>r. tr_status r \<noteq> TS_AVAILABLE) (ai_tool_results i) then AS_DEGRADED else AS_READY)"
  from assms obtain confidence quality sup con av where
    mk: "mk_agent_evidence (sg_evidence D) (observation_record D A i g status confidence quality obs sup con av) = Inr e"
    and sup: "res_map (\<lambda>f. fact_reference f SUPPORTS (lit (7 / 10))) (filter (\<lambda>f. of_name f \<in> rg_supports g) obs) = Inr sup"
    and con: "res_map (\<lambda>f. fact_reference f CONTRADICTS (lit (6 / 10))) (filter (\<lambda>f. of_name f \<in> rg_contradicts g) obs) = Inr con"
    and v: "validate_agent_output i e = Inr ()"
    and m: "transition_memory (sg_memory D) (ai_previous_memory i) e = Inr m"
    by (auto simp: conclude_def observed_evidence_def Let_def res_bind_Inr_iff status_def)
  obtain k where e: "e = (observation_record D A i g status confidence quality obs sup con av)\<lparr>ae_id := k\<rparr>"
    "evidence_ok e" using mk_evidence_Inr[OF mk] by blast
  show "emitted_by A i e" "ae_direction e = rg_direction g"
    "ae_hypothesis_id e = hypothesis_identity D A (rg_hypothesis g) (rg_direction g)"
    "ae_status e \<in> {AS_READY, AS_DEGRADED}"
    "res_map (\<lambda>f. fact_reference f SUPPORTS (lit (7 / 10))) (filter (\<lambda>f. of_name f \<in> rg_supports g) obs)
       = Inr (ae_evidence_for e)"
    "res_map (\<lambda>f. fact_reference f CONTRADICTS (lit (6 / 10))) (filter (\<lambda>f. of_name f \<in> rg_contradicts g) obs)
       = Inr (ae_evidence_against e)"
    using e v sup con by (simp_all add: emitted_by_def observation_record_def Let_def status_def split: prod.splits)
  show "transition_memory (sg_memory D) (ai_previous_memory i) e = Inr m" by (rule m)
qed

lemma reference_fields:
  "fact_reference f pol w = Inr c \<Longrightarrow> er_tool_result_id c = tr_id (of_result f) \<and>
     er_tool_name c = tr_tool_name (of_result f) \<and> er_fact_name c = of_name f \<and> er_fact_value c = of_value f"
  by (auto simp: fact_reference_def mk_evidence_reference_def validate_Inr_iff)

lemma reference_usable:
  assumes "fact_reference f pol w = Inr c" "f \<in> set (observations_of (usable_results i))"
  shows "\<exists>r \<in> set (usable_results i). er_tool_result_id c = tr_id r \<and> er_tool_name c = tr_tool_name r \<and>
       (\<exists>f \<in> set (tr_facts r). tf_name f = er_fact_name c \<and> tf_value f = er_fact_value c)"
  using reference_fields[OF assms(1)] assms(2) by (auto simp: observation_mem intro!: bexI[of _ "of_result f"])

lemma conclude_cites:
  assumes "conclude D A i (observations_of (usable_results i)) g = Inr (e, m)"
  shows "cites_usable i e"
  unfolding cites_usable_def
proof
  fix c assume "c \<in> set (ae_evidence_for e @ ae_evidence_against e)"
  then obtain f pol w where "fact_reference f pol w = Inr c" "f \<in> set (observations_of (usable_results i))"
    using res_map_mem[OF conclude_Inr(4)[OF assms], of c] res_map_mem[OF conclude_Inr(5)[OF assms], of c] by auto
  then show "\<exists>r \<in> set (usable_results i). er_tool_result_id c = tr_id r \<and> er_tool_name c = tr_tool_name r \<and>
       (\<exists>f \<in> set (tr_facts r). tf_name f = er_fact_name c \<and> tf_value f = er_fact_value c)"
    by (rule reference_usable)
qed

lemma conclude_supported:
  assumes "conclude D A i obs g = Inr (e, m)" "reading_supported obs g" "directional (ae_direction e)"
  shows "ae_evidence_for e \<noteq> []"
proof -
  obtain f where "f \<in> set obs" "of_name f \<in> rg_supports g"
    using assms conclude_Inr(2)[OF assms(1)] by (auto simp: reading_supported_def fact_names_def)
  then have "filter (\<lambda>f. of_name f \<in> rg_supports g) obs \<noteq> []" by (auto simp: filter_empty_conv)
  then show ?thesis using res_map_length[OF conclude_Inr(4)[OF assms(1)]] by fastforce
qed

text \<open>The three ways an observation ends.\<close>

lemma specialist_observe_cases:
  assumes "specialist_observe D A i = Inr (e, m)"
  obtains (abstained) hyp reason where "abstain D A i hyp reason = Inr (e, m)"
  | (terminated) p f where "ai_previous_memory i = Some p"
      "terminal_fact (observations_of (usable_results i)) = Some f" "terminate D A i p f = Inr (e, m)"
  | (concluded) g where "usable_results i \<noteq> []"
      "sk_interpret A (observations_of (usable_results i)) (usable_results i) = Inr g"
      "terminal_fact (observations_of (usable_results i)) = None \<or> ai_previous_memory i = None"
      "rg_status g \<noteq> AS_ABSTAINED" "conclude D A i (observations_of (usable_results i)) g = Inr (e, m)"
  using assms
  by (auto simp: specialist_observe_def res_bind_Inr_iff Let_def split: if_splits option.splits)

end
