(* ===== verification/Averages.thy ===== *)
theory Averages
  imports PyFloat
begin

section \<open>Averages of quality values\<close>

text \<open>
  \<open>sum(xs) / len(xs)\<close> of floats between a quarter and one. Such numbers are multiples of \<open>2 ^ - 54\<close>, so the
  compensation of the sum is exact and the sum is the exact sum, rounded once; an average of at most
  \<open>2 ^ 20\<close> of them stays between zero and one.
\<close>

definition quarter_float :: "f64 \<Rightarrow> bool" where
  "quarter_float a \<longleftrightarrow> (\<exists>x. a = Fin x \<and> is_f64 a \<and> 1 / 4 \<le> x \<and> x \<le> 1)"

definition gridded :: "rat \<Rightarrow> bool" where
  "gridded x \<longleftrightarrow> (\<exists>k. x = of_int k / 2 ^ 54)"

lemma gridded_add: "gridded x \<Longrightarrow> gridded y \<Longrightarrow> gridded (x + y)"
  unfolding gridded_def by (metis add_divide_distrib of_int_add)

lemma gridded_minus: "gridded x \<Longrightarrow> gridded y \<Longrightarrow> gridded (x - y)"
  unfolding gridded_def by (metis diff_divide_distrib of_int_diff)

lemma gridded_0 [simp]: "gridded 0"
  by (simp add: gridded_def exI[of _ 0])

text \<open>A small multiple of the grid is a float.\<close>

lemma gridded_float:
  assumes "gridded x" "\<bar>x\<bar> < 1 / 2"
  shows "rnd x = Fin x"
proof -
  obtain k where k: "x = of_int k / 2 ^ 54" using assms(1) by (auto simp: gridded_def)
  have "\<bar>of_int k :: rat\<bar> < 2 ^ 53" using assms(2) by (simp add: k abs_less_iff field_simps)
  then have "\<bar>k\<bar> < 2 ^ 53" by (simp only: of_int_abs[symmetric] of_int_less_numeral_power_cancel_iff)
  then show ?thesis using rnd_dyadic[of k 54] by (simp add: k)
qed

lemma quarter_exp: "1 / 4 \<le> x \<Longrightarrow> - 54 \<le> quantum_exp x"
proof -
  assume x: "1 / 4 \<le> x"
  have "ilog2 (1 / 4) = - 2" by (rule ilog2_unique) (simp_all add: power_int_def power2_eq_square)
  then have "quantum_exp (1 / 4) = - 54" by (simp add: quantum_exp_def)
  then show ?thesis using quantum_exp_mono[of "1 / 4" x] x by simp
qed

lemma float_gridded:
  assumes "is_f64 (Fin x)" "1 / 4 \<le> x"
  shows "gridded x"
proof -
  obtain k where "x = of_int k * 2 powi (- 54)"
    using f64_multiple[OF assms(1) _ quarter_exp[OF assms(2)]] assms(2) by (metis not_one_le_zero zero_less_one divide_le_0_1_iff zero_less_numeral not_le)
  then show ?thesis unfolding gridded_def by (intro exI[of _ k]) (simp add: power_int_def field_simps)
qed

lemma rnd_error:
  assumes "1 / 4 \<le> q" "q \<le> 2 ^ 22" "rnd q = Fin t"
  shows "\<bar>q - t\<bar> \<le> 1 / 2 ^ 31"
proof -
  let ?e = "quantum_exp q"
  have "ilog2 (2 ^ 22) = 22" by (rule ilog2_unique) (simp_all add: power_int_def)
  then have "quantum_exp (2 ^ 22) = - 30" by (simp add: quantum_exp_def)
  then have "?e \<le> - 30" using quantum_exp_mono[of q "2 ^ 22"] assms(1,2) by simp
  then have "(2::rat) powi ?e \<le> 2 powi (- 30)" by (simp only: powi2_le_iff)
  also have "(2::rat) powi (- 30) = 1 / 2 ^ 30" by (simp add: power_int_def power_one_over)
  finally have p: "(2::rat) powi ?e \<le> 1 / 2 ^ 30" .
  have t: "t = of_int (rhe (q / 2 powi ?e)) * 2 powi ?e"
    using assms(1,3) by (auto simp: rnd_def round_val_def Let_def split: if_splits)
  have "q = q / 2 powi ?e * 2 powi ?e" by simp
  then have "q - t = (q / 2 powi ?e - of_int (rhe (q / 2 powi ?e))) * 2 powi ?e"
    using t by (simp only: left_diff_distrib)
  then have "\<bar>q - t\<bar> = \<bar>of_int (rhe (q / 2 powi ?e)) - q / 2 powi ?e\<bar> * 2 powi ?e"
    by (simp only: abs_mult abs_minus_commute[of "of_int _"] abs_of_pos[OF zero_less_power_int[OF zero_less_numeral]])
  also have "\<dots> \<le> 1 / 2 * (1 / 2 ^ 30)"
    using rhe_error[of "q / 2 powi ?e"] p by (intro mult_mono) simp_all
  finally show ?thesis by simp
qed

text \<open>One step of the compensated sum loses nothing.\<close>

lemma exact_step:
  assumes "is_f64 (Fin s)" "1 / 4 \<le> s" "s \<le> of_int J" "is_f64 (Fin x)" "1 / 4 \<le> x" "x \<le> 1"
    "gridded c" "\<bar>c\<bar> \<le> of_int J / 2 ^ 31" "J < 2 ^ 21"
  obtains t where "fadd (Fin s) (Fin x) = Fin t" "is_f64 (Fin t)" "1 / 4 \<le> t" "t \<le> of_int (J + 1)"
    "(if fle (fabs (Fin x)) (fabs (Fin s)) then fadd (Fin c) (fadd (fsub (Fin s) (Fin t)) (Fin x))
      else fadd (Fin c) (fadd (fsub (Fin x) (Fin t)) (Fin s))) = Fin (c + (s + x - t))"
    "gridded (c + (s + x - t))" "\<bar>c + (s + x - t)\<bar> \<le> of_int (J + 1) / 2 ^ 31"
proof -
  have J: "(of_int (J + 1) :: rat) \<le> 2 ^ 21" using assms(9) by (metis of_int_le_numeral_power_cancel_iff zless_imp_add1_zle)
  have fJ: "is_f64 (Fin (of_int (J + 1)))"
  proof -
    have "(0::rat) < of_int J" using assms(2,3) by linarith
    then have "\<bar>J + 1\<bar> < 2 ^ 53" using assms(9) by simp
    then show ?thesis using rnd_of_int[of "J + 1"] is_f64_rnd[of "of_int (J + 1)"] by simp
  qed
  have "s \<le> s + x" "s + x \<le> of_int (J + 1)" using assms by simp_all
  then obtain t where t: "rnd (s + x) = Fin t" "s \<le> t" "t \<le> of_int (J + 1)"
    using rnd_between[OF _ _ assms(1) fJ] by blast
  have ft: "is_f64 (Fin t)" using t(1) is_f64_rnd by metis
  have xt: "x \<le> t" using rnd_ge_num[OF _ assms(4) t(1)] assms(2) by simp
  have err: "\<bar>s + x - t\<bar> \<le> 1 / 2 ^ 31"
    using rnd_error[OF _ _ t(1)] assms t(3) J by simp
  have grid: "gridded (s + x - t)"
    using float_gridded[OF assms(1,2)] float_gridded[OF assms(4,5)] float_gridded[OF ft] t(2) assms(2)
    by (intro gridded_minus gridded_add) auto
  have e: "rnd (s + x - t) = Fin (s + x - t)" using gridded_float[OF grid] err by simp
  have c': "gridded (c + (s + x - t))" using gridded_add[OF assms(7) grid] .
  have b: "\<bar>c + (s + x - t)\<bar> \<le> of_int (J + 1) / 2 ^ 31"
  proof -
    have "\<bar>c + (s + x - t)\<bar> \<le> of_int J / 2 ^ 31 + 1 / 2 ^ 31" using assms(8) err abs_triangle_ineq[of c "s + x - t"] by linarith
    then show ?thesis by (simp add: add_divide_distrib)
  qed
  have "rnd (c + (s + x - t)) = Fin (c + (s + x - t))"
    using gridded_float[OF c'] b J by (simp add: abs_le_iff abs_less_iff)
  moreover have "fadd (fsub (Fin s) (Fin t)) (Fin x) = Fin (s + x - t)" if "x \<le> s"
  proof -
    have "t \<le> 2 * s" using rnd_le_num[OF _ is_f64_double[OF assms(1)] t(1)] that assms(2,3) J by simp
    then have "rnd (t - s) = Fin (t - s)" using diff_exact[OF assms(1) ft] t(2) assms(2) by simp
    then have "rnd (s - t) = Fin (s - t)" using rnd_minus[of "t - s"] by simp
    then show ?thesis using e by (simp add: fsub_def algebra_simps)
  qed
  moreover have "fadd (fsub (Fin x) (Fin t)) (Fin s) = Fin (s + x - t)" if "s < x"
  proof -
    have "t \<le> 2 * x" using rnd_le_num[OF _ is_f64_double[OF assms(4)] t(1)] that assms(5,6) by simp
    then have "rnd (t - x) = Fin (t - x)" using diff_exact[OF assms(4) ft] xt assms(5) by simp
    then have "rnd (x - t) = Fin (x - t)" using rnd_minus[of "t - x"] by simp
    then show ?thesis using e by (simp add: fsub_def algebra_simps)
  qed
  ultimately show thesis
    using t ft c' b assms(2,5) by (intro that[of t]) auto
qed

fun fin_val :: "f64 \<Rightarrow> rat" where
  "fin_val (Fin x) = x"
| "fin_val _ = 0"

lemma neumaier_exact:
  assumes "list_all quarter_float xs" "is_f64 (Fin s)" "1 / 4 \<le> s" "s \<le> of_int J" "gridded c"
    "\<bar>c\<bar> \<le> of_int J / 2 ^ 31" "J + int (length xs) \<le> 2 ^ 21"
  shows "neumaier (Fin s) (Fin c) xs = rnd (s + c + sum_list (map fin_val xs))"
  using assms
proof (induction xs arbitrary: s c J)
  case Nil
  then show ?case by (simp add: rnd_of_is_f64)
next
  case (Cons y xs)
  then obtain x where x: "y = Fin x" "is_f64 (Fin x)" "1 / 4 \<le> x" "x \<le> 1" by (auto simp: quarter_float_def)
  have "J < 2 ^ 21" using Cons.prems(7) by simp
  from exact_step[OF Cons.prems(2-4) x(2-4) Cons.prems(5,6) this] obtain t where
    t: "fadd (Fin s) (Fin x) = Fin t" "is_f64 (Fin t)" "1 / 4 \<le> t" "t \<le> of_int (J + 1)"
    and c: "(if fle (fabs (Fin x)) (fabs (Fin s)) then fadd (Fin c) (fadd (fsub (Fin s) (Fin t)) (Fin x))
      else fadd (Fin c) (fadd (fsub (Fin x) (Fin t)) (Fin s))) = Fin (c + (s + x - t))"
      "gridded (c + (s + x - t))" "\<bar>c + (s + x - t)\<bar> \<le> of_int (J + 1) / 2 ^ 31" .
  have "neumaier (Fin s) (Fin c) (y # xs) = neumaier (Fin t) (Fin (c + (s + x - t))) xs"
    using t(1) c(1) x(1) by (simp only: neumaier.simps Let_def)
  then show ?case using Cons.IH[OF _ t(2-4) c(2,3)] Cons.prems(1,7) x(1) by (simp add: algebra_simps)
qed

lemma fsum_exact:
  assumes "list_all quarter_float xs" "length xs \<le> 2 ^ 20"
  shows "fsum xs = rnd (sum_list (map fin_val xs))"
proof (cases xs)
  case (Cons y ys)
  then obtain x where x: "y = Fin x" "is_f64 (Fin x)" "1 / 4 \<le> x" "x \<le> of_int 1"
    using assms(1) by (auto simp: quarter_float_def)
  have "int (length ys) \<le> 2 ^ 20" using assms(2) Cons by simp
  then show ?thesis using neumaier_exact[OF _ x(2-4), of ys 0] assms(1) Cons x(1) by simp
qed simp

lemma sum_quarters:
  "list_all quarter_float xs \<Longrightarrow> 0 \<le> sum_list (map fin_val xs) \<and> sum_list (map fin_val xs) \<le> of_nat (length xs)"
  by (induction xs) (auto simp: quarter_float_def)

lemma average_unit:
  assumes "list_all quarter_float xs" "length xs \<le> 2 ^ 20" "xs \<noteq> []"
  obtains v where "fdiv (fsum xs) (Fin (of_nat (length xs))) = Inr (Fin v)" "is_f64 (Fin v)" "0 \<le> v" "v \<le> 1"
proof -
  let ?n = "of_nat (length xs) :: rat"
  have "\<bar>int (length xs)\<bar> < 2 ^ 53" using assms(2) by simp
  then have n: "is_f64 (Fin ?n)" using rnd_of_int[of "int (length xs)"] is_f64_rnd[of ?n] by simp
  obtain s where s: "fsum xs = Fin s" "0 \<le> s" "s \<le> ?n"
    using rnd_between[of 0 "sum_list (map fin_val xs)" ?n] n sum_quarters[OF assms(1)] fsum_exact[OF assms(1,2)]
    by auto
  have "0 < ?n" using assms(3) by simp
  then obtain v where v: "rnd (s / ?n) = Fin v" "0 \<le> v" "v \<le> 1"
    using rnd_between[of 0 "s / ?n" 1] s by (auto simp: divide_le_eq)
  then show thesis using s(1) \<open>0 < ?n\<close> is_f64_rnd[of "s / ?n"] by (intro that[of v]) auto
qed

end
