(* ===== verification/SpecialistTotality.thy ===== *)
theory SpecialistTotality
  imports Specialists Averages
begin

section \<open>When a specialist raises\<close>

text \<open>
  \<open>observe\<close> on well-formed inputs: the evidence it builds always passes its contract and the output check, so
  the only failure is a lifecycle the memory refuses. The contract between the template and the five readings
  is a locale, interpreted for each of them.
\<close>

subsection \<open>Well-formed inputs\<close>

fun readable :: "fact_scalar \<Rightarrow> bool" where
  "readable (FInt n) \<longleftrightarrow> \<bar>n\<bar> < 2 ^ 53"
| "readable (FFloat x) \<longleftrightarrow> is_f64 x \<and> is_fin x"
| "readable v \<longleftrightarrow> True"

definition readable_result :: "tool_result \<Rightarrow> bool" where
  "readable_result r \<longleftrightarrow> tr_tool_name r \<noteq> [] \<and> tr_id r \<noteq> [] \<and>
     distinct (map tf_name (tr_facts r)) \<and> list_all (\<lambda>f. tf_name f \<noteq> [] \<and> readable (tf_value f)) (tr_facts r)"

definition readable_observations :: "observed_fact list \<Rightarrow> bool" where
  "readable_observations obs \<longleftrightarrow> list_all (\<lambda>f. readable (of_value f)) obs"

text \<open>
  An input the kernel built, with at most \<open>2 ^ 20\<close> results of the specialist's own categories, some fact
  whenever a result is usable, and a valid memory of the same specialist that is not newer. A memory is confirmed
  with a confidence of 0.7 at least, as the specialists write it.
\<close>

definition well_fed :: "(agent_input \<Rightarrow> string) \<Rightarrow> specialist_class \<Rightarrow> agent_input \<Rightarrow> bool" where
  "well_fed h A i \<longleftrightarrow> mk_agent_input h i = Inr i \<and> length (ai_tool_results i) \<le> 2 ^ 20 \<and>
     list_all readable_result (ai_tool_results i) \<and>
     list_all (\<lambda>r. tr_category r \<in> sk_categories A) (ai_tool_results i) \<and>
     (usable_results i \<noteq> [] \<longrightarrow> observations_of (usable_results i) \<noteq> []) \<and>
     opt_all (\<lambda>p. memory_ok p \<and> am_agent_name p = sk_name A \<and> am_updated_at p \<le> ai_as_of i \<and>
       (am_hypothesis_status p = HS_CONFIRMED \<longrightarrow> fle (lit (7 / 10)) (am_current_confidence p))) (ai_previous_memory i)"

lemma well_fed_input:
  assumes "well_fed h A i"
  shows "ai_runtime_state_id i \<noteq> []" "distinct (map tr_id (ai_tool_results i))"
    "r \<in> set (ai_tool_results i) \<Longrightarrow> tr_available_at r \<le> ai_as_of i"
    "r \<in> set (ai_tool_results i) \<Longrightarrow> readable_result r"
  using assms by (auto simp: well_fed_def mk_agent_input_def res_bind_Inr_iff validate_Inr_iff list_all_iff
      tool_result_rules_def nonempty_def)

lemma usable_mem: "r \<in> set (usable_results i) \<Longrightarrow> r \<in> set (ai_tool_results i)"
  by (simp add: usable_results_def)

lemma well_fed_readable: "well_fed h A i \<Longrightarrow> readable_observations (observations_of (usable_results i))"
  using well_fed_input(4) usable_mem
  by (fastforce simp: readable_observations_def list_all_iff observation_mem readable_result_def)

subsection \<open>The check of the output\<close>

lemma named_result:
  assumes "distinct (map tr_id (ai_tool_results i))" "r \<in> set (ai_tool_results i)"
  shows "result_named i (tr_id r) = Some r"
proof -
  have "lookup_by tr_id rs (tr_id r) = Some r" if "distinct (map tr_id rs)" "r \<in> set rs" for rs
    using that by (induction rs) force+
  then show ?thesis
    using assms lookup_by_rev[OF assms(1)] by (simp add: result_named_def map_of_dict_by)
qed

lemma find_by_name:
  "distinct (map tf_name fs) \<Longrightarrow> f \<in> set fs \<Longrightarrow> find (\<lambda>g. tf_name g = tf_name f) fs = Some f"
  by (induction fs) force+

lemma readable_eq: "readable v \<Longrightarrow> scalar_eq v v"
  by (cases v rule: readable.cases) (auto elim!: is_finE)

lemma reference_cited:
  assumes "well_fed h A i" "f \<in> set (observations_of (usable_results i))" "fact_reference f pol w = Inr c"
  shows "list_all fst (citation_rules i c)"
proof -
  let ?r = "of_result f"
  from assms(2) obtain t where r: "?r \<in> set (ai_tool_results i)" and
    t: "t \<in> set (tr_facts ?r)" "tf_name t = of_name f" "tf_value t = of_value f"
    using usable_mem by (auto simp: observation_mem)
  note rr = well_fed_input(4)[OF assms(1) r]
  have n: "result_named i (tr_id ?r) = Some ?r" using named_result[OF well_fed_input(2)[OF assms(1)] r] .
  have "find (\<lambda>g. tf_name g = of_name f) (tr_facts ?r) = Some t"
    using find_by_name[of "tr_facts ?r" t] rr t by (simp add: readable_result_def)
  moreover have "scalar_eq (of_value f) (of_value f)"
    using rr t readable_eq by (auto simp: readable_result_def list_all_iff)
  ultimately show ?thesis
    using assms(3) n t(3)
    by (auto simp: citation_rules_def cited_fact_def fact_reference_def mk_evidence_reference_def validate_Inr_iff)
qed

lemma output_accepted:
  assumes "well_fed h A i" "ae_runtime_state_id e = ai_runtime_state_id i"
    "ae_feature_snapshot_id e = ai_feature_snapshot_id i" "ae_available_at e \<le> ai_as_of i"
    "ae_tool_inputs e = map reference_from_result (ai_tool_results i)"
    "\<And>c. c \<in> set (ae_evidence_for e @ ae_evidence_against e) \<Longrightarrow>
       \<exists>f pol w. f \<in> set (observations_of (usable_results i)) \<and> fact_reference f pol w = Inr c"
  shows "validate_agent_output i e = Inr ()"
proof -
  have "list_all fst (reference_rules i (reference_from_result r))" if "r \<in> set (ai_tool_results i)" for r
    using named_result[OF well_fed_input(2)[OF assms(1)] that]
    by (simp add: reference_rules_def reference_from_result_def)
  moreover have "list_all fst (citation_rules i c)" if "c \<in> set (ae_evidence_for e @ ae_evidence_against e)" for c
    using assms(6)[OF that] reference_cited[OF assms(1)] by blast
  ultimately show ?thesis
    using assms(2-5) by (auto simp: validate_agent_output_def validate_Inr_iff list_all_iff)
qed

subsection \<open>Quality\<close>

lemma quarter_lit: "1 / 4 \<le> q \<Longrightarrow> q \<le> 1 \<Longrightarrow> quarter_float (lit q)"
  using rnd_between[of "1 / 4" q 1] is_f64_rnd[of q] by (fastforce simp: quarter_float_def)

lemma quality_quarter: "quarter_float (quality_value r)"
  using quarter_lit[of 1] by (auto simp: quality_value_def intro!: quarter_lit)

lemma quality_unit:
  assumes "length (ai_tool_results i) \<le> 2 ^ 20"
  obtains q where "evidence_quality_of (ai_tool_results i) = Inr q" "unit_float q"
proof (cases "ai_tool_results i = []")
  case False
  have "list_all quarter_float (map quality_value (ai_tool_results i))" by (simp add: list_all_iff quality_quarter)
  from average_unit[OF this] obtain v where
    "fdiv (fsum (map quality_value (ai_tool_results i))) (Fin (of_nat (length (ai_tool_results i)))) = Inr (Fin v)"
    "is_f64 (Fin v)" "0 \<le> v" "v \<le> 1" using assms False by auto
  then show thesis using False by (intro that[of "Fin v"]) (simp_all add: evidence_quality_of_def)
qed (auto simp: evidence_quality_of_def intro: that)

subsection \<open>References and confidence\<close>

lemma unit_lit: "0 \<le> q \<Longrightarrow> q \<le> 1 \<Longrightarrow> unit_float (lit q)"
  using rnd_between[of 0 q 1] is_f64_rnd[of q] by (metis is_f64_01 unit_float_Fin)

lemma references_ok:
  assumes "well_fed h A i" "set fs \<subseteq> set (observations_of (usable_results i))" "unit_float w"
  obtains cs where "res_map (\<lambda>f. fact_reference f pol w) fs = Inr cs"
proof -
  have refer: "\<exists>c. fact_reference f pol w = Inr c \<and> True" if "f \<in> set fs" for f
  proof -
    have r: "of_result f \<in> set (ai_tool_results i)"
      "\<exists>t \<in> set (tr_facts (of_result f)). tf_name t = of_name f \<and> tf_value t = of_value f"
      using that assms(2) usable_mem by (auto simp: observation_mem)
    then show ?thesis
      using well_fed_input(4)[OF assms(1) r(1)] assms(3)
      by (auto simp: fact_reference_def mk_evidence_reference_def validate.simps nonempty_def readable_result_def
          list_all_iff)
  qed
  have "\<exists>cs. res_map (\<lambda>f. fact_reference f pol w) fs = Inr cs \<and> (\<forall>c \<in> set cs. True)"
    by (rule res_map_ok) (rule refer)
  then show thesis using that by blast
qed

lemma latest_le:
  assumes "\<forall>t \<in> set ts. t \<le> b" "ts \<noteq> []"
  obtains t where "latest ts = Inr t" "t \<le> b"
proof -
  have "fold max us t \<le> b" if "\<forall>u \<in> set us. u \<le> b" "t \<le> b" for us and t :: dt
    using that by (induction us arbitrary: t) auto
  then show thesis using assms that by (cases ts) auto
qed

lemma bounded_confidence:
  assumes "unit_float c" "unit_float q"
  shows "unit_float (pymin (fmul c q) q)" "\<not> flt q (pymin (fmul c q) q)"
    "unit_float (pymin (pymin (fmul c q) q) (lit (1 / 2)))"
    "\<not> flt q (pymin (pymin (fmul c q) q) (lit (1 / 2)))"
    "\<not> flt (lit (1 / 2)) (pymin (pymin (fmul c q) q) (lit (1 / 2)))"
proof -
  obtain x y where xy: "c = Fin x" "q = Fin y" "0 \<le> x" "x \<le> 1" "0 \<le> y" "y \<le> 1" "is_f64 q"
    using assms by (auto elim!: unit_floatE)
  have m: "0 \<le> x * y" "x * y \<le> 1" using xy mult_mono[of x 1 y 1] by auto
  obtain z where z: "rnd (x * y) = Fin z" "0 \<le> z" "z \<le> 1" using rnd_between[OF m] by auto
  have fz: "is_f64 (Fin z)" using z(1) is_f64_rnd by metis
  have h: "lit (1 / 2) = Fin (1 / 2)" by (simp add: rnd_eval)
  show "unit_float (pymin (fmul c q) q)" "\<not> flt q (pymin (fmul c q) q)"
    "unit_float (pymin (pymin (fmul c q) q) (lit (1 / 2)))"
    "\<not> flt q (pymin (pymin (fmul c q) q) (lit (1 / 2)))"
    "\<not> flt (lit (1 / 2)) (pymin (pymin (fmul c q) q) (lit (1 / 2)))"
    using xy z fz by (auto simp: pymin_def h)
qed

lemma complement_unit: "unit_float c \<Longrightarrow> unit_float (fsub (Fin 1) c)"
proof -
  assume "unit_float c"
  then obtain x where x: "c = Fin x" "0 \<le> x" "x \<le> 1" by (auto elim!: unit_floatE)
  obtain v where "rnd (1 - x) = Fin v" "0 \<le> v" "v \<le> 1" using rnd_between[of 0 "1 - x" 1] x by auto
  then show ?thesis using x is_f64_rnd[of "1 - x"] by (simp add: fsub_def)
qed

definition reading_ok :: "reading \<Rightarrow> bool" where
  "reading_ok g \<longleftrightarrow> 1 \<le> length (rg_hypothesis g) \<and> length (rg_hypothesis g) \<le> 200 \<and> unit_float (rg_confidence g) \<and>
     opt_all (\<lambda>s. length s \<le> 500) (rg_rationale g) \<and> rg_status g \<in> {AS_READY, AS_DEGRADED, AS_ABSTAINED}"

text \<open>The memory's lifecycle accepts no live continuation of a hypothesis in these states.\<close>

definition closed_status :: "hypothesis_status \<Rightarrow> bool" where
  "closed_status s \<longleftrightarrow> s \<in> {HS_NONE, HS_ABSTAINED, HS_INVALIDATED, HS_EXPIRED}"

definition terminal_status :: "observed_fact \<Rightarrow> hypothesis_status" where
  "terminal_status f = (if of_name f = ''hypothesis_invalidated'' then HS_INVALIDATED else HS_EXPIRED)"

lemma first_memory:
  assumes "evidence_ok e" "ae_relationship e = HR_NEW"
  obtains m where "transition_memory h None e = Inr m"
proof -
  let ?m = "memory_from e (ae_as_of e) None None None [] 0"
  have "list_all fst (memory_rules ?m)" using transition_result_ok[OF assms(1)] by simp
  then have "is_ok (mk_agent_memory h ?m)" by (subst mk_memory_ok_iff) (simp_all add: memory_from_def)
  then show thesis using that assms(2) by (auto simp: transition_memory_def is_ok_iff)
qed

lemma mk_evidence_ok:
  assumes "ae_id e = []" "list_all fst (evidence_fields e)" "list_all fst (evidence_numeric_rules e)"
    "list_all fst (evidence_relationship_rules e)" "list_all fst (evidence_status_rules e)"
  obtains e' k where "mk_agent_evidence h e = Inr e'" "e' = e\<lparr>ae_id := k\<rparr>" "evidence_ok e'"
proof -
  obtain e' where mk: "mk_agent_evidence h e = Inr e'"
    using assms by (simp add: mk_agent_evidence_def validate_ok evidence_identity.bind_fresh)
  with mk_evidence_Inr[OF this] that show thesis by blast
qed

text \<open>The status a continued hypothesis gets is one its memory accepts, unless that memory is closed.\<close>

lemma continued_allowed:
  assumes "unit_float c" "unit_float (am_current_confidence p)"
    "am_hypothesis_status p = HS_CONFIRMED \<Longrightarrow> fle (lit (7 / 10)) (am_current_confidence p)"
  shows "(if continued_relationship p c = HR_WEAKENED then HS_WEAKENING
      else if fle (lit (7 / 10)) c then HS_CONFIRMED else HS_ACTIVE) \<in> allowed_transitions (am_hypothesis_status p) \<longleftrightarrow>
    \<not> closed_status (am_hypothesis_status p)"
proof -
  obtain x y where xy: "c = Fin x" "am_current_confidence p = Fin y" using assms by (auto elim!: unit_floatE)
  have cmp: "fle (lit (7 / 10)) c \<or> flt c (lit (7 / 10))" using not_fle_iff[of "lit (7 / 10)" c] xy by auto
  have f: "is_f64 (Fin (1 / 16))" by (rule is_f64_of_rnd) (use rnd_dyadic[of 1 4] in simp)
  obtain l where l: "lit (1 / 10) = Fin l" "1 / 16 \<le> l"
    by (rule rnd_between[OF _ _ f is_f64_01(2), of "1 / 10"]) simp_all
  have "\<not> fle (lit (1 / 10)) (fsub c (am_current_confidence p))"
    if "flt c (lit (7 / 10))" "fle (lit (7 / 10)) (am_current_confidence p)"
  proof -
    have "x - y \<le> 0" using that xy by (cases "lit (7 / 10)") auto
    then have "fle (rnd (x - y)) (Fin 0)" by (rule rnd_nonpos)
    then show ?thesis using xy l by (cases "rnd (x - y)") (auto simp: fsub_def)
  qed
  then show ?thesis using cmp assms(3)
    by (cases "am_hypothesis_status p") (auto simp: continued_relationship_def Let_def closed_status_def)
qed

lemma continued_keeps: "continued_relationship p c \<noteq> HR_NEW" "continued_relationship p c \<noteq> HR_REVERSED"
  by (simp_all add: continued_relationship_def Let_def)

text \<open>The memory refuses what the specialist would write: the only failure there is.\<close>

definition lifecycle_refused :: "specialist_digests \<Rightarrow> specialist_class \<Rightarrow> agent_input \<Rightarrow> bool" where
  "lifecycle_refused D A i \<longleftrightarrow>
     (let usable = usable_results i; obs = observations_of usable in
      usable \<noteq> [] \<and>
      opt_some (\<lambda>p. case terminal_fact obs of
          Some f \<Rightarrow> terminal_status f \<notin> allowed_transitions (am_hypothesis_status p)
        | None \<Rightarrow> (case sk_interpret A obs usable of
            Inl _ \<Rightarrow> False
          | Inr g \<Rightarrow> rg_status g \<noteq> AS_ABSTAINED \<and>
              hypothesis_identity D A (rg_hypothesis g) (rg_direction g) = am_hypothesis_id p \<and>
              closed_status (am_hypothesis_status p))) (ai_previous_memory i))"

subsection \<open>The contract of a reading\<close>

locale specialist_contract =
  fixes A :: specialist_class
  assumes named: "sk_name A \<noteq> []" "sk_version A \<noteq> []"
    and fallback: "1 \<le> length (sk_unavailable A)" "length (sk_unavailable A) \<le> 200"
    and reads: "readable_observations obs \<Longrightarrow> \<exists>g. sk_interpret A obs usable = Inr g \<and> reading_ok g"
begin

lemma abstains:
  assumes w: "well_fed h A i" and hyp: "1 \<le> length hyp" "length hyp \<le> 200"
  shows "is_ok (abstain D A i hyp reason)"
proof -
  let ?e = "abstention_record D A i hyp reason"
  have p: "opt_all memory_ok (ai_previous_memory i)" using w by (auto simp: well_fed_def opt_all_def split: option.splits)
  have av: "ae_available_at ?e \<le> ai_as_of i"
  proof -
    have "fold max ts t \<le> ai_as_of i" if "\<forall>u \<in> set (t # ts). u \<le> ai_as_of i" for t ts
      using latest_le[of "t # ts" "ai_as_of i"] that by auto
    then show ?thesis using well_fed_input(3)[OF w]
      by (cases "ai_tool_results i") (auto simp: abstention_record_def Let_def)
  qed
  have f: "list_all fst (evidence_fields ?e)"
    using p named hyp well_fed_input(1)[OF w]
    by (cases "ai_previous_memory i") (auto simp: evidence_fields_def abstention_record_def Let_def nonempty_def
        memory_ok_def memory_rules_def hypothesis_identity_def)
  obtain e k where e: "mk_agent_evidence (sg_evidence D) ?e = Inr e" "e = ?e\<lparr>ae_id := k\<rparr>" "evidence_ok e"
    by (rule mk_evidence_ok[of ?e "sg_evidence D"])
      (use f av in \<open>auto simp: abstention_record_def Let_def evidence_numeric_rules_def evidence_relationship_rules_def
        evidence_status_rules_def no_invalidation_def feq_def\<close>)
  have v: "validate_agent_output i e = Inr ()"
    by (rule output_accepted[OF w]) (use e(2) av in \<open>auto simp: abstention_record_def Let_def\<close>)
  show ?thesis
  proof (cases "ai_previous_memory i")
    case None
    then have "ae_relationship e = HR_NEW" using e(2) by (simp add: abstention_record_def Let_def)
    then obtain m where "transition_memory (sg_memory D) None e = Inr m" using first_memory[OF e(3)] by blast
    then show ?thesis using e(1) v None by (simp add: abstain_def)
  qed (use e(1) v in \<open>simp add: abstain_def\<close>)
qed

lemma terminates:
  assumes w: "well_fed h A i" and p: "ai_previous_memory i = Some p"
    and f: "terminal_fact (observations_of (usable_results i)) = Some f"
  shows "is_ok (terminate D A i p f) \<longleftrightarrow> terminal_status f \<in> allowed_transitions (am_hypothesis_status p)"
proof -
  have mem: "f \<in> set (observations_of (usable_results i))"
    using f by (auto simp: terminal_fact_def find_Some_iff)
  have ok: "memory_ok p" "am_agent_name p = sk_name A" "am_updated_at p \<le> ai_as_of i"
    using w p by (auto simp: well_fed_def)
  obtain q where q: "evidence_quality_of (ai_tool_results i) = Inr q" "unit_float q"
    using quality_unit w by (auto simp: well_fed_def)
  obtain cs where "res_map (\<lambda>f. fact_reference f CONTRADICTS (Fin 1)) [f] = Inr cs"
    by (rule references_ok[OF w, of "[f]" "Fin 1" CONTRADICTS]) (use mem in auto)
  then obtain c where c: "fact_reference f CONTRADICTS (Fin 1) = Inr c" by (auto simp: res_bind_Inr_iff)
  have inv: "mk_hypothesis_invalidation (closing_invalidation f) = Inr (closing_invalidation f)"
    by (simp add: mk_hypothesis_invalidation_def closing_invalidation_def Let_def validate.simps)
  let ?e = "closing_record A i p f q c (closing_invalidation f)"
  have av: "tr_available_at (of_result f) \<le> ai_as_of i"
    using well_fed_input(3)[OF w] usable_mem mem by (simp add: observation_mem)
  have fld: "list_all fst (evidence_fields ?e)"
    using ok named q(2) well_fed_input(1)[OF w]
    by (auto simp: evidence_fields_def closing_record_def Let_def nonempty_def memory_ok_def memory_rules_def)
  have num: "list_all fst (evidence_numeric_rules ?e)"
    using av q(2) by (auto simp: evidence_numeric_rules_def closing_record_def Let_def rnd_eval elim!: unit_floatE)
  obtain e k where e: "mk_agent_evidence (sg_evidence D) ?e = Inr e" "e = ?e\<lparr>ae_id := k\<rparr>" "evidence_ok e"
    by (rule mk_evidence_ok[of ?e "sg_evidence D"])
      (use fld num in \<open>auto simp: closing_record_def Let_def evidence_relationship_rules_def
        evidence_status_rules_def closing_invalidation_def list_ex_iff reference_from_result_def\<close>)
  have v: "validate_agent_output i e = Inr ()"
    by (rule output_accepted[OF w]) (use e(2) av mem c in \<open>auto simp: closing_record_def Let_def\<close>)
  have "list_all fst (continuation_rules p e) \<longleftrightarrow> terminal_status f \<in> allowed_transitions (am_hypothesis_status p)"
    using ok e(2) by (simp add: continuation_rules_def closing_record_def Let_def starts_new_def reverses_def
        terminal_status_def)
  then have "is_ok (transition_memory (sg_memory D) (Some p) e) \<longleftrightarrow>
      terminal_status f \<in> allowed_transitions (am_hypothesis_status p)"
    using transition_ok_iff[OF ok(1) e(3)] by simp
  then show ?thesis using q(1) c inv e(1) v by (auto simp: terminate_def is_ok_iff res_bind_Inr_iff)
qed

lemma concludes:
  assumes w: "well_fed h A i" and usable: "usable_results i \<noteq> []" and g: "reading_ok g" "rg_status g \<noteq> AS_ABSTAINED"
  shows "is_ok (conclude D A i (observations_of (usable_results i)) g) \<longleftrightarrow>
    \<not> opt_some (\<lambda>p. hypothesis_identity D A (rg_hypothesis g) (rg_direction g) = am_hypothesis_id p \<and>
        closed_status (am_hypothesis_status p)) (ai_previous_memory i)"
proof -
  let ?obs = "observations_of (usable_results i)"
  let ?hid = "hypothesis_identity D A (rg_hypothesis g) (rg_direction g)"
  obtain q where q: "evidence_quality_of (ai_tool_results i) = Inr q" "unit_float q"
    using quality_unit w by (auto simp: well_fed_def)
  have g': "unit_float (rg_confidence g)" using g(1) by (simp add: reading_ok_def)
  note conf = bounded_confidence[OF g' q(2)]
  define degraded where "degraded \<longleftrightarrow> rg_status g = AS_DEGRADED \<or>
    list_ex (\<lambda>r. tr_status r \<noteq> TS_AVAILABLE) (ai_tool_results i)"
  define c where "c = (if degraded then pymin (pymin (fmul (rg_confidence g) q) q) (lit (1 / 2))
    else pymin (fmul (rg_confidence g) q) q)"
  have c: "unit_float c" "\<not> flt q c" "degraded \<Longrightarrow> \<not> flt (lit (1 / 2)) c" using conf by (auto simp: c_def)
  obtain sup where sup: "res_map (\<lambda>f. fact_reference f SUPPORTS (lit (7 / 10)))
      (filter (\<lambda>f. of_name f \<in> rg_supports g) ?obs) = Inr sup"
    by (rule references_ok[OF w, of "filter (\<lambda>f. of_name f \<in> rg_supports g) ?obs" "lit (7 / 10)" SUPPORTS])
      (auto intro!: unit_lit)
  obtain con where con: "res_map (\<lambda>f. fact_reference f CONTRADICTS (lit (6 / 10)))
      (filter (\<lambda>f. of_name f \<in> rg_contradicts g) ?obs) = Inr con"
    by (rule references_ok[OF w, of "filter (\<lambda>f. of_name f \<in> rg_contradicts g) ?obs" "lit (6 / 10)" CONTRADICTS])
      (auto intro!: unit_lit)
  have times: "\<forall>t \<in> set (map (\<lambda>f. tr_available_at (of_result f)) ?obs). t \<le> ai_as_of i"
    using well_fed_input(3)[OF w] usable_mem by (auto simp: observation_mem)
  have "?obs \<noteq> []" using w usable by (simp add: well_fed_def)
  then obtain av where av: "latest (map (\<lambda>f. tr_available_at (of_result f)) ?obs) = Inr av" "av \<le> ai_as_of i"
    using latest_le[OF times] by auto
  let ?e = "observation_record D A i g (if degraded then AS_DEGRADED else AS_READY) c q ?obs sup con av"
  have fld: "list_all fst (evidence_fields ?e)"
    using g(1) named q(2) c(1) complement_unit[OF c(1)] well_fed_input(1)[OF w]
    by (simp add: evidence_fields_def observation_record_def Let_def nonempty_def reading_ok_def split_beta
        hypothesis_identity_def)
  have num: "list_all fst (evidence_numeric_rules ?e)"
    using av(2) c by (simp add: evidence_numeric_rules_def observation_record_def Let_def split_beta)
  have rel: "list_all fst (evidence_relationship_rules ?e)"
    by (cases "ai_previous_memory i") (auto simp: evidence_relationship_rules_def observation_record_def Let_def
        relationship_of_def continued_relationship_def)
  have sta: "list_all fst (evidence_status_rules ?e)"
    by (cases "ai_previous_memory i") (auto simp: evidence_status_rules_def observation_record_def Let_def
        relationship_of_def continued_relationship_def no_invalidation_def degraded_def list_ex_iff
        reference_from_result_def)
  have "ae_id ?e = []" by (simp add: observation_record_def Let_def split_beta)
  from mk_evidence_ok[OF this fld num rel sta] obtain e k where
    e: "mk_agent_evidence (sg_evidence D) ?e = Inr e" "e = ?e\<lparr>ae_id := k\<rparr>" "evidence_ok e" by blast
  have v: "validate_agent_output i e = Inr ()"
  proof (rule output_accepted[OF w])
    fix x assume "x \<in> set (ae_evidence_for e @ ae_evidence_against e)"
    then have "x \<in> set sup \<union> set con" using e(2) by (simp add: observation_record_def Let_def split_beta)
    then show "\<exists>f pol w. f \<in> set ?obs \<and> fact_reference f pol w = Inr x"
      using res_map_mem[OF sup, of x] res_map_mem[OF con, of x] by auto
  qed (use e(2) av(2) in \<open>simp_all add: observation_record_def Let_def split_beta\<close>)
  have run: "is_ok (conclude D A i ?obs g) \<longleftrightarrow> is_ok (transition_memory (sg_memory D) (ai_previous_memory i) e)"
    using q(1) sup con av(1) e(1) v
    by (simp add: conclude_def observed_evidence_def Let_def degraded_def[symmetric] c_def[symmetric] is_ok_iff
        res_bind_Inr_iff cong: if_cong)
  show ?thesis
  proof (cases "ai_previous_memory i")
    case None
    then have "ae_relationship e = HR_NEW"
      using e(2) by (simp add: observation_record_def Let_def relationship_of_def)
    then obtain m where "transition_memory (sg_memory D) None e = Inr m" using first_memory[OF e(3)] by blast
    then show ?thesis using run None by simp
  next
    case (Some p)
    let ?rel = "continued_relationship p c"
    have ok: "memory_ok p" "am_agent_name p = sk_name A" "am_updated_at p \<le> ai_as_of i"
      "am_hypothesis_status p = HS_CONFIRMED \<Longrightarrow> fle (lit (7 / 10)) (am_current_confidence p)"
      using w Some by (auto simp: well_fed_def)
    have u: "unit_float (am_current_confidence p)" using ok(1) by (simp add: memory_ok_def memory_rules_def)
    have ids: "ae_agent_name e = sk_name A" "ae_as_of e = ai_as_of i" "ae_hypothesis_id e = ?hid"
      "ae_previous_hypothesis_id e = Some (am_hypothesis_id p)"
      "?hid \<noteq> am_hypothesis_id p \<Longrightarrow> ae_relationship e = HR_REVERSED"
      "?hid = am_hypothesis_id p \<Longrightarrow> ae_relationship e = ?rel"
      "?hid = am_hypothesis_id p \<Longrightarrow> ae_hypothesis_status e =
        (if ?rel = HR_WEAKENED then HS_WEAKENING else if fle (lit (7 / 10)) c then HS_CONFIRMED else HS_ACTIVE)"
      using e(2) Some by (simp_all add: observation_record_def Let_def relationship_of_def split_beta)
    have "list_all fst (continuation_rules p e) \<longleftrightarrow> \<not> (?hid = am_hypothesis_id p \<and> closed_status (am_hypothesis_status p))"
    proof (cases "?hid = am_hypothesis_id p")
      case True
      then show ?thesis using ok(2,3) ids continued_keeps[of p c] continued_allowed[OF c(1) u ok(4)]
        by (simp add: continuation_rules_def starts_new_def reverses_def)
    qed (use ok(2,3) ids in \<open>simp add: continuation_rules_def starts_new_def reverses_def\<close>)
    then show ?thesis using run Some transition_ok_iff[OF ok(1) e(3), of "sg_memory D"] by simp
  qed
qed

lemma observes:
  assumes w: "well_fed h A i"
  shows "is_ok (specialist_observe D A i) \<longleftrightarrow> \<not> lifecycle_refused D A i"
proof -
  let ?u = "usable_results i" let ?obs = "observations_of ?u"
  have access: "validate_access A i = Inr ()"
    using w by (auto simp: validate_access_def well_fed_def list_all_iff filter_empty_conv)
  obtain g where g: "sk_interpret A ?obs ?u = Inr g" "reading_ok g"
    using reads[OF well_fed_readable[OF w]] by blast
  have hyp: "1 \<le> length (rg_hypothesis g)" "length (rg_hypothesis g) \<le> 200" using g(2) by (simp_all add: reading_ok_def)
  show ?thesis
  proof (cases "?u = []")
    case True
    then show ?thesis using abstains[OF w fallback] access
      by (auto simp: specialist_observe_def lifecycle_refused_def opt_some_def split: option.splits)
  next
    case False
    show ?thesis
    proof (cases "terminal_fact ?obs \<noteq> None \<and> ai_previous_memory i \<noteq> None")
      case True
      then obtain f p where "terminal_fact ?obs = Some f" "ai_previous_memory i = Some p" by auto
      then show ?thesis using False access terminates[OF w] by (simp add: specialist_observe_def lifecycle_refused_def)
    next
      case live: False
      then have run: "is_ok (specialist_observe D A i) \<longleftrightarrow> (if rg_status g = AS_ABSTAINED
          then is_ok (abstain D A i (rg_hypothesis g)
            (case rg_abstention g of None \<Rightarrow> NO_MEANINGFUL_HYPOTHESIS | Some r \<Rightarrow> r))
          else is_ok (conclude D A i ?obs g))"
        using False access g(1) by (auto simp: specialist_observe_def Let_def split: option.splits)
      show ?thesis
        using run live False g(1) abstains[OF w hyp] concludes[OF w False g(2)]
        by (auto simp: lifecycle_refused_def opt_some_iff Let_def split: option.splits)
    qed
  qed
qed

end

subsection \<open>The readings of readable facts\<close>

lemma fact_readable: "readable_observations obs \<Longrightarrow> fact_of obs name = Some v \<Longrightarrow> readable v"
  by (auto simp: readable_observations_def list_all_iff fact_of_def dest!: map_of_SomeD)

lemma numeric_readable: "readable_observations obs \<Longrightarrow> \<exists>v. numeric_fact obs name = Inr v"
proof (cases "fact_of obs name")
  case (Some v)
  assume "readable_observations obs"
  with Some have r: "readable v" by (rule fact_readable[rotated])
  show ?thesis
  proof (cases v)
    case (FInt n)
    then show ?thesis using Some r rnd_of_int[of n] by (simp add: numeric_fact_def float_of_int_def)
  qed (simp_all add: numeric_fact_def Some)
qed (simp add: numeric_fact_def)

lemma nat_text_length: "n < 10 ^ Suc k \<Longrightarrow> length (nat_text n) \<le> Suc k"
proof (induction k arbitrary: n)
  case (Suc k)
  then have "n div 10 < 10 ^ Suc k" by (simp add: less_mult_imp_div_less)
  from Suc.IH[OF this] show ?case by (subst nat_text.simps) simp
qed (simp add: nat_text.simps)

lemma digit_count_length: "digit_count s \<le> length s"
  by (simp add: digit_count_def)

lemma short_int_text: "\<bar>n\<bar> < 2 ^ 53 \<Longrightarrow> digit_count (int_text n) \<le> 4300"
proof -
  assume "\<bar>n\<bar> < 2 ^ 53"
  then have "length (nat_text (nat \<bar>n\<bar>)) \<le> 17" using nat_text_length[of "nat \<bar>n\<bar>" 16] by simp
  then have "length (int_text n) \<le> 18" by (cases "n < 0") (simp_all add: int_text_def)
  then show ?thesis using digit_count_length[of "int_text n"] by simp
qed

lemma lowered_readable: "readable_observations obs \<Longrightarrow> \<exists>v. lowered_fact obs name = Inr v"
proof (cases "fact_of obs name")
  case (Some v)
  assume "readable_observations obs"
  with Some have r: "readable v" by (rule fact_readable[rotated])
  then show ?thesis using Some short_int_text by (cases v) (simp_all add: lowered_fact_def)
qed (simp add: lowered_fact_def)

text \<open>A confidence is capped, so even a score that is not a number leaves it in the unit interval.\<close>

lemma unit_pymin: "unit_float c \<Longrightarrow> is_f64 x \<Longrightarrow> \<not> flt x (Fin 0) \<Longrightarrow> unit_float (pymin c x)"
  by (cases x) (auto simp: pymin_def elim!: unit_floatE)

lemma scaled_nonneg: "0 \<le> b \<Longrightarrow> \<not> flt (fmul (fabs s) (Fin b)) (Fin 0)"
  by (cases s) (auto simp: inf_of_sign_def intro!: fle_not_flt rnd_nonneg)

lemma raised_nonneg: "0 \<le> a \<Longrightarrow> \<not> flt x (Fin 0) \<Longrightarrow> \<not> flt (fadd (Fin a) x) (Fin 0)"
  by (cases x) (auto intro!: fle_not_flt rnd_nonneg)

lemma capped_unit:
  assumes "0 \<le> a" "a \<le> 1" "0 \<le> b" "b \<le> 1" "0 \<le> c" "c \<le> 1"
  shows "unit_float (pymin (lit c) (fadd (lit a) (fmul (fabs s) (lit b))))"
proof -
  obtain x where x: "lit a = Fin x" "0 \<le> x" using unit_lit[OF assms(1,2)] by (auto elim!: unit_floatE)
  obtain y where y: "lit b = Fin y" "0 \<le> y" using unit_lit[OF assms(3,4)] by (auto elim!: unit_floatE)
  have "is_f64 (fadd (lit a) (fmul (fabs s) (lit b)))" by (simp only: is_f64_fadd is_f64_rnd is_f64_fmul)
  then show ?thesis
    using unit_pymin[OF unit_lit[OF assms(5,6)]] raised_nonneg[OF x(2) scaled_nonneg[OF y(2)]] x y by metis
qed

lemma chart_reads: "readable_observations obs \<Longrightarrow> \<exists>g. chart_reading obs usable = Inr g \<and> reading_ok g"
proof -
  assume r: "readable_observations obs"
  let ?entry = "\<lambda>(name, w). res_bind (numeric_fact obs name) (\<lambda>v. Inr (signed_entry name v w))"
  have "\<exists>y. ?entry e = Inr y \<and> True" for e
    using numeric_readable[OF r, of "fst e"] by (auto simp: split_beta)
  then have "\<exists>ds. res_map ?entry chart_weights = Inr ds \<and> (\<forall>d \<in> set ds. True)" by (intro res_map_ok) simp
  then obtain d where "chart_signed obs = Inr d" by (auto simp: chart_signed_def)
  then show ?thesis by (simp add: chart_reading_def Let_def reading_ok_def capped_unit unit_lit)
qed

lemma quant_reads: "readable_observations obs \<Longrightarrow> \<exists>g. quant_reading obs usable = Inr g \<and> reading_ok g"
proof -
  assume r: "readable_observations obs"
  have "reading_ok (quant_conclusion obs rsi z d)" for rsi z d
    by (simp add: quant_conclusion_def Let_def reading_ok_def capped_unit unit_lit)
  moreover obtain g rsi z d where "quant_reading obs usable = Inr (quant_conclusion obs rsi z d)"
  proof -
    note n = numeric_readable[OF r]
    show thesis
      using n[of "''trend_close_to_ema_20''"] n[of "''trend_plus_di_14''"] n[of "''trend_minus_di_14''"]
        n[of "''momentum_macd_hist_12_26_9''"] n[of "''momentum_rsi_14''"] n[of "''class_probability_up''"]
        n[of "''class_probability_down''"] n[of "''statistics_zscore_20''"] that
      by (elim exE) (simp add: quant_reading_def)
  qed
  ultimately show ?thesis by metis
qed

lemma historical_reads: "readable_observations obs \<Longrightarrow> \<exists>g. historical_reading obs usable = Inr g \<and> reading_ok g"
proof (cases "sample_size usable < 30")
  case False
  assume r: "readable_observations obs"
  have ok: "reading_ok (historical_conclusion obs s up k)" for s up k
  proof -
    have "unit_float (pymin (lit (75 / 100)) (fmul s (lit (7 / 10))))" if "\<not> flt s (lit (6 / 10))"
    proof -
      obtain x y where "lit (6 / 10) = Fin x" "0 \<le> x" "lit (7 / 10) = Fin y" "0 \<le> y"
        using unit_lit[of "6 / 10"] unit_lit[of "7 / 10"] by (auto elim!: unit_floatE)
      then have "\<not> flt (fmul s (lit (7 / 10))) (Fin 0)"
        using that by (cases s) (auto simp: inf_of_sign_def intro!: fle_not_flt rnd_nonneg)
      then show ?thesis by (intro unit_pymin unit_lit) simp_all
    qed
    then show ?thesis by (auto simp: historical_conclusion_def Let_def reading_ok_def unit_lit)
  qed
  note n = numeric_readable[OF r]
  show ?thesis
    using n[of "''similarity_score''"] n[of "''forward_up_rate''"] n[of "''forward_return_mean''"] False
    by (elim exE) (simp add: historical_reading_def ok)
qed (simp add: historical_reading_def reading_ok_def unit_lit)

lemma regime_reads: "readable_observations obs \<Longrightarrow> \<exists>g. regime_reading obs usable = Inr g \<and> reading_ok g"
proof -
  assume r: "readable_observations obs"
  note n = numeric_readable[OF r]
  show ?thesis
    using n[of "''trend_adx_14''"] n[of "''statistics_efficiency_ratio_20''"] n[of "''volatility_expansion''"]
    by (elim exE) (simp add: regime_reading_def reading_ok_def unit_lit)
qed

lemma news_reads: "readable_observations obs \<Longrightarrow> \<exists>g. news_reading obs usable = Inr g \<and> reading_ok g"
proof -
  assume r: "readable_observations obs"
  note n = lowered_readable[OF r]
  show ?thesis
    using n[of "''event_risk_level''"] n[of "''usd_pressure_context''"]
    by (elim exE) (simp add: news_reading_def news_hypothesis_def reading_ok_def unit_lit)
qed

subsection \<open>The five specialists keep the contract\<close>

interpretation chart: specialist_contract chart_agent
  by unfold_locales (simp_all add: chart_agent_def chart_reads)

interpretation quant: specialist_contract quant_agent
  by unfold_locales (simp_all add: quant_agent_def quant_reads)

interpretation historical: specialist_contract historical_agent
  by unfold_locales (simp_all add: historical_agent_def historical_reads)

interpretation regime: specialist_contract regime_agent
  by unfold_locales (simp_all add: regime_agent_def regime_reads)

interpretation news: specialist_contract news_agent
  by unfold_locales (simp_all add: news_agent_def news_reads)

text \<open>A stored news hypothesis and an input with one fresh fact.\<close>

definition news_memory :: "hypothesis_status \<Rightarrow> agent_memory" where
  "news_memory status =
     \<lparr>am_id = ''am-'', am_agent_name = ''news'', am_agent_version = ''1.0.0'', am_hypothesis_id = ''hyp-'',
      am_current_hypothesis = ''NORMAL_EVENT_RISK'', am_previous_hypothesis = None, am_current_confidence = Fin (1 / 2),
      am_previous_confidence = None, am_running_uncertainty = Fin (1 / 2), am_hypothesis_status = status,
      am_relationship = HR_UNCHANGED, am_began_at = 0, am_updated_at = 0, am_history = [],
      am_invalidation = no_invalidation, am_recent_tool_requests = [], am_previous_evidence_id = None,
      am_latest_evidence_id = ''ev-'', am_confirmation_count = 0, am_setup_id = None, am_thesis_id = None\<rparr>"

definition context_result :: "string \<Rightarrow> fact_scalar \<Rightarrow> tool_result" where
  "context_result name value =
     \<lparr>tr_id = ''tr-1'', tr_tool_name = ''calendar'', tr_tool_version = ''1'', tr_category = TC_SLOW_CONTEXT,
      tr_as_of = 1, tr_available_at = 1, tr_runtime_state_id = ''rs'', tr_input_snapshot_id = ''rs'',
      tr_freshness = FS_AVAILABLE, tr_status = TS_AVAILABLE,
      tr_facts = [\<lparr>tf_name = name, tf_value = value, tf_unit = None\<rparr>],
      tr_quality = \<lparr>tq_valid = True, tq_sample_size = None, tq_missing_fields = [], tq_notes = []\<rparr>,
      tr_warnings = [], tr_provenance = []\<rparr>"

definition news_input :: "string \<Rightarrow> fact_scalar \<Rightarrow> hypothesis_status \<Rightarrow> agent_input" where
  "news_input name value status =
     \<lparr>ai_id = ''ai-'', ai_runtime_state_id = ''rs'', ai_feature_snapshot_id = None, ai_as_of = 1,
      ai_tool_results = [context_result name value], ai_previous_memory = Some (news_memory status),
      ai_setup_id = None, ai_thesis_id = None, ai_reasoning_budget = None\<rparr>"

definition blank_digests :: specialist_digests where
  "blank_digests = \<lparr>sg_hypothesis = \<lambda>_. [], sg_evidence = \<lambda>_. [], sg_memory = \<lambda>_. []\<rparr>"

lemma news_well_fed:
  assumes "name \<noteq> []" "readable value" "status \<noteq> HS_CONFIRMED" "status \<noteq> HS_INVALIDATED"
  shows "well_fed (\<lambda>_. []) news_agent (news_input name value status)"
proof -
  let ?i = "news_input name value status"
  have "mk_agent_input (\<lambda>_. []) ?i = Inr ?i"
    by (simp add: mk_agent_input_def news_input_def context_result_def tool_result_rules_def validate.simps nonempty_def
        bind_identity_def content_id_def Let_def)
  moreover have "usable_results ?i = [context_result name value]"
    by (simp add: usable_results_def news_input_def context_result_def)
  moreover have "memory_ok (news_memory status)"
    using assms(4) by (simp add: memory_ok_def memory_rules_def news_memory_def nonempty_def unit_float_def)
  ultimately show ?thesis
    using assms by (simp add: well_fed_def news_input_def context_result_def readable_result_def observations_of_def
        news_agent_def news_memory_def)
qed

lemma news_refused:
  "lifecycle_refused blank_digests news_agent (news_input ''note'' (FStr ''calm'') status) \<longleftrightarrow> closed_status status"
proof -
  let ?i = "news_input ''note'' (FStr ''calm'') status"
  let ?f = "\<lparr>of_result = context_result ''note'' (FStr ''calm''), of_name = ''note'', of_value = FStr ''calm''\<rparr>"
  have u: "usable_results ?i = [context_result ''note'' (FStr ''calm'')]"
    by (simp add: usable_results_def news_input_def context_result_def)
  have o: "observations_of [context_result ''note'' (FStr ''calm'')] = [?f]"
    by (simp add: observations_of_def context_result_def)
  obtain g where g: "news_reading [?f] [context_result ''note'' (FStr ''calm'')] = Inr g" "rg_status g = AS_READY"
    by (simp add: news_reading_def context_result_def news_hypothesis_def lowered_fact_def fact_of_def)
  then show ?thesis
    by (simp add: lifecycle_refused_def u o terminal_fact_def news_agent_def hypothesis_identity_def blank_digests_def)
      (simp add: news_input_def news_memory_def)
qed

text \<open>C23. Whatever one of the five built-in specialists returns meets the kernel's contract for specialists: valid
  evidence in its own name, bound to the state, the time and exactly the tool results of its input, and accepted
  by the output check. Every cited fact is a fact, with its value, of a usable result (fresh or stale, valid).
  A direction always rests on at least one cited supporting fact, and regime and news never give one. The new
  memory is the previous one with an abstention, or the evidence's own transition of it.
\<close>

theorem specialist_output_grounded:
  assumes "A \<in> built_in" "specialist_observe D A i = Inr (e, m)"
  shows "evidence_ok e \<and> validate_agent_output i e = Inr () \<and> ae_agent_name e = sk_name A \<and>
     ae_runtime_state_id e = ai_runtime_state_id i \<and> ae_as_of e = ai_as_of i \<and>
     ae_tool_inputs e = map reference_from_result (ai_tool_results i) \<and> cites_usable i e \<and>
     (ae_direction e \<in> {Some BULLISH, Some BEARISH} \<longrightarrow> ae_evidence_for e \<noteq> []) \<and>
     (A \<in> {regime_agent, news_agent} \<longrightarrow> ae_direction e = None) \<and>
     (ae_status e = AS_ABSTAINED \<and> ai_previous_memory i = Some m \<or>
      transition_memory (sg_memory D) (ai_previous_memory i) e = Inr m)"
  using assms(2)
proof (cases rule: specialist_observe_cases)
  case (abstained hyp reason)
  note a = abstain_Inr[OF abstained]
  then show ?thesis by (auto simp: emitted_by_def cites_usable_def split: option.splits)
next
  case (terminated p f)
  note t = terminate_Inr[OF terminated(3)]
  have f: "f \<in> set (observations_of (usable_results i))"
    using terminated(2) by (auto simp: terminal_fact_def find_Some_iff)
  obtain c where c: "ae_evidence_against e = [c]" "fact_reference f CONTRADICTS (Fin 1) = Inr c" using t(5) by blast
  have "cites_usable i e" using reference_usable[OF c(2) f] c(1) t(4) by (simp add: cites_usable_def)
  then show ?thesis using t terminated(1) by (simp add: emitted_by_def)
next
  case (concluded g)
  note c = conclude_Inr[OF concluded(5)]
  note s = built_in_supported[OF assms(1) concluded(2)]
  have "ae_direction e \<in> {Some BULLISH, Some BEARISH} \<longrightarrow> ae_evidence_for e \<noteq> []"
    using conclude_supported[OF concluded(5) s(1)] by (auto simp: directional_def)
  then show ?thesis using c(1-3) s(2) conclude_cites[OF concluded(5)] by (simp add: emitted_by_def)
qed

theorem specialist_output_grounded_witness:
  "\<exists>e m. specialist_observe blank_digests news_agent (news_input ''note'' (FStr ''calm'') HS_ACTIVE) = Inr (e, m) \<and>
     evidence_ok e \<and> cites_usable (news_input ''note'' (FStr ''calm'') HS_ACTIVE) e \<and> ae_direction e = None"
proof -
  let ?i = "news_input ''note'' (FStr ''calm'') HS_ACTIVE"
  have "is_ok (specialist_observe blank_digests news_agent ?i)"
    using news.observes[OF news_well_fed, of "''note''" "FStr ''calm''" HS_ACTIVE] news_refused[of HS_ACTIVE]
    by (simp add: closed_status_def)
  then obtain e m where o: "specialist_observe blank_digests news_agent ?i = Inr (e, m)" by (auto simp: is_ok_iff)
  have "news_agent \<in> built_in" by (simp add: built_in_def)
  from specialist_output_grounded[OF this o] o show ?thesis by blast
qed

text \<open>C24. On well-formed input a built-in specialist raises exactly when the lifecycle of its memory refuses: a terminal
  fact is present whose status the previous one does not admit (a hypothesis already closed the other way, or
  one that was never live), or no terminal fact is present and the reading names again the very hypothesis
  the memory holds as none, abstained, invalidated or expired. In every other case it returns evidence and memory;
  in particular missing, stale or failed tools, contradictory facts and infinite or undefined scores never raise.
\<close>

theorem specialist_raises_iff:
  assumes "A \<in> built_in" "well_fed h A i"
  shows "(\<exists>err. specialist_observe D A i = Inl err) \<longleftrightarrow> lifecycle_refused D A i"
proof -
  have "is_ok (specialist_observe D A i) \<longleftrightarrow> \<not> lifecycle_refused D A i"
    using assms chart.observes quant.observes historical.observes regime.observes news.observes
    by (auto simp: built_in_def)
  then show ?thesis by (cases "specialist_observe D A i") (auto simp: is_ok_iff)
qed

theorem specialist_raises_iff_witness:
  "\<exists>err. specialist_observe blank_digests news_agent (news_input ''note'' (FStr ''calm'') HS_EXPIRED) = Inl err"
proof -
  have "news_agent \<in> built_in" by (simp add: built_in_def)
  from specialist_raises_iff[OF this news_well_fed, of "''note''" "FStr ''calm''" HS_EXPIRED blank_digests]
  show ?thesis by (simp add: news_refused closed_status_def)
qed

end
