(* ===== verification/Spec2Isabelle.thy ===== *)
theory Spec2Isabelle
  imports Orchestrator Splits Reducer MT5Entry MT5Snapshot SpecialistTotality
begin

text \<open>
  Verification library of the adaptive XAUUSD trading system (\<open>src/src/axq\<close>, Python).

  THE PROGRAM. Events from the market and the broker are reduced to one immutable runtime state. For every
  event five specialists read tool facts and produce evidence; a fusion step forms the Master proposal; the
  discipline guard and the risk boundary veto or approve it; an approved proposal becomes an execution intent
  and, in DEMO mode only, is sent to MetaTrader 5 through an adapter over a durable ledger. Open positions go
  through management, action safety and a second adapter. Every step is journaled; a journal can be replayed.
  The runtime service owns the order of all this, reconciles the ledgers with the broker and gates every
  mutation. A separate offline part builds datasets and trains models.

  CONVENTIONS. A pydantic contract is a record with a list of rules, \<open>validate\<close> raises the error of the first
  rule that fails, and \<open>mk_...\<close> is its constructor; \<open>Inl\<close> is an exception and \<open>Inr\<close> a result. Every contract
  identifier is a digest of its canonical content, a parameter \<open>h\<close> of the definitions: \<open>content_addressed\<close> is
  the locale of what the code relies on, interpreted for every contract. Times are integers of microseconds
  since the epoch (\<open>dt\<close>), within the range of Python's datetime. Floats are IEEE binary64 values over exact
  rationals, rounded half to even (PyFloat); decimals of 28 digits are in PyDecimal, dynamic values of the
  broker package in PyValue. Methods with effects are functions \<open>'s \<Rightarrow> 'a res \<times> 's\<close> that keep the state
  of a method that raised. Whatever the source receives as a callable or protocol (clock, gateway, snapshot
  provider, context providers, specialists) is a function on an arbitrary world. Ghost logs, which no
  operation reads, record the calls whose number and order matter.

  THE THEORIES, in the order of the data flow.
  Prelude: results, validation, effects, dictionaries, lists; Versioning (\<open>versioning.py\<close>): content identifiers.
  RuntimeState, RuntimeEvents, Reducer (\<open>runtime/state.py\<close>, \<open>clock.py\<close>, \<open>events.py\<close>, \<open>reducer.py\<close>): state
  contracts, event envelope, and the reducer with its order guards, invariant and exact acceptance condition.
  AgentContracts, AgentMemory (\<open>agents/contracts.py\<close>, \<open>base.py\<close>, \<open>state.py\<close>): evidence, memory, the lifecycle of a
  hypothesis and the check of a specialist's output against its input.
  ToolCatalog (\<open>tools/\<close>): facts, feature snapshots, the fact tools and the catalog.
  Scenarios (\<open>agents/scenarios.py\<close>): theses and scenarios as a state machine with reachability and invariants.
  Fusion (\<open>master/\<close>): the Master proposal, when fusion raises, its decision, its symmetry.
  Discipline (\<open>discipline/\<close>): the behavioural rules as one predicate and the honesty of refusals.
  RiskSizing, RiskBoundary (\<open>risk.py\<close>, \<open>risk_boundary/\<close>): the sizing in binary64 and the approval.
  ExecutionContracts, ExecutionAdapter, ExecutionLedger (\<open>execution_boundary/\<close>): intents, the adapter over any
  ledger that meets the locale of ledgers (interpreted for the in-memory and the SQLite ledger), at most one
  submission per intent, the append-only ledger and its chain of reports.
  Reconciliation, Readiness (\<open>execution_boundary/\<close>): exact linkage with the broker, refresh events, checkpoint,
  feedback, and whether the program may resume.
  PositionManagement, PositionActions, PositionTransport (\<open>position_management/\<close>, \<open>position_actions/\<close>): what to do
  with an open position, whether it is safe, the ledger of its transport and its refinement to a memory map.
  MT5Gateway, TerminalLog, MT5Entry, MT5Position (\<open>mt5/\<close>): the gateway protocol, symbol resolution, and both adapters
  down to the request handed to \<open>order_send\<close>. TerminalLog records the answers of an instrumented gateway, so that
  every request can be stated together with what the terminal, the clock and the kill switch said last before it.
  MT5Time, MT5Snapshot (\<open>mt5/time_normalization.py\<close>, \<open>snapshot.py\<close>): the broker's clock offset inferred from a tick
  and kept for the session, and the normalised snapshot captured from the gateway, read for read.
  Kernel, Journal, Replay (\<open>runtime/kernel.py\<close>, \<open>journal.py\<close>, \<open>replay.py\<close>): one event through tools, specialists and
  bundle; the append-only journal; the runner, and replay of a journal through a fresh kernel.
  Specialists, SpecialistTotality (\<open>agents/_deterministic.py\<close>, \<open>chart.py\<close>, \<open>quantitative.py\<close>, \<open>historical.py\<close>,
  \<open>regime.py\<close>, \<open>news.py\<close>): the template of the five specialists and how each reads its facts; what they hand to the
  kernel, and exactly when they raise (a locale of readings, interpreted for the five). Averages: the
  compensated sum of up to \<open>2 ^ 20\<close> values between a quarter and one is exact enough for its mean to stay there.
  Decision (\<open>orchestration/contracts.py\<close>, \<open>processor.py\<close>): the chain from evidence to intents.
  Orchestrator (\<open>orchestration/service.py\<close>): the service with startup, refresh, event processing, controls and
  shutdown, and what every session of it can send.
  Splits (\<open>datasets/splits.py\<close>, \<open>quant/development/folds.py\<close>): chronological and walk-forward splits.

  WHAT THE PROPERTIES SHOW. Nothing is sent without authority: over all sessions of the service an adapter is
  called only in DEMO mode after a safe refresh, the kill switch is absorbing, entries come from an approved
  proposal, and at the terminal every request is sent once, carries the approved values and follows answers that
  showed a demo account, a tradable symbol, a fresh tick and a passed check of this request. The pure stages
  are characterised exactly (acceptance of an event, fusion, discipline, risk, position management, resume,
  reconciliation, the snapshot of the broker). A specialist speaks only from the facts it cites. The stateful parts keep their invariants along every run (runtime state, thesis, ledgers),
  refine simpler models (kernel to reducer, action ledger to a map) and survive restarts (replay, recovery,
  interrupted executions). The dataset splitters end and do not leak labels.

  BOUNDS. No fuel is used: loops are structural, or partial functions proved to return (\<open>walk_loop\<close>). That a
  specialist returns is shown for at most \<open>2 ^ 20\<close> tool results and integer facts below \<open>2 ^ 53\<close>.

  NOT MODELLED. The MetaTrader package, the features under the specialists' facts (pandas and numpy arithmetic), model training and metrics, the dashboard, the
  offline reflection, experience and retrieval stores, the shadow tooling around the service, SQL text, YAML
  and JSON encodings, wall-clock latency readings. Their interfaces to the modelled parts are parameters.
\<close>

end
